(* ===== verification/Prelude.thy ===== *)
theory Prelude
  imports Main "HOL-Library.Word" "HOL-Library.State_Monad" "HOL-Library.Char_ord"
    "HOL-Library.List_Lexorder" "HOL-Library.Multiset"
begin

text \<open>
  Shared vocabulary of the development: the Go types that every component uses (bytes, digests,
  transaction identifiers, slices that may be nil), Go errors as values with wrapping and joining,
  the standard-library functions on strings that the sources call, and a small Hoare calculus for
  programs written in the state monad. The named collections carry the component proofs:
  \<open>hoare_rules\<close> decomposes monadic programs, \<open>go_simps\<close> unfolds the standard-library functions.
\<close>

named_theorems hoare_rules \<open>introduction rules that decompose a monadic program\<close>
named_theorems go_simps \<open>unfolding of Go standard-library functions\<close>

section \<open>Machine types\<close>

type_synonym byte = "8 word"
type_synonym bytes = "8 word list"
type_synonym u16 = "16 word"
type_synonym i64 = "64 word"

text \<open>
  \<open>domain.Digest\<close> is a 32-byte array and \<open>store.TransactionID\<close> a 16-byte array. Both are fixed
  width, so they are words; the zero word is the zero value the code compares with.
\<close>

type_synonym digest = "256 word"
type_synonym transaction_id = "128 word"

text \<open>The hash function is a parameter of every definition that hashes.\<close>

type_synonym hash = "bytes \<Rightarrow> digest"

text \<open>A Go slice or pointer-like value that may be nil: \<^const>\<open>None\<close> is nil.\<close>

type_synonym 'a slice = "'a list option"

definition items :: "'a slice \<Rightarrow> 'a list" where
  "items s = (case s of None \<Rightarrow> [] | Some xs \<Rightarrow> xs)"

lemma items_simps [simp]: "items None = []" "items (Some xs) = xs"
  by (simp_all add: items_def)

section \<open>Go errors\<close>

text \<open>
  The sentinel errors of the modelled packages, \<open>fmt.Errorf\<close> with \<open>%w\<close>, \<open>errors.Join\<close>, an error of the
  SQL driver (with the result code it reports, when it reports one), \<open>sql.ErrNoRows\<close>, the context's error and any
  other error that comes from outside the modelled code.
\<close>

datatype go_error =
    ErrInvalidDigest
  | ErrInvalidPath
  | ErrInvalidState
  | ErrOwnershipLost
  | ErrUnavailable
  | ErrInvalidRequest
  | ErrConflictingState
  | ErrArchiveImageMissing
  | ErrSnapshotStale
  | ErrNoRows
  | ErrContext
  | ErrDriver "int option"
  | ErrForeign string
  | Wrap string go_error
  | Join "go_error list"

text \<open>\<open>errors.Is\<close> against a sentinel: the error itself, or one it wraps or joins.\<close>

fun errors_Is :: "go_error \<Rightarrow> go_error \<Rightarrow> bool" where
  "errors_Is (Wrap m e) t = (Wrap m e = t \<or> errors_Is e t)"
| "errors_Is (Join es) t = (Join es = t \<or> (\<exists>e \<in> set es. errors_Is e t))"
| "errors_Is e t = (e = t)"

text \<open>\<open>errors.Join\<close> drops nil errors and is nil when nothing remains.\<close>

definition errors_Join :: "go_error option list \<Rightarrow> go_error option" where
  "errors_Join es =
     (case List.map_filter id es of [] \<Rightarrow> None | xs \<Rightarrow> Some (Join xs))"

lemma errors_Join_None_iff: "errors_Join es = None \<longleftrightarrow> (\<forall>e \<in> set es. e = None)"
proof -
  have "List.map_filter id es = [] \<longleftrightarrow> (\<forall>e \<in> set es. e = None)"
    by (induction es) (auto simp: List.map_filter_def split: option.splits)
  then show ?thesis by (auto simp: errors_Join_def split: list.splits)
qed

section \<open>Standard-library functions on strings\<close>

text \<open>
  A Go string is a byte sequence, and so is a HOL \<open>string\<close>. \<open>strings.CutPrefix\<close>, \<open>strings.Cut\<close>,
  \<open>strings.ContainsRune\<close> for NUL and \<open>utf8.ValidString\<close>.
\<close>

definition cutPrefix :: "string \<Rightarrow> string \<Rightarrow> string option" where
  "cutPrefix value prefix =
     (if take (length prefix) value = prefix then Some (drop (length prefix) value) else None)"

lemma cutPrefix_Some_iff: "cutPrefix v p = Some r \<longleftrightarrow> v = p @ r"
proof
  assume "cutPrefix v p = Some r"
  then have "take (length p) v = p" and "r = drop (length p) v"
    by (auto simp: cutPrefix_def split: if_splits)
  then show "v = p @ r" by (metis append_take_drop_id)
qed (simp add: cutPrefix_def)

text \<open>\<open>strings.Cut(value, sep)\<close> for a one-character separator: before, after, found.\<close>

fun strings_Cut :: "string \<Rightarrow> char \<Rightarrow> string \<times> string \<times> bool" where
  "strings_Cut [] sep = ([], [], False)"
| "strings_Cut (c # cs) sep =
     (if c = sep then ([], cs, True)
      else (case strings_Cut cs sep of (l, r, found) \<Rightarrow> (c # l, r, found)))"

lemma strings_Cut_found:
  "strings_Cut s sep = (b, a, True) \<Longrightarrow> s = b @ sep # a \<and> sep \<notin> set b"
  by (induction s arbitrary: b a) (auto split: if_splits prod.splits)

lemma strings_Cut_missing:
  "strings_Cut s sep = (b, a, False) \<Longrightarrow> b = s \<and> a = [] \<and> sep \<notin> set s"
  by (induction s arbitrary: b a) (auto split: if_splits prod.splits)

lemma strings_Cut_append: "sep \<notin> set b \<Longrightarrow> strings_Cut (b @ sep # a) sep = (b, a, True)"
  by (induction b) auto

lemma strings_Cut_absent: "sep \<notin> set s \<Longrightarrow> strings_Cut s sep = (s, [], False)"
  by (induction s) auto

definition contains_nul :: "string \<Rightarrow> bool" where
  "contains_nul s = list_ex (\<lambda>c. of_char c = (0::nat)) s"

text \<open>
  \<open>utf8.ValidString\<close>: the byte ranges of RFC 3629, as the Go library's \<open>first\<close> and \<open>acceptRanges\<close>
  tables list them (no overlong forms, no surrogates, nothing above U+10FFFF).
\<close>

definition in_range :: "nat \<Rightarrow> nat \<Rightarrow> char \<Rightarrow> bool" where
  "in_range lo hi c = (lo \<le> of_char c \<and> of_char c \<le> hi)"

fun utf8_valid :: "string \<Rightarrow> bool" where
  "utf8_valid [] = True"
| "utf8_valid (a # s) =
     (if in_range 0 0x7F a then utf8_valid s
      else if in_range 0xC2 0xDF a
        then (case s of b # s' \<Rightarrow> in_range 0x80 0xBF b \<and> utf8_valid s' | _ \<Rightarrow> False)
      else if in_range 0xE0 0xEF a
        then (case s of b # c # s' \<Rightarrow>
                (if in_range 0xE0 0xE0 a then in_range 0xA0 0xBF b
                 else if in_range 0xED 0xED a then in_range 0x80 0x9F b
                 else in_range 0x80 0xBF b)
                \<and> in_range 0x80 0xBF c \<and> utf8_valid s'
              | _ \<Rightarrow> False)
      else if in_range 0xF0 0xF4 a
        then (case s of b # c # d # s' \<Rightarrow>
                (if in_range 0xF0 0xF0 a then in_range 0x90 0xBF b
                 else if in_range 0xF4 0xF4 a then in_range 0x80 0x8F b
                 else in_range 0x80 0xBF b)
                \<and> in_range 0x80 0xBF c \<and> in_range 0x80 0xBF d \<and> utf8_valid s'
              | _ \<Rightarrow> False)
      else False)"

lemma utf8_ascii: "\<forall>c \<in> set s. in_range 0 0x7F c \<Longrightarrow> utf8_valid s"
  by (induction s) auto

section \<open>Programs in the state monad\<close>

text \<open>
  \<open>hoare P m Q\<close>: from every state that satisfies \<open>P\<close>, the program ends in a state and a result that
  satisfy \<open>Q\<close>. Programs of the model are total, so this is total correctness.
\<close>

definition hoare :: "('s \<Rightarrow> bool) \<Rightarrow> ('s, 'a) state \<Rightarrow> ('a \<Rightarrow> 's \<Rightarrow> bool) \<Rightarrow> bool" where
  "hoare P m Q \<longleftrightarrow> (\<forall>s. P s \<longrightarrow> (case run_state m s of (x, t) \<Rightarrow> Q x t))"

lemma hoareI: "(\<And>s x t. P s \<Longrightarrow> run_state m s = (x, t) \<Longrightarrow> Q x t) \<Longrightarrow> hoare P m Q"
  by (auto simp: hoare_def)

lemma hoareD: "hoare P m Q \<Longrightarrow> P s \<Longrightarrow> run_state m s = (x, t) \<Longrightarrow> Q x t"
  by (fastforce simp: hoare_def)

lemma hoare_return [hoare_rules]: "(\<And>s. P s \<Longrightarrow> Q x s) \<Longrightarrow> hoare P (State_Monad.return x) Q"
  by (auto simp: hoare_def)

lemma hoare_bind [hoare_rules]:
  "hoare P m R \<Longrightarrow> (\<And>x. hoare (R x) (f x) Q) \<Longrightarrow> hoare P (State_Monad.bind m f) Q"
  by (fastforce simp: hoare_def split: prod.splits)

lemma hoare_pre: "hoare P' m Q \<Longrightarrow> (\<And>s. P s \<Longrightarrow> P' s) \<Longrightarrow> hoare P m Q"
  by (auto simp: hoare_def)

lemma hoare_post: "hoare P m Q' \<Longrightarrow> (\<And>x s. Q' x s \<Longrightarrow> Q x s) \<Longrightarrow> hoare P m Q"
  by (fastforce simp: hoare_def)

lemma hoare_conj: "hoare P m Q \<Longrightarrow> hoare P m R \<Longrightarrow> hoare P m (\<lambda>x s. Q x s \<and> R x s)"
  by (auto simp: hoare_def split: prod.splits)

text \<open>A program keeps a predicate of the state whatever it returns.\<close>

definition keeps :: "('s \<Rightarrow> bool) \<Rightarrow> ('s, 'a) state \<Rightarrow> bool" where
  "keeps I m \<longleftrightarrow> hoare I m (\<lambda>_. I)"

lemma keepsI: "(\<And>s x t. I s \<Longrightarrow> run_state m s = (x, t) \<Longrightarrow> I t) \<Longrightarrow> keeps I m"
  by (auto simp: keeps_def intro: hoareI)

lemma keepsD: "keeps I m \<Longrightarrow> I s \<Longrightarrow> run_state m s = (x, t) \<Longrightarrow> I t"
  unfolding keeps_def by (rule hoareD)

lemma keeps_return [hoare_rules]: "keeps I (State_Monad.return x)"
  by (auto simp: keeps_def hoare_def)

lemma keeps_bind [hoare_rules]:
  "keeps I m \<Longrightarrow> (\<And>x. keeps I (f x)) \<Longrightarrow> keeps I (State_Monad.bind m f)"
  unfolding keeps_def by (rule hoare_bind)

lemma keeps_if [hoare_rules]: "(b \<Longrightarrow> keeps I m) \<Longrightarrow> (\<not> b \<Longrightarrow> keeps I n) \<Longrightarrow> keeps I (if b then m else n)"
  by simp

lemma keeps_case_option [hoare_rules]:
  "(x = None \<Longrightarrow> keeps I m) \<Longrightarrow> (\<And>y. x = Some y \<Longrightarrow> keeps I (f y)) \<Longrightarrow>
   keeps I (case x of None \<Rightarrow> m | Some y \<Rightarrow> f y)"
  by (cases x) auto

lemma keeps_case_sum [hoare_rules]:
  "(\<And>e. x = Inl e \<Longrightarrow> keeps I (f e)) \<Longrightarrow> (\<And>y. x = Inr y \<Longrightarrow> keeps I (g y)) \<Longrightarrow>
   keeps I (case x of Inl e \<Rightarrow> f e | Inr y \<Rightarrow> g y)"
  by (cases x) auto

lemma keeps_case_prod [hoare_rules]:
  "(\<And>a b. x = (a, b) \<Longrightarrow> keeps I (f a b)) \<Longrightarrow> keeps I (case x of (a, b) \<Rightarrow> f a b)"
  by (cases x) auto

lemma keeps_Let [hoare_rules]: "(\<And>y. y = x \<Longrightarrow> keeps I (f y)) \<Longrightarrow> keeps I (let y = x in f y)"
  by simp

section \<open>How a program moves one part of its state\<close>

text \<open>
  \<open>moves f R m\<close>: running \<open>m\<close> relates the part \<open>f\<close> of the state before to the part after by \<open>R\<close>. For a
  reflexive and transitive relation this composes along the structure of a program, so a fact proved
  for the primitives extends to every program built from them. With equality it says that the part
  is not touched.
\<close>

named_theorems moves_rules \<open>decomposition of a program for \<open>moves\<close>\<close>

definition moves :: "('s \<Rightarrow> 'b) \<Rightarrow> ('b \<Rightarrow> 'b \<Rightarrow> bool) \<Rightarrow> ('s, 'a) state \<Rightarrow> bool" where
  "moves f R m \<longleftrightarrow> (\<forall>s. R (f s) (f (snd (run_state m s))))"

lemma movesI: "(\<And>s x t. run_state m s = (x, t) \<Longrightarrow> R (f s) (f t)) \<Longrightarrow> moves f R m"
  unfolding moves_def by (metis prod.collapse)

lemma movesD: "moves f R m \<Longrightarrow> run_state m s = (x, t) \<Longrightarrow> R (f s) (f t)"
  unfolding moves_def by (metis snd_conv)

lemma moves_mono: "moves f R m \<Longrightarrow> R \<le> S \<Longrightarrow> moves f S m"
  unfolding moves_def by auto

lemma moves_return [moves_rules]: "reflp R \<Longrightarrow> moves f R (State_Monad.return x)"
  by (simp add: moves_def reflpD)

lemma moves_bind [moves_rules]:
  assumes "transp R" and "moves f R m" and "\<And>x. moves f R (g x)"
  shows "moves f R (State_Monad.bind m g)"
proof (rule movesI)
  fix s y u assume "run_state (State_Monad.bind m g) s = (y, u)"
  then obtain x t where "run_state m s = (x, t)" "run_state (g x) t = (y, u)"
    by (auto split: prod.splits)
  with assms(2,3) have "R (f s) (f t)" "R (f t) (f u)" by (auto dest: movesD)
  with assms(1) show "R (f s) (f u)" by (rule transpD)
qed

lemma moves_if [moves_rules]: "(b \<Longrightarrow> moves f R m) \<Longrightarrow> (\<not> b \<Longrightarrow> moves f R n) \<Longrightarrow> moves f R (if b then m else n)"
  by simp

lemma moves_case_option [moves_rules]:
  "(x = None \<Longrightarrow> moves f R m) \<Longrightarrow> (\<And>y. x = Some y \<Longrightarrow> moves f R (g y)) \<Longrightarrow>
   moves f R (case x of None \<Rightarrow> m | Some y \<Rightarrow> g y)"
  by (cases x) auto

lemma moves_case_sum [moves_rules]:
  "(\<And>e. x = Inl e \<Longrightarrow> moves f R (g e)) \<Longrightarrow> (\<And>y. x = Inr y \<Longrightarrow> moves f R (h y)) \<Longrightarrow>
   moves f R (case x of Inl e \<Rightarrow> g e | Inr y \<Rightarrow> h y)"
  by (cases x) auto

lemma moves_case_prod [moves_rules]:
  "(\<And>a b. x = (a, b) \<Longrightarrow> moves f R (g a b)) \<Longrightarrow> moves f R (case x of (a, b) \<Rightarrow> g a b)"
  by (cases x) auto

lemma moves_case_list [moves_rules]:
  "(x = [] \<Longrightarrow> moves f R m) \<Longrightarrow> (\<And>y ys. x = y # ys \<Longrightarrow> moves f R (g y ys)) \<Longrightarrow>
   moves f R (case x of [] \<Rightarrow> m | y # ys \<Rightarrow> g y ys)"
  by (cases x) auto

lemma moves_Let [moves_rules]: "(\<And>y. y = x \<Longrightarrow> moves f R (g y)) \<Longrightarrow> moves f R (let y = x in g y)"
  by simp

lemma moves_orders [moves_rules]: "reflp (=)" "transp (=)" "reflp R\<^sup>*\<^sup>*" "transp R\<^sup>*\<^sup>*"
  by (auto intro: reflpI transpI)

lemma moves_rtranclp: "moves f (=) m \<Longrightarrow> moves f R\<^sup>*\<^sup>* m"
  by (rule moves_mono) auto

text \<open>Running a program step by step.\<close>

lemma run_bind_eq:
  "run_state (State_Monad.bind m g) s = (y, u) \<longleftrightarrow>
   (\<exists>x t. run_state m s = (x, t) \<and> run_state (g x) t = (y, u))"
  by (auto split: prod.splits)

lemma run_return_eq: "run_state (State_Monad.return x) s = (y, t) \<longleftrightarrow> y = x \<and> t = s"
  by auto

end
