(* ===== verification/Codec.thy ===== *)
theory Codec
  imports Prelude
begin

unbundle bit_operations_syntax

text \<open>
  The byte encodings the sources build digests from: \<open>encoding/binary\<close>'s variable-length integers
  and big-endian lengths, \<open>encoding/hex\<close>, and fixed-width arrays copied byte by byte. Every digest
  input is written by functions that append one field to a buffer; the locale \<open>field_code\<close> states
  what such a function promises (it only appends, and its field can be told apart from whatever
  follows it), and its lemmas lift that promise to counted lists and to optional values.
\<close>

section \<open>The contract of an appending encoder\<close>

text \<open>
  \<open>app buf x\<close> appends the field \<open>x\<close> to the buffer. \<open>view x\<close> is what the encoding retains of the value
  (all of it, or for example a slice without its nil flag).
\<close>

locale field_code =
  fixes app :: "bytes \<Rightarrow> 'a \<Rightarrow> bytes"
    and view :: "'a \<Rightarrow> 'b"
  assumes appends: "app buf x = buf @ app [] x"
    and self_delimiting: "app [] x @ r = app [] y @ s \<longleftrightarrow> view x = view y \<and> r = s"
begin

lemma appends_nonempty: "NO_MATCH [] buf \<Longrightarrow> app buf x = buf @ app [] x"
  by (rule appends)

lemma encoding_eq_iff: "app [] x = app [] y \<longleftrightarrow> view x = view y"
  using self_delimiting [of x "[]" y "[]"] by simp

lemma app_eq_iff: "app buf x = app buf y \<longleftrightarrow> view x = view y"
  by (metis append_same_eq appends encoding_eq_iff same_append_eq)

lemma foldl_appends: "foldl app buf xs = buf @ foldl app [] xs"
proof (induction xs arbitrary: buf)
  case (Cons x xs)
  have "foldl app (app buf x) xs = app buf x @ foldl app [] xs"
    by (rule Cons.IH)
  moreover have "foldl app (app [] x) xs = app [] x @ foldl app [] xs"
    by (rule Cons.IH)
  ultimately show ?case
    using appends [of buf x] by simp
qed simp

lemma foldl_Cons_code: "foldl app [] (x # xs) = app [] x @ foldl app [] xs"
  using foldl_appends [of "app [] x" xs] by simp

lemma foldl_self_delimiting:
  "length xs = length ys \<Longrightarrow>
   foldl app [] xs @ r = foldl app [] ys @ s \<longleftrightarrow> map view xs = map view ys \<and> r = s"
proof (induction xs ys rule: list_induct2)
  case (Cons x xs y ys)
  have "foldl app [] (x # xs) @ r = app [] x @ foldl app [] xs @ r"
    by (simp only: foldl_Cons_code append_assoc)
  moreover have "foldl app [] (y # ys) @ s = app [] y @ foldl app [] ys @ s"
    by (simp only: foldl_Cons_code append_assoc)
  ultimately show ?case using Cons.IH by (simp add: self_delimiting)
qed simp

end

text \<open>Two fields in a row are a field again, and a view may be coarsened along an injection.\<close>

lemma field_code_seq:
  assumes "field_code a va" and "field_code b vb"
  shows "field_code (\<lambda>buf x. b (a buf (f x)) (g x)) (\<lambda>x. (va (f x), vb (g x)))"
proof -
  have A: "a buf x = buf @ a [] x" "a [] x @ r = a [] y @ s \<longleftrightarrow> va x = va y \<and> r = s" for buf x y r s
    using assms(1) unfolding field_code_def by blast+
  have B: "b buf x = buf @ b [] x" "b [] x @ r = b [] y @ s \<longleftrightarrow> vb x = vb y \<and> r = s" for buf x y r s
    using assms(2) unfolding field_code_def by blast+
  have AB: "b (a buf x) y = buf @ a [] x @ b [] y" for buf x y
    using A(1) [of buf x] B(1) [of "a buf x" y] by simp
  show ?thesis
  proof
    fix buf x show "b (a buf (f x)) (g x) = buf @ b (a [] (f x)) (g x)"
      using AB [of buf "f x" "g x"] AB [of "[]" "f x" "g x"] by simp
  next
    fix x y :: 'e and r s
    show "b (a [] (f x)) (g x) @ r = b (a [] (f y)) (g y) @ s \<longleftrightarrow>
      (va (f x), vb (g x)) = (va (f y), vb (g y)) \<and> r = s"
      using AB [of "[]" "f x" "g x"] AB [of "[]" "f y" "g y"] by (simp add: A(2) B(2))
  qed
qed

lemma field_code_map:
  assumes "field_code app view" and "\<And>x y. view (f x) = view (f y) \<longleftrightarrow> v x = v y"
  shows "field_code (\<lambda>buf x. app buf (f x)) v"
proof
  show "app buf (f x) = buf @ app [] (f x)" for buf x
    using assms(1) by (rule field_code.appends)
  show "app [] (f x) @ r = app [] (f y) @ s \<longleftrightarrow> v x = v y \<and> r = s" for x y r s
    using field_code.self_delimiting [OF assms(1)] assms(2) by simp
qed

section \<open>Variable-length integers\<close>

text \<open>
  \<open>binary.AppendUvarint\<close>. The argument is the value of a \<open>uint64\<close>; a slice length never exceeds it,
  so it is a natural number here.
\<close>

function AppendUvarint :: "bytes \<Rightarrow> nat \<Rightarrow> bytes" where
  "AppendUvarint buf x =
     (if x < 128 then buf @ [word_of_nat x]
      else AppendUvarint (buf @ [word_of_nat x OR 128]) (x div 128))"
  by pat_completeness auto
termination
  by (relation "measure (\<lambda>(buf, x). x)") auto

declare AppendUvarint.simps [simp del]

lemma AppendUvarint_small: "x < 128 \<Longrightarrow> AppendUvarint buf x = buf @ [word_of_nat x]"
  by (simp add: AppendUvarint.simps)

lemma AppendUvarint_large:
  "128 \<le> x \<Longrightarrow> AppendUvarint buf x = AppendUvarint (buf @ [word_of_nat x OR 128]) (x div 128)"
  by (subst AppendUvarint.simps) simp

lemma AppendUvarint_appends: "AppendUvarint buf x = buf @ AppendUvarint [] x"
proof (induction x arbitrary: buf rule: less_induct)
  case (less x)
  show ?case
  proof (cases "x < 128")
    case True
    then show ?thesis by (simp add: AppendUvarint_small)
  next
    case False
    then have "x div 128 < x" by simp
    from less.IH [OF this, of "buf @ [word_of_nat x OR 128]"] less.IH [OF this, of "[word_of_nat x OR 128]"] False
    show ?thesis by (simp add: AppendUvarint_large)
  qed
qed

lemma AppendUvarint_large_Cons:
  "128 \<le> x \<Longrightarrow> AppendUvarint [] x = (word_of_nat x OR 128) # AppendUvarint [] (x div 128)"
  using AppendUvarint_appends [of "[word_of_nat x OR 128]" "x div 128"]
  by (simp add: AppendUvarint_large)

lemma bit_128: "bit (128 :: byte) n \<longleftrightarrow> n = 7"
proof -
  have "(128 :: byte) = 2 ^ 7" by simp
  then show ?thesis by (simp only: bit_exp_iff) (auto simp: possible_bit_word)
qed

lemma bit_word_of_nat_byte: "bit (word_of_nat x :: byte) n \<longleftrightarrow> n < 8 \<and> bit x n"
  by (simp add: bit_simps)

lemma continuation_byte_bit: "bit (word_of_nat x OR 128 :: byte) 7"
  by (simp add: bit_or_iff bit_128)

lemma final_byte_bit: "x < 128 \<Longrightarrow> \<not> bit (word_of_nat x :: byte) 7"
  unfolding bit_word_of_nat_byte by (simp add: bit_iff_odd)

lemma continuation_byte_payload: "take_bit 7 (word_of_nat x OR 128 :: byte) = word_of_nat (x mod 128)"
proof (rule bit_word_eqI)
  fix n :: nat assume n: "n < LENGTH(8)"
  have m: "x mod 128 = take_bit 7 x" by (simp add: take_bit_eq_mod)
  show "bit (take_bit 7 (word_of_nat x OR 128 :: byte)) n \<longleftrightarrow> bit (word_of_nat (x mod 128) :: byte) n"
    using n by (auto simp: m bit_take_bit_iff bit_or_iff bit_128 bit_word_of_nat_byte)
qed

lemma word_of_nat_byte_inj: "x < 256 \<Longrightarrow> y < 256 \<Longrightarrow> (word_of_nat x :: byte) = word_of_nat y \<longleftrightarrow> x = y"
  by (simp add: word_of_nat_eq_iff take_bit_eq_mod)

lemma continuation_byte_eq_iff:
  "(word_of_nat x OR 128 :: byte) = word_of_nat y OR 128 \<longleftrightarrow> x mod 128 = y mod 128"
proof
  assume "(word_of_nat x OR 128 :: byte) = word_of_nat y OR 128"
  then have "(word_of_nat (x mod 128) :: byte) = word_of_nat (y mod 128)"
    by (metis continuation_byte_payload)
  then show "x mod 128 = y mod 128"
    using word_of_nat_byte_inj [of "x mod 128" "y mod 128"]
    by (meson less_trans mod_less_divisor numeral_less_iff semiring_norm(76,78) zero_less_numeral)
next
  assume m: "x mod 128 = y mod 128"
  show "(word_of_nat x OR 128 :: byte) = word_of_nat y OR 128"
  proof (rule bit_word_eqI)
    fix n :: nat assume n: "n < LENGTH(8)"
    from m have "take_bit 7 x = take_bit 7 y" by (simp add: take_bit_eq_mod)
    then have "n < 7 \<longrightarrow> bit x n = bit y n" by (metis bit_take_bit_iff)
    moreover from n have "n < 7 \<or> n = 7" by auto
    ultimately show "bit (word_of_nat x OR 128 :: byte) n = bit (word_of_nat y OR 128 :: byte) n"
      by (auto simp: bit_or_iff bit_128 bit_word_of_nat_byte)
  qed
qed

lemma continuation_not_final: "y < 128 \<Longrightarrow> (word_of_nat x OR 128 :: byte) \<noteq> word_of_nat y"
  by (metis continuation_byte_bit final_byte_bit)

lemma AppendUvarint_self_delimiting:
  "AppendUvarint [] x @ r = AppendUvarint [] y @ s \<longleftrightarrow> x = y \<and> r = s"
proof (induction x arbitrary: y rule: less_induct)
  case (less x)
  consider "x < 128" "y < 128" | "x < 128" "128 \<le> y" | "128 \<le> x" "y < 128" | "128 \<le> x" "128 \<le> y"
    by linarith
  then show ?case
  proof cases
    case 1
    then show ?thesis by (simp add: AppendUvarint_small word_of_nat_byte_inj)
  next
    case 2
    then show ?thesis
      using continuation_not_final [of x y] by (auto simp: AppendUvarint_small AppendUvarint_large_Cons)
  next
    case 3
    then show ?thesis
      using continuation_not_final [of y x] by (auto simp: AppendUvarint_small AppendUvarint_large_Cons)
  next
    case 4
    then have "x div 128 < x" by simp
    note IH = less.IH [OF this, of "y div 128"]
    have "x = y \<longleftrightarrow> x mod 128 = y mod 128 \<and> x div 128 = y div 128"
      by (metis mult_div_mod_eq)
    then show ?thesis
      using 4 IH by (auto simp: AppendUvarint_large_Cons continuation_byte_eq_iff)
  qed
qed

interpretation uvarint: field_code AppendUvarint "\<lambda>x. x"
  by unfold_locales (rule AppendUvarint_appends, rule AppendUvarint_self_delimiting)

text \<open>\<open>binary.AppendVarint\<close>: the zig-zag form of a signed 64-bit value, then its unsigned encoding.\<close>

definition zigzag :: "i64 \<Rightarrow> i64" where
  "zigzag x = (let ux = push_bit 1 x in if sint x < 0 then NOT ux else ux)"

lemma bit_zigzag: "bit (zigzag x) n \<longleftrightarrow> n < 64 \<and> (bit x 63 \<noteq> (1 \<le> n \<and> bit x (n - 1)))"
proof -
  define ux where "ux = push_bit 1 x"
  have ux: "bit ux n \<longleftrightarrow> n < 64 \<and> 1 \<le> n \<and> bit x (n - 1)"
    unfolding ux_def bit_push_bit_iff possible_bit_word by auto
  have "sint x < 0 \<longleftrightarrow> bit x 63"
    by (simp add: bit_last_iff [symmetric])
  then have "zigzag x = (if bit x 63 then NOT ux else ux)"
    by (simp only: zigzag_def Let_def ux_def)
  then show ?thesis using ux by (auto simp: bit_not_iff possible_bit_word)
qed

lemma zigzag_inj: "zigzag x = zigzag y \<longleftrightarrow> x = y"
proof
  assume eq: "zigzag x = zigzag y"
  have sign: "bit x 63 = bit y 63"
    using arg_cong [OF eq, of "\<lambda>w. bit w 0"] by (simp add: bit_zigzag)
  show "x = y"
  proof (rule bit_word_eqI)
    fix n :: nat assume "n < LENGTH(64)"
    show "bit x n = bit y n"
    proof (cases "n = 63")
      case False
      with \<open>n < LENGTH(64)\<close> have "Suc n < 64" by simp
      with arg_cong [OF eq, of "\<lambda>w. bit w (Suc n)"] sign show ?thesis by (auto simp: bit_zigzag)
    qed (simp add: sign)
  qed
qed simp

definition AppendVarint :: "bytes \<Rightarrow> i64 \<Rightarrow> bytes" where
  "AppendVarint buf x = AppendUvarint buf (unat (zigzag x))"

interpretation varint: field_code AppendVarint "\<lambda>x. x"
proof
  show "AppendVarint buf x = buf @ AppendVarint [] x" for buf x
    unfolding AppendVarint_def by (rule AppendUvarint_appends)
  show "AppendVarint [] x @ r = AppendVarint [] y @ s \<longleftrightarrow> x = y \<and> r = s" for x y r s
    by (metis AppendVarint_def uvarint.self_delimiting zigzag_inj word_unat_eq_iff)
qed

section \<open>Bytes, strings and fixed-width arrays\<close>

definition byte_of_char :: "char \<Rightarrow> byte" where
  "byte_of_char c = word_of_nat (of_char c)"

lemma byte_of_char_eq_iff: "byte_of_char c = byte_of_char d \<longleftrightarrow> c = d"
proof -
  have "(of_char x :: nat) < 256" for x by simp
  then show ?thesis by (simp add: byte_of_char_def word_of_nat_byte_inj)
qed

definition string_bytes :: "string \<Rightarrow> bytes" where
  "string_bytes s = map byte_of_char s"

lemma string_bytes_eq_iff: "string_bytes s = string_bytes t \<longleftrightarrow> s = t"
  unfolding string_bytes_def
  by (rule inj_map_eq_map) (auto intro: injI simp: byte_of_char_eq_iff)

lemma length_string_bytes [simp]: "length (string_bytes s) = length s"
  by (simp add: string_bytes_def)

text \<open>A length-prefixed string: \<open>binary.AppendUvarint\<close> of the length, then the bytes.\<close>

definition append_prefixed :: "bytes \<Rightarrow> string \<Rightarrow> bytes" where
  "append_prefixed buf s = AppendUvarint buf (length s) @ string_bytes s"

interpretation prefixed: field_code append_prefixed "\<lambda>x. x"
proof
  show "append_prefixed buf x = buf @ append_prefixed [] x" for buf x
    using AppendUvarint_appends [of buf "length x"] by (simp add: append_prefixed_def)
  show "append_prefixed [] x @ r = append_prefixed [] y @ s \<longleftrightarrow> x = y \<and> r = s" for x y r s
    by (auto simp: append_prefixed_def uvarint.self_delimiting string_bytes_eq_iff)
qed

text \<open>One byte appended to the buffer.\<close>

definition append_byte :: "bytes \<Rightarrow> byte \<Rightarrow> bytes" where
  "append_byte buf b = buf @ [b]"

interpretation one_byte: field_code append_byte "\<lambda>x. x"
  by unfold_locales (auto simp: append_byte_def)

text \<open>A fixed-size array appended with \<open>value[:]\<close>: its bytes, most significant first.\<close>

definition word_bytes :: "nat \<Rightarrow> 'a::len word \<Rightarrow> bytes" where
  "word_bytes n w = map (\<lambda>i. ucast (drop_bit (8 * (n - 1 - i)) w)) [0..<n]"

lemma word_bytes_inj:
  assumes "LENGTH('a) = 8 * n"
  shows "word_bytes n (v :: 'a::len word) = word_bytes n w \<longleftrightarrow> v = w"
proof
  assume eq: "word_bytes n v = word_bytes n w"
  show "v = w"
  proof (rule bit_word_eqI)
    fix k :: nat assume "k < LENGTH('a)"
    then have k: "k div 8 < n" using assms by auto
    define i where "i = n - 1 - k div 8"
    have i: "i < n" "n - 1 - i = k div 8" using k by (auto simp: i_def)
    have "word_bytes n v ! i = word_bytes n w ! i" using eq by simp
    then have "(ucast (drop_bit (8 * (k div 8)) v) :: byte) = ucast (drop_bit (8 * (k div 8)) w)"
      using i by (simp add: word_bytes_def)
    then have "bit (ucast (drop_bit (8 * (k div 8)) v) :: byte) (k mod 8) = bit (ucast (drop_bit (8 * (k div 8)) w) :: byte) (k mod 8)"
      by simp
    then show "bit v k = bit w k"
      by (simp add: bit_ucast_iff bit_drop_bit_eq)
  qed
qed simp

lemma length_word_bytes [simp]: "length (word_bytes n w) = n"
  by (simp add: word_bytes_def)

definition append_digest :: "bytes \<Rightarrow> digest \<Rightarrow> bytes" where
  "append_digest buf d = buf @ word_bytes 32 d"

interpretation digest: field_code append_digest "\<lambda>x. x"
  by unfold_locales (auto simp: append_digest_def word_bytes_inj)

definition append_identifier :: "bytes \<Rightarrow> transaction_id \<Rightarrow> bytes" where
  "append_identifier buf i = buf @ word_bytes 16 i"

interpretation ident: field_code append_identifier "\<lambda>x. x"
  by unfold_locales (auto simp: append_identifier_def word_bytes_inj)

text \<open>\<open>binary.BigEndian.AppendUint64\<close>.\<close>

definition AppendUint64 :: "bytes \<Rightarrow> i64 \<Rightarrow> bytes" where
  "AppendUint64 buf x = buf @ word_bytes 8 x"

interpretation uint64: field_code AppendUint64 "\<lambda>x. x"
  by unfold_locales (auto simp: AppendUint64_def word_bytes_inj)

section \<open>Derived encoders\<close>

text \<open>
  The loop \<open>AppendUvarint(len(xs))\<close> followed by one field per element, and the two forms of an optional
  value: a zero byte for nil, a one byte and the value otherwise.
\<close>

definition append_counted :: "(bytes \<Rightarrow> 'a \<Rightarrow> bytes) \<Rightarrow> bytes \<Rightarrow> 'a list \<Rightarrow> bytes" where
  "append_counted app buf xs = foldl app (AppendUvarint buf (length xs)) xs"

definition append_option :: "(bytes \<Rightarrow> 'a \<Rightarrow> bytes) \<Rightarrow> bytes \<Rightarrow> 'a option \<Rightarrow> bytes" where
  "append_option app buf v = (case v of None \<Rightarrow> buf @ [0] | Some x \<Rightarrow> app (buf @ [1]) x)"

context field_code
begin

lemma counted_code: "field_code (append_counted app) (map view)"
proof
  fix buf xs
  show "append_counted app buf xs = buf @ append_counted app [] xs"
    using foldl_appends [of "AppendUvarint buf (length xs)" xs]
      foldl_appends [of "AppendUvarint [] (length xs)" xs] AppendUvarint_appends [of buf "length xs"]
    by (simp add: append_counted_def)
next
  fix xs ys :: "'a list" and r s
  have enc: "append_counted app [] zs = AppendUvarint [] (length zs) @ foldl app [] zs" for zs
    using foldl_appends [of "AppendUvarint [] (length zs)" zs] by (simp add: append_counted_def)
  have "append_counted app [] xs @ r = append_counted app [] ys @ s \<longleftrightarrow>
      length xs = length ys \<and> foldl app [] xs @ r = foldl app [] ys @ s"
    by (simp add: enc uvarint.self_delimiting)
  also have "\<dots> \<longleftrightarrow> map view xs = map view ys \<and> r = s"
    using foldl_self_delimiting [of xs ys r s] by (metis length_map)
  finally show "append_counted app [] xs @ r = append_counted app [] ys @ s \<longleftrightarrow>
      map view xs = map view ys \<and> r = s" .
qed

lemma option_code: "field_code (append_option app) (map_option view)"
proof
  fix buf v
  show "append_option app buf v = buf @ append_option app [] v"
    using appends [of "buf @ [1]"] appends [of "[1]"]
    by (cases v) (simp_all add: append_option_def)
next
  fix v w :: "'a option" and r s
  show "append_option app [] v @ r = append_option app [] w @ s \<longleftrightarrow>
      map_option view v = map_option view w \<and> r = s"
    using appends [of "[1]"]
    by (cases v; cases w) (simp_all add: append_option_def self_delimiting)
qed

end

section \<open>Hexadecimal text\<close>

text \<open>\<open>hex.EncodeToString\<close> and \<open>hex.DecodeString\<close>, which accepts both cases.\<close>

definition hex_digit :: "nat \<Rightarrow> char" where
  "hex_digit n = (if n < 10 then char_of (48 + n) else char_of (87 + n))"

definition hex_value :: "char \<Rightarrow> nat option" where
  "hex_value c =
     (let n = of_char c :: nat in
      if 48 \<le> n \<and> n \<le> 57 then Some (n - 48)
      else if 97 \<le> n \<and> n \<le> 102 then Some (n - 87)
      else if 65 \<le> n \<and> n \<le> 70 then Some (n - 55)
      else None)"

definition hex_EncodeToString :: "bytes \<Rightarrow> string" where
  "hex_EncodeToString bs = concat (map (\<lambda>b. [hex_digit (unat b div 16), hex_digit (unat b mod 16)]) bs)"

fun hex_DecodeString :: "string \<Rightarrow> bytes option" where
  "hex_DecodeString [] = Some []"
| "hex_DecodeString [c] = None"
| "hex_DecodeString (c # d # s) =
     (case (hex_value c, hex_value d, hex_DecodeString s) of
        (Some h, Some l, Some bs) \<Rightarrow> Some (word_of_nat (16 * h + l) # bs)
      | _ \<Rightarrow> None)"

text \<open>\<open>strings.ToLower\<close> on ASCII letters, the only ones that matter beside a hexadecimal decoder.\<close>

definition lower_char :: "char \<Rightarrow> char" where
  "lower_char c = (let n = of_char c :: nat in if 65 \<le> n \<and> n \<le> 90 then char_of (n + 32) else c)"

definition strings_ToLower :: "string \<Rightarrow> string" where
  "strings_ToLower s = map lower_char s"

lemma hex_value_digit: "n < 16 \<Longrightarrow> hex_value (hex_digit n) = Some n"
  by (simp add: hex_value_def hex_digit_def)

lemma lower_hex_digit: "n < 16 \<Longrightarrow> lower_char (hex_digit n) = hex_digit n"
  by (simp add: lower_char_def hex_digit_def)

lemma hex_value_bound: "hex_value c = Some n \<Longrightarrow> n < 16"
  by (auto simp: hex_value_def Let_def split: if_splits)

lemma hex_digit_value: "hex_value c = Some n \<Longrightarrow> lower_char c = c \<Longrightarrow> hex_digit n = c"
  by (auto simp: hex_value_def hex_digit_def lower_char_def Let_def add.commute split: if_splits)

lemma unat_byte_bound: "unat (b :: byte) < 256"
  using unsigned_less [of b] by simp

lemma length_hex_EncodeToString [simp]: "length (hex_EncodeToString bs) = 2 * length bs"
  by (induction bs) (simp_all add: hex_EncodeToString_def)

lemma strings_ToLower_hex: "strings_ToLower (hex_EncodeToString bs) = hex_EncodeToString bs"
proof (induction bs)
  case (Cons b bs)
  have "unat b < 256" by (rule unat_byte_bound)
  then have "unat b div 16 < 16" "unat b mod 16 < 16" by auto
  with Cons.IH show ?case
    by (simp add: hex_EncodeToString_def strings_ToLower_def lower_hex_digit)
qed (simp add: hex_EncodeToString_def strings_ToLower_def)

lemma hex_decode_encode: "hex_DecodeString (hex_EncodeToString bs) = Some bs"
proof (induction bs)
  case (Cons b bs)
  have "unat b < 256" by (rule unat_byte_bound)
  then have "unat b div 16 < 16" "unat b mod 16 < 16" by auto
  moreover have "word_of_nat (16 * (unat b div 16) + unat b mod 16) = b" by simp
  ultimately show ?case
    using Cons.IH by (simp add: hex_EncodeToString_def hex_value_digit)
qed (simp add: hex_EncodeToString_def)

lemma hex_encode_decode:
  "hex_DecodeString s = Some bs \<Longrightarrow> strings_ToLower s = s \<Longrightarrow> hex_EncodeToString bs = s"
proof (induction s arbitrary: bs rule: hex_DecodeString.induct)
  case (3 c d s)
  then obtain h l bs' where v: "hex_value c = Some h" "hex_value d = Some l" "hex_DecodeString s = Some bs'"
    and bs: "bs = word_of_nat (16 * h + l) # bs'"
    by (auto split: option.splits)
  from v have hl: "h < 16" "l < 16" by (auto dest: hex_value_bound)
  then have "unat (word_of_nat (16 * h + l) :: byte) = 16 * h + l"
    unfolding unsigned_of_nat by (simp add: take_bit_eq_mod)
  moreover from "3.prems"(2) have "lower_char c = c" "lower_char d = d" "strings_ToLower s = s"
    by (simp_all add: strings_ToLower_def)
  ultimately show ?case
    using "3.IH" [OF v(3)] bs v hl hex_digit_value [OF v(1)] hex_digit_value [OF v(2)]
    by (simp add: hex_EncodeToString_def)
qed (simp_all add: hex_EncodeToString_def)

lemma hex_decode_length: "hex_DecodeString s = Some bs \<Longrightarrow> length s = 2 * length bs"
  by (induction s arbitrary: bs rule: hex_DecodeString.induct) (auto split: option.splits)

lemma hex_text: "c \<in> set (hex_EncodeToString bs) \<Longrightarrow> in_range 0 0x7F c \<and> of_char c \<noteq> (0 :: nat)"
proof -
  have digit: "in_range 0 0x7F (hex_digit n) \<and> of_char (hex_digit n) \<noteq> (0 :: nat)" if "n < 16" for n
    using that by (simp add: hex_digit_def in_range_def of_char_of)
  moreover have "unat (b :: byte) div 16 < 16" "unat b mod 16 < 16" for b
    using unsigned_less [of b, where ?'a = nat] by (simp_all add: less_mult_imp_div_less)
  ultimately show "c \<in> set (hex_EncodeToString bs) \<Longrightarrow> in_range 0 0x7F c \<and> of_char c \<noteq> (0 :: nat)"
    by (auto simp: hex_EncodeToString_def)
qed

text \<open>A fixed-width value read back from its bytes, as \<open>copy(digest[:], decoded)\<close> fills the array.\<close>

definition bytes_word :: "bytes \<Rightarrow> 'a::len word" where
  "bytes_word bs = foldl (\<lambda>a b. push_bit 8 a OR ucast b) 0 bs"

lemma bytes_word_snoc: "bytes_word (bs @ [b]) = push_bit 8 (bytes_word bs) OR ucast b"
  by (simp add: bytes_word_def)

lemma bit_bytes_word:
  "bit (bytes_word bs :: 'a::len word) k \<longleftrightarrow>
     k < LENGTH('a) \<and> k div 8 < length bs \<and> bit (bs ! (length bs - 1 - k div 8)) (k mod 8)"
proof (induction bs arbitrary: k rule: rev_induct)
  case (snoc b bs)
  show ?case
  proof (cases "k < 8")
    case True
    have "\<not> bit (push_bit 8 (bytes_word bs :: 'a word)) k" using True by (simp add: bit_push_bit_iff)
    then show ?thesis using True
      by (auto simp: bytes_word_snoc bit_or_iff bit_ucast_iff nth_append)
  next
    case False
    have b: "\<not> bit (ucast b :: 'a word) k" using False bit_imp_le_length [of b k] by (auto simp: bit_ucast_iff)
    from False have k: "(k - 8) div 8 = k div 8 - 1" "(k - 8) mod 8 = k mod 8" "1 \<le> k div 8"
      by (auto simp: le_div_geq le_mod_geq)
    have "bit (push_bit 8 (bytes_word bs :: 'a word)) k \<longleftrightarrow> k < LENGTH('a) \<and> bit (bytes_word bs :: 'a word) (k - 8)"
      using False by (simp add: bit_push_bit_iff possible_bit_word)
    moreover have "k - 8 < LENGTH('a)" if "k < LENGTH('a)" using that by simp
    moreover have "(bs @ [b]) ! (length bs - k div 8) = bs ! (length bs - 1 - (k div 8 - 1))"
      if "k div 8 - 1 < length bs"
    proof -
      from that k(3) have "length bs - k div 8 < length bs" by arith
      then show ?thesis using k(3) by (simp add: nth_append)
    qed
    moreover have "k div 8 - 1 < length bs \<longleftrightarrow> k div 8 < length (bs @ [b])" using k(3) by auto
    ultimately show ?thesis
      using b by (auto simp: bytes_word_snoc bit_or_iff snoc.IH k)
  qed
qed (simp add: bytes_word_def)

lemma bytes_word_bytes:
  assumes "LENGTH('a) = 8 * n"
  shows "bytes_word (word_bytes n w) = (w :: 'a::len word)"
proof (rule bit_word_eqI)
  fix k :: nat assume k: "k < LENGTH('a)"
  then have "k div 8 < n" using assms by auto
  then show "bit (bytes_word (word_bytes n w) :: 'a word) k = bit w k"
    using k by (auto simp: bit_bytes_word word_bytes_def bit_ucast_iff bit_drop_bit_eq)
qed

lemma word_bytes_bytes_word:
  assumes "LENGTH('a) = 8 * n" and "length bs = n"
  shows "word_bytes n (bytes_word bs :: 'a::len word) = bs"
proof (rule nth_equalityI)
  fix i assume "i < length (word_bytes n (bytes_word bs :: 'a word))"
  then have i: "i < n" by simp
  show "word_bytes n (bytes_word bs :: 'a word) ! i = bs ! i"
  proof (rule bit_word_eqI)
    fix k :: nat assume k: "k < LENGTH(8)"
    then have k8: "k < 8" by simp
    have "8 * (n - 1 - i) + k < LENGTH('a)" using i k8 assms(1) by simp
    moreover have "(8 * (n - 1 - i) + k) div 8 = n - 1 - i" "(8 * (n - 1 - i) + k) mod 8 = k"
      using k8 by auto
    moreover have "n - 1 - (n - 1 - i) = i" using i by simp
    ultimately show "bit (word_bytes n (bytes_word bs :: 'a word) ! i) k = bit (bs ! i) k"
      using i k assms by (simp add: word_bytes_def bit_ucast_iff bit_drop_bit_eq bit_bytes_word)
  qed
qed (simp add: assms)

text \<open>The simplification rules that compare two encodings field by field.\<close>

lemmas code_appends =
  uvarint.appends_nonempty varint.appends_nonempty prefixed.appends_nonempty
  one_byte.appends_nonempty digest.appends_nonempty ident.appends_nonempty uint64.appends_nonempty

lemmas code_delimits =
  uvarint.self_delimiting varint.self_delimiting prefixed.self_delimiting
  one_byte.self_delimiting digest.self_delimiting ident.self_delimiting uint64.self_delimiting

end
