(* ===== verification/ContainerSpec.thy ===== *)
theory ContainerSpec
  imports Prelude "HOL-Library.Finite_Map" "HOL-Library.Product_Lexorder"
begin

text \<open>
  The runtime-neutral container configuration of \<open>src/containerconfig\<close>: \<open>Spec\<close> and its parts
  (\<open>spec.go\<close>), and \<open>Canonical\<close> with the comparison functions it sorts by (\<open>canonical.go\<close>). A slice
  that may be nil is an option of a list, a pointer is an option, \<open>map[string]string\<close> is a finite map.
  The theorems say that canonicalisation sorts exactly the unordered fields: it is idempotent, and
  two specifications are equivalent exactly when they differ in the order of those fields only.
\<close>

section \<open>The specification (spec.go)\<close>

record Platform =
  pf_OS :: string
  pf_Architecture :: string
  pf_Variant :: string

record DeviceMapping =
  dev_Source :: string
  dev_Target :: string
  dev_Permissions :: string

text \<open>\<open>MountKind\<close> starts at one, so its zero value is neither constant.\<close>

datatype MountKind = MountKindZero | MountBind | MountVolume

record Mount =
  mt_Kind :: MountKind
  mt_Source :: string
  mt_Target :: string
  mt_ReadOnly :: bool

record TmpfsMount =
  tm_Target :: string
  tm_Options :: "string slice"

record Ulimit =
  ul_Name :: string
  ul_Soft :: i64
  ul_Hard :: i64

record PortBinding =
  pb_HostIP :: string
  pb_PublishedPort :: u16
  pb_TargetPort :: u16
  pb_Protocol :: string

record ExposedPort =
  ep_TargetPort :: u16
  ep_Protocol :: string

record Healthcheck =
  hc_Test :: "string slice"
  hc_Interval :: string
  hc_Timeout :: string
  hc_Retries :: "i64 option"
  hc_StartPeriod :: string
  hc_StartInterval :: string
  hc_Disabled :: bool

record Spec =
  ServiceName :: string
  ContainerName :: string
  SpecPlatform :: Platform
  Entrypoint :: "string slice"
  Command :: "string slice"
  NetworkMode :: string
  BlkioWeight :: "i64 option"
  CgroupParent :: string
  Cgroup :: string
  CPUs :: string
  Hostname :: string
  MemoryBytes :: i64
  OOMScoreAdj :: "i64 option"
  PidsLimit :: "i64 option"
  Restart :: string
  SharedMemoryBytes :: i64
  StopSignal :: string
  StopTimeout :: "i64 option"
  User :: string
  WorkingDirectory :: string
  CapAdd :: "string slice"
  CapDrop :: "string slice"
  DNS :: "string slice"
  DNSOptions :: "string slice"
  DNSSearch :: "string slice"
  Devices :: "DeviceMapping slice"
  ExtraHosts :: "string slice"
  GroupAdd :: "string slice"
  Sysctls :: "(string, string) fmap option"
  Tmpfs :: "TmpfsMount slice"
  Ulimits :: "Ulimit slice"
  Environment :: "string slice"
  Labels :: "string slice"
  ExposedPorts :: "ExposedPort slice"
  Ports :: "PortBinding slice"
  NoNewPrivileges :: bool
  Mounts :: "Mount slice"
  Init :: "bool option"
  StdinOpen :: "bool option"
  OOMKillDisable :: "bool option"
  ReadOnly :: "bool option"
  TTY :: "bool option"
  SpecHealthcheck :: "Healthcheck option"

text \<open>
  \<open>Clone\<close> copies every slice, map and pointer so that callers may mutate the copy. The values of the
  model are immutable, so a deep copy is the value itself.
\<close>

definition Clone :: "Spec \<Rightarrow> Spec" where
  "Clone spec = spec"

section \<open>Canonical form (canonical.go)\<close>

text \<open>\<open>cmp.Compare\<close> on an ordered type and \<open>cmp.Or\<close>, the first non-zero comparison.\<close>

definition cmp_Compare :: "'a::linorder \<Rightarrow> 'a \<Rightarrow> int" where
  "cmp_Compare x y = (if x < y then -1 else if y < x then 1 else 0)"

fun cmp_Or :: "int list \<Rightarrow> int" where
  "cmp_Or [] = 0"
| "cmp_Or (c # cs) = (if c \<noteq> 0 then c else cmp_Or cs)"

definition mount_kind_nat :: "MountKind \<Rightarrow> nat" where
  "mount_kind_nat k = (case k of MountKindZero \<Rightarrow> 0 | MountBind \<Rightarrow> 1 | MountVolume \<Rightarrow> 2)"

definition boolOrder :: "bool \<Rightarrow> nat" where
  "boolOrder value = (if value then 1 else 0)"

definition compareDevice :: "DeviceMapping \<Rightarrow> DeviceMapping \<Rightarrow> int" where
  "compareDevice left right = cmp_Or
     [cmp_Compare (dev_Target left) (dev_Target right),
      cmp_Compare (dev_Source left) (dev_Source right),
      cmp_Compare (dev_Permissions left) (dev_Permissions right)]"

definition compareTmpfs :: "TmpfsMount \<Rightarrow> TmpfsMount \<Rightarrow> int" where
  "compareTmpfs left right = cmp_Or
     [cmp_Compare (tm_Target left) (tm_Target right),
      cmp_Compare (items (tm_Options left)) (items (tm_Options right))]"

definition compareUlimit :: "Ulimit \<Rightarrow> Ulimit \<Rightarrow> int" where
  "compareUlimit left right = cmp_Or
     [cmp_Compare (ul_Name left) (ul_Name right),
      cmp_Compare (sint (ul_Soft left)) (sint (ul_Soft right)),
      cmp_Compare (sint (ul_Hard left)) (sint (ul_Hard right))]"

definition compareExposedPort :: "ExposedPort \<Rightarrow> ExposedPort \<Rightarrow> int" where
  "compareExposedPort left right = cmp_Or
     [cmp_Compare (ep_TargetPort left) (ep_TargetPort right),
      cmp_Compare (ep_Protocol left) (ep_Protocol right)]"

definition comparePort :: "PortBinding \<Rightarrow> PortBinding \<Rightarrow> int" where
  "comparePort left right = cmp_Or
     [cmp_Compare (pb_TargetPort left) (pb_TargetPort right),
      cmp_Compare (pb_Protocol left) (pb_Protocol right),
      cmp_Compare (pb_HostIP left) (pb_HostIP right),
      cmp_Compare (pb_PublishedPort left) (pb_PublishedPort right)]"

definition compareMount :: "Mount \<Rightarrow> Mount \<Rightarrow> int" where
  "compareMount left right = cmp_Or
     [cmp_Compare (mt_Target left) (mt_Target right),
      cmp_Compare (mt_Source left) (mt_Source right),
      cmp_Compare (mount_kind_nat (mt_Kind left)) (mount_kind_nat (mt_Kind right)),
      cmp_Compare (boolOrder (mt_ReadOnly left)) (boolOrder (mt_ReadOnly right))]"

text \<open>
  \<open>slices.SortFunc\<close>. The library's sort is not stable; where the comparison separates all elements
  its result is the only sorted permutation, which insertion sort computes as well.
\<close>

fun insert_by :: "('a \<Rightarrow> 'a \<Rightarrow> int) \<Rightarrow> 'a \<Rightarrow> 'a list \<Rightarrow> 'a list" where
  "insert_by cmp x [] = [x]"
| "insert_by cmp x (y # ys) = (if cmp x y \<le> 0 then x # y # ys else y # insert_by cmp x ys)"

definition SortFunc :: "'a list \<Rightarrow> ('a \<Rightarrow> 'a \<Rightarrow> int) \<Rightarrow> 'a list" where
  "SortFunc xs cmp = foldr (insert_by cmp) xs []"

definition canonicalSlice :: "'a slice \<Rightarrow> ('a \<Rightarrow> 'a \<Rightarrow> int) \<Rightarrow> 'a slice" where
  "canonicalSlice values compare = (if items values = [] then None else Some (SortFunc (items values) compare))"

definition canonicalStrings :: "string slice \<Rightarrow> string slice" where
  "canonicalStrings values = (if items values = [] then None else Some (sort (items values)))"

definition Canonical :: "Spec \<Rightarrow> Spec" where
  "Canonical spec = (let canonical = Clone spec in canonical
     \<lparr>CapAdd := canonicalStrings (CapAdd canonical),
      CapDrop := canonicalStrings (CapDrop canonical),
      Devices := canonicalSlice (Devices canonical) compareDevice,
      ExtraHosts := canonicalStrings (ExtraHosts canonical),
      GroupAdd := canonicalStrings (GroupAdd canonical),
      Tmpfs := canonicalSlice (Tmpfs canonical) compareTmpfs,
      Ulimits := canonicalSlice (Ulimits canonical) compareUlimit,
      Environment := canonicalStrings (Environment canonical),
      Labels := canonicalStrings (Labels canonical),
      ExposedPorts := canonicalSlice (ExposedPorts canonical) compareExposedPort,
      Ports := canonicalSlice (Ports canonical) comparePort,
      Mounts := canonicalSlice (Mounts canonical) compareMount,
      Sysctls := (case Sysctls canonical of None \<Rightarrow> None
                  | Some m \<Rightarrow> if m = fmempty then None else Some m)\<rparr>)"

definition Equivalent :: "Spec \<Rightarrow> Spec \<Rightarrow> bool" where
  "Equivalent left right \<longleftrightarrow> Canonical left = Canonical right"

section \<open>Sorting by a comparison function is sorting by a key\<close>

text \<open>
  A comparison function respects a key when it is at most zero exactly if the left key is at most the
  right one. The locale holds what sorting by such a function does.
\<close>

locale key_order =
  fixes cmp :: "'a \<Rightarrow> 'a \<Rightarrow> int"
    and key :: "'a \<Rightarrow> 'k::linorder"
  assumes cmp_key: "cmp x y \<le> 0 \<longleftrightarrow> key x \<le> key y"
begin

lemma insert_by_insort: "insert_by cmp x xs = insort_key key x xs"
  by (induction xs) (auto simp: cmp_key)

lemma SortFunc_sort_key: "SortFunc xs cmp = sort_key key xs"
  by (simp add: SortFunc_def sort_key_def insert_by_insort [abs_def])

lemma mset_SortFunc [simp]: "mset (SortFunc xs cmp) = mset xs"
  by (simp add: SortFunc_sort_key)

lemma SortFunc_Nil_iff: "SortFunc xs cmp = [] \<longleftrightarrow> xs = []"
  by (metis mset_SortFunc mset_zero_iff)

lemma SortFunc_idem: "SortFunc (SortFunc xs cmp) cmp = SortFunc xs cmp"
  by (metis SortFunc_sort_key sort_key_id_if_sorted sorted_sort_key)

lemma SortFunc_cong:
  assumes "mset xs = mset ys" and "inj_on key (set xs)"
  shows "SortFunc xs cmp = SortFunc ys cmp"
proof -
  have "map key (sort_key key xs) = map key (sort_key key ys)"
  proof -
    have "map key (sort_key key zs) = sort (map key zs)" for zs
      by (rule properties_for_sort [symmetric]) simp_all
    moreover have "sort (map key xs) = sort (map key ys)"
      by (rule properties_for_sort) (simp_all add: assms(1))
    ultimately show ?thesis by simp
  qed
  moreover have "inj_on key (set (sort_key key xs) \<union> set (sort_key key ys))"
    using assms by (metis Un_absorb mset_eq_setD set_sort)
  ultimately show ?thesis
    by (simp add: SortFunc_sort_key inj_on_map_eq_map)
qed

lemma canonicalSlice_eqD:
  "canonicalSlice v cmp = canonicalSlice w cmp \<Longrightarrow> mset (items v) = mset (items w)"
  by (metis canonicalSlice_def mset_SortFunc option.distinct(1) option.inject)

lemma canonicalSlice_cong:
  assumes "mset (items v) = mset (items w)" and "inj_on key (set (items v))"
  shows "canonicalSlice v cmp = canonicalSlice w cmp"
proof -
  from assms(1) have "items v = [] \<longleftrightarrow> items w = []"
    by (metis mset_zero_iff)
  with SortFunc_cong [OF assms] show ?thesis by (simp add: canonicalSlice_def)
qed

lemma canonicalSlice_idem: "canonicalSlice (canonicalSlice v cmp) cmp = canonicalSlice v cmp"
  by (simp add: canonicalSlice_def SortFunc_Nil_iff SortFunc_idem)

end

lemma cmp_Compare_key: "cmp_Compare x y \<le> 0 \<longleftrightarrow> x \<le> y"
  by (auto simp: cmp_Compare_def)

lemma cmp_Or_Cons_key: "cmp_Or (cmp_Compare x y # cs) \<le> 0 \<longleftrightarrow> x < y \<or> x = y \<and> cmp_Or cs \<le> 0"
  by (auto simp: cmp_Compare_def)

definition device_key :: "DeviceMapping \<Rightarrow> string \<times> string \<times> string" where
  "device_key d = (dev_Target d, dev_Source d, dev_Permissions d)"

definition tmpfs_key :: "TmpfsMount \<Rightarrow> string \<times> string list" where
  "tmpfs_key t = (tm_Target t, items (tm_Options t))"

definition ulimit_key :: "Ulimit \<Rightarrow> string \<times> int \<times> int" where
  "ulimit_key u = (ul_Name u, sint (ul_Soft u), sint (ul_Hard u))"

definition exposed_port_key :: "ExposedPort \<Rightarrow> u16 \<times> string" where
  "exposed_port_key p = (ep_TargetPort p, ep_Protocol p)"

definition port_key :: "PortBinding \<Rightarrow> u16 \<times> string \<times> string \<times> u16" where
  "port_key p = (pb_TargetPort p, pb_Protocol p, pb_HostIP p, pb_PublishedPort p)"

definition mount_key :: "Mount \<Rightarrow> string \<times> string \<times> nat \<times> nat" where
  "mount_key m = (mt_Target m, mt_Source m, mount_kind_nat (mt_Kind m), boolOrder (mt_ReadOnly m))"

interpretation device_order: key_order compareDevice device_key
  by unfold_locales
    (auto simp: compareDevice_def device_key_def cmp_Or_Cons_key less_eq_prod_def simp del: cmp_Or.simps(2))

interpretation tmpfs_order: key_order compareTmpfs tmpfs_key
  by unfold_locales
    (auto simp: compareTmpfs_def tmpfs_key_def cmp_Or_Cons_key less_eq_prod_def simp del: cmp_Or.simps(2))

interpretation ulimit_order: key_order compareUlimit ulimit_key
  by unfold_locales
    (auto simp: compareUlimit_def ulimit_key_def cmp_Or_Cons_key less_eq_prod_def simp del: cmp_Or.simps(2))

interpretation exposed_order: key_order compareExposedPort exposed_port_key
  by unfold_locales
    (auto simp: compareExposedPort_def exposed_port_key_def cmp_Or_Cons_key less_eq_prod_def
      simp del: cmp_Or.simps(2))

interpretation port_order: key_order comparePort port_key
  by unfold_locales
    (auto simp: comparePort_def port_key_def cmp_Or_Cons_key less_eq_prod_def simp del: cmp_Or.simps(2))

interpretation mount_order: key_order compareMount mount_key
  by unfold_locales
    (auto simp: compareMount_def mount_key_def cmp_Or_Cons_key less_eq_prod_def simp del: cmp_Or.simps(2))

text \<open>Every key but that of a tmpfs mount identifies its element.\<close>

lemma key_injections:
  "inj device_key" "inj ulimit_key" "inj exposed_port_key" "inj port_key" "inj mount_key"
proof -
  show "inj device_key" by (rule injI) (simp add: device_key_def)
  show "inj ulimit_key" by (rule injI) (auto simp: ulimit_key_def intro!: Ulimit.equality signed_word_eqI)
  show "inj exposed_port_key" by (rule injI) (simp add: exposed_port_key_def)
  show "inj port_key" by (rule injI) (simp add: port_key_def)
  show "inj mount_key"
    by (rule injI) (auto simp: mount_key_def mount_kind_nat_def boolOrder_def split: MountKind.splits if_splits)
qed

lemma canonicalStrings_eq_iff:
  "canonicalStrings v = canonicalStrings w \<longleftrightarrow> mset (items v) = mset (items w)"
proof -
  have "sort (items v) = sort (items w) \<longleftrightarrow> mset (items v) = mset (items w)"
    by (metis mset_sort properties_for_sort sorted_sort)
  moreover have "items v = [] \<longleftrightarrow> mset (items v) = {#}" "items w = [] \<longleftrightarrow> mset (items w) = {#}"
    by auto
  ultimately show ?thesis by (auto simp: canonicalStrings_def)
qed

lemma canonicalStrings_idem: "canonicalStrings (canonicalStrings v) = canonicalStrings v"
  by (metis canonicalStrings_eq_iff canonicalStrings_def items_simps mset_sort)

section \<open>What canonicalisation identifies\<close>

text \<open>
  Two specifications agree up to the order of the unordered fields: every other field is equal, and
  each unordered one holds the same elements equally often, nil and empty slices being the same.
\<close>

definition unordered_cleared :: "Spec \<Rightarrow> Spec" where
  "unordered_cleared spec = spec
     \<lparr>CapAdd := None, CapDrop := None, Devices := None, ExtraHosts := None, GroupAdd := None,
      Tmpfs := None, Ulimits := None, Environment := None, Labels := None, ExposedPorts := None,
      Ports := None, Mounts := None, Sysctls := None\<rparr>"

definition same_strings :: "string slice \<Rightarrow> string slice \<Rightarrow> bool" where
  "same_strings v w \<longleftrightarrow> mset (items v) = mset (items w)"

definition sysctl_map :: "Spec \<Rightarrow> (string, string) fmap" where
  "sysctl_map spec = (case Sysctls spec of None \<Rightarrow> fmempty | Some m \<Rightarrow> m)"

definition same_up_to_order :: "Spec \<Rightarrow> Spec \<Rightarrow> bool" where
  "same_up_to_order l r \<longleftrightarrow>
     unordered_cleared l = unordered_cleared r \<and> sysctl_map l = sysctl_map r \<and>
     same_strings (CapAdd l) (CapAdd r) \<and> same_strings (CapDrop l) (CapDrop r) \<and>
     same_strings (ExtraHosts l) (ExtraHosts r) \<and> same_strings (GroupAdd l) (GroupAdd r) \<and>
     same_strings (Environment l) (Environment r) \<and> same_strings (Labels l) (Labels r) \<and>
     mset (items (Devices l)) = mset (items (Devices r)) \<and>
     mset (items (Tmpfs l)) = mset (items (Tmpfs r)) \<and>
     mset (items (Ulimits l)) = mset (items (Ulimits r)) \<and>
     mset (items (ExposedPorts l)) = mset (items (ExposedPorts r)) \<and>
     mset (items (Ports l)) = mset (items (Ports r)) \<and>
     mset (items (Mounts l)) = mset (items (Mounts r))"

lemmas canonical_slice_simps =
  Canonical_def Clone_def Let_def

lemma Canonical_cleared: "unordered_cleared (Canonical spec) = unordered_cleared spec"
  by (simp add: unordered_cleared_def canonical_slice_simps)

lemma Canonical_idem: "Canonical (Canonical spec) = Canonical spec"
  by (simp add: canonical_slice_simps canonicalStrings_idem device_order.canonicalSlice_idem
      tmpfs_order.canonicalSlice_idem ulimit_order.canonicalSlice_idem exposed_order.canonicalSlice_idem
      port_order.canonicalSlice_idem mount_order.canonicalSlice_idem split: option.splits if_splits)

lemma canonical_sysctls:
  "Sysctls (Canonical l) = Sysctls (Canonical r) \<longleftrightarrow> sysctl_map l = sysctl_map r"
  by (auto simp: canonical_slice_simps sysctl_map_def split: option.splits if_splits)

lemma Canonical_eqI:
  assumes "unordered_cleared l = unordered_cleared r"
    and "Sysctls (Canonical l) = Sysctls (Canonical r)"
    and "canonicalStrings (CapAdd l) = canonicalStrings (CapAdd r)"
    and "canonicalStrings (CapDrop l) = canonicalStrings (CapDrop r)"
    and "canonicalStrings (ExtraHosts l) = canonicalStrings (ExtraHosts r)"
    and "canonicalStrings (GroupAdd l) = canonicalStrings (GroupAdd r)"
    and "canonicalStrings (Environment l) = canonicalStrings (Environment r)"
    and "canonicalStrings (Labels l) = canonicalStrings (Labels r)"
    and "canonicalSlice (Devices l) compareDevice = canonicalSlice (Devices r) compareDevice"
    and "canonicalSlice (Tmpfs l) compareTmpfs = canonicalSlice (Tmpfs r) compareTmpfs"
    and "canonicalSlice (Ulimits l) compareUlimit = canonicalSlice (Ulimits r) compareUlimit"
    and "canonicalSlice (ExposedPorts l) compareExposedPort = canonicalSlice (ExposedPorts r) compareExposedPort"
    and "canonicalSlice (Ports l) comparePort = canonicalSlice (Ports r) comparePort"
    and "canonicalSlice (Mounts l) compareMount = canonicalSlice (Mounts r) compareMount"
  shows "Canonical l = Canonical r"
  using assms
  by (cases l; cases r) (simp add: unordered_cleared_def canonical_slice_simps)

text \<open>\<open>Canonical\<close> is idempotent.\<close>

lemma Canonical_fields:
  "canonicalStrings (CapAdd l) = CapAdd (Canonical l)"
  "canonicalStrings (CapDrop l) = CapDrop (Canonical l)"
  "canonicalStrings (ExtraHosts l) = ExtraHosts (Canonical l)"
  "canonicalStrings (GroupAdd l) = GroupAdd (Canonical l)"
  "canonicalStrings (Environment l) = Environment (Canonical l)"
  "canonicalStrings (Labels l) = Labels (Canonical l)"
  "canonicalSlice (Devices l) compareDevice = Devices (Canonical l)"
  "canonicalSlice (Tmpfs l) compareTmpfs = Tmpfs (Canonical l)"
  "canonicalSlice (Ulimits l) compareUlimit = Ulimits (Canonical l)"
  "canonicalSlice (ExposedPorts l) compareExposedPort = ExposedPorts (Canonical l)"
  "canonicalSlice (Ports l) comparePort = Ports (Canonical l)"
  "canonicalSlice (Mounts l) compareMount = Mounts (Canonical l)"
  by (simp_all add: canonical_slice_simps)

lemma Equivalent_same:
  assumes "Equivalent l r"
  shows "same_up_to_order l r"
proof -
  from assms have eq: "Canonical l = Canonical r" by (simp add: Equivalent_def)
  then have "unordered_cleared l = unordered_cleared r" by (metis Canonical_cleared)
  moreover from eq have "sysctl_map l = sysctl_map r" by (metis canonical_sysctls)
  ultimately show ?thesis
    unfolding same_up_to_order_def same_strings_def
    by (simp add: eq Canonical_fields flip: canonicalStrings_eq_iff)
      (metis eq Canonical_fields(7-12) device_order.canonicalSlice_eqD tmpfs_order.canonicalSlice_eqD
        ulimit_order.canonicalSlice_eqD exposed_order.canonicalSlice_eqD port_order.canonicalSlice_eqD
        mount_order.canonicalSlice_eqD)
qed

lemma same_Equivalent:
  assumes "same_up_to_order l r" and "inj_on tmpfs_key (set (items (Tmpfs l)))"
  shows "Equivalent l r"
  unfolding Equivalent_def
proof (rule Canonical_eqI)
  from assms(1) show "Sysctls (Canonical l) = Sysctls (Canonical r)"
    by (simp add: same_up_to_order_def canonical_sysctls)
qed (use assms key_injections in \<open>auto simp: same_up_to_order_def same_strings_def canonicalStrings_eq_iff
      intro!: device_order.canonicalSlice_cong tmpfs_order.canonicalSlice_cong
        ulimit_order.canonicalSlice_cong exposed_order.canonicalSlice_cong
        port_order.canonicalSlice_cong mount_order.canonicalSlice_cong
      intro: inj_on_subset\<close>)

end
