(* ===== verification/Domain.thy ===== *)
theory Domain
  imports Codec ContainerSpec "HOL-Library.AList"
begin

text \<open>
  The runtime-neutral values of \<open>src/internal/domain\<close>: digests in text form, runtime kinds, image
  identities, ownership labels, operator failures, and the resolution of a service configuration
  against the defaults of its image. The digest computations are in the theory \<open>WorkloadDigest\<close>.
\<close>

section \<open>Digests (digest.go)\<close>

definition digest_String :: "digest \<Rightarrow> string" where
  "digest_String d = ''sha256:'' @ hex_EncodeToString (word_bytes 32 d)"

definition ParseDigest :: "string \<Rightarrow> go_error + digest" where
  "ParseDigest value =
     (case cutPrefix value ''sha256:'' of
        None \<Rightarrow> Inl ErrInvalidDigest
      | Some encoded \<Rightarrow>
          if length encoded \<noteq> 64 \<or> encoded \<noteq> strings_ToLower encoded then Inl ErrInvalidDigest
          else (case hex_DecodeString encoded of
                  None \<Rightarrow> Inl ErrInvalidDigest
                | Some decoded \<Rightarrow> Inr (bytes_word decoded)))"

section \<open>Images (image.go)\<close>

datatype ImageOrigin = ImageOriginUnknown | ImageOriginRegistry | ImageOriginDockerArchive

definition origin_byte :: "ImageOrigin \<Rightarrow> byte" where
  "origin_byte k = (case k of ImageOriginUnknown \<Rightarrow> 0 | ImageOriginRegistry \<Rightarrow> 1 | ImageOriginDockerArchive \<Rightarrow> 2)"

record ImageIdentity =
  im_Origin :: ImageOrigin
  im_Reference :: string
  im_ReferenceDigest :: digest
  im_Platform :: Platform
  im_PlatformManifest :: digest
  im_ImageConfig :: digest
  im_User :: string
  im_Environment :: "string slice"
  im_Entrypoint :: "string slice"
  im_Command :: "string slice"
  im_ExposedPorts :: "ExposedPort slice"
  im_Volumes :: "string slice"
  im_WorkingDirectory :: string
  im_Labels :: "string slice"
  im_StopSignal :: string
  im_Healthcheck :: "Healthcheck option"

section \<open>Runtime kinds (runtime.go)\<close>

datatype RuntimeKind = RuntimeDocker | RuntimePodman | RuntimeContainerd | RuntimeOther string

definition kind_String :: "RuntimeKind \<Rightarrow> string" where
  "kind_String k = (case k of RuntimeDocker \<Rightarrow> ''docker'' | RuntimePodman \<Rightarrow> ''podman''
     | RuntimeContainerd \<Rightarrow> ''containerd'' | RuntimeOther s \<Rightarrow> s)"

definition ParseRuntimeKind :: "string \<Rightarrow> RuntimeKind \<times> bool" where
  "ParseRuntimeKind value =
     (if value = ''docker'' then (RuntimeDocker, True)
      else if value = ''podman'' then (RuntimePodman, True)
      else if value = ''containerd'' then (RuntimeContainerd, True)
      else (RuntimeOther '''', False))"

definition SupportsWorkloads :: "RuntimeKind \<Rightarrow> bool" where
  "SupportsWorkloads kind \<longleftrightarrow> kind = RuntimeDocker \<or> kind = RuntimePodman \<or> kind = RuntimeContainerd"

section \<open>Ownership labels (ownership.go)\<close>

definition IsOwnershipLabel :: "string \<Rightarrow> bool" where
  "IsOwnershipLabel value \<longleftrightarrow>
     value \<in> set [''io.maniud.service'', ''io.maniud.transaction'', ''io.maniud.desired-state-digest'',
       ''io.maniud.reference-digest'', ''io.maniud.image-config-digest'',
       ''io.maniud.platform-manifest-digest'']"

datatype OwnershipStatus = OwnershipConflicting | OwnershipUnmanaged | OwnershipManaged

record WorkloadOwnership =
  ow_Status :: OwnershipStatus
  ow_Service :: string
  ow_Transaction :: string
  ow_DesiredState :: digest
  ow_Reference :: digest
  ow_ImageConfig :: digest
  ow_PlatformManifest :: digest

definition Matches :: "WorkloadOwnership \<Rightarrow> string \<Rightarrow> string \<Rightarrow> digest \<Rightarrow> digest \<Rightarrow> bool" where
  "Matches ownership service transaction desiredState reference \<longleftrightarrow>
     ow_Status ownership = OwnershipManaged \<and> ow_Service ownership = service \<and>
     ow_Transaction ownership = transaction \<and> ow_DesiredState ownership = desiredState \<and>
     ow_Reference ownership = reference"

section \<open>Operator failures (failure.go)\<close>

datatype ErrorCode = ErrorInvalidInput | ErrorOperationCancelled | ErrorApplyFailed
  | ErrorGenerationFailed | ErrorRuntimeNotBuilt | ErrorInternal

record FailureError =
  fe_code :: ErrorCode
  fe_message :: string
  fe_retryable :: bool
  fe_exitStatus :: int

definition InvalidInput :: FailureError where
  "InvalidInput = \<lparr>fe_code = ErrorInvalidInput,
     fe_message = ''command arguments are invalid; run 'maniud --help' for supported syntax'',
     fe_retryable = False, fe_exitStatus = 1\<rparr>"

definition OperationCancelled :: FailureError where
  "OperationCancelled = \<lparr>fe_code = ErrorOperationCancelled,
     fe_message = ''operation interrupted; rerun the same command to resume'',
     fe_retryable = False, fe_exitStatus = 130\<rparr>"

definition ApplyFailed :: "bool \<Rightarrow> FailureError" where
  "ApplyFailed retryable = \<lparr>fe_code = ErrorApplyFailed, fe_message = ''apply validation failed'',
     fe_retryable = retryable, fe_exitStatus = 1\<rparr>"

definition GenerationFailed :: "bool \<Rightarrow> FailureError" where
  "GenerationFailed retryable = \<lparr>fe_code = ErrorGenerationFailed, fe_message = ''Compose generation failed'',
     fe_retryable = retryable, fe_exitStatus = 1\<rparr>"

definition RuntimeNotBuilt :: FailureError where
  "RuntimeNotBuilt = \<lparr>fe_code = ErrorRuntimeNotBuilt,
     fe_message = ''selected container runtime is not included in this build'',
     fe_retryable = False, fe_exitStatus = 1\<rparr>"

definition CommandUnavailable :: FailureError where
  "CommandUnavailable = \<lparr>fe_code = ErrorInternal, fe_message = ''command is unavailable in this build'',
     fe_retryable = False, fe_exitStatus = 1\<rparr>"

section \<open>Workloads (workload.go, workload\_spec.go)\<close>

record RuntimeMount =
  rm_Kind :: MountKind
  rm_Name :: string
  rm_Source :: string
  rm_Target :: string
  rm_ReadOnly :: bool

record DesiredWorkload =
  dw_Spec :: Spec
  dw_Image :: ImageIdentity
  dw_SourceDigest :: digest
  dw_EffectiveDigest :: digest

section \<open>Resolution against image defaults (workload\_resolve.go)\<close>

text \<open>
  The code collects merged values in a Go map, whose iteration order is unspecified. A map is an
  association list here, and the order in which \<open>maps.Values\<close> and \<open>maps.Keys\<close> deliver is a
  parameter: one rearrangement for each of the four collected slices.
\<close>

record map_order =
  mo_environment :: "string list \<Rightarrow> string list"
  mo_labels :: "string list \<Rightarrow> string list"
  mo_ports :: "ExposedPort list \<Rightarrow> ExposedPort list"
  mo_mounts :: "Mount list \<Rightarrow> Mount list"

definition slices_Collect :: "'a list \<Rightarrow> 'a slice" where
  "slices_Collect xs = (if xs = [] then None else Some xs)"

definition map_values :: "('k \<times> 'v) list \<Rightarrow> 'v list" where
  "map_values m = map snd m"

fun merge_image_value :: "string \<Rightarrow> (string \<times> string) list \<Rightarrow> (string \<times> string) list" where
  "merge_image_value value values =
     (case strings_Cut value CHR ''='' of (key, _, _) \<Rightarrow>
        if \<not> IsOwnershipLabel key then AList.update key value values else values)"

fun merge_service_value :: "bool \<Rightarrow> string \<Rightarrow> (string \<times> string) list \<Rightarrow> (string \<times> string) list" where
  "merge_service_value unsetWithoutValue value values =
     (case strings_Cut value CHR ''='' of (key, selected, found) \<Rightarrow>
        if IsOwnershipLabel key then values
        else if \<not> found \<and> unsetWithoutValue then AList.delete key values
        else AList.update key (key @ ''='' @ selected) values)"

definition mergeImageKeyValues :: "(string list \<Rightarrow> string list) \<Rightarrow> string slice \<Rightarrow> string slice \<Rightarrow> bool \<Rightarrow> string slice" where
  "mergeImageKeyValues order img service unsetWithoutValue =
     (let values = fold merge_image_value (items img) [];
          values = fold (merge_service_value unsetWithoutValue) (items service) values
      in slices_Collect (order (map_values values)))"

definition mergeExposedPorts ::
  "(ExposedPort list \<Rightarrow> ExposedPort list) \<Rightarrow> ExposedPort slice \<Rightarrow> ExposedPort slice \<Rightarrow> PortBinding slice \<Rightarrow> ExposedPort slice" where
  "mergeExposedPorts order img service published =
     (let values = fold List.insert (items img) [];
          values = fold List.insert (items service) values;
          values = fold (\<lambda>v. List.insert \<lparr>ep_TargetPort = pb_TargetPort v, ep_Protocol = pb_Protocol v\<rparr>)
                     (items published) values
      in slices_Collect (order values))"

definition mergeImageVolumes :: "(Mount list \<Rightarrow> Mount list) \<Rightarrow> string slice \<Rightarrow> Mount slice \<Rightarrow> Mount slice" where
  "mergeImageVolumes order img service =
     (let values = fold (\<lambda>target. AList.update target
                     \<lparr>mt_Kind = MountVolume, mt_Source = '''', mt_Target = target, mt_ReadOnly = False\<rparr>)
                     (items img) [];
          values = fold (\<lambda>v. AList.update (mt_Target v) v) (items service) values
      in slices_Collect (order (map_values values)))"

definition ResolveWorkloadSpec :: "map_order \<Rightarrow> Spec \<Rightarrow> ImageIdentity \<Rightarrow> Spec" where
  "ResolveWorkloadSpec order spec img =
     (let spec = Clone spec;
          spec = (if Entrypoint spec = None then spec\<lparr>Entrypoint := im_Entrypoint img\<rparr> else spec);
          spec = (if Command spec = None then spec\<lparr>Command := im_Command img\<rparr> else spec);
          spec = (if User spec = '''' then spec\<lparr>User := im_User img\<rparr> else spec);
          spec = (if WorkingDirectory spec = '''' then spec\<lparr>WorkingDirectory := im_WorkingDirectory img\<rparr> else spec);
          spec = (if StopSignal spec = '''' then spec\<lparr>StopSignal := im_StopSignal img\<rparr> else spec);
          spec = (if SpecHealthcheck spec = None then spec\<lparr>SpecHealthcheck := im_Healthcheck img\<rparr> else spec);
          spec = spec\<lparr>Environment := mergeImageKeyValues (mo_environment order) (im_Environment img) (Environment spec) True\<rparr>;
          spec = spec\<lparr>Labels := mergeImageKeyValues (mo_labels order) (im_Labels img) (Labels spec) False\<rparr>;
          spec = spec\<lparr>ExposedPorts := mergeExposedPorts (mo_ports order) (im_ExposedPorts img) (ExposedPorts spec) (Ports spec)\<rparr>;
          spec = spec\<lparr>Mounts := mergeImageVolumes (mo_mounts order) (im_Volumes img) (Mounts spec)\<rparr>
      in Canonical spec)"

section \<open>The text form of a digest\<close>

lemma ParseDigest_exact: "ParseDigest value = Inr d \<longleftrightarrow> value = digest_String d"
proof
  assume "ParseDigest value = Inr d"
  then obtain enc bs where v: "cutPrefix value ''sha256:'' = Some enc" "length enc = 64"
      "strings_ToLower enc = enc" "hex_DecodeString enc = Some bs" and d: "d = bytes_word bs"
    by (auto simp: ParseDigest_def split: option.splits if_splits)
  have "length bs = 32" using hex_decode_length [OF v(4)] v(2) by simp
  then have "word_bytes 32 d = bs" unfolding d by (intro word_bytes_bytes_word) simp_all
  then have "digest_String d = ''sha256:'' @ enc"
    using hex_encode_decode [OF v(4) v(3)] by (simp add: digest_String_def)
  then show "value = digest_String d" using v(1) by (simp add: cutPrefix_Some_iff)
next
  assume "value = digest_String d"
  moreover have "cutPrefix (digest_String d) ''sha256:'' = Some (hex_EncodeToString (word_bytes 32 d))"
    by (simp only: cutPrefix_Some_iff digest_String_def)
  ultimately show "ParseDigest value = Inr d"
    by (simp add: ParseDigest_def strings_ToLower_hex hex_decode_encode bytes_word_bytes)
qed

lemma ParseDigest_printed [simp]: "ParseDigest (digest_String d) = Inr d"
  by (simp add: ParseDigest_exact)

lemma digest_String_inj [simp]: "digest_String d = digest_String e \<longleftrightarrow> d = e"
  using ParseDigest_printed by (metis sum.inject(2))

text \<open>
  Parsing accepts exactly the printed form of a digest: \<open>ParseDigest\<close> returns a digest for a
  string if and only if the string is what \<open>String\<close> prints for that digest. In particular printing
  then parsing is the identity, and no second spelling of a digest is accepted.
\<close>

theorem ParseDigest_iff_String: "ParseDigest value = Inr d \<longleftrightarrow> value = digest_String d"
  by (rule ParseDigest_exact)

section \<open>What resolution merges\<close>

text \<open>
  The reference reading of a merge: a key takes the service's last entry for it, else the image's last
  entry; an entry without a value unsets the key where that is allowed; reserved keys never appear.
\<close>

definition entry_key :: "string \<Rightarrow> string" where
  "entry_key value = fst (strings_Cut value CHR ''='')"

fun last_entry :: "string \<Rightarrow> string list \<Rightarrow> string option" where
  "last_entry k [] = None"
| "last_entry k (v # vs) =
     (case last_entry k vs of Some w \<Rightarrow> Some w | None \<Rightarrow> if entry_key v = k then Some v else None)"

definition service_entry :: "bool \<Rightarrow> string \<Rightarrow> string option" where
  "service_entry unset value = (case strings_Cut value CHR ''='' of (key, selected, found) \<Rightarrow>
     if \<not> found \<and> unset then None else Some (key @ ''='' @ selected))"

definition merged_value :: "bool \<Rightarrow> string list \<Rightarrow> string list \<Rightarrow> string \<Rightarrow> string option" where
  "merged_value unset img service k =
     (if IsOwnershipLabel k then None
      else case last_entry k service of Some v \<Rightarrow> service_entry unset v | None \<Rightarrow> last_entry k img)"

lemma last_entry_key: "last_entry k vs = Some v \<Longrightarrow> entry_key v = k"
  by (induction vs) (auto split: option.splits if_splits)

lemma service_entry_key: "service_entry u v = Some w \<Longrightarrow> entry_key w = entry_key v"
proof -
  assume a: "service_entry u v = Some w"
  obtain b s f where c: "strings_Cut v CHR ''='' = (b, s, f)" by (cases "strings_Cut v CHR ''=''") auto
  then have "CHR ''='' \<notin> set b" by (cases f) (auto dest: strings_Cut_found strings_Cut_missing)
  then have "entry_key (b @ ''='' @ s) = b" by (simp add: entry_key_def strings_Cut_append)
  with a c show ?thesis by (auto simp: service_entry_def entry_key_def split: if_splits)
qed

lemma merged_value_key: "merged_value u i s k = Some v \<Longrightarrow> entry_key v = k"
  by (auto simp: merged_value_def split: if_splits option.splits dest!: last_entry_key service_entry_key)

lemma map_of_merge_image:
  "map_of (fold merge_image_value vs m) k =
     (if IsOwnershipLabel k then map_of m k
      else case last_entry k vs of Some v \<Rightarrow> Some v | None \<Rightarrow> map_of m k)"
  by (induction vs arbitrary: m)
    (auto simp: entry_key_def AList.update_conv' split: option.splits prod.splits)

lemma map_of_merge_service:
  "map_of (fold (merge_service_value u) vs m) k =
     (if IsOwnershipLabel k then map_of m k
      else case last_entry k vs of Some v \<Rightarrow> service_entry u v | None \<Rightarrow> map_of m k)"
  by (induction vs arbitrary: m)
    (auto simp: entry_key_def service_entry_def AList.update_conv' AList.delete_conv'
      split: option.splits prod.splits)

lemma distinct_merge_image: "distinct (map fst m) \<Longrightarrow> distinct (map fst (fold merge_image_value vs m))"
  by (induction vs arbitrary: m) (auto simp: AList.distinct_update split: prod.splits)

lemma distinct_merge_service:
  "distinct (map fst m) \<Longrightarrow> distinct (map fst (fold (merge_service_value u) vs m))"
  by (induction vs arbitrary: m) (auto simp: AList.distinct_update AList.distinct_delete split: prod.splits)

lemma items_slices_Collect [simp]: "items (slices_Collect xs) = xs"
  by (simp add: slices_Collect_def)

lemma mergeImageKeyValues_spec:
  assumes "\<forall>xs. mset (order xs) = mset xs"
    and res_def: "res = items (mergeImageKeyValues order img service u)"
  shows "distinct (map entry_key res)"
    and "v \<in> set res \<longleftrightarrow> merged_value u (items img) (items service) (entry_key v) = Some v"
proof -
  define m where "m = fold (merge_service_value u) (items service) (fold merge_image_value (items img) [])"
  have lookup: "map_of m = merged_value u (items img) (items service)"
    by (rule ext) (auto simp: m_def map_of_merge_service map_of_merge_image merged_value_def split: option.splits)
  have dist: "distinct (map fst m)"
    unfolding m_def by (intro distinct_merge_service distinct_merge_image) simp
  have res: "mset res = mset (map snd m)"
    using assms(1) by (simp add: res_def mergeImageKeyValues_def m_def map_values_def Let_def)
  have key: "entry_key v = k" if "(k, v) \<in> set m" for k v
    using that dist lookup by (metis map_of_is_SomeI merged_value_key)
  then have "map entry_key (map snd m) = map fst m" by auto
  with dist res show "distinct (map entry_key res)" by (metis distinct_map mset_eq_imp_distinct_iff mset_map)
  have "v \<in> set res \<longleftrightarrow> (\<exists>k. (k, v) \<in> set m)" using mset_eq_setD [OF res] by (force simp: image_iff)
  also have "\<dots> \<longleftrightarrow> map_of m (entry_key v) = Some v"
    using key dist by (metis map_of_SomeD map_of_is_SomeI)
  finally show "v \<in> set res \<longleftrightarrow> merged_value u (items img) (items service) (entry_key v) = Some v"
    by (simp add: lookup)
qed

text \<open>
  Whatever order a map is iterated in, it delivers every element exactly once.
\<close>

definition iteration_order :: "map_order \<Rightarrow> bool" where
  "iteration_order order \<longleftrightarrow>
     (\<forall>xs. mset (mo_environment order xs) = mset xs) \<and> (\<forall>xs. mset (mo_labels order xs) = mset xs) \<and>
     (\<forall>xs. mset (mo_ports order xs) = mset xs) \<and> (\<forall>xs. mset (mo_mounts order xs) = mset xs)"

lemma set_canonicalStrings [simp]: "set (items (canonicalStrings v)) = set (items v)"
  by (simp add: canonicalStrings_def)

lemma Resolve_Environment:
  "Environment (ResolveWorkloadSpec order spec img) =
     canonicalStrings (mergeImageKeyValues (mo_environment order) (im_Environment img) (Environment spec) True)"
  by (simp add: ResolveWorkloadSpec_def Clone_def Let_def Canonical_fields [symmetric])

lemma Resolve_Labels:
  "Labels (ResolveWorkloadSpec order spec img) =
     canonicalStrings (mergeImageKeyValues (mo_labels order) (im_Labels img) (Labels spec) False)"
  by (simp add: ResolveWorkloadSpec_def Clone_def Let_def Canonical_fields [symmetric])

text \<open>
  Resolution of environment variables and labels: each key occurs once in the result, and a value
  occurs exactly when the merge selects it for its key: the service's last entry for the key, else the
  image's last entry, an environment entry without a value unsetting the key, and a key reserved for
  ownership labels never. This holds for every iteration order of the intermediate maps.
\<close>

theorem resolved_key_values:
  assumes "iteration_order order"
  shows "let env = items (Environment (ResolveWorkloadSpec order spec img));
        labels = items (Labels (ResolveWorkloadSpec order spec img)) in
    distinct (map entry_key env) \<and> distinct (map entry_key labels) \<and>
    (\<forall>v. v \<in> set env \<longleftrightarrow>
       merged_value True (items (im_Environment img)) (items (Environment spec)) (entry_key v) = Some v) \<and>
    (\<forall>v. v \<in> set labels \<longleftrightarrow>
       merged_value False (items (im_Labels img)) (items (Labels spec)) (entry_key v) = Some v)"
proof -
  have o: "\<forall>xs. mset (mo_environment order xs) = mset xs" "\<forall>xs. mset (mo_labels order xs) = mset xs"
    using assms(1) by (simp_all add: iteration_order_def)
  have "distinct (map entry_key (items (canonicalStrings v))) \<longleftrightarrow> distinct (map entry_key (items v))" for v
    by (rule mset_eq_imp_distinct_iff) (simp add: canonicalStrings_def)
  then show ?thesis
    unfolding Let_def Resolve_Environment Resolve_Labels
    using mergeImageKeyValues_spec [OF o(1) refl] mergeImageKeyValues_spec [OF o(2) refl] by simp
qed

definition plain_order :: map_order where
  "plain_order = \<lparr>mo_environment = \<lambda>xs. xs, mo_labels = rev, mo_ports = \<lambda>xs. xs, mo_mounts = rev\<rparr>"

lemma plain_order_iterates: "iteration_order plain_order"
  by (simp add: iteration_order_def plain_order_def)

text \<open>The zero values of the two structures, for concrete examples.\<close>

definition zero_platform :: Platform where
  "zero_platform = \<lparr>pf_OS = '''', pf_Architecture = '''', pf_Variant = ''''\<rparr>"

definition zero_spec :: Spec where
  "zero_spec = \<lparr>ServiceName = '''', ContainerName = '''', SpecPlatform = zero_platform,
     Entrypoint = None, Command = None, NetworkMode = '''', BlkioWeight = None, CgroupParent = '''',
     Cgroup = '''', CPUs = '''', Hostname = '''', MemoryBytes = 0, OOMScoreAdj = None, PidsLimit = None,
     Restart = '''', SharedMemoryBytes = 0, StopSignal = '''', StopTimeout = None, User = '''',
     WorkingDirectory = '''', CapAdd = None, CapDrop = None, DNS = None, DNSOptions = None,
     DNSSearch = None, Devices = None, ExtraHosts = None, GroupAdd = None, Sysctls = None, Tmpfs = None,
     Ulimits = None, Environment = None, Labels = None, ExposedPorts = None, Ports = None,
     NoNewPrivileges = False, Mounts = None, Init = None, StdinOpen = None, OOMKillDisable = None,
     ReadOnly = None, TTY = None, SpecHealthcheck = None\<rparr>"

definition zero_image :: ImageIdentity where
  "zero_image = \<lparr>im_Origin = ImageOriginUnknown, im_Reference = '''', im_ReferenceDigest = 0,
     im_Platform = zero_platform, im_PlatformManifest = 0, im_ImageConfig = 0, im_User = '''',
     im_Environment = None, im_Entrypoint = None, im_Command = None, im_ExposedPorts = None,
     im_Volumes = None, im_WorkingDirectory = '''', im_Labels = None, im_StopSignal = '''',
     im_Healthcheck = None\<rparr>"

theorem resolved_key_values_witness:
  "''A=2'' \<in> set (items (Environment (ResolveWorkloadSpec plain_order
       (zero_spec\<lparr>Environment := Some [''A=2'', ''B'']\<rparr>)
       (zero_image\<lparr>im_Environment := Some [''A=1'', ''B=1'']\<rparr>))))"
  using resolved_key_values [OF plain_order_iterates,
      of "zero_spec\<lparr>Environment := Some [''A=2'', ''B'']\<rparr>" "zero_image\<lparr>im_Environment := Some [''A=1'', ''B=1'']\<rparr>"]
  by (simp add: Let_def merged_value_def entry_key_def IsOwnershipLabel_def service_entry_def)

lemma mergeImageVolumes_mset:
  "\<forall>xs. mset (order xs) = mset xs \<Longrightarrow> \<forall>xs. mset (order' xs) = mset xs \<Longrightarrow>
   mset (items (mergeImageVolumes order i s)) = mset (items (mergeImageVolumes order' i s))"
  by (simp add: mergeImageVolumes_def Let_def)

lemma mergeExposedPorts_mset:
  "\<forall>xs. mset (order xs) = mset xs \<Longrightarrow> \<forall>xs. mset (order' xs) = mset xs \<Longrightarrow>
   mset (items (mergeExposedPorts order i s p)) = mset (items (mergeExposedPorts order' i s p))"
  by (simp add: mergeExposedPorts_def Let_def)

lemma mergeImageKeyValues_mset:
  "\<forall>xs. mset (order xs) = mset xs \<Longrightarrow> \<forall>xs. mset (order' xs) = mset xs \<Longrightarrow>
   mset (items (mergeImageKeyValues order i s u)) = mset (items (mergeImageKeyValues order' i s u))"
  by (simp add: mergeImageKeyValues_def Let_def)

text \<open>
  Resolution is deterministic although it collects values from Go maps: any two iteration orders
  give the same resolved specification.
\<close>

theorem ResolveWorkloadSpec_deterministic:
  assumes "iteration_order order" and "iteration_order order'"
  shows "ResolveWorkloadSpec order spec img = ResolveWorkloadSpec order' spec img"
  unfolding ResolveWorkloadSpec_def Let_def
proof (rule Canonical_eqI)
qed (use assms key_injections in \<open>auto simp: iteration_order_def unordered_cleared_def canonicalStrings_eq_iff
      canonical_sysctls sysctl_map_def Clone_def
      intro!: exposed_order.canonicalSlice_cong mount_order.canonicalSlice_cong
        mergeImageVolumes_mset mergeExposedPorts_mset mergeImageKeyValues_mset
      intro: inj_on_subset\<close>)

theorem ResolveWorkloadSpec_deterministic_witness:
  "ResolveWorkloadSpec plain_order zero_spec (zero_image\<lparr>im_Volumes := Some [''/a'', ''/b'']\<rparr>) =
   ResolveWorkloadSpec (plain_order\<lparr>mo_mounts := \<lambda>xs. xs\<rparr>) zero_spec (zero_image\<lparr>im_Volumes := Some [''/a'', ''/b'']\<rparr>)"
  by (rule ResolveWorkloadSpec_deterministic) (simp_all add: iteration_order_def plain_order_def)



end
