(* ===== verification/WorkloadDigest.thy ===== *)
theory WorkloadDigest
  imports Domain
begin

text \<open>
  The digests of \<open>src/internal/domain/workload_digest.go\<close>. Every \<open>append\<close> function of the file is a
  definition of the same name; the interpretations of \<open>field_code\<close> show that each writes a field that
  can be told apart from what follows, and so that equal digests mean equal fields unless the two
  encodings collide under the hash. \<open>ComputeStorageDigest\<close> is characterised as the acceptance of
  exactly the observations that match the desired mounts.
\<close>

section \<open>Field encoders\<close>

definition appendString :: "bytes \<Rightarrow> string \<Rightarrow> bytes" where
  "appendString encoded value = AppendUvarint encoded (length value) @ string_bytes value"

definition appendStrings :: "bytes \<Rightarrow> string slice \<Rightarrow> bytes" where
  "appendStrings encoded values =
     (case values of None \<Rightarrow> encoded @ [0]
      | Some vs \<Rightarrow> foldl appendString (AppendUvarint (encoded @ [1]) (length vs)) vs)"

definition appendOptionalInteger :: "bytes \<Rightarrow> i64 option \<Rightarrow> bytes" where
  "appendOptionalInteger encoded value =
     (case value of None \<Rightarrow> encoded @ [0] | Some i \<Rightarrow> AppendVarint (encoded @ [1]) i)"

definition appendBool :: "bytes \<Rightarrow> bool \<Rightarrow> bytes" where
  "appendBool encoded value = (if value then encoded @ [1] else encoded @ [0])"

definition appendOptionalBool :: "bytes \<Rightarrow> bool option \<Rightarrow> bytes" where
  "appendOptionalBool encoded value =
     (case value of None \<Rightarrow> encoded @ [0] | Some b \<Rightarrow> if b then encoded @ [2] else encoded @ [1])"

definition appendPlatform :: "bytes \<Rightarrow> Platform \<Rightarrow> bytes" where
  "appendPlatform encoded platform =
     appendString (appendString (appendString encoded (pf_OS platform)) (pf_Architecture platform)) (pf_Variant platform)"

definition append_device :: "bytes \<Rightarrow> DeviceMapping \<Rightarrow> bytes" where
  "append_device encoded value =
     appendString (appendString (appendString encoded (dev_Source value)) (dev_Target value)) (dev_Permissions value)"

definition appendDevices :: "bytes \<Rightarrow> DeviceMapping slice \<Rightarrow> bytes" where
  "appendDevices encoded values = append_counted append_device encoded (items values)"

definition append_exposed :: "bytes \<Rightarrow> ExposedPort \<Rightarrow> bytes" where
  "append_exposed encoded value = appendString (AppendUvarint encoded (unat (ep_TargetPort value))) (ep_Protocol value)"

definition appendExposedPorts :: "bytes \<Rightarrow> ExposedPort slice \<Rightarrow> bytes" where
  "appendExposedPorts encoded values = append_counted append_exposed encoded (items values)"

definition append_pair :: "bytes \<Rightarrow> string \<times> string \<Rightarrow> bytes" where
  "append_pair encoded p = appendString (appendString encoded (fst p)) (snd p)"

definition map_pairs :: "(string, string) fmap \<Rightarrow> (string \<times> string) list" where
  "map_pairs m = map (\<lambda>k. (k, case fmlookup m k of None \<Rightarrow> '''' | Some v \<Rightarrow> v)) (sorted_list_of_fset (fmdom m))"

definition appendStringMap :: "bytes \<Rightarrow> (string, string) fmap option \<Rightarrow> bytes" where
  "appendStringMap encoded values =
     (case values of None \<Rightarrow> encoded @ [0]
      | Some m \<Rightarrow> append_counted append_pair (encoded @ [1]) (map_pairs m))"

definition append_tmpfs :: "bytes \<Rightarrow> TmpfsMount \<Rightarrow> bytes" where
  "append_tmpfs encoded value = appendStrings (appendString encoded (tm_Target value)) (tm_Options value)"

definition appendTmpfs :: "bytes \<Rightarrow> TmpfsMount slice \<Rightarrow> bytes" where
  "appendTmpfs encoded values = append_counted append_tmpfs encoded (items values)"

definition append_ulimit :: "bytes \<Rightarrow> Ulimit \<Rightarrow> bytes" where
  "append_ulimit encoded value =
     AppendVarint (AppendVarint (appendString encoded (ul_Name value)) (ul_Soft value)) (ul_Hard value)"

definition appendUlimits :: "bytes \<Rightarrow> Ulimit slice \<Rightarrow> bytes" where
  "appendUlimits encoded values = append_counted append_ulimit encoded (items values)"

definition append_port :: "bytes \<Rightarrow> PortBinding \<Rightarrow> bytes" where
  "append_port encoded value =
     appendString (AppendUvarint (AppendUvarint (appendString encoded (pb_HostIP value))
       (unat (pb_PublishedPort value))) (unat (pb_TargetPort value))) (pb_Protocol value)"

definition appendPorts :: "bytes \<Rightarrow> PortBinding slice \<Rightarrow> bytes" where
  "appendPorts encoded values = append_counted append_port encoded (items values)"

definition mount_kind_byte :: "MountKind \<Rightarrow> byte" where
  "mount_kind_byte k = word_of_nat (mount_kind_nat k)"

definition append_mount :: "bytes \<Rightarrow> Mount \<Rightarrow> bytes" where
  "append_mount encoded value =
     appendBool (appendString (appendString (encoded @ [mount_kind_byte (mt_Kind value)])
       (mt_Source value)) (mt_Target value)) (mt_ReadOnly value)"

definition appendMounts :: "bytes \<Rightarrow> Mount slice \<Rightarrow> bytes" where
  "appendMounts encoded values = append_counted append_mount encoded (items values)"

definition append_health :: "bytes \<Rightarrow> Healthcheck \<Rightarrow> bytes" where
  "append_health encoded value =
     (let encoded = appendStrings encoded (hc_Test value);
          encoded = appendString encoded (hc_Interval value);
          encoded = appendString encoded (hc_Timeout value);
          encoded = appendOptionalInteger encoded (hc_Retries value);
          encoded = appendString encoded (hc_StartPeriod value);
          encoded = appendString encoded (hc_StartInterval value)
      in appendBool encoded (hc_Disabled value))"

definition appendHealthcheck :: "bytes \<Rightarrow> Healthcheck option \<Rightarrow> bytes" where
  "appendHealthcheck encoded value =
     (case value of None \<Rightarrow> encoded @ [0] | Some h \<Rightarrow> append_health (encoded @ [1]) h)"

definition appendWorkloadOptions :: "bytes \<Rightarrow> Spec \<Rightarrow> bytes" where
  "appendWorkloadOptions encoded spec =
     (let encoded = appendOptionalBool encoded (Init spec);
          encoded = appendOptionalBool encoded (StdinOpen spec);
          encoded = appendOptionalBool encoded (OOMKillDisable spec);
          encoded = appendOptionalBool encoded (ReadOnly spec);
          encoded = appendOptionalBool encoded (TTY spec)
      in appendHealthcheck encoded (SpecHealthcheck spec))"

definition appendWorkloadSpec :: "bytes \<Rightarrow> Spec \<Rightarrow> bytes" where
  "appendWorkloadSpec encoded spec =
     (let encoded = appendString encoded (ServiceName spec);
          encoded = appendString encoded (ContainerName spec);
          encoded = appendPlatform encoded (SpecPlatform spec);
          encoded = appendStrings encoded (Entrypoint spec);
          encoded = appendStrings encoded (Command spec);
          encoded = appendString encoded (NetworkMode spec);
          encoded = appendOptionalInteger encoded (BlkioWeight spec);
          encoded = appendString encoded (CgroupParent spec);
          encoded = appendString encoded (Cgroup spec);
          encoded = appendString encoded (CPUs spec);
          encoded = appendString encoded (Hostname spec);
          encoded = AppendVarint encoded (MemoryBytes spec);
          encoded = appendOptionalInteger encoded (OOMScoreAdj spec);
          encoded = appendOptionalInteger encoded (PidsLimit spec);
          encoded = appendString encoded (Restart spec);
          encoded = AppendVarint encoded (SharedMemoryBytes spec);
          encoded = appendString encoded (StopSignal spec);
          encoded = appendOptionalInteger encoded (StopTimeout spec);
          encoded = appendString encoded (User spec);
          encoded = appendString encoded (WorkingDirectory spec);
          encoded = appendStrings encoded (CapAdd spec);
          encoded = appendStrings encoded (CapDrop spec);
          encoded = appendStrings encoded (DNS spec);
          encoded = appendStrings encoded (DNSOptions spec);
          encoded = appendStrings encoded (DNSSearch spec);
          encoded = appendDevices encoded (Devices spec);
          encoded = appendStrings encoded (ExtraHosts spec);
          encoded = appendStrings encoded (GroupAdd spec);
          encoded = appendStringMap encoded (Sysctls spec);
          encoded = appendTmpfs encoded (Tmpfs spec);
          encoded = appendUlimits encoded (Ulimits spec);
          encoded = appendStrings encoded (Environment spec);
          encoded = appendStrings encoded (Labels spec);
          encoded = appendExposedPorts encoded (ExposedPorts spec);
          encoded = appendPorts encoded (Ports spec);
          encoded = appendBool encoded (NoNewPrivileges spec);
          encoded = appendMounts encoded (Mounts spec)
      in appendWorkloadOptions encoded spec)"

definition appendImageIdentity :: "bytes \<Rightarrow> ImageIdentity \<Rightarrow> bytes" where
  "appendImageIdentity encoded img =
     (let encoded = encoded @ [origin_byte (im_Origin img)];
          encoded = appendString encoded (im_Reference img);
          encoded = append_digest encoded (im_ReferenceDigest img);
          encoded = appendPlatform encoded (im_Platform img);
          encoded = append_digest encoded (im_PlatformManifest img)
      in append_digest encoded (im_ImageConfig img))"

definition ComputeWorkloadSpecDigest :: "hash \<Rightarrow> Spec \<Rightarrow> digest" where
  "ComputeWorkloadSpecDigest H spec =
     (let spec = spec\<lparr>ServiceName := '''', ContainerName := '''',
            SpecPlatform := \<lparr>pf_OS = '''', pf_Architecture = '''', pf_Variant = ''''\<rparr>\<rparr>
      in H (appendWorkloadSpec [1] spec))"

definition ComputeEffectiveDigest :: "hash \<Rightarrow> DesiredWorkload \<Rightarrow> digest" where
  "ComputeEffectiveDigest H workload =
     H (appendImageIdentity (appendWorkloadSpec [1] (dw_Spec workload)) (dw_Image workload))"

section \<open>Every encoder is a field code\<close>

lemma map_option_same: "map_option (\<lambda>x. x) = (\<lambda>x. x)"
  by (rule ext) (simp add: option.map_ident)

lemma appendString_prefixed: "appendString = append_prefixed"
  by (intro ext) (simp add: appendString_def append_prefixed_def)

interpretation str: field_code appendString "\<lambda>x. x"
  unfolding appendString_prefixed by (rule prefixed.field_code_axioms)

lemma appendStrings_eq: "appendStrings = append_option (append_counted appendString)"
  by (intro ext) (simp add: appendStrings_def append_option_def append_counted_def split: option.splits)

interpretation strs: field_code appendStrings "\<lambda>x. x"
  using field_code.option_code [OF str.counted_code] by (simp add: appendStrings_eq map_option_same)

lemma appendOptionalInteger_eq: "appendOptionalInteger = append_option AppendVarint"
  by (intro ext) (simp add: appendOptionalInteger_def append_option_def)

interpretation opt_int: field_code appendOptionalInteger "\<lambda>x. x"
  using varint.option_code by (simp add: appendOptionalInteger_eq map_option_same)

interpretation bool_code: field_code appendBool "\<lambda>x. x"
  by unfold_locales (auto simp: appendBool_def split: if_splits)

interpretation opt_bool: field_code appendOptionalBool "\<lambda>x. x"
  by unfold_locales (auto simp: appendOptionalBool_def split: option.splits if_splits)

lemmas basic_appends = code_appends str.appends_nonempty strs.appends_nonempty opt_int.appends_nonempty
  bool_code.appends_nonempty opt_bool.appends_nonempty

lemmas basic_delimits = code_delimits str.self_delimiting strs.self_delimiting opt_int.self_delimiting
  bool_code.self_delimiting opt_bool.self_delimiting

interpretation platform: field_code appendPlatform "\<lambda>x. x"
  by unfold_locales (auto simp: appendPlatform_def basic_appends basic_delimits intro!: Platform.equality)

interpretation device: field_code append_device "\<lambda>x. x"
  by unfold_locales (auto simp: append_device_def basic_appends basic_delimits intro!: DeviceMapping.equality)

interpretation exposed: field_code append_exposed "\<lambda>x. x"
  by unfold_locales (auto simp: append_exposed_def basic_appends basic_delimits word_unat_eq_iff intro!: ExposedPort.equality)

interpretation pair_code: field_code append_pair "\<lambda>x. x"
  by unfold_locales (auto simp: append_pair_def basic_appends basic_delimits)

interpretation tmpfs: field_code append_tmpfs "\<lambda>x. x"
  by unfold_locales (auto simp: append_tmpfs_def basic_appends basic_delimits intro!: TmpfsMount.equality)

interpretation ulimit: field_code append_ulimit "\<lambda>x. x"
  by unfold_locales (auto simp: append_ulimit_def basic_appends basic_delimits intro!: Ulimit.equality)

interpretation port: field_code append_port "\<lambda>x. x"
  by unfold_locales (auto simp: append_port_def basic_appends basic_delimits word_unat_eq_iff intro!: PortBinding.equality)

lemma mount_kind_byte_inj: "mount_kind_byte j = mount_kind_byte k \<longleftrightarrow> j = k"
  by (cases j; cases k) (simp_all add: mount_kind_byte_def mount_kind_nat_def)

interpretation mount: field_code append_mount "\<lambda>x. x"
  by unfold_locales
    (auto simp: append_mount_def basic_appends basic_delimits mount_kind_byte_inj intro!: Mount.equality)

interpretation health: field_code append_health "\<lambda>x. x"
  by unfold_locales (auto simp: append_health_def Let_def basic_appends basic_delimits intro!: Healthcheck.equality)

lemma appendHealthcheck_eq: "appendHealthcheck = append_option append_health"
  by (intro ext) (simp add: appendHealthcheck_def append_option_def)

interpretation healthcheck: field_code appendHealthcheck "\<lambda>x. x"
  using health.option_code by (simp add: appendHealthcheck_eq map_option_same)

text \<open>The slices encoded without a nil flag keep their elements only.\<close>

lemma counted_items:
  assumes "field_code (append_counted app) (map (\<lambda>x. x))"
  shows "field_code (\<lambda>buf v. append_counted app buf (items v)) items"
  using assms by (rule field_code_map) simp

interpretation devices: field_code appendDevices items
  using counted_items [OF device.counted_code] by (simp add: appendDevices_def [abs_def])

interpretation exposed_ports: field_code appendExposedPorts items
  using counted_items [OF exposed.counted_code] by (simp add: appendExposedPorts_def [abs_def])

interpretation tmpfs_mounts: field_code appendTmpfs items
  using counted_items [OF tmpfs.counted_code] by (simp add: appendTmpfs_def [abs_def])

interpretation ulimits: field_code appendUlimits items
  using counted_items [OF ulimit.counted_code] by (simp add: appendUlimits_def [abs_def])

interpretation ports: field_code appendPorts items
  using counted_items [OF port.counted_code] by (simp add: appendPorts_def [abs_def])

interpretation mounts: field_code appendMounts items
  using counted_items [OF mount.counted_code] by (simp add: appendMounts_def [abs_def])

lemma map_pairs_inj: "map_pairs m = map_pairs n \<longleftrightarrow> m = n"
proof
  assume eq: "map_pairs m = map_pairs n"
  have keys: "map fst (map_pairs k) = sorted_list_of_fset (fmdom k)" for k
    by (simp add: map_pairs_def comp_def)
  have look: "map_of (map_pairs k) = fmlookup k" for k
  proof
    fix x
    show "map_of (map_pairs k) x = fmlookup k x"
    proof (cases "x |\<in>| fmdom k")
      case True
      then obtain v where v: "fmlookup k x = Some v" by (meson fmdomE)
      then have "(x, v) \<in> set (map_pairs k)" using True by (auto simp: map_pairs_def image_iff)
      moreover have "distinct (map fst (map_pairs k))" by (simp add: keys sorted_list_of_fset.rep_eq)
      ultimately show ?thesis using v by simp
    next
      case False
      then have "x \<notin> fst ` set (map_pairs k)" by (auto simp: map_pairs_def)
      with False show ?thesis by (metis fmdom_notD map_of_eq_None_iff)
    qed
  qed
  from eq look show "m = n" by (metis fmap_ext)
qed simp

lemma appendStringMap_eq:
  "appendStringMap = (\<lambda>buf v. append_option (append_counted append_pair) buf (map_option map_pairs v))"
  by (intro ext) (simp add: appendStringMap_def append_option_def split: option.splits)

interpretation string_map: field_code appendStringMap "\<lambda>x. x"
  unfolding appendStringMap_eq
proof (rule field_code_map)
  show "field_code (append_option (append_counted append_pair)) (\<lambda>x. x)"
    using field_code.option_code [OF pair_code.counted_code] by (simp add: map_option_same)
  show "map_option map_pairs v = map_option map_pairs w \<longleftrightarrow> v = w" for v w
    by (cases v; cases w) (auto simp: map_pairs_inj)
qed

lemmas spec_appends = basic_appends platform.appends_nonempty healthcheck.appends_nonempty
  devices.appends_nonempty exposed_ports.appends_nonempty tmpfs_mounts.appends_nonempty
  ulimits.appends_nonempty ports.appends_nonempty mounts.appends_nonempty string_map.appends_nonempty

lemmas spec_delimits = basic_delimits platform.self_delimiting healthcheck.self_delimiting
  devices.self_delimiting exposed_ports.self_delimiting tmpfs_mounts.self_delimiting
  ulimits.self_delimiting ports.self_delimiting mounts.self_delimiting string_map.self_delimiting

text \<open>What the encoding retains of a specification: everything but the nil flags of six slices.\<close>

definition digest_view :: "Spec \<Rightarrow> Spec" where
  "digest_view spec = spec
     \<lparr>Devices := Some (items (Devices spec)), Tmpfs := Some (items (Tmpfs spec)),
      Ulimits := Some (items (Ulimits spec)), ExposedPorts := Some (items (ExposedPorts spec)),
      Ports := Some (items (Ports spec)), Mounts := Some (items (Mounts spec))\<rparr>"

lemma appendWorkloadOptions_appends:
  "NO_MATCH [] buf \<Longrightarrow> appendWorkloadOptions buf s = buf @ appendWorkloadOptions [] s"
  by (simp add: appendWorkloadOptions_def Let_def spec_appends)

lemma appendWorkloadOptions_delimits:
  "appendWorkloadOptions [] s @ r = appendWorkloadOptions [] t @ q \<longleftrightarrow>
     Init s = Init t \<and> StdinOpen s = StdinOpen t \<and> OOMKillDisable s = OOMKillDisable t \<and>
     ReadOnly s = ReadOnly t \<and> TTY s = TTY t \<and> SpecHealthcheck s = SpecHealthcheck t \<and> r = q"
  by (simp add: appendWorkloadOptions_def Let_def spec_appends spec_delimits)

lemma digest_view_eqI:
  "digest_view s = digest_view t \<longleftrightarrow>
   ServiceName s = ServiceName t \<and> ContainerName s = ContainerName t \<and> SpecPlatform s = SpecPlatform t \<and>
   Entrypoint s = Entrypoint t \<and> Command s = Command t \<and> NetworkMode s = NetworkMode t \<and>
   BlkioWeight s = BlkioWeight t \<and> CgroupParent s = CgroupParent t \<and> Cgroup s = Cgroup t \<and>
   CPUs s = CPUs t \<and> Hostname s = Hostname t \<and> MemoryBytes s = MemoryBytes t \<and>
   OOMScoreAdj s = OOMScoreAdj t \<and> PidsLimit s = PidsLimit t \<and> Restart s = Restart t \<and>
   SharedMemoryBytes s = SharedMemoryBytes t \<and> StopSignal s = StopSignal t \<and>
   StopTimeout s = StopTimeout t \<and> User s = User t \<and> WorkingDirectory s = WorkingDirectory t \<and>
   CapAdd s = CapAdd t \<and> CapDrop s = CapDrop t \<and> DNS s = DNS t \<and> DNSOptions s = DNSOptions t \<and>
   DNSSearch s = DNSSearch t \<and> items (Devices s) = items (Devices t) \<and> ExtraHosts s = ExtraHosts t \<and>
   GroupAdd s = GroupAdd t \<and> Sysctls s = Sysctls t \<and> items (Tmpfs s) = items (Tmpfs t) \<and>
   items (Ulimits s) = items (Ulimits t) \<and> Environment s = Environment t \<and> Labels s = Labels t \<and>
   items (ExposedPorts s) = items (ExposedPorts t) \<and> items (Ports s) = items (Ports t) \<and>
   NoNewPrivileges s = NoNewPrivileges t \<and> items (Mounts s) = items (Mounts t) \<and>
   Init s = Init t \<and> StdinOpen s = StdinOpen t \<and> OOMKillDisable s = OOMKillDisable t \<and>
   ReadOnly s = ReadOnly t \<and> TTY s = TTY t \<and> SpecHealthcheck s = SpecHealthcheck t"
  by (cases s; cases t) (simp add: digest_view_def)

lemma appendWorkloadSpec_appends:
  "NO_MATCH [] buf \<Longrightarrow> appendWorkloadSpec buf s = buf @ appendWorkloadSpec [] s"
  by (simp add: appendWorkloadSpec_def Let_def spec_appends appendWorkloadOptions_appends)

lemma appendWorkloadSpec_delimits:
  "appendWorkloadSpec [] s @ r = appendWorkloadSpec [] t @ q \<longleftrightarrow> digest_view s = digest_view t \<and> r = q"
  by (simp add: appendWorkloadSpec_def Let_def spec_appends appendWorkloadOptions_appends
      spec_delimits appendWorkloadOptions_delimits digest_view_eqI)

interpretation workload_spec: field_code appendWorkloadSpec digest_view
  by unfold_locales
    (metis appendWorkloadSpec_appends append_Nil neq_Nil_conv NO_MATCH_def, rule appendWorkloadSpec_delimits)

definition image_view :: "ImageIdentity \<Rightarrow> ImageOrigin \<times> string \<times> digest \<times> Platform \<times> digest \<times> digest" where
  "image_view img = (im_Origin img, im_Reference img, im_ReferenceDigest img, im_Platform img,
     im_PlatformManifest img, im_ImageConfig img)"

lemma origin_byte_inj: "origin_byte j = origin_byte k \<longleftrightarrow> j = k"
  by (cases j; cases k) (simp_all add: origin_byte_def)

interpretation image_code: field_code appendImageIdentity image_view
  by unfold_locales
    (simp_all add: appendImageIdentity_def Let_def spec_appends spec_delimits origin_byte_inj image_view_def)

section \<open>The digests identify what they encode\<close>

definition collision :: "hash \<Rightarrow> bytes \<Rightarrow> bytes \<Rightarrow> bool" where
  "collision H a b \<longleftrightarrow> a \<noteq> b \<and> H a = H b"

lemma hash_eq_iff: "H a = H b \<longleftrightarrow> a = b \<or> collision H a b"
  by (auto simp: collision_def)

definition effective_encoding :: "DesiredWorkload \<Rightarrow> bytes" where
  "effective_encoding w = appendImageIdentity (appendWorkloadSpec [1] (dw_Spec w)) (dw_Image w)"

definition spec_encoding :: "Spec \<Rightarrow> bytes" where
  "spec_encoding s = appendWorkloadSpec [1]
     (s\<lparr>ServiceName := '''', ContainerName := '''', SpecPlatform := zero_platform\<rparr>)"

lemma effective_encoding_eq_iff:
  "effective_encoding v = effective_encoding w \<longleftrightarrow>
   digest_view (dw_Spec v) = digest_view (dw_Spec w) \<and> image_view (dw_Image v) = image_view (dw_Image w)"
proof -
  have "effective_encoding u = [1] @ appendWorkloadSpec [] (dw_Spec u) @ appendImageIdentity [] (dw_Image u)" for u
    using workload_spec.appends [of "[1]" "dw_Spec u"] image_code.appends
    by (metis append_assoc effective_encoding_def)
  then show ?thesis
    by (simp add: workload_spec.self_delimiting image_code.encoding_eq_iff)
qed

text \<open>
  (C35) The effective digest identifies a resolved workload: two workloads have the same effective
  digest exactly when every runtime-relevant field agrees (the whole specification, the nil flag of
  six slices apart, and the image's origin, reference, platform and digests), unless their two
  encodings are a collision of the hash function.
\<close>

theorem ComputeEffectiveDigest_identifies:
  "ComputeEffectiveDigest H v = ComputeEffectiveDigest H w \<longleftrightarrow>
     digest_view (dw_Spec v) = digest_view (dw_Spec w) \<and> image_view (dw_Image v) = image_view (dw_Image w) \<or>
     collision H (effective_encoding v) (effective_encoding w)"
proof -
  have "ComputeEffectiveDigest H u = H (effective_encoding u)" for u
    by (simp add: ComputeEffectiveDigest_def effective_encoding_def)
  then show ?thesis by (simp only: hash_eq_iff effective_encoding_eq_iff)
qed

text \<open>
  The specification digest identifies the container configuration apart from the service name, the
  container name and the platform, which it leaves out: it is equal exactly when all other fields agree,
  unless the two encodings collide.
\<close>

theorem ComputeWorkloadSpecDigest_identifies:
  "ComputeWorkloadSpecDigest H s = ComputeWorkloadSpecDigest H t \<longleftrightarrow>
     digest_view (s\<lparr>ServiceName := '''', ContainerName := '''', SpecPlatform := zero_platform\<rparr>) =
     digest_view (t\<lparr>ServiceName := '''', ContainerName := '''', SpecPlatform := zero_platform\<rparr>) \<or>
     collision H (spec_encoding s) (spec_encoding t)"
proof -
  have "ComputeWorkloadSpecDigest H u = H (spec_encoding u)" for u
    by (simp add: ComputeWorkloadSpecDigest_def spec_encoding_def zero_platform_def)
  moreover have "spec_encoding s = spec_encoding t \<longleftrightarrow>
      digest_view (s\<lparr>ServiceName := '''', ContainerName := '''', SpecPlatform := zero_platform\<rparr>) =
      digest_view (t\<lparr>ServiceName := '''', ContainerName := '''', SpecPlatform := zero_platform\<rparr>)"
    by (simp only: spec_encoding_def workload_spec.app_eq_iff)
  ultimately show ?thesis by (simp only: hash_eq_iff)
qed

section \<open>The storage digest\<close>

fun storage_desired :: "Mount list \<Rightarrow> (string \<times> Mount) list \<Rightarrow> (string \<times> Mount) list option" where
  "storage_desired [] desired = Some desired"
| "storage_desired (v # vs) desired =
     (if mt_Target v = '''' then None
      else if map_of desired (mt_Target v) \<noteq> None then None
      else storage_desired vs (AList.update (mt_Target v) v desired))"

definition storage_policy :: "RuntimeMount \<Rightarrow> Mount \<Rightarrow> bool" where
  "storage_policy v expected \<longleftrightarrow>
     \<not> (rm_Kind v \<noteq> mt_Kind expected \<or> rm_ReadOnly v \<noteq> mt_ReadOnly expected \<or> rm_Source v = '''') \<and>
     (case rm_Kind v of
        MountBind \<Rightarrow> \<not> (rm_Name v \<noteq> '''' \<or> rm_Source v \<noteq> mt_Source expected)
      | MountVolume \<Rightarrow> \<not> (rm_Name v = '''' \<or> mt_Source expected \<noteq> '''' \<or> mt_ReadOnly expected)
      | MountKindZero \<Rightarrow> False)"

definition append_runtime_mount :: "bytes \<Rightarrow> RuntimeMount \<Rightarrow> bytes" where
  "append_runtime_mount encoded v =
     (let encoded = encoded @ [mount_kind_byte (rm_Kind v)];
          encoded = appendString encoded (rm_Name v);
          encoded = appendString encoded (rm_Source v);
          encoded = appendString encoded (rm_Target v)
      in appendBool encoded (rm_ReadOnly v))"

text \<open>The loop over the ordered observations: the previous target, the desired mounts left, the buffer.\<close>

fun storage_encode ::
  "string option \<Rightarrow> (string \<times> Mount) list \<Rightarrow> bytes \<Rightarrow> RuntimeMount list \<Rightarrow> ((string \<times> Mount) list \<times> bytes) option" where
  "storage_encode previous desired encoded [] = Some (desired, encoded)"
| "storage_encode previous desired encoded (v # vs) =
     (if previous = Some (rm_Target v) then None
      else case map_of desired (rm_Target v) of
        None \<Rightarrow> None
      | Some expected \<Rightarrow>
          if \<not> storage_policy v expected then None
          else storage_encode (Some (rm_Target v)) (AList.delete (rm_Target v) desired)
                 (append_runtime_mount encoded v) vs)"

definition compareRuntimeMount :: "RuntimeMount \<Rightarrow> RuntimeMount \<Rightarrow> int" where
  "compareRuntimeMount left right =
     (if rm_Target left < rm_Target right then -1
      else if rm_Target left > rm_Target right then 1 else 0)"

definition ComputeStorageDigest :: "hash \<Rightarrow> DesiredWorkload \<Rightarrow> RuntimeMount list \<Rightarrow> digest \<times> bool" where
  "ComputeStorageDigest H workload observed =
     (if dw_SourceDigest workload = 0 then (0, False)
      else case storage_desired (items (Mounts (dw_Spec workload))) [] of
        None \<Rightarrow> (0, False)
      | Some desired \<Rightarrow>
          (let ordered = SortFunc observed compareRuntimeMount;
               encoded = append_digest [1] (dw_SourceDigest workload);
               encoded = AppendUvarint encoded (length ordered)
           in case storage_encode None desired encoded ordered of
                None \<Rightarrow> (0, False)
              | Some (left, encoded) \<Rightarrow> if left \<noteq> [] then (0, False) else (H encoded, True)))"

text \<open>
  What the storage digest is meant to accept: provenance is present, the desired targets are non-empty
  and distinct, the observation has exactly these targets, once each, and every observed mount follows
  the policy of the desired mount at its target.
\<close>

definition storage_matches :: "DesiredWorkload \<Rightarrow> RuntimeMount list \<Rightarrow> bool" where
  "storage_matches w observed \<longleftrightarrow> (let ms = items (Mounts (dw_Spec w)) in
     dw_SourceDigest w \<noteq> 0 \<and> '''' \<notin> mt_Target ` set ms \<and> distinct (map mt_Target ms) \<and>
     distinct (map rm_Target observed) \<and> rm_Target ` set observed = mt_Target ` set ms \<and>
     (\<forall>v \<in> set observed. \<forall>m \<in> set ms. mt_Target m = rm_Target v \<longrightarrow> storage_policy v m))"

definition storage_encoding :: "DesiredWorkload \<Rightarrow> RuntimeMount list \<Rightarrow> bytes" where
  "storage_encoding w observed =
     append_counted append_runtime_mount (append_digest [1] (dw_SourceDigest w)) (sort_key rm_Target observed)"

interpretation runtime_mount_order: key_order compareRuntimeMount rm_Target
  by unfold_locales (auto simp: compareRuntimeMount_def)

interpretation runtime_mount: field_code append_runtime_mount "\<lambda>x. x"
  by unfold_locales
    (auto simp: append_runtime_mount_def Let_def basic_appends basic_delimits mount_kind_byte_inj
      intro!: RuntimeMount.equality)

lemma update_fresh: "k \<notin> fst ` set al \<Longrightarrow> AList.update k v al = al @ [(k, v)]"
  by (induction al) auto

lemma storage_desired_spec:
  "storage_desired ms d =
     (if '''' \<notin> mt_Target ` set ms \<and> distinct (map mt_Target ms) \<and> fst ` set d \<inter> mt_Target ` set ms = {}
      then Some (d @ map (\<lambda>m. (mt_Target m, m)) ms) else None)"
proof (induction ms arbitrary: d)
  case (Cons m ms)
  show ?case
  proof (cases "mt_Target m \<in> fst ` set d")
    case True
    then have "map_of d (mt_Target m) \<noteq> None" by (simp add: map_of_eq_None_iff)
    with True show ?thesis by auto
  next
    case False
    then have "map_of d (mt_Target m) = None" by (simp add: map_of_eq_None_iff)
    with False show ?thesis by (auto simp: Cons.IH update_fresh)
  qed
qed simp

definition policy_at :: "(string \<times> Mount) list \<Rightarrow> RuntimeMount \<Rightarrow> bool" where
  "policy_at d v \<longleftrightarrow> (case map_of d (rm_Target v) of None \<Rightarrow> False | Some e \<Rightarrow> storage_policy v e)"

lemma policy_at_delete:
  "rm_Target v \<noteq> k \<Longrightarrow> policy_at (AList.delete k d) v = policy_at d v"
  "rm_Target v = k \<Longrightarrow> \<not> policy_at (AList.delete k d) v"
  by (auto simp: policy_at_def AList.delete_conv')

lemma storage_encode_spec:
  assumes "\<forall>t. previous = Some t \<longrightarrow> map_of d t = None"
  shows "storage_encode previous d enc vs =
     (if distinct (map rm_Target vs) \<and> (\<forall>v \<in> set vs. policy_at d v)
      then Some (filter (\<lambda>p. fst p \<notin> rm_Target ` set vs) d, foldl append_runtime_mount enc vs) else None)"
  using assms
proof (induction vs arbitrary: previous d enc)
  case (Cons v vs)
  show ?case
  proof (cases "policy_at d v")
    case True
    then obtain e where e: "map_of d (rm_Target v) = Some e" "storage_policy v e"
      by (auto simp: policy_at_def split: option.splits)
    with Cons.prems have "previous \<noteq> Some (rm_Target v)" by auto
    moreover have "\<forall>t. Some (rm_Target v) = Some t \<longrightarrow> map_of (AList.delete (rm_Target v) d) t = None"
      by (simp add: AList.delete_conv')
    moreover have "filter (\<lambda>p. fst p \<notin> rm_Target ` set vs) (AList.delete (rm_Target v) d) =
        filter (\<lambda>p. fst p \<notin> rm_Target ` set (v # vs)) d"
      by (induction d) (auto simp: AList.delete_eq)
    moreover have "(\<forall>u \<in> set vs. policy_at (AList.delete (rm_Target v) d) u) \<longleftrightarrow>
        rm_Target v \<notin> rm_Target ` set vs \<and> (\<forall>u \<in> set vs. policy_at d u)"
      using policy_at_delete by (auto simp: image_iff) metis+
    ultimately show ?thesis
      using e True Cons.IH [of "Some (rm_Target v)" "AList.delete (rm_Target v) d"] by auto
  next
    case False
    then show ?thesis by (auto simp: policy_at_def split: option.splits)
  qed
qed simp

lemma policy_at_desired:
  assumes "distinct (map mt_Target ms)"
  shows "policy_at (map (\<lambda>m. (mt_Target m, m)) ms) v \<longleftrightarrow>
    rm_Target v \<in> mt_Target ` set ms \<and> (\<forall>m \<in> set ms. mt_Target m = rm_Target v \<longrightarrow> storage_policy v m)"
proof (cases "rm_Target v \<in> mt_Target ` set ms")
  case True
  then obtain m where m: "m \<in> set ms" "mt_Target m = rm_Target v" by auto
  then have "map_of (map (\<lambda>m. (mt_Target m, m)) ms) (rm_Target v) = Some m"
    using assms by (intro map_of_is_SomeI) (auto simp: comp_def image_iff)
  then have "policy_at (map (\<lambda>m. (mt_Target m, m)) ms) v \<longleftrightarrow> storage_policy v m"
    by (simp add: policy_at_def)
  moreover have "n = m" if "n \<in> set ms" "mt_Target n = rm_Target v" for n
    using that m assms by (metis distinct_map inj_onD)
  ultimately show ?thesis using True m by blast
next
  case False
  then have "map_of (map (\<lambda>m. (mt_Target m, m)) ms) (rm_Target v) = None"
    by (auto simp: map_of_eq_None_iff)
  with False show ?thesis by (simp add: policy_at_def)
qed

lemma storage_digest_eq:
  "ComputeStorageDigest H w observed =
     (if storage_matches w observed then (H (storage_encoding w observed), True) else (0, False))"
proof -
  define ms where "ms = items (Mounts (dw_Spec w))"
  define d where "d = map (\<lambda>m. (mt_Target m, m)) ms"
  define vs where "vs = sort_key rm_Target observed"
  have vs: "set vs = set observed" "distinct (map rm_Target vs) \<longleftrightarrow> distinct (map rm_Target observed)"
    unfolding vs_def by (simp_all add: mset_eq_imp_distinct_iff)
  have left: "filter (\<lambda>p. fst p \<notin> rm_Target ` set vs) d = [] \<longleftrightarrow> mt_Target ` set ms \<subseteq> rm_Target ` set observed"
    by (auto simp: d_def filter_empty_conv vs)
  have enc: "storage_encode None d e vs =
      (if distinct (map rm_Target observed) \<and> (\<forall>v \<in> set observed. policy_at d v)
       then Some (filter (\<lambda>p. fst p \<notin> rm_Target ` set vs) d, foldl append_runtime_mount e vs) else None)" for e
    by (subst storage_encode_spec) (simp_all add: vs)
  show ?thesis
  proof (cases "dw_SourceDigest w \<noteq> 0 \<and> '''' \<notin> mt_Target ` set ms \<and> distinct (map mt_Target ms)")
    case True
    then have "storage_desired ms [] = Some d" by (simp add: storage_desired_spec d_def)
    moreover have "storage_matches w observed \<longleftrightarrow> distinct (map rm_Target observed) \<and>
        (\<forall>v \<in> set observed. policy_at d v) \<and> mt_Target ` set ms \<subseteq> rm_Target ` set observed"
      using True policy_at_desired [of ms] by (auto simp: storage_matches_def Let_def d_def ms_def [symmetric])
    ultimately show ?thesis
      using True enc left
      by (auto simp: ComputeStorageDigest_def ms_def [symmetric] runtime_mount_order.SortFunc_sort_key
          vs_def [symmetric] Let_def storage_encoding_def append_counted_def)
  next
    case False
    then show ?thesis
      by (auto simp: ComputeStorageDigest_def storage_matches_def storage_desired_spec ms_def [symmetric] Let_def)
  qed
qed

text \<open>
  \<open>ComputeStorageDigest\<close> accepts an observation exactly when it matches the desired mounts (no
  missing, additional or duplicate target, no policy conflict, provenance present), and then returns
  the hash of the provenance and the observed mounts in target order.
\<close>

theorem ComputeStorageDigest_spec:
  "ComputeStorageDigest H w observed =
     (if storage_matches w observed then (H (storage_encoding w observed), True) else (0, False))"
  by (rule storage_digest_eq)

text \<open>
  The storage digest depends on the observed mounts as a collection only, and it identifies them: for
  accepted observations, equal digests mean equal provenance and the same mounts, unless the two
  encodings collide.
\<close>

theorem ComputeStorageDigest_identifies:
  assumes "ComputeStorageDigest H v obs = (d, True)" and "ComputeStorageDigest H w obs' = (d', True)"
  shows "d = d' \<longleftrightarrow>
    dw_SourceDigest v = dw_SourceDigest w \<and> mset obs = mset obs' \<or>
    collision H (storage_encoding v obs) (storage_encoding w obs')"
proof -
  from assms have m: "storage_matches v obs" "d = H (storage_encoding v obs)" "d' = H (storage_encoding w obs')"
    by (simp_all add: storage_digest_eq split: if_splits)
  have enc: "storage_encoding u os = [1] @ append_digest [] (dw_SourceDigest u) @
      append_counted append_runtime_mount [] (sort_key rm_Target os)" for u os
    using field_code.appends [OF runtime_mount.counted_code,
        of "append_digest [1] (dw_SourceDigest u)" "sort_key rm_Target os"]
      digest.appends [of "[1]" "dw_SourceDigest u"]
    by (simp add: storage_encoding_def)
  have "storage_encoding v obs = storage_encoding w obs' \<longleftrightarrow>
      dw_SourceDigest v = dw_SourceDigest w \<and> sort_key rm_Target obs = sort_key rm_Target obs'"
    using field_code.encoding_eq_iff [OF runtime_mount.counted_code]
    by (simp add: enc digest.self_delimiting)
  moreover have "sort_key rm_Target obs = sort_key rm_Target obs' \<longleftrightarrow> mset obs = mset obs'"
  proof
    assume "mset obs = mset obs'"
    moreover have "inj_on rm_Target (set obs)"
      using m(1) by (simp add: storage_matches_def Let_def distinct_map)
    ultimately show "sort_key rm_Target obs = sort_key rm_Target obs'"
      using runtime_mount_order.SortFunc_cong by (simp add: runtime_mount_order.SortFunc_sort_key)
  qed (metis mset_sort)
  ultimately show ?thesis using m hash_eq_iff by metis
qed

theorem ComputeStorageDigest_identifies_witness:
  "(7 :: digest) = 7 \<longleftrightarrow>
    (1 :: digest) = 1 \<and> mset ([] :: RuntimeMount list) = mset [] \<or>
    collision (\<lambda>_. 7)
      (storage_encoding \<lparr>dw_Spec = zero_spec, dw_Image = zero_image, dw_SourceDigest = 1, dw_EffectiveDigest = 0\<rparr> [])
      (storage_encoding \<lparr>dw_Spec = zero_spec, dw_Image = zero_image, dw_SourceDigest = 1, dw_EffectiveDigest = 0\<rparr> [])"
  using ComputeStorageDigest_identifies
    [where H = "\<lambda>_. 7" and obs = "[]" and obs' = "[]" and d = 7 and d' = 7
      and v = "\<lparr>dw_Spec = zero_spec, dw_Image = zero_image, dw_SourceDigest = 1, dw_EffectiveDigest = 0\<rparr>"
      and w = "\<lparr>dw_Spec = zero_spec, dw_Image = zero_image, dw_SourceDigest = 1, dw_EffectiveDigest = 0\<rparr>"]
  by (simp add: ComputeStorageDigest_def zero_spec_def SortFunc_def)

end
