(* ===== verification/StoreTypes.thy ===== *)
theory StoreTypes
  imports WorkloadDigest
begin

text \<open>
  The journal's data types (\<open>src/internal/store/journal.go\<close>), the validity predicates of intents and
  records, and the identity digests of services (\<open>service_lock_unix.go\<close>). A Go string type with named
  constants is a datatype with one constructor per constant and one for every other string.
\<close>

section \<open>Journal types (journal.go)\<close>

datatype TransactionKind = TransactionBootstrap | TransactionAdopt | TransactionUpgrade | TransactionKindOther string

datatype TransactionState = TransactionActive | TransactionDegraded | TransactionFailed | TransactionSucceeded
  | TransactionStateOther string

datatype ActionState = ActionStateIntent | ActionStateEffectOutcomeUnknown | ActionStateCompleted
  | ActionStateOther string

definition id_String :: "transaction_id \<Rightarrow> string" where
  "id_String i = hex_EncodeToString (word_bytes 16 i)"

lemma length_id_String [simp]: "length (id_String i) = 32"
  by (simp add: id_String_def)

lemma id_String_inj [simp]: "id_String i = id_String j \<longleftrightarrow> i = j"
proof
  assume "id_String i = id_String j"
  then have "hex_DecodeString (id_String i) = hex_DecodeString (id_String j)" by simp
  then have "bytes_word (word_bytes 16 i) = (bytes_word (word_bytes 16 j) :: transaction_id)" by (simp add: id_String_def hex_decode_encode)
  then show "i = j" by (simp add: bytes_word_bytes)
qed simp

record TransactionIntent =
  ti_Kind :: TransactionKind
  ti_Runtime :: RuntimeKind
  ti_SourceDigest :: digest
  ti_EffectiveDigest :: digest
  ti_ExecutionDigest :: digest
  ti_BaseTransactionID :: transaction_id
  ti_HasBaseTransaction :: bool
  ti_PredecessorWorkloadID :: string

record Transaction =
  tx_ID :: transaction_id
  tx_Kind :: TransactionKind
  tx_State :: TransactionState
  tx_Runtime :: RuntimeKind
  tx_SourceDigest :: digest
  tx_EffectiveDigest :: digest
  tx_ExecutionDigest :: digest
  tx_BaseTransactionID :: transaction_id
  tx_HasBaseTransaction :: bool
  tx_PredecessorWorkloadID :: string

record BackupIndexIntent =
  bi_ManifestPath :: string
  bi_ManifestDigest :: digest
  bi_CreatedUnix :: int

record AppliedServiceIntent =
  ai_WorkloadID :: string
  ai_ConfigurationDigest :: digest
  ai_StorageDigest :: digest
  ai_ReferenceDigest :: digest
  ai_PlatformManifestDigest :: digest
  ai_ImageConfigDigest :: digest
  ai_Backup :: "BackupIndexIntent option"

record AppliedService =
  as_TransactionID :: transaction_id
  as_Kind :: TransactionKind
  as_Runtime :: RuntimeKind
  as_SourceDigest :: digest
  as_EffectiveDigest :: digest
  as_ExecutionDigest :: digest
  as_WorkloadID :: string
  as_ConfigurationDigest :: digest
  as_StorageDigest :: digest
  as_ReferenceDigest :: digest
  as_PlatformManifestDigest :: digest
  as_ImageConfigDigest :: digest

record BackupIndex =
  bx_TransactionID :: transaction_id
  bx_Runtime :: RuntimeKind
  bx_ManifestPath :: string
  bx_ManifestDigest :: digest
  bx_CreatedUnix :: int

record BackupIndexCandidate =
  bc_TransactionID :: transaction_id
  bc_Project :: string
  bc_Service :: string
  bc_Runtime :: RuntimeKind
  bc_SourceDigest :: digest
  bc_EffectiveDigest :: digest
  bc_ExecutionDigest :: digest
  bc_BaseTransactionID :: transaction_id
  bc_PredecessorWorkloadID :: string
  bc_ManifestPath :: string
  bc_ManifestDigest :: digest
  bc_CreatedUnix :: int

record ActionIntent =
  an_Sequence :: int
  an_Kind :: string
  an_IntentDigest :: digest

record Action =
  ac_TransactionID :: transaction_id
  ac_Sequence :: int
  ac_Kind :: string
  ac_State :: ActionState
  ac_IntentDigest :: digest
  ac_PostconditionDigest :: "digest option"

text \<open>Zero values, which the code returns beside an error.\<close>

definition zero_Transaction :: Transaction where
  "zero_Transaction = \<lparr>tx_ID = 0, tx_Kind = TransactionKindOther '''', tx_State = TransactionStateOther '''',
     tx_Runtime = RuntimeOther '''', tx_SourceDigest = 0, tx_EffectiveDigest = 0, tx_ExecutionDigest = 0,
     tx_BaseTransactionID = 0, tx_HasBaseTransaction = False, tx_PredecessorWorkloadID = ''''\<rparr>"

definition zero_Action :: Action where
  "zero_Action = \<lparr>ac_TransactionID = 0, ac_Sequence = 0, ac_Kind = '''', ac_State = ActionStateOther '''',
     ac_IntentDigest = 0, ac_PostconditionDigest = None\<rparr>"

definition zero_AppliedService :: AppliedService where
  "zero_AppliedService = \<lparr>as_TransactionID = 0, as_Kind = TransactionKindOther '''', as_Runtime = RuntimeOther '''',
     as_SourceDigest = 0, as_EffectiveDigest = 0, as_ExecutionDigest = 0, as_WorkloadID = '''',
     as_ConfigurationDigest = 0, as_StorageDigest = 0, as_ReferenceDigest = 0, as_PlatformManifestDigest = 0,
     as_ImageConfigDigest = 0\<rparr>"

definition zero_BackupIndex :: BackupIndex where
  "zero_BackupIndex = \<lparr>bx_TransactionID = 0, bx_Runtime = RuntimeOther '''', bx_ManifestPath = '''',
     bx_ManifestDigest = 0, bx_CreatedUnix = 0\<rparr>"

section \<open>Validity of transactions (journal\_transaction\_unix.go)\<close>

definition validWorkloadID :: "string \<Rightarrow> bool" where
  "validWorkloadID i \<longleftrightarrow> length i > 0 \<and> length i \<le> 256 \<and> utf8_valid i \<and> \<not> contains_nul i"

definition validTransactionKind :: "TransactionKind \<Rightarrow> bool" where
  "validTransactionKind kind \<longleftrightarrow> kind = TransactionBootstrap \<or> kind = TransactionAdopt \<or> kind = TransactionUpgrade"

definition validTransactionState :: "TransactionState \<Rightarrow> bool" where
  "validTransactionState state \<longleftrightarrow> state = TransactionActive \<or> state = TransactionDegraded \<or>
     state = TransactionFailed \<or> state = TransactionSucceeded"

definition validTransactionTargetState :: "TransactionState \<Rightarrow> bool" where
  "validTransactionTargetState state \<longleftrightarrow> state = TransactionDegraded \<or> state = TransactionFailed"

definition validTransactionDigests :: "TransactionIntent \<Rightarrow> bool" where
  "validTransactionDigests intent \<longleftrightarrow>
     ti_SourceDigest intent \<noteq> 0 \<and> ti_EffectiveDigest intent \<noteq> 0 \<and> ti_ExecutionDigest intent \<noteq> 0"

definition validTransactionIdentity :: "TransactionIntent \<Rightarrow> bool" where
  "validTransactionIdentity intent \<longleftrightarrow>
     validTransactionKind (ti_Kind intent) \<and> SupportsWorkloads (ti_Runtime intent) \<and>
     ti_HasBaseTransaction intent = (ti_BaseTransactionID intent \<noteq> 0) \<and> validTransactionDigests intent"

definition validTransactionRelationship :: "TransactionIntent \<Rightarrow> bool" where
  "validTransactionRelationship intent =
     (case ti_Kind intent of
        TransactionBootstrap \<Rightarrow> \<not> ti_HasBaseTransaction intent \<and> ti_PredecessorWorkloadID intent = ''''
      | TransactionAdopt \<Rightarrow> \<not> ti_HasBaseTransaction intent \<and> validWorkloadID (ti_PredecessorWorkloadID intent)
      | TransactionUpgrade \<Rightarrow> ti_HasBaseTransaction intent \<and> validWorkloadID (ti_PredecessorWorkloadID intent)
      | TransactionKindOther _ \<Rightarrow> False)"

definition validTransactionIntent :: "TransactionIntent \<Rightarrow> bool" where
  "validTransactionIntent intent =
     (if \<not> validTransactionIdentity intent then False else validTransactionRelationship intent)"

definition validTransactionRecord :: "Transaction \<Rightarrow> bool" where
  "validTransactionRecord record = validTransactionIntent
     \<lparr>ti_Kind = tx_Kind record, ti_Runtime = tx_Runtime record, ti_SourceDigest = tx_SourceDigest record,
      ti_EffectiveDigest = tx_EffectiveDigest record, ti_ExecutionDigest = tx_ExecutionDigest record,
      ti_BaseTransactionID = tx_BaseTransactionID record, ti_HasBaseTransaction = tx_HasBaseTransaction record,
      ti_PredecessorWorkloadID = tx_PredecessorWorkloadID record\<rparr>"

definition nullableTransactionID :: "transaction_id \<Rightarrow> bool \<Rightarrow> transaction_id option" where
  "nullableTransactionID i present = (if \<not> present then None else Some i)"

definition nullableWorkloadID :: "string \<Rightarrow> string option" where
  "nullableWorkloadID i = (if i = '''' then None else Some i)"

section \<open>Validity of actions (journal\_action\_unix.go)\<close>

definition lowercaseAlphaNumeric :: "char \<Rightarrow> bool" where
  "lowercaseAlphaNumeric c \<longleftrightarrow> in_range 97 122 c \<or> in_range 48 57 c"

definition validActionKind :: "string \<Rightarrow> bool" where
  "validActionKind kind =
     (if length kind = 0 \<or> length kind > 64 \<or> \<not> lowercaseAlphaNumeric (hd kind) then False
      else list_all (\<lambda>c. lowercaseAlphaNumeric c \<or> c = CHR ''.'' \<or> c = CHR ''_'' \<or> c = CHR ''-'') (tl kind))"

definition validActionIntent :: "ActionIntent \<Rightarrow> bool" where
  "validActionIntent intent \<longleftrightarrow> an_Sequence intent > 0 \<and> validActionKind (an_Kind intent)"

definition validAction :: "Action \<Rightarrow> bool" where
  "validAction action \<longleftrightarrow> ac_Sequence action > 0 \<and> validActionKind (ac_Kind action) \<and>
     (ac_State action = ActionStateIntent \<or> ac_State action = ActionStateEffectOutcomeUnknown \<or>
      ac_State action = ActionStateCompleted)"

section \<open>Backups and applied services\<close>

definition backupManifestPath :: "transaction_id \<Rightarrow> string" where
  "backupManifestPath i = id_String i @ ''/'' @ ''manifest.json''"

definition validBackupIndexIntent :: "BackupIndexIntent option \<Rightarrow> bool" where
  "validBackupIndexIntent intent =
     (case intent of None \<Rightarrow> True
      | Some b \<Rightarrow> bi_ManifestDigest b \<noteq> 0 \<and> bi_CreatedUnix b > 0 \<and>
          length (bi_ManifestPath b) > length ''manifest.json'' \<and> length (bi_ManifestPath b) \<le> 128)"

definition validAppliedServiceIntent :: "AppliedServiceIntent \<Rightarrow> bool" where
  "validAppliedServiceIntent intent \<longleftrightarrow>
     validWorkloadID (ai_WorkloadID intent) \<and> ai_ConfigurationDigest intent \<noteq> 0 \<and>
     ai_StorageDigest intent \<noteq> 0 \<and> ai_ReferenceDigest intent \<noteq> 0 \<and>
     ai_PlatformManifestDigest intent \<noteq> 0 \<and> ai_ImageConfigDigest intent \<noteq> 0 \<and>
     validBackupIndexIntent (ai_Backup intent)"

definition appliedServiceRecord :: "Transaction \<Rightarrow> AppliedServiceIntent \<Rightarrow> AppliedService" where
  "appliedServiceRecord transaction intent =
     \<lparr>as_TransactionID = tx_ID transaction, as_Kind = tx_Kind transaction, as_Runtime = tx_Runtime transaction,
      as_SourceDigest = tx_SourceDigest transaction, as_EffectiveDigest = tx_EffectiveDigest transaction,
      as_ExecutionDigest = tx_ExecutionDigest transaction, as_WorkloadID = ai_WorkloadID intent,
      as_ConfigurationDigest = ai_ConfigurationDigest intent, as_StorageDigest = ai_StorageDigest intent,
      as_ReferenceDigest = ai_ReferenceDigest intent, as_PlatformManifestDigest = ai_PlatformManifestDigest intent,
      as_ImageConfigDigest = ai_ImageConfigDigest intent\<rparr>"

definition appliedServiceMatches :: "AppliedService \<Rightarrow> Transaction \<Rightarrow> AppliedServiceIntent \<Rightarrow> bool" where
  "appliedServiceMatches applied transaction intent \<longleftrightarrow> applied = appliedServiceRecord transaction intent"

section \<open>Identity digests (service\_lock\_unix.go)\<close>

definition append_length_string :: "bytes \<Rightarrow> string \<Rightarrow> bytes" where
  "append_length_string buf s = AppendUint64 buf (word_of_nat (length s)) @ string_bytes s"

definition identityDigest :: "hash \<Rightarrow> string list \<Rightarrow> digest \<times> bool" where
  "identityDigest H values =
     (if '''' \<in> set values then (0, False) else (H (foldl append_length_string [] values), True))"

definition serviceIdentity :: "hash \<Rightarrow> string \<Rightarrow> string \<Rightarrow> digest \<times> bool" where
  "serviceIdentity H projectName serviceName = identityDigest H [projectName, serviceName]"

definition serviceLockName :: "hash \<Rightarrow> string \<Rightarrow> string \<Rightarrow> string \<Rightarrow> string \<times> bool" where
  "serviceLockName H databaseName projectName serviceName =
     (case identityDigest H [databaseName, projectName, serviceName] of
        (d, valid) \<Rightarrow> if \<not> valid then ('''', False)
          else (''.maniud-service-'' @ hex_EncodeToString (word_bytes 32 d) @ ''.lock'', True))"

text \<open>
  The length of a Go string is an \<open>int\<close>, so it is below two to the sixty-third power; with that bound
  the length prefix is exact.
\<close>

lemma append_length_string_delimits:
  assumes "length x < 2 ^ 63" and "length y < 2 ^ 63"
  shows "append_length_string [] x @ r = append_length_string [] y @ s \<longleftrightarrow> x = y \<and> r = s"
proof -
  have "x = y" if "(word_of_nat (length x) :: i64) = word_of_nat (length y)" "string_bytes x @ r = string_bytes y @ s"
  proof -
    have "length x = length y"
      using that(1) assms by (simp add: word_of_nat_eq_iff take_bit_eq_mod)
    then show ?thesis using that(2) by (simp add: string_bytes_eq_iff)
  qed
  then show ?thesis
    by (auto simp: append_length_string_def uint64.self_delimiting)
qed

lemma append_length_string_appends: "append_length_string buf x = buf @ append_length_string [] x"
  by (simp add: append_length_string_def AppendUint64_def)

lemma foldl_length_string: "foldl append_length_string buf xs = buf @ foldl append_length_string [] xs"
proof (induction xs arbitrary: buf)
  case (Cons x xs)
  show ?case
    using Cons.IH [of "append_length_string buf x"] Cons.IH [of "append_length_string [] x"]
      append_length_string_appends [of buf x] by simp
qed simp

lemma foldl_length_string_inj:
  assumes "length xs = length ys" and "\<forall>x \<in> set xs. length x < 2 ^ 63" and "\<forall>y \<in> set ys. length y < 2 ^ 63"
  shows "foldl append_length_string [] xs = foldl append_length_string [] ys \<longleftrightarrow> xs = ys"
  using assms
proof (induction xs ys rule: list_induct2)
  case (Cons x xs y ys)
  then show ?case
    using foldl_length_string [of "append_length_string [] x" xs]
      foldl_length_string [of "append_length_string [] y" ys]
    by (simp add: append_length_string_delimits)
qed simp

text \<open>
  Two services share an identity only if they are the same project and service, or the encodings of
  the two name pairs are a collision of the hash: the length prefix leaves no other way to split the
  concatenated names.
\<close>

theorem serviceIdentity_identifies:
  assumes "serviceIdentity H p s = (d, True)" and "serviceIdentity H p' s' = (d', True)"
    and "length p < 2 ^ 63" "length s < 2 ^ 63" "length p' < 2 ^ 63" "length s' < 2 ^ 63"
  shows "d = d' \<longleftrightarrow> (p = p' \<and> s = s') \<or>
    collision H (foldl append_length_string [] [p, s]) (foldl append_length_string [] [p', s'])"
proof -
  have "d = H (foldl append_length_string [] [p, s])" "d' = H (foldl append_length_string [] [p', s'])"
    using assms(1,2) by (auto simp: serviceIdentity_def identityDigest_def split: if_splits)
  moreover have "foldl append_length_string [] [p, s] = foldl append_length_string [] [p', s'] \<longleftrightarrow> [p, s] = [p', s']"
    using assms by (intro foldl_length_string_inj) simp_all
  ultimately show ?thesis by (metis hash_eq_iff list.inject)
qed

theorem serviceIdentity_identifies_witness:
  "(3 :: digest) = 3 \<longleftrightarrow> (''a'' = ''ab'' \<and> ''bc'' = ''c'') \<or>
    collision (\<lambda>_. 3) (foldl append_length_string [] [''a'', ''bc'']) (foldl append_length_string [] [''ab'', ''c''])"
  by (rule serviceIdentity_identifies) (simp_all add: serviceIdentity_def identityDigest_def)

end
