(* ===== verification/StoreDb.thy ===== *)
theory StoreDb
  imports StoreTypes
begin

text \<open>
  The SQLite state of \<open>src/internal/store\<close>: the five tables of \<open>schema.go\<close> as lists of rows, their
  constraints, the validation query that the program runs when it opens the state, every SQL statement
  of the package as a function on the tables, and the world that programs run in. A statement that
  would leave a constraint violated is rejected by the engine, which reports result code 19.

  Columns that the schema declares as blobs of one length are words of that width, so the checks on
  type and length of such a column always pass here.
\<close>

section \<open>Tables (schema.go)\<close>

record lease_row =
  lr_service :: digest
  lr_epoch :: int
  lr_owner :: "transaction_id option"

record tx_row =
  tr_id :: transaction_id
  tr_service :: digest
  tr_kind :: TransactionKind
  tr_state :: TransactionState
  tr_runtime :: string
  tr_source :: digest
  tr_effective :: digest
  tr_execution :: digest
  tr_base :: "transaction_id option"
  tr_predecessor :: "string option"

record action_row =
  jr_tx :: transaction_id
  jr_sequence :: int
  jr_kind :: string
  jr_state :: ActionState
  jr_intent :: digest
  jr_post :: "digest option"

record applied_row =
  ar_service :: digest
  ar_tx :: transaction_id
  ar_workload :: string
  ar_configuration :: digest
  ar_storage :: digest
  ar_reference :: digest
  ar_manifest :: digest
  ar_image :: digest

record backup_row =
  br_tx :: transaction_id
  br_service :: digest
  br_path :: string
  br_digest :: digest
  br_created :: int

record db =
  db_leases :: "lease_row list"
  db_transactions :: "tx_row list"
  db_actions :: "action_row list"
  db_applied :: "applied_row list"
  db_backups :: "backup_row list"

definition empty_db :: db where
  "empty_db = \<lparr>db_leases = [], db_transactions = [], db_actions = [], db_applied = [], db_backups = []\<rparr>"

definition unresolved :: "TransactionState \<Rightarrow> bool" where
  "unresolved st \<longleftrightarrow> st = TransactionActive \<or> st = TransactionDegraded"

section \<open>Constraints of the tables\<close>

definition sql_workload_id :: "string \<Rightarrow> bool" where
  "sql_workload_id s \<longleftrightarrow> 1 \<le> length s \<and> length s \<le> 256 \<and> \<not> contains_nul s"

definition sql_action_kind :: "string \<Rightarrow> bool" where
  "sql_action_kind k \<longleftrightarrow> 1 \<le> length k \<and> length k \<le> 64 \<and> lowercaseAlphaNumeric (hd k) \<and>
     list_all (\<lambda>c. lowercaseAlphaNumeric c \<or> c = CHR ''.'' \<or> c = CHR ''_'' \<or> c = CHR ''-'') k"

definition relationship_ok :: "tx_row \<Rightarrow> bool" where
  "relationship_ok r \<longleftrightarrow>
     tr_kind r = TransactionBootstrap \<and> tr_base r = None \<and> tr_predecessor r = None \<or>
     tr_kind r = TransactionAdopt \<and> tr_base r = None \<and> tr_predecessor r \<noteq> None \<or>
     tr_kind r = TransactionUpgrade \<and> tr_base r \<noteq> None \<and> tr_predecessor r \<noteq> None"

definition transaction_check :: "tx_row \<Rightarrow> bool" where
  "transaction_check r \<longleftrightarrow> validTransactionKind (tr_kind r) \<and> validTransactionState (tr_state r) \<and>
     tr_runtime r \<in> set [''docker'', ''podman'', ''containerd''] \<and>
     tr_source r \<noteq> 0 \<and> tr_effective r \<noteq> 0 \<and> tr_execution r \<noteq> 0 \<and>
     (case tr_predecessor r of None \<Rightarrow> True | Some w \<Rightarrow> sql_workload_id w) \<and> relationship_ok r"

definition action_check :: "action_row \<Rightarrow> bool" where
  "action_check r \<longleftrightarrow> jr_sequence r > 0 \<and> sql_action_kind (jr_kind r) \<and>
     jr_state r \<in> set [ActionStateIntent, ActionStateEffectOutcomeUnknown, ActionStateCompleted] \<and>
     (jr_state r = ActionStateCompleted \<longleftrightarrow> jr_post r \<noteq> None)"

definition applied_check :: "applied_row \<Rightarrow> bool" where
  "applied_check r \<longleftrightarrow> sql_workload_id (ar_workload r) \<and> ar_configuration r \<noteq> 0 \<and> ar_storage r \<noteq> 0 \<and>
     ar_reference r \<noteq> 0 \<and> ar_manifest r \<noteq> 0 \<and> ar_image r \<noteq> 0"

definition backup_check :: "backup_row \<Rightarrow> bool" where
  "backup_check r \<longleftrightarrow> br_path r = backupManifestPath (br_tx r) \<and> br_digest r \<noteq> 0 \<and> br_created r > 0"

definition lease_exists :: "db \<Rightarrow> digest \<Rightarrow> bool" where
  "lease_exists d sid = list_ex (\<lambda>l. lr_service l = sid) (db_leases d)"

definition transaction_exists :: "db \<Rightarrow> transaction_id \<Rightarrow> digest \<Rightarrow> bool" where
  "transaction_exists d i sid = list_ex (\<lambda>r. tr_id r = i \<and> tr_service r = sid) (db_transactions d)"

definition lease_constraints :: "db \<Rightarrow> bool" where
  "lease_constraints d \<longleftrightarrow> distinct (map lr_service (db_leases d)) \<and> list_all (\<lambda>l. lr_epoch l > 0) (db_leases d)"

definition transaction_constraints :: "db \<Rightarrow> bool" where
  "transaction_constraints d \<longleftrightarrow>
     distinct (map tr_id (db_transactions d)) \<and> list_all transaction_check (db_transactions d) \<and>
     list_all (\<lambda>r. lease_exists d (tr_service r)) (db_transactions d) \<and>
     list_all (\<lambda>r. case tr_base r of None \<Rightarrow> True | Some b \<Rightarrow> transaction_exists d b (tr_service r)) (db_transactions d) \<and>
     distinct (map tr_service (filter (\<lambda>r. unresolved (tr_state r)) (db_transactions d)))"

definition action_constraints :: "db \<Rightarrow> bool" where
  "action_constraints d \<longleftrightarrow>
     distinct (map (\<lambda>a. (jr_tx a, jr_sequence a)) (db_actions d)) \<and> list_all action_check (db_actions d) \<and>
     list_all (\<lambda>a. jr_tx a \<in> set (map tr_id (db_transactions d))) (db_actions d)"

definition applied_constraints :: "db \<Rightarrow> bool" where
  "applied_constraints d \<longleftrightarrow>
     distinct (map ar_service (db_applied d)) \<and> distinct (map ar_tx (db_applied d)) \<and>
     list_all applied_check (db_applied d) \<and> list_all (\<lambda>a. lease_exists d (ar_service a)) (db_applied d) \<and>
     list_all (\<lambda>a. transaction_exists d (ar_tx a) (ar_service a)) (db_applied d)"

definition backup_constraints :: "db \<Rightarrow> bool" where
  "backup_constraints d \<longleftrightarrow>
     distinct (map br_tx (db_backups d)) \<and> list_all backup_check (db_backups d) \<and>
     list_all (\<lambda>b. transaction_exists d (br_tx b) (br_service b)) (db_backups d)"

definition db_constraints :: "db \<Rightarrow> bool" where
  "db_constraints d \<longleftrightarrow> lease_constraints d \<and> transaction_constraints d \<and> action_constraints d \<and>
     applied_constraints d \<and> backup_constraints d"

section \<open>The validation queries (schema.go)\<close>

text \<open>
  One definition per counted subquery of \<open>journalRowValidationSQL\<close>. A join is the list of joined pairs; a
  comparison with NULL is not true.
\<close>

definition invalid_leases :: "db \<Rightarrow> nat" where
  "invalid_leases d = length (filter (\<lambda>l. lr_epoch l \<le> 0) (db_leases d))"

definition bad_transactions :: "db \<Rightarrow> nat" where
  "bad_transactions d = length (filter (\<lambda>r.
     \<not> validTransactionKind (tr_kind r) \<or> \<not> validTransactionState (tr_state r) \<or>
     tr_runtime r \<notin> set [''docker'', ''podman'', ''containerd''] \<or>
     tr_source r = 0 \<or> tr_effective r = 0 \<or> tr_execution r = 0 \<or>
     (case tr_predecessor r of None \<Rightarrow> False | Some w \<Rightarrow> \<not> sql_workload_id w) \<or>
     tr_kind r = TransactionBootstrap \<and> (tr_base r \<noteq> None \<or> tr_predecessor r \<noteq> None) \<or>
     tr_kind r = TransactionAdopt \<and> (tr_base r \<noteq> None \<or> tr_predecessor r = None) \<or>
     tr_kind r = TransactionUpgrade \<and> (tr_base r = None \<or> tr_predecessor r = None)) (db_transactions d))"

definition bad_applied :: "db \<Rightarrow> nat" where
  "bad_applied d = length (filter (\<lambda>a. \<not> sql_workload_id (ar_workload a) \<or> ar_configuration a = 0 \<or>
     ar_storage a = 0 \<or> ar_reference a = 0 \<or> ar_manifest a = 0 \<or> ar_image a = 0) (db_applied d))"

definition bad_backups :: "db \<Rightarrow> nat" where
  "bad_backups d = length (filter (\<lambda>b. \<not> (1 \<le> length (br_path b) \<and> length (br_path b) \<le> 128) \<or>
     contains_nul (br_path b) \<or> br_digest b = 0 \<or> br_created b \<le> 0) (db_backups d))"

definition join_transactions :: "('a \<Rightarrow> tx_row \<Rightarrow> bool) \<Rightarrow> 'a list \<Rightarrow> db \<Rightarrow> ('a \<times> tx_row) list" where
  "join_transactions on_clause rows d =
     concat (map (\<lambda>x. map (Pair x) (filter (on_clause x) (db_transactions d))) rows)"

definition bad_bases :: "db \<Rightarrow> nat" where
  "bad_bases d = length (filter (\<lambda>(child, base). tr_state base \<noteq> TransactionSucceeded \<or> tr_service base \<noteq> tr_service child)
     (join_transactions (\<lambda>child base. tr_base child = Some (tr_id base)) (db_transactions d) d))"

definition bad_applied_transactions :: "db \<Rightarrow> nat" where
  "bad_applied_transactions d = length (filter (\<lambda>(applied, journal).
       tr_state journal \<noteq> TransactionSucceeded \<or> tr_service journal \<noteq> ar_service applied)
     (join_transactions (\<lambda>applied journal. tr_id journal = ar_tx applied) (db_applied d) d))"

definition bad_backup_transactions :: "db \<Rightarrow> nat" where
  "bad_backup_transactions d = length (filter (\<lambda>(backup, journal).
       tr_kind journal \<noteq> TransactionUpgrade \<or> tr_state journal \<noteq> TransactionSucceeded \<or>
       tr_service journal \<noteq> br_service backup \<or> br_path backup \<noteq> backupManifestPath (br_tx backup))
     (join_transactions (\<lambda>backup journal. tr_id journal = br_tx backup) (db_backups d) d))"

definition applied_of :: "db \<Rightarrow> digest \<Rightarrow> applied_row list" where
  "applied_of d sid = filter (\<lambda>a. ar_service a = sid) (db_applied d)"

definition succeeded_without_applied :: "db \<Rightarrow> nat" where
  "succeeded_without_applied d = length (filter (\<lambda>sid.
       list_ex (\<lambda>r. tr_service r = sid \<and> tr_state r = TransactionSucceeded) (db_transactions d) \<and>
       applied_of d sid = [])
     (remdups (map tr_service (db_transactions d))))"

text \<open>The rows of a left join: every joined row, or one row of nulls.\<close>

definition left_joined :: "'a list \<Rightarrow> 'a option list" where
  "left_joined xs = (if xs = [] then [None] else map Some xs)"

definition bad_unresolved :: "db \<Rightarrow> nat" where
  "bad_unresolved d = length (filter (\<lambda>(journal, applied). unresolved (tr_state journal) \<and>
       ((tr_kind journal = TransactionBootstrap \<or> tr_kind journal = TransactionAdopt) \<and> applied \<noteq> None \<or>
        tr_kind journal = TransactionUpgrade \<and>
          (case applied of None \<Rightarrow> True
           | Some a \<Rightarrow> (case tr_base journal of None \<Rightarrow> False | Some b \<Rightarrow> ar_tx a \<noteq> b) \<or>
               (case tr_predecessor journal of None \<Rightarrow> False | Some w \<Rightarrow> ar_workload a \<noteq> w))))
     (concat (map (\<lambda>j. map (Pair j) (left_joined (applied_of d (tr_service j)))) (db_transactions d))))"

definition orphan_succeeded :: "db \<Rightarrow> nat" where
  "orphan_succeeded d = length (filter (\<lambda>r. tr_state r = TransactionSucceeded \<and>
       \<not> list_ex (\<lambda>a. ar_tx a = tr_id r) (db_applied d) \<and>
       \<not> list_ex (\<lambda>q. tr_base q = Some (tr_id r) \<and> tr_service q = tr_service r) (db_transactions d))
     (db_transactions d))"

definition bad_actions :: "db \<Rightarrow> nat" where
  "bad_actions d = length (filter (\<lambda>a. jr_sequence a \<le> 0 \<or> \<not> sql_action_kind (jr_kind a) \<or>
     jr_state a \<notin> set [ActionStateIntent, ActionStateEffectOutcomeUnknown, ActionStateCompleted] \<or>
     jr_state a = ActionStateCompleted \<and> jr_post a = None \<or>
     jr_state a \<noteq> ActionStateCompleted \<and> jr_post a \<noteq> None) (db_actions d))"

definition incomplete_actions :: "db \<Rightarrow> action_row list" where
  "incomplete_actions d = filter (\<lambda>a. jr_state a \<noteq> ActionStateCompleted) (db_actions d)"

definition concurrent_actions :: "db \<Rightarrow> nat" where
  "concurrent_actions d = length (filter (\<lambda>i. length (filter (\<lambda>a. jr_tx a = i) (incomplete_actions d)) > 1)
     (remdups (map jr_tx (incomplete_actions d))))"

definition actions_of_resolved :: "db \<Rightarrow> nat" where
  "actions_of_resolved d = length (filter (\<lambda>(a, journal). \<not> unresolved (tr_state journal))
     (join_transactions (\<lambda>a journal. tr_id journal = jr_tx a) (incomplete_actions d) d))"

definition foreign_key_violations :: "db \<Rightarrow> nat" where
  "foreign_key_violations d =
     length (filter (\<lambda>r. \<not> lease_exists d (tr_service r)) (db_transactions d)) +
     length (filter (\<lambda>r. case tr_base r of None \<Rightarrow> False | Some b \<Rightarrow> \<not> transaction_exists d b (tr_service r)) (db_transactions d)) +
     length (filter (\<lambda>a. jr_tx a \<notin> set (map tr_id (db_transactions d))) (db_actions d)) +
     length (filter (\<lambda>a. \<not> lease_exists d (ar_service a)) (db_applied d)) +
     length (filter (\<lambda>a. \<not> transaction_exists d (ar_tx a) (ar_service a)) (db_applied d)) +
     length (filter (\<lambda>b. \<not> transaction_exists d (br_tx b) (br_service b)) (db_backups d))"

definition journalRowValidation :: "db \<Rightarrow> nat" where
  "journalRowValidation d =
     bad_transactions d + bad_applied d + bad_backups d + bad_bases d + bad_applied_transactions d +
     bad_backup_transactions d + succeeded_without_applied d + bad_unresolved d + orphan_succeeded d +
     bad_actions d + concurrent_actions d + actions_of_resolved d + foreign_key_violations d"

section \<open>The world a program runs in\<close>

text \<open>
  Whatever the environment decides is read from a sequence of instants, one for every call that can
  observe it: whether the context is cancelled, whether the files still are the ones that were opened,
  whether a file operation succeeds, what a file lock answers, whether the SQL engine fails a call (and with which result code), whether a failing commit had been
  applied, and the bytes that the random source delivers. Every theorem quantifies over all sequences.
\<close>

datatype flock_result = FlockAcquired | FlockWouldBlock | FlockError

record instant =
  in_ctx :: bool
  in_valid :: bool
  in_file :: bool
  in_flock :: flock_result
  in_sql :: "int option option"
  in_rows :: bool
  in_applied :: bool
  in_random :: "transaction_id option"

record store_world =
  sw_db :: db
  sw_env :: "nat \<Rightarrow> instant"
  sw_tick :: nat

type_synonym ('z, 'a) prog = "('z store_world_scheme, 'a) state"

definition observe :: "('z, instant) prog" where
  "observe = State (\<lambda>s. (sw_env s (sw_tick s), s\<lparr>sw_tick := Suc (sw_tick s)\<rparr>))"

definition current_db :: "('z, db) prog" where
  "current_db = State (\<lambda>s. (sw_db s, s))"

definition ctx_Err :: "('z, bool) prog" where
  "ctx_Err = do { i \<leftarrow> observe; State_Monad.return (in_ctx i) }"

text \<open>
  \<open>ServiceLock.Valid\<close> and \<open>stateOperationLock.valid\<close> compare the identities of the opened files with the
  directory entries: an observation of the file system.
\<close>

definition files_valid :: "('z, bool) prog" where
  "files_valid = do { i \<leftarrow> observe; State_Monad.return (in_valid i) }"

definition file_step :: "('z, bool) prog" where
  "file_step = do { i \<leftarrow> observe; State_Monad.return (in_file i) }"

text \<open>\<open>tryFileLock\<close>: acquired, held by another process, or an error.\<close>

definition tryFileLock :: "('z, bool \<times> go_error option) prog" where
  "tryFileLock = do { i \<leftarrow> observe;
     State_Monad.return (case in_flock i of
       FlockAcquired \<Rightarrow> (True, None) | FlockWouldBlock \<Rightarrow> (False, None) | FlockError \<Rightarrow> (False, Some ErrUnavailable)) }"

definition read_random :: "('z, transaction_id option) prog" where
  "read_random = do { i \<leftarrow> observe; State_Monad.return (in_random i) }"

definition sql_begin :: "('z, go_error + db) prog" where
  "sql_begin = do { i \<leftarrow> observe; d \<leftarrow> current_db;
     State_Monad.return (case in_sql i of None \<Rightarrow> Inr d | Some c \<Rightarrow> Inl (ErrDriver c)) }"

definition sql_run :: "(db \<Rightarrow> go_error + 'a) \<Rightarrow> db \<Rightarrow> ('z, go_error + 'a) prog" where
  "sql_run f d = do { i \<leftarrow> observe;
     State_Monad.return (case in_sql i of None \<Rightarrow> f d | Some c \<Rightarrow> Inl (ErrDriver c)) }"

definition RowsAffected :: "int \<Rightarrow> ('z, int option) prog" where
  "RowsAffected n = do { i \<leftarrow> observe; State_Monad.return (if in_rows i then Some n else None) }"

definition set_db :: "db \<Rightarrow> ('z, unit) prog" where
  "set_db d = State (\<lambda>s. ((), s\<lparr>sw_db := d\<rparr>))"

text \<open>\<open>Commit\<close>: a failure does not say whether the transaction had been made durable.\<close>

definition sql_commit :: "db \<Rightarrow> ('z, go_error option) prog" where
  "sql_commit d = do { i \<leftarrow> observe;
     case in_sql i of
       None \<Rightarrow> do { set_db d; State_Monad.return None }
     | Some c \<Rightarrow> do { (if in_applied i then set_db d else State_Monad.return ()); State_Monad.return (Some (ErrDriver c)) } }"

section \<open>Classification of failures (store.go)\<close>

fun errors_As_code :: "go_error \<Rightarrow> int option"
  and first_code :: "go_error list \<Rightarrow> int option" where
  "errors_As_code (ErrDriver c) = c"
| "errors_As_code (Wrap m e) = errors_As_code e"
| "errors_As_code (Join es) = first_code es"
| "errors_As_code e = None"
| "first_code [] = None"
| "first_code (e # es) = (case errors_As_code e of Some c \<Rightarrow> Some c | None \<Rightarrow> first_code es)"

definition retryableSQLiteError :: "go_error \<Rightarrow> bool" where
  "retryableSQLiteError err = (case errors_As_code err of None \<Rightarrow> False
     | Some result \<Rightarrow> let code = and result 0xff in code = 5 \<or> code = 6)"

definition classifyContext :: "('z, go_error) prog" where
  "classifyContext = do { cancelled \<leftarrow> ctx_Err;
     State_Monad.return (if cancelled then Join [ErrUnavailable, ErrContext] else ErrUnavailable) }"

definition classifySQLiteProbe :: "go_error \<Rightarrow> ('z, go_error) prog" where
  "classifySQLiteProbe err = do { cancelled \<leftarrow> ctx_Err;
     if cancelled then classifyContext
     else State_Monad.return (if retryableSQLiteError err then ErrUnavailable else ErrInvalidState) }"

definition validateWriterLeaseRows :: "db \<Rightarrow> ('z, go_error option) prog" where
  "validateWriterLeaseRows d = do { r \<leftarrow> sql_run (\<lambda>d. Inr (invalid_leases d)) d;
     case r of Inl err \<Rightarrow> do { e \<leftarrow> classifySQLiteProbe err; State_Monad.return (Some e) }
     | Inr n \<Rightarrow> State_Monad.return (if n \<noteq> 0 then Some ErrInvalidState else None) }"

definition validateJournalRows :: "db \<Rightarrow> ('z, go_error option) prog" where
  "validateJournalRows d = do { r \<leftarrow> sql_run (\<lambda>d. Inr (journalRowValidation d)) d;
     case r of Inl err \<Rightarrow> do { e \<leftarrow> classifySQLiteProbe err; State_Monad.return (Some e) }
     | Inr n \<Rightarrow> State_Monad.return (if n \<noteq> 0 then Some ErrInvalidState else None) }"

section \<open>SQL statements\<close>

definition checked :: "db \<Rightarrow> nat \<Rightarrow> go_error + db \<times> int" where
  "checked d n = (if db_constraints d then Inr (d, int n) else Inl (ErrDriver (Some 19)))"

definition maxInt64 :: int where
  "maxInt64 = 9223372036854775807"

definition lease_is :: "digest \<Rightarrow> int \<Rightarrow> transaction_id \<Rightarrow> lease_row \<Rightarrow> bool" where
  "lease_is sid epoch owner l \<longleftrightarrow> lr_service l = sid \<and> lr_epoch l = epoch \<and> lr_owner l = Some owner"

definition lease_held :: "db \<Rightarrow> digest \<Rightarrow> int \<Rightarrow> transaction_id \<Rightarrow> bool" where
  "lease_held d sid epoch owner = list_ex (lease_is sid epoch owner) (db_leases d)"

text \<open>The insert of \<open>advanceWriterLease\<close> with its conflict clause.\<close>

definition sql_advance_lease :: "digest \<Rightarrow> transaction_id \<Rightarrow> db \<Rightarrow> go_error + db \<times> int" where
  "sql_advance_lease sid owner d =
     (if \<not> lease_exists d sid
      then checked (d\<lparr>db_leases := db_leases d @ [\<lparr>lr_service = sid, lr_epoch = 1, lr_owner = Some owner\<rparr>]\<rparr>) 1
      else let upd = (\<lambda>l. lr_service l = sid \<and> lr_epoch l < maxInt64)
           in checked (d\<lparr>db_leases := map (\<lambda>l. if upd l then l\<lparr>lr_epoch := lr_epoch l + 1, lr_owner := Some owner\<rparr> else l) (db_leases d)\<rparr>)
                (length (filter upd (db_leases d))))"

definition sql_lease_epoch :: "digest \<Rightarrow> transaction_id \<Rightarrow> db \<Rightarrow> go_error + int" where
  "sql_lease_epoch sid owner d =
     (case filter (\<lambda>l. lr_service l = sid \<and> lr_owner l = Some owner) (db_leases d) of
        [] \<Rightarrow> Inl ErrNoRows | l # _ \<Rightarrow> Inr (lr_epoch l))"

definition sql_count_lease :: "digest \<Rightarrow> int \<Rightarrow> transaction_id \<Rightarrow> db \<Rightarrow> go_error + nat" where
  "sql_count_lease sid epoch owner d = Inr (length (filter (lease_is sid epoch owner) (db_leases d)))"

definition sql_release_lease :: "digest \<Rightarrow> int \<Rightarrow> transaction_id \<Rightarrow> db \<Rightarrow> go_error + db \<times> int" where
  "sql_release_lease sid epoch owner d =
     checked (d\<lparr>db_leases := map (\<lambda>l. if lease_is sid epoch owner l then l\<lparr>lr_owner := None\<rparr> else l) (db_leases d)\<rparr>)
       (length (filter (lease_is sid epoch owner) (db_leases d)))"

text \<open>\<open>UPDATE ... SET owner = owner\<close> changes no value; its row count proves the lease.\<close>

definition sql_touch_lease :: "digest \<Rightarrow> int \<Rightarrow> transaction_id \<Rightarrow> db \<Rightarrow> go_error + db \<times> int" where
  "sql_touch_lease sid epoch owner d = checked d (length (filter (lease_is sid epoch owner) (db_leases d)))"

definition unresolved_of :: "db \<Rightarrow> digest \<Rightarrow> tx_row list" where
  "unresolved_of d sid = filter (\<lambda>r. tr_service r = sid \<and> unresolved (tr_state r)) (db_transactions d)"

definition unresolved_transaction_exists :: "db \<Rightarrow> transaction_id \<Rightarrow> digest \<Rightarrow> bool" where
  "unresolved_transaction_exists d i sid =
     list_ex (\<lambda>r. tr_id r = i \<and> tr_service r = sid \<and> unresolved (tr_state r)) (db_transactions d)"

definition incomplete_exists :: "db \<Rightarrow> transaction_id \<Rightarrow> bool" where
  "incomplete_exists d i = list_ex (\<lambda>a. jr_tx a = i \<and> jr_state a \<noteq> ActionStateCompleted) (db_actions d)"

definition sql_insert_transaction :: "tx_row \<Rightarrow> int \<Rightarrow> transaction_id \<Rightarrow> db \<Rightarrow> go_error + db \<times> int" where
  "sql_insert_transaction row epoch owner d =
     (if lease_held d (tr_service row) epoch owner \<and> unresolved_of d (tr_service row) = []
      then checked (d\<lparr>db_transactions := db_transactions d @ [row]\<rparr>) 1 else checked d 0)"

definition state_target :: "transaction_id \<Rightarrow> digest \<Rightarrow> TransactionState \<Rightarrow> tx_row \<Rightarrow> bool" where
  "state_target i sid st r \<longleftrightarrow> tr_id r = i \<and> tr_service r = sid \<and> (unresolved (tr_state r) \<or> tr_state r = st)"

definition sql_set_state ::
  "transaction_id \<Rightarrow> digest \<Rightarrow> TransactionState \<Rightarrow> int \<Rightarrow> transaction_id \<Rightarrow> db \<Rightarrow> go_error + db \<times> int" where
  "sql_set_state i sid st epoch owner d =
     (if \<not> incomplete_exists d i \<and> lease_held d sid epoch owner
      then checked (d\<lparr>db_transactions := map (\<lambda>r. if state_target i sid st r then r\<lparr>tr_state := st\<rparr> else r) (db_transactions d)\<rparr>)
             (length (filter (state_target i sid st) (db_transactions d)))
      else checked d 0)"

definition action_is :: "transaction_id \<Rightarrow> int \<Rightarrow> action_row \<Rightarrow> bool" where
  "action_is i n a \<longleftrightarrow> jr_tx a = i \<and> jr_sequence a = n"

definition sql_reuse_action ::
  "transaction_id \<Rightarrow> int \<Rightarrow> digest \<Rightarrow> int \<Rightarrow> transaction_id \<Rightarrow> db \<Rightarrow> go_error + db \<times> int" where
  "sql_reuse_action i n sid epoch owner d =
     (if unresolved_transaction_exists d i sid \<and> lease_held d sid epoch owner
      then checked d (length (filter (action_is i n) (db_actions d))) else checked d 0)"

definition sql_insert_action :: "action_row \<Rightarrow> digest \<Rightarrow> int \<Rightarrow> transaction_id \<Rightarrow> db \<Rightarrow> go_error + db \<times> int" where
  "sql_insert_action row sid epoch owner d =
     (if unresolved_transaction_exists d (jr_tx row) sid \<and> lease_held d sid epoch owner \<and> \<not> incomplete_exists d (jr_tx row)
      then checked (d\<lparr>db_actions := db_actions d @ [row]\<rparr>) 1 else checked d 0)"

text \<open>The two updates of \<open>updateAction\<close>: the rows they select and what they set.\<close>

definition mark_target :: "transaction_id \<Rightarrow> int \<Rightarrow> action_row \<Rightarrow> bool" where
  "mark_target i n a \<longleftrightarrow> action_is i n a \<and>
     (jr_state a = ActionStateIntent \<or> jr_state a = ActionStateEffectOutcomeUnknown) \<and> jr_post a = None"

definition complete_target :: "transaction_id \<Rightarrow> int \<Rightarrow> digest \<Rightarrow> action_row \<Rightarrow> bool" where
  "complete_target i n post a \<longleftrightarrow> action_is i n a \<and>
     (jr_state a = ActionStateEffectOutcomeUnknown \<or> jr_state a = ActionStateCompleted \<and> jr_post a = Some post)"

definition sql_update_action ::
  "(action_row \<Rightarrow> bool) \<Rightarrow> (action_row \<Rightarrow> action_row) \<Rightarrow> transaction_id \<Rightarrow> digest \<Rightarrow> int \<Rightarrow> transaction_id \<Rightarrow> db \<Rightarrow> go_error + db \<times> int" where
  "sql_update_action target change i sid epoch owner d =
     (if unresolved_transaction_exists d i sid \<and> lease_held d sid epoch owner
      then checked (d\<lparr>db_actions := map (\<lambda>a. if target a then change a else a) (db_actions d)\<rparr>)
             (length (filter target (db_actions d)))
      else checked d 0)"

definition sql_insert_applied :: "applied_row \<Rightarrow> db \<Rightarrow> go_error + db \<times> int" where
  "sql_insert_applied row d = checked (d\<lparr>db_applied := db_applied d @ [row]\<rparr>) 1"

definition sql_replace_applied :: "applied_row \<Rightarrow> transaction_id \<Rightarrow> string \<Rightarrow> db \<Rightarrow> go_error + db \<times> int" where
  "sql_replace_applied row base predecessor d =
     (let target = (\<lambda>a. ar_service a = ar_service row \<and> ar_tx a = base \<and> ar_workload a = predecessor)
      in checked (d\<lparr>db_applied := map (\<lambda>a. if target a then row else a) (db_applied d)\<rparr>)
           (length (filter target (db_applied d))))"

definition sql_finish_transaction :: "transaction_id \<Rightarrow> digest \<Rightarrow> int \<Rightarrow> transaction_id \<Rightarrow> db \<Rightarrow> go_error + db \<times> int" where
  "sql_finish_transaction i sid epoch owner d =
     (let target = (\<lambda>r. tr_id r = i \<and> tr_service r = sid \<and> tr_state r = TransactionActive)
      in if \<not> incomplete_exists d i \<and> lease_held d sid epoch owner
         then checked (d\<lparr>db_transactions := map (\<lambda>r. if target r then r\<lparr>tr_state := TransactionSucceeded\<rparr> else r) (db_transactions d)\<rparr>)
                (length (filter target (db_transactions d)))
         else checked d 0)"

definition sql_insert_backup :: "backup_row \<Rightarrow> db \<Rightarrow> go_error + db \<times> int" where
  "sql_insert_backup row d = checked (d\<lparr>db_backups := db_backups d @ [row]\<rparr>) 1"

definition sql_delete_backups :: "db \<Rightarrow> go_error + db \<times> int" where
  "sql_delete_backups d = checked (d\<lparr>db_backups := []\<rparr>) (length (db_backups d))"

definition rebuild_source :: "digest \<Rightarrow> BackupIndexCandidate \<Rightarrow> tx_row \<Rightarrow> bool" where
  "rebuild_source sid c r \<longleftrightarrow> tr_id r = bc_TransactionID c \<and> tr_service r = sid \<and>
     tr_kind r = TransactionUpgrade \<and> tr_state r = TransactionSucceeded \<and>
     tr_runtime r = kind_String (bc_Runtime c) \<and> tr_source r = bc_SourceDigest c \<and>
     tr_effective r = bc_EffectiveDigest c \<and> tr_execution r = bc_ExecutionDigest c \<and>
     tr_base r = Some (bc_BaseTransactionID c) \<and> tr_predecessor r = Some (bc_PredecessorWorkloadID c)"

definition rebuildBackupIndexSQL :: "digest \<Rightarrow> BackupIndexCandidate \<Rightarrow> db \<Rightarrow> go_error + db \<times> int" where
  "rebuildBackupIndexSQL sid c d =
     (let rows = map (\<lambda>r. \<lparr>br_tx = tr_id r, br_service = tr_service r, br_path = bc_ManifestPath c,
                          br_digest = bc_ManifestDigest c, br_created = bc_CreatedUnix c\<rparr>)
                   (filter (rebuild_source sid c) (db_transactions d))
      in checked (d\<lparr>db_backups := db_backups d @ rows\<rparr>) (length rows))"

section \<open>What the primitives touch\<close>

text \<open>Observing the world leaves the tables alone; only a commit changes them.\<close>

lemma run_observe: "run_state observe s = (sw_env s (sw_tick s), s\<lparr>sw_tick := Suc (sw_tick s)\<rparr>)"
  by (simp add: observe_def)

lemma run_current_db: "run_state current_db s = (sw_db s, s)"
  by (simp add: current_db_def)

lemma moves_observe [moves_rules]:
  "moves sw_db (=) observe" "moves sw_env (=) observe" "moves store_world.more (=) observe"
  by (auto intro!: movesI simp: run_observe)

lemma moves_current_db [moves_rules]: "reflp R \<Longrightarrow> moves f R current_db"
  by (auto intro!: movesI simp: run_current_db reflpD)

lemma moves_set_db [moves_rules]: "moves sw_env (=) (set_db d)" "moves store_world.more (=) (set_db d)"
  by (auto intro!: movesI simp: set_db_def)

text \<open>The parts of the world that no program of the store touches.\<close>

definition untouched :: "('z, 'a) prog \<Rightarrow> bool" where
  "untouched m \<longleftrightarrow> moves sw_env (=) m \<and> moves store_world.more (=) m"

definition reads :: "('z, 'a) prog \<Rightarrow> bool" where
  "reads m \<longleftrightarrow> moves sw_db (=) m \<and> moves sw_env (=) m \<and> moves store_world.more (=) m"

named_theorems reads_rules \<open>programs that read the tables only\<close>

lemma reads_return [reads_rules]: "reads (State_Monad.return x)"
  by (auto simp: reads_def intro: moves_rules)

lemma reads_bind [reads_rules]: "reads m \<Longrightarrow> (\<And>x. reads (g x)) \<Longrightarrow> reads (State_Monad.bind m g)"
  by (auto simp: reads_def intro: moves_rules)

lemma reads_if [reads_rules]: "(b \<Longrightarrow> reads m) \<Longrightarrow> (\<not> b \<Longrightarrow> reads n) \<Longrightarrow> reads (if b then m else n)"
  by simp

lemma reads_cases [reads_rules]:
  "(x = None \<Longrightarrow> reads m) \<Longrightarrow> (\<And>y. x = Some y \<Longrightarrow> reads (g y)) \<Longrightarrow> reads (case x of None \<Rightarrow> m | Some y \<Rightarrow> g y)"
  by (cases x) auto

lemma reads_case_sum [reads_rules]:
  "(\<And>e. x = Inl e \<Longrightarrow> reads (g e)) \<Longrightarrow> (\<And>y. x = Inr y \<Longrightarrow> reads (h y)) \<Longrightarrow>
   reads (case x of Inl e \<Rightarrow> g e | Inr y \<Rightarrow> h y)"
  by (cases x) auto

lemma reads_case_prod [reads_rules]:
  "(\<And>a b. x = (a, b) \<Longrightarrow> reads (g a b)) \<Longrightarrow> reads (case x of (a, b) \<Rightarrow> g a b)"
  by (cases x) auto

lemma reads_case_list [reads_rules]:
  "(x = [] \<Longrightarrow> reads m) \<Longrightarrow> (\<And>y ys. x = y # ys \<Longrightarrow> reads (g y ys)) \<Longrightarrow>
   reads (case x of [] \<Rightarrow> m | y # ys \<Rightarrow> g y ys)"
  by (cases x) auto

lemma reads_observe [reads_rules]: "reads observe"
  by (auto simp: reads_def intro: moves_rules)

lemma reads_current_db [reads_rules]: "reads current_db"
  by (auto simp: reads_def intro: moves_rules)

lemma readsD: "reads m \<Longrightarrow> run_state m s = (x, t) \<Longrightarrow> sw_db t = sw_db s"
  by (auto simp: reads_def dest: movesD)

lemma reads_db: "reads m \<Longrightarrow> moves sw_db (=) m"
  by (simp add: reads_def)

lemma reads_primitives [reads_rules]:
  "reads ctx_Err" "reads files_valid" "reads file_step" "reads tryFileLock" "reads read_random"
  "reads sql_begin" "reads (sql_run f d)" "reads (RowsAffected n)"
  unfolding ctx_Err_def files_valid_def file_step_def tryFileLock_def read_random_def sql_begin_def
    sql_run_def RowsAffected_def
  by (intro reads_rules)+

lemma reads_classify [reads_rules]: "reads classifyContext" "reads (classifySQLiteProbe e)"
  unfolding classifyContext_def classifySQLiteProbe_def by (intro reads_rules)+

lemma reads_validate [reads_rules]: "reads (validateWriterLeaseRows d)" "reads (validateJournalRows d)"
  unfolding validateWriterLeaseRows_def validateJournalRows_def by (intro reads_rules)+

text \<open>What a call returns: an engine failure, or the statement's own result.\<close>

lemma sql_run_result:
  "run_state (sql_run f d) s = (r, t) \<Longrightarrow> (\<exists>c. r = Inl (ErrDriver c)) \<or> r = f d"
  by (auto simp: sql_run_def run_observe split: option.splits)

lemma sql_run_Inr: "run_state (sql_run f d) s = (Inr x, t) \<Longrightarrow> f d = Inr x"
  by (auto dest: sql_run_result)

lemma sql_begin_result:
  "run_state sql_begin s = (r, t) \<Longrightarrow> (\<exists>c. r = Inl (ErrDriver c)) \<or> r = Inr (sw_db s)"
  by (auto simp: sql_begin_def run_bind_eq run_return_eq run_current_db run_observe split: option.splits)

lemma RowsAffected_result: "run_state (RowsAffected n) s = (r, t) \<Longrightarrow> r = None \<or> r = Some n"
  by (auto simp: RowsAffected_def run_observe split: if_splits)

lemma sql_commit_result:
  "run_state (sql_commit d) s = (r, t) \<Longrightarrow>
   (r = None \<longrightarrow> sw_db t = d) \<and> (sw_db t = d \<or> sw_db t = sw_db s)"
  by (auto simp: sql_commit_def run_bind_eq run_return_eq run_observe set_db_def
      split: option.splits if_splits)

lemma moves_sql_commit [moves_rules]:
  "moves sw_env (=) (sql_commit d)" "moves store_world.more (=) (sql_commit d)"
  unfolding sql_commit_def by (intro moves_rules | simp)+

lemma checked_Inr: "checked d n = Inr (d', k) \<longleftrightarrow> d' = d \<and> k = int n \<and> db_constraints d"
  by (auto simp: checked_def)

section \<open>Outcomes\<close>

text \<open>
  One rule per program says what its result and its final tables can be; used as destruction rules,
  these rules execute a program symbolically.
\<close>

named_theorems outcomes \<open>result and final tables of a program\<close>

lemma run_bindE:
  assumes "run_state (State_Monad.bind m g) s = (y, u)"
  obtains x t where "run_state m s = (x, t)" "run_state (g x) t = (y, u)"
  using assms by (auto simp: run_bind_eq simp del: run_state_bind)

lemmas execute = run_bind_eq run_return_eq

lemma primitive_outcomes [outcomes]:
  "run_state ctx_Err s = (b, t) \<Longrightarrow> sw_db t = sw_db s"
  "run_state files_valid s = (b, t) \<Longrightarrow> sw_db t = sw_db s"
  "run_state file_step s = (b, t) \<Longrightarrow> sw_db t = sw_db s"
  "run_state tryFileLock s = (k, t) \<Longrightarrow> sw_db t = sw_db s"
  "run_state read_random s = (o', t) \<Longrightarrow> sw_db t = sw_db s"
  "run_state current_db s = (d', t) \<Longrightarrow> d' = sw_db s \<and> t = s"
  "run_state classifyContext s = (e, t) \<Longrightarrow> sw_db t = sw_db s"
  "run_state (classifySQLiteProbe e') s = (e, t) \<Longrightarrow> sw_db t = sw_db s"
  by (auto dest: readsD [OF reads_primitives(1)] readsD [OF reads_primitives(2)] readsD [OF reads_primitives(3)]
      readsD [OF reads_primitives(4)] readsD [OF reads_primitives(5)] readsD [OF reads_classify(1)]
      readsD [OF reads_classify(2)] simp: run_current_db)

lemma sql_outcomes [outcomes]:
  "run_state sql_begin s = (b, t) \<Longrightarrow> sw_db t = sw_db s \<and> ((\<exists>c. b = Inl (ErrDriver c)) \<or> b = Inr (sw_db s))"
  "run_state (sql_run f d) s = (r, t) \<Longrightarrow> sw_db t = sw_db s \<and> ((\<exists>c. r = Inl (ErrDriver c)) \<or> r = f d)"
  "run_state (RowsAffected n) s = (k, t) \<Longrightarrow> sw_db t = sw_db s \<and> (k = None \<or> k = Some n)"
  "run_state (sql_commit d) s = (e, t) \<Longrightarrow> (e = None \<longrightarrow> sw_db t = d) \<and> (sw_db t = d \<or> sw_db t = sw_db s)"
  by (blast dest: readsD [OF reads_primitives(6)] sql_begin_result,
      blast dest: readsD [OF reads_primitives(7)] sql_run_result,
      blast dest: readsD [OF reads_primitives(8)] RowsAffected_result, rule sql_commit_result)

end
