(* ===== verification/StoreLease.thy ===== *)
theory StoreLease
  imports StoreDb
begin

text \<open>
  Writer leases, fences and service locks (\<open>writer_lease_unix.go\<close>, \<open>writer_fence_unix.go\<close>,
  \<open>service_lock_unix.go\<close>, \<open>operation_lock_unix.go\<close>). A service lock carries the lease it acquired: the
  service's identity, the epoch and a random owner. \<open>withFencedWrite\<close> runs a mutation inside one SQL
  transaction that proves the lease before and after it.
\<close>

section \<open>Leases (writer\_lease\_unix.go)\<close>

record writerLease =
  wl_serviceID :: digest
  wl_epoch :: int
  wl_owner :: transaction_id

definition classifyWriterLeaseResult :: "go_error option \<Rightarrow> ('z, go_error option) prog" where
  "classifyWriterLeaseResult err = (case err of None \<Rightarrow> State_Monad.return None
     | Some e \<Rightarrow> do { e \<leftarrow> classifySQLiteProbe e; State_Monad.return (Some e) })"

definition requireWriterLeaseResult :: "int \<Rightarrow> ('z, go_error option) prog" where
  "requireWriterLeaseResult result = do { rows \<leftarrow> RowsAffected result;
     State_Monad.return (case rows of None \<Rightarrow> Some ErrInvalidState
       | Some n \<Rightarrow> if n \<noteq> 1 then Some ErrOwnershipLost else None) }"

definition requireJournalMutation :: "int \<Rightarrow> ('z, go_error option) prog" where
  "requireJournalMutation result = do { rows \<leftarrow> RowsAffected result;
     State_Monad.return (case rows of None \<Rightarrow> Some ErrInvalidState
       | Some n \<Rightarrow> if n \<noteq> 1 then Some ErrInvalidState else None) }"

definition advanceWriterLease :: "db \<Rightarrow> writerLease \<Rightarrow> ('z, go_error + db \<times> writerLease) prog" where
  "advanceWriterLease d lease = do {
     r \<leftarrow> sql_run (sql_advance_lease (wl_serviceID lease) (wl_owner lease)) d;
     case r of
       Inl err \<Rightarrow> do { e \<leftarrow> classifySQLiteProbe err; State_Monad.return (Inl e) }
     | Inr (d, result) \<Rightarrow> do {
         rows \<leftarrow> RowsAffected result;
         if rows \<noteq> Some 1 then State_Monad.return (Inl ErrInvalidState)
         else do {
           q \<leftarrow> sql_run (sql_lease_epoch (wl_serviceID lease) (wl_owner lease)) d;
           case q of
             Inl err \<Rightarrow> do { e \<leftarrow> classifySQLiteProbe err; State_Monad.return (Inl e) }
           | Inr epoch \<Rightarrow>
               if epoch \<le> 0 then State_Monad.return (Inl ErrInvalidState)
               else State_Monad.return (Inr (d, lease\<lparr>wl_epoch := epoch\<rparr>)) } } }"

definition acquireWriterLease :: "digest \<Rightarrow> ('z, go_error + writerLease) prog" where
  "acquireWriterLease serviceID = do {
     random \<leftarrow> read_random;
     case random of
       None \<Rightarrow> State_Monad.return (Inl ErrUnavailable)
     | Some owner \<Rightarrow> do {
         b \<leftarrow> sql_begin;
         case b of
           Inl err \<Rightarrow> do { e \<leftarrow> classifySQLiteProbe err; State_Monad.return (Inl e) }
         | Inr d \<Rightarrow> do {
             r \<leftarrow> advanceWriterLease d \<lparr>wl_serviceID = serviceID, wl_epoch = 0, wl_owner = owner\<rparr>;
             case r of
               Inl e \<Rightarrow> State_Monad.return (Inl e)
             | Inr (d, lease) \<Rightarrow> do {
                 err \<leftarrow> sql_commit d;
                 case err of
                   Some e \<Rightarrow> do { e \<leftarrow> classifySQLiteProbe e; State_Monad.return (Inl e) }
                 | None \<Rightarrow> State_Monad.return (Inr lease) } } } }"

definition checkWriterLease :: "writerLease \<Rightarrow> ('z, go_error option) prog" where
  "checkWriterLease lease =
     (if wl_epoch lease \<le> 0 then State_Monad.return (Some ErrOwnershipLost)
      else do {
        d \<leftarrow> current_db;
        r \<leftarrow> sql_run (sql_count_lease (wl_serviceID lease) (wl_epoch lease) (wl_owner lease)) d;
        case r of
          Inl err \<Rightarrow> do { e \<leftarrow> classifySQLiteProbe err; State_Monad.return (Some e) }
        | Inr matches \<Rightarrow> State_Monad.return (if matches \<noteq> 1 then Some ErrOwnershipLost else None) })"

definition releaseWriterLease :: "writerLease \<Rightarrow> ('z, go_error option) prog" where
  "releaseWriterLease lease =
     (if wl_epoch lease \<le> 0 then State_Monad.return (Some ErrOwnershipLost)
      else do {
        b \<leftarrow> sql_begin;
        case b of
          Inl err \<Rightarrow> do { e \<leftarrow> classifySQLiteProbe err; State_Monad.return (Some e) }
        | Inr d \<Rightarrow> do {
            r \<leftarrow> sql_run (sql_release_lease (wl_serviceID lease) (wl_epoch lease) (wl_owner lease)) d;
            case r of
              Inl err \<Rightarrow> do { e \<leftarrow> classifySQLiteProbe err; State_Monad.return (Some e) }
            | Inr (d, result) \<Rightarrow> do {
                err \<leftarrow> requireWriterLeaseResult result;
                case err of
                  Some e \<Rightarrow> State_Monad.return (Some e)
                | None \<Rightarrow> do { err \<leftarrow> sql_commit d; classifyWriterLeaseResult err } } } })"

section \<open>Service locks (service\_lock\_unix.go, operation\_lock\_unix.go)\<close>

text \<open>The lock's descriptor is open until it is closed; its file checks are observations of the world.\<close>

record ServiceLock =
  sl_open :: bool
  sl_lease :: writerLease

definition lock_Valid :: "ServiceLock \<Rightarrow> ('z, bool) prog" where
  "lock_Valid lock = (if \<not> sl_open lock then State_Monad.return False else files_valid)"

definition close_operation :: "('z, go_error option) prog" where
  "close_operation = do { unlocked \<leftarrow> file_step; closed \<leftarrow> file_step;
     State_Monad.return (if \<not> unlocked \<or> \<not> closed then Some ErrUnavailable else None) }"

definition closeFilesystem :: "ServiceLock \<Rightarrow> ('z, go_error option) prog" where
  "closeFilesystem lock =
     (if \<not> sl_open lock then State_Monad.return (Some ErrUnavailable)
      else do { unlocked \<leftarrow> file_step; closed \<leftarrow> file_step; operationErr \<leftarrow> close_operation;
        State_Monad.return (if \<not> unlocked \<or> \<not> closed \<or> operationErr \<noteq> None then Some ErrUnavailable else None) })"

definition acquireStateOperation :: "('z, go_error option) prog" where
  "acquireStateOperation = do { r \<leftarrow> tryFileLock;
     case r of (acquired, err) \<Rightarrow>
       State_Monad.return (if err = None \<and> \<not> acquired then Some ErrUnavailable else err) }"

definition trySharedStateOperation :: "('z, go_error option) prog" where
  "trySharedStateOperation = do {
     anchored \<leftarrow> files_valid;
     if \<not> anchored then State_Monad.return (Some ErrInvalidState)
     else do {
       opened \<leftarrow> file_step;
       if \<not> opened then State_Monad.return (Some ErrInvalidState)
       else do {
         private \<leftarrow> files_valid;
         if \<not> private then do { close_operation; State_Monad.return (Some ErrInvalidState) }
         else do {
           err \<leftarrow> acquireStateOperation;
           case err of
             Some e \<Rightarrow> do { close_operation; State_Monad.return (Some e) }
           | None \<Rightarrow> do {
               ok \<leftarrow> files_valid;
               if \<not> ok then do { close_operation; State_Monad.return (Some ErrInvalidState) }
               else State_Monad.return None } } } } }"

definition openServiceLockFile :: "('z, go_error option) prog" where
  "openServiceLockFile = do {
     opened \<leftarrow> file_step;
     if \<not> opened then State_Monad.return (Some ErrInvalidState)
     else do {
       ok \<leftarrow> files_valid;
       State_Monad.return (if ok then None else Some ErrInvalidState) } }"

definition acquire_lock :: "ServiceLock \<Rightarrow> ('z, go_error option \<times> ServiceLock) prog" where
  "acquire_lock lock = do { r \<leftarrow> tryFileLock;
     case r of (acquired, err) \<Rightarrow>
       (case (if err = None \<and> \<not> acquired then Some ErrUnavailable else err) of
          Some e \<Rightarrow> State_Monad.return (Some e, lock)
        | None \<Rightarrow> do { ok \<leftarrow> lock_Valid lock;
            if \<not> ok then do { closeFilesystem lock; State_Monad.return (Some ErrInvalidState, lock\<lparr>sl_open := False\<rparr>) }
            else State_Monad.return (None, lock) }) }"

definition openServiceLock :: "hash \<Rightarrow> string \<Rightarrow> string \<Rightarrow> string \<Rightarrow> ('z, go_error + ServiceLock) prog" where
  "openServiceLock H databaseName projectName serviceName =
     (case serviceIdentity H projectName serviceName of (serviceID, valid) \<Rightarrow>
      if \<not> valid then State_Monad.return (Inl ErrInvalidState)
      else case serviceLockName H databaseName projectName serviceName of (name, valid) \<Rightarrow> do {
        anchored \<leftarrow> files_valid;
        if \<not> valid \<or> \<not> anchored then State_Monad.return (Inl ErrInvalidState)
        else do {
          opErr \<leftarrow> trySharedStateOperation;
          case opErr of
            Some e \<Rightarrow> State_Monad.return (Inl e)
          | None \<Rightarrow> do {
              fileErr \<leftarrow> openServiceLockFile;
              case fileErr of
                Some e \<Rightarrow> do { close_operation; State_Monad.return (Inl e) }
              | None \<Rightarrow> do {
                  acquired \<leftarrow> acquire_lock \<lparr>sl_open = True, sl_lease = \<lparr>wl_serviceID = 0, wl_epoch = 0, wl_owner = 0\<rparr>\<rparr>;
                  case acquired of
                    (Some e, lock) \<Rightarrow> do { closeFilesystem lock; State_Monad.return (Inl e) }
                  | (None, lock) \<Rightarrow> do {
                      lease \<leftarrow> acquireWriterLease serviceID;
                      case lease of
                        Inl e \<Rightarrow> do { closeFilesystem lock; State_Monad.return (Inl e) }
                      | Inr lease \<Rightarrow> do {
                          let lock = lock\<lparr>sl_lease := lease\<rparr>;
                          ok \<leftarrow> lock_Valid lock;
                          if \<not> ok then do {
                            releaseErr \<leftarrow> releaseWriterLease lease;
                            closeErr \<leftarrow> closeFilesystem lock;
                            State_Monad.return (Inl (Join (ErrInvalidState # List.map_filter id [releaseErr, closeErr]))) }
                          else State_Monad.return (Inr lock) } } } } } })"

definition lock_Close :: "ServiceLock \<Rightarrow> ('z, go_error option \<times> ServiceLock) prog" where
  "lock_Close lock =
     (if \<not> sl_open lock then State_Monad.return (Some ErrUnavailable, lock)
      else do {
        valid1 \<leftarrow> lock_Valid lock;
        releaseErr \<leftarrow> releaseWriterLease (sl_lease lock);
        valid2 \<leftarrow> (if valid1 then lock_Valid lock else State_Monad.return False);
        closeErr \<leftarrow> closeFilesystem lock;
        State_Monad.return
          (if \<not> valid2 then errors_Join [Some ErrInvalidState, releaseErr, closeErr] else errors_Join [releaseErr, closeErr],
           lock\<lparr>sl_open := False\<rparr>) })"

section \<open>Fences (writer\_fence\_unix.go)\<close>

definition Fence :: "ServiceLock \<Rightarrow> ('z, go_error option) prog" where
  "Fence lock =
     (if \<not> sl_open lock then State_Monad.return (Some ErrOwnershipLost)
      else do {
        cancelled \<leftarrow> ctx_Err;
        if cancelled then do { e \<leftarrow> classifyContext; State_Monad.return (Some e) }
        else do {
          ok \<leftarrow> lock_Valid lock;
          if \<not> ok then State_Monad.return (Some ErrInvalidState)
          else do {
            err \<leftarrow> checkWriterLease (sl_lease lock);
            case err of
              Some e \<Rightarrow> State_Monad.return (Some e)
            | None \<Rightarrow> do {
                cancelled \<leftarrow> ctx_Err;
                if cancelled then do { e \<leftarrow> classifyContext; State_Monad.return (Some e) }
                else do {
                  ok \<leftarrow> lock_Valid lock;
                  State_Monad.return (if \<not> ok then Some ErrInvalidState else None) } } } } })"

definition proveWriterLease :: "db \<Rightarrow> writerLease \<Rightarrow> ('z, go_error option) prog" where
  "proveWriterLease d lease =
     (if wl_epoch lease \<le> 0 then State_Monad.return (Some ErrOwnershipLost)
      else do {
        r \<leftarrow> sql_run (sql_touch_lease (wl_serviceID lease) (wl_epoch lease) (wl_owner lease)) d;
        case r of
          Inl err \<Rightarrow> do { e \<leftarrow> classifySQLiteProbe err; State_Monad.return (Some e) }
        | Inr (d, result) \<Rightarrow> requireWriterLeaseResult result })"

definition classifyWriterLeaseOperation :: "go_error \<Rightarrow> ('z, go_error) prog" where
  "classifyWriterLeaseOperation err = do {
     cancelled \<leftarrow> ctx_Err;
     if cancelled then classifyContext
     else State_Monad.return
       (if errors_Is err ErrInvalidState \<or> errors_Is err ErrOwnershipLost \<or> errors_Is err ErrUnavailable
        then err else ErrInvalidState) }"

text \<open>
  The operation gets the transaction's view of the tables and returns the changed view with its
  result; a failed operation's changes are rolled back.
\<close>

definition withFencedWrite ::
  "ServiceLock \<Rightarrow> (db \<Rightarrow> writerLease \<Rightarrow> ('z, go_error + db \<times> 'a) prog) \<Rightarrow> ('z, go_error + 'a) prog" where
  "withFencedWrite lock operation =
     (if \<not> sl_open lock then State_Monad.return (Inl ErrInvalidState)
      else do {
        cancelled \<leftarrow> ctx_Err;
        if cancelled then do { e \<leftarrow> classifyContext; State_Monad.return (Inl e) }
        else do {
          ok \<leftarrow> lock_Valid lock;
          if \<not> ok then State_Monad.return (Inl ErrInvalidState)
          else do {
            b \<leftarrow> sql_begin;
            case b of
              Inl err \<Rightarrow> do { e \<leftarrow> classifySQLiteProbe err; State_Monad.return (Inl e) }
            | Inr d \<Rightarrow> do {
                err \<leftarrow> proveWriterLease d (sl_lease lock);
                case err of
                  Some e \<Rightarrow> State_Monad.return (Inl e)
                | None \<Rightarrow> do {
                    r \<leftarrow> operation d (sl_lease lock);
                    case r of
                      Inl err \<Rightarrow> do { e \<leftarrow> classifyWriterLeaseOperation err; State_Monad.return (Inl e) }
                    | Inr (d, x) \<Rightarrow> do {
                        err \<leftarrow> proveWriterLease d (sl_lease lock);
                        case err of
                          Some e \<Rightarrow> State_Monad.return (Inl e)
                        | None \<Rightarrow> do {
                            ok \<leftarrow> lock_Valid lock;
                            if \<not> ok then State_Monad.return (Inl ErrInvalidState)
                            else do {
                              err \<leftarrow> sql_commit d;
                              err \<leftarrow> classifyWriterLeaseResult err;
                              State_Monad.return (case err of Some e \<Rightarrow> Inl e | None \<Rightarrow> Inr x) } } } } } } } })"

section \<open>What fences and leases do to the tables\<close>

abbreviation holds :: "db \<Rightarrow> writerLease \<Rightarrow> bool" where
  "holds d lease \<equiv> lease_held d (wl_serviceID lease) (wl_epoch lease) (wl_owner lease)"

lemma reads_results [reads_rules]:
  "reads (classifyWriterLeaseResult e)" "reads (requireWriterLeaseResult n)" "reads (requireJournalMutation n)"
  unfolding classifyWriterLeaseResult_def requireWriterLeaseResult_def requireJournalMutation_def
  by (intro reads_rules)+

lemma reads_advance [reads_rules]: "reads (advanceWriterLease d lease)"
  unfolding advanceWriterLease_def by (intro reads_rules)

lemma reads_lock [reads_rules]:
  "reads (lock_Valid lock)" "reads close_operation" "reads (closeFilesystem lock)" "reads acquireStateOperation"
  unfolding lock_Valid_def close_operation_def closeFilesystem_def acquireStateOperation_def
  by (intro reads_rules)+

lemma reads_open [reads_rules]: "reads trySharedStateOperation" "reads openServiceLockFile" "reads (acquire_lock lock)"
  unfolding trySharedStateOperation_def openServiceLockFile_def acquire_lock_def by (intro reads_rules)+

lemma reads_fence [reads_rules]:
  "reads (checkWriterLease lease)" "reads (proveWriterLease d lease)" "reads (classifyWriterLeaseOperation e)"
  unfolding checkWriterLease_def proveWriterLease_def classifyWriterLeaseOperation_def
  by (intro reads_rules)+

lemma reads_Fence [reads_rules]: "reads (Fence lock)"
  unfolding Fence_def by (intro reads_rules)

lemma filter_length_one: "length (filter P xs) = Suc 0 \<Longrightarrow> list_ex P xs"
  by (metis One_nat_def filter_empty_conv length_0_conv list_ex_iff zero_neq_one)

lemma result_outcomes [outcomes]:
  "run_state (requireWriterLeaseResult n) s = (e, t) \<Longrightarrow> sw_db t = sw_db s \<and> (e = None \<longrightarrow> n = 1)"
  "run_state (requireJournalMutation n) s = (e, t) \<Longrightarrow> sw_db t = sw_db s \<and> (e = None \<longrightarrow> n = 1)"
  "run_state (classifyWriterLeaseResult e') s = (e, t) \<Longrightarrow> sw_db t = sw_db s \<and> (e = None \<longrightarrow> e' = None)"
  "run_state (lock_Valid lock) s = (b, t) \<Longrightarrow> sw_db t = sw_db s"
  "run_state (classifyWriterLeaseOperation er') s = (er, t) \<Longrightarrow> sw_db t = sw_db s"
proof -
  show "sw_db t = sw_db s \<and> (e = None \<longrightarrow> n = 1)" if "run_state (requireWriterLeaseResult n) s = (e, t)"
    using that by (auto simp: requireWriterLeaseResult_def execute simp del: run_state_bind run_state_return
        dest!: outcomes split: option.splits if_splits)
  show "sw_db t = sw_db s \<and> (e = None \<longrightarrow> n = 1)" if "run_state (requireJournalMutation n) s = (e, t)"
    using that by (auto simp: requireJournalMutation_def execute simp del: run_state_bind run_state_return
        dest!: outcomes split: option.splits if_splits)
  show "sw_db t = sw_db s \<and> (e = None \<longrightarrow> e' = None)" if "run_state (classifyWriterLeaseResult e') s = (e, t)"
    using that by (auto simp: classifyWriterLeaseResult_def execute simp del: run_state_bind run_state_return
        dest!: outcomes split: option.splits)
  show "sw_db t = sw_db s" if "run_state (lock_Valid lock) s = (b, t)"
    using that by (rule readsD [OF reads_lock(1)])
  show "sw_db t = sw_db s" if "run_state (classifyWriterLeaseOperation er') s = (er, t)"
    using that by (rule readsD [OF reads_fence(3)])
qed

lemma proveWriterLease_outcome [outcomes]:
  assumes "run_state (proveWriterLease d lease) s = (e, t)"
  shows "sw_db t = sw_db s \<and> (e = None \<longrightarrow> holds d lease \<and> 0 < wl_epoch lease)"
proof
  show "sw_db t = sw_db s" using assms by (rule readsD [OF reads_fence(2)])
  show "e = None \<longrightarrow> holds d lease \<and> 0 < wl_epoch lease"
    using assms
    by (auto simp: proveWriterLease_def sql_touch_lease_def checked_Inr lease_held_def
        simp del: run_state_bind elim!: run_bindE
        dest!: outcomes filter_length_one split: if_split_asm sum.split_asm prod.split_asm)
qed

text \<open>
  A fenced write either leaves the tables as they were, or commits what the operation made of them,
  and then the lease was current both before and after the operation.
\<close>

lemma withFencedWrite_outcome:
  assumes run: "run_state (withFencedWrite lock operation) s = (r, t)"
    and op: "\<And>d. reads (operation d (sl_lease lock))"
  shows "(sw_db t = sw_db s \<and> (\<exists>e. r = Inl e)) \<or>
    (\<exists>d x u v. run_state (operation (sw_db s) (sl_lease lock)) u = (Inr (d, x), v) \<and> sw_db u = sw_db s \<and>
       holds (sw_db s) (sl_lease lock) \<and> holds d (sl_lease lock) \<and> sl_open lock \<and> 0 < wl_epoch (sl_lease lock) \<and>
       sw_db t = d \<and> (r = Inr x \<or> (\<exists>e. r = Inl e)))"
proof -
  have reads_op: "sw_db v = sw_db u" if "run_state (operation d (sl_lease lock)) u = (x, v)" for d u x v
    using that by (rule readsD [OF op])
  show ?thesis
    using run unfolding withFencedWrite_def
    by (auto simp del: run_state_bind elim!: run_bindE
        split: if_split_asm sum.split_asm option.split_asm prod.split_asm dest!: outcomes) (metis reads_op)+
qed

lemma Fence_outcome:
  assumes "run_state (Fence lock) s = (e, t)"
  shows "sw_db t = sw_db s \<and> (e = None \<longrightarrow> sl_open lock \<and> holds (sw_db s) (sl_lease lock) \<and> 0 < wl_epoch (sl_lease lock))"
proof
  show "sw_db t = sw_db s" using assms by (rule readsD [OF reads_Fence])
  have check: "sw_db v = sw_db u \<and> (e = None \<longrightarrow> holds (sw_db u) l \<and> 0 < wl_epoch l)"
    if "run_state (checkWriterLease l) u = (e, v)" for l u e v
    using that
    by (auto simp: checkWriterLease_def sql_count_lease_def lease_held_def simp del: run_state_bind elim!: run_bindE
        dest!: outcomes filter_length_one split: if_split_asm sum.split_asm)
  show "e = None \<longrightarrow> sl_open lock \<and> holds (sw_db s) (sl_lease lock) \<and> 0 < wl_epoch (sl_lease lock)"
    using assms
    by (auto simp: Fence_def simp del: run_state_bind elim!: run_bindE
        dest!: outcomes check split: if_split_asm option.split_asm)
qed

lemma advanceWriterLease_outcome [outcomes]:
  assumes "run_state (advanceWriterLease d lease) s = (r, t)"
  shows "sw_db t = sw_db s \<and> ((\<exists>e. r = Inl e) \<or>
    (\<exists>d' l. r = Inr (d', l) \<and> sql_advance_lease (wl_serviceID lease) (wl_owner lease) d = Inr (d', 1) \<and>
       wl_serviceID l = wl_serviceID lease \<and> wl_owner l = wl_owner lease \<and> 0 < wl_epoch l \<and>
       sql_lease_epoch (wl_serviceID lease) (wl_owner lease) d' = Inr (wl_epoch l)))"
proof
  show "sw_db t = sw_db s" using assms by (rule readsD [OF reads_advance])
  show "(\<exists>e. r = Inl e) \<or> (\<exists>d' l. r = Inr (d', l) \<and> sql_advance_lease (wl_serviceID lease) (wl_owner lease) d = Inr (d', 1) \<and>
       wl_serviceID l = wl_serviceID lease \<and> wl_owner l = wl_owner lease \<and> 0 < wl_epoch l \<and>
       sql_lease_epoch (wl_serviceID lease) (wl_owner lease) d' = Inr (wl_epoch l))"
    using assms
    by (auto simp: advanceWriterLease_def simp del: run_state_bind elim!: run_bindE
        dest!: outcomes split: if_split_asm sum.split_asm prod.split_asm)
qed

lemma acquireWriterLease_outcome:
  assumes "run_state (acquireWriterLease sid) s = (r, t)"
  shows "(sw_db t = sw_db s \<and> (\<exists>e. r = Inl e)) \<or>
    (\<exists>owner. sql_advance_lease sid owner (sw_db s) = Inr (sw_db t, 1) \<and>
       ((\<exists>e. r = Inl e) \<or> (\<exists>l. r = Inr l \<and> wl_serviceID l = sid \<and> wl_owner l = owner \<and> 0 < wl_epoch l \<and>
          sql_lease_epoch sid owner (sw_db t) = Inr (wl_epoch l))))"
  using assms
  by (auto simp: acquireWriterLease_def simp del: run_state_bind elim!: run_bindE
      dest!: outcomes split: if_split_asm sum.split_asm prod.split_asm option.split_asm)

lemma releaseWriterLease_outcome:
  assumes "run_state (releaseWriterLease l) s = (r, t)"
  shows "(sw_db t = sw_db s \<and> (\<exists>e. r = Some e)) \<or>
    sql_release_lease (wl_serviceID l) (wl_epoch l) (wl_owner l) (sw_db s) = Inr (sw_db t, 1)"
  using assms
  by (auto simp: releaseWriterLease_def simp del: run_state_bind elim!: run_bindE
      dest!: outcomes split: if_split_asm sum.split_asm prod.split_asm option.split_asm)

end
