(* ===== verification/StoreJournal.thy ===== *)
theory StoreJournal
  imports StoreLease
begin

text \<open>
  The journal: reading transactions, actions, applied services and backup locators back from their
  rows (\<open>journal_reader_unix.go\<close>, parts of \<open>applied_service_unix.go\<close> and \<open>backup_index_unix.go\<close>), and the
  operations of a locked service (\<open>journal_transaction_unix.go\<close>, \<open>journal_action_unix.go\<close>,
  \<open>applied_service_unix.go\<close>, \<open>backup_index_unix.go\<close>, \<open>backup_index_rebuild_unix.go\<close>).
\<close>

section \<open>Scanning rows (journal\_reader\_unix.go)\<close>

definition populateTransactionRelationship :: "tx_row \<Rightarrow> Transaction \<Rightarrow> Transaction" where
  "populateTransactionRelationship row record =
     (let record = (case tr_base row of None \<Rightarrow> record
            | Some b \<Rightarrow> record\<lparr>tx_BaseTransactionID := b, tx_HasBaseTransaction := True\<rparr>)
      in case tr_predecessor row of None \<Rightarrow> record | Some w \<Rightarrow> record\<lparr>tx_PredecessorWorkloadID := w\<rparr>)"

definition transaction_of_row :: "tx_row \<Rightarrow> Transaction option" where
  "transaction_of_row row =
     (case ParseRuntimeKind (tr_runtime row) of (parsedRuntime, valid) \<Rightarrow>
      if \<not> valid \<or> \<not> SupportsWorkloads parsedRuntime then None
      else let record = zero_Transaction
                 \<lparr>tx_Runtime := parsedRuntime, tx_ID := tr_id row, tx_SourceDigest := tr_source row,
                  tx_EffectiveDigest := tr_effective row, tx_ExecutionDigest := tr_execution row,
                  tx_Kind := tr_kind row, tx_State := tr_state row\<rparr>;
               record = populateTransactionRelationship row record
           in if \<not> validTransactionState (tx_State record) \<or> \<not> validTransactionRecord record then None else Some record)"

definition scanTransaction :: "go_error + tx_row \<Rightarrow> ('z, go_error + Transaction) prog" where
  "scanTransaction row =
     (case row of
        Inl err \<Rightarrow> if errors_Is err ErrNoRows then State_Monad.return (Inl ErrNoRows)
          else do { e \<leftarrow> classifySQLiteProbe err; State_Monad.return (Inl e) }
      | Inr r \<Rightarrow> State_Monad.return (case transaction_of_row r of None \<Rightarrow> Inl ErrInvalidState | Some t \<Rightarrow> Inr t))"

definition action_of_row :: "action_row \<Rightarrow> Action option" where
  "action_of_row row =
     (let action = zero_Action\<lparr>ac_TransactionID := jr_tx row, ac_Sequence := jr_sequence row, ac_Kind := jr_kind row,
                     ac_State := jr_state row, ac_IntentDigest := jr_intent row\<rparr>
      in if \<not> validAction action then None
         else if ac_State action = ActionStateCompleted
           then (case jr_post row of None \<Rightarrow> None | Some p \<Rightarrow> Some (action\<lparr>ac_PostconditionDigest := Some p\<rparr>))
         else if jr_post row \<noteq> None then None
         else Some action)"

definition scanAction :: "go_error + action_row \<Rightarrow> ('z, go_error + Action) prog" where
  "scanAction row =
     (case row of
        Inl err \<Rightarrow> if errors_Is err ErrNoRows then State_Monad.return (Inl ErrNoRows)
          else do { e \<leftarrow> classifySQLiteProbe err; State_Monad.return (Inl e) }
      | Inr r \<Rightarrow> State_Monad.return (case action_of_row r of None \<Rightarrow> Inl ErrInvalidState | Some a \<Rightarrow> Inr a))"

definition query_row :: "('a \<Rightarrow> bool) \<Rightarrow> 'a list \<Rightarrow> go_error + 'a" where
  "query_row P rows = (case filter P rows of [] \<Rightarrow> Inl ErrNoRows | r # _ \<Rightarrow> Inr r)"

section \<open>Reading the journal (journal\_reader\_unix.go)\<close>

text \<open>
  A reading function runs on the tables it is given: those of an open transaction, or the current
  ones. \<open>(value, found, err)\<close> is an error or an optional value.
\<close>

definition transaction_in :: "db \<Rightarrow> transaction_id \<Rightarrow> ('z, go_error + Transaction) prog" where
  "transaction_in d i = do {
     row \<leftarrow> sql_run (\<lambda>d. query_row (\<lambda>r. tr_id r = i) (db_transactions d)) d;
     record \<leftarrow> scanTransaction row;
     State_Monad.return (case record of
       Inl err \<Rightarrow> if errors_Is err ErrNoRows then Inl ErrInvalidState else Inl err
     | Inr t \<Rightarrow> Inr t) }"

definition store_Transaction :: "transaction_id \<Rightarrow> ('z, go_error + Transaction) prog" where
  "store_Transaction i = do { d \<leftarrow> current_db; transaction_in d i }"

definition unresolvedTransaction :: "hash \<Rightarrow> db \<Rightarrow> string \<Rightarrow> string \<Rightarrow> ('z, go_error + Transaction option) prog" where
  "unresolvedTransaction H d projectName serviceName =
     (case serviceIdentity H projectName serviceName of (serviceID, valid) \<Rightarrow>
      if \<not> valid then State_Monad.return (Inl ErrInvalidState)
      else do {
        row \<leftarrow> sql_run (\<lambda>d. query_row (\<lambda>r. tr_service r = serviceID \<and> unresolved (tr_state r)) (db_transactions d)) d;
        record \<leftarrow> scanTransaction row;
        State_Monad.return (case record of
          Inl err \<Rightarrow> if errors_Is err ErrNoRows then Inr None else Inl err
        | Inr t \<Rightarrow> Inr (Some t)) })"

definition UnresolvedTransaction :: "hash \<Rightarrow> string \<Rightarrow> string \<Rightarrow> ('z, go_error + Transaction option) prog" where
  "UnresolvedTransaction H projectName serviceName = do {
     d \<leftarrow> current_db; unresolvedTransaction H d projectName serviceName }"

text \<open>The row iterator: \<open>Next\<close> ends the loop early on a failure, which \<open>Err\<close> then reports.\<close>

definition rows_Err :: "('z, go_error option) prog" where
  "rows_Err = do { i \<leftarrow> observe;
     State_Monad.return (case in_sql i of None \<Rightarrow> None | Some c \<Rightarrow> Some (ErrDriver c)) }"

fun readActions :: "action_row list \<Rightarrow> Action list \<Rightarrow> ('z, go_error + Action list) prog" where
  "readActions [] actions = do {
     err \<leftarrow> rows_Err;
     case err of Some e \<Rightarrow> do { e \<leftarrow> classifySQLiteProbe e; State_Monad.return (Inl e) }
     | None \<Rightarrow> State_Monad.return (Inr actions) }"
| "readActions (row # rows) actions = do {
     err \<leftarrow> rows_Err;
     case err of Some e \<Rightarrow> do { e \<leftarrow> classifySQLiteProbe e; State_Monad.return (Inl e) }
     | None \<Rightarrow> do {
         action \<leftarrow> scanAction (Inr row);
         case action of Inl e \<Rightarrow> State_Monad.return (Inl e)
         | Inr a \<Rightarrow> readActions rows (actions @ [a]) } }"

definition actions_in :: "db \<Rightarrow> transaction_id \<Rightarrow> ('z, go_error + Action list) prog" where
  "actions_in d i = do {
     rows \<leftarrow> sql_run (\<lambda>d. Inr (sort_key jr_sequence (filter (\<lambda>a. jr_tx a = i) (db_actions d)))) d;
     case rows of
       Inl err \<Rightarrow> do { e \<leftarrow> classifySQLiteProbe err; State_Monad.return (Inl e) }
     | Inr rows \<Rightarrow> do {
         actions \<leftarrow> readActions rows [];
         if actions \<noteq> Inr [] then State_Monad.return actions
         else do {
           record \<leftarrow> transaction_in d i;
           State_Monad.return (case record of Inl e \<Rightarrow> Inl e | Inr _ \<Rightarrow> actions) } } }"

definition store_Actions :: "transaction_id \<Rightarrow> ('z, go_error + Action list) prog" where
  "store_Actions i = do { d \<leftarrow> current_db; actions_in d i }"

definition lock_action :: "transaction_id \<Rightarrow> int \<Rightarrow> ('z, go_error + Action) prog" where
  "lock_action i sequence = do {
     d \<leftarrow> current_db;
     row \<leftarrow> sql_run (\<lambda>d. query_row (action_is i sequence) (db_actions d)) d;
     action \<leftarrow> scanAction row;
     State_Monad.return (case action of
       Inl err \<Rightarrow> if errors_Is err ErrNoRows then Inl ErrInvalidState else Inl err
     | Inr a \<Rightarrow> Inr a) }"

definition actionInTransaction :: "db \<Rightarrow> transaction_id \<Rightarrow> int \<Rightarrow> ('z, go_error + Action option) prog" where
  "actionInTransaction d i sequence = do {
     row \<leftarrow> sql_run (\<lambda>d. query_row (action_is i sequence) (db_actions d)) d;
     action \<leftarrow> scanAction row;
     State_Monad.return (case action of
       Inl err \<Rightarrow> if errors_Is err ErrNoRows then Inr None else Inl err
     | Inr a \<Rightarrow> Inr (Some a)) }"

section \<open>Applied services and backup locators (applied\_service\_unix.go, backup\_index\_unix.go)\<close>

definition applied_of_rows :: "applied_row \<times> tx_row \<Rightarrow> AppliedService option" where
  "applied_of_rows rows = (case rows of (applied, journal) \<Rightarrow>
     (case ParseRuntimeKind (tr_runtime journal) of (parsedRuntime, valid) \<Rightarrow>
      if \<not> valid \<or> \<not> SupportsWorkloads parsedRuntime \<or> \<not> validWorkloadID (ar_workload applied) then None
      else if \<not> validTransactionKind (tr_kind journal) then None
      else Some \<lparr>as_TransactionID = ar_tx applied, as_Kind = tr_kind journal, as_Runtime = parsedRuntime,
             as_SourceDigest = tr_source journal, as_EffectiveDigest = tr_effective journal,
             as_ExecutionDigest = tr_execution journal, as_WorkloadID = ar_workload applied,
             as_ConfigurationDigest = ar_configuration applied, as_StorageDigest = ar_storage applied,
             as_ReferenceDigest = ar_reference applied, as_PlatformManifestDigest = ar_manifest applied,
             as_ImageConfigDigest = ar_image applied\<rparr>))"

definition scanAppliedService :: "go_error + applied_row \<times> tx_row \<Rightarrow> ('z, go_error + AppliedService) prog" where
  "scanAppliedService row =
     (case row of
        Inl err \<Rightarrow> if errors_Is err ErrNoRows then State_Monad.return (Inl ErrNoRows)
          else do { e \<leftarrow> classifySQLiteProbe err; State_Monad.return (Inl e) }
      | Inr r \<Rightarrow> State_Monad.return (case applied_of_rows r of None \<Rightarrow> Inl ErrInvalidState | Some a \<Rightarrow> Inr a))"

definition sql_select_applied :: "digest \<Rightarrow> db \<Rightarrow> go_error + applied_row \<times> tx_row" where
  "sql_select_applied sid d =
     query_row (\<lambda>_. True) (join_transactions (\<lambda>a r. tr_id r = ar_tx a) (filter (\<lambda>a. ar_service a = sid) (db_applied d)) d)"

definition appliedService :: "db \<Rightarrow> digest \<Rightarrow> ('z, go_error + AppliedService option) prog" where
  "appliedService d serviceID = do {
     row \<leftarrow> sql_run (sql_select_applied serviceID) d;
     record \<leftarrow> scanAppliedService row;
     State_Monad.return (case record of
       Inl err \<Rightarrow> if errors_Is err ErrNoRows then Inr None else Inl err
     | Inr a \<Rightarrow> Inr (Some a)) }"

definition store_AppliedService :: "hash \<Rightarrow> string \<Rightarrow> string \<Rightarrow> ('z, go_error + AppliedService option) prog" where
  "store_AppliedService H projectName serviceName =
     (case serviceIdentity H projectName serviceName of (serviceID, valid) \<Rightarrow>
      if \<not> valid then State_Monad.return (Inl ErrInvalidState)
      else do { d \<leftarrow> current_db; appliedService d serviceID })"

definition transactionForService :: "db \<Rightarrow> transaction_id \<Rightarrow> digest \<Rightarrow> ('z, go_error + Transaction) prog" where
  "transactionForService d i serviceID = do {
     row \<leftarrow> sql_run (\<lambda>d. query_row (\<lambda>r. tr_id r = i \<and> tr_service r = serviceID) (db_transactions d)) d;
     record \<leftarrow> scanTransaction row;
     State_Monad.return (case record of
       Inl err \<Rightarrow> if errors_Is err ErrNoRows then Inl ErrInvalidState else Inl err
     | Inr t \<Rightarrow> Inr t) }"

definition backup_of_rows :: "backup_row \<times> tx_row \<Rightarrow> BackupIndex option" where
  "backup_of_rows rows = (case rows of (backup, journal) \<Rightarrow>
     (case ParseRuntimeKind (tr_runtime journal) of (parsedRuntime, valid) \<Rightarrow>
      if \<not> valid \<or> \<not> SupportsWorkloads parsedRuntime \<or> br_digest backup = 0 \<or> br_created backup \<le> 0 \<or>
         br_path backup \<noteq> backupManifestPath (br_tx backup) then None
      else Some \<lparr>bx_TransactionID = br_tx backup, bx_Runtime = parsedRuntime, bx_ManifestPath = br_path backup,
             bx_ManifestDigest = br_digest backup, bx_CreatedUnix = br_created backup\<rparr>))"

definition scanBackupIndex :: "go_error + backup_row \<times> tx_row \<Rightarrow> ('z, go_error + BackupIndex) prog" where
  "scanBackupIndex row =
     (case row of
        Inl err \<Rightarrow> if errors_Is err ErrNoRows then State_Monad.return (Inl ErrNoRows)
          else do { e \<leftarrow> classifySQLiteProbe err; State_Monad.return (Inl e) }
      | Inr r \<Rightarrow> State_Monad.return (case backup_of_rows r of None \<Rightarrow> Inl ErrInvalidState | Some b \<Rightarrow> Inr b))"

definition sql_select_backup :: "transaction_id \<Rightarrow> db \<Rightarrow> go_error + backup_row \<times> tx_row" where
  "sql_select_backup i d =
     query_row (\<lambda>_. True) (join_transactions (\<lambda>b r. tr_id r = br_tx b) (filter (\<lambda>b. br_tx b = i) (db_backups d)) d)"

definition backupIndex :: "db \<Rightarrow> transaction_id \<Rightarrow> ('z, go_error + BackupIndex option) prog" where
  "backupIndex d i = do {
     row \<leftarrow> sql_run (sql_select_backup i) d;
     record \<leftarrow> scanBackupIndex row;
     State_Monad.return (case record of
       Inl err \<Rightarrow> if errors_Is err ErrNoRows then Inr None else Inl err
     | Inr b \<Rightarrow> Inr (Some b)) }"

definition store_BackupIndex :: "transaction_id \<Rightarrow> ('z, go_error + BackupIndex option) prog" where
  "store_BackupIndex i =
     (if i = 0 then State_Monad.return (Inl ErrInvalidState) else do { d \<leftarrow> current_db; backupIndex d i })"

section \<open>Transactions (journal\_transaction\_unix.go)\<close>

definition validateTransactionBaseline :: "db \<Rightarrow> digest \<Rightarrow> TransactionIntent \<Rightarrow> ('z, go_error option) prog" where
  "validateTransactionBaseline d serviceID intent = do {
     r \<leftarrow> appliedService d serviceID;
     State_Monad.return (case r of
       Inl err \<Rightarrow> Some err
     | Inr applied \<Rightarrow>
         (case ti_Kind intent of
            TransactionBootstrap \<Rightarrow> if applied \<noteq> None then Some ErrInvalidState else None
          | TransactionAdopt \<Rightarrow> if applied \<noteq> None then Some ErrInvalidState else None
          | TransactionUpgrade \<Rightarrow>
              (case applied of None \<Rightarrow> Some ErrInvalidState
               | Some a \<Rightarrow> if as_TransactionID a \<noteq> ti_BaseTransactionID intent \<or>
                     as_WorkloadID a \<noteq> ti_PredecessorWorkloadID intent then Some ErrInvalidState else None)
          | TransactionKindOther _ \<Rightarrow> Some ErrInvalidState)) }"

definition transaction_row :: "transaction_id \<Rightarrow> digest \<Rightarrow> TransactionIntent \<Rightarrow> tx_row" where
  "transaction_row i serviceID intent =
     \<lparr>tr_id = i, tr_service = serviceID, tr_kind = ti_Kind intent, tr_state = TransactionActive,
      tr_runtime = kind_String (ti_Runtime intent), tr_source = ti_SourceDigest intent,
      tr_effective = ti_EffectiveDigest intent, tr_execution = ti_ExecutionDigest intent,
      tr_base = nullableTransactionID (ti_BaseTransactionID intent) (ti_HasBaseTransaction intent),
      tr_predecessor = nullableWorkloadID (ti_PredecessorWorkloadID intent)\<rparr>"

text \<open>\<open>ExecContext\<close> of a journal mutation, whose failure is classified, followed by \<open>requireJournalMutation\<close>.\<close>

definition exec_mutation :: "(db \<Rightarrow> go_error + db \<times> int) \<Rightarrow> db \<Rightarrow> ('z, go_error + db) prog" where
  "exec_mutation statement d = do {
     r \<leftarrow> sql_run statement d;
     case r of
       Inl err \<Rightarrow> do { e \<leftarrow> classifySQLiteProbe err; State_Monad.return (Inl e) }
     | Inr (d, result) \<Rightarrow> do {
         err \<leftarrow> requireJournalMutation result;
         State_Monad.return (case err of Some e \<Rightarrow> Inl e | None \<Rightarrow> Inr d) } }"

definition with_unit :: "go_error + db \<Rightarrow> go_error + db \<times> unit" where
  "with_unit r = (case r of Inl e \<Rightarrow> Inl e | Inr d \<Rightarrow> Inr (d, ()))"

definition begin_body :: "transaction_id \<Rightarrow> TransactionIntent \<Rightarrow> db \<Rightarrow> writerLease \<Rightarrow> ('z, go_error + db \<times> unit) prog" where
  "begin_body i intent d lease = do {
     baselineErr \<leftarrow> validateTransactionBaseline d (wl_serviceID lease) intent;
     case baselineErr of
       Some e \<Rightarrow> State_Monad.return (Inl e)
     | None \<Rightarrow> do {
         r \<leftarrow> exec_mutation (sql_insert_transaction (transaction_row i (wl_serviceID lease) intent)
                 (wl_epoch lease) (wl_owner lease)) d;
         State_Monad.return (with_unit r) } }"

definition BeginTransaction :: "ServiceLock \<Rightarrow> TransactionIntent \<Rightarrow> ('z, go_error + Transaction) prog" where
  "BeginTransaction lock intent =
     (if \<not> validTransactionIntent intent then State_Monad.return (Inl ErrInvalidState)
      else do {
        random \<leftarrow> read_random;
        case random of
          None \<Rightarrow> State_Monad.return (Inl ErrUnavailable)
        | Some i \<Rightarrow> do {
            r \<leftarrow> withFencedWrite lock (begin_body i intent);
            case r of Inl e \<Rightarrow> State_Monad.return (Inl e) | Inr _ \<Rightarrow> store_Transaction i } })"

definition set_state_body :: "transaction_id \<Rightarrow> TransactionState \<Rightarrow> db \<Rightarrow> writerLease \<Rightarrow> ('z, go_error + db \<times> unit) prog" where
  "set_state_body i state d lease = do {
     r \<leftarrow> exec_mutation (sql_set_state i (wl_serviceID lease) state (wl_epoch lease) (wl_owner lease)) d;
     State_Monad.return (with_unit r) }"

definition SetTransactionState :: "ServiceLock \<Rightarrow> transaction_id \<Rightarrow> TransactionState \<Rightarrow> ('z, go_error + Transaction) prog" where
  "SetTransactionState lock i state =
     (if \<not> validTransactionTargetState state then State_Monad.return (Inl ErrInvalidState)
      else do {
        r \<leftarrow> withFencedWrite lock (set_state_body i state);
        case r of Inl e \<Rightarrow> State_Monad.return (Inl e) | Inr _ \<Rightarrow> store_Transaction i })"

section \<open>Actions (journal\_action\_unix.go)\<close>

definition reuseActionIntent :: "db \<Rightarrow> writerLease \<Rightarrow> transaction_id \<Rightarrow> int \<Rightarrow> ('z, go_error + db) prog" where
  "reuseActionIntent d lease i sequence =
     exec_mutation (sql_reuse_action i sequence (wl_serviceID lease) (wl_epoch lease) (wl_owner lease)) d"

definition insertActionIntent :: "db \<Rightarrow> writerLease \<Rightarrow> transaction_id \<Rightarrow> ActionIntent \<Rightarrow> ('z, go_error + db) prog" where
  "insertActionIntent d lease i intent =
     exec_mutation (sql_insert_action
       \<lparr>jr_tx = i, jr_sequence = an_Sequence intent, jr_kind = an_Kind intent, jr_state = ActionStateIntent,
        jr_intent = an_IntentDigest intent, jr_post = None\<rparr>
       (wl_serviceID lease) (wl_epoch lease) (wl_owner lease)) d"

definition recordActionIntent ::
  "transaction_id \<Rightarrow> ActionIntent \<Rightarrow> db \<Rightarrow> writerLease \<Rightarrow> ('z, go_error + db \<times> unit) prog" where
  "recordActionIntent i intent d lease = do {
     r \<leftarrow> actionInTransaction d i (an_Sequence intent);
     case r of
       Inl e \<Rightarrow> State_Monad.return (Inl e)
     | Inr (Some current) \<Rightarrow>
         if ac_Kind current \<noteq> an_Kind intent \<or> ac_IntentDigest current \<noteq> an_IntentDigest intent
         then State_Monad.return (Inl ErrInvalidState)
         else do { r \<leftarrow> reuseActionIntent d lease i (an_Sequence intent); State_Monad.return (with_unit r) }
     | Inr None \<Rightarrow> do { r \<leftarrow> insertActionIntent d lease i intent; State_Monad.return (with_unit r) } }"

definition RecordActionIntent :: "ServiceLock \<Rightarrow> transaction_id \<Rightarrow> ActionIntent \<Rightarrow> ('z, go_error + Action) prog" where
  "RecordActionIntent lock i intent =
     (if \<not> validActionIntent intent then State_Monad.return (Inl ErrInvalidState)
      else do {
        r \<leftarrow> withFencedWrite lock (recordActionIntent i intent);
        case r of Inl e \<Rightarrow> State_Monad.return (Inl e) | Inr _ \<Rightarrow> lock_action i (an_Sequence intent) })"

definition update_body ::
  "(action_row \<Rightarrow> bool) \<Rightarrow> (action_row \<Rightarrow> action_row) \<Rightarrow> transaction_id \<Rightarrow> db \<Rightarrow> writerLease \<Rightarrow> ('z, go_error + db \<times> unit) prog" where
  "update_body target change i d lease = do {
     r \<leftarrow> exec_mutation (sql_update_action target change i (wl_serviceID lease) (wl_epoch lease) (wl_owner lease)) d;
     State_Monad.return (with_unit r) }"

definition updateAction ::
  "ServiceLock \<Rightarrow> transaction_id \<Rightarrow> (action_row \<Rightarrow> bool) \<Rightarrow> (action_row \<Rightarrow> action_row) \<Rightarrow> ('z, go_error + unit) prog" where
  "updateAction lock i target change = withFencedWrite lock (update_body target change i)"

definition MarkActionEffectOutcomeUnknown :: "ServiceLock \<Rightarrow> transaction_id \<Rightarrow> int \<Rightarrow> ('z, go_error + Action) prog" where
  "MarkActionEffectOutcomeUnknown lock i sequence =
     (if sequence \<le> 0 then State_Monad.return (Inl ErrInvalidState)
      else do {
        r \<leftarrow> updateAction lock i (mark_target i sequence) (\<lambda>a. a\<lparr>jr_state := ActionStateEffectOutcomeUnknown\<rparr>);
        case r of Inl e \<Rightarrow> State_Monad.return (Inl e) | Inr _ \<Rightarrow> lock_action i sequence })"

definition CompleteAction :: "ServiceLock \<Rightarrow> transaction_id \<Rightarrow> int \<Rightarrow> digest \<Rightarrow> ('z, go_error + Action) prog" where
  "CompleteAction lock i sequence postcondition =
     (if sequence \<le> 0 then State_Monad.return (Inl ErrInvalidState)
      else do {
        r \<leftarrow> updateAction lock i (complete_target i sequence postcondition)
               (\<lambda>a. a\<lparr>jr_state := ActionStateCompleted, jr_post := Some postcondition\<rparr>);
        case r of Inl e \<Rightarrow> State_Monad.return (Inl e) | Inr _ \<Rightarrow> lock_action i sequence })"

section \<open>Publishing an applied service (applied\_service\_unix.go, backup\_index\_unix.go)\<close>

definition applied_row_of :: "digest \<Rightarrow> transaction_id \<Rightarrow> AppliedServiceIntent \<Rightarrow> applied_row" where
  "applied_row_of serviceID i intent =
     \<lparr>ar_service = serviceID, ar_tx = i, ar_workload = ai_WorkloadID intent,
      ar_configuration = ai_ConfigurationDigest intent, ar_storage = ai_StorageDigest intent,
      ar_reference = ai_ReferenceDigest intent, ar_manifest = ai_PlatformManifestDigest intent,
      ar_image = ai_ImageConfigDigest intent\<rparr>"

text \<open>The insert and the update wrap the driver's error instead of classifying it.\<close>

definition wrapped :: "string \<Rightarrow> (db \<Rightarrow> go_error + db \<times> int) \<Rightarrow> db \<Rightarrow> ('z, go_error + db \<times> int) prog" where
  "wrapped message statement d = do {
     r \<leftarrow> sql_run statement d;
     State_Monad.return (case r of Inl err \<Rightarrow> Inl (Wrap message err) | Inr x \<Rightarrow> Inr x) }"

definition insertAppliedService :: "db \<Rightarrow> digest \<Rightarrow> transaction_id \<Rightarrow> AppliedServiceIntent \<Rightarrow> ('z, go_error + db \<times> int) prog" where
  "insertAppliedService d serviceID i intent =
     wrapped ''insert applied service'' (sql_insert_applied (applied_row_of serviceID i intent)) d"

definition replaceAppliedService ::
  "db \<Rightarrow> digest \<Rightarrow> Transaction \<Rightarrow> AppliedService option \<Rightarrow> AppliedServiceIntent \<Rightarrow> ('z, go_error + db \<times> int) prog" where
  "replaceAppliedService d serviceID record current intent =
     (case current of
        None \<Rightarrow> State_Monad.return (Inl ErrInvalidState)
      | Some a \<Rightarrow>
          if as_TransactionID a \<noteq> tx_BaseTransactionID record \<or> as_WorkloadID a \<noteq> tx_PredecessorWorkloadID record
          then State_Monad.return (Inl ErrInvalidState)
          else wrapped ''replace applied service''
                 (sql_replace_applied (applied_row_of serviceID (tx_ID record) intent)
                    (tx_BaseTransactionID record) (tx_PredecessorWorkloadID record)) d)"

definition publishAppliedService ::
  "db \<Rightarrow> digest \<Rightarrow> Transaction \<Rightarrow> AppliedService option \<Rightarrow> AppliedServiceIntent \<Rightarrow> ('z, go_error + db \<times> int) prog" where
  "publishAppliedService d serviceID record current intent =
     (case tx_Kind record of
        TransactionBootstrap \<Rightarrow>
          if current \<noteq> None then State_Monad.return (Inl ErrInvalidState)
          else insertAppliedService d serviceID (tx_ID record) intent
      | TransactionAdopt \<Rightarrow>
          if current \<noteq> None \<or> ai_WorkloadID intent \<noteq> tx_PredecessorWorkloadID record
          then State_Monad.return (Inl ErrInvalidState)
          else insertAppliedService d serviceID (tx_ID record) intent
      | TransactionUpgrade \<Rightarrow> replaceAppliedService d serviceID record current intent
      | TransactionKindOther _ \<Rightarrow> State_Monad.return (Inl ErrInvalidState))"

definition finishAppliedTransaction :: "db \<Rightarrow> writerLease \<Rightarrow> transaction_id \<Rightarrow> ('z, go_error + db) prog" where
  "finishAppliedTransaction d lease i =
     exec_mutation (sql_finish_transaction i (wl_serviceID lease) (wl_epoch lease) (wl_owner lease)) d"

definition publishBackupIndex ::
  "db \<Rightarrow> digest \<Rightarrow> Transaction \<Rightarrow> BackupIndexIntent option \<Rightarrow> ('z, go_error + db) prog" where
  "publishBackupIndex d serviceID record intent =
     (case intent of
        None \<Rightarrow> State_Monad.return (Inr d)
      | Some b \<Rightarrow>
          if tx_Kind record \<noteq> TransactionUpgrade \<or> \<not> validBackupIndexIntent intent \<or>
             bi_ManifestPath b \<noteq> backupManifestPath (tx_ID record)
          then State_Monad.return (Inl ErrInvalidState)
          else do {
            r \<leftarrow> wrapped ''insert workload backup index''
                   (sql_insert_backup \<lparr>br_tx = tx_ID record, br_service = serviceID, br_path = bi_ManifestPath b,
                      br_digest = bi_ManifestDigest b, br_created = bi_CreatedUnix b\<rparr>) d;
            case r of
              Inl e \<Rightarrow> State_Monad.return (Inl e)
            | Inr (d, result) \<Rightarrow> do {
                err \<leftarrow> requireJournalMutation result;
                State_Monad.return (case err of Some e \<Rightarrow> Inl e | None \<Rightarrow> Inr d) } })"

definition backupIndexMatchesIntent ::
  "db \<Rightarrow> Transaction \<Rightarrow> BackupIndexIntent option \<Rightarrow> ('z, go_error + bool) prog" where
  "backupIndexMatchesIntent d record intent = do {
     r \<leftarrow> backupIndex d (tx_ID record);
     State_Monad.return (case r of
       Inl e \<Rightarrow> Inl e
     | Inr index \<Rightarrow>
         (case intent of
            None \<Rightarrow> Inr (index = None)
          | Some b \<Rightarrow> Inr (case index of None \<Rightarrow> False
              | Some x \<Rightarrow> bx_Runtime x = tx_Runtime record \<and> bx_ManifestPath x = bi_ManifestPath b \<and>
                  bx_ManifestDigest x = bi_ManifestDigest b \<and> bx_CreatedUnix x = bi_CreatedUnix b))) }"

definition replayAppliedService ::
  "db \<Rightarrow> Transaction \<Rightarrow> AppliedService option \<Rightarrow> AppliedServiceIntent \<Rightarrow> ('z, go_error + Transaction) prog" where
  "replayAppliedService d record current intent = do {
     r \<leftarrow> backupIndexMatchesIntent d record (ai_Backup intent);
     State_Monad.return (case r of
       Inl e \<Rightarrow> Inl e
     | Inr backupMatches \<Rightarrow>
         (case current of
            None \<Rightarrow> Inl ErrInvalidState
          | Some a \<Rightarrow> if \<not> appliedServiceMatches a record intent \<or> \<not> backupMatches then Inl ErrInvalidState
              else Inr record)) }"

definition commitAppliedService ::
  "transaction_id \<Rightarrow> AppliedServiceIntent \<Rightarrow> db \<Rightarrow> writerLease \<Rightarrow> ('z, go_error + db \<times> Transaction) prog" where
  "commitAppliedService i intent d lease = do {
     r \<leftarrow> transactionForService d i (wl_serviceID lease);
     case r of
       Inl e \<Rightarrow> State_Monad.return (Inl e)
     | Inr record \<Rightarrow> do {
         r \<leftarrow> appliedService d (wl_serviceID lease);
         case r of
           Inl e \<Rightarrow> State_Monad.return (Inl e)
         | Inr current \<Rightarrow>
             if tx_State record = TransactionSucceeded then do {
               r \<leftarrow> replayAppliedService d record current intent;
               State_Monad.return (case r of Inl e \<Rightarrow> Inl e | Inr t \<Rightarrow> Inr (d, t)) }
             else if tx_State record \<noteq> TransactionActive then State_Monad.return (Inl ErrInvalidState)
             else do {
               r \<leftarrow> publishAppliedService d (wl_serviceID lease) record current intent;
               case r of
                 Inl e \<Rightarrow> State_Monad.return (Inl e)
               | Inr (d, result) \<Rightarrow> do {
                   err \<leftarrow> requireJournalMutation result;
                   case err of
                     Some e \<Rightarrow> State_Monad.return (Inl e)
                   | None \<Rightarrow> do {
                       r \<leftarrow> publishBackupIndex d (wl_serviceID lease) record (ai_Backup intent);
                       case r of
                         Inl e \<Rightarrow> State_Monad.return (Inl e)
                       | Inr d \<Rightarrow> do {
                           r \<leftarrow> finishAppliedTransaction d lease i;
                           State_Monad.return (case r of Inl e \<Rightarrow> Inl e
                             | Inr d \<Rightarrow> Inr (d, record\<lparr>tx_State := TransactionSucceeded\<rparr>)) } } } } } }"

definition CommitAppliedService ::
  "ServiceLock \<Rightarrow> transaction_id \<Rightarrow> AppliedServiceIntent \<Rightarrow> ('z, go_error + AppliedService) prog" where
  "CommitAppliedService lock i intent =
     (if \<not> validAppliedServiceIntent intent then State_Monad.return (Inl ErrInvalidState)
      else do {
        r \<leftarrow> withFencedWrite lock (commitAppliedService i intent);
        State_Monad.return (case r of Inl e \<Rightarrow> Inl e | Inr committed \<Rightarrow> Inr (appliedServiceRecord committed intent)) })"

section \<open>Rebuilding the backup index (backup\_index\_rebuild\_unix.go)\<close>

definition validBackupIdentity :: "string \<Rightarrow> bool" where
  "validBackupIdentity value \<longleftrightarrow> length value > 0 \<and> length value \<le> 256 \<and> utf8_valid value \<and> \<not> contains_nul value"

definition validBackupIndexTransaction :: "hash \<Rightarrow> BackupIndexCandidate \<Rightarrow> bool" where
  "validBackupIndexTransaction H c \<longleftrightarrow>
     bc_TransactionID c \<noteq> 0 \<and> snd (serviceIdentity H (bc_Project c) (bc_Service c)) \<and>
     validBackupIdentity (bc_Project c) \<and> validBackupIdentity (bc_Service c) \<and>
     SupportsWorkloads (bc_Runtime c) \<and> bc_SourceDigest c \<noteq> 0 \<and>
     bc_EffectiveDigest c \<noteq> 0 \<and> bc_ExecutionDigest c \<noteq> 0 \<and>
     bc_BaseTransactionID c \<noteq> 0 \<and> validWorkloadID (bc_PredecessorWorkloadID c)"

definition validBackupIndexManifest :: "BackupIndexCandidate \<Rightarrow> bool" where
  "validBackupIndexManifest c \<longleftrightarrow>
     bc_ManifestPath c = backupManifestPath (bc_TransactionID c) \<and> bc_ManifestDigest c \<noteq> 0 \<and> bc_CreatedUnix c > 0"

definition validBackupIndexCandidate :: "hash \<Rightarrow> BackupIndexCandidate \<Rightarrow> bool" where
  "validBackupIndexCandidate H c \<longleftrightarrow> validBackupIndexTransaction H c \<and> validBackupIndexManifest c"

fun valid_candidates :: "hash \<Rightarrow> transaction_id list \<Rightarrow> BackupIndexCandidate list \<Rightarrow> bool" where
  "valid_candidates H seen [] = True"
| "valid_candidates H seen (c # cs) =
     (if \<not> validBackupIndexCandidate H c then False
      else if bc_TransactionID c \<in> set seen then False
      else valid_candidates H (bc_TransactionID c # seen) cs)"

definition validBackupIndexCandidates :: "hash \<Rightarrow> BackupIndexCandidate list \<Rightarrow> bool" where
  "validBackupIndexCandidates H candidates = valid_candidates H [] candidates"

fun insert_candidates :: "hash \<Rightarrow> BackupIndexCandidate list \<Rightarrow> db \<Rightarrow> ('z, go_error + db) prog" where
  "insert_candidates H [] d = State_Monad.return (Inr d)"
| "insert_candidates H (c # cs) d = do {
     r \<leftarrow> exec_mutation (rebuildBackupIndexSQL (fst (serviceIdentity H (bc_Project c) (bc_Service c))) c) d;
     case r of Inl e \<Rightarrow> State_Monad.return (Inl e) | Inr d \<Rightarrow> insert_candidates H cs d }"

definition replaceBackupIndex :: "hash \<Rightarrow> BackupIndexCandidate list \<Rightarrow> db \<Rightarrow> ('z, go_error + db) prog" where
  "replaceBackupIndex H candidates d = do {
     r \<leftarrow> sql_run sql_delete_backups d;
     case r of
       Inl err \<Rightarrow> do { e \<leftarrow> classifySQLiteProbe err; State_Monad.return (Inl e) }
     | Inr (d, _) \<Rightarrow> insert_candidates H candidates d }"

definition ReplaceBackupIndex :: "hash \<Rightarrow> BackupIndexCandidate list \<Rightarrow> ('z, go_error option) prog" where
  "ReplaceBackupIndex H candidates = do {
     ok \<leftarrow> files_valid;
     if \<not> ok \<or> \<not> validBackupIndexCandidates H candidates then State_Monad.return (Some ErrInvalidState)
     else do {
       cancelled \<leftarrow> ctx_Err;
       if cancelled then do { e \<leftarrow> classifyContext; State_Monad.return (Some e) }
       else do {
         b \<leftarrow> sql_begin;
         case b of
           Inl err \<Rightarrow> do { e \<leftarrow> classifySQLiteProbe err; State_Monad.return (Some e) }
         | Inr d \<Rightarrow> do {
             r \<leftarrow> replaceBackupIndex H candidates d;
             case r of
               Inl e \<Rightarrow> State_Monad.return (Some e)
             | Inr d \<Rightarrow> do {
                 cancelled \<leftarrow> ctx_Err;
                 if cancelled then do { e \<leftarrow> classifyContext; State_Monad.return (Some e) }
                 else do {
                   ok \<leftarrow> files_valid;
                   if \<not> ok then State_Monad.return (Some ErrInvalidState)
                   else do { err \<leftarrow> sql_commit d; classifyWriterLeaseResult err } } } } } } }"

section \<open>Outcomes of the journal's programs\<close>

lemma reads_scan [reads_rules]:
  "reads (scanTransaction rt)" "reads (scanAction ra)" "reads (scanAppliedService rs)" "reads (scanBackupIndex rb)"
  unfolding scanTransaction_def scanAction_def scanAppliedService_def scanBackupIndex_def by (intro reads_rules)+

lemma reads_reader [reads_rules]:
  "reads (transaction_in d i)" "reads (store_Transaction i)" "reads (lock_action i n)"
  "reads (actionInTransaction d i n)" "reads (appliedService d sid)" "reads (transactionForService d i sid)"
  "reads (backupIndex d i)" "reads rows_Err"
  unfolding transaction_in_def store_Transaction_def lock_action_def actionInTransaction_def appliedService_def
    transactionForService_def backupIndex_def rows_Err_def
  by (intro reads_rules)+

lemma reads_lookup [reads_rules]:
  "reads (unresolvedTransaction H d p s)" "reads (UnresolvedTransaction H p s)" "reads (store_AppliedService H p s)"
  "reads (store_BackupIndex i)"
  unfolding unresolvedTransaction_def UnresolvedTransaction_def store_AppliedService_def store_BackupIndex_def
  by (intro reads_rules)+

lemma reads_readActions [reads_rules]: "reads (readActions rows acc)"
  by (induction rows arbitrary: acc) (simp_all, (intro reads_rules | assumption)+)

lemma reads_actions [reads_rules]: "reads (actions_in d i)" "reads (store_Actions i)"
  unfolding actions_in_def store_Actions_def by (intro reads_rules)+

lemma reads_mutation [reads_rules]: "reads (exec_mutation f d)" "reads (wrapped msg f d)"
  unfolding exec_mutation_def wrapped_def by (intro reads_rules)+

lemma reads_bodies [reads_rules]:
  "reads (validateTransactionBaseline d sid intent)" "reads (begin_body i intent d l)" "reads (set_state_body i st d l)"
  "reads (update_body target change i d l)"
  unfolding validateTransactionBaseline_def begin_body_def set_state_body_def update_body_def
  by (intro reads_rules)+

lemma reads_record [reads_rules]: "reads (recordActionIntent i ai d l)"
  unfolding recordActionIntent_def reuseActionIntent_def insertActionIntent_def by (intro reads_rules)

lemma reads_publish [reads_rules]:
  "reads (publishAppliedService d sid record current ai)" "reads (publishBackupIndex d sid record bi)"
  "reads (finishAppliedTransaction d l i)" "reads (replayAppliedService d record current ai)"
  unfolding publishAppliedService_def insertAppliedService_def replaceAppliedService_def publishBackupIndex_def
    finishAppliedTransaction_def replayAppliedService_def backupIndexMatchesIntent_def
  by (auto split: TransactionKind.splits intro!: reads_rules)

lemma reads_commit [reads_rules]: "reads (commitAppliedService i ai d l)"
  unfolding commitAppliedService_def by (intro reads_rules)

lemma reads_insert_candidates [reads_rules]: "reads (insert_candidates H cs d)"
  by (induction cs arbitrary: d) (simp_all, (intro reads_rules | assumption)+)

lemma reads_replaceBackupIndex [reads_rules]: "reads (replaceBackupIndex H cs d)"
  unfolding replaceBackupIndex_def by (intro reads_rules)

lemma exec_mutation_outcome [outcomes]:
  "run_state (exec_mutation f d) s = (r, t) \<Longrightarrow> sw_db t = sw_db s \<and> ((\<exists>e. r = Inl e) \<or> (\<exists>d'. r = Inr d' \<and> f d = Inr (d', 1)))"
  by (auto simp: exec_mutation_def simp del: run_state_bind elim!: run_bindE
      dest!: outcomes split: sum.split_asm prod.split_asm option.split_asm)

lemma wrapped_outcome [outcomes]:
  "run_state (wrapped msg f d) s = (r, t) \<Longrightarrow> sw_db t = sw_db s \<and> ((\<exists>e. r = Inl e) \<or> r = f d)"
  by (auto simp: wrapped_def simp del: run_state_bind elim!: run_bindE dest!: outcomes split: sum.split_asm)

text \<open>A value read back from the tables is the record of a row that is there.\<close>

lemma query_row_Inr: "query_row P rows = Inr r \<Longrightarrow> r \<in> set rows \<and> P r"
  by (auto simp: query_row_def split: list.splits dest: filter_eq_ConsD)

lemma query_row_not_NoRows: "query_row P rows = Inl e \<Longrightarrow> e = ErrNoRows \<and> (\<forall>r \<in> set rows. \<not> P r)"
  by (auto simp: query_row_def filter_empty_conv split: list.splits)

lemma classifySQLiteProbe_not_NoRows:
  "run_state (classifySQLiteProbe e) s = (e', t) \<Longrightarrow> \<not> errors_Is e' ErrNoRows"
  by (auto simp: classifySQLiteProbe_def classifyContext_def simp del: run_state_bind elim!: run_bindE split: if_split_asm)

lemma scanTransaction_outcome [outcomes]:
  assumes "run_state (scanTransaction row) s = (r, t)"
  shows "sw_db t = sw_db s \<and> ((\<exists>e. r = Inl e \<and> (errors_Is e ErrNoRows \<longrightarrow> (\<exists>e'. row = Inl e' \<and> errors_Is e' ErrNoRows))) \<or>
    (\<exists>q x. row = Inr q \<and> transaction_of_row q = Some x \<and> r = Inr x))"
proof
  show "sw_db t = sw_db s" using assms by (rule readsD [OF reads_scan(1)])
  show "(\<exists>e. r = Inl e \<and> (errors_Is e ErrNoRows \<longrightarrow> (\<exists>e'. row = Inl e' \<and> errors_Is e' ErrNoRows))) \<or>
    (\<exists>q x. row = Inr q \<and> transaction_of_row q = Some x \<and> r = Inr x)"
    using assms by (auto simp: scanTransaction_def simp del: run_state_bind elim!: run_bindE
        dest!: classifySQLiteProbe_not_NoRows split: sum.split_asm option.split_asm if_split_asm)
qed

lemma scanAction_outcome [outcomes]:
  assumes "run_state (scanAction row) s = (r, t)"
  shows "sw_db t = sw_db s \<and> ((\<exists>e. r = Inl e \<and> (errors_Is e ErrNoRows \<longrightarrow> (\<exists>e'. row = Inl e' \<and> errors_Is e' ErrNoRows))) \<or>
    (\<exists>q x. row = Inr q \<and> action_of_row q = Some x \<and> r = Inr x))"
proof
  show "sw_db t = sw_db s" using assms by (rule readsD [OF reads_scan(2)])
  show "(\<exists>e. r = Inl e \<and> (errors_Is e ErrNoRows \<longrightarrow> (\<exists>e'. row = Inl e' \<and> errors_Is e' ErrNoRows))) \<or>
    (\<exists>q x. row = Inr q \<and> action_of_row q = Some x \<and> r = Inr x)"
    using assms by (auto simp: scanAction_def simp del: run_state_bind elim!: run_bindE
        dest!: classifySQLiteProbe_not_NoRows split: sum.split_asm option.split_asm if_split_asm)
qed

lemma scanAppliedService_outcome [outcomes]:
  assumes "run_state (scanAppliedService row) s = (r, t)"
  shows "sw_db t = sw_db s \<and> ((\<exists>e. r = Inl e \<and> (errors_Is e ErrNoRows \<longrightarrow> (\<exists>e'. row = Inl e' \<and> errors_Is e' ErrNoRows))) \<or>
    (\<exists>q x. row = Inr q \<and> applied_of_rows q = Some x \<and> r = Inr x))"
proof
  show "sw_db t = sw_db s" using assms by (rule readsD [OF reads_scan(3)])
  show "(\<exists>e. r = Inl e \<and> (errors_Is e ErrNoRows \<longrightarrow> (\<exists>e'. row = Inl e' \<and> errors_Is e' ErrNoRows))) \<or>
    (\<exists>q x. row = Inr q \<and> applied_of_rows q = Some x \<and> r = Inr x)"
    using assms by (auto simp: scanAppliedService_def simp del: run_state_bind elim!: run_bindE
        dest!: classifySQLiteProbe_not_NoRows split: sum.split_asm option.split_asm if_split_asm)
qed

text \<open>The applied row and its journal row, when a service has an applied generation.\<close>

definition applied_pair :: "db \<Rightarrow> digest \<Rightarrow> applied_row \<Rightarrow> tx_row \<Rightarrow> bool" where
  "applied_pair d sid a r \<longleftrightarrow> a \<in> set (db_applied d) \<and> ar_service a = sid \<and> r \<in> set (db_transactions d) \<and> tr_id r = ar_tx a"

lemma sql_select_applied_cases:
  "(sql_select_applied sid d = Inl ErrNoRows \<and> (\<forall>a r. \<not> applied_pair d sid a r)) \<or>
   (\<exists>a r. sql_select_applied sid d = Inr (a, r) \<and> applied_pair d sid a r)"
proof (cases "sql_select_applied sid d")
  case (Inl e)
  then show ?thesis
    using query_row_not_NoRows unfolding sql_select_applied_def
    by (fastforce simp: join_transactions_def applied_pair_def)
next
  case (Inr q)
  obtain a r where "q = (a, r)" by (cases q)
  with Inr show ?thesis
    using query_row_Inr unfolding sql_select_applied_def
    by (fastforce simp: join_transactions_def applied_pair_def)
qed

lemma appliedService_outcome [outcomes]:
  assumes "run_state (appliedService d sid) s = (r, t)"
  shows "sw_db t = sw_db s \<and> ((\<exists>e. r = Inl e) \<or> (r = Inr None \<and> (\<forall>a j. \<not> applied_pair d sid a j)) \<or>
    (\<exists>a j x. r = Inr (Some x) \<and> applied_pair d sid a j \<and> applied_of_rows (a, j) = Some x))"
proof
  show "sw_db t = sw_db s" using assms by (rule readsD [OF reads_reader(5)])
  show "(\<exists>e. r = Inl e) \<or> (r = Inr None \<and> (\<forall>a j. \<not> applied_pair d sid a j)) \<or>
    (\<exists>a j x. r = Inr (Some x) \<and> applied_pair d sid a j \<and> applied_of_rows (a, j) = Some x)"
    using assms sql_select_applied_cases [of sid d]
    by (auto simp: appliedService_def simp del: run_state_bind elim!: run_bindE
        dest!: outcomes split: sum.split_asm if_split_asm)
qed

end
