(* ===== verification/StoreInvariant.thy ===== *)
theory StoreInvariant
  imports StoreJournal
begin

text \<open>
  The store as a transition system. \<open>store_step\<close> has one rule for each committed SQL transaction of the
  package; writers of different services, stale writers and the index rebuild interleave as sequences
  of steps. Every program of the store refines this system: whatever fails, it moves the tables along
  zero or more steps. Over the system the file proves the invariant that the program's own validation
  query checks, and the order in which transactions, actions and leases evolve.
\<close>

section \<open>Committed changes\<close>

definition baseline_ok :: "db \<Rightarrow> digest \<Rightarrow> TransactionIntent \<Rightarrow> bool" where
  "baseline_ok d sid intent =
     (case ti_Kind intent of
        TransactionBootstrap \<Rightarrow> \<forall>a j. \<not> applied_pair d sid a j
      | TransactionAdopt \<Rightarrow> \<forall>a j. \<not> applied_pair d sid a j
      | TransactionUpgrade \<Rightarrow> \<exists>a j. applied_pair d sid a j \<and>
          ar_tx a = ti_BaseTransactionID intent \<and> ar_workload a = ti_PredecessorWorkloadID intent
      | TransactionKindOther _ \<Rightarrow> False)"

definition intent_row :: "transaction_id \<Rightarrow> ActionIntent \<Rightarrow> action_row" where
  "intent_row i intent = \<lparr>jr_tx = i, jr_sequence = an_Sequence intent, jr_kind = an_Kind intent,
     jr_state = ActionStateIntent, jr_intent = an_IntentDigest intent, jr_post = None\<rparr>"

text \<open>The applied row a transaction publishes, by its kind.\<close>

definition published :: "db \<Rightarrow> digest \<Rightarrow> Transaction \<Rightarrow> AppliedServiceIntent \<Rightarrow> db \<Rightarrow> bool" where
  "published d sid record intent d' =
     (let row = applied_row_of sid (tx_ID record) intent in
      case tx_Kind record of
        TransactionBootstrap \<Rightarrow> (\<forall>a j. \<not> applied_pair d sid a j) \<and> sql_insert_applied row d = Inr (d', 1)
      | TransactionAdopt \<Rightarrow> (\<forall>a j. \<not> applied_pair d sid a j) \<and>
          ai_WorkloadID intent = tx_PredecessorWorkloadID record \<and> sql_insert_applied row d = Inr (d', 1)
      | TransactionUpgrade \<Rightarrow> (\<exists>a j. applied_pair d sid a j \<and> ar_tx a = tx_BaseTransactionID record \<and>
            ar_workload a = tx_PredecessorWorkloadID record) \<and>
          sql_replace_applied row (tx_BaseTransactionID record) (tx_PredecessorWorkloadID record) d = Inr (d', 1)
      | TransactionKindOther _ \<Rightarrow> False)"

definition backup_published :: "db \<Rightarrow> digest \<Rightarrow> Transaction \<Rightarrow> BackupIndexIntent option \<Rightarrow> db \<Rightarrow> bool" where
  "backup_published d sid record intent d' =
     (case intent of None \<Rightarrow> d' = d
      | Some b \<Rightarrow> tx_Kind record = TransactionUpgrade \<and> bi_ManifestPath b = backupManifestPath (tx_ID record) \<and>
          sql_insert_backup \<lparr>br_tx = tx_ID record, br_service = sid, br_path = bi_ManifestPath b,
            br_digest = bi_ManifestDigest b, br_created = bi_CreatedUnix b\<rparr> d = Inr (d', 1))"

fun rebuilt :: "hash \<Rightarrow> BackupIndexCandidate list \<Rightarrow> db \<Rightarrow> db \<Rightarrow> bool" where
  "rebuilt H [] d d' = (d' = d)"
| "rebuilt H (c # cs) d d' = (\<exists>e. rebuildBackupIndexSQL (fst (serviceIdentity H (bc_Project c) (bc_Service c))) c d = Inr (e, 1) \<and>
     rebuilt H cs e d')"

inductive store_step :: "hash \<Rightarrow> db \<Rightarrow> db \<Rightarrow> bool" for H where
  Acquire: "sql_advance_lease sid owner d = Inr (d', 1) \<Longrightarrow> store_step H d d'"
| Release: "sql_release_lease sid epoch owner d = Inr (d', 1) \<Longrightarrow> store_step H d d'"
| Begin: "validTransactionIntent intent \<Longrightarrow> baseline_ok d sid intent \<Longrightarrow>
    sql_insert_transaction (transaction_row i sid intent) epoch owner d = Inr (d', 1) \<Longrightarrow> store_step H d d'"
| SetState: "validTransactionTargetState st \<Longrightarrow> sql_set_state i sid st epoch owner d = Inr (d', 1) \<Longrightarrow> store_step H d d'"
| Record: "validActionIntent intent \<Longrightarrow> sql_insert_action (intent_row i intent) sid epoch owner d = Inr (d', 1) \<Longrightarrow> store_step H d d'"
| Mark: "sql_update_action (mark_target i n) (\<lambda>a. a\<lparr>jr_state := ActionStateEffectOutcomeUnknown\<rparr>) i sid epoch owner d = Inr (d', 1) \<Longrightarrow>
    store_step H d d'"
| Complete: "sql_update_action (complete_target i n p) (\<lambda>a. a\<lparr>jr_state := ActionStateCompleted, jr_post := Some p\<rparr>)
    i sid epoch owner d = Inr (d', 1) \<Longrightarrow> store_step H d d'"
| Commit: "validAppliedServiceIntent intent \<Longrightarrow> row \<in> set (db_transactions d) \<Longrightarrow> tr_id row = i \<Longrightarrow> tr_service row = sid \<Longrightarrow>
    tr_state row = TransactionActive \<Longrightarrow> transaction_of_row row = Some record \<Longrightarrow>
    published d sid record intent d1 \<Longrightarrow> backup_published d1 sid record (ai_Backup intent) d2 \<Longrightarrow>
    sql_finish_transaction i sid epoch owner d2 = Inr (d', 1) \<Longrightarrow> store_step H d d'"
| Rebuild: "validBackupIndexCandidates H cs \<Longrightarrow> sql_delete_backups d = Inr (d0, n) \<Longrightarrow> rebuilt H cs d0 d' \<Longrightarrow> store_step H d d'"

section \<open>Every program refines the transition system\<close>

lemma fenced_step:
  assumes op: "\<And>d. reads (operation d (sl_lease lock))"
    and step: "\<And>d d' x u v. run_state (operation d (sl_lease lock)) u = (Inr (d', x), v) \<Longrightarrow> store_step H d d' \<or> d' = d"
  shows "moves sw_db (store_step H)\<^sup>*\<^sup>* (withFencedWrite lock operation)"
proof (rule movesI)
  fix s r t assume run: "run_state (withFencedWrite lock operation) s = (r, t)"
  from withFencedWrite_outcome [OF this op] show "(store_step H)\<^sup>*\<^sup>* (sw_db s) (sw_db t)"
    using step by (metis r_into_rtranclp rtranclp.rtrancl_refl)
qed

lemma moves_reads: "reads m \<Longrightarrow> moves sw_db (store_step H)\<^sup>*\<^sup>* m"
  by (rule moves_rtranclp) (rule reads_db)

lemma applied_of_rows_fields:
  "applied_of_rows (a, j) = Some x \<Longrightarrow> as_TransactionID x = ar_tx a \<and> as_WorkloadID x = ar_workload a"
  by (auto simp: applied_of_rows_def split: prod.split_asm if_split_asm)

lemma with_unit_Inr: "with_unit r = Inr (d, x) \<longleftrightarrow> r = Inr d"
  by (auto simp: with_unit_def split: sum.splits)

lemma baseline_outcome:
  "run_state (validateTransactionBaseline d sid intent) s = (None, t) \<Longrightarrow> baseline_ok d sid intent"
  by (auto simp: validateTransactionBaseline_def baseline_ok_def simp del: run_state_bind elim!: run_bindE
      dest!: outcomes applied_of_rows_fields
      split: sum.split_asm option.split_asm TransactionKind.split_asm if_split_asm TransactionKind.splits)

lemma begin_body_outcome:
  assumes "run_state (begin_body i intent d l) s = (Inr (d', x), t)"
  shows "baseline_ok d (wl_serviceID l) intent \<and>
    sql_insert_transaction (transaction_row i (wl_serviceID l) intent) (wl_epoch l) (wl_owner l) d = Inr (d', 1)"
  using assms
  by (auto simp: begin_body_def with_unit_Inr simp del: run_state_bind elim!: run_bindE
      dest: baseline_outcome dest!: exec_mutation_outcome split: option.split_asm)

lemma set_state_body_outcome:
  "run_state (set_state_body i st d l) s = (Inr (d', x), t) \<Longrightarrow>
   sql_set_state i (wl_serviceID l) st (wl_epoch l) (wl_owner l) d = Inr (d', 1)"
  by (auto simp: set_state_body_def with_unit_Inr simp del: run_state_bind elim!: run_bindE dest!: exec_mutation_outcome)

lemma update_body_outcome:
  "run_state (update_body target change i d l) s = (Inr (d', x), t) \<Longrightarrow>
   sql_update_action target change i (wl_serviceID l) (wl_epoch l) (wl_owner l) d = Inr (d', 1)"
  by (auto simp: update_body_def with_unit_Inr simp del: run_state_bind elim!: run_bindE dest!: exec_mutation_outcome)

lemma actionInTransaction_outcome:
  assumes "run_state (actionInTransaction d i n) s = (Inr r, t)"
  shows "(r = None \<and> (\<forall>a \<in> set (db_actions d). \<not> action_is i n a)) \<or>
    (\<exists>a x. r = Some x \<and> a \<in> set (db_actions d) \<and> action_is i n a \<and> action_of_row a = Some x)"
  using assms
  by (auto simp: actionInTransaction_def simp del: run_state_bind elim!: run_bindE
      dest!: outcomes query_row_Inr query_row_not_NoRows split: sum.split_asm if_split_asm)

lemma record_body_outcome:
  assumes "run_state (recordActionIntent i intent d l) s = (Inr (d', x), t)"
  shows "(d' = d \<and> unresolved_transaction_exists d i (wl_serviceID l) \<and>
      (\<exists>a \<in> set (db_actions d). action_is i (an_Sequence intent) a \<and> jr_kind a = an_Kind intent \<and> jr_intent a = an_IntentDigest intent)) \<or>
    ((\<forall>a \<in> set (db_actions d). \<not> action_is i (an_Sequence intent) a) \<and>
      sql_insert_action (intent_row i intent) (wl_serviceID l) (wl_epoch l) (wl_owner l) d = Inr (d', 1))"
proof -
  have reuse: "d'' = d \<and> unresolved_transaction_exists d i (wl_serviceID l)"
    if "sql_reuse_action i n (wl_serviceID l) (wl_epoch l) (wl_owner l) d = Inr (d'', 1)" for n d''
    using that by (auto simp: sql_reuse_action_def checked_Inr split: if_split_asm)
  have row: "jr_kind a = ac_Kind y \<and> jr_intent a = ac_IntentDigest y" if "action_of_row a = Some y" for a y
    using that by (auto simp: action_of_row_def zero_Action_def Let_def split: if_split_asm option.split_asm)
  show ?thesis
    using assms
    by (auto simp: recordActionIntent_def reuseActionIntent_def insertActionIntent_def with_unit_Inr intent_row_def
        simp del: run_state_bind elim!: run_bindE dest!: exec_mutation_outcome actionInTransaction_outcome reuse
        split: sum.split_asm option.split_asm if_split_asm) (metis row)+
qed

lemma transactionForService_outcome:
  assumes "run_state (transactionForService d i sid) s = (Inr record, t)"
  shows "\<exists>row \<in> set (db_transactions d). tr_id row = i \<and> tr_service row = sid \<and> transaction_of_row row = Some record"
  using assms
  by (auto simp: transactionForService_def simp del: run_state_bind elim!: run_bindE
      dest!: outcomes query_row_Inr split: sum.split_asm if_split_asm)

lemma transaction_of_row_fields:
  "transaction_of_row row = Some x \<Longrightarrow> tx_ID x = tr_id row \<and> tx_Kind x = tr_kind row \<and> tx_State x = tr_state row \<and>
     kind_String (tx_Runtime x) = tr_runtime row \<and> tx_SourceDigest x = tr_source row \<and>
     tx_EffectiveDigest x = tr_effective row \<and> tx_ExecutionDigest x = tr_execution row \<and>
     (\<forall>b. tr_base row = Some b \<longrightarrow> tx_BaseTransactionID x = b) \<and>
     (\<forall>w. tr_predecessor row = Some w \<longrightarrow> tx_PredecessorWorkloadID x = w)"
  by (auto simp: transaction_of_row_def populateTransactionRelationship_def zero_Transaction_def Let_def
      ParseRuntimeKind_def kind_String_def split: prod.split_asm if_split_asm option.split_asm)

lemma publish_outcome:
  assumes "run_state (publishAppliedService d sid record current intent) s = (Inr (d', n), t)" and "n = 1"
    and "(current = None \<and> (\<forall>a j. \<not> applied_pair d sid a j)) \<or>
      (\<exists>a j x. current = Some x \<and> applied_pair d sid a j \<and> applied_of_rows (a, j) = Some x)"
  shows "published d sid record intent d'"
  using assms
  by (auto simp: publishAppliedService_def insertAppliedService_def replaceAppliedService_def published_def Let_def
      simp del: run_state_bind elim!: run_bindE dest!: wrapped_outcome applied_of_rows_fields
      split: TransactionKind.split_asm option.split_asm if_split_asm TransactionKind.splits)

lemma publish_backup_outcome:
  assumes "run_state (publishBackupIndex d sid record intent) s = (Inr d', t)"
  shows "backup_published d sid record intent d'"
  using assms
  by (auto simp: publishBackupIndex_def backup_published_def simp del: run_state_bind elim!: run_bindE
      dest!: outcomes split: option.split_asm if_split_asm sum.split_asm prod.split_asm)

lemma finish_outcome:
  "run_state (finishAppliedTransaction d l i) s = (Inr d', t) \<Longrightarrow>
   sql_finish_transaction i (wl_serviceID l) (wl_epoch l) (wl_owner l) d = Inr (d', 1)"
  by (auto simp: finishAppliedTransaction_def dest!: exec_mutation_outcome)

lemma commit_body_outcome:
  assumes "run_state (commitAppliedService i intent d l) s = (Inr (d', x), t)" and "validAppliedServiceIntent intent"
  shows "store_step H d d' \<or> d' = d"
proof -
  have step: "store_step H d d'"
    if "row \<in> set (db_transactions d)" "tr_id row = i" "tr_service row = wl_serviceID l" "transaction_of_row row = Some rec"
      "tx_State rec = TransactionActive"
      "run_state (publishAppliedService d (wl_serviceID l) rec current intent) u = (Inr (d1, 1), v)"
      "(current = None \<and> (\<forall>a j. \<not> applied_pair d (wl_serviceID l) a j)) \<or>
        (\<exists>a j x. current = Some x \<and> applied_pair d (wl_serviceID l) a j \<and> applied_of_rows (a, j) = Some x)"
      "backup_published d1 (wl_serviceID l) rec (ai_Backup intent) d2"
      "sql_finish_transaction i (wl_serviceID l) (wl_epoch l) (wl_owner l) d2 = Inr (d', 1)"
    for row rec current u v d1 d2
    using that Commit [OF assms(2) that(1-3) _ that(4) publish_outcome [OF that(6) refl that(7)] that(8,9)]
      transaction_of_row_fields [OF that(4)] by simp
  from assms(1) show ?thesis
    by (auto simp: commitAppliedService_def simp del: run_state_bind elim!: run_bindE
        dest!: transactionForService_outcome appliedService_outcome result_outcomes(2) publish_backup_outcome finish_outcome
        split: sum.split_asm option.split_asm if_split_asm prod.split_asm)
      (metis step)+
qed

lemma insert_candidates_outcome:
  "run_state (insert_candidates H cs d) s = (Inr d', t) \<Longrightarrow> rebuilt H cs d d'"
proof (induction cs arbitrary: d s)
  case (Cons c cs)
  from Cons.prems show ?case
    by (auto simp del: run_state_bind elim!: run_bindE dest!: exec_mutation_outcome split: sum.split_asm intro: Cons.IH)
qed simp

lemma replaceBackupIndex_outcome:
  assumes "run_state (replaceBackupIndex H cs d) s = (r, t)"
  shows "sw_db t = sw_db s \<and> (\<forall>d'. r = Inr d' \<longrightarrow> (\<exists>d0 n. sql_delete_backups d = Inr (d0, n) \<and> rebuilt H cs d0 d'))"
proof
  show "sw_db t = sw_db s" using assms by (rule readsD [OF reads_replaceBackupIndex])
  show "\<forall>d'. r = Inr d' \<longrightarrow> (\<exists>d0 n. sql_delete_backups d = Inr (d0, n) \<and> rebuilt H cs d0 d')"
    using assms
    by (auto simp: replaceBackupIndex_def simp del: run_state_bind elim!: run_bindE dest!: outcomes
        dest: insert_candidates_outcome split: sum.split_asm prod.split_asm)
qed

text \<open>The programs that write, one after the other.\<close>

named_theorems writes_rules \<open>programs that move the tables along steps\<close>

lemmas writes_structure =
  moves_bind moves_return moves_if moves_case_option moves_case_sum moves_case_prod moves_Let moves_orders

lemmas writes_reads =
  reads_primitives [THEN moves_reads] reads_reader [THEN moves_reads] reads_lock [THEN moves_reads]
  reads_open [THEN moves_reads]

lemma writes_acquire [writes_rules]: "moves sw_db (store_step H)\<^sup>*\<^sup>* (acquireWriterLease sid)"
  by (rule movesI) (auto dest!: acquireWriterLease_outcome intro: Acquire)

lemma writes_release [writes_rules]: "moves sw_db (store_step H)\<^sup>*\<^sup>* (releaseWriterLease l)"
  by (rule movesI) (auto dest!: releaseWriterLease_outcome intro: Release)

lemma writes_begin [writes_rules]: "moves sw_db (store_step H)\<^sup>*\<^sup>* (BeginTransaction lock intent)"
proof (cases "validTransactionIntent intent")
  case True
  have "moves sw_db (store_step H)\<^sup>*\<^sup>* (withFencedWrite lock (begin_body i intent))" for i
    by (rule fenced_step) (auto intro: reads_bodies dest!: begin_body_outcome intro: Begin [OF True])
  then show ?thesis
    unfolding BeginTransaction_def by (auto intro!: writes_structure writes_reads)
qed (auto simp: BeginTransaction_def intro: writes_structure)

lemma writes_set_state [writes_rules]: "moves sw_db (store_step H)\<^sup>*\<^sup>* (SetTransactionState lock i st)"
proof (cases "validTransactionTargetState st")
  case True
  have "moves sw_db (store_step H)\<^sup>*\<^sup>* (withFencedWrite lock (set_state_body i st))"
    by (rule fenced_step) (auto intro: reads_bodies dest!: set_state_body_outcome intro: SetState [OF True])
  then show ?thesis
    unfolding SetTransactionState_def by (auto intro!: writes_structure writes_reads)
qed (auto simp: SetTransactionState_def intro: writes_structure)

lemma writes_record [writes_rules]: "moves sw_db (store_step H)\<^sup>*\<^sup>* (RecordActionIntent lock i intent)"
proof (cases "validActionIntent intent")
  case True
  have "moves sw_db (store_step H)\<^sup>*\<^sup>* (withFencedWrite lock (recordActionIntent i intent))"
    by (rule fenced_step) (auto intro: reads_record dest!: record_body_outcome intro: Record [OF True])
  then show ?thesis
    unfolding RecordActionIntent_def by (auto intro!: writes_structure writes_reads)
qed (auto simp: RecordActionIntent_def intro: writes_structure)

lemma writes_mark [writes_rules]: "moves sw_db (store_step H)\<^sup>*\<^sup>* (MarkActionEffectOutcomeUnknown lock i n)"
proof -
  have "moves sw_db (store_step H)\<^sup>*\<^sup>*
      (updateAction lock i (mark_target i n) (\<lambda>a. a\<lparr>jr_state := ActionStateEffectOutcomeUnknown\<rparr>))"
    unfolding updateAction_def
    by (rule fenced_step) (auto intro: reads_bodies dest!: update_body_outcome intro: Mark)
  then show ?thesis
    unfolding MarkActionEffectOutcomeUnknown_def by (auto intro!: writes_structure writes_reads)
qed

lemma writes_complete [writes_rules]: "moves sw_db (store_step H)\<^sup>*\<^sup>* (CompleteAction lock i n p)"
proof -
  have "moves sw_db (store_step H)\<^sup>*\<^sup>*
      (updateAction lock i (complete_target i n p) (\<lambda>a. a\<lparr>jr_state := ActionStateCompleted, jr_post := Some p\<rparr>))"
    unfolding updateAction_def
    by (rule fenced_step) (auto intro: reads_bodies dest!: update_body_outcome intro: Complete)
  then show ?thesis
    unfolding CompleteAction_def by (auto intro!: writes_structure writes_reads)
qed

lemma writes_commit [writes_rules]: "moves sw_db (store_step H)\<^sup>*\<^sup>* (CommitAppliedService lock i intent)"
proof (cases "validAppliedServiceIntent intent")
  case True
  have "moves sw_db (store_step H)\<^sup>*\<^sup>* (withFencedWrite lock (commitAppliedService i intent))"
    by (rule fenced_step) (auto intro: reads_commit dest!: commit_body_outcome [OF _ True])
  then show ?thesis
    unfolding CommitAppliedService_def by (auto intro!: writes_structure writes_reads)
qed (auto simp: CommitAppliedService_def intro: writes_structure)

lemma writes_rebuild [writes_rules]: "moves sw_db (store_step H)\<^sup>*\<^sup>* (ReplaceBackupIndex H cs)"
proof (rule movesI)
  fix s :: "'a store_world_scheme" and r t
  assume "run_state (ReplaceBackupIndex H cs) s = (r, t)"
  then have "sw_db t = sw_db s \<or>
      (validBackupIndexCandidates H cs \<and> (\<exists>d0 n. sql_delete_backups (sw_db s) = Inr (d0, n) \<and> rebuilt H cs d0 (sw_db t)))"
    by (auto simp: ReplaceBackupIndex_def simp del: run_state_bind elim!: run_bindE
        dest!: outcomes replaceBackupIndex_outcome
        split: sum.split_asm if_split_asm)
  then show "(store_step H)\<^sup>*\<^sup>* (sw_db s) (sw_db t)" by (auto intro: Rebuild)
qed

lemma writes_open [writes_rules]: "moves sw_db (store_step H)\<^sup>*\<^sup>* (openServiceLock H' db p s)"
  unfolding openServiceLock_def
  by (intro writes_structure writes_rules writes_reads)

lemma writes_close [writes_rules]: "moves sw_db (store_step H)\<^sup>*\<^sup>* (lock_Close lock)"
  unfolding lock_Close_def
  by (intro writes_structure writes_rules writes_reads)

section \<open>The journal invariant\<close>

text \<open>What an unresolved transaction relies on: no baseline, or exactly the baseline it replaces.\<close>

definition unresolved_ok :: "db \<Rightarrow> tx_row \<Rightarrow> bool" where
  "unresolved_ok d r \<longleftrightarrow>
     (if tr_kind r = TransactionUpgrade
      then \<exists>a \<in> set (db_applied d). ar_service a = tr_service r \<and> tr_base r = Some (ar_tx a) \<and> tr_predecessor r = Some (ar_workload a)
      else \<forall>a \<in> set (db_applied d). ar_service a \<noteq> tr_service r)"

definition base_ok :: "db \<Rightarrow> bool" where
  "base_ok d \<longleftrightarrow> (\<forall>c \<in> set (db_transactions d). \<forall>b \<in> set (db_transactions d). tr_base c = Some (tr_id b) \<longrightarrow> tr_state b = TransactionSucceeded)"

definition applied_ok :: "db \<Rightarrow> bool" where
  "applied_ok d \<longleftrightarrow>
     (\<forall>a \<in> set (db_applied d). \<forall>r \<in> set (db_transactions d). tr_id r = ar_tx a \<longrightarrow> tr_state r = TransactionSucceeded) \<and>
     (\<forall>r \<in> set (db_transactions d). tr_state r = TransactionSucceeded \<longrightarrow> (\<exists>a \<in> set (db_applied d). ar_service a = tr_service r)) \<and>
     (\<forall>r \<in> set (db_transactions d). tr_state r = TransactionSucceeded \<longrightarrow>
        (\<exists>a \<in> set (db_applied d). ar_tx a = tr_id r) \<or>
        (\<exists>q \<in> set (db_transactions d). tr_base q = Some (tr_id r) \<and> tr_service q = tr_service r)) \<and>
     (\<forall>r \<in> set (db_transactions d). unresolved (tr_state r) \<longrightarrow> unresolved_ok d r)"

definition backups_ok :: "db \<Rightarrow> bool" where
  "backups_ok d \<longleftrightarrow> (\<forall>b \<in> set (db_backups d). \<forall>r \<in> set (db_transactions d). tr_id r = br_tx b \<longrightarrow>
     tr_kind r = TransactionUpgrade \<and> tr_state r = TransactionSucceeded)"

definition actions_ok :: "db \<Rightarrow> bool" where
  "actions_ok d \<longleftrightarrow>
     (\<forall>a \<in> set (db_actions d). \<forall>b \<in> set (db_actions d). jr_tx a = jr_tx b \<and> jr_state a \<noteq> ActionStateCompleted \<and>
        jr_state b \<noteq> ActionStateCompleted \<longrightarrow> a = b) \<and>
     (\<forall>a \<in> set (db_actions d). \<forall>r \<in> set (db_transactions d). jr_state a \<noteq> ActionStateCompleted \<and> tr_id r = jr_tx a \<longrightarrow>
        unresolved (tr_state r))"

definition journal_ok :: "db \<Rightarrow> bool" where
  "journal_ok d \<longleftrightarrow> db_constraints d \<and> base_ok d \<and> applied_ok d \<and> backups_ok d \<and> actions_ok d"

text \<open>Keys identify rows.\<close>

lemma distinct_map_eq: "distinct (map f xs) \<Longrightarrow> x \<in> set xs \<Longrightarrow> y \<in> set xs \<Longrightarrow> f x = f y \<Longrightarrow> x = y"
  by (auto simp: distinct_map dest: inj_onD)

lemma constraint_parts:
  assumes "db_constraints d"
  shows "distinct (map lr_service (db_leases d))" "distinct (map tr_id (db_transactions d))"
    "distinct (map (\<lambda>a. (jr_tx a, jr_sequence a)) (db_actions d))" "distinct (map ar_service (db_applied d))"
    "distinct (map ar_tx (db_applied d))" "distinct (map br_tx (db_backups d))"
    "distinct (map tr_service (filter (\<lambda>r. unresolved (tr_state r)) (db_transactions d)))"
  using assms by (auto simp: db_constraints_def lease_constraints_def transaction_constraints_def
      action_constraints_def applied_constraints_def backup_constraints_def)

lemma row_checks:
  assumes "db_constraints d"
  shows "r \<in> set (db_transactions d) \<Longrightarrow> transaction_check r" "a \<in> set (db_actions d) \<Longrightarrow> action_check a"
    "p \<in> set (db_applied d) \<Longrightarrow> applied_check p" "b \<in> set (db_backups d) \<Longrightarrow> backup_check b"
  using assms by (auto simp: db_constraints_def transaction_constraints_def action_constraints_def
      applied_constraints_def backup_constraints_def list_all_iff)

lemma foreign_keys:
  assumes "db_constraints d"
  shows "r \<in> set (db_transactions d) \<Longrightarrow> tr_base r = Some i \<Longrightarrow> \<exists>b \<in> set (db_transactions d). tr_id b = i \<and> tr_service b = tr_service r"
    "a \<in> set (db_actions d) \<Longrightarrow> \<exists>t \<in> set (db_transactions d). tr_id t = jr_tx a"
    "p \<in> set (db_applied d) \<Longrightarrow> \<exists>t \<in> set (db_transactions d). tr_id t = ar_tx p \<and> tr_service t = ar_service p"
    "b \<in> set (db_backups d) \<Longrightarrow> \<exists>t \<in> set (db_transactions d). tr_id t = br_tx b \<and> tr_service t = br_service b"
proof -
  show "\<exists>b \<in> set (db_transactions d). tr_id b = i \<and> tr_service b = tr_service r" if "r \<in> set (db_transactions d)" "tr_base r = Some i"
    using that assms by (force simp: db_constraints_def transaction_constraints_def list_all_iff transaction_exists_def list_ex_iff)
  have "\<forall>a \<in> set (db_actions d). jr_tx a \<in> set (map tr_id (db_transactions d))"
    using assms by (simp add: db_constraints_def action_constraints_def list_all_iff)
  then show "\<exists>t \<in> set (db_transactions d). tr_id t = jr_tx a" if "a \<in> set (db_actions d)"
    using that by fastforce
  show "\<exists>t \<in> set (db_transactions d). tr_id t = ar_tx p \<and> tr_service t = ar_service p" if "p \<in> set (db_applied d)"
    using that assms by (auto simp: db_constraints_def applied_constraints_def list_all_iff transaction_exists_def list_ex_iff)
  show "\<exists>t \<in> set (db_transactions d). tr_id t = br_tx b \<and> tr_service t = br_service b" if "b \<in> set (db_backups d)"
    using that assms by (auto simp: db_constraints_def backup_constraints_def list_all_iff transaction_exists_def list_ex_iff)
qed

lemma transaction_unique:
  "db_constraints d \<Longrightarrow> r \<in> set (db_transactions d) \<Longrightarrow> q \<in> set (db_transactions d) \<Longrightarrow> tr_id r = tr_id q \<Longrightarrow> r = q"
  by (rule distinct_map_eq [OF constraint_parts(2)])

text \<open>A reference stays within its service.\<close>

lemma reference_services:
  assumes "db_constraints d" and "r \<in> set (db_transactions d)"
  shows "c \<in> set (db_transactions d) \<Longrightarrow> tr_base c = Some (tr_id r) \<Longrightarrow> tr_service r = tr_service c"
    "a \<in> set (db_applied d) \<Longrightarrow> tr_id r = ar_tx a \<Longrightarrow> tr_service r = ar_service a"
    "b \<in> set (db_backups d) \<Longrightarrow> tr_id r = br_tx b \<Longrightarrow> tr_service r = br_service b"
  using foreign_keys [OF assms(1)] transaction_unique [OF assms(1,2)] by metis+

lemma unresolved_unique:
  assumes "db_constraints d" "r \<in> set (db_transactions d)" "q \<in> set (db_transactions d)"
    "tr_service r = tr_service q" "unresolved (tr_state r)" "unresolved (tr_state q)"
  shows "r = q"
  using constraint_parts(7) [OF assms(1)] assms(2-) by (auto dest: distinct_map_eq)

lemma applied_unique:
  "db_constraints d \<Longrightarrow> a \<in> set (db_applied d) \<Longrightarrow> b \<in> set (db_applied d) \<Longrightarrow> ar_service a = ar_service b \<Longrightarrow> a = b"
  by (rule distinct_map_eq [OF constraint_parts(4)])

text \<open>The invariant is what the validation query checks.\<close>

lemma filter_none: "(\<And>x. x \<in> set xs \<Longrightarrow> \<not> P x) \<Longrightarrow> length (filter P xs) = 0"
  by (simp add: filter_empty_conv)

lemma hex_digit_nonzero: "(of_char (hex_digit (unat (b :: byte) div 16)) :: nat) \<noteq> 0" "(of_char (hex_digit (unat b mod 16)) :: nat) \<noteq> 0"
proof -
  have "n < 16 \<Longrightarrow> (of_char (hex_digit n) :: nat) \<noteq> 0" for n
    by (simp add: hex_digit_def of_char_of)
  moreover have "unat b div 16 < 16" using unat_byte_bound [of b] by simp
  ultimately show "(of_char (hex_digit (unat b div 16)) :: nat) \<noteq> 0" "(of_char (hex_digit (unat b mod 16)) :: nat) \<noteq> 0"
    by simp_all
qed

lemma manifest_path_bytes: "length (backupManifestPath i) = 46" "\<not> contains_nul (backupManifestPath i)"
proof -
  show "length (backupManifestPath i) = 46" by (simp add: backupManifestPath_def id_String_def)
  have "\<forall>c \<in> set (hex_EncodeToString bs). (of_char c :: nat) \<noteq> 0" for bs
    using hex_digit_nonzero by (auto simp: hex_EncodeToString_def)
  then show "\<not> contains_nul (backupManifestPath i)"
    by (auto simp: contains_nul_def list_ex_iff backupManifestPath_def id_String_def)
qed

lemma single_incomplete:
  assumes "distinct (map (\<lambda>a. (jr_tx a, jr_sequence a)) xs)"
    and "\<forall>a \<in> set xs. \<forall>b \<in> set xs. jr_tx a = jr_tx b \<and> P a \<and> P b \<longrightarrow> a = b"
  shows "length (filter (\<lambda>a. jr_tx a = i) (filter P xs)) \<le> 1"
proof -
  have d: "distinct (filter (\<lambda>a. jr_tx a = i) (filter P xs))" using assms(1) by (simp add: distinct_map)
  then show ?thesis
  proof (cases "filter (\<lambda>a. jr_tx a = i) (filter P xs)")
    case (Cons a as)
    have "set (a # as) \<subseteq> {b \<in> set xs. jr_tx b = i \<and> P b}" unfolding Cons [symmetric] by auto
    then have "\<forall>b \<in> set as. b = a" using assms(2) by auto
    then have "as = []" using d Cons by (cases as) auto
    then show ?thesis using Cons by simp
  qed simp
qed

text \<open>A row that the validation of unresolved transactions counts would contradict the invariant.\<close>

lemma unresolved_joined:
  assumes c: "db_constraints d" and ok: "unresolved_ok d j" and p: "p \<in> set (left_joined (applied_of d (tr_service j)))"
  shows "if tr_kind j = TransactionUpgrade then \<exists>q. p = Some q \<and> tr_base j = Some (ar_tx q) \<and> tr_predecessor j = Some (ar_workload q) else p = None"
proof (cases "tr_kind j = TransactionUpgrade")
  case True
  then obtain q where q: "q \<in> set (db_applied d)" "ar_service q = tr_service j" "tr_base j = Some (ar_tx q)" "tr_predecessor j = Some (ar_workload q)"
    using ok by (auto simp: unresolved_ok_def)
  then have "applied_of d (tr_service j) \<noteq> []" by (auto simp: applied_of_def filter_empty_conv)
  then obtain q' where "p = Some q'" "q' \<in> set (db_applied d)" "ar_service q' = tr_service j" using p by (auto simp: left_joined_def applied_of_def)
  then have "p = Some q" using q applied_unique [OF c] by metis
  then show ?thesis using True q by simp
next
  case False
  then have "applied_of d (tr_service j) = []" using ok by (auto simp: unresolved_ok_def applied_of_def filter_empty_conv)
  then show ?thesis using p False by (simp add: left_joined_def)
qed

lemma no_bad_unresolved:
  assumes c: "db_constraints d" and a: "applied_ok d"
  shows "bad_unresolved d = 0"
  unfolding bad_unresolved_def
proof (rule filter_none, clarify)
  fix j p
  assume "(j, p) \<in> set (concat (map (\<lambda>j. map (Pair j) (left_joined (applied_of d (tr_service j)))) (db_transactions d)))" and u: "unresolved (tr_state j)"
    and bad: "(tr_kind j = TransactionBootstrap \<or> tr_kind j = TransactionAdopt) \<and> p \<noteq> None \<or>
      tr_kind j = TransactionUpgrade \<and> (case p of None \<Rightarrow> True
         | Some a \<Rightarrow> (case tr_base j of None \<Rightarrow> False | Some b \<Rightarrow> ar_tx a \<noteq> b) \<or>
             (case tr_predecessor j of None \<Rightarrow> False | Some w \<Rightarrow> ar_workload a \<noteq> w))"
  then have j: "j \<in> set (db_transactions d)" and p: "p \<in> set (left_joined (applied_of d (tr_service j)))" by auto
  have "unresolved_ok d j" using a j u by (simp add: applied_ok_def)
  then show False using unresolved_joined [OF c _ p] bad by (auto split: if_split_asm)
qed

lemma journal_ok_validates:
  assumes ok: "journal_ok d"
  shows "journalRowValidation d = 0" and "invalid_leases d = 0"
proof -
  from ok have c: "db_constraints d" and b: "base_ok d" and a: "applied_ok d" and k: "backups_ok d" and x: "actions_ok d"
    by (simp_all add: journal_ok_def)
  note checks = row_checks [OF c] and refs = reference_services [OF c]
  show "invalid_leases d = 0"
    using c by (auto simp: invalid_leases_def db_constraints_def lease_constraints_def list_all_iff filter_empty_conv)
  have "bad_transactions d = 0"
    unfolding bad_transactions_def
    by (rule filter_none) (auto dest!: checks(1) simp: transaction_check_def relationship_ok_def split: option.splits)
  moreover have "bad_applied d = 0"
    unfolding bad_applied_def by (rule filter_none) (auto dest!: checks(3) simp: applied_check_def)
  moreover have "bad_backups d = 0"
    unfolding bad_backups_def
    by (rule filter_none) (auto dest!: checks(4) simp: backup_check_def manifest_path_bytes)
  moreover have "bad_bases d = 0"
    unfolding bad_bases_def
    by (rule filter_none) (use b refs(1) in \<open>auto simp: join_transactions_def base_ok_def\<close>)
  moreover have "bad_applied_transactions d = 0"
    unfolding bad_applied_transactions_def
    by (rule filter_none) (use a refs(2) in \<open>auto simp: join_transactions_def applied_ok_def\<close>)
  moreover have "bad_backup_transactions d = 0"
    unfolding bad_backup_transactions_def
    by (rule filter_none) (use k refs(3) checks(4) in \<open>auto simp: join_transactions_def backups_ok_def backup_check_def\<close>)
  moreover have "succeeded_without_applied d = 0"
    unfolding succeeded_without_applied_def
    by (rule filter_none) (use a in \<open>auto simp: applied_ok_def applied_of_def filter_empty_conv list_ex_iff\<close>)
  moreover have "orphan_succeeded d = 0"
    unfolding orphan_succeeded_def
    by (rule filter_none) (use a in \<open>auto simp: applied_ok_def list_ex_iff\<close>)
  moreover have "bad_actions d = 0"
    unfolding bad_actions_def by (rule filter_none) (auto dest!: checks(2) simp: action_check_def)
  moreover have "concurrent_actions d = 0"
    unfolding concurrent_actions_def
    using single_incomplete [OF constraint_parts(3) [OF c], of "\<lambda>a. jr_state a \<noteq> ActionStateCompleted"] x
    by (intro filter_none) (auto simp: incomplete_actions_def actions_ok_def not_less)
  moreover have "actions_of_resolved d = 0"
    unfolding actions_of_resolved_def
    by (rule filter_none) (use x in \<open>auto simp: join_transactions_def incomplete_actions_def actions_ok_def\<close>)
  moreover have "foreign_key_violations d = 0"
    using c by (auto simp: foreign_key_violations_def filter_empty_conv db_constraints_def transaction_constraints_def
        action_constraints_def applied_constraints_def backup_constraints_def list_all_iff split: option.splits)
  moreover have "bad_unresolved d = 0" by (rule no_bad_unresolved [OF c a])
  ultimately show "journalRowValidation d = 0" by (simp add: journalRowValidation_def)
qed

section \<open>Every step keeps the invariant\<close>

text \<open>The effect of each statement on the tables.\<close>

lemma step_constraints: "store_step H d d' \<Longrightarrow> journal_ok d \<Longrightarrow> db_constraints d'"
proof (induction rule: store_step.induct)
  case (Rebuild cs d d0 n d')
  have "rebuilt H cs d0 d' \<Longrightarrow> db_constraints d0 \<Longrightarrow> db_constraints d'" for cs d0
    by (induction cs arbitrary: d0) (auto simp: rebuildBackupIndexSQL_def Let_def checked_Inr)
  moreover have "db_constraints d0" using Rebuild by (simp add: sql_delete_backups_def checked_Inr)
  ultimately show ?case using Rebuild by blast
qed (auto simp: sql_advance_lease_def sql_release_lease_def sql_insert_transaction_def sql_set_state_def
    sql_insert_action_def sql_update_action_def sql_finish_transaction_def Let_def checked_Inr split: if_split_asm)

lemma lease_only:
  assumes "journal_ok d" and "db_constraints d'" and "db_transactions d' = db_transactions d" "db_actions d' = db_actions d"
    "db_applied d' = db_applied d" "db_backups d' = db_backups d"
  shows "journal_ok d'"
  using assms by (simp add: journal_ok_def base_ok_def applied_ok_def backups_ok_def actions_ok_def unresolved_ok_def)

lemma actions_only:
  assumes "journal_ok d" and "db_constraints d'" and "db_transactions d' = db_transactions d"
    "db_applied d' = db_applied d" "db_backups d' = db_backups d" "actions_ok d'"
  shows "journal_ok d'"
  using assms by (simp add: journal_ok_def base_ok_def applied_ok_def backups_ok_def unresolved_ok_def)

lemma step_lease:
  assumes "journal_ok d" and "sql_advance_lease sid owner d = Inr (d', 1) \<or> sql_release_lease sid epoch owner d = Inr (d', 1)"
  shows "journal_ok d'"
  by (rule lease_only [OF assms(1)])
    (use assms(2) in \<open>auto simp: sql_advance_lease_def sql_release_lease_def Let_def checked_Inr split: if_split_asm\<close>)

lemma step_record:
  assumes ok: "journal_ok d" and st: "sql_insert_action (intent_row i intent) sid epoch owner d = Inr (d', 1)"
  shows "journal_ok d'"
proof -
  have d': "d' = d\<lparr>db_actions := db_actions d @ [intent_row i intent]\<rparr>" "db_constraints d'"
    and pre: "unresolved_transaction_exists d i sid" "\<not> incomplete_exists d i"
    using st by (auto simp: sql_insert_action_def checked_Inr intent_row_def split: if_split_asm)
  show ?thesis
  proof (rule actions_only [OF ok])
    have "db_constraints d" using ok by (simp add: journal_ok_def)
    then have "unresolved (tr_state r)" if "r \<in> set (db_transactions d)" "tr_id r = i" for r
      using that pre(1) transaction_unique by (auto simp: unresolved_transaction_exists_def list_ex_iff)
    then show "actions_ok d'"
      using ok pre(2) d' by (auto simp: journal_ok_def actions_ok_def intent_row_def incomplete_exists_def list_ex_iff)
  qed (simp_all add: d'(1) d'(2) [unfolded d'(1)])
qed

lemma step_update:
  assumes ok: "journal_ok d" and st: "sql_update_action target change i sid epoch owner d = Inr (d', 1)"
    and keeps: "\<And>a. target a \<Longrightarrow> jr_tx (change a) = jr_tx a"
    and incomplete: "\<And>a. a \<in> set (db_actions d) \<Longrightarrow> target a \<Longrightarrow> jr_state (change a) \<noteq> ActionStateCompleted \<Longrightarrow> jr_state a \<noteq> ActionStateCompleted"
  shows "journal_ok d'"
proof -
  have d': "d' = d\<lparr>db_actions := map (\<lambda>a. if target a then change a else a) (db_actions d)\<rparr>" "db_constraints d'"
    using st by (auto simp: sql_update_action_def checked_Inr split: if_split_asm)
  define g where "g = (\<lambda>a. if target a then change a else a)"
  have g: "jr_tx (g a) = jr_tx a" "a \<in> set (db_actions d) \<Longrightarrow> jr_state (g a) \<noteq> ActionStateCompleted \<Longrightarrow> jr_state a \<noteq> ActionStateCompleted" for a
    using keeps incomplete by (auto simp: g_def split: if_split_asm)
  have acts: "set (db_actions d') = g ` set (db_actions d)" by (simp add: d'(1) g_def)
  show ?thesis
  proof (rule actions_only [OF ok])
    have "actions_ok d" using ok by (simp add: journal_ok_def)
    then show "actions_ok d'"
      unfolding actions_ok_def acts using g by (simp add: d'(1)) metis
  qed (simp_all add: d'(1) d'(2) [unfolded d'(1)])
qed

lemma step_set_state:
  assumes ok: "journal_ok d" and st: "sql_set_state i sid st epoch owner d = Inr (d', 1)" and target: "validTransactionTargetState st"
  shows "journal_ok d'"
proof -
  have d': "d' = d\<lparr>db_transactions := map (\<lambda>r. if state_target i sid st r then r\<lparr>tr_state := st\<rparr> else r) (db_transactions d)\<rparr>"
    "db_constraints d'" and pre: "\<not> incomplete_exists d i"
    using st by (auto simp: sql_set_state_def checked_Inr split: if_split_asm)
  define g where "g = (\<lambda>r. if state_target i sid st r then r\<lparr>tr_state := st\<rparr> else r)"
  have txs: "set (db_transactions d') = g ` set (db_transactions d)" by (simp add: d'(1) g_def)
  have rest: "db_applied d' = db_applied d" "db_actions d' = db_actions d" "db_backups d' = db_backups d" by (simp_all add: d'(1))
  have g: "tr_id (g r) = tr_id r" "tr_service (g r) = tr_service r" "tr_kind (g r) = tr_kind r" "tr_base (g r) = tr_base r"
    "tr_predecessor (g r) = tr_predecessor r"
    "tr_state (g r) = TransactionSucceeded \<longleftrightarrow> tr_state r = TransactionSucceeded"
    "unresolved (tr_state (g r)) \<Longrightarrow> unresolved (tr_state r)"
    "tr_id r \<noteq> i \<Longrightarrow> g r = r" for r
    using target by (auto simp: g_def validTransactionTargetState_def state_target_def unresolved_def split: if_split_asm)
  from ok have b: "base_ok d" and a: "applied_ok d" and k: "backups_ok d" and x: "actions_ok d" by (simp_all add: journal_ok_def)
  have "base_ok d'" using b unfolding base_ok_def txs by (simp add: g(1-7))
  moreover have "backups_ok d'" using k unfolding backups_ok_def txs rest by (simp add: g(1-7))
  moreover have "unresolved_ok d' (g r) = unresolved_ok d r" for r by (simp add: unresolved_ok_def g(1-7) rest)
  then have "applied_ok d'" using a unfolding applied_ok_def txs rest by (auto simp: g(1-7))
  moreover have "actions_ok d'"
  proof -
    have "g r = r" if "q \<in> set (db_actions d)" "jr_state q \<noteq> ActionStateCompleted" "tr_id r = jr_tx q" for q r
      using that pre by (intro g(8)) (auto simp: incomplete_exists_def list_ex_iff)
    then have "unresolved (tr_state (g r))"
      if "q \<in> set (db_actions d)" "r \<in> set (db_transactions d)" "jr_state q \<noteq> ActionStateCompleted" "tr_id r = jr_tx q" for q r
      using that x by (simp add: actions_ok_def)
    then show ?thesis using x unfolding actions_ok_def txs rest by (simp add: g(1-7))
  qed
  ultimately show ?thesis using d'(2) by (simp add: journal_ok_def)
qed

lemma applied_pair_iff:
  assumes "db_constraints d"
  shows "(\<exists>j. applied_pair d sid a j) \<longleftrightarrow> a \<in> set (db_applied d) \<and> ar_service a = sid"
  using foreign_keys(3) [OF assms] by (auto simp: applied_pair_def)

text \<open>What is inserted when a transaction begins: a new active row, whose base is the applied transaction of its service if it is an upgrade.\<close>

definition begun :: "db \<Rightarrow> tx_row \<Rightarrow> db \<Rightarrow> bool" where
  "begun d row d' \<longleftrightarrow> d' = d\<lparr>db_transactions := db_transactions d @ [row]\<rparr> \<and> db_constraints d' \<and> tr_state row = TransactionActive \<and>
     (if tr_kind row = TransactionUpgrade
      then \<exists>p \<in> set (db_applied d). ar_service p = tr_service row \<and> tr_base row = Some (ar_tx p) \<and> tr_predecessor row = Some (ar_workload p)
      else tr_base row = None \<and> (\<forall>p \<in> set (db_applied d). ar_service p \<noteq> tr_service row))"

lemma begun_rows:
  assumes "begun d row d'"
  shows "set (db_transactions d') = insert row (set (db_transactions d))" "db_applied d' = db_applied d" "db_actions d' = db_actions d"
    "db_backups d' = db_backups d" "r \<in> set (db_transactions d) \<Longrightarrow> tr_id r \<noteq> tr_id row"
proof -
  have d': "d' = d\<lparr>db_transactions := db_transactions d @ [row]\<rparr>" "db_constraints d'" using assms unfolding begun_def by blast+
  show "set (db_transactions d') = insert row (set (db_transactions d))" "db_applied d' = db_applied d" "db_actions d' = db_actions d" "db_backups d' = db_backups d"
    by (simp_all add: d'(1))
  show "tr_id r \<noteq> tr_id row" if "r \<in> set (db_transactions d)" using constraint_parts(2) [OF d'(2)] that by (simp add: d'(1)) (metis image_eqI)
qed

lemma insert_begins:
  assumes c: "db_constraints d" and intent: "validTransactionIntent intent" and base: "baseline_ok d sid intent"
    and st: "sql_insert_transaction (transaction_row i sid intent) epoch owner d = Inr (d', 1)"
  shows "begun d (transaction_row i sid intent) d'"
proof -
  let ?row = "transaction_row i sid intent"
  note row = transaction_row_def
  have d': "d' = d\<lparr>db_transactions := db_transactions d @ [?row]\<rparr>" "db_constraints d'"
    using st by (auto simp: sql_insert_transaction_def checked_Inr split: if_split_asm)
  have "\<exists>p \<in> set (db_applied d). ar_service p = sid \<and> tr_base ?row = Some (ar_tx p) \<and> tr_predecessor ?row = Some (ar_workload p)"
    if "ti_Kind intent = TransactionUpgrade"
    using base intent that
    by (auto simp: baseline_ok_def row nullableTransactionID_def nullableWorkloadID_def applied_pair_def
        validTransactionIntent_def validTransactionRelationship_def validWorkloadID_def split: if_split_asm)
  moreover have "tr_base ?row = None \<and> (\<forall>p \<in> set (db_applied d). ar_service p \<noteq> sid)" if "ti_Kind intent \<noteq> TransactionUpgrade"
    using base intent that applied_pair_iff [OF c, of sid]
    by (auto simp: baseline_ok_def row nullableTransactionID_def validTransactionIntent_def validTransactionRelationship_def
        split: if_split_asm TransactionKind.split_asm)
  ultimately show ?thesis using d' by (simp add: begun_def row)
qed

lemma begun_base:
  assumes g: "begun d row d'" and c: "db_constraints d" and b: "base_ok d" and a: "applied_ok d"
  shows "base_ok d'"
  unfolding base_ok_def begun_rows(1) [OF g]
proof (intro ballI impI)
  fix c1 b1 assume c1: "c1 \<in> insert row (set (db_transactions d))" and b1: "b1 \<in> insert row (set (db_transactions d))" and eq: "tr_base c1 = Some (tr_id b1)"
  note fresh = begun_rows(5) [OF g]
  show "tr_state b1 = TransactionSucceeded"
  proof (cases "c1 = row")
    case True
    then obtain p where p: "p \<in> set (db_applied d)" "tr_id b1 = ar_tx p" using eq g by (auto simp: begun_def split: if_split_asm)
    then have "tr_id b1 \<noteq> tr_id row" using foreign_keys(3) [OF c p(1)] fresh by auto
    then have "b1 \<in> set (db_transactions d)" using b1 by auto
    then show ?thesis using p a by (auto simp: applied_ok_def)
  next
    case False
    then have c1': "c1 \<in> set (db_transactions d)" using c1 by simp
    have "tr_id b1 \<noteq> tr_id row" using foreign_keys(1) [OF c c1' eq] fresh by auto
    then have "b1 \<in> set (db_transactions d)" using b1 by auto
    then show ?thesis using b c1' eq by (auto simp: base_ok_def)
  qed
qed

lemma begun_applied:
  assumes g: "begun d row d'" and c: "db_constraints d" and a: "applied_ok d"
  shows "applied_ok d'"
proof -
  have "\<forall>p \<in> set (db_applied d). ar_tx p \<noteq> tr_id row" using foreign_keys(3) [OF c] begun_rows(5) [OF g] by metis
  moreover have "unresolved_ok d' row" "tr_state row = TransactionActive" using g by (auto simp: unresolved_ok_def begun_def split: if_split_asm)
  moreover have "unresolved_ok d' r = unresolved_ok d r" for r by (simp add: unresolved_ok_def begun_rows [OF g])
  moreover note a [unfolded applied_ok_def]
  ultimately show ?thesis unfolding applied_ok_def begun_rows(1,2) [OF g] by (intro conjI ballI impI) (auto simp: unresolved_def)
qed

lemma step_begin:
  assumes ok: "journal_ok d" and intent: "validTransactionIntent intent" and base: "baseline_ok d sid intent"
    and st: "sql_insert_transaction (transaction_row i sid intent) epoch owner d = Inr (d', 1)"
  shows "journal_ok d'"
proof -
  from ok have c: "db_constraints d" and b: "base_ok d" and a: "applied_ok d" and k: "backups_ok d" and x: "actions_ok d"
    by (simp_all add: journal_ok_def)
  note g = insert_begins [OF c intent base st]
  note fresh = begun_rows(5) [OF g]
  have "backups_ok d'" using k foreign_keys(4) [OF c] fresh unfolding backups_ok_def begun_rows(1,4) [OF g] by (metis insert_iff)
  moreover have "actions_ok d'" using x foreign_keys(2) [OF c] fresh unfolding actions_ok_def begun_rows(1,3) [OF g] by (metis insert_iff)
  moreover have "db_constraints d'" using g unfolding begun_def by blast
  ultimately show ?thesis using begun_base [OF g c b a] begun_applied [OF g c a] by (simp add: journal_ok_def)
qed

text \<open>Replacing the row of a service by one that names its base leaves the new row and those of other services.\<close>

lemma replaced_rows:
  assumes c: "db_constraints d" and a0: "a0 \<in> set (db_applied d)" "ar_service a0 = ar_service new"
    and d1: "sql_replace_applied new (ar_tx a0) (ar_workload a0) d = Inr (d1, 1)"
  shows "set (db_applied d1) = insert new {a \<in> set (db_applied d). ar_service a \<noteq> ar_service new}"
proof -
  have only: "a = a0" if "a \<in> set (db_applied d)" "ar_service a = ar_service new" for a
    using applied_unique [OF c that(1) a0(1)] that(2) a0(2) by simp
  have "(ar_service a = ar_service new \<and> ar_tx a = ar_tx a0 \<and> ar_workload a = ar_workload a0) \<longleftrightarrow> a = a0" if "a \<in> set (db_applied d)" for a
    using only [OF that] a0 by metis
  then have "set (db_applied d1) = (\<lambda>a. if a = a0 then new else a) ` set (db_applied d)"
    using d1 by (auto simp: sql_replace_applied_def Let_def checked_Inr)
  also have "\<dots> = insert new {a \<in> set (db_applied d). a \<noteq> a0}" using a0(1) by auto
  also have "{a \<in> set (db_applied d). a \<noteq> a0} = {a \<in> set (db_applied d). ar_service a \<noteq> ar_service new}" using only a0(2) by metis
  finally show ?thesis .
qed

text \<open>
  Publication replaces whatever row its service had, and a replaced row is the transaction's base.
\<close>

lemma published_rows:
  assumes ok: "journal_ok d" and row: "row \<in> set (db_transactions d)" "transaction_of_row row = Some rec"
    "tr_service row = sid" and pub: "published d sid rec intent d1"
  shows "set (db_applied d1) = insert (applied_row_of sid (tr_id row) intent) {a \<in> set (db_applied d). ar_service a \<noteq> sid}"
    and "a \<in> set (db_applied d) \<Longrightarrow> ar_service a = sid \<Longrightarrow> tr_base row = Some (ar_tx a)"
    and "db_transactions d1 = db_transactions d" "db_actions d1 = db_actions d" "db_backups d1 = db_backups d"
proof -
  have c: "db_constraints d" using ok by (simp add: journal_ok_def)
  note f = transaction_of_row_fields [OF row(2)]
  define new where "new = applied_row_of sid (tr_id row) intent"
  have new: "ar_service new = sid" by (simp add: new_def applied_row_of_def)
  show "db_transactions d1 = db_transactions d" "db_actions d1 = db_actions d" "db_backups d1 = db_backups d"
    using pub by (auto simp: published_def Let_def sql_insert_applied_def sql_replace_applied_def checked_Inr
        split: TransactionKind.split_asm)
  have "set (db_applied d1) = insert new {a \<in> set (db_applied d). ar_service a \<noteq> sid} \<and>
      (\<forall>a \<in> set (db_applied d). ar_service a = sid \<longrightarrow> tr_base row = Some (ar_tx a))"
  proof (cases "tx_Kind rec = TransactionUpgrade")
    case True
    then obtain a0 where a0: "a0 \<in> set (db_applied d)" "ar_service a0 = sid" "ar_tx a0 = tx_BaseTransactionID rec"
      and d1: "sql_replace_applied new (ar_tx a0) (ar_workload a0) d = Inr (d1, 1)"
      using pub f by (auto simp: published_def Let_def applied_pair_def new_def)
    have "tr_base row \<noteq> None" using row_checks(1) [OF c row(1)] f True by (auto simp: transaction_check_def relationship_ok_def)
    then have "tr_base row = Some (ar_tx a0)" using f a0(3) by auto
    moreover have "a = a0" if "a \<in> set (db_applied d)" "ar_service a = sid" for a using applied_unique [OF c that(1) a0(1)] that(2) a0(2) by simp
    ultimately show ?thesis using replaced_rows [OF c a0(1) _ d1] a0(2) new by auto
  next
    case False
    then have "\<forall>a j. \<not> applied_pair d sid a j" and "sql_insert_applied new d = Inr (d1, 1)"
      using pub f by (auto simp: published_def Let_def new_def split: TransactionKind.split_asm)
    then show ?thesis using applied_pair_iff [OF c, of sid] by (auto simp: sql_insert_applied_def checked_Inr)
  qed
  then show "set (db_applied d1) = insert (applied_row_of sid (tr_id row) intent) {a \<in> set (db_applied d). ar_service a \<noteq> sid}"
    and "a \<in> set (db_applied d) \<Longrightarrow> ar_service a = sid \<Longrightarrow> tr_base row = Some (ar_tx a)"
    by (auto simp: new_def)
qed

lemma finish_rows:
  assumes c: "db_constraints d2" and row: "row \<in> set (db_transactions d2)" "tr_state row = TransactionActive"
    and fin: "sql_finish_transaction (tr_id row) (tr_service row) epoch owner d2 = Inr (d', 1)"
  shows "set (db_transactions d') = insert (row\<lparr>tr_state := TransactionSucceeded\<rparr>) (set (db_transactions d2) - {row})"
    and "db_applied d' = db_applied d2" "db_actions d' = db_actions d2" "db_backups d' = db_backups d2"
    "db_constraints d'" "\<not> incomplete_exists d2 (tr_id row)"
proof -
  have d': "d' = d2\<lparr>db_transactions := map (\<lambda>r. if tr_id r = tr_id row \<and> tr_service r = tr_service row \<and> tr_state r = TransactionActive
      then r\<lparr>tr_state := TransactionSucceeded\<rparr> else r) (db_transactions d2)\<rparr>"
    "db_constraints d'" "\<not> incomplete_exists d2 (tr_id row)"
    using fin by (auto simp: sql_finish_transaction_def Let_def checked_Inr split: if_split_asm)
  show "db_applied d' = db_applied d2" "db_actions d' = db_actions d2" "db_backups d' = db_backups d2"
    "db_constraints d'" "\<not> incomplete_exists d2 (tr_id row)"
    using d'(2,3) by (simp_all add: d'(1))
  have "(tr_id r = tr_id row \<and> tr_service r = tr_service row \<and> tr_state r = TransactionActive) \<longleftrightarrow> r = row"
    if "r \<in> set (db_transactions d2)" for r
    using transaction_unique [OF c that row(1)] row(2) by auto
  then have "set (db_transactions d') = (\<lambda>r. if r = row then r\<lparr>tr_state := TransactionSucceeded\<rparr> else r) ` set (db_transactions d2)"
    by (simp add: d'(1))
  also have "\<dots> = insert (row\<lparr>tr_state := TransactionSucceeded\<rparr>) (set (db_transactions d2) - {row})"
    using row(1) by auto
  finally show "set (db_transactions d') = \<dots>" .
qed

lemma step_rebuild:
  assumes ok: "journal_ok d" and del: "sql_delete_backups d = Inr (d0, n)" and re: "rebuilt H cs d0 d'"
  shows "journal_ok d'"
proof -
  have "journal_ok e" if "journal_ok d1" "rebuildBackupIndexSQL sid c d1 = Inr (e, 1)" for d1 e sid c
  proof -
    have e: "e = d1\<lparr>db_backups := db_backups d1 @ map (\<lambda>r. \<lparr>br_tx = tr_id r, br_service = tr_service r, br_path = bc_ManifestPath c,
          br_digest = bc_ManifestDigest c, br_created = bc_CreatedUnix c\<rparr>) (filter (rebuild_source sid c) (db_transactions d1))\<rparr>"
      "db_constraints e"
      using that(2) by (auto simp: rebuildBackupIndexSQL_def Let_def checked_Inr)
    have "db_constraints d1" using that(1) by (simp add: journal_ok_def)
    then have "backups_ok e"
      using that(1) by (auto simp: e(1) journal_ok_def backups_ok_def rebuild_source_def) (metis transaction_unique)+
    then show ?thesis
      using that(1) e(2) by (simp add: e(1) journal_ok_def base_ok_def applied_ok_def actions_ok_def unresolved_ok_def)
  qed
  then have "journal_ok d1 \<Longrightarrow> rebuilt H cs d1 d' \<Longrightarrow> journal_ok d'" for d1
    by (induction cs arbitrary: d1) (simp, metis rebuilt.simps(2))
  moreover have "journal_ok d0"
    using ok del by (auto simp: sql_delete_backups_def checked_Inr journal_ok_def base_ok_def applied_ok_def
        actions_ok_def unresolved_ok_def backups_ok_def)
  ultimately show ?thesis using re by blast
qed

text \<open>What a commit does to the tables: the transaction succeeds, its row replaces the applied one of its service, whose transaction was its base.\<close>

definition committed :: "db \<Rightarrow> tx_row \<Rightarrow> applied_row \<Rightarrow> db \<Rightarrow> bool" where
  "committed d row new d' \<longleftrightarrow> row \<in> set (db_transactions d) \<and> tr_state row = TransactionActive \<and>
     set (db_transactions d') = insert (row\<lparr>tr_state := TransactionSucceeded\<rparr>) (set (db_transactions d) - {row}) \<and>
     ar_service new = tr_service row \<and> ar_tx new = tr_id row \<and>
     set (db_applied d') = insert new {p \<in> set (db_applied d). ar_service p \<noteq> tr_service row} \<and>
     (\<forall>p \<in> set (db_applied d). ar_service p = tr_service row \<longrightarrow> tr_base row = Some (ar_tx p)) \<and>
     db_actions d' = db_actions d \<and> \<not> incomplete_exists d (tr_id row) \<and>
     (\<forall>q \<in> set (db_backups d'). q \<in> set (db_backups d) \<or> br_tx q = tr_id row \<and> tr_kind row = TransactionUpgrade)"

lemma committedD:
  assumes "committed d row new d'"
  shows "row \<in> set (db_transactions d)" "tr_state row = TransactionActive"
    "set (db_transactions d') = insert (row\<lparr>tr_state := TransactionSucceeded\<rparr>) (set (db_transactions d) - {row})"
    "ar_service new = tr_service row" "ar_tx new = tr_id row"
    "set (db_applied d') = insert new {p \<in> set (db_applied d). ar_service p \<noteq> tr_service row}"
    "p \<in> set (db_applied d) \<Longrightarrow> ar_service p = tr_service row \<Longrightarrow> tr_base row = Some (ar_tx p)"
    "db_actions d' = db_actions d" "\<not> incomplete_exists d (tr_id row)"
    "q \<in> set (db_backups d') \<Longrightarrow> q \<in> set (db_backups d) \<or> br_tx q = tr_id row \<and> tr_kind row = TransactionUpgrade"
  using assms by (simp_all add: committed_def)

lemma commit_rows:
  assumes ok: "journal_ok d" and row: "row \<in> set (db_transactions d)" "tr_state row = TransactionActive"
      "transaction_of_row row = Some rec"
    and pub: "published d (tr_service row) rec intent d1" and bak: "backup_published d1 (tr_service row) rec b d2"
    and fin: "sql_finish_transaction (tr_id row) (tr_service row) epoch owner d2 = Inr (d', 1)"
  shows "committed d row (applied_row_of (tr_service row) (tr_id row) intent) d'" and "db_constraints d'"
proof -
  note P = published_rows [OF ok row(1,3) refl pub]
  have bak': "db_transactions d2 = db_transactions d1" "db_actions d2 = db_actions d1" "db_applied d2 = db_applied d1"
    "db_constraints d1 \<Longrightarrow> db_constraints d2"
    "\<forall>q \<in> set (db_backups d2). q \<in> set (db_backups d1) \<or> br_tx q = tr_id row \<and> tr_kind row = TransactionUpgrade"
    using bak transaction_of_row_fields [OF row(3)]
    by (auto simp: backup_published_def sql_insert_backup_def checked_Inr split: option.split_asm)
  have "db_constraints d1"
    using pub by (auto simp: published_def Let_def sql_insert_applied_def sql_replace_applied_def checked_Inr
        split: TransactionKind.split_asm)
  then have c2: "db_constraints d2" by (rule bak'(4))
  have row2: "row \<in> set (db_transactions d2)" using row(1) by (simp add: bak' P)
  note F = finish_rows [OF c2 row2 row(2) fin]
  have "\<not> incomplete_exists d (tr_id row)" using F(6) by (simp add: bak' P incomplete_exists_def)
  then show "committed d row (applied_row_of (tr_service row) (tr_id row) intent) d'"
    using row(1,2) bak'(5) by (simp add: committed_def F bak' P applied_row_of_def)
  show "db_constraints d'" by (rule F)
qed

lemma committed_base:
  assumes "committed d row new d'" and "base_ok d"
  shows "base_ok d'"
proof -
  have "tr_state row \<noteq> TransactionSucceeded" using committedD(2) [OF assms(1)] by simp
  then show ?thesis using assms(2) committedD(1) [OF assms(1)] unfolding base_ok_def committedD(3) [OF assms(1)]
    by (metis (mono_tags, lifting) Diff_iff insert_iff tx_row.select_convs tx_row.surjective tx_row.update_convs)
qed

lemma committed_backups:
  assumes m: "committed d row new d'" and c: "db_constraints d" and k: "backups_ok d"
  shows "backups_ok d'"
  unfolding backups_ok_def committedD(3) [OF m]
proof (intro ballI impI)
  let ?fin = "row\<lparr>tr_state := TransactionSucceeded\<rparr>"
  fix q r assume q: "q \<in> set (db_backups d')" and r: "r \<in> insert ?fin (set (db_transactions d) - {row})" and eq: "tr_id r = br_tx q"
  show "tr_kind r = TransactionUpgrade \<and> tr_state r = TransactionSucceeded"
  proof (cases "r = ?fin")
    case True
    then show ?thesis using eq committedD(10) [OF m q] k committedD(1) [OF m] by (auto simp: backups_ok_def)
  next
    case False
    then have r': "r \<in> set (db_transactions d)" "r \<noteq> row" using r by auto
    then have "q \<in> set (db_backups d)" using eq committedD(10) [OF m q] transaction_unique [OF c r'(1) committedD(1) [OF m]] by auto
    then show ?thesis using r'(1) eq k by (auto simp: backups_ok_def)
  qed
qed

lemma committed_actions:
  assumes m: "committed d row new d'" and x: "actions_ok d"
  shows "actions_ok d'"
proof -
  have "\<forall>q \<in> set (db_actions d). jr_state q \<noteq> ActionStateCompleted \<longrightarrow> tr_id row \<noteq> jr_tx q"
    using committedD(9) [OF m] by (auto simp: incomplete_exists_def list_ex_iff)
  then show ?thesis using x unfolding actions_ok_def committedD(3,8) [OF m] by auto
qed

text \<open>A succeeded transaction is still the applied one or the base of another.\<close>

lemma committed_history:
  assumes m: "committed d row new d'" and c: "db_constraints d" and a: "applied_ok d"
    and r: "r \<in> set (db_transactions d)" "tr_state r = TransactionSucceeded"
  shows "(\<exists>p \<in> set (db_applied d'). ar_tx p = tr_id r) \<or> (\<exists>q \<in> set (db_transactions d'). tr_base q = Some (tr_id r) \<and> tr_service q = tr_service r)"
proof -
  consider p where "p \<in> set (db_applied d)" "ar_tx p = tr_id r"
    | q where "q \<in> set (db_transactions d)" "tr_base q = Some (tr_id r)" "tr_service q = tr_service r"
    using a r by (auto simp: applied_ok_def)
  then show ?thesis
  proof cases
    case 1
    then have "tr_service r = ar_service p" using reference_services(2) [OF c r(1)] by simp
    then show ?thesis using 1 committedD(7) [OF m 1(1)] by (cases "ar_service p = tr_service row") (auto simp: committedD(3,6) [OF m])
  next
    case 2
    then show ?thesis by (cases "q = row") (auto simp: committedD(3) [OF m])
  qed
qed

lemma committed_applied:
  assumes m: "committed d row new d'" and c: "db_constraints d" and a: "applied_ok d"
  shows "applied_ok d'"
  unfolding applied_ok_def
proof (intro conjI ballI impI)
  let ?fin = "row\<lparr>tr_state := TransactionSucceeded\<rparr>"
  note txs = committedD(3) [OF m] and apps = committedD(6) [OF m] and new = committedD(4,5) [OF m]
  show "tr_state r = TransactionSucceeded" if "p \<in> set (db_applied d')" "r \<in> set (db_transactions d')" "tr_id r = ar_tx p" for p r
  proof (cases "r = ?fin")
    case False
    then have r: "r \<in> set (db_transactions d)" "r \<noteq> row" using that by (auto simp: txs)
    then have "p \<noteq> new" using that(3) new transaction_unique [OF c r(1) committedD(1) [OF m]] by auto
    then show ?thesis using that a r(1) by (auto simp: apps applied_ok_def)
  qed simp
  fix r assume r: "r \<in> set (db_transactions d')"
  show "\<exists>p \<in> set (db_applied d'). ar_service p = tr_service r" if s: "tr_state r = TransactionSucceeded"
  proof (cases "r = ?fin")
    case False
    then obtain p where "p \<in> set (db_applied d)" "ar_service p = tr_service r" using r s a by (auto simp: txs applied_ok_def)
    then show ?thesis using new by (cases "ar_service p = tr_service row") (auto simp: apps)
  qed (use new in \<open>auto simp: apps\<close>)
  show "(\<exists>p \<in> set (db_applied d'). ar_tx p = tr_id r) \<or> (\<exists>q \<in> set (db_transactions d'). tr_base q = Some (tr_id r) \<and> tr_service q = tr_service r)"
    if "tr_state r = TransactionSucceeded"
    using r that new committed_history [OF m c a] by (cases "r = ?fin") (auto simp: txs apps)
  show "unresolved_ok d' r" if u: "unresolved (tr_state r)"
  proof -
    have "r \<noteq> ?fin" using u by (auto simp: unresolved_def)
    then have r': "r \<in> set (db_transactions d)" "r \<noteq> row" using r by (simp_all add: txs)
    then have "tr_service r \<noteq> tr_service row"
      using unresolved_unique [OF c r'(1) committedD(1) [OF m]] u committedD(2) [OF m] by (auto simp: unresolved_def)
    moreover have "unresolved_ok d r" using a r' u by (simp add: applied_ok_def)
    ultimately show ?thesis using new by (fastforce simp: unresolved_ok_def apps)
  qed
qed

lemma step_commit:
  assumes ok: "journal_ok d" and row: "row \<in> set (db_transactions d)" "tr_state row = TransactionActive"
      "transaction_of_row row = Some rec"
    and pub: "published d (tr_service row) rec intent d1" and bak: "backup_published d1 (tr_service row) rec b d2"
    and fin: "sql_finish_transaction (tr_id row) (tr_service row) epoch owner d2 = Inr (d', 1)"
  shows "journal_ok d'"
proof -
  note m = commit_rows [OF assms]
  show ?thesis using ok m(2) committed_base [OF m(1)] committed_backups [OF m(1)] committed_actions [OF m(1)] committed_applied [OF m(1)]
    by (simp add: journal_ok_def)
qed

lemma store_step_journal_ok: "store_step H d d' \<Longrightarrow> journal_ok d \<Longrightarrow> journal_ok d'"
proof (induction rule: store_step.induct)
  case (Mark i n sid epoch owner d d')
  show ?case by (rule step_update [OF Mark(2,1)]) (auto simp: mark_target_def)
next
  case (Complete i n p sid epoch owner d d')
  show ?case by (rule step_update [OF Complete(2,1)]) (auto simp: complete_target_def)
qed (auto intro: step_lease step_begin step_set_state step_record step_commit step_rebuild)

lemma journal_ok_empty: "journal_ok empty_db"
  by (simp add: journal_ok_def empty_db_def db_constraints_def lease_constraints_def transaction_constraints_def
      action_constraints_def applied_constraints_def backup_constraints_def base_ok_def applied_ok_def backups_ok_def actions_ok_def)

lemma steps_journal_ok: "(store_step H)\<^sup>*\<^sup>* d d' \<Longrightarrow> journal_ok d \<Longrightarrow> journal_ok d'"
  by (induction rule: rtranclp_induct) (auto intro: store_step_journal_ok)

section \<open>How rows evolve\<close>

text \<open>
  Transactions never leave a terminal state and never change their identity; actions only advance, and
  a completed one is never changed; a lease's epoch never decreases, and within one epoch the owner can
  only be cleared. The three relations are preorders on tables.
\<close>

definition state_advances :: "TransactionState \<Rightarrow> TransactionState \<Rightarrow> bool" where
  "state_advances st st' \<longleftrightarrow> st = st' \<or> unresolved st \<and> st' \<noteq> TransactionActive"

definition same_transaction :: "tx_row \<Rightarrow> tx_row \<Rightarrow> bool" where
  "same_transaction r r' \<longleftrightarrow> r' = r\<lparr>tr_state := tr_state r'\<rparr> \<and> state_advances (tr_state r) (tr_state r')"

definition same_action :: "action_row \<Rightarrow> action_row \<Rightarrow> bool" where
  "same_action a a' \<longleftrightarrow> a' = a \<or>
     jr_state a = ActionStateIntent \<and> a' = a\<lparr>jr_state := ActionStateEffectOutcomeUnknown\<rparr> \<or>
     jr_state a \<noteq> ActionStateCompleted \<and> (\<exists>p. a' = a\<lparr>jr_state := ActionStateCompleted, jr_post := Some p\<rparr>)"

definition same_lease :: "lease_row \<Rightarrow> lease_row \<Rightarrow> bool" where
  "same_lease l l' \<longleftrightarrow> lr_service l' = lr_service l \<and>
     (lr_epoch l < lr_epoch l' \<or> lr_epoch l = lr_epoch l' \<and> (lr_owner l' = lr_owner l \<or> lr_owner l' = None))"

definition evolves :: "db \<Rightarrow> db \<Rightarrow> bool" where
  "evolves d d' \<longleftrightarrow>
     (\<forall>r \<in> set (db_transactions d). \<exists>r' \<in> set (db_transactions d'). same_transaction r r') \<and>
     (\<forall>a \<in> set (db_actions d). \<exists>a' \<in> set (db_actions d'). same_action a a') \<and>
     (\<forall>l \<in> set (db_leases d). \<exists>l' \<in> set (db_leases d'). same_lease l l')"

lemma same_transaction_refl [simp]: "same_transaction r r"
  by (simp add: same_transaction_def state_advances_def)

lemma same_transaction_trans: "same_transaction r q \<Longrightarrow> same_transaction q p \<Longrightarrow> same_transaction r p"
  unfolding same_transaction_def state_advances_def
  by (metis tx_row.surjective tx_row.update_convs(4) unresolved_def)

lemma same_action_refl [simp]: "same_action a a"
  by (simp add: same_action_def)

lemma same_action_trans: "same_action a b \<Longrightarrow> same_action b c \<Longrightarrow> same_action a c"
  by (auto simp: same_action_def)

lemma same_lease_refl [simp]: "same_lease l l"
  by (simp add: same_lease_def)

lemma same_lease_trans: "same_lease l m \<Longrightarrow> same_lease m n \<Longrightarrow> same_lease l n"
  by (auto simp: same_lease_def)

lemma evolves_refl [simp]: "evolves d d"
  using same_transaction_refl same_action_refl same_lease_refl unfolding evolves_def by blast

lemma evolves_trans: "evolves d e \<Longrightarrow> evolves e f \<Longrightarrow> evolves d f"
  unfolding evolves_def by (meson same_transaction_trans same_action_trans same_lease_trans)

lemma evolves_rows:
  assumes "\<And>r. r \<in> set (db_transactions d) \<Longrightarrow> f r \<in> set (db_transactions d') \<and> same_transaction r (f r)"
    and "\<And>a. a \<in> set (db_actions d) \<Longrightarrow> g a \<in> set (db_actions d') \<and> same_action a (g a)"
    and "\<And>l. l \<in> set (db_leases d) \<Longrightarrow> h l \<in> set (db_leases d') \<and> same_lease l (h l)"
  shows "evolves d d'"
  using assms unfolding evolves_def by blast

lemma evolves_backups: "evolves d (d\<lparr>db_backups := bs\<rparr>)" "evolves d (d\<lparr>db_applied := ps\<rparr>)"
  by (auto intro!: evolves_rows [where f = id and g = id and h = id])

lemma evolves_rebuilt: "rebuilt H cs d d' \<Longrightarrow> evolves d d'"
proof (induction cs arbitrary: d)
  case (Cons c cs)
  then obtain e where "rebuildBackupIndexSQL (fst (serviceIdentity H (bc_Project c) (bc_Service c))) c d = Inr (e, 1)"
      and "rebuilt H cs e d'" by auto
  then have "evolves d e" "evolves e d'"
    using evolves_backups(1) by (auto simp: rebuildBackupIndexSQL_def Let_def checked_Inr intro: Cons.IH)
  then show ?case by (rule evolves_trans)
qed simp

lemma commit_evolves:
  assumes "published d sid rec intent d1" and "backup_published d1 sid rec b d2" and "sql_finish_transaction i sid epoch owner d2 = Inr (d', 1)"
  shows "evolves d d'"
proof -
  have "evolves d d1"
    using assms(1) evolves_backups(2)
    by (auto simp: published_def Let_def sql_insert_applied_def sql_replace_applied_def checked_Inr split: TransactionKind.split_asm)
  moreover have "evolves d1 d2"
    using assms(2) evolves_backups(1) by (auto simp: backup_published_def sql_insert_backup_def checked_Inr split: option.split_asm)
  moreover have "evolves d2 d'"
    using assms(3)
    by (intro evolves_rows [where g = id and h = id and
          f = "\<lambda>r. if tr_id r = i \<and> tr_service r = sid \<and> tr_state r = TransactionActive then r\<lparr>tr_state := TransactionSucceeded\<rparr> else r"])
      (auto simp: sql_finish_transaction_def Let_def checked_Inr same_transaction_def state_advances_def unresolved_def split: if_split_asm)
  ultimately show ?thesis by (meson evolves_trans)
qed

lemma step_evolves: "store_step H d d' \<Longrightarrow> journal_ok d \<Longrightarrow> evolves d d'"
proof (induction rule: store_step.induct)
  case (Acquire sid owner d d')
  then show ?case
    by (intro evolves_rows [where f = id and g = id and
          h = "\<lambda>l. if lease_exists d sid \<and> lr_service l = sid \<and> lr_epoch l < maxInt64 then l\<lparr>lr_epoch := lr_epoch l + 1, lr_owner := Some owner\<rparr> else l"])
      (auto simp: sql_advance_lease_def Let_def checked_Inr same_lease_def split: if_split_asm)
next
  case (Release sid epoch owner d d')
  then show ?case
    by (intro evolves_rows [where f = id and g = id and h = "\<lambda>l. if lease_is sid epoch owner l then l\<lparr>lr_owner := None\<rparr> else l"])
      (auto simp: sql_release_lease_def checked_Inr same_lease_def)
next
  case (Begin intent d sid i epoch owner d')
  then show ?case
    by (intro evolves_rows [where f = id and g = id and h = id])
      (auto simp: sql_insert_transaction_def checked_Inr split: if_split_asm)
next
  case (SetState st i sid epoch owner d d')
  then show ?case
    by (intro evolves_rows [where f = "\<lambda>r. if state_target i sid st r then r\<lparr>tr_state := st\<rparr> else r" and g = id and h = id])
      (auto simp: sql_set_state_def checked_Inr same_transaction_def state_advances_def state_target_def
        validTransactionTargetState_def split: if_split_asm)
next
  case (Record intent i sid epoch owner d d')
  then show ?case
    by (intro evolves_rows [where f = id and g = id and h = id])
      (auto simp: sql_insert_action_def checked_Inr split: if_split_asm)
next
  case (Mark i n sid epoch owner d d')
  then show ?case
    by (intro evolves_rows [where f = id and h = id and
          g = "\<lambda>a. if mark_target i n a then a\<lparr>jr_state := ActionStateEffectOutcomeUnknown\<rparr> else a"])
      (auto simp: sql_update_action_def checked_Inr mark_target_def same_action_def split: if_split_asm)
next
  case (Complete i n p sid epoch owner d d')
  then show ?case
    by (intro evolves_rows [where f = id and h = id and
          g = "\<lambda>a. if complete_target i n p a then a\<lparr>jr_state := ActionStateCompleted, jr_post := Some p\<rparr> else a"])
      (auto simp: sql_update_action_def checked_Inr complete_target_def same_action_def split: if_split_asm)
next
  case (Commit intent row d i sid rec d1 d2 epoch owner d')
  then show ?case using commit_evolves by blast
next
  case (Rebuild cs d d0 n d')
  then have "evolves d d0" using evolves_backups(1) by (auto simp: sql_delete_backups_def checked_Inr)
  with Rebuild(3) show ?case by (meson evolves_rebuilt evolves_trans)
qed

lemma steps_evolve: "(store_step H)\<^sup>*\<^sup>* d d' \<Longrightarrow> journal_ok d \<Longrightarrow> evolves d d'"
proof (induction rule: rtranclp_induct)
  case (step e f)
  then show ?case by (meson evolves_trans step_evolves steps_journal_ok)
qed simp

end
