(* ===== verification/StoreProperties.thy ===== *)
theory StoreProperties
  imports StoreInvariant
begin

text \<open>
  What the store promises: every program moves the tables along committed steps only, whatever the
  environment does; every state that any interleaving of writers can reach passes the validation run
  when the state is opened; rows evolve in one direction; a writer whose lease has been taken over
  changes nothing; and what a successful call of each operation leaves in the tables.
\<close>

section \<open>Successful calls\<close>

lemma fenced_success:
  assumes "run_state (withFencedWrite lock operation) s = (Inr x, t)" and "\<And>d. reads (operation d (sl_lease lock))"
  shows "\<exists>u v. run_state (operation (sw_db s) (sl_lease lock)) u = (Inr (sw_db t, x), v) \<and> sw_db u = sw_db s \<and>
    holds (sw_db s) (sl_lease lock) \<and> holds (sw_db t) (sl_lease lock)"
  using withFencedWrite_outcome [OF assms] by auto

lemma lock_action_outcome:
  assumes "run_state (lock_action i n) s = (r, t)"
  shows "sw_db t = sw_db s \<and> (\<forall>a. r = Inr a \<longrightarrow> (\<exists>row \<in> set (db_actions (sw_db s)). action_is i n row \<and> action_of_row row = Some a))"
proof
  show "sw_db t = sw_db s" using assms by (rule readsD [OF reads_reader(3)])
  show "\<forall>a. r = Inr a \<longrightarrow> (\<exists>row \<in> set (db_actions (sw_db s)). action_is i n row \<and> action_of_row row = Some a)"
    using assms
    by (auto simp: lock_action_def simp del: run_state_bind elim!: run_bindE
        dest!: outcomes query_row_Inr split: sum.split_asm if_split_asm)
qed

lemma store_Transaction_outcome:
  assumes "run_state (store_Transaction i) s = (r, t)"
  shows "sw_db t = sw_db s \<and> (\<forall>x. r = Inr x \<longrightarrow> (\<exists>row \<in> set (db_transactions (sw_db s)). tr_id row = i \<and> transaction_of_row row = Some x))"
proof
  show "sw_db t = sw_db s" using assms by (rule readsD [OF reads_reader(2)])
  show "\<forall>x. r = Inr x \<longrightarrow> (\<exists>row \<in> set (db_transactions (sw_db s)). tr_id row = i \<and> transaction_of_row row = Some x)"
    using assms
    by (auto simp: store_Transaction_def transaction_in_def simp del: run_state_bind elim!: run_bindE
        dest!: outcomes query_row_Inr split: sum.split_asm if_split_asm)
qed

lemma action_unique:
  "db_constraints d \<Longrightarrow> a \<in> set (db_actions d) \<Longrightarrow> b \<in> set (db_actions d) \<Longrightarrow> action_is i n a \<Longrightarrow> action_is i n b \<Longrightarrow> a = b"
  by (rule distinct_map_eq [OF constraint_parts(3)]) (auto simp: action_is_def)

lemma program_keeps_journal_ok:
  assumes "\<And>H. moves sw_db (store_step H)\<^sup>*\<^sup>* m" and "journal_ok (sw_db s)" and "run_state m s = (r, t)"
  shows "journal_ok (sw_db t)"
  using steps_journal_ok [OF movesD [OF assms(1,3)] assms(2)] .

lemma action_of_row_fields:
  "action_of_row row = Some a \<Longrightarrow> ac_TransactionID a = jr_tx row \<and> ac_Sequence a = jr_sequence row \<and> ac_Kind a = jr_kind row \<and>
     ac_State a = jr_state row \<and> ac_IntentDigest a = jr_intent row \<and> ac_PostconditionDigest a = jr_post row"
  by (auto simp: action_of_row_def zero_Action_def Let_def split: if_split_asm option.split_asm)

text \<open>The action that a call returns is in the tables.\<close>

definition action_recorded :: "db \<Rightarrow> Action \<Rightarrow> bool" where
  "action_recorded d a \<longleftrightarrow> (\<exists>row \<in> set (db_actions d). action_is (ac_TransactionID a) (ac_Sequence a) row \<and> action_of_row row = Some a)"

lemma RecordActionIntent_success:
  fixes s t :: "'z store_world_scheme"
  assumes ok: "journal_ok (sw_db s)" and run: "run_state (RecordActionIntent lock i intent) s = (Inr a, t)"
  shows "action_recorded (sw_db t) a" "ac_TransactionID a = i" "ac_Sequence a = an_Sequence intent" "ac_Kind a = an_Kind intent"
    "ac_IntentDigest a = an_IntentDigest intent" "unresolved_transaction_exists (sw_db t) i (wl_serviceID (sl_lease lock))"
    "(\<forall>b \<in> set (db_actions (sw_db s)). \<not> action_is i (an_Sequence intent) b) \<longrightarrow> ac_State a = ActionStateIntent"
    "sw_db t = sw_db s \<or> ac_State a = ActionStateIntent"
proof -
  have valid: "validActionIntent intent" using run by (auto simp: RecordActionIntent_def split: if_split_asm)
  obtain u where w: "run_state (withFencedWrite lock (recordActionIntent i intent)) s = (Inr (), u)"
    and l: "run_state (lock_action i (an_Sequence intent)) u = (Inr a, t)"
    using run by (auto simp: RecordActionIntent_def simp del: run_state_bind elim!: run_bindE split: if_split_asm sum.split_asm)
  obtain u' v' :: "'z store_world_scheme" where op: "run_state (recordActionIntent i intent (sw_db s) (sl_lease lock)) u' = (Inr (sw_db u, ()), v')"
    using fenced_success [OF w reads_record] by blast
  from lock_action_outcome [OF l] obtain row where tu: "sw_db t = sw_db u"
    and row: "row \<in> set (db_actions (sw_db t))" "action_is i (an_Sequence intent) row" "action_of_row row = Some a"
    by auto
  have ct: "db_constraints (sw_db t)"
    using program_keeps_journal_ok [OF writes_record ok run] by (simp add: journal_ok_def)
  note f = action_of_row_fields [OF row(3)]
  show "action_recorded (sw_db t) a" using row f by (auto simp: action_recorded_def action_is_def)
  show "ac_TransactionID a = i" "ac_Sequence a = an_Sequence intent" using f row(2) by (simp_all add: action_is_def)
  from record_body_outcome [OF op] consider
    (old) "sw_db u = sw_db s" "unresolved_transaction_exists (sw_db s) i (wl_serviceID (sl_lease lock))"
      "\<exists>b \<in> set (db_actions (sw_db s)). action_is i (an_Sequence intent) b \<and> jr_kind b = an_Kind intent \<and> jr_intent b = an_IntentDigest intent"
  | (new) "sql_insert_action (intent_row i intent) (wl_serviceID (sl_lease lock)) (wl_epoch (sl_lease lock)) (wl_owner (sl_lease lock)) (sw_db s) = Inr (sw_db u, 1)"
    by auto
  then have "ac_Kind a = an_Kind intent \<and> ac_IntentDigest a = an_IntentDigest intent \<and>
      unresolved_transaction_exists (sw_db t) i (wl_serviceID (sl_lease lock)) \<and>
      ((\<forall>b \<in> set (db_actions (sw_db s)). \<not> action_is i (an_Sequence intent) b) \<longrightarrow> ac_State a = ActionStateIntent) \<and>
      (sw_db t = sw_db s \<or> ac_State a = ActionStateIntent)"
  proof cases
    case old
    then obtain b where "b \<in> set (db_actions (sw_db t))" "action_is i (an_Sequence intent) b" "jr_kind b = an_Kind intent" "jr_intent b = an_IntentDigest intent"
      using tu by auto
    moreover from this have "b = row" using action_unique [OF ct _ row(1) _ row(2)] by simp
    ultimately show ?thesis
      using f old tu by auto
  next
    case new
    then have d: "sw_db t = (sw_db s)\<lparr>db_actions := db_actions (sw_db s) @ [intent_row i intent]\<rparr>"
      and ex: "unresolved_transaction_exists (sw_db s) i (wl_serviceID (sl_lease lock))"
      using tu by (auto simp: sql_insert_action_def checked_Inr intent_row_def split: if_split_asm)
    have "intent_row i intent \<in> set (db_actions (sw_db t))" "action_is i (an_Sequence intent) (intent_row i intent)"
      by (simp_all add: d action_is_def intent_row_def)
    then have "row = intent_row i intent" using action_unique [OF ct row(1) _ row(2)] by simp
    then show ?thesis
      using f ex by (simp add: d intent_row_def unresolved_transaction_exists_def)
  qed
  then show "ac_Kind a = an_Kind intent" "ac_IntentDigest a = an_IntentDigest intent"
    "unresolved_transaction_exists (sw_db t) i (wl_serviceID (sl_lease lock))"
    "(\<forall>b \<in> set (db_actions (sw_db s)). \<not> action_is i (an_Sequence intent) b) \<longrightarrow> ac_State a = ActionStateIntent"
    "sw_db t = sw_db s \<or> ac_State a = ActionStateIntent"
    by blast+
qed

text \<open>An update of one action leaves the updated row, and the call returns it.\<close>

lemma update_success:
  fixes s t u :: "'z store_world_scheme"
  assumes ok: "journal_ok (sw_db t)" and run: "run_state (updateAction lock i target change) s = (Inr (), u)"
    and l: "run_state (lock_action i n) u = (Inr a, t)"
    and target: "\<And>b. target b \<Longrightarrow> action_is i n b" "\<And>b. target b \<Longrightarrow> action_is i n (change b)"
  shows "action_recorded (sw_db t) a" "ac_TransactionID a = i" "ac_Sequence a = n"
    "\<exists>b \<in> set (db_actions (sw_db s)). target b \<and> action_of_row (change b) = Some a"
    "sw_db t = (sw_db s)\<lparr>db_actions := map (\<lambda>b. if target b then change b else b) (db_actions (sw_db s))\<rparr>"
proof -
  from lock_action_outcome [OF l] obtain row where tu: "sw_db t = sw_db u"
    and row: "row \<in> set (db_actions (sw_db t))" "action_is i n row" "action_of_row row = Some a" by auto
  obtain u' v' :: "'z store_world_scheme" where "run_state (update_body target change i (sw_db s) (sl_lease lock)) u' = (Inr (sw_db u, ()), v')"
    using fenced_success [OF run [unfolded updateAction_def] reads_bodies(4)] by blast
  from update_body_outcome [OF this] tu
  have d: "sw_db t = (sw_db s)\<lparr>db_actions := map (\<lambda>b. if target b then change b else b) (db_actions (sw_db s))\<rparr>"
    and n: "length (filter target (db_actions (sw_db s))) = Suc 0"
    by (auto simp: sql_update_action_def checked_Inr split: if_split_asm)
  from filter_length_one [OF n] obtain b where b: "b \<in> set (db_actions (sw_db s))" "target b" by (auto simp: list_ex_iff)
  then have "change b \<in> set (db_actions (sw_db t))" by (auto simp: d)
  moreover have "db_constraints (sw_db t)" using ok by (simp add: journal_ok_def)
  ultimately have "change b = row" using action_unique [OF _ _ row(1) _ row(2)] target(2) [OF b(2)] by blast
  with b row(3) show "\<exists>b \<in> set (db_actions (sw_db s)). target b \<and> action_of_row (change b) = Some a" by auto
  show "sw_db t = (sw_db s)\<lparr>db_actions := map (\<lambda>b. if target b then change b else b) (db_actions (sw_db s))\<rparr>" by (rule d)
  note f = action_of_row_fields [OF row(3)]
  show "action_recorded (sw_db t) a" "ac_TransactionID a = i" "ac_Sequence a = n"
    using row f by (auto simp: action_recorded_def action_is_def)
qed

lemma MarkActionEffectOutcomeUnknown_success:
  assumes ok: "journal_ok (sw_db s)" and run: "run_state (MarkActionEffectOutcomeUnknown lock i n) s = (Inr a, t)"
  shows "action_recorded (sw_db t) a" "ac_TransactionID a = i" "ac_Sequence a = n"
    "ac_State a = ActionStateEffectOutcomeUnknown" "ac_PostconditionDigest a = None"
    "\<exists>b \<in> set (db_actions (sw_db s)). action_is i n b \<and> jr_kind b = ac_Kind a \<and> jr_intent b = ac_IntentDigest a"
proof -
  obtain u where w: "run_state (updateAction lock i (mark_target i n) (\<lambda>a. a\<lparr>jr_state := ActionStateEffectOutcomeUnknown\<rparr>)) s = (Inr (), u)"
    and l: "run_state (lock_action i n) u = (Inr a, t)"
    using run by (auto simp: MarkActionEffectOutcomeUnknown_def simp del: run_state_bind elim!: run_bindE
        split: if_split_asm sum.split_asm)
  note S = update_success [OF program_keeps_journal_ok [OF writes_mark ok run] w l]
  have target: "mark_target i n b \<Longrightarrow> action_is i n b"
    "mark_target i n b \<Longrightarrow> action_is i n (b\<lparr>jr_state := ActionStateEffectOutcomeUnknown\<rparr>)" for b
    by (auto simp: mark_target_def action_is_def)
  show "action_recorded (sw_db t) a" "ac_TransactionID a = i" "ac_Sequence a = n" using S(1-3) target by blast+
  from S(4) target obtain b where "b \<in> set (db_actions (sw_db s))" "mark_target i n b"
      "action_of_row (b\<lparr>jr_state := ActionStateEffectOutcomeUnknown\<rparr>) = Some a" by blast
  with action_of_row_fields [OF this(3)]
  show "ac_State a = ActionStateEffectOutcomeUnknown" "ac_PostconditionDigest a = None"
    "\<exists>b \<in> set (db_actions (sw_db s)). action_is i n b \<and> jr_kind b = ac_Kind a \<and> jr_intent b = ac_IntentDigest a"
    by (auto simp: mark_target_def)
qed

lemma CompleteAction_success:
  assumes ok: "journal_ok (sw_db s)" and run: "run_state (CompleteAction lock i n p) s = (Inr a, t)"
  shows "action_recorded (sw_db t) a" "ac_TransactionID a = i" "ac_Sequence a = n"
    "ac_State a = ActionStateCompleted" "ac_PostconditionDigest a = Some p"
    "\<exists>b \<in> set (db_actions (sw_db s)). action_is i n b \<and> jr_kind b = ac_Kind a \<and> jr_intent b = ac_IntentDigest a \<and>
       (jr_state b = ActionStateEffectOutcomeUnknown \<or> jr_state b = ActionStateCompleted)"
proof -
  obtain u where w: "run_state (updateAction lock i (complete_target i n p)
        (\<lambda>a. a\<lparr>jr_state := ActionStateCompleted, jr_post := Some p\<rparr>)) s = (Inr (), u)"
    and l: "run_state (lock_action i n) u = (Inr a, t)"
    using run by (auto simp: CompleteAction_def simp del: run_state_bind elim!: run_bindE split: if_split_asm sum.split_asm)
  note S = update_success [OF program_keeps_journal_ok [OF writes_complete ok run] w l]
  have target: "complete_target i n p b \<Longrightarrow> action_is i n b"
    "complete_target i n p b \<Longrightarrow> action_is i n (b\<lparr>jr_state := ActionStateCompleted, jr_post := Some p\<rparr>)" for b
    by (auto simp: complete_target_def action_is_def)
  show "action_recorded (sw_db t) a" "ac_TransactionID a = i" "ac_Sequence a = n" using S(1-3) target by blast+
  from S(4) target obtain b where "b \<in> set (db_actions (sw_db s))" "complete_target i n p b"
      "action_of_row (b\<lparr>jr_state := ActionStateCompleted, jr_post := Some p\<rparr>) = Some a" by blast
  with action_of_row_fields [OF this(3)]
  show "ac_State a = ActionStateCompleted" "ac_PostconditionDigest a = Some p"
    "\<exists>b \<in> set (db_actions (sw_db s)). action_is i n b \<and> jr_kind b = ac_Kind a \<and> jr_intent b = ac_IntentDigest a \<and>
       (jr_state b = ActionStateEffectOutcomeUnknown \<or> jr_state b = ActionStateCompleted)"
    by (auto simp: complete_target_def)
qed

lemma BeginTransaction_success:
  fixes s t :: "'z store_world_scheme"
  assumes ok: "journal_ok (sw_db s)" and run: "run_state (BeginTransaction lock intent) s = (Inr x, t)"
  shows "transaction_row (tx_ID x) (wl_serviceID (sl_lease lock)) intent \<in> set (db_transactions (sw_db t))"
    "transaction_of_row (transaction_row (tx_ID x) (wl_serviceID (sl_lease lock)) intent) = Some x"
    "unresolved_of (sw_db s) (wl_serviceID (sl_lease lock)) = []"
    "db_transactions (sw_db t) = db_transactions (sw_db s) @ [transaction_row (tx_ID x) (wl_serviceID (sl_lease lock)) intent]"
    "db_actions (sw_db t) = db_actions (sw_db s)" "db_applied (sw_db t) = db_applied (sw_db s)"
    "baseline_ok (sw_db s) (wl_serviceID (sl_lease lock)) intent"
proof -
  obtain i u0 u where w: "run_state (withFencedWrite lock (begin_body i intent)) u0 = (Inr (), u)" and u0: "sw_db u0 = sw_db s"
    and l: "run_state (store_Transaction i) u = (Inr x, t)"
    using run by (auto simp: BeginTransaction_def simp del: run_state_bind elim!: run_bindE
        dest!: primitive_outcomes split: if_split_asm sum.split_asm option.split_asm)
  from store_Transaction_outcome [OF l] obtain row where tu: "sw_db t = sw_db u"
    and row: "row \<in> set (db_transactions (sw_db t))" "tr_id row = i" "transaction_of_row row = Some x" by auto
  obtain u' v' :: "'z store_world_scheme" where "run_state (begin_body i intent (sw_db s) (sl_lease lock)) u' = (Inr (sw_db u, ()), v')"
    using fenced_success [OF w reads_bodies(2)] by (auto simp: u0)
  note B = begin_body_outcome [OF this]
  define new where "new = transaction_row i (wl_serviceID (sl_lease lock)) intent"
  have d: "sw_db t = (sw_db s)\<lparr>db_transactions := db_transactions (sw_db s) @ [new]\<rparr>"
    and un: "unresolved_of (sw_db s) (wl_serviceID (sl_lease lock)) = []"
    using B tu by (auto simp: sql_insert_transaction_def checked_Inr new_def transaction_row_def split: if_split_asm)
  have ct: "db_constraints (sw_db t)" using program_keeps_journal_ok [OF writes_begin ok run] by (simp add: journal_ok_def)
  have "new \<in> set (db_transactions (sw_db t))" "tr_id new = i" by (simp_all add: d new_def transaction_row_def)
  then have "row = new" using transaction_unique [OF ct row(1)] row(2) by simp
  moreover have "tx_ID x = i" using transaction_of_row_fields [OF row(3)] row(2) by simp
  ultimately show "transaction_row (tx_ID x) (wl_serviceID (sl_lease lock)) intent \<in> set (db_transactions (sw_db t))"
    "transaction_of_row (transaction_row (tx_ID x) (wl_serviceID (sl_lease lock)) intent) = Some x"
    "unresolved_of (sw_db s) (wl_serviceID (sl_lease lock)) = []"
    "db_transactions (sw_db t) = db_transactions (sw_db s) @ [transaction_row (tx_ID x) (wl_serviceID (sl_lease lock)) intent]"
    "db_actions (sw_db t) = db_actions (sw_db s)" "db_applied (sw_db t) = db_applied (sw_db s)"
    "baseline_ok (sw_db s) (wl_serviceID (sl_lease lock)) intent"
    using row un B by (simp_all add: new_def d)
qed

lemma replay_outcome:
  "run_state (replayAppliedService d rec current intent) s = (Inr y, t) \<Longrightarrow> current = Some (appliedServiceRecord rec intent) \<and> y = rec"
  by (auto simp: replayAppliedService_def appliedServiceMatches_def simp del: run_state_bind elim!: run_bindE
      split: sum.split_asm option.split_asm if_split_asm)

lemma commit_body_detail:
  assumes "run_state (commitAppliedService i intent d l) s = (Inr (d', x), t)"
  shows "\<exists>row rec. row \<in> set (db_transactions d) \<and> tr_id row = i \<and> tr_service row = wl_serviceID l \<and> transaction_of_row row = Some rec \<and>
    x = rec\<lparr>tx_State := TransactionSucceeded\<rparr> \<and>
    ((tr_state row = TransactionSucceeded \<and> d' = d \<and>
       (\<exists>a j. applied_pair d (wl_serviceID l) a j \<and> applied_of_rows (a, j) = Some (appliedServiceRecord rec intent))) \<or>
     (tr_state row = TransactionActive \<and> (\<exists>d1 d2. published d (wl_serviceID l) rec intent d1 \<and>
        backup_published d1 (wl_serviceID l) rec (ai_Backup intent) d2 \<and>
        sql_finish_transaction i (wl_serviceID l) (wl_epoch l) (wl_owner l) d2 = Inr (d', 1))))"
proof -
  obtain rec u where r: "run_state (transactionForService d i (wl_serviceID l)) s = (Inr rec, u)"
    using assms by (auto simp: commitAppliedService_def simp del: run_state_bind elim!: run_bindE split: sum.split_asm)
  then obtain row where row: "row \<in> set (db_transactions d)" "tr_id row = i" "tr_service row = wl_serviceID l" "transaction_of_row row = Some rec"
    by (auto dest!: transactionForService_outcome)
  have st: "tr_state row = tx_State rec" using transaction_of_row_fields [OF row(4)] by simp
  have "(tx_State rec = TransactionSucceeded \<and> d' = d \<and> x = rec \<and>
       (\<exists>a j. applied_pair d (wl_serviceID l) a j \<and> applied_of_rows (a, j) = Some (appliedServiceRecord rec intent))) \<or>
     (tx_State rec = TransactionActive \<and> x = rec\<lparr>tx_State := TransactionSucceeded\<rparr> \<and> (\<exists>d1 d2. published d (wl_serviceID l) rec intent d1 \<and>
        backup_published d1 (wl_serviceID l) rec (ai_Backup intent) d2 \<and>
        sql_finish_transaction i (wl_serviceID l) (wl_epoch l) (wl_owner l) d2 = Inr (d', 1)))"
    using assms r
    by (auto simp: commitAppliedService_def simp del: run_state_bind elim!: run_bindE
        dest!: appliedService_outcome result_outcomes(2) publish_backup_outcome finish_outcome replay_outcome
        split: sum.split_asm option.split_asm if_split_asm prod.split_asm)
      (metis publish_outcome)+
  moreover have "tx_State rec = TransactionSucceeded \<Longrightarrow> rec = rec\<lparr>tx_State := TransactionSucceeded\<rparr>" by simp
  ultimately show ?thesis using row st by (intro exI [of _ row] exI [of _ rec]) auto
qed

section \<open>Properties\<close>

text \<open>
  (C5) Every writing program of the store refines the transition system: whatever the context, the file
  system, the SQL engine and the random source do, the tables after the call are reached from the
  tables before it by committed steps only; nothing is ever half written.
\<close>

theorem store_programs_refine:
  "moves sw_db (store_step H)\<^sup>*\<^sup>* (openServiceLock H databaseName project service) \<and>
   moves sw_db (store_step H)\<^sup>*\<^sup>* (BeginTransaction lock intent) \<and>
   moves sw_db (store_step H)\<^sup>*\<^sup>* (SetTransactionState lock i st) \<and>
   moves sw_db (store_step H)\<^sup>*\<^sup>* (RecordActionIntent lock i action) \<and>
   moves sw_db (store_step H)\<^sup>*\<^sup>* (MarkActionEffectOutcomeUnknown lock i n) \<and>
   moves sw_db (store_step H)\<^sup>*\<^sup>* (CompleteAction lock i n p) \<and>
   moves sw_db (store_step H)\<^sup>*\<^sup>* (CommitAppliedService lock i applied) \<and>
   moves sw_db (store_step H)\<^sup>*\<^sup>* (ReplaceBackupIndex H candidates) \<and>
   moves sw_db (store_step H)\<^sup>*\<^sup>* (lock_Close lock)"
  by (intro conjI writes_rules)

definition lease_example :: db where
  "lease_example = \<lparr>db_leases = [\<lparr>lr_service = 1, lr_epoch = 1, lr_owner = Some 2\<rparr>], db_transactions = [], db_actions = [],
     db_applied = [], db_backups = []\<rparr>"

lemma lease_example_step: "store_step H empty_db lease_example"
  by (rule Acquire [of 1 2])
    (simp add: sql_advance_lease_def lease_exists_def empty_db_def lease_example_def checked_def db_constraints_def
      lease_constraints_def transaction_constraints_def action_constraints_def applied_constraints_def backup_constraints_def)

lemma lease_example_reached: "(store_step H)\<^sup>*\<^sup>* empty_db lease_example"
  by (rule r_into_rtranclp) (rule lease_example_step)

text \<open>
  (C6) Every state that any interleaving of service writers and index rebuilds reaches from a new database
  passes the validation that opening it runs: the count of invalid rows is zero, and no service has
  more than one unresolved transaction.
\<close>

theorem reachable_store_validates:
  assumes "(store_step H)\<^sup>*\<^sup>* empty_db d"
  shows "journalRowValidation d = 0 \<and> invalid_leases d = 0 \<and> (\<forall>sid. length (unresolved_of d sid) \<le> 1)"
proof -
  have ok: "journal_ok d" using steps_journal_ok [OF assms journal_ok_empty] .
  have "length (unresolved_of d sid) \<le> 1" for sid
  proof -
    have "distinct (map tr_service (filter (\<lambda>r. tr_service r = sid) (filter (\<lambda>r. unresolved (tr_state r)) (db_transactions d))))"
      using ok by (intro distinct_map_filter [OF constraint_parts(7)]) (simp add: journal_ok_def)
    moreover have "filter (\<lambda>r. tr_service r = sid) (filter (\<lambda>r. unresolved (tr_state r)) (db_transactions d)) = unresolved_of d sid"
      by (simp add: unresolved_of_def conj_commute)
    moreover have "map tr_service (unresolved_of d sid) = replicate (length (unresolved_of d sid)) sid"
      by (rule replicate_eqI) (auto simp: unresolved_of_def)
    ultimately have "distinct (replicate (length (unresolved_of d sid)) sid)" by metis
    then show ?thesis by (cases "length (unresolved_of d sid)"; cases "length (unresolved_of d sid) - 1") auto
  qed
  then show ?thesis using journal_ok_validates [OF ok] by simp
qed

theorem reachable_store_validates_witness:
  "journalRowValidation lease_example = 0 \<and> invalid_leases lease_example = 0 \<and> (\<forall>sid. length (unresolved_of lease_example sid) \<le> 1)"
  by (rule reachable_store_validates) (rule lease_example_reached)

text \<open>
  Rows evolve in one direction along any sequence of steps: a transaction keeps its identity, kind and
  digests for ever and never leaves the failed or succeeded state, an action keeps its kind and intent,
  advances from intent over outcome unknown to completed and is never changed once completed, and a
  lease's epoch never decreases.
\<close>

theorem store_rows_evolve:
  assumes "(store_step H)\<^sup>*\<^sup>* d d'" and "journal_ok d"
  shows "(\<forall>r \<in> set (db_transactions d). \<exists>r' \<in> set (db_transactions d'). r' = r\<lparr>tr_state := tr_state r'\<rparr> \<and>
        (tr_state r = TransactionFailed \<or> tr_state r = TransactionSucceeded \<longrightarrow> r' = r)) \<and>
    (\<forall>a \<in> set (db_actions d). \<exists>a' \<in> set (db_actions d'). jr_tx a' = jr_tx a \<and> jr_sequence a' = jr_sequence a \<and>
        jr_kind a' = jr_kind a \<and> jr_intent a' = jr_intent a \<and> (jr_state a = ActionStateCompleted \<longrightarrow> a' = a) \<and>
        (jr_state a' = ActionStateIntent \<longrightarrow> jr_state a = ActionStateIntent)) \<and>
    (\<forall>l \<in> set (db_leases d). \<exists>l' \<in> set (db_leases d'). lr_service l' = lr_service l \<and> lr_epoch l \<le> lr_epoch l')"
proof -
  have ev: "evolves d d'" using steps_evolve [OF assms] .
  have "r' = r\<lparr>tr_state := tr_state r'\<rparr> \<and> (tr_state r = TransactionFailed \<or> tr_state r = TransactionSucceeded \<longrightarrow> r' = r)"
    if "same_transaction r r'" for r r'
    using that by (auto simp: same_transaction_def state_advances_def unresolved_def)
  moreover have "jr_tx a' = jr_tx a \<and> jr_sequence a' = jr_sequence a \<and> jr_kind a' = jr_kind a \<and> jr_intent a' = jr_intent a \<and>
      (jr_state a = ActionStateCompleted \<longrightarrow> a' = a) \<and> (jr_state a' = ActionStateIntent \<longrightarrow> jr_state a = ActionStateIntent)"
    if "same_action a a'" for a a'
    using that by (auto simp: same_action_def)
  moreover have "lr_service l' = lr_service l \<and> lr_epoch l \<le> lr_epoch l'" if "same_lease l l'" for l l'
    using that by (auto simp: same_lease_def)
  ultimately show ?thesis using ev unfolding evolves_def by meson
qed

lemma stale_fenced:
  assumes "\<not> holds (sw_db s) (sl_lease lock)" and "\<And>d. reads (operation d (sl_lease lock))"
  shows "\<exists>e t. run_state (withFencedWrite lock operation) s = (Inl e, t) \<and> sw_db t = sw_db s"
proof -
  obtain r t where run: "run_state (withFencedWrite lock operation) s = (r, t)" by fastforce
  with withFencedWrite_outcome [OF run assms(2)] assms(1) show ?thesis by auto
qed

text \<open>Advancing a lease counts its epoch up by one, or starts at one.\<close>

lemma advanced_lease:
  assumes c: "db_constraints d0" and st: "sql_advance_lease sid owner d0 = Inr (d, 1)"
  shows "row \<in> set (db_leases d0) \<Longrightarrow> lr_service row = sid \<Longrightarrow> lr_epoch row < maxInt64 \<and> row\<lparr>lr_epoch := lr_epoch row + 1, lr_owner := Some owner\<rparr> \<in> set (db_leases d)"
    and "\<not> lease_exists d0 sid \<Longrightarrow> \<lparr>lr_service = sid, lr_epoch = 1, lr_owner = Some owner\<rparr> \<in> set (db_leases d)"
    and "db_constraints d"
proof -
  show "db_constraints d" using st by (auto simp: sql_advance_lease_def Let_def checked_Inr split: if_split_asm)
  show "\<lparr>lr_service = sid, lr_epoch = 1, lr_owner = Some owner\<rparr> \<in> set (db_leases d)" if "\<not> lease_exists d0 sid"
    using st that by (auto simp: sql_advance_lease_def checked_Inr)
  assume row: "row \<in> set (db_leases d0)" "lr_service row = sid"
  then have "lease_exists d0 sid" by (auto simp: lease_exists_def list_ex_iff)
  then have d: "db_leases d = map (\<lambda>q. if lr_service q = sid \<and> lr_epoch q < maxInt64
        then q\<lparr>lr_epoch := lr_epoch q + 1, lr_owner := Some owner\<rparr> else q) (db_leases d0)"
    and n: "length (filter (\<lambda>q. lr_service q = sid \<and> lr_epoch q < maxInt64) (db_leases d0)) = Suc 0"
    using st by (auto simp: sql_advance_lease_def Let_def checked_Inr)
  obtain q where q: "q \<in> set (db_leases d0)" "lr_service q = sid" "lr_epoch q < maxInt64" using filter_length_one [OF n] by (auto simp: list_ex_iff)
  then have "q = row" using distinct_map_eq [OF constraint_parts(1) [OF c] q(1) row(1)] row(2) by simp
  then show "lr_epoch row < maxInt64 \<and> row\<lparr>lr_epoch := lr_epoch row + 1, lr_owner := Some owner\<rparr> \<in> set (db_leases d)"
    using q by (auto simp: d image_iff intro!: bexI [of _ q])
qed

text \<open>A lease that another writer has advanced is never held again.\<close>

lemma advanced_is_stale:
  assumes ok: "journal_ok d0" and lease: "holds d0 l" and taken: "sql_advance_lease (wl_serviceID l) owner d0 = Inr (d1, 1)"
    and later: "(store_step H)\<^sup>*\<^sup>* d1 d"
  shows "\<not> holds d l"
proof -
  have c0: "db_constraints d0" using ok by (simp add: journal_ok_def)
  obtain row where row: "row \<in> set (db_leases d0)" "lr_service row = wl_serviceID l" "lr_epoch row = wl_epoch l"
    using lease by (auto simp: lease_held_def list_ex_iff lease_is_def)
  have ok1: "journal_ok d1" using step_lease [OF ok] taken by blast
  obtain row' where "row' \<in> set (db_leases d1)" "lr_service row' = wl_serviceID l" "wl_epoch l < lr_epoch row'"
    using advanced_lease(1) [OF c0 taken row(1,2)] row(2,3) by fastforce
  then obtain row'' where row'': "row'' \<in> set (db_leases d)" "lr_service row'' = wl_serviceID l" "wl_epoch l < lr_epoch row''"
    using steps_evolve [OF later ok1] unfolding evolves_def same_lease_def by fastforce
  have "db_constraints d" using steps_journal_ok [OF later ok1] by (simp add: journal_ok_def)
  then show ?thesis
    using distinct_map_eq [OF constraint_parts(1) _ row''(1)] row''(2,3) by (auto simp: lease_held_def list_ex_iff lease_is_def)
qed


text \<open>A world without failures, for concrete examples.\<close>

definition quiet :: instant where
  "quiet = \<lparr>in_ctx = False, in_valid = True, in_file = True, in_flock = FlockAcquired, in_sql = None, in_rows = True,
     in_applied = False, in_random = Some 9\<rparr>"

definition quiet_world :: "db \<Rightarrow> store_world" where
  "quiet_world d = \<lparr>sw_db = d, sw_env = (\<lambda>_. quiet), sw_tick = 0\<rparr>"

definition example_lock :: ServiceLock where
  "example_lock = \<lparr>sl_open = True, sl_lease = \<lparr>wl_serviceID = 1, wl_epoch = 1, wl_owner = 2\<rparr>\<rparr>"

definition taken_example :: db where
  "taken_example = lease_example\<lparr>db_leases := [\<lparr>lr_service = 1, lr_epoch = 2, lr_owner = Some 3\<rparr>]\<rparr>"

lemma taken_example_advance: "sql_advance_lease 1 3 lease_example = Inr (taken_example, 1)"
  by (simp add: sql_advance_lease_def lease_exists_def taken_example_def lease_example_def checked_def db_constraints_def Let_def
      lease_constraints_def transaction_constraints_def action_constraints_def applied_constraints_def backup_constraints_def maxInt64_def)

theorem store_rows_evolve_witness:
  "\<exists>l \<in> set (db_leases taken_example). lr_service l = 1 \<and> 1 \<le> lr_epoch l"
proof -
  have "(store_step (\<lambda>_. 0))\<^sup>*\<^sup>* lease_example taken_example"
    using taken_example_advance by (intro r_into_rtranclp Acquire)
  moreover have "journal_ok lease_example" using steps_journal_ok [OF lease_example_reached journal_ok_empty] .
  ultimately show ?thesis using store_rows_evolve [of "\<lambda>_. 0" lease_example taken_example] by (simp add: lease_example_def)
qed


text \<open>
  Acquiring a lease gives epoch one to a new service and otherwise exactly the successor of the stored
  epoch, which never passes the largest 64-bit integer; the lease returned is the current one. When the
  stored epoch is already the largest one, acquisition fails and leaves the tables alone, so the
  counter never wraps.
\<close>

theorem acquired_epoch:
  assumes ok: "journal_ok (sw_db s)" and run: "run_state (acquireWriterLease sid) s = (r, t)"
  shows "(\<forall>l. r = Inr l \<longrightarrow> holds (sw_db t) l \<and> wl_serviceID l = sid \<and> wl_epoch l \<le> maxInt64 \<and>
      (\<forall>row \<in> set (db_leases (sw_db s)). lr_service row = sid \<longrightarrow> wl_epoch l = lr_epoch row + 1) \<and>
      (\<not> lease_exists (sw_db s) sid \<longrightarrow> wl_epoch l = 1)) \<and>
    ((\<exists>row \<in> set (db_leases (sw_db s)). lr_service row = sid \<and> maxInt64 \<le> lr_epoch row) \<longrightarrow>
      sw_db t = sw_db s \<and> (\<exists>e. r = Inl e))"
proof -
  have c: "db_constraints (sw_db s)" using ok by (simp add: journal_ok_def)
  show ?thesis
  proof (intro conjI allI impI)
    fix l assume "r = Inr l"
    then obtain owner where a: "sql_advance_lease sid owner (sw_db s) = Inr (sw_db t, 1)"
      and l: "wl_serviceID l = sid" "wl_owner l = owner" "sql_lease_epoch sid owner (sw_db t) = Inr (wl_epoch l)"
      using acquireWriterLease_outcome [OF run] by auto
    note A = advanced_lease [OF c a]
    from l(3) obtain w where w: "w \<in> set (db_leases (sw_db t))" "lr_service w = sid" "lr_owner w = Some owner" "lr_epoch w = wl_epoch l"
      by (auto simp: sql_lease_epoch_def split: list.split_asm dest: filter_eq_ConsD)
    have same: "w = v" if "v \<in> set (db_leases (sw_db t))" "lr_service v = sid" for v
      using distinct_map_eq [OF constraint_parts(1) [OF A(3)] w(1) that(1)] w(2) that(2) by simp
    show "holds (sw_db t) l" "wl_serviceID l = sid" using w l by (auto simp: lease_held_def lease_is_def list_ex_iff)
    have e: "lr_epoch row < maxInt64 \<and> wl_epoch l = lr_epoch row + 1" if "row \<in> set (db_leases (sw_db s))" "lr_service row = sid" for row
      using A(1) [OF that] same [of "row\<lparr>lr_epoch := lr_epoch row + 1, lr_owner := Some owner\<rparr>"] that(2) w(4) by auto
    then show "\<forall>row \<in> set (db_leases (sw_db s)). lr_service row = sid \<longrightarrow> wl_epoch l = lr_epoch row + 1" by blast
    show one: "wl_epoch l = 1" if "\<not> lease_exists (sw_db s) sid" using A(2) [OF that] same w(4) by fastforce
    show "wl_epoch l \<le> maxInt64"
    proof (cases "lease_exists (sw_db s) sid")
      case True
      then obtain row where "row \<in> set (db_leases (sw_db s))" "lr_service row = sid" by (auto simp: lease_exists_def list_ex_iff)
      then show ?thesis using e by fastforce
    qed (use one in \<open>simp add: maxInt64_def\<close>)
  next
    assume "\<exists>row \<in> set (db_leases (sw_db s)). lr_service row = sid \<and> maxInt64 \<le> lr_epoch row"
    then have "sql_advance_lease sid owner (sw_db s) \<noteq> Inr (d, 1)" for owner d using advanced_lease(1) [OF c, of sid owner d] by fastforce
    then show "sw_db t = sw_db s" "\<exists>e. r = Inl e" using acquireWriterLease_outcome [OF run] by auto
  qed
qed

lemma acquire_example_run:
  "fst (run_state (acquireWriterLease 1) (quiet_world lease_example)) = Inr \<lparr>wl_serviceID = 1, wl_epoch = 2, wl_owner = 9\<rparr>"
  by code_simp

theorem acquired_epoch_witness:
  "holds (sw_db (snd (run_state (acquireWriterLease 1) (quiet_world lease_example)))) \<lparr>wl_serviceID = 1, wl_epoch = 2, wl_owner = 9\<rparr>"
  using acquired_epoch [of "quiet_world lease_example" 1 "fst (run_state (acquireWriterLease 1) (quiet_world lease_example))"
      "snd (run_state (acquireWriterLease 1) (quiet_world lease_example))"]
    steps_journal_ok [OF lease_example_reached journal_ok_empty] acquire_example_run
  by (simp add: quiet_world_def)

section \<open>Publication\<close>

lemma applied_of_rows_record:
  assumes "transaction_of_row row = Some rec" and "validAppliedServiceIntent intent"
  shows "applied_of_rows (applied_row_of sid (tr_id row) intent, row\<lparr>tr_state := st\<rparr>) = Some (appliedServiceRecord (rec\<lparr>tx_State := st'\<rparr>) intent)"
  using assms
  by (auto simp: transaction_of_row_def applied_of_rows_def applied_row_of_def appliedServiceRecord_def zero_Transaction_def Let_def
      populateTransactionRelationship_def validAppliedServiceIntent_def validTransactionRecord_def validTransactionIntent_def
      validTransactionIdentity_def split: prod.split_asm if_split_asm option.split_asm)

lemma applied_row_of_record:
  assumes "applied_of_rows (a, j) = Some (appliedServiceRecord rec intent)" and "ar_service a = sid"
  shows "a = applied_row_of sid (tx_ID rec) intent"
  using assms by (auto simp: applied_of_rows_def applied_row_of_def appliedServiceRecord_def split: prod.split_asm if_split_asm)

lemma commit_run:
  fixes s t :: "'z store_world_scheme"
  assumes run: "run_state (CommitAppliedService lock i intent) s = (Inr x, t)"
  shows "validAppliedServiceIntent intent" "\<exists>rec. x = appliedServiceRecord rec intent \<and>
    (\<exists>u v :: 'z store_world_scheme. run_state (commitAppliedService i intent (sw_db s) (sl_lease lock)) u = (Inr (sw_db t, rec), v))"
proof -
  show "validAppliedServiceIntent intent" using run by (auto simp: CommitAppliedService_def split: if_split_asm)
  obtain rec where "x = appliedServiceRecord rec intent"
      "run_state (withFencedWrite lock (commitAppliedService i intent)) s = (Inr rec, t)"
    using run by (auto simp: CommitAppliedService_def simp del: run_state_bind elim!: run_bindE split: if_split_asm sum.split_asm)
  then show "\<exists>rec. x = appliedServiceRecord rec intent \<and>
      (\<exists>u v :: 'z store_world_scheme. run_state (commitAppliedService i intent (sw_db s) (sl_lease lock)) u = (Inr (sw_db t, rec), v))"
    using fenced_success [where operation = "commitAppliedService i intent", OF _ reads_commit] by blast
qed

lemma commit_effect:
  fixes s t :: "'z store_world_scheme"
  assumes ok: "journal_ok (sw_db s)" and run: "run_state (CommitAppliedService lock i intent) s = (Inr x, t)"
    and sid: "sid = wl_serviceID (sl_lease lock)"
  shows "set (db_applied (sw_db t)) = insert (applied_row_of sid i intent) {a \<in> set (db_applied (sw_db s)). ar_service a \<noteq> sid} \<and>
    (\<exists>row \<in> set (db_transactions (sw_db t)). tr_id row = i \<and> tr_service row = sid \<and> tr_state row = TransactionSucceeded \<and>
       applied_of_rows (applied_row_of sid i intent, row) = Some x) \<and>
    db_actions (sw_db t) = db_actions (sw_db s) \<and> \<not> incomplete_exists (sw_db t) i \<and>
    ((\<exists>row \<in> set (db_transactions (sw_db s)). tr_id row = i \<and> tr_state row = TransactionSucceeded) \<longrightarrow> sw_db t = sw_db s)"
proof -
  let ?d = "sw_db s" and ?d' = "sw_db t"
  have c: "db_constraints ?d" using ok by (simp add: journal_ok_def)
  obtain y and u v :: "'z store_world_scheme" where valid: "validAppliedServiceIntent intent" and y: "x = appliedServiceRecord y intent"
    and op: "run_state (commitAppliedService i intent ?d (sl_lease lock)) u = (Inr (?d', y), v)"
    using commit_run [OF run] by blast
  from commit_body_detail [OF op] obtain row rec where
    row: "row \<in> set (db_transactions ?d)" "tr_id row = i" "tr_service row = sid" "transaction_of_row row = Some rec"
    and y': "y = rec\<lparr>tx_State := TransactionSucceeded\<rparr>"
    and cases: "(tr_state row = TransactionSucceeded \<and> ?d' = ?d \<and>
       (\<exists>a j. applied_pair ?d sid a j \<and> applied_of_rows (a, j) = Some (appliedServiceRecord rec intent))) \<or>
     (tr_state row = TransactionActive \<and> (\<exists>d1 d2. published ?d sid rec intent d1 \<and>
        backup_published d1 sid rec (ai_Backup intent) d2 \<and>
        sql_finish_transaction i sid (wl_epoch (sl_lease lock)) (wl_owner (sl_lease lock)) d2 = Inr (?d', 1)))"
    unfolding sid by blast
  have id: "tx_ID rec = i" using transaction_of_row_fields [OF row(4)] row(2) by simp
  have readback: "applied_of_rows (applied_row_of sid i intent, row\<lparr>tr_state := TransactionSucceeded\<rparr>) = Some x"
    using applied_of_rows_record [OF row(4) valid, of sid TransactionSucceeded TransactionSucceeded, unfolded row(2)] y y' by simp
  from cases show ?thesis
  proof
    assume A: "tr_state row = TransactionSucceeded \<and> ?d' = ?d \<and>
       (\<exists>a j. applied_pair ?d sid a j \<and> applied_of_rows (a, j) = Some (appliedServiceRecord rec intent))"
    then obtain a where a: "a \<in> set (db_applied ?d)" "ar_service a = sid" "a = applied_row_of sid i intent"
      using applied_row_of_record [of _ _ rec intent sid] id by (auto simp: applied_pair_def)
    have "q = a" if "q \<in> set (db_applied ?d)" "ar_service q = sid" for q
      using applied_unique [OF c that(1) a(1)] that(2) a(2) by simp
    then have "set (db_applied ?d) = insert a {a \<in> set (db_applied ?d). ar_service a \<noteq> sid}" using a(1) by blast
    moreover have "\<not> incomplete_exists ?d i"
      using ok row A by (fastforce simp: journal_ok_def actions_ok_def incomplete_exists_def list_ex_iff unresolved_def)
    moreover have "row\<lparr>tr_state := TransactionSucceeded\<rparr> = row" using A by simp
    then have "applied_of_rows (applied_row_of sid i intent, row) = Some x" using readback by (simp only:)
    ultimately show ?thesis using A row a(3) by (intro conjI bexI [of _ row]) simp_all
  next
    assume B: "tr_state row = TransactionActive \<and> (\<exists>d1 d2. published ?d sid rec intent d1 \<and>
        backup_published d1 sid rec (ai_Backup intent) d2 \<and>
        sql_finish_transaction i sid (wl_epoch (sl_lease lock)) (wl_owner (sl_lease lock)) d2 = Inr (?d', 1))"
    then have "committed ?d row (applied_row_of sid i intent) ?d'" using commit_rows(1) [OF ok row(1) _ row(4)] unfolding row(2,3) by blast
    note M = committedD [OF this]
    have "\<not> incomplete_exists ?d' i" using M(8,9) row(2) by (simp add: incomplete_exists_def)
    moreover have "\<not> (\<exists>q \<in> set (db_transactions ?d). tr_id q = i \<and> tr_state q = TransactionSucceeded)"
      using transaction_unique [OF c _ row(1)] M(2) row(2) by fastforce
    ultimately show ?thesis
      using row(2,3) readback M(3,6,8) by (intro conjI bexI [of _ "row\<lparr>tr_state := TransactionSucceeded\<rparr>"]) (simp_all, blast)
  qed
qed


definition active_row :: tx_row where
  "active_row = transaction_row 5 1 \<lparr>ti_Kind = TransactionBootstrap, ti_Runtime = RuntimeDocker, ti_SourceDigest = 11, ti_EffectiveDigest = 12,
     ti_ExecutionDigest = 13, ti_BaseTransactionID = 0, ti_HasBaseTransaction = False, ti_PredecessorWorkloadID = ''''\<rparr>"

definition active_example :: db where
  "active_example = lease_example\<lparr>db_transactions := [active_row]\<rparr>"

definition example_applied :: AppliedServiceIntent where
  "example_applied = \<lparr>ai_WorkloadID = ''web-1'', ai_ConfigurationDigest = 21, ai_StorageDigest = 22, ai_ReferenceDigest = 23,
     ai_PlatformManifestDigest = 24, ai_ImageConfigDigest = 25, ai_Backup = None\<rparr>"

lemma active_example_ok: "journal_ok active_example"
  by code_simp

lemma commit_example_run:
  "fst (run_state (CommitAppliedService example_lock 5 example_applied) (quiet_world active_example)) =
     Inr \<lparr>as_TransactionID = 5, as_Kind = TransactionBootstrap, as_Runtime = RuntimeDocker, as_SourceDigest = 11, as_EffectiveDigest = 12,
        as_ExecutionDigest = 13, as_WorkloadID = ''web-1'', as_ConfigurationDigest = 21, as_StorageDigest = 22, as_ReferenceDigest = 23,
        as_PlatformManifestDigest = 24, as_ImageConfigDigest = 25\<rparr>"
  by code_simp


lemma unresolved_outcome:
  assumes "run_state (UnresolvedTransaction H p n) s = (Inr r, t)" and "serviceIdentity H p n = (sid, True)"
  shows "sw_db t = sw_db s \<and> ((r = None \<and> unresolved_of (sw_db s) sid = []) \<or>
    (\<exists>row x. r = Some x \<and> row \<in> set (unresolved_of (sw_db s) sid) \<and> transaction_of_row row = Some x))"
proof
  show "sw_db t = sw_db s" using assms(1) by (rule readsD [OF reads_lookup(2)])
  show "(r = None \<and> unresolved_of (sw_db s) sid = []) \<or>
      (\<exists>row x. r = Some x \<and> row \<in> set (unresolved_of (sw_db s) sid) \<and> transaction_of_row row = Some x)"
    using assms
    by (auto simp: UnresolvedTransaction_def unresolvedTransaction_def unresolved_of_def filter_empty_conv simp del: run_state_bind
        elim!: run_bindE dest!: outcomes query_row_Inr query_row_not_NoRows split: sum.split_asm if_split_asm)
qed

text \<open>
  A begun transaction is the service's only unresolved one: nothing unresolved was there before, reading the
  journal afterwards returns exactly the transaction that was begun with the intent's fields, and until
  it is resolved no second transaction can begin.
\<close>

theorem begun_transaction_is_unresolved:
  fixes s t u u' :: "'z store_world_scheme"
  assumes ok: "journal_ok (sw_db s)" and run: "run_state (BeginTransaction lock intent) s = (Inr x, t)"
    and sid: "serviceIdentity H project service = (wl_serviceID (sl_lease lock), True)"
  shows "unresolved_of (sw_db s) (wl_serviceID (sl_lease lock)) = [] \<and>
    tx_Kind x = ti_Kind intent \<and> tx_State x = TransactionActive \<and> tx_SourceDigest x = ti_SourceDigest intent \<and>
    tx_EffectiveDigest x = ti_EffectiveDigest intent \<and> tx_ExecutionDigest x = ti_ExecutionDigest intent \<and>
    (\<forall>r. run_state (UnresolvedTransaction H project service) t = (Inr r, u) \<longrightarrow> r = Some x) \<and>
    (\<exists>e. fst (run_state (BeginTransaction lock intent') t) = Inl e)"
proof -
  let ?sid = "wl_serviceID (sl_lease lock)"
  note B = BeginTransaction_success [OF ok run]
  let ?row = "transaction_row (tx_ID x) ?sid intent"
  have okt: "journal_ok (sw_db t)" using program_keeps_journal_ok [OF writes_begin ok run] .
  note f = transaction_of_row_fields [OF B(2)]
  have un: "unresolved_of (sw_db t) ?sid = [?row]"
    using B(3,4) by (simp add: unresolved_of_def transaction_row_def unresolved_def)
  have "r = Some x" if "run_state (UnresolvedTransaction H project service) t = (Inr r, u)" for r
    using unresolved_outcome [OF that sid] un B(2) by auto
  moreover have "\<exists>e. fst (run_state (BeginTransaction lock intent') t) = Inl e"
  proof (rule ccontr)
    assume "\<not> ?thesis"
    then obtain y v where "run_state (BeginTransaction lock intent') t = (Inr y, v)" by (metis obj_sumE prod.collapse)
    from BeginTransaction_success(3) [OF okt this] un show False by simp
  qed
  ultimately show ?thesis using B(3) f by (simp add: transaction_row_def)
qed

definition example_intent :: TransactionIntent where
  "example_intent = \<lparr>ti_Kind = TransactionBootstrap, ti_Runtime = RuntimeDocker, ti_SourceDigest = 11, ti_EffectiveDigest = 12,
     ti_ExecutionDigest = 13, ti_BaseTransactionID = 0, ti_HasBaseTransaction = False, ti_PredecessorWorkloadID = ''''\<rparr>"

lemma begin_example_run:
  "fst (run_state (BeginTransaction example_lock example_intent) (quiet_world lease_example)) =
     Inr \<lparr>tx_ID = 9, tx_Kind = TransactionBootstrap, tx_State = TransactionActive, tx_Runtime = RuntimeDocker, tx_SourceDigest = 11,
       tx_EffectiveDigest = 12, tx_ExecutionDigest = 13, tx_BaseTransactionID = 0, tx_HasBaseTransaction = False,
       tx_PredecessorWorkloadID = ''''\<rparr>"
  by code_simp

theorem begun_transaction_is_unresolved_witness:
  "\<exists>e. fst (run_state (BeginTransaction example_lock example_intent)
     (snd (run_state (BeginTransaction example_lock example_intent) (quiet_world lease_example)))) = Inl e"
proof -
  let ?p = "run_state (BeginTransaction example_lock example_intent) (quiet_world lease_example)"
  have run: "run_state (BeginTransaction example_lock example_intent) (quiet_world lease_example) = (Inr (projr (fst ?p)), snd ?p)"
    using begin_example_run by (metis prod.collapse sum.sel(2))
  have "journal_ok (sw_db (quiet_world lease_example))"
    using steps_journal_ok [OF lease_example_reached journal_ok_empty] by (simp add: quiet_world_def)
  moreover have "serviceIdentity (\<lambda>_. 1) ''p'' ''s'' = (wl_serviceID (sl_lease example_lock), True)"
    by (simp add: serviceIdentity_def identityDigest_def example_lock_def)
  ultimately show ?thesis using begun_transaction_is_unresolved [OF _ run] by blast
qed

lemma rebuilt_rows:
  assumes "rebuilt H cs d d'" and "db_constraints d"
  shows "db_transactions d' = db_transactions d \<and> db_applied d' = db_applied d \<and> db_actions d' = db_actions d \<and> db_leases d' = db_leases d \<and>
    map br_tx (db_backups d') = map br_tx (db_backups d) @ map bc_TransactionID cs \<and>
    (\<forall>b \<in> set (db_backups d'). b \<in> set (db_backups d) \<or>
      (\<exists>c \<in> set cs. br_tx b = bc_TransactionID c \<and> br_path b = bc_ManifestPath c \<and> br_digest b = bc_ManifestDigest c \<and> br_created b = bc_CreatedUnix c)) \<and>
    (\<forall>c \<in> set cs. \<exists>r \<in> set (db_transactions d). rebuild_source (fst (serviceIdentity H (bc_Project c) (bc_Service c))) c r)"
  using assms
proof (induction cs arbitrary: d)
  case (Cons c cs)
  let ?sid = "fst (serviceIdentity H (bc_Project c) (bc_Service c))"
  from Cons.prems obtain e where e: "rebuildBackupIndexSQL ?sid c d = Inr (e, 1)" and r: "rebuilt H cs e d'" by auto
  let ?rows = "filter (rebuild_source ?sid c) (db_transactions d)"
  have ee: "e = d\<lparr>db_backups := db_backups d @ map (\<lambda>r. \<lparr>br_tx = tr_id r, br_service = tr_service r, br_path = bc_ManifestPath c,
          br_digest = bc_ManifestDigest c, br_created = bc_CreatedUnix c\<rparr>) ?rows\<rparr>"
    "db_constraints e" and n: "length ?rows = Suc 0"
    using e by (auto simp: rebuildBackupIndexSQL_def Let_def checked_Inr)
  then obtain q where q: "?rows = [q]" by (metis length_0_conv length_Suc_conv)
  then have src: "q \<in> set (db_transactions d)" "rebuild_source ?sid c q" by (auto dest: filter_eq_ConsD)
  then have "tr_id q = bc_TransactionID c" by (simp add: rebuild_source_def)
  with Cons.IH [OF r ee(2)] src show ?case by (auto simp: ee(1) q)
qed simp

text \<open>
  A successful rebuild replaces the whole index: afterwards there is one locator for each candidate, in order,
  with the candidate's path, digest and time, each candidate names a succeeded upgrade of its own service
  in the journal, and no other table has changed.
\<close>

theorem rebuilt_index_is_exact:
  assumes "journal_ok (sw_db s)" and run: "run_state (ReplaceBackupIndex H candidates) s = (None, t)"
  shows "map br_tx (db_backups (sw_db t)) = map bc_TransactionID candidates \<and>
    (\<forall>b \<in> set (db_backups (sw_db t)). \<exists>c \<in> set candidates. br_tx b = bc_TransactionID c \<and> br_path b = bc_ManifestPath c \<and>
       br_digest b = bc_ManifestDigest c \<and> br_created b = bc_CreatedUnix c) \<and>
    (\<forall>c \<in> set candidates. \<exists>r \<in> set (db_transactions (sw_db s)).
       rebuild_source (fst (serviceIdentity H (bc_Project c) (bc_Service c))) c r) \<and>
    sw_db t = (sw_db s)\<lparr>db_backups := db_backups (sw_db t)\<rparr>"
proof -
  obtain d0 n where del: "sql_delete_backups (sw_db s) = Inr (d0, n)" and re: "rebuilt H candidates d0 (sw_db t)"
    using run
    by (auto simp: ReplaceBackupIndex_def simp del: run_state_bind elim!: run_bindE
        dest!: outcomes replaceBackupIndex_outcome result_outcomes split: if_split_asm sum.split_asm option.split_asm)
  have d0: "d0 = (sw_db s)\<lparr>db_backups := []\<rparr>" "db_constraints d0" using del by (auto simp: sql_delete_backups_def checked_Inr)
  from rebuilt_rows [OF re d0(2)] show ?thesis by (auto simp: d0(1) intro: db.equality)
qed


definition upgraded_example :: db where
  "upgraded_example = lease_example\<lparr>
     db_transactions := [active_row\<lparr>tr_state := TransactionSucceeded\<rparr>,
       active_row\<lparr>tr_id := 6, tr_kind := TransactionUpgrade, tr_state := TransactionSucceeded, tr_base := Some 5, tr_predecessor := Some ''web-1''\<rparr>],
     db_applied := [(applied_row_of 1 6 example_applied)\<lparr>ar_workload := ''web-2''\<rparr>]\<rparr>"

definition example_candidate :: BackupIndexCandidate where
  "example_candidate = \<lparr>bc_TransactionID = 6, bc_Project = ''p'', bc_Service = ''s'', bc_Runtime = RuntimeDocker, bc_SourceDigest = 11,
     bc_EffectiveDigest = 12, bc_ExecutionDigest = 13, bc_BaseTransactionID = 5, bc_PredecessorWorkloadID = ''web-1'',
     bc_ManifestPath = backupManifestPath 6, bc_ManifestDigest = 31, bc_CreatedUnix = 100\<rparr>"

lemma upgraded_example_ok: "journal_ok upgraded_example"
  by code_simp

lemma rebuild_example_run:
  "fst (run_state (ReplaceBackupIndex (\<lambda>_. 1) [example_candidate]) (quiet_world upgraded_example)) = None"
  by code_simp

theorem rebuilt_index_is_exact_witness:
  "map br_tx (db_backups (sw_db (snd (run_state (ReplaceBackupIndex (\<lambda>_. 1) [example_candidate]) (quiet_world upgraded_example))))) = [6]"
  using rebuilt_index_is_exact [of "quiet_world upgraded_example" "\<lambda>_. 1" "[example_candidate]"
      "snd (run_state (ReplaceBackupIndex (\<lambda>_. 1) [example_candidate]) (quiet_world upgraded_example))"]
    upgraded_example_ok rebuild_example_run
  by (simp add: prod_eq_iff quiet_world_def example_candidate_def)

end
