(* ===== verification/AppTypes.thy ===== *)
theory AppTypes
  imports StoreProperties
begin

text \<open>
  The values of \<open>src/internal/application\<close>: plans, observations, evidence of effects and events, and the
  values of \<open>src/internal/backup\<close> that it passes on.
\<close>

section \<open>Plans and observations (plan.go)\<close>

datatype PlanKind = PlanBootstrap | PlanAdopt | PlanUnchanged | PlanUpgrade | PlanResume | PlanProbeUnknownEffect
  | PlanRestore | PlanKindOther string

datatype WarningCode = WarningDaemonMountProbeUnavailable | WarningCodeOther string

record Warning =
  wn_Code :: WarningCode
  wn_Message :: string

record RuntimeEvidence =
  re_Kind :: RuntimeKind
  re_Platform :: Platform
  re_Digest :: digest

datatype WorkloadObservationState = WorkloadObservationUnknown | WorkloadObservationMissing | WorkloadObservationPresent

record WorkloadObservation =
  ob_ID :: string
  ob_State :: WorkloadObservationState
  ob_ConfigurationDigest :: digest
  ob_StorageDigest :: digest
  ob_RuntimeMounts :: "RuntimeMount slice"
  ob_ConfigurationMatches :: bool
  ob_Running :: bool
  ob_Ownership :: WorkloadOwnership

record Plan =
  pl_Kind :: PlanKind
  pl_Project :: string
  pl_Service :: string
  pl_Runtime :: RuntimeKind
  pl_Platform :: Platform
  pl_Image :: ImageIdentity
  pl_Source :: digest
  pl_Desired :: digest
  pl_Observation :: WorkloadObservation
  pl_Warnings :: "Warning slice"

record Preparation =
  pr_Plan :: Plan
  pr_Workload :: DesiredWorkload
  pr_Execution :: RuntimeEvidence
  pr_Transaction :: Transaction
  pr_HasTransaction :: bool
  pr_Applied :: AppliedService
  pr_HasApplied :: bool
  pr_Actions :: "Action list"

definition zero_ownership :: WorkloadOwnership where
  "zero_ownership = \<lparr>ow_Status = OwnershipConflicting, ow_Service = '''', ow_Transaction = '''', ow_DesiredState = 0,
     ow_Reference = 0, ow_ImageConfig = 0, ow_PlatformManifest = 0\<rparr>"

section \<open>Evidence of effects (workload\_effect.go, workload\_transition.go, image\_effect.go, effect.go)\<close>

datatype WorkloadEffectProbeState = WorkloadEffectProbeUnknown | WorkloadEffectProbeMissing | WorkloadEffectProbeObserved

datatype WorkloadLifecycle = WorkloadLifecycleUnknown | WorkloadLifecycleCreated | WorkloadLifecycleRunning
  | WorkloadLifecyclePaused | WorkloadLifecycleRestarting | WorkloadLifecycleRemoving | WorkloadLifecycleExited
  | WorkloadLifecycleDead

record WorkloadEffectEvidence =
  we_ID :: string
  we_Name :: string
  we_ConfigurationDigest :: digest
  we_StorageDigest :: digest
  we_RuntimeMounts :: "RuntimeMount slice"
  we_ConfigurationMatches :: bool
  we_Lifecycle :: WorkloadLifecycle
  we_Ownership :: WorkloadOwnership

record WorkloadEffectProbe =
  wp_State :: WorkloadEffectProbeState
  wp_Workload :: WorkloadEffectEvidence

record WorkloadCreateOptions =
  co_CopyImageVolumes :: bool

datatype WorkloadTransitionKind = WorkloadTransitionUnknown | WorkloadTransitionStop | WorkloadTransitionRename
  | WorkloadTransitionRemove | WorkloadTransitionRestoreStart

record ExistingWorkload =
  ew_ID :: string
  ew_Name :: string
  ew_ConfigurationDigest :: digest
  ew_Lifecycle :: WorkloadLifecycle
  ew_Ownership :: WorkloadOwnership

record WorkloadTransition =
  wt_Kind :: WorkloadTransitionKind
  wt_Before :: ExistingWorkload
  wt_After :: ExistingWorkload

record WorkloadTransitionProbe =
  tp_State :: WorkloadEffectProbeState
  tp_Workload :: ExistingWorkload

datatype ImageProbeState = ImageProbeUnknown | ImageProbeMissing | ImageProbeObserved

record ImageEvidence =
  ie_ReferenceDigest :: digest
  ie_PlatformManifest :: digest
  ie_ImageConfig :: digest
  ie_Platform :: Platform

record ImageProbe =
  ip_State :: ImageProbeState
  ip_Image :: ImageEvidence

record EffectPostcondition =
  pc_Digest :: digest
  pc_Satisfied :: bool

definition empty_postcondition :: EffectPostcondition where
  "empty_postcondition = \<lparr>pc_Digest = 0, pc_Satisfied = False\<rparr>"

definition zero_existing :: ExistingWorkload where
  "zero_existing = \<lparr>ew_ID = '''', ew_Name = '''', ew_ConfigurationDigest = 0, ew_Lifecycle = WorkloadLifecycleUnknown,
     ew_Ownership = zero_ownership\<rparr>"

section \<open>Events (event.go)\<close>

datatype EventKind = EventPlanPrepared | EventActionIntentRecorded | EventRuntimeEffectStarted | EventPostconditionObserved
  | EventActionCompleted | EventTransactionSucceeded | EventTransactionDegraded | EventTransactionRestored
  | EventTransactionFailed | EventGitOpsServiceApplyFailed | EventDaemonUnavailable | EventKindOther string

record Event =
  ev_Kind :: EventKind
  ev_Plan :: PlanKind
  ev_Project :: string
  ev_Service :: string
  ev_Runtime :: RuntimeKind
  ev_Transaction :: string
  ev_Action :: string
  ev_Sequence :: int
  ev_Evidence :: string
  ev_Satisfied :: bool

definition zero_Event :: Event where
  "zero_Event = \<lparr>ev_Kind = EventKindOther '''', ev_Plan = PlanKindOther '''', ev_Project = '''', ev_Service = '''',
     ev_Runtime = RuntimeOther '''', ev_Transaction = '''', ev_Action = '''', ev_Sequence = 0, ev_Evidence = '''',
     ev_Satisfied = False\<rparr>"

section \<open>Backup values (backup/manifest.go, backup/archive.go, backup/publish\_unix.go)\<close>

record Inventory =
  iv_EntryCount :: int
  iv_PayloadBytes :: int
  iv_ArchiveBytes :: int
  iv_ArchiveDigest :: digest
  iv_SemanticDigest :: digest

record Artifact =
  af_Mount :: RuntimeMount
  af_ProvenanceDigest :: digest
  af_FileName :: string
  af_Inventory :: Inventory

record Manifest =
  mf_Version :: int
  mf_OperationToken :: transaction_id
  mf_TransactionID :: transaction_id
  mf_BaseTransactionID :: transaction_id
  mf_Project :: string
  mf_Service :: string
  mf_Runtime :: RuntimeKind
  mf_CreatedUnix :: int
  mf_SourceDigest :: digest
  mf_EffectiveDigest :: digest
  mf_ExecutionDigest :: digest
  mf_PredecessorWorkloadID :: string
  mf_Artifacts :: "Artifact list"

record Publication =
  pu_Manifest :: Manifest
  pu_ManifestPath :: string
  pu_ManifestDigest :: digest

definition zero_inventory :: Inventory where
  "zero_inventory = \<lparr>iv_EntryCount = 0, iv_PayloadBytes = 0, iv_ArchiveBytes = 0, iv_ArchiveDigest = 0, iv_SemanticDigest = 0\<rparr>"

definition zero_manifest :: Manifest where
  "zero_manifest = \<lparr>mf_Version = 0, mf_OperationToken = 0, mf_TransactionID = 0, mf_BaseTransactionID = 0, mf_Project = '''',
     mf_Service = '''', mf_Runtime = RuntimeOther '''', mf_CreatedUnix = 0, mf_SourceDigest = 0, mf_EffectiveDigest = 0,
     mf_ExecutionDigest = 0, mf_PredecessorWorkloadID = '''', mf_Artifacts = []\<rparr>"

definition zero_publication :: Publication where
  "zero_publication = \<lparr>pu_Manifest = zero_manifest, pu_ManifestPath = '''', pu_ManifestDigest = 0\<rparr>"

text \<open>\<open>PublicationCapacity\<close> has private fields only; the application passes it on and never looks inside.\<close>

record PublicationCapacity =
  ca_manifest :: digest
  ca_filesystem :: "(int \<times> int) \<times> 64 word"
  ca_requiredBytes :: "64 word"
  ca_requiredInodes :: "64 word"

definition zero_capacity :: PublicationCapacity where
  "zero_capacity = \<lparr>ca_manifest = 0, ca_filesystem = ((0, 0), 0), ca_requiredBytes = 0, ca_requiredInodes = 0\<rparr>"

end
