(* ===== verification/AppWorld.thy ===== *)
theory AppWorld
  imports AppTypes
begin

text \<open>
  The operations that the application calls on the container runtime, the image resolver, the backup
  directory and the host (the record \<open>ports\<close>, a parameter of every program), and the world in which an
  application program runs. The world extends the store's with the state behind the ports, with the
  trace of external calls (each with the tables as they were at the call), with the published events
  and with the fields of the journal decorator in use.
\<close>

section \<open>External operations\<close>

text \<open>
  The interfaces \<open>Runtime\<close>, \<open>ImageRuntime\<close>, \<open>WorkloadEffectRuntime\<close>, \<open>WorkloadStartRuntime\<close>,
  \<open>WorkloadTransitionRuntime\<close>, \<open>WorkloadDiscardRuntime\<close> and \<open>WorkloadArchiveRuntime\<close>, whose implementations are the
  runtime plugins; image references (a third-party grammar); the image resolver; the backup directory
  and the host's file system. Each operation may read and change the state \<open>'r\<close> behind the ports in any
  way and return anything. \<open>ResumeIncompleteWorkloadTransition\<close> is optional, as in the code. \<open>po_Load\<close> is
  \<open>compose.Load\<close> on the source of the request; \<open>po_databaseName\<close> and \<open>po_backupRoot\<close> are the base name of the
  state database and the directory beside it; \<open>po_events\<close> tells whether an event sink is configured and
  \<open>po_mutates\<close> whether the runtime implements the interface \<open>mutationRuntime\<close>.
\<close>

text \<open>
  What the application uses of a loaded Compose project (\<open>compose.Project\<close>): its name and, for a service,
  the image to use, the runtime and the workload that results from a resolved image.
\<close>

datatype ImageInput = ImageInputRegistry string | ImageInputDockerArchive ImageIdentity | ImageInputOther

record ComposeProject =
  cp_Name :: string
  cp_ImageInput :: "string \<Rightarrow> go_error + ImageInput"
  cp_Runtime :: "string \<Rightarrow> go_error + RuntimeKind"
  cp_Workload :: "string \<Rightarrow> ImageIdentity \<Rightarrow> go_error + DesiredWorkload"

record 'r ports =
  po_hash :: hash
  po_databaseName :: string
  po_backupRoot :: string
  po_events :: bool
  po_mutates :: bool
  po_Load :: "'r \<Rightarrow> (go_error + ComposeProject) \<times> 'r"
  po_Normalize :: "string \<Rightarrow> (string \<times> bool) option"
  po_Parse :: "string \<Rightarrow> digest option"
  po_Inspect :: "'r \<Rightarrow> (go_error + RuntimeEvidence) \<times> 'r"
  po_CheckWorkload :: "DesiredWorkload \<Rightarrow> go_error option"
  po_ObserveWorkload :: "DesiredWorkload \<Rightarrow> 'r \<Rightarrow> (go_error + WorkloadObservation) \<times> 'r"
  po_Resolve :: "string \<Rightarrow> Platform \<Rightarrow> 'r \<Rightarrow> (go_error + ImageIdentity) \<times> 'r"
  po_ProbeImage :: "ImageIdentity \<Rightarrow> 'r \<Rightarrow> (go_error + ImageProbe) \<times> 'r"
  po_PullImage :: "ImageIdentity \<Rightarrow> 'r \<Rightarrow> go_error option \<times> 'r"
  po_CreateWorkload :: "DesiredWorkload \<Rightarrow> string \<Rightarrow> WorkloadCreateOptions \<Rightarrow> 'r \<Rightarrow> (string \<times> go_error option) \<times> 'r"
  po_ProbeCreatedWorkload :: "DesiredWorkload \<Rightarrow> string \<Rightarrow> string \<Rightarrow> 'r \<Rightarrow> (go_error + WorkloadEffectProbe) \<times> 'r"
  po_StartWorkload :: "DesiredWorkload \<Rightarrow> string \<Rightarrow> 'r \<Rightarrow> go_error option \<times> 'r"
  po_ProbeStartedWorkload :: "DesiredWorkload \<Rightarrow> string \<Rightarrow> 'r \<Rightarrow> (go_error + WorkloadEffectProbe) \<times> 'r"
  po_ApplyWorkloadTransition :: "WorkloadTransition \<Rightarrow> 'r \<Rightarrow> go_error option \<times> 'r"
  po_ProbeWorkloadTransition :: "WorkloadTransition \<Rightarrow> 'r \<Rightarrow> (go_error + WorkloadTransitionProbe) \<times> 'r"
  po_ResumeIncomplete :: "(WorkloadTransition \<Rightarrow> 'r \<Rightarrow> go_error option \<times> 'r) option"
  po_DiscardWorkload :: "DesiredWorkload \<Rightarrow> string \<Rightarrow> 'r \<Rightarrow> go_error option \<times> 'r"
  po_ProbeDiscardedWorkload :: "DesiredWorkload \<Rightarrow> string \<Rightarrow> 'r \<Rightarrow> (go_error + WorkloadEffectProbe) \<times> 'r"
  po_GetWorkloadArchive :: "DesiredWorkload \<Rightarrow> string \<Rightarrow> string \<Rightarrow> nat \<Rightarrow> 'r \<Rightarrow> (go_error + bytes) \<times> 'r"
  po_PutWorkloadArchive :: "DesiredWorkload \<Rightarrow> string \<Rightarrow> string \<Rightarrow> bytes \<Rightarrow> 'r \<Rightarrow> go_error option \<times> 'r"
  po_Analyze :: "bytes \<Rightarrow> nat \<Rightarrow> 'r \<Rightarrow> (go_error + Inventory) \<times> 'r"
  po_OpenBackup :: "string \<Rightarrow> transaction_id \<Rightarrow> 'r \<Rightarrow> (go_error + Publication option) \<times> 'r"
  po_PublishBackup :: "string \<Rightarrow> Manifest \<Rightarrow> (string \<times> bytes \<times> nat) list \<Rightarrow> PublicationCapacity \<Rightarrow> 'r \<Rightarrow> (go_error + Publication) \<times> 'r"
  po_PrepareCapacity :: "string \<Rightarrow> Manifest \<Rightarrow> 'r \<Rightarrow> (go_error + PublicationCapacity) \<times> 'r"
  po_EnsureEmptyBind :: "string \<Rightarrow> 'r \<Rightarrow> go_error option \<times> 'r"
  po_Materialize :: "'r \<Rightarrow> go_error option \<times> 'r"
  po_Clock :: "'r \<Rightarrow> int \<times> 'r"
  po_Token :: "'r \<Rightarrow> (go_error + transaction_id) \<times> 'r"

text \<open>One external call, as it appears in the trace.\<close>

datatype call = CallLoad | CallInspect | CallObserve DesiredWorkload | CallResolve string Platform | CallProbeImage ImageIdentity
  | CallPullImage ImageIdentity | CallCreate DesiredWorkload string WorkloadCreateOptions
  | CallProbeCreated DesiredWorkload string string | CallStart DesiredWorkload string | CallProbeStarted DesiredWorkload string
  | CallTransition WorkloadTransition | CallProbeTransition WorkloadTransition | CallResumeTransition WorkloadTransition
  | CallDiscard DesiredWorkload string | CallProbeDiscarded DesiredWorkload string
  | CallGetArchive DesiredWorkload string string | CallPutArchive DesiredWorkload string string bytes
  | CallAnalyze | CallOpenBackup transaction_id | CallPublishBackup Manifest | CallPrepareCapacity Manifest
  | CallEnsureEmptyBind string | CallMaterialize | CallClock | CallToken

text \<open>The calls that change workloads, images or backups.\<close>

definition mutating :: "call \<Rightarrow> bool" where
  "mutating c = (case c of CallPullImage _ \<Rightarrow> True | CallCreate _ _ _ \<Rightarrow> True | CallStart _ _ \<Rightarrow> True | CallTransition _ \<Rightarrow> True
     | CallResumeTransition _ \<Rightarrow> True | CallDiscard _ _ \<Rightarrow> True | CallPutArchive _ _ _ _ \<Rightarrow> True | CallPublishBackup _ \<Rightarrow> True
     | _ \<Rightarrow> False)"

section \<open>The application's world\<close>

record 'r app_world = store_world +
  aw_rt :: 'r
  aw_trace :: "(call \<times> db) list"
  aw_events :: "Event list"
  aw_action :: string
  aw_satisfied :: bool

type_synonym ('r, 'a) app = "('r app_world, 'a) state"

definition external :: "call \<Rightarrow> ('r \<Rightarrow> 'a \<times> 'r) \<Rightarrow> ('r, 'a) app" where
  "external c f = State (\<lambda>w. case f (aw_rt w) of (x, r) \<Rightarrow> (x, w\<lparr>aw_rt := r, aw_trace := aw_trace w @ [(c, sw_db w)]\<rparr>))"

text \<open>
  \<open>tryPublish\<close>: with a sink the event is offered to it, and whatever the sink does (accept, drop, panic) has
  no further effect; without a sink nothing happens.
\<close>

definition tryPublish :: "bool \<Rightarrow> Event \<Rightarrow> ('r, unit) app" where
  "tryPublish sink event = State (\<lambda>w. ((), if sink then w\<lparr>aw_events := aw_events w @ [event]\<rparr> else w))"

definition modify_world :: "('r app_world \<Rightarrow> 'r app_world) \<Rightarrow> ('r, unit) app" where
  "modify_world f = State (\<lambda>w. ((), f w))"

section \<open>What a program does outside the store\<close>

text \<open>
  \<open>extends P\<close>: a trace grows, and each new call satisfies \<open>P\<close> of the call and of the tables at its time.
  \<open>performs K m\<close>: the program leaves the tables alone and its external calls are among \<open>K\<close>. A program
  with \<open>performs (Not \<circ> mutating)\<close> only observes.
\<close>

definition extends :: "(call \<Rightarrow> db \<Rightarrow> bool) \<Rightarrow> (call \<times> db) list \<Rightarrow> (call \<times> db) list \<Rightarrow> bool" where
  "extends P tr tr' \<longleftrightarrow> (\<exists>new. tr' = tr @ new \<and> (\<forall>e \<in> set new. P (fst e) (snd e)))"

lemma extends_refl [simp]: "extends P tr tr"
  by (simp add: extends_def)

lemma extends_trans: "extends P a b \<Longrightarrow> extends P b c \<Longrightarrow> extends P a c"
  by (force simp: extends_def)

lemma extends_mono: "extends P a b \<Longrightarrow> (\<And>c d. P c d \<Longrightarrow> Q c d) \<Longrightarrow> extends Q a b"
  by (auto simp: extends_def)

lemma extends_orders [moves_rules]: "reflp (extends P)" "transp (extends P)"
  by (auto intro: reflpI transpI extends_trans)

definition performs :: "(call \<Rightarrow> bool) \<Rightarrow> ('r, 'a) app \<Rightarrow> bool" where
  "performs K m \<longleftrightarrow> (\<forall>s x t. run_state m s = (x, t) \<longrightarrow> sw_db t = sw_db s \<and> sw_env t = sw_env s \<and>
     extends (\<lambda>c d. K c \<and> d = sw_db s) (aw_trace s) (aw_trace t))"

named_theorems performs_rules \<open>decomposition of a program for \<open>performs\<close>\<close>

lemma performsD:
  "performs K m \<Longrightarrow> run_state m s = (x, t) \<Longrightarrow>
   sw_db t = sw_db s \<and> sw_env t = sw_env s \<and> extends (\<lambda>c d. K c \<and> d = sw_db s) (aw_trace s) (aw_trace t)"
  by (simp add: performs_def)

lemma performsI:
  "(\<And>s x t. run_state m s = (x, t) \<Longrightarrow> sw_db t = sw_db s \<and> sw_env t = sw_env s \<and>
     extends (\<lambda>c d. K c \<and> d = sw_db s) (aw_trace s) (aw_trace t)) \<Longrightarrow> performs K m"
  by (simp add: performs_def)

lemma performs_mono: "performs K m \<Longrightarrow> (\<And>c. K c \<Longrightarrow> L c) \<Longrightarrow> performs L m"
  by (rule performsI) (auto dest!: performsD elim!: extends_mono)

lemma performs_return [performs_rules]: "performs K (State_Monad.return x)"
  by (auto simp: performs_def)

lemma performs_bind [performs_rules]:
  assumes "performs K m" and "\<And>x. performs K (g x)"
  shows "performs K (State_Monad.bind m g)"
proof (rule performsI)
  fix s y u assume "run_state (State_Monad.bind m g) s = (y, u)"
  then obtain x t where "run_state m s = (x, t)" "run_state (g x) t = (y, u)" by (rule run_bindE)
  from performsD [OF assms(1) this(1)] performsD [OF assms(2) this(2)]
  show "sw_db u = sw_db s \<and> sw_env u = sw_env s \<and> extends (\<lambda>c d. K c \<and> d = sw_db s) (aw_trace s) (aw_trace u)"
    by (auto elim: extends_trans)
qed

lemma performs_if [performs_rules]: "(b \<Longrightarrow> performs K m) \<Longrightarrow> (\<not> b \<Longrightarrow> performs K n) \<Longrightarrow> performs K (if b then m else n)"
  by simp

lemma performs_case_option [performs_rules]:
  "(x = None \<Longrightarrow> performs K m) \<Longrightarrow> (\<And>y. x = Some y \<Longrightarrow> performs K (g y)) \<Longrightarrow>
   performs K (case x of None \<Rightarrow> m | Some y \<Rightarrow> g y)"
  by (cases x) auto

lemma performs_case_sum [performs_rules]:
  "(\<And>e. x = Inl e \<Longrightarrow> performs K (g e)) \<Longrightarrow> (\<And>y. x = Inr y \<Longrightarrow> performs K (h y)) \<Longrightarrow>
   performs K (case x of Inl e \<Rightarrow> g e | Inr y \<Rightarrow> h y)"
  by (cases x) auto

lemma performs_case_prod [performs_rules]:
  "(\<And>a b. x = (a, b) \<Longrightarrow> performs K (g a b)) \<Longrightarrow> performs K (case x of (a, b) \<Rightarrow> g a b)"
  by (cases x) auto

lemma performs_Let [performs_rules]: "(\<And>y. y = x \<Longrightarrow> performs K (g y)) \<Longrightarrow> performs K (let y = x in g y)"
  by simp

lemma performs_external [performs_rules]: "K c \<Longrightarrow> performs K (external c f)"
  by (auto simp: performs_def external_def extends_def split: prod.splits)

lemma performs_publish [performs_rules]: "performs K (tryPublish sink e)"
  by (auto simp: performs_def tryPublish_def)

lemma performs_moves: "performs K m \<Longrightarrow> moves sw_db (=) m"
  by (auto intro!: movesI dest: performsD)

lemma performs_trace: "performs K m \<Longrightarrow> moves aw_trace (extends (\<lambda>c _. K c)) m"
  by (auto intro!: movesI dest!: performsD elim!: extends_mono)

text \<open>A program of the store makes no external call.\<close>

lemma same_more: "store_world.more w = store_world.more v \<Longrightarrow> aw_trace w = aw_trace v" for w v :: "'r app_world"
  by (cases w; cases v) simp

lemma reads_performs [performs_rules]:
  assumes "reads m" shows "performs K m"
proof (rule performsI)
  fix s :: "'a app_world" and x t assume run: "run_state m s = (x, t)"
  have "sw_db t = sw_db s" "sw_env t = sw_env s" "store_world.more t = store_world.more s"
    using assms movesD [OF _ run] unfolding reads_def by fastforce+
  then show "sw_db t = sw_db s \<and> sw_env t = sw_env s \<and> extends (\<lambda>c d. K c \<and> d = sw_db s) (aw_trace s) (aw_trace t)"
    using same_more [of t s] by simp
qed

lemma more_trace: "moves store_world.more (=) m \<Longrightarrow> moves aw_trace (extends P) m" for m :: "('r, 'a) app"
  by (rule movesI) (drule (1) movesD, drule sym, drule same_more, simp)

section \<open>Programs of the store make no external call\<close>

named_theorems inner_rules \<open>programs that leave the world outside the store alone\<close>

lemma inner_reads [inner_rules]: "reads m \<Longrightarrow> moves store_world.more (=) m"
  by (simp add: reads_def)

lemmas inner_structure = moves_bind moves_return moves_if moves_case_option moves_case_sum moves_case_prod moves_Let moves_orders(1,2)

lemma inner_fenced [inner_rules]:
  "(\<And>d. reads (operation d (sl_lease lock))) \<Longrightarrow> moves store_world.more (=) (withFencedWrite lock operation)"
  unfolding withFencedWrite_def by (intro inner_structure moves_sql_commit inner_reads reads_rules)

lemma inner_writes [inner_rules]:
  "moves store_world.more (=) (BeginTransaction lock intent)"
  "moves store_world.more (=) (SetTransactionState lock i st)"
  "moves store_world.more (=) (RecordActionIntent lock i action)"
  "moves store_world.more (=) (MarkActionEffectOutcomeUnknown lock i n)"
  "moves store_world.more (=) (CompleteAction lock i n p)"
  "moves store_world.more (=) (CommitAppliedService lock i applied)"
  unfolding BeginTransaction_def SetTransactionState_def RecordActionIntent_def MarkActionEffectOutcomeUnknown_def
    CompleteAction_def CommitAppliedService_def updateAction_def
  by (intro inner_structure inner_fenced inner_reads reads_rules)+

lemma inner_lease [inner_rules]:
  "moves store_world.more (=) (acquireWriterLease sid)" "moves store_world.more (=) (releaseWriterLease l)"
  unfolding acquireWriterLease_def releaseWriterLease_def
  by (intro inner_structure moves_sql_commit inner_reads reads_rules)+

lemma inner_lock [inner_rules]:
  "moves store_world.more (=) (openServiceLock H n p s)" "moves store_world.more (=) (lock_Close lock)"
  unfolding openServiceLock_def lock_Close_def
  by (intro inner_structure inner_lease inner_reads reads_rules)+

lemma inner_trace [moves_rules]: "moves store_world.more (=) m \<Longrightarrow> moves aw_trace (=) m" for m :: "('r, 'a) app"
  by (rule movesI) (drule (1) movesD, drule sym, erule same_more)

end
