(* ===== verification/Effect.thy ===== *)
theory Effect
  imports AppWorld
begin

text \<open>
  One runtime effect under the journal (\<open>src/internal/application/effect.go\<close>, and the event decorator of
  the journal in \<open>event.go\<close>). An effect is a value of the record \<open>effect\<close>: how it applies, how it probes,
  and, if it can be resumed, when it is incomplete and how it resumes; the fields of the Go object are
  threaded as \<open>'e\<close>. The locale \<open>runtime_effect\<close> states what the journal protocol relies on: an effect
  never touches the store and makes only its own calls, and probing never changes anything outside either.
\<close>

section \<open>Effects\<close>

record ('r, 'e) effect =
  ef_Apply :: "'e \<Rightarrow> ('r, go_error option \<times> 'e) app"
  ef_Probe :: "'e \<Rightarrow> ('r, (go_error + EffectPostcondition) \<times> 'e) app"
  ef_resumer :: "(('e \<Rightarrow> bool) \<times> ('e \<Rightarrow> ('r, go_error option \<times> 'e) app)) option"

text \<open>The result \<open>(EffectPostcondition, error)\<close>, with the fields of the effect afterwards.\<close>

type_synonym 'e effect_result = "(EffectPostcondition \<times> go_error option) \<times> 'e"

section \<open>The journal and its event decorator (event.go)\<close>

record observedEffectJournal =
  oj_lock :: ServiceLock
  oj_events :: bool
  oj_context :: Event

definition journal_publish :: "observedEffectJournal \<Rightarrow> EventKind \<Rightarrow> Action \<Rightarrow> string \<Rightarrow> bool \<Rightarrow> ('r, unit) app" where
  "journal_publish journal kind action evidence satisfied =
     tryPublish (oj_events journal) ((oj_context journal)\<lparr>ev_Kind := kind, ev_Transaction := id_String (ac_TransactionID action),
       ev_Action := ac_Kind action, ev_Sequence := ac_Sequence action, ev_Evidence := evidence, ev_Satisfied := satisfied\<rparr>)"

definition set_action :: "string \<Rightarrow> ('r, unit) app" where
  "set_action kind = modify_world (\<lambda>w. w\<lparr>aw_action := kind\<rparr>)"

definition observed_RecordActionIntent ::
  "observedEffectJournal \<Rightarrow> transaction_id \<Rightarrow> ActionIntent \<Rightarrow> ('r, go_error + Action) app" where
  "observed_RecordActionIntent journal i intent = do {
     r \<leftarrow> RecordActionIntent (oj_lock journal) i intent;
     case r of Inl e \<Rightarrow> State_Monad.return (Inl e)
     | Inr action \<Rightarrow> do {
         set_action (ac_Kind action);
         journal_publish journal EventActionIntentRecorded action '''' False;
         State_Monad.return (Inr action) } }"

definition observed_MarkActionEffectOutcomeUnknown ::
  "observedEffectJournal \<Rightarrow> transaction_id \<Rightarrow> int \<Rightarrow> ('r, go_error + Action) app" where
  "observed_MarkActionEffectOutcomeUnknown journal i sequence = do {
     r \<leftarrow> MarkActionEffectOutcomeUnknown (oj_lock journal) i sequence;
     case r of Inl e \<Rightarrow> State_Monad.return (Inl e)
     | Inr action \<Rightarrow> do {
         set_action (ac_Kind action);
         journal_publish journal EventRuntimeEffectStarted action '''' False;
         State_Monad.return (Inr action) } }"

definition journal_satisfied :: "('r, bool) app" where
  "journal_satisfied = State (\<lambda>w. (aw_satisfied w, w))"

definition observed_CompleteAction ::
  "observedEffectJournal \<Rightarrow> transaction_id \<Rightarrow> int \<Rightarrow> digest \<Rightarrow> ('r, go_error + Action) app" where
  "observed_CompleteAction journal i sequence postcondition = do {
     r \<leftarrow> CompleteAction (oj_lock journal) i sequence postcondition;
     case r of Inl e \<Rightarrow> State_Monad.return (Inl e)
     | Inr action \<Rightarrow> do {
         set_action (ac_Kind action);
         satisfied \<leftarrow> journal_satisfied;
         journal_publish journal EventActionCompleted action (digest_String postcondition) satisfied;
         State_Monad.return (Inr action) } }"

definition journal_action :: "('r, string) app" where
  "journal_action = State (\<lambda>w. (aw_action w, w))"

definition publishPostcondition ::
  "observedEffectJournal \<Rightarrow> transaction_id \<Rightarrow> int \<Rightarrow> EffectPostcondition \<Rightarrow> ('r, unit) app" where
  "publishPostcondition journal i sequence postcondition = do {
     modify_world (\<lambda>w. w\<lparr>aw_satisfied := pc_Satisfied postcondition\<rparr>);
     kind \<leftarrow> journal_action;
     journal_publish journal EventPostconditionObserved
       (zero_Action\<lparr>ac_TransactionID := i, ac_Sequence := sequence, ac_Kind := kind\<rparr>)
       (digest_String (pc_Digest postcondition)) (pc_Satisfied postcondition) }"

section \<open>The effect protocol (effect.go)\<close>

definition publishEffectPostcondition ::
  "observedEffectJournal \<Rightarrow> transaction_id \<Rightarrow> int \<Rightarrow> EffectPostcondition \<Rightarrow> ('r, unit) app" where
  "publishEffectPostcondition journal i sequence postcondition =
     (if pc_Digest postcondition \<noteq> 0 then publishPostcondition journal i sequence postcondition else State_Monad.return ())"

definition actionMatchesIntent :: "Action \<Rightarrow> transaction_id \<Rightarrow> ActionIntent \<Rightarrow> bool" where
  "actionMatchesIntent action i intent \<longleftrightarrow>
     ac_TransactionID action = i \<and> ac_Sequence action = an_Sequence intent \<and> ac_Kind action = an_Kind intent \<and>
     ac_IntentDigest action = an_IntentDigest intent \<and> ac_PostconditionDigest action = None"

definition completedActionMatches :: "Action \<Rightarrow> transaction_id \<Rightarrow> int \<Rightarrow> digest \<Rightarrow> bool" where
  "completedActionMatches action i sequence postcondition \<longleftrightarrow>
     ac_TransactionID action = i \<and> ac_Sequence action = sequence \<and> ac_State action = ActionStateCompleted \<and>
     ac_PostconditionDigest action = Some postcondition"

definition effect_incomplete :: "('r, 'e) effect \<Rightarrow> 'e \<Rightarrow> bool" where
  "effect_incomplete eff e = (case ef_resumer eff of None \<Rightarrow> False | Some (incomplete, _) \<Rightarrow> incomplete e)"

definition effect_resume :: "('r, 'e) effect \<Rightarrow> 'e \<Rightarrow> ('r, go_error option \<times> 'e) app" where
  "effect_resume eff e = (case ef_resumer eff of None \<Rightarrow> State_Monad.return (None, e) | Some (_, resume) \<Rightarrow> resume e)"

definition completeRuntimeEffect ::
  "observedEffectJournal \<Rightarrow> transaction_id \<Rightarrow> int \<Rightarrow> EffectPostcondition \<Rightarrow> go_error option \<Rightarrow>
   ('r, EffectPostcondition \<times> go_error option) app" where
  "completeRuntimeEffect journal i sequence postcondition effectErr = do {
     r \<leftarrow> observed_CompleteAction journal i sequence (pc_Digest postcondition);
     State_Monad.return (case r of
       Inl e \<Rightarrow> (empty_postcondition, Some (Wrap ''complete runtime effect'' e))
     | Inr completed \<Rightarrow>
         if \<not> completedActionMatches completed i sequence (pc_Digest postcondition)
         then (empty_postcondition, Some ErrConflictingState)
         else if pc_Satisfied postcondition then (postcondition, None)
         else (case effectErr of
                 Some e \<Rightarrow> (postcondition, Some (Wrap ''apply runtime effect'' e))
               | None \<Rightarrow> (postcondition, Some ErrConflictingState))) }"

definition resumeRuntimeEffect ::
  "observedEffectJournal \<Rightarrow> transaction_id \<Rightarrow> int \<Rightarrow> ('r, 'e) effect \<Rightarrow> EffectPostcondition \<Rightarrow> go_error option \<Rightarrow> 'e \<Rightarrow>
   ('r, 'e effect_result) app" where
  "resumeRuntimeEffect journal i sequence eff postcondition effectErr e =
     (if \<not> effect_incomplete eff e then State_Monad.return ((postcondition, None), e)
      else do {
        fenced \<leftarrow> Fence (oj_lock journal);
        case fenced of
          Some err \<Rightarrow> State_Monad.return
            ((empty_postcondition, errors_Join [effectErr, Some (Wrap ''fence resumed runtime effect'' err)]), e)
        | None \<Rightarrow> do {
            (resumeErr, e) \<leftarrow> effect_resume eff e;
            (probe, e) \<leftarrow> ef_Probe eff e;
            case probe of
              Inl probeErr \<Rightarrow> State_Monad.return
                ((empty_postcondition, errors_Join [effectErr, resumeErr, Some probeErr]), e)
            | Inr resumed \<Rightarrow> do {
                publishEffectPostcondition journal i sequence resumed;
                State_Monad.return
                  (if \<not> pc_Satisfied resumed
                   then ((empty_postcondition, errors_Join [effectErr, resumeErr, Some ErrConflictingState]), e)
                   else ((resumed, None), e)) } } })"

definition probeRuntimeEffect ::
  "observedEffectJournal \<Rightarrow> transaction_id \<Rightarrow> int \<Rightarrow> ('r, 'e) effect \<Rightarrow> go_error option \<Rightarrow> 'e \<Rightarrow> ('r, 'e effect_result) app" where
  "probeRuntimeEffect journal i sequence eff effectErr e = do {
     (probe, e) \<leftarrow> ef_Probe eff e;
     case probe of
       Inl probeErr \<Rightarrow> State_Monad.return ((empty_postcondition, errors_Join [effectErr, Some probeErr]), e)
     | Inr postcondition \<Rightarrow> do {
         publishEffectPostcondition journal i sequence postcondition;
         if pc_Digest postcondition = 0 then State_Monad.return ((empty_postcondition, Some ErrConflictingState), e)
         else if \<not> pc_Satisfied postcondition then do {
           ((postcondition, err), e) \<leftarrow> resumeRuntimeEffect journal i sequence eff postcondition effectErr e;
           case err of
             Some err \<Rightarrow> State_Monad.return ((empty_postcondition, Some err), e)
           | None \<Rightarrow> do {
               r \<leftarrow> completeRuntimeEffect journal i sequence postcondition effectErr;
               State_Monad.return (r, e) } }
         else do {
           r \<leftarrow> completeRuntimeEffect journal i sequence postcondition effectErr;
           State_Monad.return (r, e) } } }"

definition recoverRuntimeEffect ::
  "observedEffectJournal \<Rightarrow> transaction_id \<Rightarrow> int \<Rightarrow> ('r, 'e) effect \<Rightarrow> 'e \<Rightarrow> ('r, 'e effect_result) app" where
  "recoverRuntimeEffect journal i sequence eff e = do {
     (probe, e) \<leftarrow> ef_Probe eff e;
     case probe of
       Inl err \<Rightarrow> State_Monad.return ((empty_postcondition, Some (Wrap ''probe recovered runtime effect'' err)), e)
     | Inr postcondition \<Rightarrow> do {
         publishEffectPostcondition journal i sequence postcondition;
         if pc_Digest postcondition = 0 then State_Monad.return ((empty_postcondition, Some ErrConflictingState), e)
         else if pc_Satisfied postcondition then do {
           r \<leftarrow> completeRuntimeEffect journal i sequence postcondition None;
           State_Monad.return (r, e) }
         else if effect_incomplete eff e then do {
           ((postcondition, err), e) \<leftarrow> resumeRuntimeEffect journal i sequence eff postcondition None e;
           case err of
             Some err \<Rightarrow> State_Monad.return ((empty_postcondition, Some err), e)
           | None \<Rightarrow> do {
               r \<leftarrow> completeRuntimeEffect journal i sequence postcondition None;
               State_Monad.return (r, e) } }
         else do {
           fenced \<leftarrow> Fence (oj_lock journal);
           case fenced of
             Some err \<Rightarrow> State_Monad.return ((empty_postcondition, Some (Wrap ''fence recovered runtime effect'' err)), e)
           | None \<Rightarrow> do {
               (effectErr, e) \<leftarrow> ef_Apply eff e;
               probeRuntimeEffect journal i sequence eff effectErr e } } } }"

definition applyRuntimeEffect ::
  "observedEffectJournal \<Rightarrow> transaction_id \<Rightarrow> ActionIntent \<Rightarrow> ('r, 'e) effect \<Rightarrow> Action \<Rightarrow> 'e \<Rightarrow> ('r, 'e effect_result) app" where
  "applyRuntimeEffect journal i intent eff action e =
     (if \<not> actionMatchesIntent action i intent then State_Monad.return ((empty_postcondition, Some ErrConflictingState), e)
      else do {
        fenced \<leftarrow> Fence (oj_lock journal);
        case fenced of
          Some err \<Rightarrow> State_Monad.return ((empty_postcondition, Some (Wrap ''fence runtime effect intent'' err)), e)
        | None \<Rightarrow> do {
            r \<leftarrow> observed_MarkActionEffectOutcomeUnknown journal i (an_Sequence intent);
            case r of
              Inl err \<Rightarrow> State_Monad.return ((empty_postcondition, Some (Wrap ''mark runtime effect outcome'' err)), e)
            | Inr marked \<Rightarrow>
                if \<not> actionMatchesIntent marked i intent \<or> ac_State marked \<noteq> ActionStateEffectOutcomeUnknown \<or>
                   ac_PostconditionDigest marked \<noteq> None
                then State_Monad.return ((empty_postcondition, Some ErrConflictingState), e)
                else do {
                  (effectErr, e) \<leftarrow> ef_Apply eff e;
                  probeRuntimeEffect journal i (an_Sequence intent) eff effectErr e } } })"

definition runRuntimeEffect ::
  "observedEffectJournal \<Rightarrow> transaction_id \<Rightarrow> ActionIntent \<Rightarrow> ('r, 'e) effect \<Rightarrow> 'e \<Rightarrow> ('r, 'e effect_result) app" where
  "runRuntimeEffect journal i intent eff e = do {
     r \<leftarrow> observed_RecordActionIntent journal i intent;
     case r of
       Inl err \<Rightarrow> State_Monad.return ((empty_postcondition, Some (Wrap ''record runtime effect intent'' err)), e)
     | Inr action \<Rightarrow>
         (case ac_State action of
            ActionStateIntent \<Rightarrow> applyRuntimeEffect journal i intent eff action e
          | ActionStateEffectOutcomeUnknown \<Rightarrow>
              if \<not> actionMatchesIntent action i intent
              then State_Monad.return ((empty_postcondition, Some ErrConflictingState), e)
              else recoverRuntimeEffect journal i (an_Sequence intent) eff e
          | ActionStateCompleted \<Rightarrow> State_Monad.return ((empty_postcondition, Some ErrConflictingState), e)
          | ActionStateOther _ \<Rightarrow> State_Monad.return ((empty_postcondition, Some ErrConflictingState), e)) }"

section \<open>The journal side of the protocol\<close>

text \<open>
  What the tables show while an external change is under way: the lock's lease is the current one, the
  transaction is unresolved, and the action stands with the intent's kind and digest and an unknown outcome.
\<close>

definition journaled :: "ServiceLock \<Rightarrow> transaction_id \<Rightarrow> ActionIntent \<Rightarrow> db \<Rightarrow> bool" where
  "journaled lock i intent d \<longleftrightarrow> holds d (sl_lease lock) \<and> unresolved_transaction_exists d i (wl_serviceID (sl_lease lock)) \<and>
     (\<exists>row \<in> set (db_actions d). action_is i (an_Sequence intent) row \<and> jr_kind row = an_Kind intent \<and>
        jr_intent row = an_IntentDigest intent \<and> jr_state row = ActionStateEffectOutcomeUnknown)"

definition write_ahead :: "ServiceLock \<Rightarrow> transaction_id \<Rightarrow> ActionIntent \<Rightarrow> call \<Rightarrow> db \<Rightarrow> bool" where
  "write_ahead lock i intent c d \<longleftrightarrow> (mutating c \<longrightarrow> journaled lock i intent d)"

lemma performs_world [performs_rules]:
  "performs K (set_action k)" "performs K journal_satisfied" "performs K journal_action"
  "performs K (modify_world (\<lambda>w. w\<lparr>aw_satisfied := b\<rparr>))"
  by (auto simp: performs_def set_action_def modify_world_def journal_satisfied_def journal_action_def)

lemma performs_event [performs_rules]:
  "performs K (journal_publish j k a ev b)" "performs K (publishPostcondition j i n p)"
  "performs K (publishEffectPostcondition j i n p)"
  unfolding journal_publish_def publishPostcondition_def publishEffectPostcondition_def by (intro performs_rules)+

lemma quiet_world_steps [moves_rules]:
  "moves aw_trace (=) (set_action k)" "moves aw_trace (=) journal_satisfied" "moves aw_trace (=) (journal_publish j kd a ev b)"
  by (auto intro!: movesI simp: set_action_def modify_world_def journal_satisfied_def journal_publish_def tryPublish_def
      split: if_split_asm)

lemmas quiet_rules = moves_bind moves_return moves_if moves_case_option moves_case_sum moves_case_prod moves_Let moves_orders(1,2)
  quiet_world_steps inner_trace

lemma quiet_observed [moves_rules]:
  "moves aw_trace (=) (observed_RecordActionIntent j i intent)"
  "moves aw_trace (=) (observed_MarkActionEffectOutcomeUnknown j i n)"
  "moves aw_trace (=) (observed_CompleteAction j i n p)"
  "moves aw_trace (=) (completeRuntimeEffect j i n pc err)"
  unfolding observed_RecordActionIntent_def observed_MarkActionEffectOutcomeUnknown_def observed_CompleteAction_def completeRuntimeEffect_def
  by (intro quiet_rules inner_rules)+

lemma published_db: "run_state (journal_publish j k a ev b) s = (u, t) \<Longrightarrow> sw_db t = sw_db s"
  "run_state (set_action k') s = (u, t) \<Longrightarrow> sw_db t = sw_db s" "run_state journal_satisfied s = (v, t) \<Longrightarrow> sw_db t = sw_db s"
  by (auto simp: journal_publish_def tryPublish_def set_action_def modify_world_def journal_satisfied_def split: if_split_asm)

lemma observed_outcome:
  "run_state (observed_RecordActionIntent j i intent) s = (r, t) \<Longrightarrow>
     \<exists>u. run_state (RecordActionIntent (oj_lock j) i intent) s = (r, u) \<and> sw_db t = sw_db u"
  "run_state (observed_MarkActionEffectOutcomeUnknown j i n) s = (r, t) \<Longrightarrow>
     \<exists>u. run_state (MarkActionEffectOutcomeUnknown (oj_lock j) i n) s = (r, u) \<and> sw_db t = sw_db u"
  "run_state (observed_CompleteAction j i n p) s = (r, t) \<Longrightarrow>
     \<exists>u. run_state (CompleteAction (oj_lock j) i n p) s = (r, u) \<and> sw_db t = sw_db u"
  by (auto simp: observed_RecordActionIntent_def observed_MarkActionEffectOutcomeUnknown_def observed_CompleteAction_def
      simp del: run_state_bind elim!: run_bindE dest!: published_db split: sum.split_asm)

lemma recorded_journaled:
  fixes s t :: "'z store_world_scheme"
  assumes run: "run_state (RecordActionIntent lock i intent) s = (Inr a, t)"
    and unknown: "ac_State a = ActionStateEffectOutcomeUnknown" and "actionMatchesIntent a i intent"
  shows "journaled lock i intent (sw_db t)"
proof -
  obtain u where w: "run_state (withFencedWrite lock (recordActionIntent i intent)) s = (Inr (), u)"
    and l: "run_state (lock_action i (an_Sequence intent)) u = (Inr a, t)"
    using run by (auto simp: RecordActionIntent_def simp del: run_state_bind elim!: run_bindE split: if_split_asm sum.split_asm)
  obtain u' v' :: "'z store_world_scheme" where op: "run_state (recordActionIntent i intent (sw_db s) (sl_lease lock)) u' = (Inr (sw_db u, ()), v')"
    and held: "holds (sw_db u) (sl_lease lock)"
    using fenced_success [OF w reads_record] by blast
  from lock_action_outcome [OF l] obtain row where tu: "sw_db t = sw_db u"
    and row: "row \<in> set (db_actions (sw_db t))" "action_is i (an_Sequence intent) row" "action_of_row row = Some a" by auto
  have "unresolved_transaction_exists (sw_db t) i (wl_serviceID (sl_lease lock))"
    using record_body_outcome [OF op] tu
    by (auto simp: sql_insert_action_def checked_Inr unresolved_transaction_exists_def intent_row_def split: if_split_asm)
  then show ?thesis
    using held row action_of_row_fields [OF row(3)] assms(2,3) tu unfolding journaled_def actionMatchesIntent_def by auto
qed

lemma marked_journaled:
  fixes s t :: "'z store_world_scheme"
  assumes run: "run_state (MarkActionEffectOutcomeUnknown lock i n) s = (Inr a, t)" and n: "n = an_Sequence intent"
    and unknown: "ac_State a = ActionStateEffectOutcomeUnknown" and "actionMatchesIntent a i intent"
  shows "journaled lock i intent (sw_db t)"
proof -
  let ?body = "update_body (mark_target i n) (\<lambda>a. a\<lparr>jr_state := ActionStateEffectOutcomeUnknown\<rparr>) i"
  obtain u where w: "run_state (withFencedWrite lock ?body) s = (Inr (), u)"
    and l: "run_state (lock_action i n) u = (Inr a, t)"
    using run by (auto simp: MarkActionEffectOutcomeUnknown_def updateAction_def simp del: run_state_bind elim!: run_bindE
        split: if_split_asm sum.split_asm)
  obtain u' v' :: "'z store_world_scheme" where op: "run_state (?body (sw_db s) (sl_lease lock)) u' = (Inr (sw_db u, ()), v')"
    and held: "holds (sw_db u) (sl_lease lock)"
    using fenced_success [OF w reads_bodies(4)] by blast
  from lock_action_outcome [OF l] obtain row where tu: "sw_db t = sw_db u"
    and row: "row \<in> set (db_actions (sw_db t))" "action_is i n row" "action_of_row row = Some a" by auto
  have "unresolved_transaction_exists (sw_db t) i (wl_serviceID (sl_lease lock))"
    using update_body_outcome [OF op] tu
    by (auto simp: sql_update_action_def checked_Inr unresolved_transaction_exists_def split: if_split_asm)
  then show ?thesis
    using held row action_of_row_fields [OF row(3)] assms(2-4) tu unfolding journaled_def actionMatchesIntent_def by auto
qed

section \<open>Calls made from a known state of the tables\<close>

text \<open>\<open>obeys Q P m\<close>: started while the tables satisfy \<open>Q\<close>, the program makes only calls that satisfy \<open>P\<close>.\<close>

definition obeys :: "(db \<Rightarrow> bool) \<Rightarrow> (call \<Rightarrow> db \<Rightarrow> bool) \<Rightarrow> ('r, 'a) app \<Rightarrow> bool" where
  "obeys Q P m \<longleftrightarrow> (\<forall>s x t. Q (sw_db s) \<longrightarrow> run_state m s = (x, t) \<longrightarrow> extends P (aw_trace s) (aw_trace t))"

lemma obeysI: "(\<And>s x t. Q (sw_db s) \<Longrightarrow> run_state m s = (x, t) \<Longrightarrow> extends P (aw_trace s) (aw_trace t)) \<Longrightarrow> obeys Q P m"
  by (simp add: obeys_def)

lemma obeysD: "obeys Q P m \<Longrightarrow> Q (sw_db s) \<Longrightarrow> run_state m s = (x, t) \<Longrightarrow> extends P (aw_trace s) (aw_trace t)"
  by (simp add: obeys_def)

lemma obeys_trace: "obeys (\<lambda>_. True) P m \<longleftrightarrow> moves aw_trace (extends P) m"
  by (auto intro!: obeysI movesI dest: obeysD movesD)

lemma obeys_quiet: "moves aw_trace (=) m \<Longrightarrow> obeys Q P m"
  by (rule obeysI) (drule (1) movesD, simp)

lemma obeys_performs_bind:
  assumes m: "performs K m" and K: "\<And>c d. Q d \<Longrightarrow> K c \<Longrightarrow> P c d" and g: "\<And>x. obeys Q P (g x)"
  shows "obeys Q P (State_Monad.bind m g)"
proof (rule obeysI)
  fix s y u assume Q: "Q (sw_db s)" and "run_state (State_Monad.bind m g) s = (y, u)"
  then obtain x t where run: "run_state m s = (x, t)" "run_state (g x) t = (y, u)" by (elim run_bindE)
  note p = performsD [OF m run(1)]
  then have "extends P (aw_trace s) (aw_trace t)" using K [OF Q] by (auto elim!: extends_mono)
  moreover have "extends P (aw_trace t) (aw_trace u)" using obeysD [OF g _ run(2)] p Q by simp
  ultimately show "extends P (aw_trace s) (aw_trace u)" by (rule extends_trans)
qed

lemma obeys_quiet_bind:
  assumes m: "moves aw_trace (=) m" and Q: "\<And>s x t. Q (sw_db s) \<Longrightarrow> run_state m s = (x, t) \<Longrightarrow> R x (sw_db t)"
    and g: "\<And>x. obeys (R x) P (g x)"
  shows "obeys Q P (State_Monad.bind m g)"
proof (rule obeysI)
  fix s y u assume "Q (sw_db s)" and "run_state (State_Monad.bind m g) s = (y, u)"
  then obtain x t where run: "run_state m s = (x, t)" "run_state (g x) t = (y, u)" "R x (sw_db t)"
    using Q by (elim run_bindE) blast
  with obeysD [OF g run(3,2)] movesD [OF m run(1)] show "extends P (aw_trace s) (aw_trace u)" by simp
qed

lemma obeys_return: "obeys Q P (State_Monad.return x)"
  by (rule obeysI) simp

lemma obeys_if: "(b \<Longrightarrow> obeys Q P m) \<Longrightarrow> (\<not> b \<Longrightarrow> obeys Q P n) \<Longrightarrow> obeys Q P (if b then m else n)"
  by simp

lemma obeys_case_option:
  "(x = None \<Longrightarrow> obeys Q P m) \<Longrightarrow> (\<And>y. x = Some y \<Longrightarrow> obeys Q P (g y)) \<Longrightarrow> obeys Q P (case x of None \<Rightarrow> m | Some y \<Rightarrow> g y)"
  by (cases x) auto

lemma obeys_case_sum:
  "(\<And>e. x = Inl e \<Longrightarrow> obeys Q P (g e)) \<Longrightarrow> (\<And>y. x = Inr y \<Longrightarrow> obeys Q P (h y)) \<Longrightarrow>
   obeys Q P (case x of Inl e \<Rightarrow> g e | Inr y \<Rightarrow> h y)"
  by (cases x) auto

lemma obeys_case_prod: "(\<And>a b. x = (a, b) \<Longrightarrow> obeys Q P (g a b)) \<Longrightarrow> obeys Q P (case x of (a, b) \<Rightarrow> g a b)"
  by (cases x) auto

lemma obeys_Let: "(\<And>y. y = x \<Longrightarrow> obeys Q P (g y)) \<Longrightarrow> obeys Q P (let y = x in g y)"
  by simp

lemma obeys_pre: "obeys Q P m \<Longrightarrow> (\<And>d. Q' d \<Longrightarrow> Q d) \<Longrightarrow> obeys Q' P m"
  by (rule obeysI) (blast dest: obeysD)

lemmas obeys_structure = obeys_return obeys_if obeys_case_option obeys_case_sum obeys_case_prod obeys_Let

section \<open>Recording an intent again\<close>

lemma observed_outside:
  assumes run: "run_state (observed_RecordActionIntent j i intent) s = (r, t)"
  shows "aw_rt t = aw_rt s \<and> aw_trace t = aw_trace s"
proof -
  obtain q u where R: "run_state (RecordActionIntent (oj_lock j) i intent) s = (q, u)" by (metis surj_pair)
  have "store_world.more u = store_world.more s" using movesD [OF inner_writes(3) R] by simp
  then have "aw_rt u = aw_rt s \<and> aw_trace u = aw_trace s" by (cases u; cases s) simp
  with run R show ?thesis
    by (auto simp: observed_RecordActionIntent_def set_action_def modify_world_def journal_publish_def tryPublish_def
        split: sum.split_asm if_split_asm)
qed

text \<open>An action that already stands is returned as it stands, and the tables stay as they are.\<close>

lemma observed_again:
  assumes ok: "journal_ok (sw_db s)" and row: "row \<in> set (db_actions (sw_db s))" "action_is i (an_Sequence intent) row"
    and rec: "run_state (observed_RecordActionIntent j i intent) s = (q, u)"
  shows "sw_db u = sw_db s \<and> aw_rt u = aw_rt s \<and> aw_trace u = aw_trace s \<and> (\<forall>a. q = Inr a \<longrightarrow> ac_State a = jr_state row)"
proof -
  from observed_outcome(1) [OF rec] obtain v where v: "run_state (RecordActionIntent (oj_lock j) i intent) s = (q, v)" "sw_db u = sw_db v"
    by blast
  have keep: "sw_db v = sw_db s \<and> (\<forall>a. q = Inr a \<longrightarrow> ac_State a = jr_state row)"
  proof (cases "validActionIntent intent")
    case True
    let ?body = "recordActionIntent i intent :: db \<Rightarrow> writerLease \<Rightarrow> _"
    obtain x w where w: "run_state (withFencedWrite (oj_lock j) ?body) s = (x, w)" by (metis surj_pair)
    have wdb: "sw_db w = sw_db s"
      using withFencedWrite_outcome [OF w reads_record] record_body_outcome row(1,2) by fastforce
    have rest: "(\<exists>e. x = Inl e \<and> q = Inl e \<and> v = w) \<or> (x = Inr () \<and> run_state (lock_action i (an_Sequence intent)) w = (q, v))"
      using v(1) w True by (auto simp: RecordActionIntent_def simp del: run_state_bind elim!: run_bindE split: sum.split_asm)
    then show ?thesis
    proof
      assume "x = Inr () \<and> run_state (lock_action i (an_Sequence intent)) w = (q, v)"
      then have l: "run_state (lock_action i (an_Sequence intent)) w = (q, v)" by blast
      have "ac_State a = jr_state row" if "q = Inr a" for a
      proof -
        from lock_action_outcome [OF l] that obtain row' where row': "row' \<in> set (db_actions (sw_db w))"
          "action_is i (an_Sequence intent) row'" "action_of_row row' = Some a" by blast
        have "row' = row" using action_unique [OF _ row'(1)] row'(2) row(1,2) ok wdb by (simp add: journal_ok_def)
        then show ?thesis using action_of_row_fields [OF row'(3)] by simp
      qed
      then show ?thesis using lock_action_outcome [OF l] wdb by simp
    qed (use wdb in auto)
  next
    case False
    then show ?thesis using v(1) by (auto simp: RecordActionIntent_def)
  qed
  with observed_outside [OF rec] v(2) show ?thesis by simp
qed

section \<open>The contract of an effect\<close>

locale runtime_effect =
  fixes eff :: "('r, 'e) effect"
    and own :: "call \<Rightarrow> bool"
  assumes apply_own: "performs own (ef_Apply eff e)"
    and probe_own: "performs (\<lambda>c. own c \<and> \<not> mutating c) (ef_Probe eff e)"
    and resume_own: "ef_resumer eff = Some (incomplete, resume) \<Longrightarrow> performs own (resume e)"
begin

lemma apply_calls: "performs (\<lambda>_. True) (ef_Apply eff e)"
  by (rule performs_mono [OF apply_own]) simp

lemma probe_calls: "performs (\<lambda>c. \<not> mutating c) (ef_Probe eff e)"
  by (rule performs_mono [OF probe_own]) simp

lemma resume_calls: "ef_resumer eff = Some (incomplete, resume) \<Longrightarrow> performs (\<lambda>_. True) (resume e)"
  by (rule performs_mono [OF resume_own]) simp_all

lemma resume_effect_calls: "performs (\<lambda>_. True) (effect_resume eff e)"
  by (auto simp: effect_resume_def split: option.split intro: performs_return resume_calls)

lemmas calls = obeys_performs_bind [where K = "\<lambda>_. False", OF reads_performs [OF reads_Fence]]
  obeys_performs_bind [where K = "\<lambda>_. False", OF performs_event(3)]
  obeys_performs_bind [OF apply_calls] obeys_performs_bind [OF probe_calls] obeys_performs_bind [OF resume_effect_calls]

lemma resume_obeys: "obeys (journaled lock i intent) (write_ahead lock i intent) (resumeRuntimeEffect j i n eff pc err e)"
  unfolding resumeRuntimeEffect_def by (intro obeys_structure calls) (auto simp: write_ahead_def)

lemma resume_db: "performs (\<lambda>_. True) (resumeRuntimeEffect j i n eff pc err e)"
  unfolding resumeRuntimeEffect_def
  by (intro performs_rules reads_Fence resume_effect_calls performs_mono [OF probe_calls]) auto

lemma resume_then:
  assumes "\<And>x. obeys (journaled lock i intent) (write_ahead lock i intent) (g x)"
  shows "obeys (journaled lock i intent) (write_ahead lock i intent) (State_Monad.bind (resumeRuntimeEffect j i n eff pc err e) g)"
proof (rule obeysI)
  fix s y u assume J: "journaled lock i intent (sw_db s)"
    and "run_state (State_Monad.bind (resumeRuntimeEffect j i n eff pc err e) g) s = (y, u)"
  then obtain x t where run: "run_state (resumeRuntimeEffect j i n eff pc err e) s = (x, t)" "run_state (g x) t = (y, u)" by (elim run_bindE)
  have "sw_db t = sw_db s" using performsD [OF resume_db run(1)] by simp
  with obeysD [OF resume_obeys J run(1)] obeysD [OF assms _ run(2)] J
  show "extends (write_ahead lock i intent) (aw_trace s) (aw_trace u)" by (auto elim: extends_trans)
qed

lemma complete_obeys: "obeys Q P (State_Monad.bind (completeRuntimeEffect j i n pc err) (\<lambda>r. State_Monad.return (f r)))"
  by (intro obeys_quiet quiet_rules quiet_observed)

lemma probe_obeys: "obeys (journaled lock i intent) (write_ahead lock i intent) (probeRuntimeEffect j i n eff err e)"
  unfolding probeRuntimeEffect_def
  by (intro obeys_structure calls resume_then complete_obeys) (auto simp: write_ahead_def intro!: obeys_structure complete_obeys)

lemma recover_obeys: "obeys (journaled lock i intent) (write_ahead lock i intent) (recoverRuntimeEffect j i n eff e)"
  unfolding recoverRuntimeEffect_def
  by (intro obeys_structure calls resume_then complete_obeys probe_obeys) (auto simp: write_ahead_def intro!: obeys_structure complete_obeys)

lemma apply_obeys: "obeys (\<lambda>_. True) (write_ahead (oj_lock j) i intent) (applyRuntimeEffect j i intent eff a e)"
  unfolding applyRuntimeEffect_def
proof (intro obeys_structure calls)
  let ?J = "\<lambda>r d. case r of Inr m \<Rightarrow> actionMatchesIntent m i intent \<and> ac_State m = ActionStateEffectOutcomeUnknown \<longrightarrow>
      journaled (oj_lock j) i intent d | Inl _ \<Rightarrow> True"
  show "obeys (\<lambda>_. True) (write_ahead (oj_lock j) i intent)
      (observed_MarkActionEffectOutcomeUnknown j i (an_Sequence intent) \<bind>
       (\<lambda>r. case r of
         Inl err \<Rightarrow> State_Monad.return ((empty_postcondition, Some (Wrap ''mark runtime effect outcome'' err)), e)
       | Inr marked \<Rightarrow>
           if \<not> actionMatchesIntent marked i intent \<or> ac_State marked \<noteq> ActionStateEffectOutcomeUnknown \<or>
              ac_PostconditionDigest marked \<noteq> None
           then State_Monad.return ((empty_postcondition, Some ErrConflictingState), e)
           else ef_Apply eff e \<bind> (\<lambda>(effectErr, e). probeRuntimeEffect j i (an_Sequence intent) eff effectErr e)))"
    (is "obeys _ ?W (?m \<bind> ?g)")
  proof (rule obeys_quiet_bind [where R = ?J])
    show "moves aw_trace (=) ?m" by (rule quiet_observed)
    show "?J r (sw_db t)" if "run_state ?m s = (r, t)" for s r t
      using observed_outcome(2) [OF that] marked_journaled by (fastforce split: sum.split)
    show "obeys (?J r) ?W (?g r)" for r
      by (cases r) (auto intro!: obeys_return obeys_structure
          intro: obeys_pre [where Q = "journaled (oj_lock j) i intent"] calls(3) probe_obeys simp: write_ahead_def)
  qed
qed auto

lemma run_obeys: "moves aw_trace (extends (write_ahead (oj_lock j) i intent)) (runRuntimeEffect j i intent eff e)"
  unfolding obeys_trace [symmetric] runRuntimeEffect_def
proof (rule obeys_quiet_bind)
  let ?J = "\<lambda>r d. case r of Inr a \<Rightarrow> actionMatchesIntent a i intent \<and> ac_State a = ActionStateEffectOutcomeUnknown \<longrightarrow>
      journaled (oj_lock j) i intent d | Inl _ \<Rightarrow> True"
  show "moves aw_trace (=) (observed_RecordActionIntent j i intent)" by (rule quiet_observed)
  show "?J r (sw_db t)" if "run_state (observed_RecordActionIntent j i intent) s = (r, t)" for s r t
    using observed_outcome(1) [OF that] recorded_journaled by (fastforce split: sum.split)
  show "obeys (?J r) (write_ahead (oj_lock j) i intent) (case r of
       Inl err \<Rightarrow> State_Monad.return ((empty_postcondition, Some (Wrap ''record runtime effect intent'' err)), e)
     | Inr action \<Rightarrow>
         (case ac_State action of
            ActionStateIntent \<Rightarrow> applyRuntimeEffect j i intent eff action e
          | ActionStateEffectOutcomeUnknown \<Rightarrow>
              if \<not> actionMatchesIntent action i intent
              then State_Monad.return ((empty_postcondition, Some ErrConflictingState), e)
              else recoverRuntimeEffect j i (an_Sequence intent) eff e
          | ActionStateCompleted \<Rightarrow> State_Monad.return ((empty_postcondition, Some ErrConflictingState), e)
          | ActionStateOther _ \<Rightarrow> State_Monad.return ((empty_postcondition, Some ErrConflictingState), e)))" for r
    by (auto split: sum.split ActionState.split intro!: obeys_return obeys_structure
        intro: obeys_pre [OF apply_obeys] obeys_pre [OF recover_obeys])
qed

end

section \<open>Outcomes of an effect\<close>

lemma moves_performs: "performs K m \<Longrightarrow> reflp R \<Longrightarrow> moves sw_db R m"
  by (rule movesI) (auto dest!: performsD simp: reflpD)

lemmas store_structure = moves_bind moves_return moves_if moves_case_option moves_case_sum moves_case_prod moves_Let moves_orders(3,4)

lemma writes_observed [writes_rules]:
  "moves sw_db (store_step H)\<^sup>*\<^sup>* (observed_RecordActionIntent j i intent)"
  "moves sw_db (store_step H)\<^sup>*\<^sup>* (observed_MarkActionEffectOutcomeUnknown j i n)"
  "moves sw_db (store_step H)\<^sup>*\<^sup>* (observed_CompleteAction j i n p)"
  "moves sw_db (store_step H)\<^sup>*\<^sup>* (completeRuntimeEffect j i n pc err)"
  unfolding observed_RecordActionIntent_def observed_MarkActionEffectOutcomeUnknown_def observed_CompleteAction_def completeRuntimeEffect_def
  by (intro store_structure writes_record writes_mark writes_complete moves_performs [OF performs_world(1)]
      moves_performs [OF performs_world(2)] moves_performs [OF performs_event(1)])+

lemma complete_success:
  assumes "run_state (completeRuntimeEffect j i n pc err) s = ((pc', None), t)"
  shows "pc' = pc \<and> pc_Satisfied pc \<and> aw_trace t = aw_trace s \<and>
    (\<exists>a z. run_state (CompleteAction (oj_lock j) i n (pc_Digest pc)) s = (Inr a, z) \<and> sw_db t = sw_db z)"
proof -
  have "aw_trace t = aw_trace s" using movesD [OF quiet_observed(4) assms] by simp
  moreover from assms obtain a where "run_state (observed_CompleteAction j i n (pc_Digest pc)) s = (Inr a, t)" "pc' = pc" "pc_Satisfied pc"
    by (auto simp: completeRuntimeEffect_def simp del: run_state_bind elim!: run_bindE split: sum.split_asm if_split_asm option.split_asm)
  ultimately show ?thesis using observed_outcome(3) by blast
qed

lemma extends_none: "extends (\<lambda>_ _. False) a b \<longleftrightarrow> b = a"
proof
  assume "extends (\<lambda>_ _. False) a b"
  then obtain new where new: "b = a @ new" "\<forall>e \<in> set new. False" unfolding extends_def by (elim exE conjE)
  have "set new = {}" by (rule equals0I) (drule bspec [OF new(2)])
  with new(1) show "b = a" by simp
qed simp

lemma publish_effect_outcome:
  "run_state (publishEffectPostcondition j i n p) s = (u, t) \<Longrightarrow> sw_db t = sw_db s \<and> aw_trace t = aw_trace s"
proof -
  assume run: "run_state (publishEffectPostcondition j i n p) s = (u, t)"
  have "performs (\<lambda>_. False) (publishEffectPostcondition j i n p)" by (rule performs_event)
  from performsD [OF this run] show ?thesis by (simp add: extends_none)
qed

text \<open>What success of an effect rests on: a satisfied probe, after which nothing outside was called, and its completion in the journal.\<close>

definition proven :: "('r, 'e) effect \<Rightarrow> ServiceLock \<Rightarrow> transaction_id \<Rightarrow> int \<Rightarrow> db \<Rightarrow> EffectPostcondition \<Rightarrow> 'r app_world \<Rightarrow> bool" where
  "proven eff lock i n d pc t \<longleftrightarrow> pc_Satisfied pc \<and>
     (\<exists>e1 e2 u v. run_state (ef_Probe eff e1) u = ((Inr pc, e2), v) \<and> aw_trace t = aw_trace v) \<and>
     (\<exists>w z :: 'r app_world. \<exists>a. sw_db w = d \<and> run_state (CompleteAction lock i n (pc_Digest pc)) w = (Inr a, z) \<and> sw_db t = sw_db z)"

context runtime_effect
begin

lemma run_steps: "moves sw_db (store_step H)\<^sup>*\<^sup>* (runRuntimeEffect j i intent eff e)"
proof -
  note rules = store_structure writes_observed moves_reads [OF reads_Fence] moves_performs [OF apply_calls] moves_performs [OF probe_calls]
    moves_performs [OF resume_db] moves_performs [OF performs_event(3)]
  have probe: "moves sw_db (store_step H)\<^sup>*\<^sup>* (probeRuntimeEffect j i n eff err e)" for n err e
    unfolding probeRuntimeEffect_def by (intro rules) (auto intro!: rules)
  have recover: "moves sw_db (store_step H)\<^sup>*\<^sup>* (recoverRuntimeEffect j i n eff e)" for n e
    unfolding recoverRuntimeEffect_def by (intro rules probe) (auto intro!: rules)
  have app: "moves sw_db (store_step H)\<^sup>*\<^sup>* (applyRuntimeEffect j i intent eff a e)" for a e
    unfolding applyRuntimeEffect_def by (intro rules probe)
  show ?thesis unfolding runRuntimeEffect_def
    by (intro rules) (auto split: ActionState.split intro!: rules recover app)
qed

text \<open>The protocol adds no external call of its own.\<close>

lemma run_own: "moves aw_trace (extends (\<lambda>c _. own c)) (runRuntimeEffect j i intent eff e)"
proof -
  note probe = performs_trace [OF performs_mono [OF probe_own]] and app = performs_trace [OF apply_own]
  have resumes: "moves aw_trace (extends (\<lambda>c _. own c)) (effect_resume eff e)" for e
    by (rule performs_trace) (auto simp: effect_resume_def split: option.split intro: performs_return resume_own)
  note quiet = moves_mono [OF quiet_observed(1), of "extends P" for P] moves_mono [OF quiet_observed(2), of "extends P" for P]
    moves_mono [OF quiet_observed(4), of "extends P" for P]
  note rules = moves_bind moves_return moves_if moves_case_option moves_case_sum moves_case_prod extends_orders
    resumes probe app performs_trace [OF performs_event(3)] performs_trace [OF reads_performs [OF reads_Fence]] quiet
  have resume: "moves aw_trace (extends (\<lambda>c _. own c)) (resumeRuntimeEffect j i n eff pc err e)" for n pc err e
    unfolding resumeRuntimeEffect_def by (intro rules) (auto intro!: rules)
  have probes: "moves aw_trace (extends (\<lambda>c _. own c)) (probeRuntimeEffect j i n eff err e)" for n err e
    unfolding probeRuntimeEffect_def by (intro rules resume) (auto intro!: rules)
  have recover: "moves aw_trace (extends (\<lambda>c _. own c)) (recoverRuntimeEffect j i n eff e)" for n e
    unfolding recoverRuntimeEffect_def by (intro rules resume probes) (auto intro!: rules)
  have apps: "moves aw_trace (extends (\<lambda>c _. own c)) (applyRuntimeEffect j i intent eff a e)" for a e
    unfolding applyRuntimeEffect_def by (intro rules probes) (auto intro!: rules)
  show ?thesis unfolding runRuntimeEffect_def
    by (intro rules) (auto split: ActionState.split intro!: rules recover apps)
qed

lemma resume_success:
  assumes "run_state (resumeRuntimeEffect j i n eff pc err e) s = (((pc', None), e'), t)"
  shows "sw_db t = sw_db s \<and> ((pc' = pc \<and> t = s) \<or>
    (\<exists>e1 e2 u v. run_state (ef_Probe eff e1) u = ((Inr pc', e2), v) \<and> aw_trace t = aw_trace v \<and> pc_Satisfied pc'))"
proof
  show "sw_db t = sw_db s" using performsD [OF resume_db assms] by simp
  show "(pc' = pc \<and> t = s) \<or> (\<exists>e1 e2 u v. run_state (ef_Probe eff e1) u = ((Inr pc', e2), v) \<and> aw_trace t = aw_trace v \<and> pc_Satisfied pc')"
    using assms
    by (auto simp: resumeRuntimeEffect_def errors_Join_None_iff simp del: run_state_bind elim!: run_bindE
        split: if_split_asm option.split_asm sum.split_asm prod.split_asm list.split_asm dest!: publish_effect_outcome)
qed

lemma probe_success:
  assumes "run_state (probeRuntimeEffect j i n eff err e) s = (((pc, None), e'), t)"
  shows "proven eff (oj_lock j) i n (sw_db s) pc t"
proof -
  obtain p e1 u where P: "run_state (ef_Probe eff e) s = ((p, e1), u)" by (metis surj_pair)
  have u: "sw_db u = sw_db s" using performsD [OF probe_calls P] by simp
  from assms P obtain q v where p: "p = Inr q" and v: "run_state (publishEffectPostcondition j i n q) u = ((), v)"
    and rest: "run_state (if pc_Digest q = 0 then State_Monad.return ((empty_postcondition, Some ErrConflictingState), e1)
         else if \<not> pc_Satisfied q then do {
           ((postcondition, err'), e) \<leftarrow> resumeRuntimeEffect j i n eff q err e1;
           case err' of
             Some err' \<Rightarrow> State_Monad.return ((empty_postcondition, Some err'), e)
           | None \<Rightarrow> do { r \<leftarrow> completeRuntimeEffect j i n postcondition err; State_Monad.return (r, e) } }
         else do { r \<leftarrow> completeRuntimeEffect j i n q err; State_Monad.return (r, e1) }) v = (((pc, None), e'), t)"
    by (auto simp: probeRuntimeEffect_def errors_Join_None_iff simp del: run_state_bind elim!: run_bindE
        split: sum.split_asm list.split_asm option.split_asm)
  note V = publish_effect_outcome [OF v]
  show ?thesis
  proof (cases "pc_Satisfied q")
    case True
    with rest obtain "run_state (completeRuntimeEffect j i n q err) v = ((pc, None), t)"
      by (auto simp del: run_state_bind elim!: run_bindE split: if_split_asm)
    from complete_success [OF this] P p u V show ?thesis unfolding proven_def by metis
  next
    case False
    with rest obtain q' e2 w where r: "run_state (resumeRuntimeEffect j i n eff q err e1) v = (((q', None), e2), w)"
      and c: "run_state (completeRuntimeEffect j i n q' err) w = ((pc, None), t)"
      by (auto simp del: run_state_bind elim!: run_bindE split: if_split_asm option.split_asm)
    from complete_success [OF c] resume_success [OF r] False u V show ?thesis unfolding proven_def by metis
  qed
qed

lemma recover_success:
  assumes "run_state (recoverRuntimeEffect j i n eff e) s = (((pc, None), e'), t)"
  shows "proven eff (oj_lock j) i n (sw_db s) pc t"
proof -
  obtain p e1 u where P: "run_state (ef_Probe eff e) s = ((p, e1), u)" by (metis surj_pair)
  have u: "sw_db u = sw_db s" using performsD [OF probe_calls P] by simp
  from assms P obtain q v where p: "p = Inr q" and v: "run_state (publishEffectPostcondition j i n q) u = ((), v)"
    and rest: "run_state (if pc_Digest q = 0 then State_Monad.return ((empty_postcondition, Some ErrConflictingState), e1)
         else if pc_Satisfied q then do { r \<leftarrow> completeRuntimeEffect j i n q None; State_Monad.return (r, e1) }
         else if effect_incomplete eff e1 then do {
           ((postcondition, err'), e) \<leftarrow> resumeRuntimeEffect j i n eff q None e1;
           case err' of
             Some err' \<Rightarrow> State_Monad.return ((empty_postcondition, Some err'), e)
           | None \<Rightarrow> do { r \<leftarrow> completeRuntimeEffect j i n postcondition None; State_Monad.return (r, e) } }
         else do {
           fenced \<leftarrow> Fence (oj_lock j);
           case fenced of
             Some err \<Rightarrow> State_Monad.return ((empty_postcondition, Some (Wrap ''fence recovered runtime effect'' err)), e1)
           | None \<Rightarrow> do {
               (effectErr, e) \<leftarrow> ef_Apply eff e1;
               probeRuntimeEffect j i n eff effectErr e } }) v = (((pc, None), e'), t)"
    by (auto simp: recoverRuntimeEffect_def simp del: run_state_bind elim!: run_bindE split: sum.split_asm)
  note V = publish_effect_outcome [OF v]
  from rest consider
      (settled) "run_state (completeRuntimeEffect j i n q None) v = ((pc, None), t)"
    | (resumed) q' e2 w where "run_state (resumeRuntimeEffect j i n eff q None e1) v = (((q', None), e2), w)"
        "run_state (completeRuntimeEffect j i n q' None) w = ((pc, None), t)" "\<not> pc_Satisfied q"
    | (applied) err e2 w x where "run_state (Fence (oj_lock j)) v = (None, w)" "run_state (ef_Apply eff e1) w = ((err, e2), x)"
        "run_state (probeRuntimeEffect j i n eff err e2) x = (((pc, None), e'), t)"
    by (auto simp del: run_state_bind elim!: run_bindE split: if_split_asm option.split_asm)
  then show ?thesis
  proof cases
    case settled
    from complete_success [OF this] P p u V show ?thesis unfolding proven_def by metis
  next
    case resumed
    from complete_success [OF this(2)] resume_success [OF this(1)] this(3) u V show ?thesis unfolding proven_def by metis
  next
    case applied
    have "sw_db x = sw_db s"
      using performsD [OF apply_calls applied(2)] readsD [OF reads_Fence applied(1)] u V by simp
    with probe_success [OF applied(3)] show ?thesis by simp
  qed
qed

lemma run_success:
  assumes run: "run_state (runRuntimeEffect j i intent eff e) s = (((pc, None), e'), t)"
  shows "\<exists>a u d. run_state (RecordActionIntent (oj_lock j) i intent) s = (Inr a, u) \<and> (store_step H)\<^sup>*\<^sup>* (sw_db u) d \<and>
    proven eff (oj_lock j) i (an_Sequence intent) d pc t"
proof -
  from run obtain a v where r: "run_state (observed_RecordActionIntent j i intent) s = (Inr a, v)"
    and cases: "(ac_State a = ActionStateIntent \<and> run_state (applyRuntimeEffect j i intent eff a e) v = (((pc, None), e'), t)) \<or>
      run_state (recoverRuntimeEffect j i (an_Sequence intent) eff e) v = (((pc, None), e'), t)"
    by (auto simp: runRuntimeEffect_def simp del: run_state_bind elim!: run_bindE split: sum.split_asm ActionState.split_asm if_split_asm)
  from observed_outcome(1) [OF r] obtain u where u: "run_state (RecordActionIntent (oj_lock j) i intent) s = (Inr a, u)" "sw_db v = sw_db u"
    by blast
  have "\<exists>d. (store_step H)\<^sup>*\<^sup>* (sw_db v) d \<and> proven eff (oj_lock j) i (an_Sequence intent) d pc t"
    using cases
  proof
    assume "run_state (recoverRuntimeEffect j i (an_Sequence intent) eff e) v = (((pc, None), e'), t)"
    from recover_success [OF this] show ?thesis by blast
  next
    assume "ac_State a = ActionStateIntent \<and> run_state (applyRuntimeEffect j i intent eff a e) v = (((pc, None), e'), t)"
    then obtain w m x err e2 y where f: "run_state (Fence (oj_lock j)) v = (None, w)"
      and m: "run_state (observed_MarkActionEffectOutcomeUnknown j i (an_Sequence intent)) w = (Inr m, x)"
      and ap: "run_state (ef_Apply eff e) x = ((err, e2), y)"
      and pr: "run_state (probeRuntimeEffect j i (an_Sequence intent) eff err e2) y = (((pc, None), e'), t)"
      by (auto simp: applyRuntimeEffect_def simp del: run_state_bind elim!: run_bindE
          split: if_split_asm option.split_asm sum.split_asm)
    have "(store_step H)\<^sup>*\<^sup>* (sw_db v) (sw_db y)"
      using movesD [OF writes_observed(2) m] readsD [OF reads_Fence f] performsD [OF apply_calls ap] by simp
    with probe_success [OF pr] show ?thesis by blast
  qed
  with u show ?thesis by auto
qed

text \<open>Success leaves exactly one completed action, with the kind and digest of the intent and the evidence of the last probe.\<close>

lemma run_completed:
  assumes ok: "journal_ok (sw_db s)" and run: "run_state (runRuntimeEffect j i intent eff e) s = (((pc, None), e'), t)"
  shows "pc_Satisfied pc \<and> (\<exists>e1 e2 u v. run_state (ef_Probe eff e1) u = ((Inr pc, e2), v) \<and> aw_trace t = aw_trace v) \<and>
    (\<exists>a. action_recorded (sw_db t) a \<and> ac_TransactionID a = i \<and> ac_Sequence a = an_Sequence intent \<and> ac_Kind a = an_Kind intent \<and>
       ac_IntentDigest a = an_IntentDigest intent \<and> ac_State a = ActionStateCompleted \<and> ac_PostconditionDigest a = Some (pc_Digest pc))"
proof -
  let ?H = "\<lambda>_. 0 :: digest"
  obtain a u d where rec: "run_state (RecordActionIntent (oj_lock j) i intent) s = (Inr a, u)"
    and steps: "(store_step ?H)\<^sup>*\<^sup>* (sw_db u) d" and proven: "proven eff (oj_lock j) i (an_Sequence intent) d pc t"
    using run_success [OF run, of ?H] by blast
  note R = RecordActionIntent_success [OF ok rec]
  have oku: "journal_ok (sw_db u)" using program_keeps_journal_ok [OF writes_record ok rec] .
  have okd: "journal_ok d" using steps_journal_ok [OF steps oku] .
  from proven obtain w z :: "'r app_world" and c where w: "sw_db w = d"
    and c: "run_state (CompleteAction (oj_lock j) i (an_Sequence intent) (pc_Digest pc)) w = (Inr c, z)" and z: "sw_db t = sw_db z"
    unfolding proven_def by blast
  note C = CompleteAction_success [OF okd [folded w] c]
  obtain row where row: "row \<in> set (db_actions (sw_db u))" "action_is i (an_Sequence intent) row" "jr_kind row = an_Kind intent"
      "jr_intent row = an_IntentDigest intent"
    using R(1-5) by (auto simp: action_recorded_def dest: action_of_row_fields)
  obtain row' where row': "row' \<in> set (db_actions d)" "action_is i (an_Sequence intent) row'" "jr_kind row' = an_Kind intent"
      "jr_intent row' = an_IntentDigest intent"
    using bspec [OF conjunct1 [OF conjunct2 [OF steps_evolve [OF steps oku, unfolded evolves_def]]] row(1)] row(2-4)
    by (auto simp: same_action_def action_is_def)
  from C(6) w obtain b where b: "b \<in> set (db_actions d)" "action_is i (an_Sequence intent) b" "jr_kind b = ac_Kind c" "jr_intent b = ac_IntentDigest c"
    by auto
  have "b = row'" using action_unique [OF _ b(1) row'(1) b(2) row'(2)] okd by (simp add: journal_ok_def)
  then have "ac_Kind c = an_Kind intent" "ac_IntentDigest c = an_IntentDigest intent" using b row' by simp_all
  with C z proven show ?thesis unfolding proven_def by auto
qed

text \<open>An action that is already completed is never performed again.\<close>

lemma completed_not_repeated:
  assumes ok: "journal_ok (sw_db s)" and row: "row \<in> set (db_actions (sw_db s))" "action_is i (an_Sequence intent) row"
      "jr_state row = ActionStateCompleted"
    and run: "run_state (runRuntimeEffect j i intent eff e) s = ((r, e'), t)"
  shows "(\<exists>err. r = (empty_postcondition, Some err)) \<and> sw_db t = sw_db s \<and> aw_trace t = aw_trace s"
proof -
  obtain q u where rec: "run_state (observed_RecordActionIntent j i intent) s = (q, u)" by (metis surj_pair)
  note R = observed_again [OF ok row(1,2) rec]
  then have "(\<exists>err. r = (empty_postcondition, Some err)) \<and> t = u"
    using run rec row(3)
    by (auto simp: runRuntimeEffect_def simp del: run_state_bind elim!: run_bindE split: sum.split_asm ActionState.split_asm)
  with R show ?thesis by simp
qed

text \<open>An effect with an unknown outcome whose probe reports success is completed without being performed again.\<close>

lemma satisfied_recovery:
  assumes probe: "\<And>p e2 v. run_state (ef_Probe eff e) s = ((Inr p, e2), v) \<Longrightarrow> pc_Satisfied p"
    and run: "run_state (recoverRuntimeEffect j i n eff e) s = (r, t)"
  shows "extends (\<lambda>c _. \<not> mutating c) (aw_trace s) (aw_trace t)"
proof -
  obtain p e2 v where P: "run_state (ef_Probe eff e) s = ((p, e2), v)" by (metis surj_pair)
  have "extends (\<lambda>c _. \<not> mutating c) (aw_trace s) (aw_trace v)"
    using performsD [OF probe_calls P] by (auto elim: extends_mono)
  moreover have "aw_trace t = aw_trace v"
  proof (cases p)
    case (Inl err)
    with run P show ?thesis by (auto simp: recoverRuntimeEffect_def simp del: run_state_bind elim!: run_bindE)
  next
    case (Inr q)
    with run P probe show ?thesis
      by (auto simp: recoverRuntimeEffect_def simp del: run_state_bind elim!: run_bindE dest!: publish_effect_outcome
          dest!: movesD [OF quiet_observed(4)] split: if_split_asm)
  qed
  ultimately show ?thesis by simp
qed

lemma satisfied_not_repeated:
  assumes ok: "journal_ok (sw_db s)" and row: "row \<in> set (db_actions (sw_db s))" "action_is i (an_Sequence intent) row"
      "jr_state row \<noteq> ActionStateIntent"
    and probe: "\<And>w p e2 v. aw_rt w = aw_rt s \<Longrightarrow> run_state (ef_Probe eff e) w = ((Inr p, e2), v) \<Longrightarrow> pc_Satisfied p"
    and run: "run_state (runRuntimeEffect j i intent eff e) s = ((r, e'), t)"
  shows "extends (\<lambda>c _. \<not> mutating c) (aw_trace s) (aw_trace t)"
proof -
  obtain q u where rec: "run_state (observed_RecordActionIntent j i intent) s = (q, u)" by (metis surj_pair)
  note R = observed_again [OF ok row(1,2) rec]
  then have "(t = u \<or> run_state (recoverRuntimeEffect j i (an_Sequence intent) eff e) u = ((r, e'), t))"
    using run rec row(3)
    by (auto simp: runRuntimeEffect_def simp del: run_state_bind elim!: run_bindE split: sum.split_asm ActionState.split_asm if_split_asm)
  then show ?thesis
  proof
    assume "run_state (recoverRuntimeEffect j i (an_Sequence intent) eff e) u = ((r, e'), t)"
    from satisfied_recovery [OF probe [of u] this] R show ?thesis by simp
  qed (use R in simp)
qed

end

end
