(* ===== verification/WorkloadEffects.thy ===== *)
theory WorkloadEffects
  imports Effect
begin

text \<open>
  The effects on images and workloads (\<open>image_effect.go\<close>, \<open>workload_effect.go\<close>, \<open>workload_transition.go\<close>,
  \<open>workload_discard.go\<close> of \<open>src/internal/application\<close>): what each applies, what each probe accepts as
  evidence, the digests written to the journal, and the guarded entry points. Each effect is an
  interpretation of \<open>runtime_effect\<close>.
\<close>

section \<open>Images (image\_effect.go)\<close>

definition imagePullActionKind :: string where
  "imagePullActionKind = ''image.pull''"

definition ImageProbe_Matches :: "ImageProbe \<Rightarrow> ImageIdentity \<Rightarrow> bool" where
  "ImageProbe_Matches probe expected \<longleftrightarrow>
     ip_State probe = ImageProbeObserved \<and>
     ie_ReferenceDigest (ip_Image probe) = im_ReferenceDigest expected \<and>
     ie_PlatformManifest (ip_Image probe) = im_PlatformManifest expected \<and>
     ie_ImageConfig (ip_Image probe) = im_ImageConfig expected \<and> ie_Platform (ip_Image probe) = im_Platform expected"

definition completeRuntimeImageIdentity :: "ImageIdentity \<Rightarrow> bool" where
  "completeRuntimeImageIdentity img \<longleftrightarrow>
     im_ReferenceDigest img \<noteq> 0 \<and> im_PlatformManifest img \<noteq> 0 \<and> im_ImageConfig img \<noteq> 0 \<and>
     pf_OS (im_Platform img) \<noteq> '''' \<and> pf_Architecture (im_Platform img) \<noteq> ''''"

definition validRuntimeImageIdentity :: "'r ports \<Rightarrow> ImageIdentity \<Rightarrow> bool" where
  "validRuntimeImageIdentity po img =
     (if \<not> completeRuntimeImageIdentity img then False
      else case po_Normalize po (im_Reference img) of
        None \<Rightarrow> False
      | Some (text, pinned) \<Rightarrow>
          if text \<noteq> im_Reference img then False
          else if im_Origin img = ImageOriginDockerArchive then \<not> pinned
          else im_Origin img = ImageOriginRegistry \<and> po_Parse po (im_Reference img) = Some (im_ReferenceDigest img))"

definition validImageEffectIdentity :: "'r ports \<Rightarrow> ImageIdentity \<Rightarrow> bool" where
  "validImageEffectIdentity po img \<longleftrightarrow> im_Origin img = ImageOriginRegistry \<and> validRuntimeImageIdentity po img"

definition emptyImageEvidence :: ImageEvidence where
  "emptyImageEvidence = \<lparr>ie_ReferenceDigest = 0, ie_PlatformManifest = 0, ie_ImageConfig = 0, ie_Platform = zero_platform\<rparr>"

definition appendImageEffectString :: "bytes \<Rightarrow> string \<Rightarrow> bytes" where
  "appendImageEffectString encoded value = AppendUvarint encoded (length value) @ string_bytes value"

text \<open>The digest states: intent 0, observed 1, missing 2; workload effects add unstarted 3.\<close>

definition image_effect_encoding :: "byte \<Rightarrow> ImageIdentity \<Rightarrow> bytes" where
  "image_effect_encoding st img =
     (let value = [1, st];
          value = appendImageEffectString value imagePullActionKind;
          value = appendImageEffectString value (im_Reference img);
          value = append_digest value (im_ReferenceDigest img);
          value = appendImageEffectString value (pf_OS (im_Platform img));
          value = appendImageEffectString value (pf_Architecture (im_Platform img));
          value = appendImageEffectString value (pf_Variant (im_Platform img));
          value = append_digest value (im_PlatformManifest img)
      in append_digest value (im_ImageConfig img))"

definition imageEffectDigest :: "hash \<Rightarrow> byte \<Rightarrow> ImageIdentity \<Rightarrow> digest" where
  "imageEffectDigest H st img = H (image_effect_encoding st img)"

definition imagePullIntent :: "hash \<Rightarrow> int \<Rightarrow> ImageIdentity \<Rightarrow> ActionIntent" where
  "imagePullIntent H sequence expected =
     \<lparr>an_Sequence = sequence, an_Kind = imagePullActionKind, an_IntentDigest = imageEffectDigest H 0 expected\<rparr>"

definition imagePull_Apply :: "'r ports \<Rightarrow> ImageIdentity \<Rightarrow> unit \<Rightarrow> ('r, go_error option \<times> unit) app" where
  "imagePull_Apply po expected e = do {
     err \<leftarrow> external (CallPullImage expected) (po_PullImage po expected);
     State_Monad.return (map_option (Wrap ''pull runtime image'') err, e) }"

definition imagePull_Probe ::
  "'r ports \<Rightarrow> ImageIdentity \<Rightarrow> unit \<Rightarrow> ('r, (go_error + EffectPostcondition) \<times> unit) app" where
  "imagePull_Probe po expected e = do {
     r \<leftarrow> external (CallProbeImage expected) (po_ProbeImage po expected);
     State_Monad.return (case r of
       Inl err \<Rightarrow> Inl (Wrap ''probe runtime image'' err)
     | Inr probe \<Rightarrow> (case ip_State probe of
           ImageProbeMissing \<Rightarrow>
             if ip_Image probe \<noteq> emptyImageEvidence then Inl ErrConflictingState
             else Inr \<lparr>pc_Digest = imageEffectDigest (po_hash po) 2 expected, pc_Satisfied = False\<rparr>
         | ImageProbeObserved \<Rightarrow>
             if \<not> ImageProbe_Matches probe expected then Inl ErrConflictingState
             else Inr \<lparr>pc_Digest = imageEffectDigest (po_hash po) 1 expected, pc_Satisfied = True\<rparr>
         | ImageProbeUnknown \<Rightarrow> Inl ErrConflictingState), e) }"

definition imagePullEffect :: "'r ports \<Rightarrow> ImageIdentity \<Rightarrow> ('r, unit) effect" where
  "imagePullEffect po expected =
     \<lparr>ef_Apply = imagePull_Apply po expected, ef_Probe = imagePull_Probe po expected, ef_resumer = None\<rparr>"

text \<open>
  The entry points run one effect with fresh fields. Their result is the pair that the Go function
  returns; the fields of the effect object are dropped.
\<close>

definition run_fresh ::
  "observedEffectJournal \<Rightarrow> transaction_id \<Rightarrow> ActionIntent \<Rightarrow> ('r, 'e) effect \<Rightarrow> 'e \<Rightarrow>
   ('r, EffectPostcondition \<times> go_error option) app" where
  "run_fresh journal i intent eff e = do {
     (r, _) \<leftarrow> runRuntimeEffect journal i intent eff e;
     State_Monad.return r }"

definition runImagePull ::
  "'r ports \<Rightarrow> observedEffectJournal \<Rightarrow> transaction_id \<Rightarrow> int \<Rightarrow> ImageIdentity \<Rightarrow>
   ('r, EffectPostcondition \<times> go_error option) app" where
  "runImagePull po journal i sequence expected =
     (if sequence \<le> 0 \<or> \<not> validImageEffectIdentity po expected
      then State_Monad.return (empty_postcondition, Some ErrInvalidRequest)
      else run_fresh journal i (imagePullIntent (po_hash po) sequence expected) (imagePullEffect po expected) ())"

section \<open>Creation and start (workload\_effect.go)\<close>

definition workloadCreateActionKind :: string where "workloadCreateActionKind = ''workload.create''"
definition workloadStartActionKind :: string where "workloadStartActionKind = ''workload.start''"

definition defaultWorkloadCreateOptions :: WorkloadCreateOptions where
  "defaultWorkloadCreateOptions = \<lparr>co_CopyImageVolumes = True\<rparr>"

definition appendWorkloadEffectString :: "bytes \<Rightarrow> string \<Rightarrow> bytes" where
  "appendWorkloadEffectString encoded value = AppendUvarint encoded (length value) @ string_bytes value"

definition appendWorkloadEffectStrings :: "bytes \<Rightarrow> string slice \<Rightarrow> bytes" where
  "appendWorkloadEffectStrings encoded values =
     (case values of
        None \<Rightarrow> encoded @ [0]
      | Some vs \<Rightarrow> foldl appendWorkloadEffectString (AppendUvarint (encoded @ [1]) (length vs)) vs)"

definition workload_effect_encoding :: "byte \<Rightarrow> string \<Rightarrow> DesiredWorkload \<Rightarrow> string \<Rightarrow> string \<Rightarrow> bytes" where
  "workload_effect_encoding st actionKind workload transaction observedID =
     (let img = dw_Image workload; spec = dw_Spec workload;
          value = [1, st];
          value = appendWorkloadEffectString value actionKind;
          value = appendWorkloadEffectString value (ServiceName spec);
          value = appendWorkloadEffectString value (ContainerName spec);
          value = appendWorkloadEffectString value (im_Reference img);
          value = append_digest value (im_ReferenceDigest img);
          value = appendWorkloadEffectString value (pf_OS (im_Platform img));
          value = appendWorkloadEffectString value (pf_Architecture (im_Platform img));
          value = appendWorkloadEffectString value (pf_Variant (im_Platform img));
          value = append_digest value (im_PlatformManifest img);
          value = append_digest value (im_ImageConfig img);
          value = appendWorkloadEffectStrings value (Entrypoint spec);
          value = appendWorkloadEffectStrings value (Command spec);
          value = append_digest value (dw_SourceDigest workload);
          value = append_digest value (dw_EffectiveDigest workload);
          value = appendWorkloadEffectString value transaction
      in appendWorkloadEffectString value observedID)"

definition workloadEffectDigest :: "hash \<Rightarrow> byte \<Rightarrow> string \<Rightarrow> DesiredWorkload \<Rightarrow> string \<Rightarrow> string \<Rightarrow> digest" where
  "workloadEffectDigest H st actionKind workload transaction observedID =
     H (workload_effect_encoding st actionKind workload transaction observedID)"

definition workloadObservedEffectDigest ::
  "hash \<Rightarrow> byte \<Rightarrow> string \<Rightarrow> DesiredWorkload \<Rightarrow> string \<Rightarrow> string \<Rightarrow> digest \<Rightarrow> digest" where
  "workloadObservedEffectDigest H st actionKind workload transaction observedID storage =
     H (append_digest (append_digest [1] (workloadEffectDigest H st actionKind workload transaction observedID)) storage)"

definition workloadIntent :: "hash \<Rightarrow> int \<Rightarrow> string \<Rightarrow> DesiredWorkload \<Rightarrow> string \<Rightarrow> ActionIntent" where
  "workloadIntent H sequence kind workload transaction =
     \<lparr>an_Sequence = sequence, an_Kind = kind, an_IntentDigest = workloadEffectDigest H 0 kind workload transaction ''''\<rparr>"

definition workloadCreateIntent :: "hash \<Rightarrow> int \<Rightarrow> DesiredWorkload \<Rightarrow> string \<Rightarrow> ActionIntent" where
  "workloadCreateIntent H sequence workload transaction = workloadIntent H sequence workloadCreateActionKind workload transaction"

definition workloadStartIntent :: "hash \<Rightarrow> int \<Rightarrow> DesiredWorkload \<Rightarrow> string \<Rightarrow> ActionIntent" where
  "workloadStartIntent H sequence workload transaction = workloadIntent H sequence workloadStartActionKind workload transaction"

definition emptyWorkloadEffectEvidence :: WorkloadEffectEvidence where
  "emptyWorkloadEffectEvidence = \<lparr>we_ID = '''', we_Name = '''', we_ConfigurationDigest = 0, we_StorageDigest = 0,
     we_RuntimeMounts = None, we_ConfigurationMatches = False, we_Lifecycle = WorkloadLifecycleUnknown,
     we_Ownership = zero_ownership\<rparr>"

definition workloadEffectEvidenceEmpty :: "WorkloadEffectEvidence \<Rightarrow> bool" where
  "workloadEffectEvidenceEmpty evidence \<longleftrightarrow> (let empty = emptyWorkloadEffectEvidence in
     we_ID evidence = we_ID empty \<and> we_Name evidence = we_Name empty \<and>
     we_ConfigurationDigest evidence = we_ConfigurationDigest empty \<and>
     we_StorageDigest evidence = we_StorageDigest empty \<and> we_RuntimeMounts evidence = None \<and>
     we_ConfigurationMatches evidence = we_ConfigurationMatches empty \<and>
     we_Lifecycle evidence = we_Lifecycle empty \<and> we_Ownership evidence = we_Ownership empty)"

definition workloadStorageMatches :: "hash \<Rightarrow> digest \<Rightarrow> RuntimeMount slice \<Rightarrow> DesiredWorkload \<Rightarrow> bool" where
  "workloadStorageMatches H d mounts workload =
     (if length (items (Mounts (dw_Spec workload))) = 0 \<and> mounts \<noteq> None then False
      else case ComputeStorageDigest H workload (items mounts) of (expected, valid) \<Rightarrow> valid \<and> d = expected)"

definition expected_ownership :: "DesiredWorkload \<Rightarrow> string \<Rightarrow> WorkloadOwnership" where
  "expected_ownership workload transaction = \<lparr>ow_Status = OwnershipManaged, ow_Service = ServiceName (dw_Spec workload),
     ow_Transaction = transaction, ow_DesiredState = dw_EffectiveDigest workload,
     ow_Reference = im_ReferenceDigest (dw_Image workload), ow_ImageConfig = im_ImageConfig (dw_Image workload),
     ow_PlatformManifest = im_PlatformManifest (dw_Image workload)\<rparr>"

definition createdWorkloadMatches :: "hash \<Rightarrow> WorkloadEffectEvidence \<Rightarrow> DesiredWorkload \<Rightarrow> string \<Rightarrow> string \<Rightarrow> bool" where
  "createdWorkloadMatches H evidence workload transaction responseID \<longleftrightarrow>
     we_ID evidence \<noteq> '''' \<and> we_Name evidence = ContainerName (dw_Spec workload) \<and>
     we_ConfigurationDigest evidence \<noteq> 0 \<and>
     workloadStorageMatches H (we_StorageDigest evidence) (we_RuntimeMounts evidence) workload \<and>
     we_ConfigurationMatches evidence \<and> we_Lifecycle evidence = WorkloadLifecycleCreated \<and>
     we_Ownership evidence = expected_ownership workload transaction \<and> (responseID = '''' \<or> we_ID evidence = responseID)"

definition startedWorkloadMatches :: "hash \<Rightarrow> WorkloadEffectEvidence \<Rightarrow> DesiredWorkload \<Rightarrow> string \<Rightarrow> bool" where
  "startedWorkloadMatches H evidence workload transaction \<longleftrightarrow>
     we_ID evidence \<noteq> '''' \<and> we_Name evidence = ContainerName (dw_Spec workload) \<and>
     we_ConfigurationDigest evidence \<noteq> 0 \<and>
     workloadStorageMatches H (we_StorageDigest evidence) (we_RuntimeMounts evidence) workload \<and>
     we_ConfigurationMatches evidence \<and> we_Lifecycle evidence = WorkloadLifecycleRunning \<and>
     we_Ownership evidence = expected_ownership workload transaction"

definition validWorkloadEffectProcess :: "DesiredWorkload \<Rightarrow> bool" where
  "validWorkloadEffectProcess workload =
     (let spec = dw_Spec workload in
      if length (items (Entrypoint spec)) + length (items (Command spec)) = 0 then False
      else list_all (\<lambda>v. utf8_valid v \<and> \<not> contains_nul v) (items (Entrypoint spec) @ items (Command spec)))"

definition validWorkloadEffect :: "'r ports \<Rightarrow> DesiredWorkload \<Rightarrow> bool" where
  "validWorkloadEffect po workload \<longleftrightarrow>
     \<not> (ServiceName (dw_Spec workload) = '''' \<or> ContainerName (dw_Spec workload) = '''' \<or>
        dw_SourceDigest workload = 0 \<or> dw_EffectiveDigest workload = 0 \<or>
        \<not> validRuntimeImageIdentity po (dw_Image workload) \<or> \<not> validWorkloadEffectProcess workload)"

definition workloadCreate_Apply ::
  "'r ports \<Rightarrow> DesiredWorkload \<Rightarrow> string \<Rightarrow> WorkloadCreateOptions \<Rightarrow> string \<Rightarrow> ('r, go_error option \<times> string) app" where
  "workloadCreate_Apply po workload transaction options responseID = do {
     (i, err) \<leftarrow> external (CallCreate workload transaction options) (po_CreateWorkload po workload transaction options);
     State_Monad.return (map_option (Wrap ''create runtime workload'') err, i) }"

definition workloadCreate_Probe ::
  "'r ports \<Rightarrow> DesiredWorkload \<Rightarrow> string \<Rightarrow> string \<Rightarrow> ('r, (go_error + EffectPostcondition) \<times> string) app" where
  "workloadCreate_Probe po workload transaction responseID = do {
     r \<leftarrow> external (CallProbeCreated workload transaction responseID)
            (po_ProbeCreatedWorkload po workload transaction responseID);
     State_Monad.return (case r of
       Inl err \<Rightarrow> Inl (Wrap ''probe created runtime workload'' err)
     | Inr probe \<Rightarrow> (case wp_State probe of
           WorkloadEffectProbeMissing \<Rightarrow>
             if \<not> workloadEffectEvidenceEmpty (wp_Workload probe) then Inl ErrConflictingState
             else Inr \<lparr>pc_Digest = workloadEffectDigest (po_hash po) 2 workloadCreateActionKind workload transaction '''',
                       pc_Satisfied = False\<rparr>
         | WorkloadEffectProbeObserved \<Rightarrow>
             if \<not> createdWorkloadMatches (po_hash po) (wp_Workload probe) workload transaction responseID
             then Inl ErrConflictingState
             else Inr \<lparr>pc_Digest = workloadObservedEffectDigest (po_hash po) 1 workloadCreateActionKind workload transaction
                         (we_ID (wp_Workload probe)) (we_StorageDigest (wp_Workload probe)), pc_Satisfied = True\<rparr>
         | WorkloadEffectProbeUnknown \<Rightarrow> Inl ErrConflictingState), responseID) }"

definition workloadCreateEffect ::
  "'r ports \<Rightarrow> DesiredWorkload \<Rightarrow> string \<Rightarrow> WorkloadCreateOptions \<Rightarrow> ('r, string) effect" where
  "workloadCreateEffect po workload transaction options =
     \<lparr>ef_Apply = workloadCreate_Apply po workload transaction options,
      ef_Probe = workloadCreate_Probe po workload transaction, ef_resumer = None\<rparr>"

definition runWorkloadCreate ::
  "'r ports \<Rightarrow> observedEffectJournal \<Rightarrow> transaction_id \<Rightarrow> int \<Rightarrow> DesiredWorkload \<Rightarrow> WorkloadCreateOptions \<Rightarrow>
   ('r, EffectPostcondition \<times> go_error option) app" where
  "runWorkloadCreate po journal i sequence workload options =
     (if sequence \<le> 0 \<or> i = 0 \<or> \<not> validWorkloadEffect po workload
      then State_Monad.return (empty_postcondition, Some ErrInvalidRequest)
      else let transaction = id_String i
           in run_fresh journal i (workloadCreateIntent (po_hash po) sequence workload transaction)
                (workloadCreateEffect po workload transaction options) '''')"

definition workloadStart_Apply ::
  "'r ports \<Rightarrow> DesiredWorkload \<Rightarrow> string \<Rightarrow> unit \<Rightarrow> ('r, go_error option \<times> unit) app" where
  "workloadStart_Apply po workload transaction e = do {
     err \<leftarrow> external (CallStart workload transaction) (po_StartWorkload po workload transaction);
     State_Monad.return (map_option (Wrap ''start runtime workload'') err, e) }"

definition workloadStart_Probe ::
  "'r ports \<Rightarrow> DesiredWorkload \<Rightarrow> string \<Rightarrow> unit \<Rightarrow> ('r, (go_error + EffectPostcondition) \<times> unit) app" where
  "workloadStart_Probe po workload transaction e = do {
     r \<leftarrow> external (CallProbeStarted workload transaction) (po_ProbeStartedWorkload po workload transaction);
     State_Monad.return (case r of
       Inl err \<Rightarrow> Inl (Wrap ''probe started runtime workload'' err)
     | Inr probe \<Rightarrow> (case wp_State probe of
           WorkloadEffectProbeMissing \<Rightarrow>
             if \<not> workloadEffectEvidenceEmpty (wp_Workload probe) then Inl ErrConflictingState
             else Inr \<lparr>pc_Digest = workloadEffectDigest (po_hash po) 2 workloadStartActionKind workload transaction '''',
                       pc_Satisfied = False\<rparr>
         | WorkloadEffectProbeObserved \<Rightarrow>
             if startedWorkloadMatches (po_hash po) (wp_Workload probe) workload transaction
             then Inr \<lparr>pc_Digest = workloadObservedEffectDigest (po_hash po) 1 workloadStartActionKind workload transaction
                         (we_ID (wp_Workload probe)) (we_StorageDigest (wp_Workload probe)), pc_Satisfied = True\<rparr>
             else if createdWorkloadMatches (po_hash po) (wp_Workload probe) workload transaction ''''
             then Inr \<lparr>pc_Digest = workloadObservedEffectDigest (po_hash po) 3 workloadStartActionKind workload transaction
                         (we_ID (wp_Workload probe)) (we_StorageDigest (wp_Workload probe)), pc_Satisfied = False\<rparr>
             else Inl ErrConflictingState
         | WorkloadEffectProbeUnknown \<Rightarrow> Inl ErrConflictingState), e) }"

definition workloadStartEffect :: "'r ports \<Rightarrow> DesiredWorkload \<Rightarrow> string \<Rightarrow> ('r, unit) effect" where
  "workloadStartEffect po workload transaction =
     \<lparr>ef_Apply = workloadStart_Apply po workload transaction, ef_Probe = workloadStart_Probe po workload transaction,
      ef_resumer = None\<rparr>"

definition runWorkloadStart ::
  "'r ports \<Rightarrow> observedEffectJournal \<Rightarrow> transaction_id \<Rightarrow> int \<Rightarrow> DesiredWorkload \<Rightarrow>
   ('r, EffectPostcondition \<times> go_error option) app" where
  "runWorkloadStart po journal i sequence workload =
     (if sequence \<le> 0 \<or> i = 0 \<or> \<not> validWorkloadEffect po workload
      then State_Monad.return (empty_postcondition, Some ErrInvalidRequest)
      else let transaction = id_String i
           in run_fresh journal i (workloadStartIntent (po_hash po) sequence workload transaction)
                (workloadStartEffect po workload transaction) ())"

section \<open>Transitions of existing workloads (workload\_transition.go)\<close>

definition workloadTransitionActionKind :: "WorkloadTransitionKind \<Rightarrow> string" where
  "workloadTransitionActionKind kind = (case kind of
      WorkloadTransitionStop \<Rightarrow> ''workload.stop''
    | WorkloadTransitionRename \<Rightarrow> ''workload.rename''
    | WorkloadTransitionRemove \<Rightarrow> ''workload.remove''
    | WorkloadTransitionRestoreStart \<Rightarrow> ''workload.restore-start''
    | WorkloadTransitionUnknown \<Rightarrow> '''')"

definition validWorkloadTransitionString :: "string \<Rightarrow> bool" where
  "validWorkloadTransitionString value \<longleftrightarrow> value \<noteq> '''' \<and> utf8_valid value \<and> \<not> contains_nul value"

definition unmanaged_ownership :: WorkloadOwnership where
  "unmanaged_ownership = zero_ownership\<lparr>ow_Status := OwnershipUnmanaged\<rparr>"

definition validTransitionOwnership :: "WorkloadOwnership \<Rightarrow> bool" where
  "validTransitionOwnership ownership =
     (if ow_Status ownership = OwnershipUnmanaged then ownership = unmanaged_ownership
      else ow_Status ownership = OwnershipManaged \<and> ow_Service ownership \<noteq> '''' \<and> ow_Transaction ownership \<noteq> '''' \<and>
        ow_DesiredState ownership \<noteq> 0 \<and> ow_Reference ownership \<noteq> 0 \<and> ow_ImageConfig ownership \<noteq> 0 \<and>
        ow_PlatformManifest ownership \<noteq> 0)"

definition validExistingWorkload :: "ExistingWorkload \<Rightarrow> bool" where
  "validExistingWorkload workload \<longleftrightarrow>
     validWorkloadTransitionString (ew_ID workload) \<and> validWorkloadTransitionString (ew_Name workload) \<and>
     ew_ConfigurationDigest workload \<noteq> 0 \<and>
     (ew_Lifecycle workload = WorkloadLifecycleCreated \<or> ew_Lifecycle workload = WorkloadLifecycleRunning \<or>
      ew_Lifecycle workload = WorkloadLifecycleExited) \<and> validTransitionOwnership (ew_Ownership workload)"

definition sameExistingWorkloadIdentity :: "ExistingWorkload \<Rightarrow> ExistingWorkload \<Rightarrow> bool" where
  "sameExistingWorkloadIdentity left right \<longleftrightarrow> ew_ID left = ew_ID right \<and> ew_Name left = ew_Name right \<and>
     ew_ConfigurationDigest left = ew_ConfigurationDigest right \<and> ew_Ownership left = ew_Ownership right"

definition sameExistingWorkloadExceptName :: "ExistingWorkload \<Rightarrow> ExistingWorkload \<Rightarrow> bool" where
  "sameExistingWorkloadExceptName left right \<longleftrightarrow> ew_ID left = ew_ID right \<and>
     ew_ConfigurationDigest left = ew_ConfigurationDigest right \<and> ew_Lifecycle left = ew_Lifecycle right \<and>
     ew_Ownership left = ew_Ownership right"

definition validWorkloadStop :: "ExistingWorkload \<Rightarrow> ExistingWorkload \<Rightarrow> bool" where
  "validWorkloadStop before after \<longleftrightarrow> sameExistingWorkloadIdentity before after \<and>
     ew_Lifecycle before = WorkloadLifecycleRunning \<and> ew_Lifecycle after = WorkloadLifecycleExited"

definition validWorkloadRename :: "ExistingWorkload \<Rightarrow> ExistingWorkload \<Rightarrow> bool" where
  "validWorkloadRename before after \<longleftrightarrow> ew_Name before \<noteq> ew_Name after \<and> sameExistingWorkloadExceptName before after \<and>
     ew_Lifecycle before = WorkloadLifecycleExited"

definition validWorkloadRemove :: "ExistingWorkload \<Rightarrow> ExistingWorkload \<Rightarrow> bool" where
  "validWorkloadRemove before after \<longleftrightarrow> after = zero_existing \<and> ew_Lifecycle before = WorkloadLifecycleExited"

definition validWorkloadRestoreStart :: "ExistingWorkload \<Rightarrow> ExistingWorkload \<Rightarrow> bool" where
  "validWorkloadRestoreStart before after \<longleftrightarrow> sameExistingWorkloadIdentity before after \<and>
     ew_Lifecycle before = WorkloadLifecycleExited \<and> ew_Lifecycle after = WorkloadLifecycleRunning"

definition validWorkloadTransition :: "WorkloadTransition \<Rightarrow> bool" where
  "validWorkloadTransition transition =
     (if \<not> validExistingWorkload (wt_Before transition) then False
      else case wt_Kind transition of
        WorkloadTransitionStop \<Rightarrow> validWorkloadStop (wt_Before transition) (wt_After transition)
      | WorkloadTransitionRename \<Rightarrow> validWorkloadRename (wt_Before transition) (wt_After transition)
      | WorkloadTransitionRemove \<Rightarrow> validWorkloadRemove (wt_Before transition) (wt_After transition)
      | WorkloadTransitionRestoreStart \<Rightarrow> validWorkloadRestoreStart (wt_Before transition) (wt_After transition)
      | WorkloadTransitionUnknown \<Rightarrow> False)"

definition lifecycle_nat :: "WorkloadLifecycle \<Rightarrow> nat" where
  "lifecycle_nat l = (case l of WorkloadLifecycleUnknown \<Rightarrow> 0 | WorkloadLifecycleCreated \<Rightarrow> 1 | WorkloadLifecycleRunning \<Rightarrow> 2
     | WorkloadLifecyclePaused \<Rightarrow> 3 | WorkloadLifecycleRestarting \<Rightarrow> 4 | WorkloadLifecycleRemoving \<Rightarrow> 5
     | WorkloadLifecycleExited \<Rightarrow> 6 | WorkloadLifecycleDead \<Rightarrow> 7)"

definition ownership_status_nat :: "OwnershipStatus \<Rightarrow> nat" where
  "ownership_status_nat s = (case s of OwnershipConflicting \<Rightarrow> 0 | OwnershipUnmanaged \<Rightarrow> 1 | OwnershipManaged \<Rightarrow> 2)"

definition transition_kind_byte :: "WorkloadTransitionKind \<Rightarrow> byte" where
  "transition_kind_byte k = (case k of WorkloadTransitionUnknown \<Rightarrow> 0 | WorkloadTransitionStop \<Rightarrow> 1
     | WorkloadTransitionRename \<Rightarrow> 2 | WorkloadTransitionRemove \<Rightarrow> 3 | WorkloadTransitionRestoreStart \<Rightarrow> 4)"

definition appendExistingWorkload :: "bytes \<Rightarrow> ExistingWorkload \<Rightarrow> bytes" where
  "appendExistingWorkload encoded workload =
     (let ownership = ew_Ownership workload;
          encoded = appendWorkloadEffectString encoded (ew_ID workload);
          encoded = appendWorkloadEffectString encoded (ew_Name workload);
          encoded = append_digest encoded (ew_ConfigurationDigest workload);
          encoded = AppendUvarint encoded (lifecycle_nat (ew_Lifecycle workload));
          encoded = AppendUvarint encoded (ownership_status_nat (ow_Status ownership));
          encoded = appendWorkloadEffectString encoded (ow_Service ownership);
          encoded = appendWorkloadEffectString encoded (ow_Transaction ownership);
          encoded = append_digest encoded (ow_DesiredState ownership);
          encoded = append_digest encoded (ow_Reference ownership);
          encoded = append_digest encoded (ow_ImageConfig ownership)
      in append_digest encoded (ow_PlatformManifest ownership))"

definition transition_encoding :: "byte \<Rightarrow> WorkloadTransition \<Rightarrow> ExistingWorkload \<Rightarrow> bytes" where
  "transition_encoding st transition observed =
     (let value = [1, st, transition_kind_byte (wt_Kind transition)];
          value = appendExistingWorkload value (wt_Before transition);
          value = appendExistingWorkload value (wt_After transition)
      in appendExistingWorkload value observed)"

definition workloadTransitionDigest :: "hash \<Rightarrow> byte \<Rightarrow> WorkloadTransition \<Rightarrow> ExistingWorkload \<Rightarrow> digest" where
  "workloadTransitionDigest H st transition observed = H (transition_encoding st transition observed)"

definition workloadTransitionIntent :: "hash \<Rightarrow> int \<Rightarrow> WorkloadTransition \<Rightarrow> ActionIntent" where
  "workloadTransitionIntent H sequence transition =
     \<lparr>an_Sequence = sequence, an_Kind = workloadTransitionActionKind (wt_Kind transition),
      an_IntentDigest = workloadTransitionDigest H 0 transition (wt_Before transition)\<rparr>"

definition workloadTransitionPostcondition :: "hash \<Rightarrow> WorkloadTransition \<Rightarrow> bool \<Rightarrow> EffectPostcondition" where
  "workloadTransitionPostcondition H transition satisfied =
     (if satisfied \<and> wt_Kind transition = WorkloadTransitionRemove
      then \<lparr>pc_Digest = workloadTransitionDigest H 1 transition zero_existing, pc_Satisfied = True\<rparr>
      else let (st, workload) = (if satisfied then (1, wt_After transition) else (0, wt_Before transition))
           in \<lparr>pc_Digest = workloadTransitionDigest H st transition workload, pc_Satisfied = satisfied\<rparr>)"

definition observedWorkloadTransition ::
  "hash \<Rightarrow> WorkloadTransition \<Rightarrow> ExistingWorkload \<Rightarrow> EffectPostcondition \<times> bool \<times> bool" where
  "observedWorkloadTransition H transition workload =
     (let removing = (wt_Before transition)\<lparr>ew_Lifecycle := WorkloadLifecycleRemoving\<rparr> in
      if wt_Kind transition = WorkloadTransitionRemove \<and> workload = removing
      then (workloadTransitionPostcondition H transition False, True, True)
      else if workload \<noteq> wt_Before transition \<and> workload \<noteq> wt_After transition
      then (empty_postcondition, False, False)
      else let satisfied = (wt_Kind transition \<noteq> WorkloadTransitionRemove \<and> workload = wt_After transition);
               st = (if satisfied then 1 else 0)
           in (\<lparr>pc_Digest = workloadTransitionDigest H st transition workload, pc_Satisfied = satisfied\<rparr>, False, True))"

definition workloadTransition_Apply ::
  "'r ports \<Rightarrow> WorkloadTransition \<Rightarrow> bool \<Rightarrow> ('r, go_error option \<times> bool) app" where
  "workloadTransition_Apply po transition resumeNeeded = do {
     err \<leftarrow> external (CallTransition transition) (po_ApplyWorkloadTransition po transition);
     State_Monad.return (map_option (Wrap ''apply workload transition'') err, resumeNeeded) }"

definition workloadTransition_Probe ::
  "'r ports \<Rightarrow> WorkloadTransition \<Rightarrow> bool \<Rightarrow> ('r, (go_error + EffectPostcondition) \<times> bool) app" where
  "workloadTransition_Probe po transition resumeNeeded = do {
     r \<leftarrow> external (CallProbeTransition transition) (po_ProbeWorkloadTransition po transition);
     State_Monad.return (case r of
       Inl err \<Rightarrow> (Inl (Wrap ''probe workload transition'' err), False)
     | Inr probe \<Rightarrow>
         if tp_State probe = WorkloadEffectProbeMissing then
           if tp_Workload probe \<noteq> zero_existing \<or> wt_Kind transition \<noteq> WorkloadTransitionRemove
           then (Inl ErrConflictingState, False)
           else (Inr \<lparr>pc_Digest = workloadTransitionDigest (po_hash po) 1 transition zero_existing, pc_Satisfied = True\<rparr>, False)
         else if tp_State probe \<noteq> WorkloadEffectProbeObserved then (Inl ErrConflictingState, False)
         else case observedWorkloadTransition (po_hash po) transition (tp_Workload probe) of
           (postcondition, incomplete, valid) \<Rightarrow>
             if \<not> valid then (Inl ErrConflictingState, False) else (Inr postcondition, incomplete)) }"

definition workloadTransition_resumeIncomplete ::
  "'r ports \<Rightarrow> WorkloadTransition \<Rightarrow> bool \<Rightarrow> ('r, go_error option \<times> bool) app" where
  "workloadTransition_resumeIncomplete po transition resumeNeeded =
     (case po_ResumeIncomplete po of
        None \<Rightarrow> State_Monad.return (Some ErrConflictingState, resumeNeeded)
      | Some resume \<Rightarrow> do {
          err \<leftarrow> external (CallResumeTransition transition) (resume transition);
          State_Monad.return (map_option (Wrap ''resume incomplete workload transition'') err, resumeNeeded) })"

definition workloadTransition_incomplete :: "bool \<Rightarrow> bool" where
  "workloadTransition_incomplete resumeNeeded = resumeNeeded"

definition workloadTransitionEffect :: "'r ports \<Rightarrow> WorkloadTransition \<Rightarrow> ('r, bool) effect" where
  "workloadTransitionEffect po transition =
     \<lparr>ef_Apply = workloadTransition_Apply po transition, ef_Probe = workloadTransition_Probe po transition,
      ef_resumer = Some (workloadTransition_incomplete, workloadTransition_resumeIncomplete po transition)\<rparr>"

definition runWorkloadTransition ::
  "'r ports \<Rightarrow> observedEffectJournal \<Rightarrow> transaction_id \<Rightarrow> int \<Rightarrow> WorkloadTransition \<Rightarrow>
   ('r, EffectPostcondition \<times> go_error option) app" where
  "runWorkloadTransition po journal i sequence transition =
     (if sequence \<le> 0 \<or> i = 0 \<or> \<not> validWorkloadTransition transition
      then State_Monad.return (empty_postcondition, Some ErrInvalidRequest)
      else run_fresh journal i (workloadTransitionIntent (po_hash po) sequence transition)
             (workloadTransitionEffect po transition) False)"

section \<open>Discarding a created workload (workload\_discard.go)\<close>

definition workloadDiscardActionKind :: string where "workloadDiscardActionKind = ''workload.discard''"

definition workloadDiscardIntent :: "hash \<Rightarrow> int \<Rightarrow> DesiredWorkload \<Rightarrow> string \<Rightarrow> ActionIntent" where
  "workloadDiscardIntent H sequence workload transaction = workloadIntent H sequence workloadDiscardActionKind workload transaction"

definition discardLifecycle :: "WorkloadLifecycle \<Rightarrow> bool" where
  "discardLifecycle lifecycle \<longleftrightarrow> lifecycle = WorkloadLifecycleCreated \<or> lifecycle = WorkloadLifecycleRunning \<or>
     lifecycle = WorkloadLifecycleExited"

definition discardWorkloadMatches :: "hash \<Rightarrow> WorkloadEffectEvidence \<Rightarrow> DesiredWorkload \<Rightarrow> string \<Rightarrow> bool" where
  "discardWorkloadMatches H evidence workload transaction =
     (if \<not> we_ConfigurationMatches evidence \<or> \<not> discardLifecycle (we_Lifecycle evidence) then False
      else we_ID evidence \<noteq> '''' \<and> we_Name evidence = ContainerName (dw_Spec workload) \<and>
        we_ConfigurationDigest evidence \<noteq> 0 \<and>
        workloadStorageMatches H (we_StorageDigest evidence) (we_RuntimeMounts evidence) workload \<and>
        Matches (we_Ownership evidence) (ServiceName (dw_Spec workload)) transaction (dw_EffectiveDigest workload)
          (im_ReferenceDigest (dw_Image workload)) \<and>
        ow_ImageConfig (we_Ownership evidence) = im_ImageConfig (dw_Image workload) \<and>
        ow_PlatformManifest (we_Ownership evidence) = im_PlatformManifest (dw_Image workload))"

definition workloadDiscard_Apply ::
  "'r ports \<Rightarrow> DesiredWorkload \<Rightarrow> string \<Rightarrow> unit \<Rightarrow> ('r, go_error option \<times> unit) app" where
  "workloadDiscard_Apply po workload transaction e = do {
     err \<leftarrow> external (CallDiscard workload transaction) (po_DiscardWorkload po workload transaction);
     State_Monad.return (map_option (Wrap ''discard runtime workload'') err, e) }"

definition workloadDiscard_Probe ::
  "'r ports \<Rightarrow> DesiredWorkload \<Rightarrow> string \<Rightarrow> unit \<Rightarrow> ('r, (go_error + EffectPostcondition) \<times> unit) app" where
  "workloadDiscard_Probe po workload transaction e = do {
     r \<leftarrow> external (CallProbeDiscarded workload transaction) (po_ProbeDiscardedWorkload po workload transaction);
     State_Monad.return (case r of
       Inl err \<Rightarrow> Inl (Wrap ''probe discarded runtime workload'' err)
     | Inr probe \<Rightarrow> (case wp_State probe of
           WorkloadEffectProbeMissing \<Rightarrow>
             if \<not> workloadEffectEvidenceEmpty (wp_Workload probe) then Inl ErrConflictingState
             else Inr \<lparr>pc_Digest = workloadEffectDigest (po_hash po) 2 workloadDiscardActionKind workload transaction '''',
                       pc_Satisfied = True\<rparr>
         | WorkloadEffectProbeObserved \<Rightarrow>
             if \<not> discardWorkloadMatches (po_hash po) (wp_Workload probe) workload transaction
             then Inl ErrConflictingState
             else Inr \<lparr>pc_Digest = workloadObservedEffectDigest (po_hash po) 1 workloadDiscardActionKind workload transaction
                         (we_ID (wp_Workload probe)) (we_StorageDigest (wp_Workload probe)), pc_Satisfied = False\<rparr>
         | WorkloadEffectProbeUnknown \<Rightarrow> Inl ErrConflictingState), e) }"

definition workloadDiscardEffect :: "'r ports \<Rightarrow> DesiredWorkload \<Rightarrow> string \<Rightarrow> ('r, unit) effect" where
  "workloadDiscardEffect po workload transaction =
     \<lparr>ef_Apply = workloadDiscard_Apply po workload transaction, ef_Probe = workloadDiscard_Probe po workload transaction,
      ef_resumer = None\<rparr>"

definition runWorkloadDiscard ::
  "'r ports \<Rightarrow> observedEffectJournal \<Rightarrow> transaction_id \<Rightarrow> int \<Rightarrow> DesiredWorkload \<Rightarrow>
   ('r, EffectPostcondition \<times> go_error option) app" where
  "runWorkloadDiscard po journal i sequence workload =
     (if sequence \<le> 0 \<or> i = 0 \<or> \<not> validWorkloadEffect po workload
      then State_Monad.return (empty_postcondition, Some ErrInvalidRequest)
      else let transaction = id_String i
           in run_fresh journal i (workloadDiscardIntent (po_hash po) sequence workload transaction)
                (workloadDiscardEffect po workload transaction) ())"

section \<open>Each effect meets the contract\<close>

lemmas effect_defs = imagePullEffect_def imagePull_Apply_def imagePull_Probe_def
  workloadCreateEffect_def workloadCreate_Apply_def workloadCreate_Probe_def
  workloadStartEffect_def workloadStart_Apply_def workloadStart_Probe_def
  workloadDiscardEffect_def workloadDiscard_Apply_def workloadDiscard_Probe_def
  workloadTransitionEffect_def workloadTransition_Apply_def workloadTransition_Probe_def workloadTransition_resumeIncomplete_def

lemmas external_rules = performs_bind performs_return performs_external performs_case_option performs_case_prod performs_case_sum performs_if
  performs_Let

interpretation pull_effect: runtime_effect "imagePullEffect po expected" "\<lambda>c. mutating c \<longrightarrow> c = CallPullImage expected" for po expected
  by unfold_locales (auto simp: effect_defs mutating_def intro!: external_rules split: option.split)

interpretation create_effect: runtime_effect "workloadCreateEffect po workload transaction options"
  "\<lambda>c. mutating c \<longrightarrow> c = CallCreate workload transaction options" for po workload transaction options
  by unfold_locales (auto simp: effect_defs mutating_def intro!: external_rules split: option.split)

interpretation start_effect: runtime_effect "workloadStartEffect po workload transaction"
  "\<lambda>c. mutating c \<longrightarrow> c = CallStart workload transaction" for po workload transaction
  by unfold_locales (auto simp: effect_defs mutating_def intro!: external_rules split: option.split)

interpretation transition_effect: runtime_effect "workloadTransitionEffect po t"
  "\<lambda>c. mutating c \<longrightarrow> c = CallTransition t \<or> c = CallResumeTransition t" for po t
  by unfold_locales (auto simp: effect_defs mutating_def intro!: external_rules split: option.split)

interpretation discard_effect: runtime_effect "workloadDiscardEffect po workload transaction"
  "\<lambda>c. mutating c \<longrightarrow> c = CallDiscard workload transaction" for po workload transaction
  by unfold_locales (auto simp: effect_defs mutating_def intro!: external_rules split: option.split)

section \<open>What the digests identify\<close>

lemma effect_strings_prefixed: "appendWorkloadEffectString = append_prefixed" "appendImageEffectString = append_prefixed"
  by (intro ext, simp add: appendWorkloadEffectString_def appendImageEffectString_def append_prefixed_def)+

lemma effect_strings_eq: "appendWorkloadEffectStrings = append_option (append_counted appendWorkloadEffectString)"
  by (intro ext) (simp add: appendWorkloadEffectStrings_def append_option_def append_counted_def split: option.splits)

interpretation effect_str: field_code appendWorkloadEffectString "\<lambda>x. x"
  unfolding effect_strings_prefixed by (rule prefixed.field_code_axioms)

interpretation image_str: field_code appendImageEffectString "\<lambda>x. x"
  unfolding effect_strings_prefixed by (rule prefixed.field_code_axioms)

interpretation effect_strs: field_code appendWorkloadEffectStrings "\<lambda>x. x"
  using field_code.option_code [OF effect_str.counted_code] by (simp add: effect_strings_eq map_option_same)

lemma lifecycle_nat_inj: "lifecycle_nat k = lifecycle_nat l \<longleftrightarrow> k = l"
  by (cases k; cases l) (simp_all add: lifecycle_nat_def)

lemma ownership_status_inj: "ownership_status_nat k = ownership_status_nat l \<longleftrightarrow> k = l"
  by (cases k; cases l) (simp_all add: ownership_status_nat_def)

lemma transition_kind_inj: "transition_kind_byte k = transition_kind_byte l \<longleftrightarrow> k = l"
  by (cases k; cases l) (simp_all add: transition_kind_byte_def)

lemmas effect_appends = basic_appends effect_str.appends_nonempty image_str.appends_nonempty effect_strs.appends_nonempty
lemmas effect_delimits = basic_delimits effect_str.self_delimiting image_str.self_delimiting effect_strs.self_delimiting

interpretation existing: field_code appendExistingWorkload "\<lambda>x. x"
  by unfold_locales
    (auto simp: appendExistingWorkload_def Let_def effect_appends effect_delimits lifecycle_nat_inj ownership_status_inj
      intro!: ExistingWorkload.equality WorkloadOwnership.equality)

text \<open>What the encoding of a workload effect retains.\<close>

definition effect_view :: "DesiredWorkload \<Rightarrow> (string \<times> string \<times> string slice \<times> string slice) \<times>
    (string \<times> digest \<times> Platform \<times> digest \<times> digest) \<times> digest \<times> digest" where
  "effect_view w = ((ServiceName (dw_Spec w), ContainerName (dw_Spec w), Entrypoint (dw_Spec w), Command (dw_Spec w)),
     (im_Reference (dw_Image w), im_ReferenceDigest (dw_Image w), im_Platform (dw_Image w), im_PlatformManifest (dw_Image w),
      im_ImageConfig (dw_Image w)), dw_SourceDigest w, dw_EffectiveDigest w)"

lemma Platform_eq_iff: "p = q \<longleftrightarrow> pf_OS p = pf_OS q \<and> pf_Architecture p = pf_Architecture q \<and> pf_Variant p = pf_Variant q"
  for p q :: Platform
  by (cases p; cases q) simp

lemma workload_effect_encoding_eq_iff:
  "workload_effect_encoding st k w t ob = workload_effect_encoding st' k' w' t' ob' \<longleftrightarrow>
   st = st' \<and> k = k' \<and> effect_view w = effect_view w' \<and> t = t' \<and> ob = ob'"
  by (auto simp: workload_effect_encoding_def Let_def effect_appends effect_delimits effect_view_def effect_str.encoding_eq_iff
      Platform_eq_iff)

lemma transition_encoding_eq_iff:
  "transition_encoding st t ob = transition_encoding st' t' ob' \<longleftrightarrow> st = st' \<and> t = t' \<and> ob = ob'"
  by (auto simp: transition_encoding_def Let_def existing.appends_nonempty existing.self_delimiting existing.encoding_eq_iff
      transition_kind_inj intro!: WorkloadTransition.equality)

lemma image_effect_encoding_eq_iff:
  "image_effect_encoding st img = image_effect_encoding st' img' \<longleftrightarrow>
   st = st' \<and> (im_Reference img, im_ReferenceDigest img, im_Platform img, im_PlatformManifest img, im_ImageConfig img) =
     (im_Reference img', im_ReferenceDigest img', im_Platform img', im_PlatformManifest img', im_ImageConfig img')"
  by (auto simp: image_effect_encoding_def Let_def effect_appends effect_delimits digest.encoding_eq_iff Platform_eq_iff)

end
