(* ===== verification/Planning.thy ===== *)
theory Planning
  imports WorkloadEffects
begin

text \<open>
  Preparing one apply (\<open>plan.go\<close>, \<open>apply.go\<close>, \<open>storage.go\<close> of \<open>src/internal/application\<close>): resolving the desired
  workload, reading the journal, observing the runtime, and classifying what has to be done. Nothing here
  changes the tables or calls a mutating operation.
\<close>

section \<open>Storage that an upgrade has to copy (storage.go)\<close>

definition writableBindNeedsCopy :: "RuntimeMount \<Rightarrow> DesiredWorkload \<Rightarrow> bool" where
  "writableBindNeedsCopy mount workload =
     (case find (\<lambda>desired. mt_Target desired = rm_Target mount) (items (Mounts (dw_Spec workload))) of
        None \<Rightarrow> False
      | Some desired \<Rightarrow> mt_Kind desired = MountBind \<and> \<not> mt_ReadOnly desired \<and> mt_Source desired \<noteq> rm_Source mount)"

definition isBackedStorageSource :: "RuntimeMount \<Rightarrow> DesiredWorkload \<Rightarrow> bool" where
  "isBackedStorageSource mount workload =
     (if rm_Target mount = '''' \<or> rm_Source mount = '''' \<or> rm_ReadOnly mount then False
      else case rm_Kind mount of
        MountVolume \<Rightarrow> rm_Name mount \<noteq> ''''
      | MountBind \<Rightarrow> writableBindNeedsCopy mount workload
      | MountKindZero \<Rightarrow> False)"

definition backedStorageSources :: "WorkloadObservation \<Rightarrow> DesiredWorkload \<Rightarrow> RuntimeMount list" where
  "backedStorageSources observation workload =
     (if ob_State observation \<noteq> WorkloadObservationPresent then []
      else filter (\<lambda>mount. isBackedStorageSource mount workload) (items (ob_RuntimeMounts observation)))"

definition upgradeCreateOptions :: "RuntimeMount list \<Rightarrow> WorkloadCreateOptions" where
  "upgradeCreateOptions sources =
     (if \<exists>source \<in> set sources. rm_Kind source = MountVolume
      then defaultWorkloadCreateOptions\<lparr>co_CopyImageVolumes := False\<rparr> else defaultWorkloadCreateOptions)"

definition replaces_bind :: "RuntimeMount \<Rightarrow> Mount \<Rightarrow> bool" where
  "replaces_bind source desired \<longleftrightarrow> \<not> (mt_Target desired \<noteq> rm_Target source \<or> mt_Kind desired \<noteq> MountBind \<or>
     mt_ReadOnly desired \<or> mt_Source desired = '''' \<or> mt_Source desired = rm_Source source)"

definition replacementBindIndexes :: "RuntimeMount list \<Rightarrow> DesiredWorkload \<Rightarrow> nat list" where
  "replacementBindIndexes sources workload =
     List.map_filter (\<lambda>source. find (\<lambda>i. replaces_bind source (items (Mounts (dw_Spec workload)) ! i))
         [0 ..< length (items (Mounts (dw_Spec workload)))])
       (filter (\<lambda>source. rm_Kind source = MountBind) sources)"

section \<open>Classifying a new apply (plan.go)\<close>

definition appliedMatchesExecution :: "AppliedService \<Rightarrow> RuntimeEvidence \<Rightarrow> bool" where
  "appliedMatchesExecution applied execution \<longleftrightarrow>
     as_Runtime applied = re_Kind execution \<and> as_ExecutionDigest applied = re_Digest execution"

definition appliedMatchesDesired :: "AppliedService \<Rightarrow> DesiredWorkload \<Rightarrow> bool" where
  "appliedMatchesDesired applied workload \<longleftrightarrow>
     as_SourceDigest applied = dw_SourceDigest workload \<and> as_EffectiveDigest applied = dw_EffectiveDigest workload \<and>
     as_ReferenceDigest applied = im_ReferenceDigest (dw_Image workload) \<and>
     as_PlatformManifestDigest applied = im_PlatformManifest (dw_Image workload) \<and>
     as_ImageConfigDigest applied = im_ImageConfig (dw_Image workload)"

definition observationIdentityMatchesApplied ::
  "hash \<Rightarrow> WorkloadObservation \<Rightarrow> DesiredWorkload \<Rightarrow> AppliedService \<Rightarrow> bool" where
  "observationIdentityMatchesApplied H observation workload applied \<longleftrightarrow>
     (let predecessor = workload\<lparr>dw_SourceDigest := as_SourceDigest applied\<rparr> in
      ob_ID observation = as_WorkloadID applied \<and> ob_ConfigurationDigest observation = as_ConfigurationDigest applied \<and>
      workloadStorageMatches H (as_StorageDigest applied) (ob_RuntimeMounts observation) predecessor)"

definition observationMatchesApplied :: "hash \<Rightarrow> WorkloadObservation \<Rightarrow> DesiredWorkload \<Rightarrow> AppliedService \<Rightarrow> bool" where
  "observationMatchesApplied H observation workload applied =
     (if \<not> observationIdentityMatchesApplied H observation workload applied then False
      else if as_Kind applied = TransactionAdopt then ob_Ownership observation = unmanaged_ownership
      else let ownership = ob_Ownership observation in
        ow_Status ownership = OwnershipManaged \<and> ow_Service ownership = ServiceName (dw_Spec workload) \<and>
        ow_Transaction ownership = id_String (as_TransactionID applied) \<and>
        ow_DesiredState ownership = as_EffectiveDigest applied \<and> ow_Reference ownership = as_ReferenceDigest applied \<and>
        ow_ImageConfig ownership = as_ImageConfigDigest applied \<and>
        ow_PlatformManifest ownership = as_PlatformManifestDigest applied)"

definition classifyAppliedWorkload ::
  "hash \<Rightarrow> WorkloadObservation \<Rightarrow> DesiredWorkload \<Rightarrow> RuntimeEvidence \<Rightarrow> AppliedService \<Rightarrow> go_error + PlanKind" where
  "classifyAppliedWorkload H observation workload execution applied =
     (if ob_State observation \<noteq> WorkloadObservationPresent \<or> \<not> ob_Running observation \<or>
         \<not> observationMatchesApplied H observation workload applied \<or> \<not> appliedMatchesExecution applied execution
      then Inl ErrConflictingState
      else if ob_ConfigurationMatches observation \<and> appliedMatchesDesired applied workload then Inr PlanUnchanged
      else Inr PlanUpgrade)"

definition classifyUnappliedWorkload :: "WorkloadObservation \<Rightarrow> go_error + PlanKind" where
  "classifyUnappliedWorkload observation =
     (if \<not> ob_Running observation then Inl ErrConflictingState
      else case ow_Status (ob_Ownership observation) of
        OwnershipConflicting \<Rightarrow> Inl ErrConflictingState
      | OwnershipUnmanaged \<Rightarrow> if ob_ConfigurationMatches observation then Inr PlanAdopt else Inl ErrConflictingState
      | OwnershipManaged \<Rightarrow> Inl ErrConflictingState)"

definition classifyNewApply ::
  "hash \<Rightarrow> WorkloadObservation \<Rightarrow> DesiredWorkload \<Rightarrow> RuntimeEvidence \<Rightarrow> AppliedService \<Rightarrow> bool \<Rightarrow> go_error + PlanKind" where
  "classifyNewApply H observation workload execution applied hasApplied =
     (if hasApplied then classifyAppliedWorkload H observation workload execution applied
      else case ob_State observation of
        WorkloadObservationUnknown \<Rightarrow> Inl ErrConflictingState
      | WorkloadObservationMissing \<Rightarrow> Inr PlanBootstrap
      | WorkloadObservationPresent \<Rightarrow> classifyUnappliedWorkload observation)"

section \<open>Classifying a recovery (plan.go)\<close>

definition validActionState :: "Action \<Rightarrow> bool" where
  "validActionState action = (case ac_State action of
      ActionStateIntent \<Rightarrow> ac_PostconditionDigest action = None
    | ActionStateEffectOutcomeUnknown \<Rightarrow> ac_PostconditionDigest action = None
    | ActionStateCompleted \<Rightarrow> ac_PostconditionDigest action \<noteq> None
    | ActionStateOther _ \<Rightarrow> False)"

text \<open>The loop over the actions, from an index on, with the pending action found so far.\<close>

fun pending_loop :: "transaction_id \<Rightarrow> nat \<Rightarrow> Action option \<Rightarrow> Action list \<Rightarrow> go_error + Action option" where
  "pending_loop i index pending [] = Inr pending"
| "pending_loop i index pending (action # actions) =
     (if ac_TransactionID action \<noteq> i \<or> ac_Sequence action \<noteq> int index + 1 \<or> \<not> validActionState action \<or> pending \<noteq> None
      then Inl ErrConflictingState
      else if ac_State action = ActionStateCompleted then pending_loop i (index + 1) pending actions
      else pending_loop i (index + 1) (Some action) actions)"

definition recoveryPendingAction :: "Transaction \<Rightarrow> Action list \<Rightarrow> go_error + Action option" where
  "recoveryPendingAction transaction actions = pending_loop (tx_ID transaction) 0 None actions"

definition classifyActiveRecovery :: "Action option \<Rightarrow> go_error + PlanKind" where
  "classifyActiveRecovery pending = (case pending of
      None \<Rightarrow> Inr PlanResume
    | Some action \<Rightarrow> (case ac_State action of
        ActionStateIntent \<Rightarrow> Inr PlanResume
      | ActionStateEffectOutcomeUnknown \<Rightarrow> Inr PlanProbeUnknownEffect
      | ActionStateCompleted \<Rightarrow> Inl ErrConflictingState
      | ActionStateOther _ \<Rightarrow> Inl ErrConflictingState))"

definition validRestorePendingAction :: "Action list \<Rightarrow> Action \<Rightarrow> bool" where
  "validRestorePendingAction actions pending =
     (if ac_Kind pending = workloadDiscardActionKind \<or>
         ac_Kind pending = workloadTransitionActionKind WorkloadTransitionRestoreStart then True
      else if ac_Kind pending = workloadTransitionActionKind WorkloadTransitionRename
      then list_ex (\<lambda>action. ac_Kind action = workloadDiscardActionKind \<and> ac_State action = ActionStateCompleted) actions
      else False)"

definition classifyRecovery :: "Transaction \<Rightarrow> Action list \<Rightarrow> go_error + PlanKind" where
  "classifyRecovery transaction actions = (case recoveryPendingAction transaction actions of
      Inl err \<Rightarrow> Inl err
    | Inr pending \<Rightarrow> (case tx_State transaction of
        TransactionActive \<Rightarrow> classifyActiveRecovery pending
      | TransactionDegraded \<Rightarrow> (case pending of
            Some action \<Rightarrow> if \<not> validRestorePendingAction actions action then Inl ErrConflictingState else Inr PlanRestore
          | None \<Rightarrow> Inr PlanRestore)
      | TransactionFailed \<Rightarrow> Inl ErrConflictingState
      | TransactionSucceeded \<Rightarrow> Inl ErrConflictingState
      | TransactionStateOther _ \<Rightarrow> Inl ErrConflictingState))"

section \<open>Warnings (plan.go, upgrade.go)\<close>

definition storageInventoryActionKind :: string where "storageInventoryActionKind = ''storage.inventory''"
definition storageBackupActionKind :: string where "storageBackupActionKind = ''storage.backup''"
definition storageRestoreActionKind :: string where "storageRestoreActionKind = ''storage.restore''"

definition containsStorageUpgradeAction :: "string list \<Rightarrow> bool" where
  "containsStorageUpgradeAction kinds =
     list_ex (\<lambda>kind. kind = storageInventoryActionKind \<or> kind = storageBackupActionKind \<or> kind = storageRestoreActionKind) kinds"

definition persistentUpgradeWithoutMountProbe :: "Preparation \<Rightarrow> bool" where
  "persistentUpgradeWithoutMountProbe preparation =
     (let kind = pl_Kind (pr_Plan preparation) in
      if \<not> (kind = PlanUpgrade \<or> kind = PlanResume \<or> kind = PlanProbeUnknownEffect \<or> kind = PlanRestore) then False
      else if kind \<noteq> PlanUpgrade \<and> tx_Kind (pr_Transaction preparation) \<noteq> TransactionUpgrade then False
      else if length (backedStorageSources (pl_Observation (pr_Plan preparation)) (pr_Workload preparation)) > 0 then True
      else containsStorageUpgradeAction (map ac_Kind (pr_Actions preparation)))"

definition mountProbeFallbackWarnings :: "Preparation \<Rightarrow> Warning slice" where
  "mountProbeFallbackWarnings preparation =
     (if \<not> persistentUpgradeWithoutMountProbe preparation then None
      else Some [\<lparr>wn_Code = WarningDaemonMountProbeUnavailable,
        wn_Message = ''daemon mount capacity and filesystem identity were not verified; '' @
          ''persistent restore relies on host backup capacity checks only''\<rparr>])"

section \<open>Preparing an apply (apply.go)\<close>

definition validRuntimeEvidence :: "RuntimeEvidence \<Rightarrow> bool" where
  "validRuntimeEvidence evidence \<longleftrightarrow> SupportsWorkloads (re_Kind evidence) \<and> pf_OS (re_Platform evidence) \<noteq> '''' \<and>
     pf_Architecture (re_Platform evidence) \<noteq> ''''"

definition validMissingWorkloadObservation :: "WorkloadObservation \<Rightarrow> bool" where
  "validMissingWorkloadObservation observation \<longleftrightarrow>
     ob_ID observation = '''' \<and> ob_ConfigurationDigest observation = 0 \<and> ob_StorageDigest observation = 0 \<and>
     ob_RuntimeMounts observation = None \<and> \<not> ob_ConfigurationMatches observation \<and> \<not> ob_Running observation \<and>
     ob_Ownership observation = zero_ownership"

definition validPresentWorkloadObservation :: "WorkloadObservation \<Rightarrow> bool" where
  "validPresentWorkloadObservation observation \<longleftrightarrow>
     ob_ID observation \<noteq> '''' \<and> ob_ConfigurationDigest observation \<noteq> 0 \<and> ob_StorageDigest observation \<noteq> 0 \<and>
     ownership_status_nat (ow_Status (ob_Ownership observation)) \<le> ownership_status_nat OwnershipManaged"

definition validWorkloadObservation :: "hash \<Rightarrow> WorkloadObservation \<Rightarrow> DesiredWorkload \<Rightarrow> bool" where
  "validWorkloadObservation H observation workload = (case ob_State observation of
      WorkloadObservationUnknown \<Rightarrow> False
    | WorkloadObservationMissing \<Rightarrow> validMissingWorkloadObservation observation
    | WorkloadObservationPresent \<Rightarrow> validPresentWorkloadObservation observation \<and>
        workloadStorageMatches H (ob_StorageDigest observation) (ob_RuntimeMounts observation) workload)"

definition transactionMatches :: "Transaction \<Rightarrow> DesiredWorkload \<Rightarrow> RuntimeEvidence \<Rightarrow> bool" where
  "transactionMatches transaction workload execution \<longleftrightarrow>
     tx_Runtime transaction = re_Kind execution \<and> tx_SourceDigest transaction = dw_SourceDigest workload \<and>
     tx_EffectiveDigest transaction = dw_EffectiveDigest workload \<and> tx_ExecutionDigest transaction = re_Digest execution"

definition transactionMatchesApplied :: "Transaction \<Rightarrow> AppliedService \<Rightarrow> bool \<Rightarrow> bool" where
  "transactionMatchesApplied transaction applied found = (case tx_Kind transaction of
      TransactionBootstrap \<Rightarrow> \<not> found \<and> \<not> tx_HasBaseTransaction transaction
    | TransactionAdopt \<Rightarrow> \<not> found \<and> \<not> tx_HasBaseTransaction transaction
    | TransactionUpgrade \<Rightarrow> found \<and> tx_HasBaseTransaction transaction \<and>
        tx_BaseTransactionID transaction = as_TransactionID applied \<and>
        tx_PredecessorWorkloadID transaction = as_WorkloadID applied
    | TransactionKindOther _ \<Rightarrow> False)"

record desiredApply =
  da_project :: string
  da_image :: ImageIdentity
  da_workload :: DesiredWorkload
  da_execution :: RuntimeEvidence

definition runtimeMatchesProject :: "ComposeProject \<Rightarrow> string \<Rightarrow> RuntimeEvidence \<Rightarrow> bool" where
  "runtimeMatchesProject project service execution = (case cp_Runtime project service of
      Inl _ \<Rightarrow> False
    | Inr runtimeKind \<Rightarrow> SupportsWorkloads runtimeKind \<and> validRuntimeEvidence execution \<and> re_Kind execution = runtimeKind)"

definition proveArchiveImage :: "'r ports \<Rightarrow> ImageIdentity \<Rightarrow> ('r, go_error + ImageIdentity) app" where
  "proveArchiveImage po identity = do {
     r \<leftarrow> external (CallProbeImage identity) (po_ProbeImage po identity);
     State_Monad.return (case r of
       Inl err \<Rightarrow> Inl (Wrap ''prove imported Docker archive image'' err)
     | Inr probe \<Rightarrow> (case ip_State probe of
         ImageProbeMissing \<Rightarrow>
           if ip_Image probe \<noteq> emptyImageEvidence then Inl ErrConflictingState else Inl ErrArchiveImageMissing
       | ImageProbeObserved \<Rightarrow>
           if \<not> ImageProbe_Matches probe identity then Inl ErrConflictingState else Inr identity
       | ImageProbeUnknown \<Rightarrow> Inl ErrConflictingState)) }"

definition resolveDesiredImage :: "'r ports \<Rightarrow> ImageInput \<Rightarrow> Platform \<Rightarrow> ('r, go_error + ImageIdentity) app" where
  "resolveDesiredImage po input platform = (case input of
      ImageInputRegistry source \<Rightarrow> do {
        r \<leftarrow> external (CallResolve source platform) (po_Resolve po source platform);
        State_Monad.return (case r of Inl err \<Rightarrow> Inl (Wrap ''resolve registry image'' err) | Inr img \<Rightarrow> Inr img) }
    | ImageInputDockerArchive identity \<Rightarrow>
        if im_Platform identity \<noteq> platform then State_Monad.return (Inl ErrInvalidRequest)
        else proveArchiveImage po identity
    | ImageInputOther \<Rightarrow> State_Monad.return (Inl ErrInvalidRequest))"

definition prepareDesired :: "'r ports \<Rightarrow> string \<Rightarrow> ('r, go_error + desiredApply) app" where
  "prepareDesired po service = do {
     loaded \<leftarrow> external CallLoad (po_Load po);
     case loaded of Inl err \<Rightarrow> State_Monad.return (Inl (Wrap ''prepare apply source'' err))
     | Inr project \<Rightarrow> (case cp_ImageInput project service of
         Inl err \<Rightarrow> State_Monad.return (Inl (Wrap ''prepare apply service'' err))
       | Inr imageInput \<Rightarrow> do {
           inspected \<leftarrow> external CallInspect (po_Inspect po);
           case inspected of Inl err \<Rightarrow> State_Monad.return (Inl (Wrap ''prepare apply runtime'' err))
           | Inr execution \<Rightarrow>
               if \<not> runtimeMatchesProject project service execution then State_Monad.return (Inl ErrInvalidRequest)
               else do {
                 resolved \<leftarrow> resolveDesiredImage po imageInput (re_Platform execution);
                 State_Monad.return (case resolved of
                   Inl err \<Rightarrow> Inl (Wrap ''prepare apply image'' err)
                 | Inr img \<Rightarrow> (case cp_Workload project service img of
                     Inl err \<Rightarrow> Inl (Wrap ''prepare apply workload'' err)
                   | Inr workload \<Rightarrow> (case po_CheckWorkload po workload of
                       Some err \<Rightarrow> Inl (Wrap ''prepare apply capability'' err)
                     | None \<Rightarrow> Inr \<lparr>da_project = cp_Name project, da_image = img, da_workload = workload,
                         da_execution = execution\<rparr>))) } }) }"

text \<open>
  \<open>TransactionReader\<close>: the journal as planning sees it. A mutation reads through the open store, a dry run and a snapshot
  through the store's read-only \<open>Reader\<close>.
\<close>

record 'r TransactionReader =
  rd_UnresolvedTransaction :: "string \<Rightarrow> string \<Rightarrow> ('r, go_error + Transaction option) app"
  rd_AppliedService :: "string \<Rightarrow> string \<Rightarrow> ('r, go_error + AppliedService option) app"
  rd_Actions :: "transaction_id \<Rightarrow> ('r, go_error + Action list) app"

definition store_reader :: "hash \<Rightarrow> 'r TransactionReader" where
  "store_reader H = \<lparr>rd_UnresolvedTransaction = UnresolvedTransaction H, rd_AppliedService = store_AppliedService H,
     rd_Actions = store_Actions\<rparr>"

definition prepareApplyEvidence ::
  "desiredApply \<Rightarrow> WorkloadObservation \<Rightarrow> Transaction \<Rightarrow> bool \<Rightarrow> AppliedService \<Rightarrow> bool \<Rightarrow> Preparation" where
  "prepareApplyEvidence desired observation transaction hasTransaction applied hasApplied =
     \<lparr>pr_Plan = \<lparr>pl_Kind = PlanKindOther '''', pl_Project = da_project desired,
        pl_Service = ServiceName (dw_Spec (da_workload desired)), pl_Runtime = re_Kind (da_execution desired),
        pl_Platform = re_Platform (da_execution desired), pl_Image = da_image desired,
        pl_Source = dw_SourceDigest (da_workload desired), pl_Desired = dw_EffectiveDigest (da_workload desired),
        pl_Observation = observation, pl_Warnings = None\<rparr>,
      pr_Workload = da_workload desired, pr_Execution = da_execution desired, pr_Transaction = transaction,
      pr_HasTransaction = hasTransaction, pr_Applied = applied, pr_HasApplied = hasApplied, pr_Actions = []\<rparr>"

definition prepareRecovery :: "'r TransactionReader \<Rightarrow> Preparation \<Rightarrow> ('r, go_error + Preparation) app" where
  "prepareRecovery reader preparation = do {
     r \<leftarrow> rd_Actions reader (tx_ID (pr_Transaction preparation));
     State_Monad.return (case r of
       Inl err \<Rightarrow> Inl (Wrap ''prepare apply actions'' err)
     | Inr actions \<Rightarrow> Inr (preparation\<lparr>pr_Actions := actions\<rparr>)) }"

definition classifyPreparedApply :: "hash \<Rightarrow> Preparation \<Rightarrow> go_error + Preparation" where
  "classifyPreparedApply H preparation =
     (let classified =
        (if pr_HasTransaction preparation then
           (if \<not> transactionMatches (pr_Transaction preparation) (pr_Workload preparation) (pr_Execution preparation) \<or>
               \<not> transactionMatchesApplied (pr_Transaction preparation) (pr_Applied preparation) (pr_HasApplied preparation)
            then Inl ErrConflictingState
            else classifyRecovery (pr_Transaction preparation) (pr_Actions preparation))
         else classifyNewApply H (pl_Observation (pr_Plan preparation)) (pr_Workload preparation) (pr_Execution preparation)
                (pr_Applied preparation) (pr_HasApplied preparation))
      in case classified of
        Inl err \<Rightarrow> Inl err
      | Inr kind \<Rightarrow>
          (let preparation = preparation\<lparr>pr_Plan := (pr_Plan preparation)\<lparr>pl_Kind := kind\<rparr>\<rparr>
           in Inr (preparation\<lparr>pr_Plan := (pr_Plan preparation)\<lparr>pl_Warnings := mountProbeFallbackWarnings preparation\<rparr>\<rparr>)))"

definition prepareObserved :: "'r ports \<Rightarrow> 'r TransactionReader \<Rightarrow> desiredApply \<Rightarrow> ('r, go_error + Preparation) app" where
  "prepareObserved po reader desired = do {
     u \<leftarrow> rd_UnresolvedTransaction reader (da_project desired) (ServiceName (dw_Spec (da_workload desired)));
     case u of Inl err \<Rightarrow> State_Monad.return (Inl (Wrap ''prepare apply journal'' err))
     | Inr found \<Rightarrow> do {
         a \<leftarrow> rd_AppliedService reader (da_project desired) (ServiceName (dw_Spec (da_workload desired)));
         case a of Inl err \<Rightarrow> State_Monad.return (Inl (Wrap ''prepare applied service'' err))
         | Inr applied \<Rightarrow> do {
             observed \<leftarrow> external (CallObserve (da_workload desired)) (po_ObserveWorkload po (da_workload desired));
             case observed of Inl err \<Rightarrow> State_Monad.return (Inl (Wrap ''prepare apply observation'' err))
             | Inr observation \<Rightarrow>
                 if \<not> validWorkloadObservation (po_hash po) observation (da_workload desired)
                 then State_Monad.return (Inl ErrConflictingState)
                 else do {
                   let preparation = prepareApplyEvidence desired observation
                     (case found of None \<Rightarrow> zero_Transaction | Some t \<Rightarrow> t) (found \<noteq> None)
                     (case applied of None \<Rightarrow> zero_AppliedService | Some s \<Rightarrow> s) (applied \<noteq> None);
                   recovered \<leftarrow> (if found \<noteq> None then prepareRecovery reader preparation
                                else State_Monad.return (Inr preparation));
                   State_Monad.return (case recovered of
                     Inl err \<Rightarrow> Inl err
                   | Inr preparation \<Rightarrow> classifyPreparedApply (po_hash po) preparation) } } } }"

definition Prepare :: "'r ports \<Rightarrow> 'r TransactionReader \<Rightarrow> string \<Rightarrow> ('r, go_error + Preparation) app" where
  "Prepare po reader service = do {
     cancelled \<leftarrow> ctx_Err;
     if cancelled then State_Monad.return (Inl (Wrap ''prepare apply'' ErrContext))
     else do {
       d \<leftarrow> prepareDesired po service;
       case d of Inl err \<Rightarrow> State_Monad.return (Inl err)
       | Inr desired \<Rightarrow> prepareObserved po reader desired } }"

definition publishPlan :: "'r ports \<Rightarrow> Preparation \<Rightarrow> ('r, unit) app" where
  "publishPlan po preparation = tryPublish (po_events po)
     (zero_Event\<lparr>ev_Kind := EventPlanPrepared, ev_Plan := pl_Kind (pr_Plan preparation),
        ev_Project := pl_Project (pr_Plan preparation), ev_Service := pl_Service (pr_Plan preparation),
        ev_Runtime := pl_Runtime (pr_Plan preparation)\<rparr>)"

definition DryRun :: "'r ports \<Rightarrow> 'r TransactionReader \<Rightarrow> string \<Rightarrow> ('r, go_error + Plan) app" where
  "DryRun po reader service = do {
     r \<leftarrow> Prepare po reader service;
     case r of Inl err \<Rightarrow> State_Monad.return (Inl err)
     | Inr preparation \<Rightarrow> do {
         publishPlan po preparation;
         State_Monad.return (Inr (pr_Plan preparation)) } }"

section \<open>Preparing only observes\<close>

lemmas store_lookups = reads_primitives(1,2) reads_lookup(2,3) reads_actions(2) reads_Fence

lemmas observe_rules = external_rules performs_publish reads_performs [OF store_lookups(1)] reads_performs [OF store_lookups(2)]
  reads_performs [OF store_lookups(3)] reads_performs [OF store_lookups(4)] reads_performs [OF store_lookups(5)]
  reads_performs [OF store_lookups(6)]

lemma observing_image: "performs (\<lambda>c. \<not> mutating c) (resolveDesiredImage po input platform)"
  unfolding resolveDesiredImage_def proveArchiveImage_def
  by (auto split: ImageInput.split simp: mutating_def intro!: observe_rules)

lemma observing_desired: "performs (\<lambda>c. \<not> mutating c) (prepareDesired po service)"
  unfolding prepareDesired_def by (intro observe_rules observing_image) (simp_all add: mutating_def)

text \<open>
  Planning asks of its reader only that it reads: no answer changes the tables or makes an external call.
\<close>

locale transaction_reader =
  fixes reader :: "'r TransactionReader"
  assumes reader_unresolved: "performs (\<lambda>_. False) (rd_UnresolvedTransaction reader project service)"
    and reader_applied: "performs (\<lambda>_. False) (rd_AppliedService reader project service)"
    and reader_actions: "performs (\<lambda>_. False) (rd_Actions reader i)"
begin

lemmas reader_rules = performs_mono [OF reader_unresolved] performs_mono [OF reader_applied] performs_mono [OF reader_actions]

lemma observing_observed: "performs (\<lambda>c. \<not> mutating c) (prepareObserved po reader desired)"
  unfolding prepareObserved_def prepareRecovery_def by (intro observe_rules reader_rules) (simp_all add: mutating_def)

lemma observing_prepare: "performs (\<lambda>c. \<not> mutating c) (Prepare po reader service)"
  unfolding Prepare_def by (intro observe_rules observing_desired observing_observed)

lemma observing_dry_run: "performs (\<lambda>c. \<not> mutating c) (DryRun po reader service)"
  unfolding DryRun_def publishPlan_def by (intro observe_rules observing_prepare)

end

interpretation journal_reader: transaction_reader "store_reader H"
  by unfold_locales (simp_all add: store_reader_def reads_performs store_lookups)

section \<open>What the classification decides\<close>

text \<open>
  The journal of a transaction is in order: its actions are numbered from one, belong to it, have a
  postcondition exactly when they are completed, and only the last one may be pending.
\<close>

definition actions_in_order :: "transaction_id \<Rightarrow> Action list \<Rightarrow> bool" where
  "actions_in_order i actions \<longleftrightarrow>
     (\<forall>n < length actions. ac_TransactionID (actions ! n) = i \<and> ac_Sequence (actions ! n) = int n + 1 \<and>
        validActionState (actions ! n) \<and> (n + 1 < length actions \<longrightarrow> ac_State (actions ! n) = ActionStateCompleted))"

definition last_pending :: "Action list \<Rightarrow> Action option" where
  "last_pending actions =
     (if actions \<noteq> [] \<and> ac_State (last actions) \<noteq> ActionStateCompleted then Some (last actions) else None)"

text \<open>The loop, started at an index: the numbering is shifted, and a pending action must not have successors.\<close>

lemma pending_loop_Some: "pending_loop i n (Some p) actions = (if actions = [] then Inr (Some p) else Inl ErrConflictingState)"
  by (cases actions) auto

lemma pending_loop_None:
  "pending_loop i k None actions =
   (if \<forall>n < length actions. ac_TransactionID (actions ! n) = i \<and> ac_Sequence (actions ! n) = int (k + n) + 1 \<and>
        validActionState (actions ! n) \<and> (n + 1 < length actions \<longrightarrow> ac_State (actions ! n) = ActionStateCompleted)
    then Inr (last_pending actions) else Inl ErrConflictingState)"
proof (induction actions arbitrary: k)
  case Nil
  show ?case by (simp add: last_pending_def)
next
  case (Cons a as)
  let ?ok = "\<lambda>xs k n. ac_TransactionID (xs ! n) = i \<and> ac_Sequence (xs ! n) = int (k + n) + 1 \<and> validActionState (xs ! n) \<and>
      (n + 1 < length xs \<longrightarrow> ac_State (xs ! n) = ActionStateCompleted)"
  have split: "(\<forall>n < length (a # as). ?ok (a # as) k n) \<longleftrightarrow> ?ok (a # as) k 0 \<and> (\<forall>n < length as. ?ok as (k + 1) n)"
    by (auto simp: less_Suc_eq_0_disj nth_Cons split: nat.split)
  show ?case
  proof (cases "ac_State a = ActionStateCompleted")
    case True
    then show ?thesis using Cons.IH [of "k + 1"] unfolding split by (auto simp: last_pending_def)
  next
    case False
    then show ?thesis unfolding split by (auto simp: pending_loop_Some last_pending_def)
  qed
qed

text \<open>
  The scan of a journal before a recovery accepts exactly the journals that are in order, and then
  reports the last action when it is not completed; anything else is a conflict. So at most one effect can have
  an unknown outcome when a recovery starts.
\<close>

theorem recoveryPendingAction_spec:
  "recoveryPendingAction transaction actions =
   (if actions_in_order (tx_ID transaction) actions then Inr (last_pending actions) else Inl ErrConflictingState)"
  by (simp add: recoveryPendingAction_def pending_loop_None actions_in_order_def)

lemma recovery_plans:
  "classifyRecovery transaction actions = Inr kind \<Longrightarrow>
   actions_in_order (tx_ID transaction) actions \<and>
   (tx_State transaction = TransactionActive \<and>
      ((kind = PlanResume \<and> (last_pending actions = None \<or> (\<exists>a. last_pending actions = Some a \<and> ac_State a = ActionStateIntent))) \<or>
       (kind = PlanProbeUnknownEffect \<and> (\<exists>a. last_pending actions = Some a \<and> ac_State a = ActionStateEffectOutcomeUnknown))) \<or>
    tx_State transaction = TransactionDegraded \<and> kind = PlanRestore)"
  by (auto simp: classifyRecovery_def recoveryPendingAction_def pending_loop_None actions_in_order_def classifyActiveRecovery_def
      split: if_split_asm option.split_asm TransactionState.split_asm ActionState.split_asm)


section \<open>Bind mounts are never copied\<close>

lemma find_target:
  "distinct (map mt_Target ms) \<Longrightarrow> m \<in> set ms \<Longrightarrow> find (\<lambda>d. mt_Target d = mt_Target m) ms = Some m"
  by (induction ms) auto

lemma valid_observation_storage:
  "validWorkloadObservation H ob w \<Longrightarrow> ob_State ob = WorkloadObservationPresent \<Longrightarrow> storage_matches w (items (ob_RuntimeMounts ob))"
  by (auto simp: validWorkloadObservation_def workloadStorageMatches_def storage_digest_eq split: if_split_asm prod.split_asm)

lemma matched_bind_source:
  assumes "storage_matches w obs" and "v \<in> set obs" and "rm_Kind v = MountBind"
  shows "\<not> writableBindNeedsCopy v w"
proof -
  let ?ms = "items (Mounts (dw_Spec w))"
  from assms obtain m where m: "m \<in> set ?ms" "mt_Target m = rm_Target v"
    unfolding storage_matches_def Let_def by (metis (no_types, lifting) imageE imageI)
  have policy: "storage_policy v m" and "distinct (map mt_Target ?ms)"
    using assms(1,2) m unfolding storage_matches_def Let_def by auto
  then have "find (\<lambda>d. mt_Target d = rm_Target v) ?ms = Some m" using find_target [of ?ms m] m by simp
  with policy assms(3) show ?thesis by (auto simp: writableBindNeedsCopy_def storage_policy_def)
qed

lemma prepared_volumes:
  "validWorkloadObservation H ob w \<Longrightarrow> m \<in> set (backedStorageSources ob w) \<Longrightarrow> rm_Kind m = MountVolume"
  using valid_observation_storage [of H ob w] matched_bind_source [of w "items (ob_RuntimeMounts ob)" m]
  by (auto simp: backedStorageSources_def isBackedStorageSource_def split: if_split_asm MountKind.split_asm)

text \<open>
  (C34) The storage that an upgrade copies is named volumes only. An observation is accepted only when each
  bind mount has exactly the desired source, so a bind mount never differs from the desired one by
  the time an upgrade looks at it: the code that gives a changed bind mount a fresh replacement
  directory never selects a mount.
\<close>

theorem prepared_sources_are_volumes:
  assumes "validWorkloadObservation H ob w"
  shows "(\<forall>m \<in> set (backedStorageSources ob w). rm_Kind m = MountVolume) \<and>
    replacementBindIndexes (backedStorageSources ob w) w = []"
proof -
  have all: "\<forall>m \<in> set (backedStorageSources ob w). rm_Kind m = MountVolume" using prepared_volumes [OF assms] by blast
  then have "filter (\<lambda>source. rm_Kind source = MountBind) (backedStorageSources ob w) = []" by (auto simp: filter_empty_conv)
  with all show ?thesis by (simp add: replacementBindIndexes_def List.map_filter_def)
qed

section \<open>Examples\<close>

definition example_image :: ImageIdentity where
  "example_image = zero_image\<lparr>im_Origin := ImageOriginRegistry, im_Reference := ''r@d'', im_ReferenceDigest := 21,
     im_Platform := \<lparr>pf_OS = ''linux'', pf_Architecture = ''amd64'', pf_Variant = ''''\<rparr>, im_PlatformManifest := 22,
     im_ImageConfig := 23\<rparr>"

definition example_workload :: DesiredWorkload where
  "example_workload = \<lparr>dw_Spec = zero_spec\<lparr>ServiceName := ''web'', ContainerName := ''web-1'', Command := Some [''run''],
      Mounts := Some [\<lparr>mt_Kind = MountVolume, mt_Source = '''', mt_Target = ''/d'', mt_ReadOnly = False\<rparr>,
        \<lparr>mt_Kind = MountBind, mt_Source = ''/s'', mt_Target = ''/b'', mt_ReadOnly = False\<rparr>]\<rparr>,
     dw_Image = example_image, dw_SourceDigest = 11, dw_EffectiveDigest = 12\<rparr>"

definition example_mounts :: "RuntimeMount list" where
  "example_mounts = [\<lparr>rm_Kind = MountVolume, rm_Name = ''v'', rm_Source = ''/v'', rm_Target = ''/d'', rm_ReadOnly = False\<rparr>,
     \<lparr>rm_Kind = MountBind, rm_Name = '''', rm_Source = ''/s'', rm_Target = ''/b'', rm_ReadOnly = False\<rparr>]"

definition example_observation :: WorkloadObservation where
  "example_observation = \<lparr>ob_ID = ''c1'', ob_State = WorkloadObservationPresent, ob_ConfigurationDigest = 31, ob_StorageDigest = 5,
     ob_RuntimeMounts = Some example_mounts, ob_ConfigurationMatches = True, ob_Running = True, ob_Ownership = unmanaged_ownership\<rparr>"

theorem prepared_sources_are_volumes_witness:
  "length (backedStorageSources example_observation example_workload) = 1 \<and>
   replacementBindIndexes (backedStorageSources example_observation example_workload) example_workload = []"
proof -
  have "validWorkloadObservation (\<lambda>_. 5) example_observation example_workload" by code_simp
  moreover have "length (backedStorageSources example_observation example_workload) = 1" by code_simp
  ultimately show ?thesis using prepared_sources_are_volumes by blast
qed

definition example_preparation :: Preparation where
  "example_preparation = prepareApplyEvidence
     \<lparr>da_project = ''p'', da_image = example_image, da_workload = example_workload,
      da_execution = \<lparr>re_Kind = RuntimeDocker, re_Platform = im_Platform example_image, re_Digest = 41\<rparr>\<rparr>
     example_observation zero_Transaction False zero_AppliedService False"


text \<open>
  A dry run changes nothing: it leaves the tables as they are and makes no call that changes
  images, workloads or backups, whatever the source, the journal and the runtime report.
\<close>

theorem dry_run_only_observes: "performs (\<lambda>c. \<not> mutating c) (DryRun po (store_reader H) service)"
  by (rule journal_reader.observing_dry_run)

end
