(* ===== verification/Bootstrap.thy ===== *)
theory Bootstrap
  imports Planning
begin

text \<open>
  Executing a bootstrap and an adoption (\<open>bootstrap.go\<close>, \<open>adopt.go\<close> and the bound mutation of \<open>mutation.go\<close> in
  \<open>src/internal/application\<close>). A bound mutation is a value that is passed on and returned; its lock is never
  nil, since it is closed only after the last use.
\<close>

section \<open>The bound mutation (mutation.go)\<close>

record boundMutation =
  bm_preparation :: Preparation
  bm_lock :: ServiceLock
  bm_backupRoot :: string
  bm_materialize :: bool
  bm_events :: bool

definition effectJournal :: "boundMutation \<Rightarrow> ('r, observedEffectJournal) app" where
  "effectJournal mutation = do {
     modify_world (\<lambda>w. w\<lparr>aw_action := '''', aw_satisfied := False\<rparr>);
     State_Monad.return \<lparr>oj_lock = bm_lock mutation, oj_events = bm_events mutation,
       oj_context = (let plan = pr_Plan (bm_preparation mutation) in
         zero_Event\<lparr>ev_Project := pl_Project plan, ev_Service := pl_Service plan, ev_Runtime := pl_Runtime plan\<rparr>)\<rparr> }"

definition publishTransaction :: "boundMutation \<Rightarrow> EventKind \<Rightarrow> ('r, unit) app" where
  "publishTransaction mutation kind =
     (let preparation = bm_preparation mutation; plan = pr_Plan preparation in
      tryPublish (bm_events mutation)
        (zero_Event\<lparr>ev_Kind := kind, ev_Plan := pl_Kind plan, ev_Project := pl_Project plan, ev_Service := pl_Service plan,
           ev_Runtime := pl_Runtime plan, ev_Transaction := id_String (tx_ID (pr_Transaction preparation))\<rparr>))"

definition materializeMutationRuntime :: "'r ports \<Rightarrow> boundMutation \<Rightarrow> ('r, go_error option) app" where
  "materializeMutationRuntime po mutation =
     (if \<not> bm_materialize mutation then State_Monad.return None
      else do {
        err \<leftarrow> external CallMaterialize (po_Materialize po);
        State_Monad.return (map_option (Wrap ''materialize apply runtime source'') err) })"

section \<open>Settled actions (bootstrap.go)\<close>

definition actionMatchesExpected :: "Action \<Rightarrow> transaction_id \<Rightarrow> ActionIntent \<Rightarrow> bool" where
  "actionMatchesExpected action i intent \<longleftrightarrow> ac_TransactionID action = i \<and> ac_Sequence action = an_Sequence intent \<and>
     ac_Kind action = an_Kind intent \<and> ac_IntentDigest action = an_IntentDigest intent"

definition completedActionDigest :: "Action \<Rightarrow> digest" where
  "completedActionDigest action = (case ac_PostconditionDigest action of None \<Rightarrow> 0 | Some d \<Rightarrow> d)"

definition requireSatisfiedEffect :: "EffectPostcondition \<times> go_error option \<Rightarrow> go_error option" where
  "requireSatisfiedEffect r = (case r of (postcondition, err) \<Rightarrow>
     if err \<noteq> None then err else if \<not> pc_Satisfied postcondition then Some ErrConflictingState else None)"

definition verifyCompletedRuntimeEffect :: "Action \<Rightarrow> ('r, 'e) effect \<Rightarrow> 'e \<Rightarrow> ('r, go_error option) app" where
  "verifyCompletedRuntimeEffect action eff e = do {
     (probe, _) \<leftarrow> ef_Probe eff e;
     State_Monad.return (case probe of
       Inl err \<Rightarrow> Some (Wrap ''verify completed runtime effect'' err)
     | Inr postcondition \<Rightarrow>
         if \<not> pc_Satisfied postcondition \<or> ac_PostconditionDigest action \<noteq> Some (pc_Digest postcondition)
         then Some ErrConflictingState else None) }"

definition imagePresent :: "'r ports \<Rightarrow> ImageIdentity \<Rightarrow> ('r, go_error + bool) app" where
  "imagePresent po expected = do {
     r \<leftarrow> external (CallProbeImage expected) (po_ProbeImage po expected);
     State_Monad.return (case r of
       Inl err \<Rightarrow> Inl (Wrap ''probe bootstrap image'' err)
     | Inr probe \<Rightarrow> (case ip_State probe of
         ImageProbeMissing \<Rightarrow> if ip_Image probe \<noteq> emptyImageEvidence then Inl ErrConflictingState else Inr False
       | ImageProbeObserved \<Rightarrow> if \<not> ImageProbe_Matches probe expected then Inl ErrConflictingState else Inr True
       | ImageProbeUnknown \<Rightarrow> Inl ErrConflictingState)) }"

definition settleImagePull :: "'r ports \<Rightarrow> boundMutation \<Rightarrow> Action \<Rightarrow> int \<Rightarrow> ('r, go_error option) app" where
  "settleImagePull po mutation action sequence =
     (let preparation = bm_preparation mutation; img = dw_Image (pr_Workload preparation);
          i = tx_ID (pr_Transaction preparation); intent = imagePullIntent (po_hash po) sequence img in
      if action \<noteq> zero_Action \<and> \<not> actionMatchesExpected action i intent then State_Monad.return (Some ErrConflictingState)
      else if ac_State action = ActionStateCompleted then verifyCompletedRuntimeEffect action (imagePullEffect po img) ()
      else do {
        journal \<leftarrow> effectJournal mutation;
        r \<leftarrow> runImagePull po journal i sequence img;
        State_Monad.return (requireSatisfiedEffect r) })"

definition createdWorkloadIdentityMatches :: "hash \<Rightarrow> WorkloadEffectEvidence \<Rightarrow> DesiredWorkload \<Rightarrow> string \<Rightarrow> bool" where
  "createdWorkloadIdentityMatches H evidence workload transaction =
     (if we_Lifecycle evidence \<noteq> WorkloadLifecycleCreated \<and> we_Lifecycle evidence \<noteq> WorkloadLifecycleRunning then False
      else createdWorkloadMatches H (evidence\<lparr>we_Lifecycle := WorkloadLifecycleCreated\<rparr>) workload transaction '''')"

definition verifyCompletedWorkloadCreate :: "'r ports \<Rightarrow> Action \<Rightarrow> Preparation \<Rightarrow> ('r, go_error option) app" where
  "verifyCompletedWorkloadCreate po action preparation =
     (let transaction = id_String (tx_ID (pr_Transaction preparation)); workload = pr_Workload preparation in do {
        r \<leftarrow> external (CallProbeCreated workload transaction '''') (po_ProbeCreatedWorkload po workload transaction '''');
        State_Monad.return (case r of
          Inl err \<Rightarrow> Some (Wrap ''verify completed workload create'' err)
        | Inr probe \<Rightarrow>
            if wp_State probe \<noteq> WorkloadEffectProbeObserved \<or>
               \<not> createdWorkloadIdentityMatches (po_hash po) (wp_Workload probe) workload transaction
            then Some ErrConflictingState
            else if ac_PostconditionDigest action \<noteq> Some (workloadObservedEffectDigest (po_hash po) 1 workloadCreateActionKind
                 workload transaction (we_ID (wp_Workload probe)) (we_StorageDigest (wp_Workload probe)))
            then Some ErrConflictingState else None) })"

definition completedWorkloadCreateResult ::
  "'r ports \<Rightarrow> Action \<Rightarrow> Preparation \<Rightarrow> ('r, EffectPostcondition \<times> go_error option) app" where
  "completedWorkloadCreateResult po action preparation =
     (let transaction = id_String (tx_ID (pr_Transaction preparation));
          missing = workloadEffectDigest (po_hash po) 2 workloadCreateActionKind (pr_Workload preparation) transaction '''' in
      if ac_PostconditionDigest action = Some missing
      then State_Monad.return (\<lparr>pc_Digest = missing, pc_Satisfied = False\<rparr>, None)
      else do {
        err \<leftarrow> verifyCompletedWorkloadCreate po action preparation;
        State_Monad.return (\<lparr>pc_Digest = completedActionDigest action, pc_Satisfied = True\<rparr>, err) })"

definition settleWorkloadCreateResult ::
  "'r ports \<Rightarrow> boundMutation \<Rightarrow> Action \<Rightarrow> int \<Rightarrow> WorkloadCreateOptions \<Rightarrow> ('r, EffectPostcondition \<times> go_error option) app" where
  "settleWorkloadCreateResult po mutation action sequence options =
     (let preparation = bm_preparation mutation; i = tx_ID (pr_Transaction preparation); transaction = id_String i;
          intent = workloadCreateIntent (po_hash po) sequence (pr_Workload preparation) transaction in
      if action \<noteq> zero_Action \<and> \<not> actionMatchesExpected action i intent
      then State_Monad.return (empty_postcondition, Some ErrConflictingState)
      else if ac_State action = ActionStateCompleted then completedWorkloadCreateResult po action preparation
      else do {
        journal \<leftarrow> effectJournal mutation;
        runWorkloadCreate po journal i sequence (pr_Workload preparation) options })"

definition settleWorkloadCreate :: "'r ports \<Rightarrow> boundMutation \<Rightarrow> Action \<Rightarrow> int \<Rightarrow> ('r, go_error option) app" where
  "settleWorkloadCreate po mutation action sequence = do {
     r \<leftarrow> settleWorkloadCreateResult po mutation action sequence defaultWorkloadCreateOptions;
     State_Monad.return (requireSatisfiedEffect r) }"

definition completedWorkloadStartResult ::
  "'r ports \<Rightarrow> Action \<Rightarrow> Preparation \<Rightarrow> ('r, EffectPostcondition \<times> go_error option) app" where
  "completedWorkloadStartResult po action preparation =
     (let transaction = id_String (tx_ID (pr_Transaction preparation)) in do {
        (probe, _) \<leftarrow> ef_Probe (workloadStartEffect po (pr_Workload preparation) transaction) ();
        State_Monad.return (case probe of
          Inl err \<Rightarrow> (empty_postcondition, Some err)
        | Inr postcondition \<Rightarrow>
            if ac_PostconditionDigest action \<noteq> Some (pc_Digest postcondition) then (empty_postcondition, Some ErrConflictingState)
            else (postcondition, None)) })"

definition settleWorkloadStartResult ::
  "'r ports \<Rightarrow> boundMutation \<Rightarrow> Action \<Rightarrow> int \<Rightarrow> ('r, EffectPostcondition \<times> go_error option) app" where
  "settleWorkloadStartResult po mutation action sequence =
     (let preparation = bm_preparation mutation; i = tx_ID (pr_Transaction preparation); transaction = id_String i;
          intent = workloadStartIntent (po_hash po) sequence (pr_Workload preparation) transaction in
      if action \<noteq> zero_Action \<and> \<not> actionMatchesExpected action i intent
      then State_Monad.return (empty_postcondition, Some ErrConflictingState)
      else if ac_State action = ActionStateCompleted then completedWorkloadStartResult po action preparation
      else do {
        journal \<leftarrow> effectJournal mutation;
        runWorkloadStart po journal i sequence (pr_Workload preparation) })"

definition settleWorkloadStart :: "'r ports \<Rightarrow> boundMutation \<Rightarrow> Action \<Rightarrow> int \<Rightarrow> ('r, go_error option) app" where
  "settleWorkloadStart po mutation action sequence = do {
     r \<leftarrow> settleWorkloadStartResult po mutation action sequence;
     State_Monad.return (requireSatisfiedEffect r) }"

section \<open>Bootstrap (bootstrap.go)\<close>

text \<open>The results \<open>(cursor, sequence, error)\<close> of settling the image.\<close>

definition settleBootstrapImage :: "'r ports \<Rightarrow> boundMutation \<Rightarrow> ('r, nat \<times> int \<times> go_error option) app" where
  "settleBootstrapImage po mutation =
     (let actions = pr_Actions (bm_preparation mutation); img = dw_Image (pr_Workload (bm_preparation mutation)) in
      if length actions > 0 \<and> ac_Kind (hd actions) = imagePullActionKind then
        if im_Origin img \<noteq> ImageOriginRegistry then State_Monad.return (0, 0, Some ErrConflictingState)
        else do {
          err \<leftarrow> settleImagePull po mutation (hd actions) 1;
          State_Monad.return (1, 2, err) }
      else do {
        r \<leftarrow> imagePresent po img;
        case r of
          Inl err \<Rightarrow> State_Monad.return (0, 0, Some err)
        | Inr present \<Rightarrow>
            if present then State_Monad.return (0, 1, None)
            else if im_Origin img = ImageOriginDockerArchive then State_Monad.return (0, 0, Some ErrArchiveImageMissing)
            else if length actions > 0 then State_Monad.return (0, 0, Some ErrConflictingState)
            else do {
              err \<leftarrow> settleImagePull po mutation zero_Action 1;
              State_Monad.return (0, 2, err) } })"

definition nextBootstrapAction :: "Action list \<Rightarrow> nat \<Rightarrow> Action \<times> nat" where
  "nextBootstrapAction actions cursor =
     (if cursor \<ge> length actions then (zero_Action, cursor) else (actions ! cursor, cursor + 1))"

definition appliedServiceIntent :: "DesiredWorkload \<Rightarrow> WorkloadEffectEvidence \<Rightarrow> AppliedServiceIntent" where
  "appliedServiceIntent workload evidence = \<lparr>ai_WorkloadID = we_ID evidence, ai_ConfigurationDigest = we_ConfigurationDigest evidence,
     ai_StorageDigest = we_StorageDigest evidence, ai_ReferenceDigest = im_ReferenceDigest (dw_Image workload),
     ai_PlatformManifestDigest = im_PlatformManifest (dw_Image workload), ai_ImageConfigDigest = im_ImageConfig (dw_Image workload),
     ai_Backup = None\<rparr>"

definition completeAppliedMutation ::
  "'r ports \<Rightarrow> boundMutation \<Rightarrow> string \<Rightarrow> BackupIndexIntent option \<Rightarrow> ('r, go_error option \<times> boundMutation) app" where
  "completeAppliedMutation po mutation operation backup =
     (let preparation = bm_preparation mutation; i = tx_ID (pr_Transaction preparation); transaction = id_String i;
          workload = pr_Workload preparation in do {
        r \<leftarrow> external (CallProbeStarted workload transaction) (po_ProbeStartedWorkload po workload transaction);
        case r of
          Inl err \<Rightarrow> State_Monad.return (Some (Wrap (''prove '' @ operation @ '' workload'') err), mutation)
        | Inr probe \<Rightarrow>
            if wp_State probe \<noteq> WorkloadEffectProbeObserved \<or>
               \<not> startedWorkloadMatches (po_hash po) (wp_Workload probe) workload transaction
            then State_Monad.return (Some ErrConflictingState, mutation)
            else do {
              c \<leftarrow> CommitAppliedService (bm_lock mutation) i ((appliedServiceIntent workload (wp_Workload probe))\<lparr>ai_Backup := backup\<rparr>);
              case c of
                Inl err \<Rightarrow> State_Monad.return (Some (Wrap (''complete '' @ operation @ '' transaction'') err), mutation)
              | Inr applied \<Rightarrow> do {
                  let mutation = mutation\<lparr>bm_preparation := preparation\<lparr>
                    pr_Transaction := (pr_Transaction preparation)\<lparr>tx_State := TransactionSucceeded\<rparr>,
                    pr_Applied := applied, pr_HasApplied := True\<rparr>\<rparr>;
                  publishTransaction mutation EventTransactionSucceeded;
                  State_Monad.return (None, mutation) } } })"

definition completeBootstrap :: "'r ports \<Rightarrow> boundMutation \<Rightarrow> ('r, go_error option \<times> boundMutation) app" where
  "completeBootstrap po mutation = completeAppliedMutation po mutation ''bootstrap'' None"

definition validBootstrapActions :: "Action list \<Rightarrow> bool" where
  "validBootstrapActions actions =
     (let expected = [workloadCreateActionKind, workloadStartActionKind];
          expected = (if length actions > 0 \<and> ac_Kind (hd actions) = imagePullActionKind
                      then imagePullActionKind # expected else expected) in
      if length actions > length expected then False
      else list_all (\<lambda>n. ac_Kind (actions ! n) = expected ! n) [0 ..< length actions])"

definition validBootstrapPlan :: "PlanKind \<Rightarrow> WorkloadObservationState \<Rightarrow> Action list \<Rightarrow> bool" where
  "validBootstrapPlan kind observation actions =
     (if kind = PlanBootstrap then length actions = 0 \<and> observation = WorkloadObservationMissing
      else if kind = PlanResume
      then validBootstrapActions actions \<and> (length actions > 0 \<or> observation = WorkloadObservationMissing)
      else kind = PlanProbeUnknownEffect \<and> length actions > 0 \<and> validBootstrapActions actions)"

definition validBootstrapMutation :: "boundMutation \<Rightarrow> bool" where
  "validBootstrapMutation mutation =
     (let preparation = bm_preparation mutation in
      if \<not> pr_HasTransaction preparation \<or> tx_State (pr_Transaction preparation) \<noteq> TransactionActive then False
      else validBootstrapPlan (pl_Kind (pr_Plan preparation)) (ob_State (pl_Observation (pr_Plan preparation))) (pr_Actions preparation))"

definition runBootstrap :: "'r ports \<Rightarrow> boundMutation \<Rightarrow> ('r, go_error option \<times> boundMutation) app" where
  "runBootstrap po mutation =
     (if \<not> validBootstrapMutation mutation then State_Monad.return (Some ErrInvalidRequest, mutation)
      else do {
        let actions = pr_Actions (bm_preparation mutation);
        (cursor, sequence, err) \<leftarrow> settleBootstrapImage po mutation;
        case err of Some e \<Rightarrow> State_Monad.return (Some e, mutation)
        | None \<Rightarrow> do {
            err \<leftarrow> materializeMutationRuntime po mutation;
            case err of Some e \<Rightarrow> State_Monad.return (Some e, mutation)
            | None \<Rightarrow> do {
                let (create, cursor) = nextBootstrapAction actions cursor;
                err \<leftarrow> settleWorkloadCreate po mutation create sequence;
                case err of Some e \<Rightarrow> State_Monad.return (Some e, mutation)
                | None \<Rightarrow> do {
                    let (start, _) = nextBootstrapAction actions cursor;
                    err \<leftarrow> settleWorkloadStart po mutation start (sequence + 1);
                    case err of Some e \<Rightarrow> State_Monad.return (Some e, mutation)
                    | None \<Rightarrow> completeBootstrap po mutation } } } })"

section \<open>Adoption (adopt.go)\<close>

definition validAdoptedObservation :: "hash \<Rightarrow> WorkloadObservation \<Rightarrow> Preparation \<Rightarrow> bool" where
  "validAdoptedObservation H observation preparation \<longleftrightarrow>
     ob_State observation = WorkloadObservationPresent \<and> ob_ID observation \<noteq> '''' \<and>
     ob_ID observation = tx_PredecessorWorkloadID (pr_Transaction preparation) \<and>
     ob_ConfigurationDigest observation \<noteq> 0 \<and>
     ob_ConfigurationDigest observation = ob_ConfigurationDigest (pl_Observation (pr_Plan preparation)) \<and>
     ob_StorageDigest observation = ob_StorageDigest (pl_Observation (pr_Plan preparation)) \<and>
     workloadStorageMatches H (ob_StorageDigest observation) (ob_RuntimeMounts observation) (pr_Workload preparation) \<and>
     ob_ConfigurationMatches observation \<and> ob_Running observation \<and> ob_Ownership observation = unmanaged_ownership"

definition activeAdoptTransaction :: "Preparation \<Rightarrow> bool" where
  "activeAdoptTransaction preparation \<longleftrightarrow>
     pr_HasTransaction preparation \<and> tx_Kind (pr_Transaction preparation) = TransactionAdopt \<and>
     tx_State (pr_Transaction preparation) = TransactionActive \<and> \<not> pr_HasApplied preparation \<and>
     length (pr_Actions preparation) = 0"

definition adoptPlan :: "PlanKind \<Rightarrow> bool" where
  "adoptPlan kind \<longleftrightarrow> kind = PlanAdopt \<or> kind = PlanResume"

definition validAdoptMutation :: "hash \<Rightarrow> boundMutation \<Rightarrow> bool" where
  "validAdoptMutation H mutation =
     (let preparation = bm_preparation mutation in
      if \<not> activeAdoptTransaction preparation \<or> \<not> adoptPlan (pl_Kind (pr_Plan preparation)) then False
      else tx_PredecessorWorkloadID (pr_Transaction preparation) = ob_ID (pl_Observation (pr_Plan preparation)) \<and>
        validAdoptedObservation H (pl_Observation (pr_Plan preparation)) preparation)"

definition runAdopt :: "'r ports \<Rightarrow> boundMutation \<Rightarrow> ('r, go_error option \<times> boundMutation) app" where
  "runAdopt po mutation =
     (if \<not> validAdoptMutation (po_hash po) mutation then State_Monad.return (Some ErrInvalidRequest, mutation)
      else let preparation = bm_preparation mutation; workload = pr_Workload preparation in do {
        r \<leftarrow> external (CallObserve workload) (po_ObserveWorkload po workload);
        case r of
          Inl err \<Rightarrow> State_Monad.return (Some (Wrap ''prove adopted workload'' err), mutation)
        | Inr observation \<Rightarrow>
            if \<not> validAdoptedObservation (po_hash po) observation preparation
            then State_Monad.return (Some ErrConflictingState, mutation)
            else do {
              c \<leftarrow> CommitAppliedService (bm_lock mutation) (tx_ID (pr_Transaction preparation))
                \<lparr>ai_WorkloadID = ob_ID observation, ai_ConfigurationDigest = ob_ConfigurationDigest observation,
                 ai_StorageDigest = ob_StorageDigest observation, ai_ReferenceDigest = im_ReferenceDigest (dw_Image workload),
                 ai_PlatformManifestDigest = im_PlatformManifest (dw_Image workload),
                 ai_ImageConfigDigest = im_ImageConfig (dw_Image workload), ai_Backup = None\<rparr>;
              case c of
                Inl err \<Rightarrow> State_Monad.return (Some (Wrap ''complete adopt transaction'' err), mutation)
              | Inr applied \<Rightarrow> do {
                  let mutation = mutation\<lparr>bm_preparation := preparation\<lparr>
                    pr_Plan := (pr_Plan preparation)\<lparr>pl_Observation := observation\<rparr>,
                    pr_Transaction := (pr_Transaction preparation)\<lparr>tx_State := TransactionSucceeded\<rparr>,
                    pr_Applied := applied, pr_HasApplied := True\<rparr>\<rparr>;
                  publishTransaction mutation EventTransactionSucceeded;
                  State_Monad.return (None, mutation) } } })"

end
