(* ===== verification/StorageEffects.thy ===== *)
theory StorageEffects
  imports Bootstrap
begin

text \<open>
  The three effects on persistent storage of an upgrade (\<open>storage_digest.go\<close>, \<open>storage_inventory.go\<close>,
  \<open>storage_backup.go\<close>, \<open>storage_restore.go\<close>, \<open>storage_publication.go\<close> of \<open>src/internal/application\<close>, with the
  comparison of inventories from \<open>src/internal/backup/archive.go\<close>): reading the archives of the predecessor's
  volumes, publishing them as a backup, and writing them into the replacement.
\<close>

section \<open>Decimal numbers and paths\<close>

text \<open>\<open>%d\<close> of \<open>fmt.Sprintf\<close> for a natural number, and with zeros in front up to a width.\<close>

function decimal :: "nat \<Rightarrow> string" where
  "decimal n = (if n < 10 then [char_of (48 + n)] else decimal (n div 10) @ [char_of (48 + n mod 10)])"
  by pat_completeness auto
termination by (relation "measure id") auto

declare decimal.simps [simp del]

definition zero_padded :: "nat \<Rightarrow> nat \<Rightarrow> string" where
  "zero_padded width n = replicate (width - length (decimal n)) (CHR ''0'') @ decimal n"

text \<open>\<open>filepath.Clean\<close>, \<open>filepath.Base\<close> and \<open>filepath.Join\<close> for the separator \<open>/\<close>.\<close>

fun split_path :: "string \<Rightarrow> string list" where
  "split_path [] = [[]]"
| "split_path (c # cs) = (if c = CHR ''/'' then [] # split_path cs else (case split_path cs of p # ps \<Rightarrow> (c # p) # ps | [] \<Rightarrow> [[c]]))"

fun clean_parts :: "bool \<Rightarrow> string list \<Rightarrow> string list \<Rightarrow> string list" where
  "clean_parts rooted out [] = rev out"
| "clean_parts rooted out (p # ps) =
     (if p = '''' \<or> p = ''.'' then clean_parts rooted out ps
      else if p = ''..'' then
        (case out of
           q # qs \<Rightarrow> if q = ''..'' then clean_parts rooted (p # out) ps else clean_parts rooted qs ps
         | [] \<Rightarrow> if rooted then clean_parts rooted out ps else clean_parts rooted [p] ps)
      else clean_parts rooted (p # out) ps)"

fun join_parts :: "string list \<Rightarrow> string" where
  "join_parts [] = []"
| "join_parts [p] = p"
| "join_parts (p # ps) = p @ ''/'' @ join_parts ps"

definition filepath_Clean :: "string \<Rightarrow> string" where
  "filepath_Clean path =
     (let rooted = (path \<noteq> [] \<and> hd path = CHR ''/'');
          cleaned = (if rooted then ''/'' else []) @ join_parts (clean_parts rooted [] (split_path path))
      in if cleaned = [] then ''.'' else cleaned)"

definition filepath_Base :: "string \<Rightarrow> string" where
  "filepath_Base path =
     (if path = [] then ''.''
      else let stripped = rev (dropWhile (\<lambda>c. c = CHR ''/'') (rev path));
               base = rev (takeWhile (\<lambda>c. c \<noteq> CHR ''/'') (rev stripped))
           in if base = [] then ''/'' else base)"

definition filepath_Join :: "string list \<Rightarrow> string" where
  "filepath_Join elements =
     (case filter (\<lambda>e. e \<noteq> []) elements of [] \<Rightarrow> [] | es \<Rightarrow> filepath_Clean (join_parts es))"

section \<open>Inventories (backup/archive.go)\<close>

definition validInventory :: "Inventory \<Rightarrow> bool" where
  "validInventory value \<longleftrightarrow>
     iv_EntryCount value \<ge> 0 \<and> iv_EntryCount value \<le> 1000000 \<and>
     iv_PayloadBytes value \<ge> 0 \<and> iv_PayloadBytes value \<le> iv_ArchiveBytes value \<and>
     iv_ArchiveBytes value \<ge> 1024 \<and> iv_ArchiveBytes value mod 512 = 0 \<and>
     iv_ArchiveDigest value \<noteq> 0 \<and> iv_SemanticDigest value \<noteq> 0"

definition SameContent :: "Inventory \<Rightarrow> Inventory \<Rightarrow> bool" where
  "SameContent left right \<longleftrightarrow> validInventory left \<and> validInventory right \<and>
     iv_EntryCount left = iv_EntryCount right \<and> iv_PayloadBytes left = iv_PayloadBytes right \<and>
     iv_SemanticDigest left = iv_SemanticDigest right"

section \<open>Digests (storage\_digest.go)\<close>

definition appendStorageString :: "bytes \<Rightarrow> string \<Rightarrow> bytes" where
  "appendStorageString value text = AppendUvarint value (length text) @ string_bytes text"

definition appendUnsignedCount :: "bytes \<Rightarrow> int \<Rightarrow> bytes" where
  "appendUnsignedCount value n = AppendUvarint value (nat (if n < 0 then 0 else n))"

definition appendRuntimeMount :: "bytes \<Rightarrow> RuntimeMount \<Rightarrow> bytes" where
  "appendRuntimeMount value mount =
     (let value = value @ [mount_kind_byte (rm_Kind mount)];
          value = appendStorageString value (rm_Name mount);
          value = appendStorageString value (rm_Source mount);
          value = appendStorageString value (rm_Target mount)
      in if rm_ReadOnly mount then value @ [1] else value @ [0])"

definition appendInventory :: "bytes \<Rightarrow> Inventory \<Rightarrow> bytes" where
  "appendInventory value inventory =
     (let value = appendUnsignedCount value (iv_EntryCount inventory);
          value = appendUnsignedCount value (iv_PayloadBytes inventory);
          value = appendUnsignedCount value (iv_ArchiveBytes inventory);
          value = append_digest value (iv_ArchiveDigest inventory)
      in append_digest value (iv_SemanticDigest inventory))"

fun append_sources :: "bytes \<Rightarrow> RuntimeMount list \<Rightarrow> Inventory list \<Rightarrow> bytes" where
  "append_sources value [] inventories = value"
| "append_sources value (source # sources) [] = append_sources (appendRuntimeMount value source) sources []"
| "append_sources value (source # sources) (inventory # inventories) =
     append_sources (appendInventory (appendRuntimeMount value source) inventory) sources inventories"

definition inventory_encoding :: "byte \<Rightarrow> string \<Rightarrow> RuntimeMount list \<Rightarrow> Inventory list \<Rightarrow> bytes" where
  "inventory_encoding st selector sources inventories =
     (let value = [1, st];
          value = appendStorageString value storageInventoryActionKind;
          value = appendStorageString value selector;
          value = AppendUvarint value (length sources)
      in append_sources value sources inventories)"

definition storageInventoryDigest :: "hash \<Rightarrow> byte \<Rightarrow> string \<Rightarrow> RuntimeMount list \<Rightarrow> Inventory list \<Rightarrow> digest" where
  "storageInventoryDigest H st selector sources inventories = H (inventory_encoding st selector sources inventories)"

definition append_artifact :: "bytes \<Rightarrow> Artifact \<Rightarrow> bytes" where
  "append_artifact value artifact =
     appendInventory (append_digest (appendRuntimeMount value (af_Mount artifact)) (af_ProvenanceDigest artifact)) (af_Inventory artifact)"

definition storageBackupDigest :: "hash \<Rightarrow> byte \<Rightarrow> Manifest \<Rightarrow> Publication \<Rightarrow> digest" where
  "storageBackupDigest H st manifest publication =
     (let value = [1, st];
          value = appendStorageString value storageBackupActionKind;
          value = append_identifier value (mf_TransactionID manifest);
          value = append_identifier value (mf_BaseTransactionID manifest);
          value = AppendUvarint value (length (mf_Artifacts manifest));
          value = foldl append_artifact value (mf_Artifacts manifest);
          value = (if pu_ManifestDigest publication \<noteq> 0
                   then appendStorageString (append_digest value (pu_ManifestDigest publication)) (pu_ManifestPath publication)
                   else value)
      in H value)"

definition storageRestoreDigest :: "hash \<Rightarrow> byte \<Rightarrow> string \<Rightarrow> Manifest \<Rightarrow> digest" where
  "storageRestoreDigest H st selector manifest =
     (let value = [1, st];
          value = appendStorageString value storageRestoreActionKind;
          value = appendStorageString value selector;
          value = append_identifier value (mf_TransactionID manifest);
          value = AppendUvarint value (length (mf_Artifacts manifest))
      in H (foldl (\<lambda>value artifact. appendInventory (appendRuntimeMount value (af_Mount artifact)) (af_Inventory artifact))
              value (mf_Artifacts manifest)))"

definition archiveTransferLimit :: nat where
  "archiveTransferLimit = 1073741824"

section \<open>Inventory (storage\_inventory.go)\<close>

definition storageInventoryIntent :: "hash \<Rightarrow> int \<Rightarrow> string \<Rightarrow> RuntimeMount list \<Rightarrow> ActionIntent" where
  "storageInventoryIntent H sequence selector sources = \<lparr>an_Sequence = sequence, an_Kind = storageInventoryActionKind,
     an_IntentDigest = storageInventoryDigest H 0 selector sources []\<rparr>"

definition storageInventoryPostcondition ::
  "hash \<Rightarrow> string \<Rightarrow> RuntimeMount list \<Rightarrow> Inventory list \<Rightarrow> bool \<Rightarrow> EffectPostcondition" where
  "storageInventoryPostcondition H selector sources inventories satisfied =
     \<lparr>pc_Digest = storageInventoryDigest H (if satisfied then 1 else 2) selector sources inventories, pc_Satisfied = satisfied\<rparr>"

type_synonym captured = "Inventory list \<times> bytes list"

fun capture_loop ::
  "'r ports \<Rightarrow> DesiredWorkload \<Rightarrow> string \<Rightarrow> RuntimeMount list \<Rightarrow> captured \<Rightarrow> ('r, go_error + captured) app" where
  "capture_loop po workload selector [] captured = State_Monad.return (Inr captured)"
| "capture_loop po workload selector (source # sources) (inventories, archives) = do {
     got \<leftarrow> external (CallGetArchive workload selector (rm_Target source))
              (po_GetWorkloadArchive po workload selector (rm_Target source) archiveTransferLimit);
     case got of Inl err \<Rightarrow> State_Monad.return (Inl (Wrap ''inventory workload archive'' err))
     | Inr raw \<Rightarrow> do {
         analyzed \<leftarrow> external CallAnalyze (po_Analyze po raw archiveTransferLimit);
         case analyzed of Inl err \<Rightarrow> State_Monad.return (Inl (Wrap ''analyze workload archive'' err))
         | Inr inventory \<Rightarrow>
             capture_loop po workload selector sources (inventories @ [inventory], archives @ [raw]) } }"

definition inventory_capture ::
  "'r ports \<Rightarrow> DesiredWorkload \<Rightarrow> string \<Rightarrow> RuntimeMount list \<Rightarrow> captured \<Rightarrow> ('r, go_error option \<times> captured) app" where
  "inventory_capture po workload selector sources e = do {
     r \<leftarrow> capture_loop po workload selector sources ([], []);
     State_Monad.return (case r of Inl err \<Rightarrow> (Some err, e) | Inr captured \<Rightarrow> (None, captured)) }"

definition storageInventory_Probe ::
  "'r ports \<Rightarrow> DesiredWorkload \<Rightarrow> string \<Rightarrow> RuntimeMount list \<Rightarrow> captured \<Rightarrow>
   ('r, (go_error + EffectPostcondition) \<times> captured) app" where
  "storageInventory_Probe po workload selector sources e = do {
     (err, e) \<leftarrow> inventory_capture po workload selector sources e;
     State_Monad.return (case err of
       Some err \<Rightarrow> (Inl err, e)
     | None \<Rightarrow> (Inr (storageInventoryPostcondition (po_hash po) selector sources (fst e) True), e)) }"

definition storageInventoryEffect ::
  "'r ports \<Rightarrow> DesiredWorkload \<Rightarrow> string \<Rightarrow> RuntimeMount list \<Rightarrow> ('r, captured) effect" where
  "storageInventoryEffect po workload selector sources =
     \<lparr>ef_Apply = inventory_capture po workload selector sources,
      ef_Probe = storageInventory_Probe po workload selector sources, ef_resumer = None\<rparr>"

definition completedStorageInventory ::
  "Action \<Rightarrow> ('r, captured) effect \<Rightarrow> captured \<Rightarrow> ('r, (EffectPostcondition \<times> go_error option) \<times> captured) app" where
  "completedStorageInventory action eff current =
     (case ac_PostconditionDigest action of
        None \<Rightarrow> State_Monad.return ((empty_postcondition, Some ErrConflictingState), current)
      | Some d \<Rightarrow> do {
          (probe, e) \<leftarrow> ef_Probe eff ([], []);
          State_Monad.return (case probe of
            Inl err \<Rightarrow> ((empty_postcondition, Some err), current)
          | Inr postcondition \<Rightarrow>
              if pc_Digest postcondition \<noteq> d then ((empty_postcondition, Some ErrConflictingState), current)
              else ((postcondition, None), e)) })"

definition settleStorageInventory ::
  "'r ports \<Rightarrow> boundMutation \<Rightarrow> Action \<Rightarrow> int \<Rightarrow> RuntimeMount list \<Rightarrow> captured \<Rightarrow>
   ('r, (EffectPostcondition \<times> go_error option) \<times> captured) app" where
  "settleStorageInventory po mutation action sequence sources current =
     (let preparation = bm_preparation mutation; i = tx_ID (pr_Transaction preparation);
          selector = id_String (as_TransactionID (pr_Applied preparation));
          intent = storageInventoryIntent (po_hash po) sequence selector sources;
          eff = storageInventoryEffect po (pr_Workload preparation) selector sources in
      if length sources = 0 then State_Monad.return ((empty_postcondition, Some ErrInvalidRequest), current)
      else if action \<noteq> zero_Action \<and> \<not> actionMatchesExpected action i intent
      then State_Monad.return ((empty_postcondition, Some ErrConflictingState), current)
      else if ac_State action = ActionStateCompleted then completedStorageInventory action eff current
      else do {
        journal \<leftarrow> effectJournal mutation;
        ((postcondition, err), e) \<leftarrow> runRuntimeEffect journal i intent eff ([], []);
        State_Monad.return
          (if err \<noteq> None \<or> \<not> pc_Satisfied postcondition then ((postcondition, err), current) else ((postcondition, None), e)) })"

section \<open>Backup (storage\_backup.go, storage\_publication.go)\<close>

definition matchingBackupPublication :: "Manifest \<Rightarrow> Publication \<Rightarrow> go_error option" where
  "matchingBackupPublication expected publication =
     (if mf_TransactionID (pu_Manifest publication) \<noteq> mf_TransactionID expected \<or>
         mf_BaseTransactionID (pu_Manifest publication) \<noteq> mf_BaseTransactionID expected \<or>
         length (mf_Artifacts (pu_Manifest publication)) \<noteq> length (mf_Artifacts expected)
      then Some ErrConflictingState else None)"

definition matchingBackupArtifacts :: "Manifest \<Rightarrow> RuntimeMount list \<Rightarrow> Inventory list \<Rightarrow> go_error option" where
  "matchingBackupArtifacts manifest sources inventories =
     (if length (mf_Artifacts manifest) \<noteq> length sources \<or> length (mf_Artifacts manifest) \<noteq> length inventories
      then Some ErrConflictingState
      else if list_all (\<lambda>n. \<not> (af_Mount (mf_Artifacts manifest ! n) \<noteq> sources ! n \<or>
                \<not> SameContent (af_Inventory (mf_Artifacts manifest ! n)) (inventories ! n))) [0 ..< length (mf_Artifacts manifest)]
      then None else Some ErrConflictingState)"

definition storageBackupIntent :: "hash \<Rightarrow> int \<Rightarrow> Manifest \<Rightarrow> ActionIntent" where
  "storageBackupIntent H sequence manifest = \<lparr>an_Sequence = sequence, an_Kind = storageBackupActionKind,
     an_IntentDigest = storageBackupDigest H 0 manifest zero_publication\<rparr>"

definition storageBackupPostcondition :: "hash \<Rightarrow> Manifest \<Rightarrow> Publication \<Rightarrow> bool \<Rightarrow> EffectPostcondition" where
  "storageBackupPostcondition H manifest publication satisfied =
     \<lparr>pc_Digest = storageBackupDigest H (if satisfied then 1 else 2) manifest publication, pc_Satisfied = satisfied\<rparr>"

definition archiveInputs :: "Manifest \<Rightarrow> bytes list \<Rightarrow> (string \<times> bytes \<times> nat) list" where
  "archiveInputs manifest archives =
     map (\<lambda>n. (rm_Target (af_Mount (mf_Artifacts manifest ! n)), archives ! n, archiveTransferLimit))
       [0 ..< length (mf_Artifacts manifest)]"

text \<open>The fields of a backup effect that change: the manifest and the publication.\<close>

type_synonym backup_fields = "Manifest \<times> Publication"

definition storageBackup_Apply ::
  "'r ports \<Rightarrow> string \<Rightarrow> bytes list \<Rightarrow> PublicationCapacity \<Rightarrow> backup_fields \<Rightarrow> ('r, go_error option \<times> backup_fields) app" where
  "storageBackup_Apply po root archives capacity e = (case e of (manifest, _) \<Rightarrow> do {
     opened \<leftarrow> external (CallOpenBackup (mf_TransactionID manifest)) (po_OpenBackup po root (mf_TransactionID manifest));
     case opened of
       Inl err \<Rightarrow> State_Monad.return (Some (Wrap ''probe workload backup'' err), e)
     | Inr (Some publication) \<Rightarrow> State_Monad.return
         (case matchingBackupPublication manifest publication of
            Some err \<Rightarrow> (Some err, e)
          | None \<Rightarrow> (None, (pu_Manifest publication, publication)))
     | Inr None \<Rightarrow> do {
         published \<leftarrow> external (CallPublishBackup manifest)
           (po_PublishBackup po root manifest (archiveInputs manifest archives) capacity);
         State_Monad.return (case published of
           Inl err \<Rightarrow> (Some (Wrap ''publish workload backup'' err), e)
         | Inr publication \<Rightarrow> (None, (pu_Manifest publication, publication))) } })"

definition storageBackup_Probe ::
  "'r ports \<Rightarrow> string \<Rightarrow> backup_fields \<Rightarrow> ('r, (go_error + EffectPostcondition) \<times> backup_fields) app" where
  "storageBackup_Probe po root e = (case e of (manifest, _) \<Rightarrow> do {
     opened \<leftarrow> external (CallOpenBackup (mf_TransactionID manifest)) (po_OpenBackup po root (mf_TransactionID manifest));
     State_Monad.return (case opened of
       Inl err \<Rightarrow> (Inl (Wrap ''probe workload backup'' err), e)
     | Inr None \<Rightarrow> (Inr (storageBackupPostcondition (po_hash po) manifest zero_publication False), e)
     | Inr (Some publication) \<Rightarrow>
         (case matchingBackupPublication manifest publication of
            Some err \<Rightarrow> (Inl err, e)
          | None \<Rightarrow> (Inr (storageBackupPostcondition (po_hash po) (pu_Manifest publication) publication True),
              (pu_Manifest publication, publication)))) })"

definition storageBackupEffect ::
  "'r ports \<Rightarrow> string \<Rightarrow> bytes list \<Rightarrow> PublicationCapacity \<Rightarrow> ('r, backup_fields) effect" where
  "storageBackupEffect po root archives capacity =
     \<lparr>ef_Apply = storageBackup_Apply po root archives capacity, ef_Probe = storageBackup_Probe po root, ef_resumer = None\<rparr>"

definition completedStorageBackup ::
  "Action \<Rightarrow> ('r, backup_fields) effect \<Rightarrow> backup_fields \<Rightarrow> ('r, (EffectPostcondition \<times> go_error option) \<times> backup_fields) app" where
  "completedStorageBackup action eff e =
     (case ac_PostconditionDigest action of
        None \<Rightarrow> State_Monad.return ((empty_postcondition, Some ErrConflictingState), e)
      | Some d \<Rightarrow> do {
          (probe, e) \<leftarrow> ef_Probe eff e;
          State_Monad.return (case probe of
            Inl err \<Rightarrow> ((empty_postcondition, Some err), e)
          | Inr postcondition \<Rightarrow>
              if pc_Digest postcondition \<noteq> d then ((empty_postcondition, Some ErrConflictingState), e)
              else ((postcondition, None), e)) })"

definition settleStorageBackup ::
  "'r ports \<Rightarrow> boundMutation \<Rightarrow> Action \<Rightarrow> int \<Rightarrow> string \<Rightarrow> Manifest \<Rightarrow> bytes list \<Rightarrow> PublicationCapacity \<Rightarrow>
   ('r, EffectPostcondition \<times> Publication \<times> go_error option) app" where
  "settleStorageBackup po mutation action sequence root manifest archives capacity =
     (let i = tx_ID (pr_Transaction (bm_preparation mutation)); intent = storageBackupIntent (po_hash po) sequence manifest;
          eff = storageBackupEffect po root archives capacity in
      if root = '''' \<or> length archives = 0 \<or> length archives \<noteq> length (mf_Artifacts manifest)
      then State_Monad.return (empty_postcondition, zero_publication, Some ErrInvalidRequest)
      else if action \<noteq> zero_Action \<and> \<not> actionMatchesExpected action i intent
      then State_Monad.return (empty_postcondition, zero_publication, Some ErrConflictingState)
      else if ac_State action = ActionStateCompleted then do {
        ((postcondition, err), e) \<leftarrow> completedStorageBackup action eff (manifest, zero_publication);
        State_Monad.return (postcondition, snd e, err) }
      else do {
        journal \<leftarrow> effectJournal mutation;
        ((postcondition, err), e) \<leftarrow> runRuntimeEffect journal i intent eff (manifest, zero_publication);
        State_Monad.return
          (if err \<noteq> None \<or> \<not> pc_Satisfied postcondition then (postcondition, zero_publication, err)
           else (postcondition, snd e, None)) })"

definition newBackupIdentifier :: "'r ports \<Rightarrow> ('r, go_error + transaction_id) app" where
  "newBackupIdentifier po = do {
     r \<leftarrow> external CallToken (po_Token po);
     State_Monad.return (case r of Inl err \<Rightarrow> Inl (Wrap ''generate backup operation token'' err) | Inr i \<Rightarrow> Inr i) }"

definition backupArtifactName :: "nat \<Rightarrow> string" where
  "backupArtifactName index = ''artifact-'' @ zero_padded 6 (index + 1) @ ''.tar''"

definition source_artifact :: "digest \<Rightarrow> RuntimeMount list \<Rightarrow> Inventory list \<Rightarrow> nat \<Rightarrow> Artifact" where
  "source_artifact provenance sources inventories index =
     \<lparr>af_Mount = sources ! index,
      af_ProvenanceDigest = (if rm_Kind (sources ! index) = MountBind then provenance else 0),
      af_FileName = backupArtifactName index, af_Inventory = inventories ! index\<rparr>"

definition newUpgradeBackupManifest ::
  "'r ports \<Rightarrow> Preparation \<Rightarrow> RuntimeMount list \<Rightarrow> Inventory list \<Rightarrow> ('r, go_error + Manifest) app" where
  "newUpgradeBackupManifest po preparation sources inventories =
     (if length sources = 0 \<or> length sources \<noteq> length inventories then State_Monad.return (Inl ErrConflictingState)
      else do {
        r \<leftarrow> newBackupIdentifier po;
        case r of Inl err \<Rightarrow> State_Monad.return (Inl err)
        | Inr token \<Rightarrow> do {
            now \<leftarrow> external CallClock (po_Clock po);
            State_Monad.return (Inr \<lparr>mf_Version = 1, mf_OperationToken = token,
              mf_TransactionID = tx_ID (pr_Transaction preparation), mf_BaseTransactionID = as_TransactionID (pr_Applied preparation),
              mf_Project = pl_Project (pr_Plan preparation), mf_Service = pl_Service (pr_Plan preparation),
              mf_Runtime = re_Kind (pr_Execution preparation), mf_CreatedUnix = now,
              mf_SourceDigest = dw_SourceDigest (pr_Workload preparation),
              mf_EffectiveDigest = dw_EffectiveDigest (pr_Workload preparation),
              mf_ExecutionDigest = re_Digest (pr_Execution preparation),
              mf_PredecessorWorkloadID = as_WorkloadID (pr_Applied preparation),
              mf_Artifacts = map (source_artifact (as_SourceDigest (pr_Applied preparation)) sources inventories)
                [0 ..< length sources]\<rparr>) } })"

definition backupIndexIntent :: "Publication \<Rightarrow> BackupIndexIntent option" where
  "backupIndexIntent publication =
     (if pu_ManifestDigest publication = 0 then None
      else Some \<lparr>bi_ManifestPath = pu_ManifestPath publication, bi_ManifestDigest = pu_ManifestDigest publication,
        bi_CreatedUnix = mf_CreatedUnix (pu_Manifest publication)\<rparr>)"

section \<open>Restoring into the replacement (storage\_restore.go)\<close>

definition storageRestoreIntent :: "hash \<Rightarrow> int \<Rightarrow> string \<Rightarrow> Manifest \<Rightarrow> ActionIntent" where
  "storageRestoreIntent H sequence selector manifest = \<lparr>an_Sequence = sequence, an_Kind = storageRestoreActionKind,
     an_IntentDigest = storageRestoreDigest H 0 selector manifest\<rparr>"

definition storageRestorePostcondition :: "hash \<Rightarrow> string \<Rightarrow> Manifest \<Rightarrow> bool \<Rightarrow> EffectPostcondition" where
  "storageRestorePostcondition H selector manifest satisfied =
     \<lparr>pc_Digest = storageRestoreDigest H (if satisfied then 1 else 2) selector manifest, pc_Satisfied = satisfied\<rparr>"

fun put_archives ::
  "'r ports \<Rightarrow> DesiredWorkload \<Rightarrow> string \<Rightarrow> (Artifact \<times> bytes) list \<Rightarrow> ('r, go_error option) app" where
  "put_archives po workload selector [] = State_Monad.return None"
| "put_archives po workload selector ((artifact, archive) # rest) = do {
     err \<leftarrow> external (CallPutArchive workload selector (rm_Target (af_Mount artifact)) archive)
              (po_PutWorkloadArchive po workload selector (rm_Target (af_Mount artifact)) archive);
     case err of Some e \<Rightarrow> State_Monad.return (Some (Wrap ''restore workload archive'' e))
     | None \<Rightarrow> put_archives po workload selector rest }"

definition storageRestore_Apply ::
  "'r ports \<Rightarrow> DesiredWorkload \<Rightarrow> string \<Rightarrow> Publication \<Rightarrow> bytes list \<Rightarrow> unit \<Rightarrow> ('r, go_error option \<times> unit) app" where
  "storageRestore_Apply po workload selector publication archives e =
     (let artifacts = mf_Artifacts (pu_Manifest publication) in
      if length archives \<noteq> length artifacts then State_Monad.return (Some ErrConflictingState, e)
      else do {
        err \<leftarrow> put_archives po workload selector (zip artifacts archives);
        State_Monad.return (err, e) })"

fun probe_archives ::
  "'r ports \<Rightarrow> DesiredWorkload \<Rightarrow> string \<Rightarrow> Manifest \<Rightarrow> Artifact list \<Rightarrow> ('r, go_error + EffectPostcondition) app" where
  "probe_archives po workload selector manifest [] =
     State_Monad.return (Inr (storageRestorePostcondition (po_hash po) selector manifest True))"
| "probe_archives po workload selector manifest (artifact # artifacts) = do {
     got \<leftarrow> external (CallGetArchive workload selector (rm_Target (af_Mount artifact)))
              (po_GetWorkloadArchive po workload selector (rm_Target (af_Mount artifact)) archiveTransferLimit);
     case got of Inl err \<Rightarrow> State_Monad.return (Inl (Wrap ''verify restored workload archive'' err))
     | Inr restored \<Rightarrow> do {
         analyzed \<leftarrow> external CallAnalyze (po_Analyze po restored archiveTransferLimit);
         case analyzed of Inl err \<Rightarrow> State_Monad.return (Inl (Wrap ''analyze restored workload archive'' err))
         | Inr inventory \<Rightarrow>
             if \<not> SameContent inventory (af_Inventory artifact)
             then State_Monad.return (Inr (storageRestorePostcondition (po_hash po) selector manifest False))
             else probe_archives po workload selector manifest artifacts } }"

definition storageRestore_Probe ::
  "'r ports \<Rightarrow> DesiredWorkload \<Rightarrow> string \<Rightarrow> Publication \<Rightarrow> unit \<Rightarrow> ('r, (go_error + EffectPostcondition) \<times> unit) app" where
  "storageRestore_Probe po workload selector publication e = do {
     r \<leftarrow> probe_archives po workload selector (pu_Manifest publication) (mf_Artifacts (pu_Manifest publication));
     State_Monad.return (r, e) }"

definition storageRestoreEffect ::
  "'r ports \<Rightarrow> DesiredWorkload \<Rightarrow> string \<Rightarrow> Publication \<Rightarrow> bytes list \<Rightarrow> ('r, unit) effect" where
  "storageRestoreEffect po workload selector publication archives =
     \<lparr>ef_Apply = storageRestore_Apply po workload selector publication archives,
      ef_Probe = storageRestore_Probe po workload selector publication, ef_resumer = None\<rparr>"

definition completedStorageRestore ::
  "Action \<Rightarrow> ('r, unit) effect \<Rightarrow> ('r, EffectPostcondition \<times> go_error option) app" where
  "completedStorageRestore action eff =
     (case ac_PostconditionDigest action of
        None \<Rightarrow> State_Monad.return (empty_postcondition, Some ErrConflictingState)
      | Some d \<Rightarrow> do {
          (probe, _) \<leftarrow> ef_Probe eff ();
          State_Monad.return (case probe of
            Inl err \<Rightarrow> (empty_postcondition, Some err)
          | Inr postcondition \<Rightarrow>
              if pc_Digest postcondition \<noteq> d then (empty_postcondition, Some ErrConflictingState)
              else (postcondition, None)) })"

definition settleStorageRestore ::
  "'r ports \<Rightarrow> boundMutation \<Rightarrow> Action \<Rightarrow> int \<Rightarrow> Publication \<Rightarrow> bytes list \<Rightarrow> ('r, EffectPostcondition \<times> go_error option) app" where
  "settleStorageRestore po mutation action sequence publication archives =
     (let preparation = bm_preparation mutation; i = tx_ID (pr_Transaction preparation); selector = id_String i;
          intent = storageRestoreIntent (po_hash po) sequence selector (pu_Manifest publication);
          eff = storageRestoreEffect po (pr_Workload preparation) selector publication archives in
      if length (mf_Artifacts (pu_Manifest publication)) = 0 then State_Monad.return (empty_postcondition, Some ErrInvalidRequest)
      else if action \<noteq> zero_Action \<and> \<not> actionMatchesExpected action i intent
      then State_Monad.return (empty_postcondition, Some ErrConflictingState)
      else if ac_State action = ActionStateCompleted then completedStorageRestore action eff
      else do {
        journal \<leftarrow> effectJournal mutation;
        run_fresh journal i intent eff () })"

end
