(* ===== verification/Upgrade.thy ===== *)
theory Upgrade
  imports StorageEffects
begin

text \<open>
  The upgrade journey (\<open>upgrade.go\<close>, \<open>storage_capacity.go\<close>, \<open>storage_publication.go\<close>, \<open>storage_bind.go\<close> of
  \<open>src/internal/application\<close>). The running predecessor is inventoried, stopped, backed up and renamed; its
  replacement is created, filled and started; then the predecessor is removed. The execution object
  \<open>upgradeExecution\<close> is a record that each stage receives and returns.
\<close>

section \<open>The journey and its actions\<close>

record upgradeJourney =
  uj_stop :: WorkloadTransition
  uj_rename :: WorkloadTransition
  uj_remove :: WorkloadTransition

record upgradeExecution =
  ux_mutation :: boundMutation
  ux_actions :: "Action list"
  ux_journey :: upgradeJourney
  ux_sources :: "RuntimeMount list"
  ux_inventories :: "Inventory list"
  ux_archives :: "bytes list"
  ux_manifest :: Manifest
  ux_capacity :: PublicationCapacity
  ux_publication :: Publication
  ux_cursor :: nat
  ux_sequence :: int

definition appliedWorkloadOwnership :: "AppliedService \<Rightarrow> string \<Rightarrow> WorkloadOwnership" where
  "appliedWorkloadOwnership applied service =
     (if as_Kind applied = TransactionAdopt then unmanaged_ownership
      else \<lparr>ow_Status = OwnershipManaged, ow_Service = service, ow_Transaction = id_String (as_TransactionID applied),
        ow_DesiredState = as_EffectiveDigest applied, ow_Reference = as_ReferenceDigest applied,
        ow_ImageConfig = as_ImageConfigDigest applied, ow_PlatformManifest = as_PlatformManifestDigest applied\<rparr>)"

definition newUpgradeJourney :: "Preparation \<Rightarrow> upgradeJourney" where
  "newUpgradeJourney preparation =
     (let applied = pr_Applied preparation; spec = dw_Spec (pr_Workload preparation);
          initial = \<lparr>ew_ID = as_WorkloadID applied, ew_Name = ContainerName spec,
            ew_ConfigurationDigest = as_ConfigurationDigest applied, ew_Lifecycle = WorkloadLifecycleRunning,
            ew_Ownership = appliedWorkloadOwnership applied (ServiceName spec)\<rparr>;
          stopped = initial\<lparr>ew_Lifecycle := WorkloadLifecycleExited\<rparr>;
          renamed = stopped\<lparr>ew_Name := ''maniud-retained-'' @ id_String (tx_ID (pr_Transaction preparation))\<rparr>
      in \<lparr>uj_stop = \<lparr>wt_Kind = WorkloadTransitionStop, wt_Before = initial, wt_After = stopped\<rparr>,
          uj_rename = \<lparr>wt_Kind = WorkloadTransitionRename, wt_Before = stopped, wt_After = renamed\<rparr>,
          uj_remove = \<lparr>wt_Kind = WorkloadTransitionRemove, wt_Before = renamed, wt_After = zero_existing\<rparr>\<rparr>)"

definition nextUpgradeAction :: "Action list \<Rightarrow> nat \<Rightarrow> Action \<times> nat" where
  "nextUpgradeAction actions cursor =
     (if cursor \<ge> length actions then (zero_Action, cursor) else (actions ! cursor, cursor + 1))"

definition upgrade_nextAction :: "upgradeExecution \<Rightarrow> Action \<times> upgradeExecution" where
  "upgrade_nextAction ex = (case nextUpgradeAction (ux_actions ex) (ux_cursor ex) of
     (action, cursor) \<Rightarrow> (action, ex\<lparr>ux_cursor := cursor\<rparr>))"

definition upgradeActionKinds :: "bool \<Rightarrow> bool \<Rightarrow> string list" where
  "upgradeActionKinds withImage withStorage =
     (if withImage then [imagePullActionKind] else []) @
     (if withStorage then [storageInventoryActionKind] else []) @
     [workloadTransitionActionKind WorkloadTransitionStop] @
     (if withStorage then [storageBackupActionKind] else []) @
     [workloadTransitionActionKind WorkloadTransitionRename, workloadCreateActionKind] @
     (if withStorage then [storageRestoreActionKind] else []) @
     [workloadStartActionKind, workloadTransitionActionKind WorkloadTransitionRemove]"

definition matchUpgradeActionPrefix :: "string list \<Rightarrow> bool" where
  "matchUpgradeActionPrefix kinds =
     (let expected = upgradeActionKinds (length kinds > 0 \<and> hd kinds = imagePullActionKind) (containsStorageUpgradeAction kinds) in
      if length kinds > length expected then False
      else list_all (\<lambda>n. kinds ! n = expected ! n) [0 ..< length kinds])"

definition validUpgradeActions :: "Action list \<Rightarrow> bool" where
  "validUpgradeActions actions = (if length actions = 0 then True else matchUpgradeActionPrefix (map ac_Kind actions))"

definition activeUpgradePlan :: "PlanKind \<Rightarrow> bool" where
  "activeUpgradePlan kind \<longleftrightarrow> kind = PlanUpgrade \<or> kind = PlanResume \<or> kind = PlanProbeUnknownEffect"

definition validUpgradeMutation :: "boundMutation \<Rightarrow> bool" where
  "validUpgradeMutation mutation =
     (let preparation = bm_preparation mutation; transaction = pr_Transaction preparation in
      if \<not> pr_HasTransaction preparation \<or> \<not> pr_HasApplied preparation \<or> tx_Kind transaction \<noteq> TransactionUpgrade \<or>
         tx_State transaction \<noteq> TransactionActive \<or> tx_BaseTransactionID transaction \<noteq> as_TransactionID (pr_Applied preparation) \<or>
         tx_PredecessorWorkloadID transaction \<noteq> as_WorkloadID (pr_Applied preparation)
      then False
      else activeUpgradePlan (pl_Kind (pr_Plan preparation)) \<and> validUpgradeActions (pr_Actions preparation))"

section \<open>Failures\<close>

definition effectResultError :: "EffectPostcondition \<times> go_error option \<Rightarrow> go_error option" where
  "effectResultError r = (case r of (postcondition, err) \<Rightarrow>
     if err \<noteq> None then err else if \<not> pc_Satisfied postcondition then Some ErrConflictingState else None)"

definition resolvedNegative :: "EffectPostcondition \<Rightarrow> bool" where
  "resolvedNegative postcondition \<longleftrightarrow> pc_Digest postcondition \<noteq> 0 \<and> \<not> pc_Satisfied postcondition"

definition resolveUpgradeFailure ::
  "boundMutation \<Rightarrow> TransactionState \<Rightarrow> go_error option \<Rightarrow> ('r, go_error option \<times> boundMutation) app" where
  "resolveUpgradeFailure mutation target cause =
     (if cause = None then State_Monad.return (errors_Join [cause, Some ErrInvalidRequest], mutation)
      else do {
        r \<leftarrow> SetTransactionState (bm_lock mutation) (tx_ID (pr_Transaction (bm_preparation mutation))) target;
        case r of
          Inl err \<Rightarrow> State_Monad.return (errors_Join [cause, Some (Wrap ''resolve upgrade transaction'' err)], mutation)
        | Inr transaction \<Rightarrow> do {
            let mutation = mutation\<lparr>bm_preparation := (bm_preparation mutation)\<lparr>pr_Transaction := transaction\<rparr>\<rparr>;
            publishTransaction mutation
              (if tx_State transaction = TransactionDegraded then EventTransactionDegraded else EventTransactionFailed);
            State_Monad.return (cause, mutation) } })"

definition resolveTransitionFailure ::
  "boundMutation \<Rightarrow> TransactionState \<Rightarrow> bool \<Rightarrow> bool \<Rightarrow> go_error option \<Rightarrow> ('r, go_error option \<times> boundMutation) app" where
  "resolveTransitionFailure mutation target satisfied resolved cause =
     (let cause = (if cause = None \<and> \<not> satisfied then Some ErrConflictingState else cause) in
      if \<not> resolved then State_Monad.return (cause, mutation) else resolveUpgradeFailure mutation target cause)"

definition resolveEffectFailure ::
  "boundMutation \<Rightarrow> EffectPostcondition \<Rightarrow> go_error option \<Rightarrow> ('r, go_error option \<times> boundMutation) app" where
  "resolveEffectFailure mutation postcondition cause =
     (if pc_Digest postcondition = 0 then State_Monad.return (cause, mutation)
      else resolveUpgradeFailure mutation TransactionDegraded cause)"

section \<open>Transitions and the image\<close>

definition completedTransitionResult :: "hash \<Rightarrow> Action \<Rightarrow> WorkloadTransition \<Rightarrow> go_error + bool" where
  "completedTransitionResult H action transition = (case ac_PostconditionDigest action of
      None \<Rightarrow> Inl ErrConflictingState
    | Some d \<Rightarrow>
        if d = pc_Digest (workloadTransitionPostcondition H transition True) then Inr True
        else if d = pc_Digest (workloadTransitionPostcondition H transition False) then Inr False
        else Inl ErrConflictingState)"

text \<open>The result \<open>(satisfied, resolved, error)\<close>.\<close>

definition settleUpgradeTransition ::
  "'r ports \<Rightarrow> boundMutation \<Rightarrow> Action \<Rightarrow> int \<Rightarrow> WorkloadTransition \<Rightarrow> ('r, bool \<times> bool \<times> go_error option) app" where
  "settleUpgradeTransition po mutation action sequence transition =
     (let i = tx_ID (pr_Transaction (bm_preparation mutation)); intent = workloadTransitionIntent (po_hash po) sequence transition in
      if action \<noteq> zero_Action \<and> \<not> actionMatchesExpected action i intent
      then State_Monad.return (False, False, Some ErrConflictingState)
      else if ac_State action = ActionStateCompleted then State_Monad.return
        (case completedTransitionResult (po_hash po) action transition of
           Inl err \<Rightarrow> (False, False, Some err)
         | Inr satisfied \<Rightarrow> (satisfied, True, None))
      else do {
        journal \<leftarrow> effectJournal mutation;
        r \<leftarrow> runWorkloadTransition po journal i sequence transition;
        State_Monad.return (pc_Satisfied (fst r), pc_Digest (fst r) \<noteq> 0, effectResultError r) })"

definition completedUpgradeImagePull ::
  "'r ports \<Rightarrow> Action \<Rightarrow> Preparation \<Rightarrow> ('r, EffectPostcondition \<times> go_error option) app" where
  "completedUpgradeImagePull po action preparation =
     (let img = dw_Image (pr_Workload preparation); missing = imageEffectDigest (po_hash po) 2 img;
          observed = imageEffectDigest (po_hash po) 1 img in
      case ac_PostconditionDigest action of
        None \<Rightarrow> State_Monad.return (empty_postcondition, Some ErrConflictingState)
      | Some d \<Rightarrow>
          if d = missing then State_Monad.return (\<lparr>pc_Digest = missing, pc_Satisfied = False\<rparr>, None)
          else if d \<noteq> observed then State_Monad.return (empty_postcondition, Some ErrConflictingState)
          else do {
            r \<leftarrow> imagePresent po img;
            State_Monad.return (\<lparr>pc_Digest = observed, pc_Satisfied = True\<rparr>,
              case r of Inl err \<Rightarrow> Some err | Inr present \<Rightarrow> if \<not> present then Some ErrConflictingState else None) })"

definition settleUpgradeImagePull ::
  "'r ports \<Rightarrow> boundMutation \<Rightarrow> Action \<Rightarrow> ('r, EffectPostcondition \<times> go_error option) app" where
  "settleUpgradeImagePull po mutation action =
     (let preparation = bm_preparation mutation; img = dw_Image (pr_Workload preparation);
          i = tx_ID (pr_Transaction preparation) in
      if \<not> actionMatchesExpected action i (imagePullIntent (po_hash po) 1 img)
      then State_Monad.return (empty_postcondition, Some ErrConflictingState)
      else if ac_State action = ActionStateCompleted then completedUpgradeImagePull po action preparation
      else do {
        journal \<leftarrow> effectJournal mutation;
        runImagePull po journal i 1 img })"

text \<open>The result \<open>(cursor, sequence, resolved, error)\<close>.\<close>

definition settleUpgradeImage :: "'r ports \<Rightarrow> boundMutation \<Rightarrow> ('r, nat \<times> int \<times> bool \<times> go_error option) app" where
  "settleUpgradeImage po mutation =
     (let preparation = bm_preparation mutation; actions = pr_Actions preparation; img = dw_Image (pr_Workload preparation) in
      if length actions > 0 \<and> ac_Kind (hd actions) = imagePullActionKind then
        if im_Origin img \<noteq> ImageOriginRegistry then State_Monad.return (0, 0, False, Some ErrConflictingState)
        else do {
          r \<leftarrow> settleUpgradeImagePull po mutation (hd actions);
          State_Monad.return (1, 2, resolvedNegative (fst r), effectResultError r) }
      else if length actions > 0 then State_Monad.return (0, 1, False, None)
      else do {
        r \<leftarrow> imagePresent po img;
        case r of
          Inl err \<Rightarrow> State_Monad.return (0, 0, False, Some err)
        | Inr present \<Rightarrow>
            if present then State_Monad.return (0, 1, False, None)
            else if im_Origin img = ImageOriginDockerArchive then State_Monad.return (0, 0, False, Some ErrArchiveImageMissing)
            else do {
              journal \<leftarrow> effectJournal mutation;
              r \<leftarrow> runImagePull po journal (tx_ID (pr_Transaction preparation)) 1 img;
              State_Monad.return (0, 2, resolvedNegative (fst r), effectResultError r) } })"

section \<open>Storage stages (storage\_inventory.go, storage\_capacity.go, storage\_publication.go, storage\_backup.go, storage\_restore.go)\<close>

text \<open>A stage returns its error and the execution afterwards.\<close>

type_synonym 'r stage = "upgradeExecution \<Rightarrow> ('r, go_error option \<times> upgradeExecution) app"

definition with_mutation ::
  "upgradeExecution \<Rightarrow> ('r, go_error option \<times> boundMutation) app \<Rightarrow> ('r, go_error option \<times> upgradeExecution) app" where
  "with_mutation ex m = do { (err, mutation) \<leftarrow> m; State_Monad.return (err, ex\<lparr>ux_mutation := mutation\<rparr>) }"

definition upgrade_inventory :: "'r ports \<Rightarrow> 'r stage" where
  "upgrade_inventory po ex =
     (if length (ux_sources ex) = 0 then State_Monad.return (None, ex)
      else do {
        let (action, ex) = upgrade_nextAction ex;
        ((postcondition, err), captured) \<leftarrow> settleStorageInventory po (ux_mutation ex) action (ux_sequence ex) (ux_sources ex)
          (ux_inventories ex, ux_archives ex);
        let ex = ex\<lparr>ux_inventories := fst captured, ux_archives := snd captured\<rparr>;
        if err \<noteq> None then with_mutation ex (resolveEffectFailure (ux_mutation ex) postcondition err)
        else State_Monad.return (None, ex\<lparr>ux_sequence := ux_sequence ex + 1\<rparr>) })"

definition openPublishedBackup :: "'r ports \<Rightarrow> upgradeExecution \<Rightarrow> ('r, go_error + Publication option) app" where
  "openPublishedBackup po ex =
     (if bm_backupRoot (ux_mutation ex) = '''' then State_Monad.return (Inl ErrInvalidRequest)
      else let i = tx_ID (pr_Transaction (bm_preparation (ux_mutation ex))) in do {
        r \<leftarrow> external (CallOpenBackup i) (po_OpenBackup po (bm_backupRoot (ux_mutation ex)) i);
        State_Monad.return (case r of Inl err \<Rightarrow> Inl (Wrap ''open published workload backup'' err) | Inr p \<Rightarrow> Inr p) })"

definition backupManifest :: "'r ports \<Rightarrow> upgradeExecution \<Rightarrow> ('r, (go_error + Manifest) \<times> upgradeExecution) app" where
  "backupManifest po ex = do {
     r \<leftarrow> openPublishedBackup po ex;
     case r of
       Inl err \<Rightarrow> State_Monad.return (Inl err, ex)
     | Inr (Some publication) \<Rightarrow> State_Monad.return
         (case matchingBackupArtifacts (pu_Manifest publication) (ux_sources ex) (ux_inventories ex) of
            Some err \<Rightarrow> (Inl err, ex)
          | None \<Rightarrow> (Inr (pu_Manifest publication), ex\<lparr>ux_publication := publication\<rparr>))
     | Inr None \<Rightarrow> do {
         m \<leftarrow> newUpgradeBackupManifest po (bm_preparation (ux_mutation ex)) (ux_sources ex) (ux_inventories ex);
         State_Monad.return (m, ex) } }"

definition publishedBackup :: "'r ports \<Rightarrow> upgradeExecution \<Rightarrow> ('r, (go_error + Publication) \<times> upgradeExecution) app" where
  "publishedBackup po ex =
     (if pu_ManifestDigest (ux_publication ex) \<noteq> 0 then State_Monad.return (Inr (ux_publication ex), ex)
      else do {
        r \<leftarrow> openPublishedBackup po ex;
        State_Monad.return (case r of
          Inl err \<Rightarrow> (Inl err, ex)
        | Inr None \<Rightarrow> (Inl ErrConflictingState, ex)
        | Inr (Some publication) \<Rightarrow>
            (case matchingBackupArtifacts (pu_Manifest publication) (ux_sources ex) (ux_inventories ex) of
               Some err \<Rightarrow> (Inl err, ex)
             | None \<Rightarrow> (Inr publication, ex\<lparr>ux_publication := publication\<rparr>))) })"

definition failCapacity :: "upgradeExecution \<Rightarrow> go_error \<Rightarrow> ('r, go_error option \<times> upgradeExecution) app" where
  "failCapacity ex cause = with_mutation ex
     (resolveUpgradeFailure (ux_mutation ex) TransactionFailed (Some (Wrap ''prepare workload backup capacity'' cause)))"

definition prepareBackupCapacity :: "'r ports \<Rightarrow> 'r stage" where
  "prepareBackupCapacity po ex =
     (if length (ux_sources ex) = 0 then State_Monad.return (None, ex)
      else if bm_backupRoot (ux_mutation ex) = '''' then State_Monad.return (Some ErrInvalidRequest, ex)
      else do {
        (r, ex) \<leftarrow> backupManifest po ex;
        case r of
          Inl err \<Rightarrow> failCapacity ex err
        | Inr manifest \<Rightarrow>
            (let ex = ex\<lparr>ux_manifest := manifest\<rparr> in
             if pu_ManifestDigest (ux_publication ex) \<noteq> 0 then State_Monad.return (None, ex)
             else do {
               c \<leftarrow> external (CallPrepareCapacity manifest) (po_PrepareCapacity po (bm_backupRoot (ux_mutation ex)) manifest);
               case c of
                 Inl err \<Rightarrow> failCapacity ex err
               | Inr capacity \<Rightarrow> State_Monad.return (None, ex\<lparr>ux_capacity := capacity\<rparr>) }) })"

definition upgrade_backup :: "'r ports \<Rightarrow> 'r stage" where
  "upgrade_backup po ex =
     (if length (ux_sources ex) = 0 then State_Monad.return (None, ex)
      else if bm_backupRoot (ux_mutation ex) = '''' then State_Monad.return (Some ErrInvalidRequest, ex)
      else if mf_TransactionID (ux_manifest ex) = 0 then State_Monad.return (Some ErrInvalidRequest, ex)
      else do {
        let (action, ex) = upgrade_nextAction ex;
        (postcondition, publication, err) \<leftarrow> settleStorageBackup po (ux_mutation ex) action (ux_sequence ex)
          (bm_backupRoot (ux_mutation ex)) (ux_manifest ex) (ux_archives ex) (ux_capacity ex);
        if err \<noteq> None then with_mutation ex (resolveEffectFailure (ux_mutation ex) postcondition err)
        else if \<not> pc_Satisfied postcondition
        then with_mutation ex (resolveEffectFailure (ux_mutation ex) postcondition (Some ErrConflictingState))
        else State_Monad.return (None, ex\<lparr>ux_publication := publication, ux_sequence := ux_sequence ex + 1\<rparr>) })"

definition upgrade_restore :: "'r ports \<Rightarrow> 'r stage" where
  "upgrade_restore po ex =
     (if length (ux_sources ex) = 0 then State_Monad.return (None, ex)
      else do {
        (r, ex) \<leftarrow> publishedBackup po ex;
        case r of
          Inl err \<Rightarrow> State_Monad.return (Some err, ex)
        | Inr publication \<Rightarrow> do {
            let (action, ex) = upgrade_nextAction ex;
            (postcondition, err) \<leftarrow> settleStorageRestore po (ux_mutation ex) action (ux_sequence ex) publication (ux_archives ex);
            if err \<noteq> None then with_mutation ex (resolveEffectFailure (ux_mutation ex) postcondition err)
            else if \<not> pc_Satisfied postcondition
            then with_mutation ex (resolveEffectFailure (ux_mutation ex) postcondition (Some ErrConflictingState))
            else State_Monad.return (None, ex\<lparr>ux_sequence := ux_sequence ex + 1\<rparr>) } })"

section \<open>Workload stages (upgrade.go, storage\_bind.go)\<close>

definition transition_stage :: "'r ports \<Rightarrow> TransactionState \<Rightarrow> (upgradeJourney \<Rightarrow> WorkloadTransition) \<Rightarrow> bool \<Rightarrow> 'r stage" where
  "transition_stage po target select advance ex = do {
     let (action, ex) = upgrade_nextAction ex;
     (satisfied, resolved, err) \<leftarrow> settleUpgradeTransition po (ux_mutation ex) action (ux_sequence ex) (select (ux_journey ex));
     if err \<noteq> None \<or> \<not> satisfied
     then with_mutation ex (resolveTransitionFailure (ux_mutation ex) target satisfied resolved err)
     else State_Monad.return (None, if advance then ex\<lparr>ux_sequence := ux_sequence ex + 1\<rparr> else ex) }"

definition upgrade_stop :: "'r ports \<Rightarrow> 'r stage" where
  "upgrade_stop po = transition_stage po TransactionFailed uj_stop True"

definition upgrade_rename :: "'r ports \<Rightarrow> 'r stage" where
  "upgrade_rename po = transition_stage po TransactionDegraded uj_rename True"

definition upgrade_remove :: "'r ports \<Rightarrow> 'r stage" where
  "upgrade_remove po = transition_stage po TransactionDegraded uj_remove False"

definition replacementBindPath :: "string \<Rightarrow> string \<Rightarrow> Mount \<Rightarrow> go_error + string" where
  "replacementBindPath root transaction desired =
     (if root = '''' \<or> transaction = '''' \<or> mt_Target desired = '''' then Inl ErrInvalidRequest
      else let name = filepath_Base (filepath_Clean (mt_Target desired)) in
        if name = '''' \<or> name = ''.'' \<or> name = ''/'' then Inl ErrInvalidRequest
        else Inr (filepath_Join [root, ''replacements'', transaction, name]))"

definition set_mount_source :: "nat \<Rightarrow> string \<Rightarrow> boundMutation \<Rightarrow> boundMutation" where
  "set_mount_source index path mutation =
     (let preparation = bm_preparation mutation; workload = pr_Workload preparation; spec = dw_Spec workload;
          mounts = items (Mounts spec) in
      mutation\<lparr>bm_preparation := preparation\<lparr>pr_Workload := workload\<lparr>dw_Spec :=
        spec\<lparr>Mounts := Some (mounts[index := (mounts ! index)\<lparr>mt_Source := path\<rparr>])\<rparr>\<rparr>\<rparr>\<rparr>)"

fun replace_binds :: "'r ports \<Rightarrow> nat list \<Rightarrow> boundMutation \<Rightarrow> ('r, go_error option \<times> boundMutation) app" where
  "replace_binds po [] mutation = State_Monad.return (None, mutation)"
| "replace_binds po (index # rest) mutation =
     (case replacementBindPath (bm_backupRoot mutation) (id_String (tx_ID (pr_Transaction (bm_preparation mutation))))
        (items (Mounts (dw_Spec (pr_Workload (bm_preparation mutation)))) ! index) of
        Inl err \<Rightarrow> State_Monad.return (Some err, mutation)
      | Inr path \<Rightarrow> do {
          err \<leftarrow> external (CallEnsureEmptyBind path) (po_EnsureEmptyBind po path);
          case err of
            Some e \<Rightarrow> State_Monad.return (Some e, mutation)
          | None \<Rightarrow> replace_binds po rest (set_mount_source index path mutation) })"

definition prepareUpgradeReplacementBinds :: "'r ports \<Rightarrow> 'r stage" where
  "prepareUpgradeReplacementBinds po ex =
     (let replacements = replacementBindIndexes (ux_sources ex) (pr_Workload (bm_preparation (ux_mutation ex))) in
      if length replacements = 0 then State_Monad.return (None, ex)
      else if bm_backupRoot (ux_mutation ex) = '''' then State_Monad.return (Some ErrInvalidRequest, ex)
      else with_mutation ex (replace_binds po replacements (ux_mutation ex)))"

text \<open>A stage that settles an effect of the replacement: creation and start.\<close>

definition effect_stage ::
  "upgradeExecution \<Rightarrow> EffectPostcondition \<times> go_error option \<Rightarrow> ('r, go_error option \<times> upgradeExecution) app" where
  "effect_stage ex r = (case r of (postcondition, err) \<Rightarrow>
     if err \<noteq> None then with_mutation ex (resolveEffectFailure (ux_mutation ex) postcondition err)
     else if \<not> pc_Satisfied postcondition
     then with_mutation ex (resolveEffectFailure (ux_mutation ex) postcondition (Some ErrConflictingState))
     else State_Monad.return (None, ex\<lparr>ux_sequence := ux_sequence ex + 1\<rparr>))"

definition upgrade_create :: "'r ports \<Rightarrow> 'r stage" where
  "upgrade_create po ex = do {
     err \<leftarrow> materializeMutationRuntime po (ux_mutation ex);
     case err of Some e \<Rightarrow> State_Monad.return (Some e, ex)
     | None \<Rightarrow> do {
         (err, ex) \<leftarrow> prepareUpgradeReplacementBinds po ex;
         case err of Some e \<Rightarrow> State_Monad.return (Some e, ex)
         | None \<Rightarrow> do {
             let (action, ex) = upgrade_nextAction ex;
             r \<leftarrow> settleWorkloadCreateResult po (ux_mutation ex) action (ux_sequence ex) (upgradeCreateOptions (ux_sources ex));
             effect_stage ex r } } }"

definition upgrade_start :: "'r ports \<Rightarrow> 'r stage" where
  "upgrade_start po ex = do {
     let (action, ex) = upgrade_nextAction ex;
     r \<leftarrow> settleWorkloadStartResult po (ux_mutation ex) action (ux_sequence ex);
     effect_stage ex r }"

section \<open>The whole upgrade\<close>

fun run_stages :: "'r stage list \<Rightarrow> 'r stage" where
  "run_stages [] ex = State_Monad.return (None, ex)"
| "run_stages (stage # stages) ex = do {
     (err, ex) \<leftarrow> stage ex;
     case err of Some e \<Rightarrow> State_Monad.return (Some e, ex) | None \<Rightarrow> run_stages stages ex }"

definition upgrade_stages :: "'r ports \<Rightarrow> 'r stage list" where
  "upgrade_stages po = [upgrade_inventory po, prepareBackupCapacity po, upgrade_stop po, upgrade_backup po, upgrade_rename po,
     upgrade_create po, upgrade_restore po, upgrade_start po, upgrade_remove po]"

definition completeUpgrade :: "'r ports \<Rightarrow> boundMutation \<Rightarrow> Publication \<Rightarrow> ('r, go_error option \<times> boundMutation) app" where
  "completeUpgrade po mutation publication = completeAppliedMutation po mutation ''upgrade'' (backupIndexIntent publication)"

definition runUpgrade :: "'r ports \<Rightarrow> boundMutation \<Rightarrow> ('r, go_error option \<times> boundMutation) app" where
  "runUpgrade po mutation =
     (if \<not> validUpgradeMutation mutation then State_Monad.return (Some ErrInvalidRequest, mutation)
      else do {
        (cursor, sequence, resolved, err) \<leftarrow> settleUpgradeImage po mutation;
        case err of
          Some e \<Rightarrow> if resolved then resolveUpgradeFailure mutation TransactionFailed err else State_Monad.return (err, mutation)
        | None \<Rightarrow> do {
            err \<leftarrow> materializeMutationRuntime po mutation;
            case err of Some e \<Rightarrow> State_Monad.return (Some e, mutation)
            | None \<Rightarrow> do {
                let preparation = bm_preparation mutation;
                (err, ex) \<leftarrow> run_stages (upgrade_stages po)
                  \<lparr>ux_mutation = mutation, ux_actions = pr_Actions preparation, ux_journey = newUpgradeJourney preparation,
                   ux_sources = backedStorageSources (pl_Observation (pr_Plan preparation)) (pr_Workload preparation),
                   ux_inventories = [], ux_archives = [], ux_manifest = zero_manifest, ux_capacity = zero_capacity,
                   ux_publication = zero_publication, ux_cursor = cursor, ux_sequence = sequence\<rparr>;
                case err of Some e \<Rightarrow> State_Monad.return (Some e, ux_mutation ex)
                | None \<Rightarrow> completeUpgrade po (ux_mutation ex) (ux_publication ex) } } })"

end
