(* ===== verification/Restore.thy ===== *)
theory Restore
  imports Upgrade
begin

text \<open>
  The restore journey (\<open>restore.go\<close> of \<open>src/internal/application\<close>): the predecessor of a degraded upgrade is
  brought back. The recorded actions are checked against the intents of the upgrade; what was done tells
  whether the replacement has to be discarded and the predecessor renamed back, and then the predecessor is started.
\<close>

section \<open>The recorded core of the upgrade\<close>

record restoreJourney =
  rj_coreActions :: nat
  rj_discard :: bool
  rj_reverseRename :: bool
  rj_rename :: WorkloadTransition
  rj_restoreStart :: WorkloadTransition
  rj_nextSequence :: int
  rj_recoveryCursor :: nat

record restoreCoreEvidence =
  rc_discard :: bool
  rc_reverseRename :: bool

definition coreContainsAction :: "Action list \<Rightarrow> string \<Rightarrow> bool" where
  "coreContainsAction actions kind = list_ex (\<lambda>action. ac_Kind action = kind) actions"

text \<open>The index of the first action of a kind; \<^const>\<open>None\<close> is the result \<open>-1\<close>.\<close>

definition coreActionIndex :: "Action list \<Rightarrow> string \<Rightarrow> nat option" where
  "coreActionIndex actions kind = find (\<lambda>n. ac_Kind (actions ! n) = kind) [0 ..< length actions]"

definition coreStopIndex :: "Action list \<Rightarrow> nat option" where
  "coreStopIndex actions = coreActionIndex actions (workloadTransitionActionKind WorkloadTransitionStop)"

definition restoreCoreActionCount :: "Action list \<Rightarrow> ActionIntent list \<Rightarrow> nat" where
  "restoreCoreActionCount actions intents =
     (let limit = min (length actions) (length intents) in
      case find (\<lambda>n. ac_Kind (actions ! n) \<noteq> an_Kind (intents ! n)) [0 ..< limit] of
        Some n \<Rightarrow> n | None \<Rightarrow> limit)"

definition restoreBackupManifest :: "Preparation \<Rightarrow> Publication \<Rightarrow> Manifest" where
  "restoreBackupManifest preparation publication =
     (if pu_ManifestDigest publication \<noteq> 0 then pu_Manifest publication
      else let sources = backedStorageSources (pl_Observation (pr_Plan preparation)) (pr_Workload preparation) in
        zero_manifest\<lparr>mf_TransactionID := tx_ID (pr_Transaction preparation),
          mf_BaseTransactionID := as_TransactionID (pr_Applied preparation),
          mf_Artifacts := map (source_artifact (as_SourceDigest (pr_Applied preparation)) sources
              (replicate (length sources) zero_inventory)) [0 ..< length sources]\<rparr>)"

text \<open>The intents that the upgrade recorded, numbered from one.\<close>

definition upgrade_intents :: "hash \<Rightarrow> Preparation \<Rightarrow> upgradeJourney \<Rightarrow> Publication \<Rightarrow> (int \<Rightarrow> ActionIntent) list" where
  "upgrade_intents H preparation journey publication =
     (let withStorage = (pu_ManifestDigest publication \<noteq> 0 \<or> coreContainsAction (pr_Actions preparation) storageInventoryActionKind \<or>
            coreContainsAction (pr_Actions preparation) storageBackupActionKind \<or>
            coreContainsAction (pr_Actions preparation) storageRestoreActionKind);
          workload = pr_Workload preparation; transaction = id_String (tx_ID (pr_Transaction preparation)) in
      (if length (pr_Actions preparation) > 0 \<and> ac_Kind (hd (pr_Actions preparation)) = imagePullActionKind
       then [\<lambda>n. imagePullIntent H n (dw_Image workload)] else []) @
      (if withStorage
       then [\<lambda>n. storageInventoryIntent H n (id_String (as_TransactionID (pr_Applied preparation)))
               (backedStorageSources (pl_Observation (pr_Plan preparation)) workload)] else []) @
      [\<lambda>n. workloadTransitionIntent H n (uj_stop journey)] @
      (if withStorage then [\<lambda>n. storageBackupIntent H n (restoreBackupManifest preparation publication)] else []) @
      [\<lambda>n. workloadTransitionIntent H n (uj_rename journey), \<lambda>n. workloadCreateIntent H n workload transaction] @
      (if withStorage then [\<lambda>n. storageRestoreIntent H n transaction (restoreBackupManifest preparation publication)] else []) @
      [\<lambda>n. workloadStartIntent H n workload transaction, \<lambda>n. workloadTransitionIntent H n (uj_remove journey)])"

definition upgradeCoreIntents :: "hash \<Rightarrow> Preparation \<Rightarrow> upgradeJourney \<Rightarrow> Publication \<Rightarrow> ActionIntent list" where
  "upgradeCoreIntents H preparation journey publication =
     (let intents = upgrade_intents H preparation journey publication in
      map (\<lambda>n. (intents ! n) (int n + 1)) [0 ..< length intents])"

definition validateCompletedRestoreCore :: "Preparation \<Rightarrow> ActionIntent list \<Rightarrow> nat \<Rightarrow> go_error option" where
  "validateCompletedRestoreCore preparation intents coreActions =
     (if list_all (\<lambda>n. ac_State (pr_Actions preparation ! n) = ActionStateCompleted \<and>
           actionMatchesExpected (pr_Actions preparation ! n) (tx_ID (pr_Transaction preparation)) (intents ! n)) [0 ..< coreActions]
      then None else Some ErrConflictingState)"

definition restoreRenameSatisfied :: "hash \<Rightarrow> Action list \<Rightarrow> WorkloadTransition \<Rightarrow> nat \<Rightarrow> nat option \<Rightarrow> go_error + bool" where
  "restoreRenameSatisfied H actions rename coreActions renameIndex = (case renameIndex of
      None \<Rightarrow> Inr False
    | Some n \<Rightarrow>
        if n \<ge> length actions \<or> coreActions \<le> n \<or>
           ac_Kind (actions ! n) \<noteq> workloadTransitionActionKind WorkloadTransitionRename
        then Inr False else completedTransitionResult H (actions ! n) rename)"

definition validateRestoreRemove :: "hash \<Rightarrow> Action list \<Rightarrow> WorkloadTransition \<Rightarrow> nat \<Rightarrow> nat \<Rightarrow> go_error option" where
  "validateRestoreRemove H actions remove coreActions removeIndex =
     (if coreActions \<le> removeIndex \<or> ac_Kind (actions ! removeIndex) \<noteq> workloadTransitionActionKind WorkloadTransitionRemove then None
      else case completedTransitionResult H (actions ! removeIndex) remove of
        Inl _ \<Rightarrow> Some ErrConflictingState
      | Inr satisfied \<Rightarrow> if satisfied then Some ErrConflictingState else None)"

definition inspectRestoreCore ::
  "hash \<Rightarrow> Preparation \<Rightarrow> upgradeJourney \<Rightarrow> nat \<Rightarrow> nat \<Rightarrow> go_error + restoreCoreEvidence" where
  "inspectRestoreCore H preparation upgrade coreActions coreIntents =
     (let actions = pr_Actions preparation in
      case coreStopIndex actions of
        None \<Rightarrow> Inl ErrConflictingState
      | Some stopIndex \<Rightarrow>
          if coreActions \<le> stopIndex \<or> ac_Kind (actions ! stopIndex) \<noteq> workloadTransitionActionKind WorkloadTransitionStop
          then Inl ErrConflictingState
          else if completedTransitionResult H (actions ! stopIndex) (uj_stop upgrade) \<noteq> Inr True then Inl ErrConflictingState
          else case restoreRenameSatisfied H actions (uj_rename upgrade) coreActions
              (coreActionIndex (take coreActions actions) (workloadTransitionActionKind WorkloadTransitionRename)) of
            Inl err \<Rightarrow> Inl err
          | Inr renameSatisfied \<Rightarrow>
              (let discard = coreContainsAction (take coreActions actions) workloadCreateActionKind in
               if discard \<and> \<not> renameSatisfied then Inl ErrConflictingState
               else case validateRestoreRemove H actions (uj_remove upgrade) coreActions (coreIntents - 1) of
                 Some err \<Rightarrow> Inl err
               | None \<Rightarrow> Inr \<lparr>rc_discard = discard, rc_reverseRename = renameSatisfied\<rparr>))"

section \<open>The way back\<close>

definition newRestoreJourney :: "upgradeJourney \<Rightarrow> nat \<Rightarrow> bool \<Rightarrow> bool \<Rightarrow> restoreJourney" where
  "newRestoreJourney upgrade coreActions discard reverseRename =
     (let stoppedOriginal = wt_After (uj_stop upgrade); stoppedRetained = wt_After (uj_rename upgrade) in
      \<lparr>rj_coreActions = coreActions, rj_discard = discard, rj_reverseRename = reverseRename,
       rj_rename = \<lparr>wt_Kind = WorkloadTransitionRename, wt_Before = stoppedRetained, wt_After = stoppedOriginal\<rparr>,
       rj_restoreStart = \<lparr>wt_Kind = WorkloadTransitionRestoreStart, wt_Before = stoppedOriginal, wt_After = wt_Before (uj_stop upgrade)\<rparr>,
       rj_nextSequence = int coreActions + 1, rj_recoveryCursor = coreActions\<rparr>)"

definition restore_suffix :: "hash \<Rightarrow> Preparation \<Rightarrow> restoreJourney \<Rightarrow> ActionIntent list" where
  "restore_suffix H preparation journey =
     (let sequence = rj_nextSequence journey;
          expected = (if rj_discard journey
            then [workloadDiscardIntent H sequence (pr_Workload preparation) (id_String (tx_ID (pr_Transaction preparation)))] else []);
          sequence = (if rj_discard journey then sequence + 1 else sequence);
          expected = expected @ (if rj_reverseRename journey then [workloadTransitionIntent H sequence (rj_rename journey)] else []);
          sequence = (if rj_reverseRename journey then sequence + 1 else sequence)
      in expected @ [workloadTransitionIntent H sequence (rj_restoreStart journey)])"

definition validRestoreSuffix :: "hash \<Rightarrow> Preparation \<Rightarrow> restoreJourney \<Rightarrow> bool" where
  "validRestoreSuffix H preparation journey =
     (let expected = restore_suffix H preparation journey; suffix = drop (rj_coreActions journey) (pr_Actions preparation) in
      if length suffix > length expected then False
      else list_all (\<lambda>n. actionMatchesExpected (suffix ! n) (tx_ID (pr_Transaction preparation)) (expected ! n)) [0 ..< length suffix])"

definition validRestoreMutation :: "boundMutation \<Rightarrow> bool" where
  "validRestoreMutation mutation \<longleftrightarrow>
     (let preparation = bm_preparation mutation; transaction = pr_Transaction preparation in
      pr_HasTransaction preparation \<and> pr_HasApplied preparation \<and> pl_Kind (pr_Plan preparation) = PlanRestore \<and>
      tx_Kind transaction = TransactionUpgrade \<and> tx_State transaction = TransactionDegraded \<and>
      tx_BaseTransactionID transaction = as_TransactionID (pr_Applied preparation) \<and>
      tx_PredecessorWorkloadID transaction = as_WorkloadID (pr_Applied preparation))"

definition loadRestorePublication :: "'r ports \<Rightarrow> boundMutation \<Rightarrow> ('r, go_error + Publication) app" where
  "loadRestorePublication po mutation =
     (let preparation = bm_preparation mutation; i = tx_ID (pr_Transaction preparation) in
      if bm_backupRoot mutation = '''' \<or> \<not> coreContainsAction (pr_Actions preparation) storageBackupActionKind
      then State_Monad.return (Inr zero_publication)
      else do {
        r \<leftarrow> external (CallOpenBackup i) (po_OpenBackup po (bm_backupRoot mutation) i);
        State_Monad.return (case r of
          Inl err \<Rightarrow> Inl (Wrap ''open restore backup'' err)
        | Inr None \<Rightarrow> Inl ErrConflictingState
        | Inr (Some publication) \<Rightarrow> Inr publication) })"

text \<open>What the recorded actions allow, once the publication is known.\<close>

definition restore_journey :: "hash \<Rightarrow> Preparation \<Rightarrow> Publication \<Rightarrow> go_error + restoreJourney" where
  "restore_journey H preparation publication =
     (let upgrade = newUpgradeJourney preparation; intents = upgradeCoreIntents H preparation upgrade publication;
          coreActions = restoreCoreActionCount (pr_Actions preparation) intents in
      if coreActions = 0 then Inl ErrConflictingState
      else case validateCompletedRestoreCore preparation intents coreActions of
        Some err \<Rightarrow> Inl err
      | None \<Rightarrow> (case inspectRestoreCore H preparation upgrade coreActions (length intents) of
          Inl err \<Rightarrow> Inl err
        | Inr evidence \<Rightarrow>
            (let journey = newRestoreJourney upgrade coreActions (rc_discard evidence) (rc_reverseRename evidence) in
             if \<not> validRestoreSuffix H preparation journey then Inl ErrConflictingState else Inr journey)))"

definition prepareRestoreJourney :: "'r ports \<Rightarrow> boundMutation \<Rightarrow> ('r, go_error + restoreJourney) app" where
  "prepareRestoreJourney po mutation =
     (if \<not> validRestoreMutation mutation then State_Monad.return (Inl ErrInvalidRequest)
      else do {
        r \<leftarrow> loadRestorePublication po mutation;
        State_Monad.return (case r of
          Inl err \<Rightarrow> Inl err
        | Inr publication \<Rightarrow> restore_journey (po_hash po) (bm_preparation mutation) publication) })"

section \<open>Executing the restore\<close>

record restoreExecution =
  rx_mutation :: boundMutation
  rx_actions :: "Action list"
  rx_journey :: restoreJourney
  rx_cursor :: nat
  rx_sequence :: int

definition restore_nextAction :: "restoreExecution \<Rightarrow> Action \<times> restoreExecution" where
  "restore_nextAction ex = (case nextUpgradeAction (rx_actions ex) (rx_cursor ex) of
     (action, cursor) \<Rightarrow> (action, ex\<lparr>rx_cursor := cursor\<rparr>))"

definition settleWorkloadDiscard :: "'r ports \<Rightarrow> boundMutation \<Rightarrow> Action \<Rightarrow> int \<Rightarrow> ('r, go_error option) app" where
  "settleWorkloadDiscard po mutation action sequence =
     (let preparation = bm_preparation mutation; i = tx_ID (pr_Transaction preparation); transaction = id_String i;
          workload = pr_Workload preparation; intent = workloadDiscardIntent (po_hash po) sequence workload transaction in
      if action \<noteq> zero_Action \<and> \<not> actionMatchesExpected action i intent then State_Monad.return (Some ErrConflictingState)
      else if ac_State action = ActionStateCompleted then State_Monad.return
        (if ac_PostconditionDigest action \<noteq>
            Some (workloadEffectDigest (po_hash po) 2 workloadDiscardActionKind workload transaction '''')
         then Some ErrConflictingState else None)
      else do {
        journal \<leftarrow> effectJournal mutation;
        r \<leftarrow> runWorkloadDiscard po journal i sequence workload;
        State_Monad.return (requireSatisfiedEffect r) })"

definition restore_discard :: "'r ports \<Rightarrow> restoreExecution \<Rightarrow> ('r, go_error option \<times> restoreExecution) app" where
  "restore_discard po ex =
     (if \<not> rj_discard (rx_journey ex) then State_Monad.return (None, ex)
      else do {
        let (action, ex) = restore_nextAction ex;
        err \<leftarrow> settleWorkloadDiscard po (rx_mutation ex) action (rx_sequence ex);
        State_Monad.return (if err \<noteq> None then (err, ex) else (None, ex\<lparr>rx_sequence := rx_sequence ex + 1\<rparr>)) })"

definition restore_rename :: "'r ports \<Rightarrow> restoreExecution \<Rightarrow> ('r, go_error option \<times> restoreExecution) app" where
  "restore_rename po ex =
     (if \<not> rj_reverseRename (rx_journey ex) then State_Monad.return (None, ex)
      else do {
        let (action, ex) = restore_nextAction ex;
        (satisfied, _, err) \<leftarrow> settleUpgradeTransition po (rx_mutation ex) action (rx_sequence ex) (rj_rename (rx_journey ex));
        State_Monad.return
          (if err \<noteq> None then (err, ex)
           else if \<not> satisfied then (Some ErrConflictingState, ex)
           else (None, ex\<lparr>rx_sequence := rx_sequence ex + 1\<rparr>)) })"

definition restore_start :: "'r ports \<Rightarrow> restoreExecution \<Rightarrow> ('r, go_error option \<times> restoreExecution) app" where
  "restore_start po ex = do {
     let (action, ex) = restore_nextAction ex;
     (satisfied, _, err) \<leftarrow> settleUpgradeTransition po (rx_mutation ex) action (rx_sequence ex) (rj_restoreStart (rx_journey ex));
     State_Monad.return
       (if err \<noteq> None then (err, ex) else if \<not> satisfied then (Some ErrConflictingState, ex) else (None, ex)) }"

definition completeRestore :: "'r ports \<Rightarrow> boundMutation \<Rightarrow> WorkloadTransition \<Rightarrow> ('r, go_error option \<times> boundMutation) app" where
  "completeRestore po mutation restore = do {
     r \<leftarrow> external (CallProbeTransition restore) (po_ProbeWorkloadTransition po restore);
     case r of
       Inl err \<Rightarrow> State_Monad.return (Some (Wrap ''prove restored workload'' err), mutation)
     | Inr probe \<Rightarrow>
         if tp_State probe \<noteq> WorkloadEffectProbeObserved \<or> tp_Workload probe \<noteq> wt_After restore
         then State_Monad.return (Some ErrConflictingState, mutation)
         else do {
           s \<leftarrow> SetTransactionState (bm_lock mutation) (tx_ID (pr_Transaction (bm_preparation mutation))) TransactionFailed;
           case s of
             Inl err \<Rightarrow> State_Monad.return (Some (Wrap ''complete restore transaction'' err), mutation)
           | Inr transaction \<Rightarrow> do {
               let mutation = mutation\<lparr>bm_preparation := (bm_preparation mutation)\<lparr>pr_Transaction := transaction\<rparr>\<rparr>;
               publishTransaction mutation EventTransactionRestored;
               State_Monad.return (None, mutation) } } }"

definition runRestore :: "'r ports \<Rightarrow> boundMutation \<Rightarrow> ('r, go_error option \<times> boundMutation) app" where
  "runRestore po mutation = do {
     r \<leftarrow> prepareRestoreJourney po mutation;
     case r of
       Inl err \<Rightarrow> State_Monad.return (Some err, mutation)
     | Inr journey \<Rightarrow> do {
         (err, ex) \<leftarrow> restore_discard po \<lparr>rx_mutation = mutation, rx_actions = pr_Actions (bm_preparation mutation),
           rx_journey = journey, rx_cursor = rj_recoveryCursor journey, rx_sequence = rj_nextSequence journey\<rparr>;
         case err of Some e \<Rightarrow> State_Monad.return (Some e, mutation)
         | None \<Rightarrow> do {
             (err, ex) \<leftarrow> restore_rename po ex;
             case err of Some e \<Rightarrow> State_Monad.return (Some e, mutation)
             | None \<Rightarrow> do {
                 (err, ex) \<leftarrow> restore_start po ex;
                 case err of Some e \<Rightarrow> State_Monad.return (Some e, mutation)
                 | None \<Rightarrow> completeRestore po mutation (rj_restoreStart journey) } } } }"

end
