(* ===== verification/Apply.thy ===== *)
theory Apply
  imports Restore
begin

text \<open>
  One apply from the request to the released lock (\<open>mutation.go\<close> of \<open>src/internal/application\<close>): prepare without the
  lock to learn which service to lock, lock it, prepare again under the lock, bind or begin the transaction, run the journey,
  close the lock whatever happened.
\<close>

section \<open>Binding the transaction\<close>

definition transactionIntent :: "Preparation \<Rightarrow> TransactionIntent" where
  "transactionIntent preparation =
     (let intent = \<lparr>ti_Kind = TransactionKindOther '''', ti_Runtime = re_Kind (pr_Execution preparation),
            ti_SourceDigest = dw_SourceDigest (pr_Workload preparation),
            ti_EffectiveDigest = dw_EffectiveDigest (pr_Workload preparation),
            ti_ExecutionDigest = re_Digest (pr_Execution preparation), ti_BaseTransactionID = 0, ti_HasBaseTransaction = False,
            ti_PredecessorWorkloadID = ''''\<rparr> in
      case pl_Kind (pr_Plan preparation) of
        PlanBootstrap \<Rightarrow> intent\<lparr>ti_Kind := TransactionBootstrap\<rparr>
      | PlanAdopt \<Rightarrow> intent\<lparr>ti_Kind := TransactionAdopt,
          ti_PredecessorWorkloadID := ob_ID (pl_Observation (pr_Plan preparation))\<rparr>
      | PlanUpgrade \<Rightarrow> intent\<lparr>ti_Kind := TransactionUpgrade,
          ti_BaseTransactionID := as_TransactionID (pr_Applied preparation), ti_HasBaseTransaction := pr_HasApplied preparation,
          ti_PredecessorWorkloadID := as_WorkloadID (pr_Applied preparation)\<rparr>
      | _ \<Rightarrow> intent)"

definition recoveryMutationPlan :: "PlanKind \<Rightarrow> bool" where
  "recoveryMutationPlan kind \<longleftrightarrow> kind = PlanResume \<or> kind = PlanProbeUnknownEffect \<or> kind = PlanRestore"

definition boundRecoveryTransaction :: "Preparation \<Rightarrow> bool" where
  "boundRecoveryTransaction preparation \<longleftrightarrow> recoveryMutationPlan (pl_Kind (pr_Plan preparation)) \<and>
     transactionMatches (pr_Transaction preparation) (pr_Workload preparation) (pr_Execution preparation)"

definition bindPreparedTransaction :: "ServiceLock \<Rightarrow> Preparation \<Rightarrow> ('r, go_error + Preparation) app" where
  "bindPreparedTransaction lock preparation = do {
     fenced \<leftarrow> Fence lock;
     case fenced of
       Some err \<Rightarrow> State_Monad.return (Inl (Wrap ''fence apply transaction'' err))
     | None \<Rightarrow>
         if pr_HasTransaction preparation then State_Monad.return
           (if \<not> boundRecoveryTransaction preparation then Inl ErrConflictingState else Inr preparation)
         else if pl_Kind (pr_Plan preparation) = PlanUnchanged then State_Monad.return (Inr preparation)
         else if pl_Kind (pr_Plan preparation) \<in> {PlanBootstrap, PlanAdopt, PlanUpgrade} then do {
           r \<leftarrow> BeginTransaction lock (transactionIntent preparation);
           State_Monad.return (case r of
             Inl err \<Rightarrow> Inl (Wrap ''begin apply transaction'' err)
           | Inr transaction \<Rightarrow> Inr (preparation\<lparr>pr_Transaction := transaction, pr_HasTransaction := True\<rparr>)) }
         else State_Monad.return (Inl ErrConflictingState) }"

definition sameMutationScope :: "Preparation \<Rightarrow> Preparation \<Rightarrow> bool" where
  "sameMutationScope initial final \<longleftrightarrow> pl_Project (pr_Plan initial) = pl_Project (pr_Plan final) \<and>
     pl_Service (pr_Plan initial) = pl_Service (pr_Plan final)"

definition mutationNeedsRepositoryRuntime :: "Preparation \<Rightarrow> bool" where
  "mutationNeedsRepositoryRuntime preparation =
     (if \<not> pr_HasTransaction preparation then False
      else tx_Kind (pr_Transaction preparation) = TransactionBootstrap \<or>
        tx_Kind (pr_Transaction preparation) = TransactionUpgrade \<and> tx_State (pr_Transaction preparation) \<noteq> TransactionDegraded)"

definition closeMutationLock :: "ServiceLock \<Rightarrow> go_error \<Rightarrow> ('r, go_error) app" where
  "closeMutationLock lock cause = do {
     (closeErr, _) \<leftarrow> lock_Close lock;
     State_Monad.return (case errors_Join [Some cause, map_option (Wrap ''close apply mutation'') closeErr] of
       Some e \<Rightarrow> e | None \<Rightarrow> cause) }"

definition store_BackupRoot :: "'r ports \<Rightarrow> ('r, go_error + string) app" where
  "store_BackupRoot po = do {
     ok \<leftarrow> files_valid;
     State_Monad.return (if ok then Inr (po_backupRoot po) else Inl ErrInvalidState) }"

definition newBoundMutation :: "'r ports \<Rightarrow> ServiceLock \<Rightarrow> Preparation \<Rightarrow> ('r, go_error + boundMutation) app" where
  "newBoundMutation po lock final = do {
     r \<leftarrow> store_BackupRoot po;
     case r of
       Inl err \<Rightarrow> do { e \<leftarrow> closeMutationLock lock err; State_Monad.return (Inl e) }
     | Inr root \<Rightarrow> State_Monad.return (Inr \<lparr>bm_preparation = final, bm_lock = lock, bm_backupRoot = root,
         bm_materialize = mutationNeedsRepositoryRuntime final, bm_events = po_events po\<rparr>) }"

definition bindMutation :: "'r ports \<Rightarrow> string \<Rightarrow> ('r, go_error + boundMutation) app" where
  "bindMutation po service = do {
     prepared \<leftarrow> Prepare po (store_reader (po_hash po)) service;
     case prepared of Inl err \<Rightarrow> State_Monad.return (Inl err)
     | Inr initial \<Rightarrow> do {
         cancelled \<leftarrow> ctx_Err;
         if cancelled then State_Monad.return (Inl (Wrap ''bind apply mutation'' ErrContext))
         else do {
           locked \<leftarrow> openServiceLock (po_hash po) (po_databaseName po) (pl_Project (pr_Plan initial)) (pl_Service (pr_Plan initial));
           case locked of Inl err \<Rightarrow> State_Monad.return (Inl (Wrap ''lock apply mutation'' err))
           | Inr lock \<Rightarrow> do {
               prepared \<leftarrow> Prepare po (store_reader (po_hash po)) service;
               case prepared of
                 Inl err \<Rightarrow> do { e \<leftarrow> closeMutationLock lock err; State_Monad.return (Inl e) }
               | Inr final \<Rightarrow>
                   if \<not> sameMutationScope initial final then do {
                     e \<leftarrow> closeMutationLock lock ErrConflictingState; State_Monad.return (Inl e) }
                   else do {
                     bound \<leftarrow> bindPreparedTransaction lock final;
                     case bound of
                       Inl err \<Rightarrow> do { e \<leftarrow> closeMutationLock lock err; State_Monad.return (Inl e) }
                     | Inr final \<Rightarrow> newBoundMutation po lock final } } } } }"

section \<open>Running the journey\<close>

definition runBoundMutation :: "'r ports \<Rightarrow> boundMutation \<Rightarrow> ('r, go_error option \<times> boundMutation) app" where
  "runBoundMutation po mutation =
     (let preparation = bm_preparation mutation in
      if \<not> pr_HasTransaction preparation then State_Monad.return
        (if pl_Kind (pr_Plan preparation) = PlanUnchanged then None else Some ErrConflictingState, mutation)
      else case tx_Kind (pr_Transaction preparation) of
        TransactionBootstrap \<Rightarrow> runBootstrap po mutation
      | TransactionAdopt \<Rightarrow> runAdopt po mutation
      | TransactionUpgrade \<Rightarrow>
          if tx_State (pr_Transaction preparation) = TransactionDegraded then runRestore po mutation else runUpgrade po mutation
      | TransactionKindOther _ \<Rightarrow> State_Monad.return (Some ErrConflictingState, mutation))"

definition mutation_close :: "boundMutation \<Rightarrow> ('r, go_error option) app" where
  "mutation_close mutation = do {
     (err, _) \<leftarrow> lock_Close (bm_lock mutation);
     State_Monad.return (map_option (Wrap ''close apply mutation'') err) }"

definition zero_observation :: WorkloadObservation where
  "zero_observation = \<lparr>ob_ID = '''', ob_State = WorkloadObservationUnknown, ob_ConfigurationDigest = 0, ob_StorageDigest = 0,
     ob_RuntimeMounts = None, ob_ConfigurationMatches = False, ob_Running = False, ob_Ownership = zero_ownership\<rparr>"

definition zero_plan :: Plan where
  "zero_plan = \<lparr>pl_Kind = PlanKindOther '''', pl_Project = '''', pl_Service = '''', pl_Runtime = RuntimeOther '''',
     pl_Platform = zero_platform, pl_Image = zero_image, pl_Source = 0, pl_Desired = 0, pl_Observation = zero_observation,
     pl_Warnings = None\<rparr>"

text \<open>The deferred close joins its error to the result, and does not touch the plan.\<close>

definition Apply :: "'r ports \<Rightarrow> string \<Rightarrow> ('r, Plan \<times> go_error option) app" where
  "Apply po service =
     (if \<not> po_mutates po then State_Monad.return (zero_plan, Some ErrInvalidRequest)
      else do {
        bound \<leftarrow> bindMutation po service;
        case bound of
          Inl err \<Rightarrow> State_Monad.return (zero_plan, Some err)
        | Inr mutation \<Rightarrow> do {
            publishPlan po (bm_preparation mutation);
            materialized \<leftarrow> materializeMutationRuntime po mutation;
            (plan, err) \<leftarrow> (case materialized of
                Some err \<Rightarrow> State_Monad.return (zero_plan, Some err)
              | None \<Rightarrow> do {
                  (err, mutation) \<leftarrow> runBoundMutation po mutation;
                  State_Monad.return (case err of
                    Some e \<Rightarrow> (zero_plan, Some e)
                  | None \<Rightarrow> (pr_Plan (bm_preparation mutation), None)) });
            closeErr \<leftarrow> mutation_close mutation;
            State_Monad.return (plan, errors_Join [err, closeErr]) } })"

end
