(* ===== verification/WriteAhead.thy ===== *)
theory WriteAhead
  imports Apply
begin

text \<open>
  Every call of an apply that changes an image, a workload or a backup is made while the journal already says
  so: the lease is held, the transaction is unresolved, and an action stands with an unknown outcome whose
  kind and digest are those of this very call. The proof goes through the contract of the effects and the
  composition of the journeys; nothing is assumed of the runtime.
\<close>

section \<open>The intent that belongs to a call\<close>

definition intended :: "hash \<Rightarrow> call \<Rightarrow> ActionIntent \<Rightarrow> bool" where
  "intended H c intent = (case c of
      CallPullImage img \<Rightarrow> an_Kind intent = imagePullActionKind \<and> an_IntentDigest intent = imageEffectDigest H 0 img
    | CallCreate w t _ \<Rightarrow> an_Kind intent = workloadCreateActionKind \<and>
        an_IntentDigest intent = workloadEffectDigest H 0 workloadCreateActionKind w t ''''
    | CallStart w t \<Rightarrow> an_Kind intent = workloadStartActionKind \<and>
        an_IntentDigest intent = workloadEffectDigest H 0 workloadStartActionKind w t ''''
    | CallDiscard w t \<Rightarrow> an_Kind intent = workloadDiscardActionKind \<and>
        an_IntentDigest intent = workloadEffectDigest H 0 workloadDiscardActionKind w t ''''
    | CallTransition tr \<Rightarrow> an_Kind intent = workloadTransitionActionKind (wt_Kind tr) \<and>
        an_IntentDigest intent = workloadTransitionDigest H 0 tr (wt_Before tr)
    | CallResumeTransition tr \<Rightarrow> an_Kind intent = workloadTransitionActionKind (wt_Kind tr) \<and>
        an_IntentDigest intent = workloadTransitionDigest H 0 tr (wt_Before tr)
    | CallPutArchive _ _ _ _ \<Rightarrow> an_Kind intent = storageRestoreActionKind
    | CallPublishBackup _ \<Rightarrow> an_Kind intent = storageBackupActionKind
    | _ \<Rightarrow> False)"

definition authorised :: "hash \<Rightarrow> ServiceLock \<Rightarrow> transaction_id \<Rightarrow> call \<Rightarrow> db \<Rightarrow> bool" where
  "authorised H lock i c d \<longleftrightarrow> (mutating c \<longrightarrow> (\<exists>intent. journaled lock i intent d \<and> intended H c intent))"

lemma extends_both:
  assumes "extends P a b" "extends Q a b" "\<And>c d. P c d \<Longrightarrow> Q c d \<Longrightarrow> R c d"
  shows "extends R a b"
proof -
  from assms(1,2) obtain n m where "b = a @ n" "\<forall>e \<in> set n. P (fst e) (snd e)" "b = a @ m" "\<forall>e \<in> set m. Q (fst e) (snd e)"
    by (auto simp: extends_def)
  then show ?thesis using assms(3) by (auto simp: extends_def)
qed

context runtime_effect
begin

lemma run_authorised:
  assumes "\<And>c. own c \<Longrightarrow> mutating c \<Longrightarrow> intended H c intent"
  shows "moves aw_trace (extends (authorised H (oj_lock j) i)) (runRuntimeEffect j i intent eff e)"
proof (rule movesI)
  fix s x t assume run: "run_state (runRuntimeEffect j i intent eff e) s = (x, t)"
  show "extends (authorised H (oj_lock j) i) (aw_trace s) (aw_trace t)"
    by (rule extends_both [OF movesD [OF run_obeys run] movesD [OF run_own run]])
      (use assms in \<open>auto simp: authorised_def write_ahead_def\<close>)
qed

end

section \<open>Storage effects meet the contract\<close>

lemma capture_calls: "performs (\<lambda>c. \<not> mutating c) (capture_loop po w sel sources e)"
  by (induction po w sel sources e rule: capture_loop.induct) (auto intro!: external_rules simp: mutating_def)

lemma put_calls: "performs (\<lambda>c. mutating c \<longrightarrow> (\<exists>path a. c = CallPutArchive w sel path a)) (put_archives po w sel xs)"
  by (induction po w sel xs rule: put_archives.induct) (auto intro!: external_rules)

lemma probe_archive_calls: "performs (\<lambda>c. \<not> mutating c) (probe_archives po w sel m xs)"
  by (induction po w sel m xs rule: probe_archives.induct) (auto intro!: external_rules simp: mutating_def)

interpretation inventory_effect: runtime_effect "storageInventoryEffect po w sel sources" "\<lambda>c. \<not> mutating c" for po w sel sources
  by unfold_locales
    (auto simp: storageInventoryEffect_def storageInventory_Probe_def inventory_capture_def intro!: external_rules capture_calls)

interpretation backup_effect: runtime_effect "storageBackupEffect po root archives capacity"
  "\<lambda>c. mutating c \<longrightarrow> (\<exists>m. c = CallPublishBackup m)" for po root archives capacity
  by unfold_locales
    (auto simp: storageBackupEffect_def storageBackup_Apply_def storageBackup_Probe_def mutating_def intro!: external_rules)

interpretation restore_effect: runtime_effect "storageRestoreEffect po w sel publication archives"
  "\<lambda>c. mutating c \<longrightarrow> (\<exists>path a. c = CallPutArchive w sel path a)" for po w sel publication archives
  by unfold_locales
    (auto simp: storageRestoreEffect_def storageRestore_Apply_def storageRestore_Probe_def Let_def
      intro!: external_rules put_calls performs_mono [OF probe_archive_calls])

section \<open>Effects\<close>

abbreviation safe_calls :: "'r ports \<Rightarrow> ServiceLock \<Rightarrow> transaction_id \<Rightarrow> ('r, 'a) app \<Rightarrow> bool" where
  "safe_calls po lock i m \<equiv> moves aw_trace (extends (authorised (po_hash po) lock i)) m"

lemma safe_performs: "performs (\<lambda>c. \<not> mutating c) m \<Longrightarrow> safe_calls po lock i m"
  by (rule movesI) (auto dest!: performsD elim!: extends_mono simp: authorised_def)

lemma safe_inner: "moves store_world.more (=) m \<Longrightarrow> safe_calls po lock i m"
  by (rule more_trace)

lemmas safe_rules = moves_bind moves_return moves_if moves_case_option moves_case_sum moves_case_prod moves_Let extends_orders

lemma safe_fresh:
  "(\<And>e. safe_calls po lock i (runRuntimeEffect j i intent eff e)) \<Longrightarrow> safe_calls po lock i (run_fresh j i intent eff e)"
  unfolding run_fresh_def by (intro safe_rules)

lemma safe_effects_lock:
  "safe_calls po (oj_lock j) i (runImagePull po j i n img)"
  "safe_calls po (oj_lock j) i (runWorkloadCreate po j i n w options)"
  "safe_calls po (oj_lock j) i (runWorkloadStart po j i n w)"
  "safe_calls po (oj_lock j) i (runWorkloadDiscard po j i n w)"
  "safe_calls po (oj_lock j) i (runWorkloadTransition po j i n tr)"
  by (auto simp: runImagePull_def runWorkloadCreate_def runWorkloadStart_def runWorkloadDiscard_def runWorkloadTransition_def Let_def
      intended_def imagePullIntent_def workloadCreateIntent_def workloadStartIntent_def workloadDiscardIntent_def
      workloadIntent_def workloadTransitionIntent_def
      intro!: safe_rules safe_fresh pull_effect.run_authorised create_effect.run_authorised start_effect.run_authorised
      discard_effect.run_authorised transition_effect.run_authorised)

lemma safe_effects:
  assumes "oj_lock j = lock"
  shows "safe_calls po lock i (runImagePull po j i n img)" "safe_calls po lock i (runWorkloadCreate po j i n w options)"
    "safe_calls po lock i (runWorkloadStart po j i n w)" "safe_calls po lock i (runWorkloadDiscard po j i n w)"
    "safe_calls po lock i (runWorkloadTransition po j i n tr)"
  using safe_effects_lock [of po j] assms by auto

section \<open>Journeys\<close>

lemma effectJournal_bind:
  "safe_calls po lock i (State_Monad.bind (effectJournal mutation) f)"
  if "\<And>j. oj_lock j = bm_lock mutation \<Longrightarrow> safe_calls po lock i (f j)"
proof (rule movesI)
  fix s x t assume "run_state (State_Monad.bind (effectJournal mutation) f) s = (x, t)"
  then have run: "run_state (f \<lparr>oj_lock = bm_lock mutation, oj_events = bm_events mutation,
       oj_context = (let plan = pr_Plan (bm_preparation mutation) in
         zero_Event\<lparr>ev_Project := pl_Project plan, ev_Service := pl_Service plan, ev_Runtime := pl_Runtime plan\<rparr>)\<rparr>)
      (s\<lparr>aw_action := [], aw_satisfied := False\<rparr>) = (x, t)"
    by (simp add: effectJournal_def modify_world_def)
  show "extends (authorised (po_hash po) lock i) (aw_trace s) (aw_trace t)"
    using movesD [OF that run] by simp
qed

text \<open>The lock and the transaction a mutation stands for.\<close>

abbreviation tx_of :: "boundMutation \<Rightarrow> transaction_id" where
  "tx_of mutation \<equiv> tx_ID (pr_Transaction (bm_preparation mutation))"

lemma safe_observations:
  "safe_calls po lock i (imagePresent po img)"
  "safe_calls po lock i (materializeMutationRuntime po mutation)"
  "safe_calls po lock i (verifyCompletedWorkloadCreate po action preparation)"
  "safe_calls po lock i (completedWorkloadStartResult po action preparation)"
  "safe_calls po lock i (verifyCompletedRuntimeEffect action (imagePullEffect po img) ())"
  "safe_calls po lock i (publishTransaction mutation kind)"
  by (rule safe_performs,
      auto simp: imagePresent_def materializeMutationRuntime_def verifyCompletedWorkloadCreate_def completedWorkloadStartResult_def
        verifyCompletedRuntimeEffect_def publishTransaction_def Let_def effect_defs mutating_def
      intro!: external_rules performs_publish)+

lemma safe_completions:
  "safe_calls po lock i (completedWorkloadCreateResult po action preparation)"
  "safe_calls po lock i (completedUpgradeImagePull po action preparation)"
  unfolding completedWorkloadCreateResult_def completedUpgradeImagePull_def
  by (intro safe_rules safe_observations)+

lemma safe_settle:
  "safe_calls po (bm_lock mutation) (tx_of mutation) (settleImagePull po mutation action n)"
  "safe_calls po (bm_lock mutation) (tx_of mutation) (settleWorkloadCreateResult po mutation action n options)"
  "safe_calls po (bm_lock mutation) (tx_of mutation) (settleWorkloadStartResult po mutation action n)"
  "safe_calls po (bm_lock mutation) (tx_of mutation) (settleUpgradeTransition po mutation action n tr)"
  "safe_calls po (bm_lock mutation) (tx_of mutation) (settleUpgradeImagePull po mutation action)"
  "safe_calls po (bm_lock mutation) (tx_of mutation) (settleWorkloadDiscard po mutation action n)"
  by (auto simp: settleImagePull_def settleWorkloadCreateResult_def settleWorkloadStartResult_def settleUpgradeTransition_def
      settleUpgradeImagePull_def settleWorkloadDiscard_def Let_def
      intro!: safe_rules effectJournal_bind safe_observations safe_completions safe_effects
      split: sum.split)

lemma safe_storage:
  "safe_calls po (bm_lock mutation) (tx_of mutation) (settleStorageInventory po mutation action n sources current)"
  "safe_calls po (bm_lock mutation) (tx_of mutation) (settleStorageBackup po mutation action n root m archives capacity)"
  "safe_calls po (bm_lock mutation) (tx_of mutation) (settleStorageRestore po mutation action n publication archives)"
proof -
  have runs: "safe_calls po lock i (runRuntimeEffect j i (storageInventoryIntent H n sel sources) (storageInventoryEffect po w sel sources) e)"
    "safe_calls po lock i (runRuntimeEffect j i (storageBackupIntent H n m) (storageBackupEffect po root archives capacity) e')"
    "safe_calls po lock i (runRuntimeEffect j i (storageRestoreIntent H n sel m) (storageRestoreEffect po w sel publication archives) e'')"
    if "oj_lock j = lock" for j lock i H w sel e e' e'' m
    unfolding that [symmetric]
    by (rule inventory_effect.run_authorised backup_effect.run_authorised restore_effect.run_authorised;
        auto simp: intended_def storageBackupIntent_def storageRestoreIntent_def)+
  have probes: "safe_calls po lock i (ef_Probe (storageInventoryEffect po w sel sources) e)"
    "safe_calls po lock i (ef_Probe (storageBackupEffect po root archives capacity) e')"
    "safe_calls po lock i (ef_Probe (storageRestoreEffect po w sel publication archives) e'')" for lock i w sel e e' e''
    by (intro safe_performs inventory_effect.probe_calls backup_effect.probe_calls restore_effect.probe_calls)+
  show "safe_calls po (bm_lock mutation) (tx_of mutation) (settleStorageInventory po mutation action n sources current)"
    unfolding settleStorageInventory_def completedStorageInventory_def
    by (auto simp: Let_def intro!: safe_rules effectJournal_bind runs probes split: option.split)
  show "safe_calls po (bm_lock mutation) (tx_of mutation) (settleStorageBackup po mutation action n root m archives capacity)"
    unfolding settleStorageBackup_def completedStorageBackup_def
    by (auto simp: Let_def intro!: safe_rules effectJournal_bind runs probes split: option.split)
  show "safe_calls po (bm_lock mutation) (tx_of mutation) (settleStorageRestore po mutation action n publication archives)"
    unfolding settleStorageRestore_def completedStorageRestore_def
    by (auto simp: Let_def intro!: safe_rules effectJournal_bind safe_fresh runs probes split: option.split)
qed

lemma safe_commit: "safe_calls po lock i (completeAppliedMutation po mutation operation backup)"
proof -
  have "safe_calls po lock i (external (CallProbeStarted w t) f)" for w t f
    by (rule safe_performs) (auto simp: mutating_def intro!: external_rules)
  then show ?thesis unfolding completeAppliedMutation_def
    by (auto simp: Let_def intro!: safe_rules safe_observations safe_inner [OF inner_writes(6)])
qed

lemma safe_bootstrap: "safe_calls po (bm_lock mutation) (tx_of mutation) (runBootstrap po mutation)"
  unfolding runBootstrap_def settleBootstrapImage_def settleWorkloadCreate_def settleWorkloadStart_def completeBootstrap_def
  by (auto simp: Let_def intro!: safe_rules safe_observations safe_settle safe_commit)

lemma safe_adopt: "safe_calls po lock i (runAdopt po mutation)"
proof -
  have "safe_calls po lock i (external (CallObserve w) f)" for w f
    by (rule safe_performs) (auto simp: mutating_def intro!: external_rules)
  then show ?thesis unfolding runAdopt_def
    by (auto simp: Let_def intro!: safe_rules safe_observations safe_inner [OF inner_writes(6)])
qed

text \<open>
  A step whose calls are authorised and whose result satisfies \<open>P\<close>; a step that reports an error together
  with a value promises something of the value only without an error. The stages of an upgrade keep the lock
  and the transaction in this sense.
\<close>

definition yields :: "'r ports \<Rightarrow> ServiceLock \<Rightarrow> transaction_id \<Rightarrow> ('a \<Rightarrow> bool) \<Rightarrow> ('r, 'a) app \<Rightarrow> bool" where
  "yields po lock i P m \<longleftrightarrow> (\<forall>s x t. run_state m s = (x, t) \<longrightarrow>
     extends (authorised (po_hash po) lock i) (aw_trace s) (aw_trace t) \<and> P x)"

abbreviation settles :: "'r ports \<Rightarrow> ServiceLock \<Rightarrow> transaction_id \<Rightarrow> ('a \<Rightarrow> bool) \<Rightarrow> ('r, go_error option \<times> 'a) app \<Rightarrow> bool" where
  "settles po lock i P m \<equiv> yields po lock i (\<lambda>r. fst r = None \<longrightarrow> P (snd r)) m"

lemma yieldsI:
  "(\<And>s x t. run_state m s = (x, t) \<Longrightarrow> extends (authorised (po_hash po) lock i) (aw_trace s) (aw_trace t) \<and> P x) \<Longrightarrow>
   yields po lock i P m"
  unfolding yields_def by (intro allI impI)

lemma yieldsD:
  "yields po lock i P m \<Longrightarrow> run_state m s = (x, t) \<Longrightarrow>
   extends (authorised (po_hash po) lock i) (aw_trace s) (aw_trace t) \<and> P x"
  unfolding yields_def by (drule spec, drule spec, drule spec, erule (1) mp)

lemma yields_safe: "yields po lock i P m \<Longrightarrow> safe_calls po lock i m"
  by (rule movesI) (drule (1) yieldsD, elim conjE)

lemma yields_return: "P x \<Longrightarrow> yields po lock i P (State_Monad.return x)"
  by (rule yieldsI) auto

lemma yields_then:
  assumes m: "yields po lock i P m" and f: "\<And>x. P x \<Longrightarrow> yields po lock i Q (f x)"
  shows "yields po lock i Q (State_Monad.bind m f)"
proof (rule yieldsI)
  fix s y u assume "run_state (State_Monad.bind m f) s = (y, u)"
  then obtain x t where run: "run_state m s = (x, t)" "run_state (f x) t = (y, u)" by (rule run_bindE)
  from yieldsD [OF m run(1)] have first: "extends (authorised (po_hash po) lock i) (aw_trace s) (aw_trace t)" "P x" by auto
  from yieldsD [OF f [OF first(2)] run(2)] first(1)
  show "extends (authorised (po_hash po) lock i) (aw_trace s) (aw_trace u) \<and> Q y" by (auto elim: extends_trans)
qed

lemma yields_bind:
  assumes "safe_calls po lock i m" and "\<And>x. yields po lock i Q (f x)"
  shows "yields po lock i Q (State_Monad.bind m f)"
proof (rule yields_then)
  show "yields po lock i (\<lambda>_. True) m" by (rule yieldsI) (drule movesD [OF assms(1)], simp)
qed (rule assms)

lemma settles_then:
  assumes "settles po lock i P m" and "\<And>x. P x \<Longrightarrow> yields po lock i Q (f (None, x))" and "\<And>e x. yields po lock i Q (f (Some e, x))"
  shows "yields po lock i Q (State_Monad.bind m f)"
proof (rule yields_then [OF assms(1)])
  fix r :: "go_error option \<times> 'b" assume "fst r = None \<longrightarrow> P (snd r)"
  then show "yields po lock i Q (f r)" using assms(2,3) by (cases r; cases "fst r") auto
qed

lemma yields_split:
  "(b \<Longrightarrow> yields po lock i P m) \<Longrightarrow> (\<not> b \<Longrightarrow> yields po lock i P n) \<Longrightarrow> yields po lock i P (if b then m else n)"
  "(x = None \<Longrightarrow> yields po lock i P m) \<Longrightarrow> (\<And>y. x = Some y \<Longrightarrow> yields po lock i P (g y)) \<Longrightarrow>
   yields po lock i P (case x of None \<Rightarrow> m | Some y \<Rightarrow> g y)"
  "(\<And>e. z = Inl e \<Longrightarrow> yields po lock i P (h e)) \<Longrightarrow> (\<And>y. z = Inr y \<Longrightarrow> yields po lock i P (k y)) \<Longrightarrow>
   yields po lock i P (case z of Inl e \<Rightarrow> h e | Inr y \<Rightarrow> k y)"
  "(\<And>a b. p = (a, b) \<Longrightarrow> yields po lock i P (l a b)) \<Longrightarrow> yields po lock i P (case p of (a, b) \<Rightarrow> l a b)"
  by (auto split: option.split sum.split prod.split)

lemmas settles_rules = yields_split yields_return yields_bind

section \<open>The upgrade\<close>

abbreviation bound_to :: "ServiceLock \<Rightarrow> transaction_id \<Rightarrow> boundMutation \<Rightarrow> bool" where
  "bound_to lock i mutation \<equiv> bm_lock mutation = lock \<and> tx_of mutation = i"

abbreviation stage_of :: "ServiceLock \<Rightarrow> transaction_id \<Rightarrow> upgradeExecution \<Rightarrow> bool" where
  "stage_of lock i ex \<equiv> bound_to lock i (ux_mutation ex)"

lemma settles_resolve:
  assumes "bound_to lock i mutation"
  shows "settles po lock i (bound_to lock i) (resolveUpgradeFailure mutation target cause)"
    and "settles po lock i (bound_to lock i) (resolveTransitionFailure mutation target satisfied resolved cause)"
    and "settles po lock i (bound_to lock i) (resolveEffectFailure mutation postcondition cause)"
proof -
  show up: "settles po lock i (bound_to lock i) (resolveUpgradeFailure mutation target cause)" for target cause
    unfolding resolveUpgradeFailure_def Let_def
    by (intro settles_rules safe_inner [OF inner_writes(2)] safe_observations) (use assms in auto)
  show "settles po lock i (bound_to lock i) (resolveTransitionFailure mutation target satisfied resolved cause)"
    "settles po lock i (bound_to lock i) (resolveEffectFailure mutation postcondition cause)"
    unfolding resolveTransitionFailure_def resolveEffectFailure_def Let_def
    by (intro yields_split(1) up yields_return; use assms in simp)+
qed

lemma settles_with_mutation:
  "settles po lock i (bound_to lock i) m \<Longrightarrow> settles po lock i (stage_of lock i) (with_mutation ex m)"
  unfolding with_mutation_def by (erule settles_then) (auto intro!: yields_return)

lemma stage_next: "upgrade_nextAction ex = (a, ex') \<Longrightarrow> ux_mutation ex' = ux_mutation ex"
  by (auto simp: upgrade_nextAction_def split: prod.split_asm)

lemma settled_for:
  assumes "bound_to lock i mutation"
  shows "safe_calls po lock i (settleUpgradeTransition po mutation action n tr)"
    "safe_calls po lock i (settleWorkloadCreateResult po mutation action n options)"
    "safe_calls po lock i (settleWorkloadStartResult po mutation action n)"
    "safe_calls po lock i (settleStorageInventory po mutation action n sources current)"
    "safe_calls po lock i (settleStorageBackup po mutation action n root m archives capacity)"
    "safe_calls po lock i (settleStorageRestore po mutation action n publication archives)"
    "safe_calls po lock i (settleWorkloadDiscard po mutation action n)"
  using safe_settle [of po mutation] safe_storage [of po mutation] assms by auto

lemma settles_failure:
  shows "bound_to lock i mutation \<Longrightarrow>
      settles po lock i (stage_of lock i) (with_mutation ex (resolveEffectFailure mutation postcondition cause))"
    and "bound_to lock i mutation \<Longrightarrow>
      settles po lock i (stage_of lock i) (with_mutation ex (resolveTransitionFailure mutation target satisfied resolved cause))"
    and "stage_of lock i ex \<Longrightarrow> settles po lock i (stage_of lock i) (failCapacity ex err)"
  unfolding failCapacity_def by (intro settles_with_mutation settles_resolve; assumption)+

lemma stage_transition:
  assumes "stage_of lock i ex"
  shows "settles po lock i (stage_of lock i) (transition_stage po target select advance ex)"
  unfolding transition_stage_def Let_def
  by (intro settles_rules settles_failure settled_for) (use assms in \<open>auto dest!: stage_next\<close>)

lemma stage_effect: "stage_of lock i ex \<Longrightarrow> settles po lock i (stage_of lock i) (effect_stage ex r)"
  unfolding effect_stage_def by (intro settles_rules settles_failure) auto

lemma stage_start: "stage_of lock i ex \<Longrightarrow> settles po lock i (stage_of lock i) (upgrade_start po ex)"
  unfolding upgrade_start_def Let_def
  by (intro settles_rules stage_effect settled_for) (auto dest!: stage_next)

lemma stage_inventory: "stage_of lock i ex \<Longrightarrow> settles po lock i (stage_of lock i) (upgrade_inventory po ex)"
  unfolding upgrade_inventory_def Let_def
  by (intro settles_rules settled_for) (auto dest!: stage_next intro!: settles_rules settles_failure)

lemma stage_backup: "stage_of lock i ex \<Longrightarrow> settles po lock i (stage_of lock i) (upgrade_backup po ex)"
  unfolding upgrade_backup_def Let_def
  by (intro settles_rules settles_failure settled_for) (auto dest!: stage_next)

lemma safe_external: "\<not> mutating c \<Longrightarrow> safe_calls po lock i (external c f)"
  by (rule safe_performs) (intro performs_external)

lemma safe_manifest:
  "safe_calls po lock i (openPublishedBackup po ex)"
  "safe_calls po lock i (newUpgradeBackupManifest po preparation sources inventories)"
  by (auto simp: openPublishedBackup_def newUpgradeBackupManifest_def newBackupIdentifier_def Let_def mutating_def
      intro!: safe_rules safe_external)

lemma keeps_publication:
  assumes "stage_of lock i ex"
  shows "yields po lock i (\<lambda>r. stage_of lock i (snd r)) (backupManifest po ex)"
    and "yields po lock i (\<lambda>r. stage_of lock i (snd r)) (publishedBackup po ex)"
  unfolding backupManifest_def publishedBackup_def
  by (intro settles_rules safe_manifest; use assms in \<open>simp split: option.split sum.split\<close>)+

lemma stage_capacity: "stage_of lock i ex \<Longrightarrow> settles po lock i (stage_of lock i) (prepareBackupCapacity po ex)"
  unfolding prepareBackupCapacity_def Let_def
  by (intro yields_split yields_return yields_then [OF keeps_publication(1)])
    (auto simp: mutating_def intro!: settles_rules settles_failure safe_external)

lemma stage_restore: "stage_of lock i ex \<Longrightarrow> settles po lock i (stage_of lock i) (upgrade_restore po ex)"
  unfolding upgrade_restore_def Let_def
  by (intro yields_split yields_return yields_then [OF keeps_publication(2)])
    (auto dest!: stage_next intro!: settles_rules settles_failure settled_for)

lemma replaced_binds: "bound_to lock i mutation \<Longrightarrow> settles po lock i (bound_to lock i) (replace_binds po indexes mutation)"
  by (induction po indexes mutation rule: replace_binds.induct)
    (auto simp: set_mount_source_def Let_def mutating_def intro!: settles_rules safe_external)

lemma stage_create: "stage_of lock i ex \<Longrightarrow> settles po lock i (stage_of lock i) (upgrade_create po ex)"
proof -
  assume ex: "stage_of lock i ex"
  then have "settles po lock i (stage_of lock i) (prepareUpgradeReplacementBinds po ex)"
    unfolding prepareUpgradeReplacementBinds_def Let_def
    by (intro settles_rules settles_with_mutation replaced_binds) auto
  then show ?thesis unfolding upgrade_create_def Let_def
    by (intro yields_bind yields_split yields_return safe_observations settles_then [of po lock i "stage_of lock i"])
      (auto dest!: stage_next intro!: settles_rules stage_effect settled_for)
qed

lemma stages_settle:
  assumes "\<And>stage ex. stage \<in> set stages \<Longrightarrow> stage_of lock i ex \<Longrightarrow> settles po lock i (stage_of lock i) (stage ex)"
    and "stage_of lock i ex"
  shows "settles po lock i (stage_of lock i) (run_stages stages ex)"
  using assms
proof (induction stages arbitrary: ex)
  case (Cons stage stages)
  have "settles po lock i (stage_of lock i) (stage ex)" by (rule Cons.prems(1)) (simp_all add: Cons.prems(2))
  then show ?case unfolding run_stages.simps
    by (rule settles_then) (simp_all add: yields_return Cons.IH Cons.prems(1))
qed (auto intro!: yields_return)

lemma upgrade_stages_settle:
  "stage \<in> set (upgrade_stages po) \<Longrightarrow> stage_of lock i ex \<Longrightarrow> settles po lock i (stage_of lock i) (stage ex)"
  unfolding upgrade_stages_def upgrade_stop_def upgrade_rename_def upgrade_remove_def
  by (simp only: list.set insert_iff empty_iff disj_assoc [symmetric] simp_thms, elim disjE)
    (simp_all only: stage_inventory stage_capacity stage_transition stage_backup stage_create stage_restore stage_start simp_thms)

lemma run_stages_settle: "stage_of lock i ex \<Longrightarrow> settles po lock i (stage_of lock i) (run_stages (upgrade_stages po) ex)"
  by (rule stages_settle) (erule (1) upgrade_stages_settle)

lemma safe_upgrade_image: "safe_calls po (bm_lock mutation) (tx_of mutation) (settleUpgradeImage po mutation)"
  unfolding settleUpgradeImage_def
  by (auto simp: Let_def intro!: safe_rules safe_observations safe_settle effectJournal_bind safe_effects)

lemma safe_upgrade: "safe_calls po (bm_lock mutation) (tx_of mutation) (runUpgrade po mutation)"
proof -
  let ?lock = "bm_lock mutation" and ?i = "tx_of mutation"
  have resolve: "safe_calls po ?lock ?i (resolveUpgradeFailure mutation target cause)" for target cause
    by (rule yields_safe [OF settles_resolve(1)]) simp
  have stages: "safe_calls po ?lock ?i (State_Monad.bind (run_stages (upgrade_stages po) ex) f)"
    if "stage_of ?lock ?i ex" "\<And>x. safe_calls po ?lock ?i (f x)" for ex and f :: "go_error option \<times> upgradeExecution \<Rightarrow> ('a, 'b) app"
    by (intro moves_bind yields_safe [OF run_stages_settle [OF that(1)]] that(2) extends_orders)
  show ?thesis unfolding runUpgrade_def completeUpgrade_def Let_def
    by (intro safe_rules safe_upgrade_image resolve safe_observations stages safe_commit) auto
qed

section \<open>The restore\<close>

lemma restore_next: "restore_nextAction ex = (a, ex') \<Longrightarrow> rx_mutation ex' = rx_mutation ex"
  by (auto simp: restore_nextAction_def split: prod.split_asm)

lemma restore_settles:
  assumes "bound_to lock i (rx_mutation ex)"
  shows "settles po lock i (\<lambda>ex. bound_to lock i (rx_mutation ex)) (restore_discard po ex)"
    and "settles po lock i (\<lambda>ex. bound_to lock i (rx_mutation ex)) (restore_rename po ex)"
    and "settles po lock i (\<lambda>ex. bound_to lock i (rx_mutation ex)) (restore_start po ex)"
  unfolding restore_discard_def restore_rename_def restore_start_def Let_def
  by (intro settles_rules settled_for; use assms in \<open>auto dest!: restore_next\<close>)+

lemma safe_restore: "safe_calls po (bm_lock mutation) (tx_of mutation) (runRestore po mutation)"
proof -
  let ?lock = "bm_lock mutation" and ?i = "tx_of mutation"
  let ?P = "\<lambda>ex. bound_to ?lock ?i (rx_mutation ex)"
  have prepare: "safe_calls po ?lock ?i (prepareRestoreJourney po mutation)"
    unfolding prepareRestoreJourney_def loadRestorePublication_def Let_def
    by (auto simp: mutating_def intro!: safe_rules safe_external)
  have complete: "safe_calls po ?lock ?i (completeRestore po mutation tr)" for tr
    unfolding completeRestore_def Let_def
    by (auto simp: mutating_def intro!: safe_rules safe_external safe_inner [OF inner_writes(2)] safe_observations)
  have "yields po ?lock ?i (\<lambda>_. True) (runRestore po mutation)"
    unfolding runRestore_def
    by (intro yields_bind prepare yields_split settles_then [where P = ?P] restore_settles yields_return)
      (auto intro!: settles_rules settles_then [where P = ?P] restore_settles yieldsI dest!: movesD [OF complete])
  then show ?thesis by (rule yields_safe)
qed

section \<open>One apply\<close>

lemma safe_run: "safe_calls po (bm_lock mutation) (tx_of mutation) (runBoundMutation po mutation)"
  unfolding runBoundMutation_def Let_def
  by (auto intro!: safe_rules safe_bootstrap safe_adopt safe_upgrade safe_restore split: TransactionKind.split)

lemma closing_calls: "moves aw_trace (extends P) (closeMutationLock lock cause)" "moves aw_trace (extends P) (mutation_close mutation)"
  unfolding closeMutationLock_def mutation_close_def
  by (intro safe_rules more_trace [OF inner_lock(2)])+

lemma bind_calls: "moves aw_trace (extends (\<lambda>c _. \<not> mutating c)) (bindMutation po service)"
proof -
  have transaction: "moves aw_trace (extends P) (bindPreparedTransaction lock preparation)" for P lock preparation
    unfolding bindPreparedTransaction_def
    by (intro safe_rules more_trace [OF inner_writes(1)] more_trace [OF inner_reads [OF reads_Fence]])
  have root: "moves aw_trace (extends P) (newBoundMutation po lock final)" for P lock final
    unfolding newBoundMutation_def store_BackupRoot_def
    by (intro safe_rules closing_calls more_trace [OF inner_reads [OF reads_primitives(2)]])
  show ?thesis unfolding bindMutation_def
    by (intro safe_rules performs_trace [OF journal_reader.observing_prepare] more_trace [OF inner_lock(1)] closing_calls transaction root
      more_trace [OF inner_reads [OF reads_primitives(1)]])
qed

lemma observing_trace:
  assumes "moves aw_trace (extends (\<lambda>c _. \<not> mutating c)) m" "run_state m s = (x, t)"
  shows "extends (authorised H lock i) (aw_trace s) (aw_trace t)"
  by (rule extends_mono [OF movesD [OF assms]]) (simp add: authorised_def)

lemma apply_authorised:
  "\<exists>lock i. extends (authorised (po_hash po) lock i) (aw_trace s) (aw_trace (snd (run_state (Apply po service) s)))"
proof (cases "po_mutates po")
  case True
  obtain bound t where bind: "run_state (bindMutation po service) s = (bound, t)" by (metis surj_pair)
  note first = observing_trace [OF bind_calls bind]
  show ?thesis
  proof (cases bound)
    case (Inl err)
    with True bind first show ?thesis by (simp add: Apply_def)
  next
    case (Inr mutation)
    let ?rest = "\<lambda>mutation. do {
            publishPlan po (bm_preparation mutation);
            materialized \<leftarrow> materializeMutationRuntime po mutation;
            (plan, err) \<leftarrow> (case materialized of
                Some err \<Rightarrow> State_Monad.return (zero_plan, Some err)
              | None \<Rightarrow> do {
                  (err, mutation) \<leftarrow> runBoundMutation po mutation;
                  State_Monad.return (case err of
                    Some e \<Rightarrow> (zero_plan, Some e)
                  | None \<Rightarrow> (pr_Plan (bm_preparation mutation), None)) });
            closeErr \<leftarrow> mutation_close mutation;
            State_Monad.return (plan, errors_Join [err, closeErr]) }"
    have "safe_calls po (bm_lock mutation) (tx_of mutation) (?rest mutation)"
      unfolding publishPlan_def
      by (intro safe_rules safe_run closing_calls safe_observations safe_performs [OF performs_publish])
    moreover obtain r u where rest: "run_state (?rest mutation) t = (r, u)" by (metis surj_pair)
    ultimately have "extends (authorised (po_hash po) (bm_lock mutation) (tx_of mutation)) (aw_trace t) (aw_trace u)"
      by (rule movesD)
    moreover have "run_state (Apply po service) s = (r, u)"
      using True bind rest unfolding Apply_def Inr by (simp only: if_False not_True_eq_False simp_thms run_state_bind split_beta fst_conv snd_conv sum.case Let_def)
    ultimately show ?thesis using first extends_trans by (metis snd_conv)
  qed
qed (simp add: Apply_def)


text \<open>
  Adopting a running workload never touches it: the journey of an adoption makes no call that changes an image, a
  workload or a backup.
\<close>

theorem adoption_only_observes:
  "moves aw_trace (extends (\<lambda>c _. \<not> mutating c)) (runAdopt po mutation)"
proof -
  note observe = performs_trace [OF performs_external, where K = "\<lambda>c. \<not> mutating c"]
  show ?thesis unfolding runAdopt_def publishTransaction_def
    by (intro safe_rules observe more_trace [OF inner_writes(6)] performs_trace [OF performs_publish]) (simp add: mutating_def)
qed

end
