(* ===== verification/Host.thy ===== *)
theory Host
  imports Apply
begin

text \<open>
  A host that does what it is asked, as the concrete runtime of the examples: one image and a list of
  containers, each known by the evidence that a probe reports.
\<close>

record host =
  ho_image :: bool
  ho_containers :: "WorkloadEffectEvidence list"

definition named :: "string \<Rightarrow> host \<Rightarrow> WorkloadEffectEvidence option" where
  "named name h = find (\<lambda>c. we_Name c = name) (ho_containers h)"

definition host_probe :: "WorkloadEffectEvidence option \<Rightarrow> WorkloadEffectProbe" where
  "host_probe c = (case c of None \<Rightarrow> \<lparr>wp_State = WorkloadEffectProbeMissing, wp_Workload = emptyWorkloadEffectEvidence\<rparr>
     | Some e \<Rightarrow> \<lparr>wp_State = WorkloadEffectProbeObserved, wp_Workload = e\<rparr>)"

definition host_observe :: "WorkloadEffectEvidence option \<Rightarrow> WorkloadObservation" where
  "host_observe c = (case c of
      None \<Rightarrow> zero_observation\<lparr>ob_State := WorkloadObservationMissing\<rparr>
    | Some e \<Rightarrow> \<lparr>ob_ID = we_ID e, ob_State = WorkloadObservationPresent, ob_ConfigurationDigest = we_ConfigurationDigest e,
        ob_StorageDigest = we_StorageDigest e, ob_RuntimeMounts = we_RuntimeMounts e,
        ob_ConfigurationMatches = we_ConfigurationMatches e, ob_Running = (we_Lifecycle e = WorkloadLifecycleRunning),
        ob_Ownership = we_Ownership e\<rparr>)"

definition host_existing :: "WorkloadEffectEvidence \<Rightarrow> ExistingWorkload" where
  "host_existing e = \<lparr>ew_ID = we_ID e, ew_Name = we_Name e, ew_ConfigurationDigest = we_ConfigurationDigest e,
     ew_Lifecycle = we_Lifecycle e, ew_Ownership = we_Ownership e\<rparr>"

definition host_created :: "hash \<Rightarrow> DesiredWorkload \<Rightarrow> string \<Rightarrow> WorkloadEffectEvidence" where
  "host_created H w t = \<lparr>we_ID = t, we_Name = ContainerName (dw_Spec w), we_ConfigurationDigest = 31,
     we_StorageDigest = fst (ComputeStorageDigest H w []), we_RuntimeMounts = None, we_ConfigurationMatches = True,
     we_Lifecycle = WorkloadLifecycleCreated, we_Ownership = expected_ownership w t\<rparr>"

definition example_project :: "DesiredWorkload \<Rightarrow> ComposeProject" where
  "example_project w = \<lparr>cp_Name = ''shop'', cp_ImageInput = (\<lambda>_. Inr (ImageInputRegistry ''r'')), cp_Runtime = (\<lambda>_. Inr RuntimeDocker),
     cp_Workload = (\<lambda>_ img. Inr (w\<lparr>dw_Image := img\<rparr>))\<rparr>"

definition host_ports :: "hash \<Rightarrow> DesiredWorkload \<Rightarrow> host ports" where
  "host_ports H w = \<lparr>po_hash = H, po_databaseName = ''state.db'', po_backupRoot = ''/var/backups'', po_events = True, po_mutates = True,
     po_Load = (\<lambda>h. (Inr (example_project w), h)), po_Normalize = (\<lambda>r. Some (r, True)), po_Parse = (\<lambda>_. Some 21),
     po_Inspect = (\<lambda>h. (Inr \<lparr>re_Kind = RuntimeDocker, re_Platform = im_Platform example_image, re_Digest = 41\<rparr>, h)),
     po_CheckWorkload = (\<lambda>_. None),
     po_ObserveWorkload = (\<lambda>w h. (Inr (host_observe (named (ContainerName (dw_Spec w)) h)), h)),
     po_Resolve = (\<lambda>_ _ h. (Inr example_image, h)),
     po_ProbeImage = (\<lambda>img h. (Inr (if ho_image h
         then \<lparr>ip_State = ImageProbeObserved, ip_Image = \<lparr>ie_ReferenceDigest = im_ReferenceDigest img,
                 ie_PlatformManifest = im_PlatformManifest img, ie_ImageConfig = im_ImageConfig img, ie_Platform = im_Platform img\<rparr>\<rparr>
         else \<lparr>ip_State = ImageProbeMissing, ip_Image = emptyImageEvidence\<rparr>), h)),
     po_PullImage = (\<lambda>_ h. (None, h\<lparr>ho_image := True\<rparr>)),
     po_CreateWorkload = (\<lambda>w t _ h. ((t, None), h\<lparr>ho_containers := host_created H w t # ho_containers h\<rparr>)),
     po_ProbeCreatedWorkload = (\<lambda>w t _ h. (Inr (host_probe (named (ContainerName (dw_Spec w)) h)), h)),
     po_StartWorkload = (\<lambda>w t h. (None, h\<lparr>ho_containers :=
         map (\<lambda>c. if we_Name c = ContainerName (dw_Spec w) then c\<lparr>we_Lifecycle := WorkloadLifecycleRunning\<rparr> else c) (ho_containers h)\<rparr>)),
     po_ProbeStartedWorkload = (\<lambda>w t h. (Inr (host_probe (named (ContainerName (dw_Spec w)) h)), h)),
     po_ApplyWorkloadTransition = (\<lambda>tr h. (None, h\<lparr>ho_containers :=
         (if wt_Kind tr = WorkloadTransitionRemove then filter (\<lambda>c. we_ID c \<noteq> ew_ID (wt_Before tr)) (ho_containers h)
          else map (\<lambda>c. if we_ID c = ew_ID (wt_Before tr)
             then c\<lparr>we_Name := ew_Name (wt_After tr), we_Lifecycle := ew_Lifecycle (wt_After tr)\<rparr> else c) (ho_containers h))\<rparr>)),
     po_ProbeWorkloadTransition = (\<lambda>tr h. (Inr (case find (\<lambda>c. we_ID c = ew_ID (wt_Before tr)) (ho_containers h) of
           None \<Rightarrow> \<lparr>tp_State = WorkloadEffectProbeMissing, tp_Workload = zero_existing\<rparr>
         | Some c \<Rightarrow> \<lparr>tp_State = WorkloadEffectProbeObserved, tp_Workload = host_existing c\<rparr>), h)),
     po_ResumeIncomplete = None,
     po_DiscardWorkload = (\<lambda>w t h. (None, h\<lparr>ho_containers := filter (\<lambda>c. we_ID c \<noteq> t) (ho_containers h)\<rparr>)),
     po_ProbeDiscardedWorkload = (\<lambda>w t h. (Inr (host_probe (find (\<lambda>c. we_ID c = t) (ho_containers h))), h)),
     po_GetWorkloadArchive = (\<lambda>_ _ _ _ h. (Inl ErrContext, h)), po_PutWorkloadArchive = (\<lambda>_ _ _ _ h. (Some ErrContext, h)),
     po_Analyze = (\<lambda>_ _ h. (Inl ErrContext, h)), po_OpenBackup = (\<lambda>_ _ h. (Inr None, h)),
     po_PublishBackup = (\<lambda>_ _ _ _ h. (Inl ErrContext, h)), po_PrepareCapacity = (\<lambda>_ _ h. (Inl ErrContext, h)),
     po_EnsureEmptyBind = (\<lambda>_ h. (None, h)), po_Materialize = (\<lambda>h. (None, h)), po_Clock = (\<lambda>h. (1000, h)),
     po_Token = (\<lambda>h. (Inr 77, h))\<rparr>"

definition plain_workload :: DesiredWorkload where
  "plain_workload = example_workload\<lparr>dw_Spec := (dw_Spec example_workload)\<lparr>Mounts := None\<rparr>\<rparr>"

text \<open>A world in which nothing fails, with given tables and a given host.\<close>

definition quiet_app :: "db \<Rightarrow> host \<Rightarrow> host app_world" where
  "quiet_app d h = \<lparr>sw_db = d, sw_env = (\<lambda>_. quiet), sw_tick = 0, aw_rt = h, aw_trace = [], aw_events = [], aw_action = '''',
     aw_satisfied = False\<rparr>"

definition host_journal :: observedEffectJournal where
  "host_journal = \<lparr>oj_lock = example_lock, oj_events = False, oj_context = zero_Event\<rparr>"

definition host_mutation :: boundMutation where
  "host_mutation = \<lparr>bm_preparation = example_preparation, bm_lock = example_lock, bm_backupRoot = ''/var/backups'', bm_materialize = False,
     bm_events = False\<rparr>"

section \<open>Two mutations on this host\<close>

text \<open>
  A bootstrap that is resumed when everything but its commit is recorded, and an adoption. The hash counts bytes, which keeps
  evaluation short; nothing in the examples depends on more.
\<close>

definition length_hash :: hash where
  "length_hash bs = word_of_nat (Suc (length bs))"

definition example_ports :: "host ports" where
  "example_ports = host_ports length_hash plain_workload"

definition settled :: "int \<Rightarrow> string \<Rightarrow> digest \<Rightarrow> digest \<Rightarrow> Action" where
  "settled n kind intent post = \<lparr>ac_TransactionID = 5, ac_Sequence = n, ac_Kind = kind, ac_State = ActionStateCompleted,
     ac_IntentDigest = intent, ac_PostconditionDigest = Some post\<rparr>"

definition action_row_of :: "Action \<Rightarrow> action_row" where
  "action_row_of a = \<lparr>jr_tx = ac_TransactionID a, jr_sequence = ac_Sequence a, jr_kind = ac_Kind a, jr_state = ac_State a,
     jr_intent = ac_IntentDigest a, jr_post = ac_PostconditionDigest a\<rparr>"

definition finished_actions :: "Action list" where
  "finished_actions = [settled 1 workloadCreateActionKind 247 66, settled 2 workloadStartActionKind 246 66]"

definition finished_mutation :: boundMutation where
  "finished_mutation = host_mutation\<lparr>bm_preparation := example_preparation\<lparr>pr_Plan := (pr_Plan example_preparation)\<lparr>pl_Kind := PlanResume\<rparr>,
     pr_Workload := plain_workload,
     pr_Transaction := zero_Transaction\<lparr>tx_ID := 5, tx_Kind := TransactionBootstrap, tx_State := TransactionActive\<rparr>,
     pr_HasTransaction := True, pr_Actions := finished_actions\<rparr>\<rparr>"

definition finished_world :: "host app_world" where
  "finished_world = quiet_app (active_example\<lparr>db_actions := map action_row_of finished_actions\<rparr>) \<lparr>ho_image = True,
     ho_containers = [(host_created length_hash plain_workload (id_String 5))\<lparr>we_Lifecycle := WorkloadLifecycleRunning\<rparr>]\<rparr>"

definition adopt_tx :: TransactionIntent where
  "adopt_tx = \<lparr>ti_Kind = TransactionAdopt, ti_Runtime = RuntimeDocker, ti_SourceDigest = 11, ti_EffectiveDigest = 12,
     ti_ExecutionDigest = 41, ti_BaseTransactionID = 0, ti_HasBaseTransaction = False, ti_PredecessorWorkloadID = ''c1''\<rparr>"

definition adopt_evidence :: WorkloadEffectEvidence where
  "adopt_evidence = (host_created length_hash plain_workload ''c1'')\<lparr>we_Lifecycle := WorkloadLifecycleRunning, we_Ownership := unmanaged_ownership\<rparr>"

definition adopt_mutation :: boundMutation where
  "adopt_mutation = host_mutation\<lparr>bm_preparation := example_preparation\<lparr>
     pr_Plan := (pr_Plan example_preparation)\<lparr>pl_Kind := PlanAdopt, pl_Observation := host_observe (Some adopt_evidence)\<rparr>,
     pr_Workload := plain_workload,
     pr_Transaction := zero_Transaction\<lparr>tx_ID := 5, tx_Kind := TransactionAdopt, tx_State := TransactionActive, tx_PredecessorWorkloadID := ''c1''\<rparr>,
     pr_HasTransaction := True\<rparr>\<rparr>"

definition adopt_world :: "host app_world" where
  "adopt_world = quiet_app (lease_example\<lparr>db_transactions := [transaction_row 5 1 adopt_tx]\<rparr>) \<lparr>ho_image = True, ho_containers = [adopt_evidence]\<rparr>"

end
