(* ===== verification/ApplySteps.thy ===== *)
theory ApplySteps
  imports WriteAhead Host
begin

text \<open>
  An apply as a client of the store: whatever it does, the tables move along committed steps of the store, so
  that the invariant of the journal holds throughout and every result can be read off the tables.
\<close>

section \<open>Programs that move the tables along store steps\<close>

abbreviation stepping :: "hash \<Rightarrow> ('r, 'a) app \<Rightarrow> bool" where
  "stepping H m \<equiv> moves sw_db (store_step H)\<^sup>*\<^sup>* m"

lemma stepping_nested:
  "(\<And>a b. x = (a, b) \<Longrightarrow> stepping H (g a b c)) \<Longrightarrow> stepping H ((case x of (a, b) \<Rightarrow> g a b) c)"
  "(\<And>a b. x = (a, b) \<Longrightarrow> stepping H (g' a b c d)) \<Longrightarrow> stepping H ((case x of (a, b) \<Rightarrow> g' a b) c d)"
  by (cases x, simp)+

lemma stepping_performs: "performs K m \<Longrightarrow> stepping H m"
  by (rule moves_performs) (simp_all add: moves_orders)

lemma stepping_external: "stepping H (external c f)"
  by (rule stepping_performs [of "\<lambda>_. True"]) (rule performs_external, simp)

lemma stepping_publish: "stepping H (tryPublish sink e)"
  by (rule stepping_performs [of "\<lambda>_. True"]) (rule performs_publish)

lemma stepping_journal: "stepping H (effectJournal mutation)"
  by (rule movesI) (auto simp: effectJournal_def modify_world_def)

lemma stepping_fresh: "(\<And>e. stepping H (runRuntimeEffect j i intent eff e)) \<Longrightarrow> stepping H (run_fresh j i intent eff e)"
  unfolding run_fresh_def by (intro store_structure)

lemma stepping_runs:
  "stepping H (runImagePull po j i n img)" "stepping H (runWorkloadCreate po j i n w options)"
  "stepping H (runWorkloadStart po j i n w)" "stepping H (runWorkloadDiscard po j i n w)"
  "stepping H (runWorkloadTransition po j i n tr)"
  by (auto simp: runImagePull_def runWorkloadCreate_def runWorkloadStart_def runWorkloadDiscard_def runWorkloadTransition_def Let_def
      intro!: store_structure stepping_fresh pull_effect.run_steps create_effect.run_steps start_effect.run_steps
      discard_effect.run_steps transition_effect.run_steps)

lemma stepping_probes:
  "stepping H (ef_Probe (imagePullEffect po img) u)" "stepping H (ef_Probe (workloadCreateEffect po w tx options) r)"
  "stepping H (ef_Probe (workloadStartEffect po w tx) u)"
  "stepping H (ef_Probe (storageInventoryEffect po w sel sources) c)" "stepping H (ef_Probe (storageBackupEffect po root archives capacity) p)"
  "stepping H (ef_Probe (storageRestoreEffect po w sel publication archives) u)"
  by (rule stepping_performs, rule pull_effect.probe_calls create_effect.probe_calls start_effect.probe_calls
      inventory_effect.probe_calls backup_effect.probe_calls restore_effect.probe_calls)+

lemmas stepping_rules = store_structure stepping_nested stepping_external stepping_publish stepping_journal stepping_runs stepping_probes
  stepping_fresh inventory_effect.run_steps backup_effect.run_steps restore_effect.run_steps
  writes_set_state writes_commit

section \<open>Journeys\<close>

lemma stepping_observations:
  "stepping H (imagePresent po img)" "stepping H (materializeMutationRuntime po mutation)" "stepping H (publishTransaction mutation kind)"
  "stepping H (verifyCompletedWorkloadCreate po action preparation)" "stepping H (completedWorkloadStartResult po action preparation)"
  "stepping H (verifyCompletedRuntimeEffect action (imagePullEffect po img) ())"
  unfolding imagePresent_def materializeMutationRuntime_def publishTransaction_def verifyCompletedWorkloadCreate_def
    completedWorkloadStartResult_def verifyCompletedRuntimeEffect_def Let_def
  by (intro stepping_rules; simp)+

lemma stepping_settle:
  "stepping H (settleImagePull po mutation action n)" "stepping H (settleWorkloadCreateResult po mutation action n options)"
  "stepping H (settleWorkloadStartResult po mutation action n)" "stepping H (settleUpgradeTransition po mutation action n tr)"
  "stepping H (settleUpgradeImagePull po mutation action)" "stepping H (settleWorkloadDiscard po mutation action n)"
  unfolding settleImagePull_def settleWorkloadCreateResult_def settleWorkloadStartResult_def settleUpgradeTransition_def
    settleUpgradeImagePull_def settleWorkloadDiscard_def completedWorkloadCreateResult_def completedUpgradeImagePull_def Let_def
  by (intro stepping_rules stepping_observations)+

lemma stepping_storage:
  "stepping H (settleStorageInventory po mutation action n sources current)"
  "stepping H (settleStorageBackup po mutation action n root m archives capacity)"
  "stepping H (settleStorageRestore po mutation action n publication archives)"
  unfolding settleStorageInventory_def completedStorageInventory_def settleStorageBackup_def completedStorageBackup_def
    settleStorageRestore_def completedStorageRestore_def Let_def
  by (intro stepping_rules)+

lemma stepping_commit: "stepping H (completeAppliedMutation po mutation operation backup)"
  unfolding completeAppliedMutation_def Let_def by (intro stepping_rules stepping_observations)

lemma stepping_bootstrap: "stepping H (runBootstrap po mutation)"
  unfolding runBootstrap_def settleBootstrapImage_def settleWorkloadCreate_def settleWorkloadStart_def completeBootstrap_def Let_def
  by (intro stepping_rules stepping_observations stepping_settle stepping_commit)

lemma stepping_adopt: "stepping H (runAdopt po mutation)"
  unfolding runAdopt_def Let_def by (intro stepping_rules stepping_observations)

lemma stepping_resolve:
  "stepping H (resolveUpgradeFailure mutation target cause)"
  "stepping H (resolveTransitionFailure mutation target satisfied resolved cause)"
  "stepping H (resolveEffectFailure mutation postcondition cause)"
  unfolding resolveUpgradeFailure_def resolveTransitionFailure_def resolveEffectFailure_def Let_def
  by (intro stepping_rules stepping_observations)+

lemma stepping_binds: "stepping H (replace_binds po indexes mutation)"
  by (induction po indexes mutation rule: replace_binds.induct) (auto intro!: stepping_rules)

lemma stepping_stages: "stage \<in> set (upgrade_stages po) \<Longrightarrow> stepping H (stage ex)"
  unfolding upgrade_stages_def upgrade_stop_def upgrade_rename_def upgrade_remove_def
  by (simp only: list.set insert_iff empty_iff disj_assoc [symmetric] simp_thms, elim disjE;
      simp only: upgrade_inventory_def prepareBackupCapacity_def transition_stage_def upgrade_backup_def upgrade_create_def
        upgrade_restore_def upgrade_start_def with_mutation_def failCapacity_def backupManifest_def openPublishedBackup_def
        newUpgradeBackupManifest_def newBackupIdentifier_def publishedBackup_def prepareUpgradeReplacementBinds_def effect_stage_def Let_def;
      intro stepping_rules stepping_observations stepping_settle stepping_storage stepping_resolve stepping_binds)

lemma stepping_run_stages: "(\<And>stage ex. stage \<in> set stages \<Longrightarrow> stepping H (stage ex)) \<Longrightarrow> stepping H (run_stages stages ex)"
proof (induction stages arbitrary: ex)
  case (Cons stage stages)
  then show ?case unfolding run_stages.simps by (intro store_structure) auto
qed (auto intro!: stepping_rules)

lemma stepping_upgrade: "stepping H (runUpgrade po mutation)"
  unfolding runUpgrade_def settleUpgradeImage_def completeUpgrade_def Let_def
  by (intro stepping_rules stepping_observations stepping_settle stepping_resolve stepping_commit stepping_run_stages stepping_stages)

lemma stepping_restore: "stepping H (runRestore po mutation)"
  unfolding runRestore_def prepareRestoreJourney_def loadRestorePublication_def restore_discard_def restore_rename_def restore_start_def
    completeRestore_def Let_def
  by (intro stepping_rules stepping_observations stepping_settle)

section \<open>One apply\<close>

lemma stepping_close: "stepping H (closeMutationLock lock cause)" "stepping H (mutation_close mutation)"
  unfolding closeMutationLock_def mutation_close_def by (intro stepping_rules writes_close)+

lemma stepping_run: "stepping H (runBoundMutation po mutation)"
  unfolding runBoundMutation_def Let_def
  by (auto intro!: stepping_rules stepping_bootstrap stepping_adopt stepping_upgrade stepping_restore split: TransactionKind.split)

lemma stepping_bind: "stepping H (bindMutation po service)"
  unfolding bindMutation_def bindPreparedTransaction_def newBoundMutation_def store_BackupRoot_def
  by (intro store_structure stepping_performs [OF journal_reader.observing_prepare] stepping_close writes_open writes_begin
      moves_reads [OF reads_primitives(1)] moves_reads [OF reads_primitives(2)] moves_reads [OF reads_Fence])

lemma stepping_apply: "stepping H (Apply po service)"
  unfolding Apply_def publishPlan_def
  by (intro stepping_rules stepping_bind stepping_run stepping_close stepping_observations)


section \<open>What success means\<close>

text \<open>
  The workload is recorded as applied: the service's only applied row is the one of the intent, its transaction has
  succeeded and has no action left open.
\<close>

definition recorded_as :: "ServiceLock \<Rightarrow> transaction_id \<Rightarrow> AppliedServiceIntent \<Rightarrow> db \<Rightarrow> bool" where
  "recorded_as lock i intent d \<longleftrightarrow>
     {a \<in> set (db_applied d). ar_service a = wl_serviceID (sl_lease lock)} = {applied_row_of (wl_serviceID (sl_lease lock)) i intent} \<and>
     (\<exists>row \<in> set (db_transactions d). tr_id row = i \<and> tr_service row = wl_serviceID (sl_lease lock) \<and> tr_state row = TransactionSucceeded) \<and>
     \<not> incomplete_exists d i"

lemma committed_record:
  assumes "journal_ok (sw_db s)" and "run_state (CommitAppliedService lock i intent) s = (Inr x, t)"
  shows "recorded_as lock i intent (sw_db t)"
  using commit_effect [OF assms refl] by (auto simp: recorded_as_def applied_row_of_def)

lemma publish_db: "run_state (publishTransaction mutation kind) s = (u, t) \<Longrightarrow> sw_db t = sw_db s \<and> aw_rt t = aw_rt s"
  by (auto simp: publishTransaction_def tryPublish_def Let_def split: if_split_asm)

lemma external_run: "run_state (external c f) s = (x, t) \<Longrightarrow> f (aw_rt s) = (x, aw_rt t) \<and> sw_db t = sw_db s"
  by (auto simp: external_def split: prod.split_asm)

lemma completed_mutation:
  assumes ok: "journal_ok (sw_db s)" and run: "run_state (completeAppliedMutation po mutation operation backup) s = ((None, mutation'), t)"
  shows "\<exists>probe. fst (po_ProbeStartedWorkload po (pr_Workload (bm_preparation mutation)) (id_String (tx_of mutation)) (aw_rt s)) = Inr probe \<and>
     wp_State probe = WorkloadEffectProbeObserved \<and>
     startedWorkloadMatches (po_hash po) (wp_Workload probe) (pr_Workload (bm_preparation mutation)) (id_String (tx_of mutation)) \<and>
     recorded_as (bm_lock mutation) (tx_of mutation)
       ((appliedServiceIntent (pr_Workload (bm_preparation mutation)) (wp_Workload probe))\<lparr>ai_Backup := backup\<rparr>) (sw_db t)"
proof -
  let ?w = "pr_Workload (bm_preparation mutation)" and ?i = "tx_of mutation"
  from run obtain probe u x v where
    P: "run_state (external (CallProbeStarted ?w (id_String ?i)) (po_ProbeStartedWorkload po ?w (id_String ?i))) s = (Inr probe, u)"
      "wp_State probe = WorkloadEffectProbeObserved" "startedWorkloadMatches (po_hash po) (wp_Workload probe) ?w (id_String ?i)"
    and C: "run_state (CommitAppliedService (bm_lock mutation) ?i ((appliedServiceIntent ?w (wp_Workload probe))\<lparr>ai_Backup := backup\<rparr>)) u = (Inr x, v)"
    and db: "sw_db t = sw_db v"
    by (auto simp: completeAppliedMutation_def Let_def simp del: run_state_bind elim!: run_bindE dest!: publish_db
        split: sum.split_asm if_split_asm)
  note e = external_run [OF P(1)]
  have "recorded_as (bm_lock mutation) ?i ((appliedServiceIntent ?w (wp_Workload probe))\<lparr>ai_Backup := backup\<rparr>) (sw_db v)"
    by (rule committed_record [OF _ C]) (simp add: e ok)
  with P e db show ?thesis by auto
qed

lemmas settled_steps = stepping_settle [THEN movesD] stepping_observations [THEN movesD] stepping_storage [THEN movesD]

lemma bootstrap_completes:
  assumes "run_state (runBootstrap po mutation) s = ((None, mutation'), t)"
  shows "\<exists>u. (store_step H)\<^sup>*\<^sup>* (sw_db s) (sw_db u) \<and>
    run_state (completeAppliedMutation po mutation ''bootstrap'' None) u = ((None, mutation'), t)"
proof -
  have image: "stepping H (settleBootstrapImage po mutation)" for po :: "'a ports"
    unfolding settleBootstrapImage_def Let_def by (intro stepping_rules stepping_observations stepping_settle)
  have create: "stepping H (settleWorkloadCreate po mutation action n)" and start: "stepping H (settleWorkloadStart po mutation action n)"
    for action n and po :: "'a ports"
    unfolding settleWorkloadCreate_def settleWorkloadStart_def by (intro stepping_rules stepping_settle)+
  note mat = movesD [OF stepping_observations(2) [of H po mutation]]
  from assms show ?thesis
    by (auto simp: runBootstrap_def Let_def completeBootstrap_def simp del: run_state_bind elim!: run_bindE
        dest!: movesD [OF image] movesD [OF create] movesD [OF start] mat
        split: option.split_asm if_split_asm prod.split_asm) (meson rtranclp_trans)
qed

lemma upgrade_completes:
  assumes "run_state (runUpgrade po mutation) s = ((None, mutation'), t)"
  shows "\<exists>u (ex :: upgradeExecution). (store_step H)\<^sup>*\<^sup>* (sw_db s) (sw_db u) \<and> bound_to (bm_lock mutation) (tx_of mutation) (ux_mutation ex) \<and>
    run_state (completeAppliedMutation po (ux_mutation ex) ''upgrade'' (backupIndexIntent (ux_publication ex))) u = ((None, mutation'), t)"
proof -
  have image: "stepping H (settleUpgradeImage po mutation)" for po :: "'a ports"
    unfolding settleUpgradeImage_def Let_def by (intro stepping_rules stepping_observations stepping_settle)
  have resolve: "err \<noteq> None" if "run_state (resolveUpgradeFailure mutation target cause) u = ((err, m), v)"
    for target cause err m and u v :: "'a app_world"
    using that by (auto simp: resolveUpgradeFailure_def errors_Join_def Let_def simp del: run_state_bind elim!: run_bindE
        split: if_split_asm sum.split_asm)
  note mat = movesD [OF stepping_observations(2) [of H po mutation]]
  let ?ex = "\<lambda>cursor sequence. \<lparr>ux_mutation = mutation, ux_actions = pr_Actions (bm_preparation mutation),
     ux_journey = newUpgradeJourney (bm_preparation mutation),
     ux_sources = backedStorageSources (pl_Observation (pr_Plan (bm_preparation mutation))) (pr_Workload (bm_preparation mutation)),
     ux_inventories = [], ux_archives = [], ux_manifest = zero_manifest, ux_capacity = zero_capacity,
     ux_publication = zero_publication, ux_cursor = cursor, ux_sequence = sequence\<rparr>"
  from assms obtain v u cursor sequence ex where v: "(store_step H)\<^sup>*\<^sup>* (sw_db s) (sw_db v)"
    and stages: "run_state (run_stages (upgrade_stages po) (?ex cursor sequence)) v = ((None, ex), u)"
    and fin: "run_state (completeAppliedMutation po (ux_mutation ex) ''upgrade'' (backupIndexIntent (ux_publication ex))) u = ((None, mutation'), t)"
    by (auto simp: runUpgrade_def Let_def completeUpgrade_def simp del: run_state_bind elim!: run_bindE
        dest!: movesD [OF image] mat resolve
        split: option.split_asm if_split_asm prod.split_asm) (rule that, rule rtranclp_trans; assumption)
  have "stepping H (run_stages (upgrade_stages po) ex)" for ex by (intro stepping_run_stages stepping_stages)
  from movesD [OF this stages] v have "(store_step H)\<^sup>*\<^sup>* (sw_db s) (sw_db u)" by (auto intro: rtranclp_trans)
  moreover have "bound_to (bm_lock mutation) (tx_of mutation) (ux_mutation ex)"
    using yieldsD [OF run_stages_settle stages] by simp
  ultimately show ?thesis using fin by (intro exI [of _ u] exI [of _ ex]) simp
qed

lemma completed_workload: "run_state (completeAppliedMutation po mutation operation backup) s = ((None, mutation'), t) \<Longrightarrow>
  pr_Workload (bm_preparation mutation') = pr_Workload (bm_preparation mutation)"
  by (auto simp: completeAppliedMutation_def Let_def simp del: run_state_bind elim!: run_bindE split: sum.split_asm if_split_asm)

text \<open>
  (C2) What a successful bootstrap or upgrade leaves behind: the runtime's last probe showed the desired workload running with the
  expected identity, configuration, storage and ownership labels, and exactly this evidence is what the service's only applied row
  records, under the transaction of the mutation, which has succeeded with no action left open.
\<close>

theorem successful_mutation_is_recorded:
  assumes ok: "journal_ok (sw_db s)" and run: "run_state (runBoundMutation po mutation) s = ((None, mutation'), t)"
    and tx: "pr_HasTransaction (bm_preparation mutation)"
      "tx_Kind (pr_Transaction (bm_preparation mutation)) \<in> {TransactionBootstrap, TransactionUpgrade}"
      "tx_State (pr_Transaction (bm_preparation mutation)) \<noteq> TransactionDegraded"
  shows "\<exists>probe r backup. let w = pr_Workload (bm_preparation mutation'); i = tx_ID (pr_Transaction (bm_preparation mutation)) in
     fst (po_ProbeStartedWorkload po w (id_String i) r) = Inr probe \<and> wp_State probe = WorkloadEffectProbeObserved \<and>
     startedWorkloadMatches (po_hash po) (wp_Workload probe) w (id_String i) \<and>
     recorded_as (bm_lock mutation) i ((appliedServiceIntent w (wp_Workload probe))\<lparr>ai_Backup := backup\<rparr>) (sw_db t)"
proof -
  let ?H = "\<lambda>_. 0"
  obtain m :: boundMutation and u operation backup where m: "bound_to (bm_lock mutation) (tx_of mutation) m" and u: "(store_step ?H)\<^sup>*\<^sup>* (sw_db s) (sw_db u)"
    and fin: "run_state (completeAppliedMutation po m operation backup) u = ((None, mutation'), t)"
    using run tx bootstrap_completes [of po mutation s mutation' t ?H] upgrade_completes [of po mutation s mutation' t ?H]
    by (auto simp: runBoundMutation_def Let_def; blast)
  from completed_mutation [OF steps_journal_ok [OF u ok] fin] completed_workload [OF fin] m
  show ?thesis by (auto simp: Let_def)
qed

theorem successful_mutation_is_recorded_witness:
  "\<exists>mutation' t. run_state (runBoundMutation example_ports finished_mutation) finished_world = ((None, mutation'), t) \<and>
     (\<exists>(probe :: WorkloadEffectProbe) backup. startedWorkloadMatches length_hash (wp_Workload probe) (pr_Workload (bm_preparation mutation')) (id_String 5) \<and>
        recorded_as example_lock 5 ((appliedServiceIntent (pr_Workload (bm_preparation mutation')) (wp_Workload probe))\<lparr>ai_Backup := backup\<rparr>) (sw_db t))"
proof -
  obtain r mutation' t where run: "run_state (runBoundMutation example_ports finished_mutation) finished_world = ((r, mutation'), t)"
    by (metis surj_pair)
  have "fst (fst (run_state (runBoundMutation example_ports finished_mutation) finished_world)) = None" by code_simp
  then have "r = None" by (simp add: run)
  moreover have "journal_ok (sw_db finished_world)" by code_simp
  moreover have "pr_HasTransaction (bm_preparation finished_mutation)" "tx_Kind (pr_Transaction (bm_preparation finished_mutation)) = TransactionBootstrap"
    "tx_State (pr_Transaction (bm_preparation finished_mutation)) = TransactionActive" "tx_ID (pr_Transaction (bm_preparation finished_mutation)) = 5"
    "bm_lock finished_mutation = example_lock" "po_hash example_ports = length_hash"
    by (simp_all add: finished_mutation_def host_mutation_def example_ports_def host_ports_def)
  ultimately show ?thesis
    using successful_mutation_is_recorded [of finished_world example_ports finished_mutation mutation' t] run
    by (intro exI [of _ mutation'] exI [of _ t]) (auto simp: Let_def)
qed

text \<open>
  What a successful adoption leaves behind: the workload was observed once more, running, unmanaged, with the identity that the
  transaction names and with the configuration and storage that were planned, and this observation is what the service's only applied
  row records.
\<close>

theorem successful_adoption_is_recorded:
  assumes ok: "journal_ok (sw_db s)" and run: "run_state (runAdopt po mutation) s = ((None, mutation'), t)"
  shows "\<exists>observation intent. fst (po_ObserveWorkload po (pr_Workload (bm_preparation mutation)) (aw_rt s)) = Inr observation \<and>
     validAdoptedObservation (po_hash po) observation (bm_preparation mutation) \<and>
     ai_WorkloadID intent = ob_ID observation \<and> ai_ConfigurationDigest intent = ob_ConfigurationDigest observation \<and>
     ai_StorageDigest intent = ob_StorageDigest observation \<and> ai_Backup intent = None \<and>
     recorded_as (bm_lock mutation) (tx_ID (pr_Transaction (bm_preparation mutation))) intent (sw_db t)"
proof -
  let ?w = "pr_Workload (bm_preparation mutation)"
  let ?intent = "\<lambda>ob. \<lparr>ai_WorkloadID = ob_ID ob, ai_ConfigurationDigest = ob_ConfigurationDigest ob, ai_StorageDigest = ob_StorageDigest ob,
     ai_ReferenceDigest = im_ReferenceDigest (dw_Image ?w), ai_PlatformManifestDigest = im_PlatformManifest (dw_Image ?w),
     ai_ImageConfigDigest = im_ImageConfig (dw_Image ?w), ai_Backup = None\<rparr>"
  from run obtain ob :: WorkloadObservation and u x v where O: "run_state (external (CallObserve ?w) (po_ObserveWorkload po ?w)) s = (Inr ob, u)"
      "validAdoptedObservation (po_hash po) ob (bm_preparation mutation)"
    and C: "run_state (CommitAppliedService (bm_lock mutation) (tx_of mutation) (?intent ob)) u = (Inr x, v)" and db: "sw_db t = sw_db v"
    by (auto simp: runAdopt_def Let_def simp del: run_state_bind elim!: run_bindE dest!: publish_db split: sum.split_asm if_split_asm)
  note e = external_run [OF O(1)]
  have "recorded_as (bm_lock mutation) (tx_of mutation) (?intent ob) (sw_db t)"
    unfolding db by (rule committed_record [OF _ C]) (simp add: e ok)
  with O(2) e show ?thesis by (intro exI [of _ ob] exI [of _ "?intent ob"]) simp
qed

theorem successful_adoption_is_recorded_witness:
  "\<exists>mutation' t intent. run_state (runAdopt example_ports adopt_mutation) adopt_world = ((None, mutation'), t) \<and>
     recorded_as example_lock 5 intent (sw_db t)"
proof -
  obtain r mutation' t where run: "run_state (runAdopt example_ports adopt_mutation) adopt_world = ((r, mutation'), t)" by (metis surj_pair)
  have "fst (fst (run_state (runAdopt example_ports adopt_mutation) adopt_world)) = None" by code_simp
  then have "r = None" by (simp add: run)
  moreover have "journal_ok (sw_db adopt_world)" by code_simp
  moreover have "tx_ID (pr_Transaction (bm_preparation adopt_mutation)) = 5" "bm_lock adopt_mutation = example_lock"
    by (simp_all add: adopt_mutation_def host_mutation_def)
  ultimately show ?thesis
    using successful_adoption_is_recorded [of adopt_world example_ports adopt_mutation mutation' t] run
    by (intro exI [of _ mutation'] exI [of _ t]) auto
qed

lemma set_state_success:
  assumes run: "run_state (SetTransactionState lock i st) s = (Inr x, t)"
  shows "\<exists>row \<in> set (db_transactions (sw_db t)). tr_id row = i \<and> tr_state row = st"
proof -
  from run obtain u where w: "run_state (withFencedWrite lock (set_state_body i st)) s = (Inr (), u)"
    and r: "run_state (store_Transaction i) u = (Inr x, t)"
    by (auto simp: SetTransactionState_def simp del: run_state_bind elim!: run_bindE split: if_split_asm sum.split_asm)
  have "reads (set_state_body i st d (sl_lease lock))" for d by (rule reads_bodies)
  from fenced_success [OF w this] set_state_body_outcome obtain
    set: "sql_set_state i (wl_serviceID (sl_lease lock)) st (wl_epoch (sl_lease lock)) (wl_owner (sl_lease lock)) (sw_db s) = Inr (sw_db u, 1)"
    by blast
  let ?target = "state_target i (wl_serviceID (sl_lease lock)) st"
  have "filter ?target (db_transactions (sw_db s)) \<noteq> []"
    and d: "db_transactions (sw_db u) = map (\<lambda>r. if ?target r then r\<lparr>tr_state := st\<rparr> else r) (db_transactions (sw_db s))"
    using set by (auto simp: sql_set_state_def checked_Inr split: if_split_asm)
  then obtain q where "q \<in> set (db_transactions (sw_db s))" "?target q" by (auto simp: filter_empty_conv)
  then show ?thesis using store_Transaction_outcome [OF r] unfolding d
    by (intro bexI [of _ "q\<lparr>tr_state := st\<rparr>"]) (auto simp: d state_target_def)
qed

lemma restore_outcome:
  assumes run: "run_state (runRestore po mutation) s = ((None, mutation'), t)"
  shows "\<exists>probe r tr. fst (po_ProbeWorkloadTransition po tr r) = Inr probe \<and> tp_State probe = WorkloadEffectProbeObserved \<and>
     tp_Workload probe = wt_Before (uj_stop (newUpgradeJourney (bm_preparation mutation))) \<and>
     (\<exists>row \<in> set (db_transactions (sw_db t)). tr_id row = tx_ID (pr_Transaction (bm_preparation mutation)) \<and> tr_state row = TransactionFailed)"
proof -
  have journey: "wt_After (rj_restoreStart j) = wt_Before (uj_stop (newUpgradeJourney (bm_preparation mutation)))"
    if "run_state (prepareRestoreJourney po mutation) u = (Inr j, v)" for j u v
    using that by (auto simp: prepareRestoreJourney_def restore_journey_def newRestoreJourney_def Let_def simp del: run_state_bind elim!: run_bindE
        split: if_split_asm sum.split_asm option.split_asm)
  from run obtain j u v w where J: "run_state (prepareRestoreJourney po mutation) u = (Inr j, v)"
    and C: "run_state (completeRestore po mutation (rj_restoreStart j)) w = ((None, mutation'), t)"
    by (auto simp: runRestore_def simp del: run_state_bind elim!: run_bindE split: sum.split_asm option.split_asm)
  from C obtain probe :: WorkloadTransitionProbe and a x b where
    P: "run_state (external (CallProbeTransition (rj_restoreStart j)) (po_ProbeWorkloadTransition po (rj_restoreStart j))) w = (Inr probe, a)"
      "tp_State probe = WorkloadEffectProbeObserved" "tp_Workload probe = wt_After (rj_restoreStart j)"
    and S: "run_state (SetTransactionState (bm_lock mutation) (tx_of mutation) TransactionFailed) a = (Inr x, b)" and db: "sw_db t = sw_db b"
    by (auto simp: completeRestore_def Let_def simp del: run_state_bind elim!: run_bindE dest!: publish_db split: sum.split_asm if_split_asm)
  have "fst (po_ProbeWorkloadTransition po (rj_restoreStart j) (aw_rt w)) = Inr probe" using external_run [OF P(1)] by simp
  then show ?thesis using P(2,3) journey [OF J] set_state_success [OF S]
    unfolding db by (intro exI [of _ probe] exI [of _ "aw_rt w"] exI [of _ "rj_restoreStart j"]) simp
qed


end
