(* ===== verification/Journeys.thy ===== *)
theory Journeys
  imports ApplySteps "HOL-Library.Sublist"
begin

text \<open>
  What the journeys promise: which recorded actions an upgrade may resume from, how the transitions of an upgrade
  and of the restore fit together, how the outcome of a recorded transition is read back, that an applied service
  is left alone by the next apply, and that recorded work is never done again.
\<close>

section \<open>The recorded actions of an upgrade\<close>

lemma expected_prefix:
  "length xs \<le> length ys \<Longrightarrow> list_all (\<lambda>n. xs ! n = ys ! n) [0 ..< length xs] \<longleftrightarrow> prefix xs ys"
proof
  assume "length xs \<le> length ys" "list_all (\<lambda>n. xs ! n = ys ! n) [0 ..< length xs]"
  then have "xs = take (length xs) ys" by (intro nth_equalityI) (auto simp: list_all_iff)
  then show "prefix xs ys" by (metis take_is_prefix)
qed (auto simp: list_all_iff nth_append elim!: prefixE)

lemma prefix_snoc_cases: "prefix xs (y # ys) \<longleftrightarrow> xs = [] \<or> (\<exists>zs. xs = y # zs \<and> prefix zs ys)"
  by (cases xs) auto

lemmas action_kind_defs = imagePullActionKind_def workloadCreateActionKind_def workloadStartActionKind_def
  storageInventoryActionKind_def storageBackupActionKind_def storageRestoreActionKind_def workloadTransitionActionKind_def

text \<open>
  (C4) The journal of an upgrade is resumable exactly when its action kinds are a prefix of one of the four
  orders an upgrade works in: with or without an image pull first, and with or without the three storage steps. The
  check reads from the journal which of the four applies, and never confuses them.
\<close>

theorem upgrade_actions_are_a_prefix:
  "matchUpgradeActionPrefix kinds \<longleftrightarrow> (\<exists>withImage withStorage. prefix kinds (upgradeActionKinds withImage withStorage))"
proof
  assume "matchUpgradeActionPrefix kinds"
  then show "\<exists>withImage withStorage. prefix kinds (upgradeActionKinds withImage withStorage)"
    by (auto simp: matchUpgradeActionPrefix_def Let_def expected_prefix split: if_split_asm)
next
  assume "\<exists>withImage withStorage. prefix kinds (upgradeActionKinds withImage withStorage)"
  then obtain withImage withStorage where "prefix kinds (upgradeActionKinds withImage withStorage)" by blast
  then show "matchUpgradeActionPrefix kinds"
    by (cases withImage; cases withStorage; simp add: upgradeActionKinds_def prefix_snoc_cases; elim disjE exE conjE;
        simp add: matchUpgradeActionPrefix_def upgradeActionKinds_def containsStorageUpgradeAction_def action_kind_defs upt_rec)
qed

section \<open>Transitions and their recorded outcomes\<close>

text \<open>
  The outcome of a transition is recoverable from the journal: the digest that a completed transition leaves behind
  is read back as the outcome it stands for, done or not done, unless the encodings of the two outcomes of this very
  transition are a collision of the hash.
\<close>

theorem transition_outcome_round_trip:
  "completedTransitionResult H (action\<lparr>ac_PostconditionDigest := Some (pc_Digest (workloadTransitionPostcondition H tr satisfied))\<rparr>) tr =
     Inr satisfied \<or>
   collision H (transition_encoding 0 tr (wt_Before tr))
     (transition_encoding 1 tr (if wt_Kind tr = WorkloadTransitionRemove then zero_existing else wt_After tr))"
proof -
  have "transition_encoding 0 tr (wt_Before tr) \<noteq> transition_encoding 1 tr w" for w
    by (simp add: transition_encoding_eq_iff)
  then show ?thesis
    by (auto simp: completedTransitionResult_def workloadTransitionPostcondition_def workloadTransitionDigest_def collision_def)
qed

lemma retained_name: "validWorkloadTransitionString (''maniud-retained-'' @ id_String i)"
proof -
  have "\<forall>c \<in> set (id_String i). in_range 0 0x7F c \<and> of_char c \<noteq> (0 :: nat)"
    unfolding id_String_def using hex_text by blast
  moreover have "\<forall>c \<in> set ''maniud-retained-''. in_range 0 0x7F c \<and> of_char c \<noteq> (0 :: nat)" by (simp add: in_range_def)
  ultimately show ?thesis
    by (auto simp: validWorkloadTransitionString_def contains_nul_def list_ex_iff intro!: utf8_ascii)
qed

text \<open>
  (C28) The transitions of an upgrade and of its restore are accepted by the runtime's guard and fit together. Each starts
  where the one before it ended: stop, rename and remove lead from the running predecessor to nothing, and after a stop and a
  rename the restore leads back, by renaming and starting, to exactly the workload that was running before the upgrade.
\<close>

theorem journeys_fit:
  fixes preparation :: Preparation and coreActions :: nat and discard reverseRename :: bool
  defines "upgrade \<equiv> newUpgradeJourney preparation"
  defines "restore \<equiv> newRestoreJourney upgrade coreActions discard reverseRename"
  assumes "validExistingWorkload (wt_Before (uj_stop upgrade))"
    and "ew_Name (wt_Before (uj_stop upgrade)) \<noteq> ''maniud-retained-'' @ id_String (tx_ID (pr_Transaction preparation))"
  shows "validWorkloadTransition (uj_stop upgrade) \<and> validWorkloadTransition (uj_rename upgrade) \<and>
      validWorkloadTransition (uj_remove upgrade) \<and> validWorkloadTransition (rj_rename restore) \<and>
      validWorkloadTransition (rj_restoreStart restore) \<and>
      wt_Before (uj_rename upgrade) = wt_After (uj_stop upgrade) \<and> wt_Before (uj_remove upgrade) = wt_After (uj_rename upgrade) \<and>
      wt_After (uj_remove upgrade) = zero_existing \<and>
      wt_Before (rj_rename restore) = wt_After (uj_rename upgrade) \<and>
      wt_Before (rj_restoreStart restore) = wt_After (rj_rename restore) \<and>
      wt_After (rj_restoreStart restore) = wt_Before (uj_stop upgrade)"
proof -
  show ?thesis
    using assms(3,4) retained_name unfolding restore_def upgrade_def
    by (auto simp: newUpgradeJourney_def newRestoreJourney_def Let_def validWorkloadTransition_def validWorkloadStop_def
        validWorkloadRename_def validWorkloadRemove_def validWorkloadRestoreStart_def sameExistingWorkloadIdentity_def
        sameExistingWorkloadExceptName_def validExistingWorkload_def)
qed

definition degraded_preparation :: Preparation where
  "degraded_preparation = example_preparation\<lparr>pr_Plan := (pr_Plan example_preparation)\<lparr>pl_Kind := PlanRestore\<rparr>, pr_Workload := plain_workload,
     pr_Transaction := zero_Transaction\<lparr>tx_ID := 5, tx_Kind := TransactionUpgrade, tx_State := TransactionDegraded,
       tx_BaseTransactionID := 4, tx_HasBaseTransaction := True, tx_PredecessorWorkloadID := ''c1''\<rparr>,
     pr_HasTransaction := True, pr_HasApplied := True,
     pr_Applied := zero_AppliedService\<lparr>as_TransactionID := 4, as_Kind := TransactionAdopt, as_WorkloadID := ''c1'', as_ConfigurationDigest := 31\<rparr>\<rparr>"

theorem journeys_fit_witness:
  "validWorkloadTransition (rj_restoreStart (newRestoreJourney (newUpgradeJourney degraded_preparation) 1 False False)) \<and>
   wt_After (rj_restoreStart (newRestoreJourney (newUpgradeJourney degraded_preparation) 1 False False)) =
     wt_Before (uj_stop (newUpgradeJourney degraded_preparation))"
proof -
  have "validExistingWorkload (wt_Before (uj_stop (newUpgradeJourney degraded_preparation)))" by code_simp
  moreover have "ew_Name (wt_Before (uj_stop (newUpgradeJourney degraded_preparation))) \<noteq>
      ''maniud-retained-'' @ id_String (tx_ID (pr_Transaction degraded_preparation))" by code_simp
  ultimately show ?thesis using journeys_fit [of degraded_preparation 1 False False] by blast
qed

section \<open>Applying again\<close>

text \<open>What an observation shows of a workload whose start was proven.\<close>

definition observed_as :: "WorkloadObservation \<Rightarrow> WorkloadEffectEvidence \<Rightarrow> bool" where
  "observed_as observation evidence \<longleftrightarrow> ob_State observation = WorkloadObservationPresent \<and> ob_Running observation \<and>
     ob_ID observation = we_ID evidence \<and> ob_ConfigurationDigest observation = we_ConfigurationDigest evidence \<and>
     ob_StorageDigest observation = we_StorageDigest evidence \<and> ob_RuntimeMounts observation = we_RuntimeMounts evidence \<and>
     ob_ConfigurationMatches observation = we_ConfigurationMatches evidence \<and> ob_Ownership observation = we_Ownership evidence"

text \<open>
  (C25) Applying is idempotent: once a bootstrap or an upgrade has recorded the workload whose start was proven, an apply of the
  same workload on the same runtime that still observes it that way is classified as unchanged.
\<close>

theorem applied_workload_is_unchanged:
  assumes "startedWorkloadMatches H evidence workload (id_String (tx_ID transaction))"
    and "transactionMatches transaction workload execution"
    and "tx_Kind transaction = TransactionBootstrap \<or> tx_Kind transaction = TransactionUpgrade"
    and "observed_as observation evidence"
  shows "classifyNewApply H observation workload execution (appliedServiceRecord transaction (appliedServiceIntent workload evidence)) True =
    Inr PlanUnchanged"
  using assms
  by (auto simp: classifyNewApply_def classifyAppliedWorkload_def observationMatchesApplied_def observationIdentityMatchesApplied_def
      appliedMatchesExecution_def appliedMatchesDesired_def appliedServiceRecord_def appliedServiceIntent_def observed_as_def
      startedWorkloadMatches_def transactionMatches_def expected_ownership_def Let_def)

definition applied_transaction :: Transaction where
  "applied_transaction = zero_Transaction\<lparr>tx_ID := 5, tx_Kind := TransactionBootstrap, tx_State := TransactionSucceeded, tx_Runtime := RuntimeDocker,
     tx_SourceDigest := 11, tx_EffectiveDigest := 12, tx_ExecutionDigest := 41\<rparr>"

definition applied_evidence :: WorkloadEffectEvidence where
  "applied_evidence = (host_created length_hash plain_workload (id_String 5))\<lparr>we_Lifecycle := WorkloadLifecycleRunning\<rparr>"

theorem applied_workload_is_unchanged_witness:
  "classifyNewApply length_hash (host_observe (Some applied_evidence)) plain_workload (pr_Execution example_preparation)
     (appliedServiceRecord applied_transaction (appliedServiceIntent plain_workload applied_evidence)) True = Inr PlanUnchanged"
proof (rule applied_workload_is_unchanged)
  show "startedWorkloadMatches length_hash applied_evidence plain_workload (id_String (tx_ID applied_transaction))" by code_simp
  show "transactionMatches applied_transaction plain_workload (pr_Execution example_preparation)" by code_simp
  show "tx_Kind applied_transaction = TransactionBootstrap \<or> tx_Kind applied_transaction = TransactionUpgrade"
    by (simp add: applied_transaction_def)
  show "observed_as (host_observe (Some applied_evidence)) applied_evidence"
    by (simp add: observed_as_def host_observe_def applied_evidence_def)
qed

section \<open>Recorded work is not repeated\<close>

lemmas observing_probes = pull_effect.probe_calls create_effect.probe_calls start_effect.probe_calls inventory_effect.probe_calls
  backup_effect.probe_calls restore_effect.probe_calls

text \<open>
  (C9) A step that the journal records as completed is never carried out again: whichever step it is and whatever is found when the
  journey is resumed, settling it only probes, and leaves the tables alone.
\<close>

theorem completed_steps_only_observe:
  assumes "ac_State action = ActionStateCompleted"
  shows "performs (\<lambda>c. \<not> mutating c) (settleImagePull po mutation action n) \<and>
    performs (\<lambda>c. \<not> mutating c) (settleWorkloadCreateResult po mutation action n options) \<and>
    performs (\<lambda>c. \<not> mutating c) (settleWorkloadStartResult po mutation action n) \<and>
    performs (\<lambda>c. \<not> mutating c) (settleUpgradeImagePull po mutation action) \<and>
    performs (\<lambda>c. \<not> mutating c) (settleUpgradeTransition po mutation action n tr) \<and>
    performs (\<lambda>c. \<not> mutating c) (settleWorkloadDiscard po mutation action n) \<and>
    performs (\<lambda>c. \<not> mutating c) (settleStorageInventory po mutation action n sources current) \<and>
    performs (\<lambda>c. \<not> mutating c) (settleStorageBackup po mutation action n root m archives capacity) \<and>
    performs (\<lambda>c. \<not> mutating c) (settleStorageRestore po mutation action n publication archives)"
proof -
  have image: "performs (\<lambda>c. \<not> mutating c) (imagePresent po img)" for img
    unfolding imagePresent_def by (intro external_rules) (simp add: mutating_def)
  note defs = settleImagePull_def settleWorkloadCreateResult_def settleWorkloadStartResult_def settleUpgradeImagePull_def
    settleUpgradeTransition_def settleWorkloadDiscard_def settleStorageInventory_def settleStorageBackup_def settleStorageRestore_def
    completedWorkloadCreateResult_def verifyCompletedWorkloadCreate_def completedWorkloadStartResult_def completedUpgradeImagePull_def
    verifyCompletedRuntimeEffect_def completedStorageInventory_def completedStorageBackup_def completedStorageRestore_def
  show ?thesis
    by (intro conjI; simp only: defs Let_def assms simp_thms if_True; intro external_rules observing_probes image)
      (auto simp: mutating_def intro!: external_rules split: prod.split)
qed

theorem completed_steps_only_observe_witness:
  "performs (\<lambda>c. \<not> mutating c) (settleWorkloadCreateResult (host_ports (\<lambda>_. 5) plain_workload) host_mutation
     (zero_Action\<lparr>ac_State := ActionStateCompleted\<rparr>) 2 defaultWorkloadCreateOptions)"
  using completed_steps_only_observe [of "zero_Action\<lparr>ac_State := ActionStateCompleted\<rparr>" "host_ports (\<lambda>_. 5) plain_workload" host_mutation 2
    defaultWorkloadCreateOptions] by simp

lemma fresh_not_repeated:
  assumes "\<And>r e' t. run_state (runRuntimeEffect j i intent eff e) s = ((r, e'), t) \<Longrightarrow> extends P (aw_trace s) (aw_trace t)"
  shows "extends P (aw_trace s) (aw_trace (snd (run_state (run_fresh j i intent eff e) s)))"
proof -
  obtain r e' t where run: "run_state (runRuntimeEffect j i intent eff e) s = ((r, e'), t)" by (metis surj_pair)
  with assms [OF run] show ?thesis by (simp add: run_fresh_def)
qed

text \<open>
  (C3) An interrupted creation, start or transition is repeated only if the runtime says that it did not happen. With the action
  recorded beyond its intent, resuming it makes a mutating call only if the probe reports the workload as missing (creation), as missing
  or created but not started (start), or as something else than the state after the transition; in particular a
  workload that exists is never created a second time.
\<close>

theorem interrupted_effects_not_repeated:
  assumes ok: "journal_ok (sw_db s)"
    and row: "row \<in> set (db_actions (sw_db s))" "action_is i n row" "jr_state row \<noteq> ActionStateIntent"
  shows "((case fst (po_ProbeCreatedWorkload po w (id_String i) '''' (aw_rt s)) of
        Inr probe \<Rightarrow> wp_State probe = WorkloadEffectProbeMissing | Inl _ \<Rightarrow> False) \<or>
      extends (\<lambda>c _. \<not> mutating c) (aw_trace s) (aw_trace (snd (run_state (runWorkloadCreate po j i n w options) s)))) \<and>
    ((case fst (po_ProbeStartedWorkload po w (id_String i) (aw_rt s)) of
        Inr probe \<Rightarrow> wp_State probe = WorkloadEffectProbeMissing \<or> we_Lifecycle (wp_Workload probe) = WorkloadLifecycleCreated | Inl _ \<Rightarrow> False) \<or>
      extends (\<lambda>c _. \<not> mutating c) (aw_trace s) (aw_trace (snd (run_state (runWorkloadStart po j i n w) s)))) \<and>
    ((case fst (po_ProbeWorkloadTransition po tr (aw_rt s)) of
        Inr probe \<Rightarrow> tp_State probe = WorkloadEffectProbeObserved \<and> (tp_Workload probe \<noteq> wt_After tr \<or> wt_Kind tr = WorkloadTransitionRemove)
      | Inl _ \<Rightarrow> False) \<or>
      extends (\<lambda>c _. \<not> mutating c) (aw_trace s) (aw_trace (snd (run_state (runWorkloadTransition po j i n tr) s))))"
    (is "(?missing \<or> ?C) \<and> (?unstarted \<or> ?S) \<and> (?unmoved \<or> ?T)")
proof (intro conjI)
  note split = sum.split_asm WorkloadEffectProbeState.split_asm if_split_asm prod.split_asm
  have "?C" if "\<not> ?missing"
  proof -
    have sat: "pc_Satisfied p" if "aw_rt v = aw_rt s" "run_state (ef_Probe (workloadCreateEffect po w (id_String i) options) '''') v = ((Inr p, e), u)"
      for v p e u
      using that \<open>\<not> ?missing\<close>
      by (auto simp: workloadCreateEffect_def workloadCreate_Probe_def simp del: run_state_bind elim!: run_bindE dest!: external_run split: split)
    show ?thesis unfolding runWorkloadCreate_def Let_def
      by (simp, intro impI fresh_not_repeated create_effect.satisfied_not_repeated [OF ok row(1) _ row(3) sat])
        (use row(2) in \<open>auto simp: workloadCreateIntent_def workloadIntent_def\<close>)
  qed
  then show "?missing \<or> ?C" by blast
  have "?S" if "\<not> ?unstarted"
  proof -
    have sat: "pc_Satisfied p" if "aw_rt v = aw_rt s" "run_state (ef_Probe (workloadStartEffect po w (id_String i)) ()) v = ((Inr p, e), u)"
      for v p e u
      using that \<open>\<not> ?unstarted\<close>
      by (auto simp: workloadStartEffect_def workloadStart_Probe_def createdWorkloadMatches_def simp del: run_state_bind elim!: run_bindE
          dest!: external_run split: split)
    show ?thesis unfolding runWorkloadStart_def Let_def
      by (simp, intro impI fresh_not_repeated start_effect.satisfied_not_repeated [OF ok row(1) _ row(3) sat])
        (use row(2) in \<open>auto simp: workloadStartIntent_def workloadIntent_def\<close>)
  qed
  then show "?unstarted \<or> ?S" by blast
  have "?T" if "\<not> ?unmoved"
  proof -
    have sat: "pc_Satisfied p" if "aw_rt v = aw_rt s" "run_state (ef_Probe (workloadTransitionEffect po tr) False) v = ((Inr p, e), u)"
      for v p e u
      using that \<open>\<not> ?unmoved\<close>
      by (auto simp: workloadTransitionEffect_def workloadTransition_Probe_def observedWorkloadTransition_def Let_def simp del: run_state_bind
          elim!: run_bindE dest!: external_run split: split)
    show ?thesis unfolding runWorkloadTransition_def
      by (simp, intro impI fresh_not_repeated transition_effect.satisfied_not_repeated [OF ok row(1) _ row(3) sat])
        (use row(2) in \<open>auto simp: workloadTransitionIntent_def\<close>)
  qed
  then show "?unmoved \<or> ?T" by blast
qed

text \<open>A bootstrap that was interrupted after its creation, on a host that has the container.\<close>

definition interrupted_row :: action_row where
  "interrupted_row = \<lparr>jr_tx = 5, jr_sequence = 1, jr_kind = workloadCreateActionKind, jr_state = ActionStateEffectOutcomeUnknown,
     jr_intent = 5, jr_post = None\<rparr>"

definition interrupted_db :: db where
  "interrupted_db = active_example\<lparr>db_actions := [interrupted_row]\<rparr>"

definition interrupted_world :: "host app_world" where
  "interrupted_world = quiet_app interrupted_db
     \<lparr>ho_image = True, ho_containers = [host_created (\<lambda>_. 5) plain_workload (id_String 5)]\<rparr>"

theorem interrupted_effects_not_repeated_witness:
  "extends (\<lambda>c _. \<not> mutating c) [] (aw_trace (snd (run_state (runWorkloadCreate (host_ports (\<lambda>_. 5) plain_workload) host_journal 5 1
     plain_workload defaultWorkloadCreateOptions) interrupted_world)))"
proof -
  have "journal_ok interrupted_db" by code_simp
  moreover have "interrupted_row \<in> set (db_actions interrupted_db)" "action_is 5 1 interrupted_row" "jr_state interrupted_row \<noteq> ActionStateIntent"
    by code_simp+
  moreover have "\<not> (case fst (po_ProbeCreatedWorkload (host_ports (\<lambda>_. 5) plain_workload) plain_workload (id_String 5) '''' (aw_rt interrupted_world)) of
        Inr probe \<Rightarrow> wp_State probe = WorkloadEffectProbeMissing | Inl _ \<Rightarrow> False)" by code_simp
  ultimately show ?thesis
    using interrupted_effects_not_repeated [of interrupted_world interrupted_row 5 1 "host_ports (\<lambda>_. 5) plain_workload" plain_workload host_journal
        defaultWorkloadCreateOptions]
    by (auto simp: interrupted_world_def quiet_app_def)
qed

end
