(* ===== verification/Progress.thy ===== *)
theory Progress
  imports Journeys
begin

text \<open>
  What happens when nothing fails: with a live context, an answering database engine and a held lease, the
  journal operations of an interrupted effect succeed, and the effect is brought to its end.
\<close>

section \<open>A store that answers\<close>

definition reliable :: "'z store_world_scheme \<Rightarrow> bool" where
  "reliable s \<longleftrightarrow> (\<forall>n. \<not> in_ctx (sw_env s n) \<and> in_valid (sw_env s n) \<and> in_sql (sw_env s n) = None \<and> in_rows (sw_env s n))"

definition ticked :: "'z store_world_scheme \<Rightarrow> 'z store_world_scheme" where
  "ticked s = s\<lparr>sw_tick := Suc (sw_tick s)\<rparr>"

lemma ticked_simps [simp]:
  "sw_db (ticked s) = sw_db s" "sw_env (ticked s) = sw_env s" "store_world.more (ticked s) = store_world.more s"
  "reliable (ticked s) = reliable s" "reliable (s\<lparr>sw_db := d\<rparr>) = reliable s"
  by (simp_all add: ticked_def reliable_def)

lemma reliable_runs [simp]:
  assumes "reliable s"
  shows "run_state ctx_Err s = (False, ticked s)" "run_state files_valid s = (True, ticked s)"
    "run_state sql_begin s = (Inr (sw_db s), ticked s)" "run_state (sql_run f d) s = (f d, ticked s)"
    "run_state (RowsAffected n) s = (Some n, ticked s)" "run_state (sql_commit d) s = (None, (ticked s)\<lparr>sw_db := d\<rparr>)"
  using assms
  by (simp_all add: reliable_def ticked_def ctx_Err_def files_valid_def sql_begin_def sql_run_def RowsAffected_def sql_commit_def
      run_observe run_current_db set_db_def)

text \<open>The final world differs from the first in its tables and its clock only.\<close>

definition calmly :: "('z, 'a) prog \<Rightarrow> 'z store_world_scheme \<Rightarrow> 'a \<Rightarrow> db \<Rightarrow> bool" where
  "calmly m s x d \<longleftrightarrow> (\<exists>t. run_state m s = (x, t) \<and> sw_db t = d \<and> sw_env t = sw_env s \<and> store_world.more t = store_world.more s)"

lemma at_most_one: "distinct (map f xs) \<Longrightarrow> \<forall>x \<in> set xs. f x = c \<Longrightarrow> length xs \<le> 1"
  by (cases xs; cases "tl xs") auto

lemma held_once: "db_constraints d \<Longrightarrow> holds d l \<Longrightarrow> length (filter (lease_is (wl_serviceID l) (wl_epoch l) (wl_owner l)) (db_leases d)) = 1"
proof -
  assume c: "db_constraints d" and h: "holds d l"
  let ?P = "lease_is (wl_serviceID l) (wl_epoch l) (wl_owner l)"
  have "distinct (map lr_service (db_leases d))" using c by (simp add: db_constraints_def lease_constraints_def)
  then have "distinct (map lr_service (filter ?P (db_leases d)))" by (rule distinct_map_filter)
  moreover have "\<forall>x \<in> set (filter ?P (db_leases d)). lr_service x = wl_serviceID l" by (simp add: lease_is_def)
  ultimately have "length (filter ?P (db_leases d)) \<le> 1"
    by (rule at_most_one)
  moreover have "filter ?P (db_leases d) \<noteq> []" using h by (auto simp: lease_held_def list_ex_iff filter_empty_conv)
  ultimately show ?thesis by (cases "filter ?P (db_leases d)") auto
qed

lemma proven_lease:
  assumes "reliable s" "db_constraints d" "holds d l"
  shows "run_state (proveWriterLease d l) s = (None, ticked (ticked s))"
proof -
  have "wl_epoch l > 0" using assms(2,3)
    by (auto simp: db_constraints_def lease_constraints_def lease_held_def list_ex_iff list_all_iff lease_is_def)
  then show ?thesis using assms held_once [OF assms(2,3)]
    by (simp add: proveWriterLease_def sql_touch_lease_def checked_def requireWriterLeaseResult_def)
qed

lemma fenced_calmly:
  assumes r: "reliable s" and op: "sl_open lock" and c: "db_constraints (sw_db s)" "db_constraints d"
    and h: "holds (sw_db s) (sl_lease lock)" "holds d (sl_lease lock)"
    and run: "\<And>u. reliable u \<Longrightarrow> calmly (operation (sw_db s) (sl_lease lock)) u (Inr (d, x)) (sw_db u)"
  shows "calmly (withFencedWrite lock operation) s (Inr x) d"
proof -
  let ?u = "ticked (ticked (ticked (ticked (ticked s))))"
  obtain v where v: "run_state (operation (sw_db s) (sl_lease lock)) ?u = (Inr (d, x), v)" "sw_env v = sw_env s"
      "store_world.more v = store_world.more s" "sw_db v = sw_db s"
    using run [of ?u] r by (auto simp: calmly_def)
  have "reliable v" using r v(2) by (simp add: reliable_def)
  with r op c h v show ?thesis
    by (simp add: calmly_def withFencedWrite_def lock_Valid_def proven_lease classifyWriterLeaseResult_def)
qed

section \<open>Recording and completing an interrupted action\<close>

lemma action_once:
  assumes "db_constraints d" "row \<in> set (db_actions d)" "action_is i n row"
  shows "filter (action_is i n) (db_actions d) = [row]"
proof -
  let ?xs = "filter (action_is i n) (db_actions d)"
  have "distinct (map (\<lambda>a. (jr_tx a, jr_sequence a)) ?xs)" by (rule distinct_map_filter [OF constraint_parts(3) [OF assms(1)]])
  moreover have "\<forall>x \<in> set ?xs. (jr_tx x, jr_sequence x) = (i, n)" by (simp add: action_is_def)
  ultimately have "length ?xs \<le> 1" by (rule at_most_one)
  moreover have "row \<in> set ?xs" using assms by simp
  ultimately show ?thesis by (cases ?xs; cases "tl ?xs") auto
qed

lemma readable_row:
  assumes "db_constraints d" "row \<in> set (db_actions d)"
  shows "\<exists>a. action_of_row row = Some a"
proof -
  have check: "action_check row" using assms by (simp add: db_constraints_def action_constraints_def list_all_iff)
  then have "validActionKind (jr_kind row)"
    by (cases "jr_kind row") (auto simp: action_check_def sql_action_kind_def validActionKind_def)
  then show ?thesis using check by (auto simp: action_of_row_def action_check_def validAction_def Let_def zero_Action_def)
qed

lemma record_calmly:
  assumes r: "reliable s" and c: "db_constraints (sw_db s)" and op: "sl_open lock" and h: "holds (sw_db s) (sl_lease lock)"
    and u: "unresolved_transaction_exists (sw_db s) i (wl_serviceID (sl_lease lock))"
    and row: "row \<in> set (db_actions (sw_db s))" "action_is i (an_Sequence intent) row" "jr_kind row = an_Kind intent"
      "jr_intent row = an_IntentDigest intent" "action_of_row row = Some a"
    and valid: "validActionIntent intent"
  shows "calmly (RecordActionIntent lock i intent) s (Inr a) (sw_db s)"
proof -
  note once = action_once [OF c row(1,2)] and f = action_of_row_fields [OF row(5)]
  have "calmly (recordActionIntent i intent (sw_db s) (sl_lease lock)) v (Inr (sw_db s, ())) (sw_db v)" if "reliable v"
    for v :: "'a store_world_scheme"
    using that c h u once row f
    by (simp add: calmly_def recordActionIntent_def actionInTransaction_def scanAction_def query_row_def reuseActionIntent_def exec_mutation_def
        sql_reuse_action_def checked_def requireJournalMutation_def with_unit_def)
  from fenced_calmly [where operation = "recordActionIntent i intent", OF r op c c h h this] obtain t where
    "run_state (withFencedWrite lock (recordActionIntent i intent)) s = (Inr (), t)" "sw_db t = sw_db s" "sw_env t = sw_env s"
    "store_world.more t = store_world.more s" by (auto simp: calmly_def)
  moreover from this(3) r have "reliable t" by (simp add: reliable_def)
  ultimately show ?thesis using valid once row(5)
    by (simp add: calmly_def RecordActionIntent_def lock_action_def run_current_db scanAction_def query_row_def)
qed

lemma complete_calmly:
  assumes r: "reliable s" and c: "db_constraints (sw_db s)" and op: "sl_open lock" and h: "holds (sw_db s) (sl_lease lock)"
    and u: "unresolved_transaction_exists (sw_db s) i (wl_serviceID (sl_lease lock))"
    and row: "row \<in> set (db_actions (sw_db s))" "action_is i n row" "jr_state row = ActionStateEffectOutcomeUnknown"
      "action_of_row row = Some a" and n: "n > 0"
  shows "calmly (CompleteAction lock i n p) s (Inr (a\<lparr>ac_State := ActionStateCompleted, ac_PostconditionDigest := Some p\<rparr>))
    ((sw_db s)\<lparr>db_actions := map (\<lambda>b. if action_is i n b then b\<lparr>jr_state := ActionStateCompleted, jr_post := Some p\<rparr> else b) (db_actions (sw_db s))\<rparr>)"
proof -
  let ?change = "\<lambda>b. b\<lparr>jr_state := ActionStateCompleted, jr_post := Some p\<rparr>"
  let ?d = "(sw_db s)\<lparr>db_actions := map (\<lambda>b. if action_is i n b then ?change b else b) (db_actions (sw_db s))\<rparr>"
  let ?op = "update_body (complete_target i n p) ?change i"
  note once = action_once [OF c row(1,2)] and f = action_of_row_fields [OF row(4)]
  have only: "b = row" if "b \<in> set (db_actions (sw_db s))" "action_is i n b" for b
    by (rule action_unique [OF c that(1) row(1) that(2) row(2)])
  have target: "map (\<lambda>b. if complete_target i n p b then ?change b else b) (db_actions (sw_db s)) = db_actions ?d"
    using only row(3) by (auto simp: complete_target_def)
  have filter: "filter (complete_target i n p) (db_actions (sw_db s)) = [row]"
  proof -
    have "filter (complete_target i n p) (db_actions (sw_db s)) = filter (action_is i n) (db_actions (sw_db s))"
      using only row(3) by (intro filter_cong) (auto simp: complete_target_def)
    with once show ?thesis by simp
  qed
  have keys: "map (\<lambda>a. (jr_tx a, jr_sequence a)) (db_actions ?d) = map (\<lambda>a. (jr_tx a, jr_sequence a)) (db_actions (sw_db s))"
    by (simp add: comp_def if_distrib cong: if_cong)
  have c': "db_constraints ?d"
  proof -
    have "lease_constraints ?d = lease_constraints (sw_db s)" "transaction_constraints ?d = transaction_constraints (sw_db s)"
      "applied_constraints ?d = applied_constraints (sw_db s)" "backup_constraints ?d = backup_constraints (sw_db s)"
      by (simp_all add: lease_constraints_def transaction_constraints_def applied_constraints_def backup_constraints_def
          lease_exists_def transaction_exists_def cong: list.pred_cong option.case_cong)
    moreover have "action_constraints ?d"
    proof -
      have "distinct (map (\<lambda>a. (jr_tx a, jr_sequence a)) (db_actions ?d))" unfolding keys by (rule constraint_parts(3) [OF c])
      moreover have "list_all action_check (db_actions ?d) \<and> list_all (\<lambda>a. jr_tx a \<in> set (map tr_id (db_transactions ?d))) (db_actions ?d)"
        using c by (auto simp: db_constraints_def action_constraints_def list_all_iff action_check_def)
      ultimately show ?thesis by (simp add: action_constraints_def)
    qed
    ultimately show ?thesis using c by (simp add: db_constraints_def)
  qed
  have h': "holds ?d (sl_lease lock)" using h by (simp add: lease_held_def)
  have "calmly (?op (sw_db s) (sl_lease lock)) v (Inr (?d, ())) (sw_db v)" if "reliable v" for v :: "'a store_world_scheme"
    using that h u c' filter
    by (simp add: calmly_def update_body_def exec_mutation_def sql_update_action_def checked_def target requireJournalMutation_def with_unit_def)
  from fenced_calmly [where operation = ?op, OF r op c c' h h' this] obtain t where
    "run_state (withFencedWrite lock ?op) s = (Inr (), t)" "sw_db t = ?d" "sw_env t = sw_env s"
    "store_world.more t = store_world.more s" by (auto simp: calmly_def)
  moreover from this(3) r have "reliable t" by (simp add: reliable_def)
  moreover have "filter (action_is i n) (db_actions ?d) = [?change row]"
    by (rule action_once [OF c']) (use row(1,2) in \<open>auto simp: action_is_def\<close>)
  moreover have "action_of_row (?change row) = Some (a\<lparr>ac_State := ActionStateCompleted, ac_PostconditionDigest := Some p\<rparr>)"
    using row(3,4) by (auto simp: action_of_row_def Let_def validAction_def zero_Action_def split: if_split_asm)
  ultimately show ?thesis using n
    by (simp add: calmly_def CompleteAction_def updateAction_def lock_action_def run_current_db scanAction_def query_row_def)
qed

section \<open>An interrupted effect is brought to its end\<close>

lemma performs_kept: "performs K m \<Longrightarrow> run_state m s = (x, t) \<Longrightarrow> reliable s \<Longrightarrow> reliable t \<and> sw_db t = sw_db s"
  by (drule (1) performsD) (simp add: reliable_def)

lemma calmly_run:
  assumes "calmly m s x d" "reliable s"
  obtains t where "run_state m s = (x, t)" "sw_db t = d" "reliable t" "store_world.more t = store_world.more s"
  using assms unfolding calmly_def reliable_def by metis

lemma same_more_rt: "store_world.more w = store_world.more v \<Longrightarrow> aw_rt w = aw_rt v" for w v :: "'r app_world"
  by (cases w; cases v) simp

lemma record_observed:
  assumes "run_state (RecordActionIntent (oj_lock j) i intent) s = (Inr a, u)" "reliable u"
  shows "\<exists>t. run_state (observed_RecordActionIntent j i intent) s = (Inr a, t) \<and> reliable t \<and> sw_db t = sw_db u \<and> aw_rt t = aw_rt u"
  using assms
  by (auto simp: observed_RecordActionIntent_def set_action_def modify_world_def journal_publish_def tryPublish_def reliable_def)

lemma complete_observed:
  assumes "run_state (CompleteAction (oj_lock j) i n p) s = (Inr a, u)"
  shows "\<exists>t. run_state (observed_CompleteAction j i n p) s = (Inr a, t) \<and> sw_db t = sw_db u"
  using assms
  by (auto simp: observed_CompleteAction_def set_action_def modify_world_def journal_publish_def tryPublish_def journal_satisfied_def)

context runtime_effect
begin

text \<open>
  The action stands with an unknown outcome under its own intent, the lease is held, and the probe proves the
  effect: then running the effect again returns the proof and completes the action.
\<close>

lemma run_progress:
  assumes r: "reliable s" and c: "db_constraints (sw_db s)" and op: "sl_open (oj_lock j)" and J: "journaled (oj_lock j) i intent (sw_db s)"
    and valid: "validActionIntent intent"
    and probe: "\<And>w. aw_rt w = aw_rt s \<Longrightarrow> \<exists>e' v. run_state (ef_Probe eff e) w = ((Inr pc, e'), v)"
    and pc: "pc_Satisfied pc" "pc_Digest pc \<noteq> 0"
  shows "\<exists>e' t. run_state (runRuntimeEffect j i intent eff e) s = (((pc, None), e'), t) \<and>
    (\<exists>row \<in> set (db_actions (sw_db t)). action_is i (an_Sequence intent) row \<and> jr_state row = ActionStateCompleted \<and>
       jr_post row = Some (pc_Digest pc))"
proof -
  let ?n = "an_Sequence intent"
  from J obtain row where h: "holds (sw_db s) (sl_lease (oj_lock j))"
    and u: "unresolved_transaction_exists (sw_db s) i (wl_serviceID (sl_lease (oj_lock j)))"
    and row: "row \<in> set (db_actions (sw_db s))" "action_is i ?n row" "jr_kind row = an_Kind intent" "jr_intent row = an_IntentDigest intent"
      "jr_state row = ActionStateEffectOutcomeUnknown" by (auto simp: journaled_def)
  obtain a where a: "action_of_row row = Some a" using readable_row [OF c row(1)] by blast
  note f = action_of_row_fields [OF a]
  have match: "actionMatchesIntent a i intent" "ac_State a = ActionStateEffectOutcomeUnknown"
    using f row a by (auto simp: actionMatchesIntent_def action_is_def action_of_row_def Let_def split: if_split_asm)
  obtain t1 where t1: "run_state (RecordActionIntent (oj_lock j) i intent) s = (Inr a, t1)" "sw_db t1 = sw_db s" "reliable t1"
      "store_world.more t1 = store_world.more s"
    using calmly_run [OF record_calmly [OF r c op h u row(1-4) a valid] r] by blast
  obtain t3 where recorded: "run_state (observed_RecordActionIntent j i intent) s = (Inr a, t3)"
    and k3: "reliable t3" "sw_db t3 = sw_db s" "aw_rt t3 = aw_rt s"
    using record_observed [OF t1(1,3)] t1(2) same_more_rt [OF t1(4)] by auto
  obtain e1 t4 where t4: "run_state (ef_Probe eff e) t3 = ((Inr pc, e1), t4)" using probe [OF k3(3)] by blast
  obtain v t5 where t5: "run_state (publishEffectPostcondition j i ?n pc) t4 = (v, t5)" by (metis surj_pair)
  have k5: "reliable t5" "sw_db t5 = sw_db s"
    using performs_kept [OF probe_calls t4 k3(1)] performs_kept [OF performs_event(3) t5] k3 by auto
  let ?a = "a\<lparr>ac_State := ActionStateCompleted, ac_PostconditionDigest := Some (pc_Digest pc)\<rparr>"
  have n: "?n > 0" using valid by (simp add: validActionIntent_def)
  from complete_calmly [OF k5(1), unfolded k5(2), OF c op h u row(1,2,5) a n] k5(1)
  obtain t6 where t6: "run_state (CompleteAction (oj_lock j) i ?n (pc_Digest pc)) t5 = (Inr ?a, t6)"
    and db: "sw_db t6 = (sw_db s)\<lparr>db_actions := map (\<lambda>b. if action_is i ?n b
        then b\<lparr>jr_state := ActionStateCompleted, jr_post := Some (pc_Digest pc)\<rparr> else b) (db_actions (sw_db s))\<rparr>"
    by (rule calmly_run)
  obtain t where t: "run_state (observed_CompleteAction j i ?n (pc_Digest pc)) t5 = (Inr ?a, t)" "sw_db t = sw_db t6"
    using complete_observed [OF t6] by blast
  have "completedActionMatches ?a i ?n (pc_Digest pc)" using f row(2) by (simp add: completedActionMatches_def action_is_def)
  then have "run_state (completeRuntimeEffect j i ?n pc None) t5 = ((pc, None), t)" using t(1) pc by (simp add: completeRuntimeEffect_def)
  then have "run_state (recoverRuntimeEffect j i ?n eff e) t3 = (((pc, None), e1), t)"
    using t4 t5 pc by (simp add: recoverRuntimeEffect_def)
  with recorded match have "run_state (runRuntimeEffect j i intent eff e) s = (((pc, None), e1), t)" by (simp add: runRuntimeEffect_def)
  moreover have "row\<lparr>jr_state := ActionStateCompleted, jr_post := Some (pc_Digest pc)\<rparr> \<in> set (db_actions (sw_db t))"
    using row(1,2) t(2) db by auto
  ultimately show ?thesis using row(2)
    by (intro exI [of _ e1] exI [of _ t] conjI bexI [of _ "row\<lparr>jr_state := ActionStateCompleted, jr_post := Some (pc_Digest pc)\<rparr>"])
      (simp_all add: action_is_def)
qed

end

text \<open>
  (C12) Resuming makes progress: if a creation was interrupted after its journal entry was marked, the lease is held, nothing in the
  store fails and the runtime shows the created workload, then running the creation again does return success, with the digest of
  this workload and its storage, and the action is completed with that digest. No number of earlier interruptions can prevent it.
\<close>

theorem interrupted_creation_completes:
  assumes "reliable s" "journal_ok (sw_db s)" "sl_open (oj_lock j)" "n > 0" "i \<noteq> 0" "validWorkloadEffect po w"
    and J: "journaled (oj_lock j) i (workloadCreateIntent (po_hash po) n w (id_String i)) (sw_db s)"
    and probe: "fst (po_ProbeCreatedWorkload po w (id_String i) '''' (aw_rt s)) = Inr probe" "wp_State probe = WorkloadEffectProbeObserved"
      "createdWorkloadMatches (po_hash po) (wp_Workload probe) w (id_String i) ''''"
    and digest: "pd = workloadObservedEffectDigest (po_hash po) 1 workloadCreateActionKind w (id_String i) (we_ID (wp_Workload probe))
        (we_StorageDigest (wp_Workload probe))" "pd \<noteq> 0"
  shows "\<exists>t. run_state (runWorkloadCreate po j i n w options) s = ((\<lparr>pc_Digest = pd, pc_Satisfied = True\<rparr>, None), t) \<and>
    (\<exists>row \<in> set (db_actions (sw_db t)). action_is i n row \<and> jr_state row = ActionStateCompleted \<and> jr_post row = Some pd)"
proof -
  let ?intent = "workloadCreateIntent (po_hash po) n w (id_String i)" and ?eff = "workloadCreateEffect po w (id_String i) options"
  let ?pc = "\<lparr>pc_Digest = pd, pc_Satisfied = True\<rparr>"
  have valid: "validActionIntent ?intent"
    using assms(4) by (simp add: workloadCreateIntent_def workloadIntent_def validActionIntent_def validActionKind_def workloadCreateActionKind_def
        lowercaseAlphaNumeric_def in_range_def)
  have prob: "\<exists>e' v. run_state (ef_Probe ?eff '''') u = ((Inr ?pc, e'), v)" if "aw_rt u = aw_rt s" for u
    using that probe digest(1)
    by (cases "po_ProbeCreatedWorkload po w (id_String i) '''' (aw_rt s)")
      (simp add: workloadCreateEffect_def workloadCreate_Probe_def external_def)
  have "db_constraints (sw_db s)" using assms(2) by (simp add: journal_ok_def)
  from create_effect.run_progress [OF assms(1) this assms(3) J valid prob] digest(2)
  obtain e' t where run: "run_state (runRuntimeEffect j i ?intent ?eff '''') s = (((?pc, None), e'), t)"
    and row: "\<exists>row \<in> set (db_actions (sw_db t)). action_is i (an_Sequence ?intent) row \<and> jr_state row = ActionStateCompleted \<and> jr_post row = Some pd"
    by auto
  have "run_state (runWorkloadCreate po j i n w options) s = ((?pc, None), t)"
    using assms(4-6) run by (simp add: runWorkloadCreate_def run_fresh_def Let_def)
  with row show ?thesis by (simp add: workloadCreateIntent_def workloadIntent_def)
qed

theorem interrupted_creation_completes_witness:
  "\<exists>t. run_state (runWorkloadCreate (host_ports (\<lambda>_. 5) plain_workload) host_journal 5 1 plain_workload defaultWorkloadCreateOptions) interrupted_world =
      ((\<lparr>pc_Digest = 5, pc_Satisfied = True\<rparr>, None), t) \<and>
    (\<exists>row \<in> set (db_actions (sw_db t)). action_is 5 1 row \<and> jr_state row = ActionStateCompleted \<and> jr_post row = Some 5)"
proof (rule interrupted_creation_completes)
  let ?c = "host_created (\<lambda>_. 5) plain_workload (id_String 5)" and ?po = "host_ports (\<lambda>_. 5) plain_workload"
  show "reliable interrupted_world" by (simp add: reliable_def interrupted_world_def quiet_app_def quiet_def)
  show "journal_ok (sw_db interrupted_world)" by code_simp
  show "sl_open (oj_lock host_journal)" by (simp add: host_journal_def example_lock_def)
  show "validWorkloadEffect ?po plain_workload" by code_simp
  have "an_IntentDigest (workloadCreateIntent (\<lambda>_. 5) 1 plain_workload (id_String 5)) = 5"
    by (simp add: workloadCreateIntent_def workloadIntent_def workloadEffectDigest_def)
  then show "journaled (oj_lock host_journal) 5 (workloadCreateIntent (po_hash ?po) 1 plain_workload (id_String 5)) (sw_db interrupted_world)"
    by (simp add: journaled_def host_journal_def host_ports_def interrupted_world_def quiet_app_def interrupted_db_def interrupted_row_def
        active_example_def active_row_def lease_example_def example_lock_def lease_held_def lease_is_def unresolved_transaction_exists_def
        transaction_row_def unresolved_def action_is_def workloadCreateIntent_def workloadIntent_def)
  show "fst (po_ProbeCreatedWorkload ?po plain_workload (id_String 5) '''' (aw_rt interrupted_world)) =
      Inr \<lparr>wp_State = WorkloadEffectProbeObserved, wp_Workload = ?c\<rparr>"
    by (simp add: host_ports_def interrupted_world_def quiet_app_def host_probe_def named_def host_created_def)
  show "createdWorkloadMatches (po_hash ?po) (wp_Workload \<lparr>wp_State = WorkloadEffectProbeObserved, wp_Workload = ?c\<rparr>) plain_workload (id_String 5) ''''"
    by code_simp
qed (simp_all add: workloadObservedEffectDigest_def host_ports_def)

end
