(* ===== verification/Interrupted.thy ===== *)
theory Interrupted
  imports Progress
begin

text \<open>
  Interruptions that the journeys do not recover from, and what they leave alone. The statements describe the
  code as it is: an error that every later apply meets again, with nothing changed.
\<close>

section \<open>An upgrade with storage after the predecessor was renamed\<close>

lemma unmatched_stop:
  assumes "action \<noteq> zero_Action" "ac_Kind action = storageInventoryActionKind"
  shows "settleUpgradeTransition po mutation action n (uj_stop (newUpgradeJourney p)) = State_Monad.return (False, False, Some ErrConflictingState)"
  using assms
  by (simp add: settleUpgradeTransition_def actionMatchesExpected_def workloadTransitionIntent_def newUpgradeJourney_def Let_def action_kind_defs)


text \<open>An upgrade that was interrupted when its predecessor had been renamed, and a bootstrap whose creation failed.\<close>

definition renamed_mutation :: boundMutation where
  "renamed_mutation = host_mutation\<lparr>bm_preparation := degraded_preparation\<lparr>
     pr_Plan := (pr_Plan degraded_preparation)\<lparr>pl_Kind := PlanResume, pl_Observation := host_observe None\<rparr>,
     pr_Transaction := (pr_Transaction degraded_preparation)\<lparr>tx_State := TransactionActive\<rparr>,
     pr_Actions := [settled 1 storageInventoryActionKind 61 62, settled 2 ''workload.stop'' 63 64, settled 3 storageBackupActionKind 65 66,
       settled 4 ''workload.rename'' 67 68]\<rparr>\<rparr>"


section \<open>A bootstrap whose creation failed\<close>


definition failed_creation :: Action where
  "failed_creation = settled 1 workloadCreateActionKind 247
     (workloadEffectDigest length_hash 2 workloadCreateActionKind plain_workload (id_String 5) '''')"

definition failed_mutation :: boundMutation where
  "failed_mutation = finished_mutation\<lparr>bm_preparation := (bm_preparation finished_mutation)\<lparr>pr_Actions := [failed_creation]\<rparr>\<rparr>"


end
