(* ===== verification/JsonText.thy ===== *)
theory JsonText
  imports StorageEffects
begin

text \<open>
  JSON strings as the standard library's \<open>encoding/json\<close> writes and reads them, byte by byte, and the lemma that a valid UTF-8 string is
  read back as it was.
\<close>

section \<open>Runes\<close>

text \<open>\<open>utf8.DecodeRune\<close>: the number of bytes of the first rune, zero where the code reports an invalid encoding.\<close>

definition rune_size :: "string \<Rightarrow> nat" where
  "rune_size s = (case s of [] \<Rightarrow> 0 | a # s \<Rightarrow>
     if in_range 0 0x7F a then 1
     else if in_range 0xC2 0xDF a then (case s of b # _ \<Rightarrow> if in_range 0x80 0xBF b then 2 else 0 | _ \<Rightarrow> 0)
     else if in_range 0xE0 0xEF a
       then (case s of b # c # _ \<Rightarrow>
               if (if in_range 0xE0 0xE0 a then in_range 0xA0 0xBF b
                   else if in_range 0xED 0xED a then in_range 0x80 0x9F b
                   else in_range 0x80 0xBF b) \<and> in_range 0x80 0xBF c then 3 else 0
             | _ \<Rightarrow> 0)
     else if in_range 0xF0 0xF4 a
       then (case s of b # c # d # _ \<Rightarrow>
               if (if in_range 0xF0 0xF0 a then in_range 0x90 0xBF b
                   else if in_range 0xF4 0xF4 a then in_range 0x80 0x8F b
                   else in_range 0x80 0xBF b) \<and> in_range 0x80 0xBF c \<and> in_range 0x80 0xBF d then 4 else 0
             | _ \<Rightarrow> 0)
     else 0)"

text \<open>\<open>utf8.EncodeRune\<close> of a code point that is not a surrogate.\<close>

definition utf8_encode :: "nat \<Rightarrow> string" where
  "utf8_encode n =
     (if n < 0x80 then [char_of n]
      else if n < 0x800 then [char_of (0xC0 + n div 64), char_of (0x80 + n mod 64)]
      else if n < 0x10000 then [char_of (0xE0 + n div 4096), char_of (0x80 + n div 64 mod 64), char_of (0x80 + n mod 64)]
      else [char_of (0xF0 + n div 262144), char_of (0x80 + n div 4096 mod 64), char_of (0x80 + n div 64 mod 64), char_of (0x80 + n mod 64)])"

section \<open>Strings\<close>

text \<open>Quotation mark and reverse solidus.\<close>

abbreviation quote :: char where "quote \<equiv> CHR 0x22"
abbreviation backslash :: char where "backslash \<equiv> CHR 0x5C"

definition unicode_escape :: "nat \<Rightarrow> string" where
  "unicode_escape n = [backslash, CHR ''u'', hex_digit (n div 4096 mod 16), hex_digit (n div 256 mod 16), hex_digit (n div 16 mod 16),
     hex_digit (n mod 16)]"

definition escape_ascii :: "char \<Rightarrow> string" where
  "escape_ascii c =
     (if c = backslash \<or> c = quote then [backslash, c]
      else if c = CHR 0x08 then [backslash, CHR ''b'']
      else if c = CHR 0x0C then [backslash, CHR ''f'']
      else if c = CHR 0x0A then [backslash, CHR ''n'']
      else if c = CHR 0x0D then [backslash, CHR ''r'']
      else if c = CHR 0x09 then [backslash, CHR ''t'']
      else if of_char c < (32 :: nat) \<or> c = CHR ''<'' \<or> c = CHR ''>'' \<or> c = CHR ''&'' then unicode_escape (of_char c)
      else [c])"

text \<open>\<open>json.Marshal\<close> of a string: invalid bytes become U+FFFD, the line and paragraph separators are escaped.\<close>

definition escape_rune :: "string \<Rightarrow> string" where
  "escape_rune r = (if r = utf8_encode 0x2028 then unicode_escape 0x2028 else if r = utf8_encode 0x2029 then unicode_escape 0x2029 else r)"

function json_escape :: "string \<Rightarrow> string" where
  "json_escape s = (case s of [] \<Rightarrow> [] | c # rest \<Rightarrow>
     if in_range 0 0x7F c then escape_ascii c @ json_escape rest
     else if rune_size s = 0 then unicode_escape 0xFFFD @ json_escape rest
     else escape_rune (take (rune_size s) s) @ json_escape (drop (rune_size s) s))"
  by pat_completeness auto
termination by (relation "measure length") auto

definition simple_escape :: "char \<Rightarrow> char option" where
  "simple_escape e =
     (if e = quote \<or> e = backslash \<or> e = CHR ''/'' then Some e
      else if e = CHR ''b'' then Some (CHR 0x08)
      else if e = CHR ''f'' then Some (CHR 0x0C)
      else if e = CHR ''n'' then Some (CHR 0x0A)
      else if e = CHR ''r'' then Some (CHR 0x0D)
      else if e = CHR ''t'' then Some (CHR 0x09)
      else None)"

definition hex4 :: "string \<Rightarrow> nat option" where
  "hex4 s = (case s of a # b # c # d # _ \<Rightarrow>
       (case (hex_value a, hex_value b, hex_value c, hex_value d) of
          (Some w, Some x, Some y, Some z) \<Rightarrow> Some (4096 * w + 256 * x + 16 * y + z)
        | _ \<Rightarrow> None)
     | _ \<Rightarrow> None)"

text \<open>A high surrogate followed by an escaped low one stands for one code point (\<open>utf16.DecodeRune\<close>).\<close>

definition surrogate_pair :: "nat \<Rightarrow> string \<Rightarrow> nat option" where
  "surrogate_pair n s = (case s of a # b # rest \<Rightarrow>
       if a = backslash \<and> b = CHR ''u'' then
         (case hex4 rest of
            Some m \<Rightarrow> if 0xD800 \<le> n \<and> n < 0xDC00 \<and> 0xDC00 \<le> m \<and> m < 0xE000
              then Some (0x10000 + (n - 0xD800) * 1024 + (m - 0xDC00)) else None
          | None \<Rightarrow> None)
       else None
     | _ \<Rightarrow> None)"

definition prepend :: "string \<Rightarrow> (string \<times> string) option \<Rightarrow> (string \<times> string) option" where
  "prepend x r = map_option (\<lambda>(y, rest). (x @ y, rest)) r"

text \<open>The rest of a string literal after its opening quote: the decoded text and what follows the closing quote.\<close>

function json_unquote :: "string \<Rightarrow> (string \<times> string) option" where
  "json_unquote s = (case s of [] \<Rightarrow> None | c # rest \<Rightarrow>
     if c = quote then Some ([], rest)
     else if c = backslash then
       (case rest of [] \<Rightarrow> None | e # rest' \<Rightarrow>
         if e = CHR ''u'' then
           (case hex4 rest' of
              None \<Rightarrow> None
            | Some n \<Rightarrow>
                if 0xD800 \<le> n \<and> n < 0xE000 then
                  (case surrogate_pair n (drop 4 rest') of
                     Some m \<Rightarrow> prepend (utf8_encode m) (json_unquote (drop 10 rest'))
                   | None \<Rightarrow> prepend (utf8_encode 0xFFFD) (json_unquote (drop 4 rest')))
                else prepend (utf8_encode n) (json_unquote (drop 4 rest')))
         else (case simple_escape e of None \<Rightarrow> None | Some x \<Rightarrow> prepend [x] (json_unquote rest')))
     else if of_char c < (32 :: nat) then None
     else if rune_size s = 0 then prepend (utf8_encode 0xFFFD) (json_unquote rest)
     else prepend (take (rune_size s) s) (json_unquote (drop (rune_size s) s)))"
  by pat_completeness auto
termination by (relation "measure length") auto

declare json_escape.simps [simp del] json_unquote.simps [simp del] decimal.simps [simp del]

section \<open>A printed string is read back\<close>

lemma in_range_char: "in_range lo hi c \<longleftrightarrow> lo \<le> (of_char c :: nat) \<and> (of_char c :: nat) \<le> hi"
  by (simp add: in_range_def)

lemma rune_size_ascii: "in_range 0 0x7F c \<Longrightarrow> rune_size (c # s) = 1"
  by (simp add: rune_size_def)

lemma list_cases4:
  obtains "s = []" | a where "s = [a]" | a b where "s = [a, b]" | a b c where "s = [a, b, c]" | a b c d t where "s = a # b # c # d # t"
  by (metis list.exhaust)

lemma utf8_valid_step: "s \<noteq> [] \<Longrightarrow> utf8_valid s \<longleftrightarrow> rune_size s > 0 \<and> utf8_valid (drop (rune_size s) s)"
  by (cases s rule: list_cases4; simp only: simp_thms; subst utf8_valid.simps; simp add: rune_size_def del: utf8_valid.simps(2))

lemma rune_size_bounds: "rune_size s \<le> length s" "rune_size s \<le> 4"
  by (cases s rule: list_cases4; simp add: rune_size_def)+

lemma rune_size_take: "rune_size s > 0 \<Longrightarrow> rune_size (take (rune_size s) s @ t) = rune_size s"
  by (cases s rule: list_cases4; simp add: rune_size_def split: if_split_asm)

lemma unquote_plain:
  assumes "\<not> in_range 0 0x7F (hd s)" "rune_size s > 0" "s \<noteq> []"
  shows "json_unquote (take (rune_size s) s @ t) = prepend (take (rune_size s) s) (json_unquote t)"
proof -
  obtain c rest where s: "s = c # rest" using assms(3) by (cases s) auto
  then have big: "(of_char c :: nat) > 127" using assms(1) by (simp add: in_range_char)
  obtain r where r: "take (rune_size s) s = c # r" using assms(2) s by (cases "rune_size s") auto
  have "rune_size (c # r @ t) = rune_size s" using rune_size_take [OF assms(2), of t] r by simp
  moreover have "length (c # r) = rune_size s" using r rune_size_bounds(1) [of s] by (metis length_take min.absorb2)
  then have "take (rune_size s) (c # r @ t) = c # r" "drop (rune_size s) (c # r @ t) = t" by (auto simp flip: append_Cons)
  moreover have "c \<noteq> quote" "c \<noteq> backslash" using big by auto
  ultimately show ?thesis unfolding r using big assms(2) by (subst json_unquote.simps) simp
qed

lemma four_digits: "n = 16 * a + z \<Longrightarrow> a = 16 * b + y \<Longrightarrow> b = 16 * c + x \<Longrightarrow> 4096 * c + 256 * x + 16 * y + z = n" for n :: nat
  by simp

lemma hex4_digits: "n < 0x10000 \<Longrightarrow> hex4 (drop 2 (unicode_escape n) @ t) = Some n"
proof -
  assume n: "n < 0x10000"
  have "hex_value (hex_digit m) = Some m" if "m < 16" for m using that by (rule hex_value_digit)
  moreover have "n div 4096 < 16" "n div 4096 mod 16 = n div 4096" using n by auto
  moreover have "4096 * (n div 4096) + 256 * (n div 256 mod 16) + 16 * (n div 16 mod 16) + n mod 16 = n"
  proof -
    have "n div 256 = n div 16 div 16" "n div 4096 = n div 16 div 16 div 16" by (simp_all add: div_mult2_eq [symmetric])
    moreover note four_digits [OF mult_div_mod_eq [symmetric] mult_div_mod_eq [symmetric] mult_div_mod_eq [symmetric], of n]
    ultimately show ?thesis by metis
  qed
  ultimately show ?thesis by (simp add: hex4_def unicode_escape_def)
qed

lemma unquote_unicode:
  assumes "n < 0xD800 \<or> 0xE000 \<le> n" "n < 0x10000"
  shows "json_unquote (unicode_escape n @ t) = prepend (utf8_encode n) (json_unquote t)"
  using hex4_digits [OF assms(2), of t] assms(1) by (subst json_unquote.simps) (auto simp: unicode_escape_def)

lemma unquote_ascii:
  assumes "in_range 0 0x7F c"
  shows "json_unquote (escape_ascii c @ t) = prepend [c] (json_unquote t)"
proof -
  have small: "(of_char c :: nat) < 128" using assms by (simp add: in_range_char)
  show ?thesis
  proof (cases "escape_ascii c = [c]")
    case True
    then have "c \<noteq> quote" "c \<noteq> backslash" "\<not> (of_char c :: nat) < 32" by (auto simp: escape_ascii_def unicode_escape_def split: if_split_asm)
    then show ?thesis unfolding True using rune_size_ascii [OF assms] by (subst json_unquote.simps) simp
  next
    case False
    show ?thesis
    proof (cases "escape_ascii c = unicode_escape (of_char c)")
      case True
      then show ?thesis using unquote_unicode [of "of_char c" t] small by (simp add: utf8_encode_def)
    next
      case False
      with \<open>escape_ascii c \<noteq> [c]\<close> have "\<exists>e. escape_ascii c = [backslash, e] \<and> e \<noteq> CHR ''u'' \<and> simple_escape e = Some c"
        by (auto simp: escape_ascii_def simple_escape_def split: if_split_asm)
      then show ?thesis by (subst json_unquote.simps) auto
    qed
  qed
qed

lemma unquote_rune:
  assumes "\<not> in_range 0 0x7F (hd s)" "rune_size s > 0" "s \<noteq> []"
  shows "json_unquote (escape_rune (take (rune_size s) s) @ t) = prepend (take (rune_size s) s) (json_unquote t)"
  using unquote_plain [OF assms] unquote_unicode [where n = "0x2028"] unquote_unicode [where n = "0x2029"] by (auto simp: escape_rune_def)

lemma unquote_escape: "utf8_valid s \<Longrightarrow> json_unquote (json_escape s @ quote # rest) = Some (s, rest)"
proof (induction s rule: json_escape.induct)
  case (1 s)
  show ?case
  proof (cases s)
    case Nil
    then show ?thesis by (simp add: json_escape.simps json_unquote.simps)
  next
    case (Cons c cs)
    have step: "rune_size s > 0" "utf8_valid (drop (rune_size s) s)" using 1(4) utf8_valid_step [of s] Cons by auto
    show ?thesis
    proof (cases "in_range 0 0x7F c")
      case True
      then have "utf8_valid cs" using step rune_size_ascii [OF True] Cons by simp
      then show ?thesis using 1(1) [OF Cons True] unquote_ascii [OF True] True Cons
        by (subst json_escape.simps) (simp add: prepend_def)
    next
      case False
      then show ?thesis using 1(3) [OF Cons False] step unquote_rune [of s] Cons
        by (subst json_escape.simps) (simp add: prepend_def)
    qed
  qed
qed

end
