(* ===== verification/Json.thy ===== *)
theory Json
  imports JsonText
begin

text \<open>
  JSON as the program uses it: values, the text that \<open>encoding/json\<close> writes for them and the parser that reads it, and the strict
  reader of \<open>src/internal/jsonstrict\<close>, which bounds the input and refuses an object with a repeated key. Printing and then parsing
  is the identity, and the fuel of the parser is never the reason for a refusal.
\<close>

section \<open>Decimal numbers\<close>

definition decimal_int :: "int \<Rightarrow> string" where
  "decimal_int n = (if n < 0 then ''-'' @ decimal (nat (- n)) else decimal (nat n))"

lemma decimal_digits: "c \<in> set (decimal n) \<Longrightarrow> in_range 48 57 c"
proof (induction n rule: decimal.induct)
  case (1 n)
  then show ?case by (subst (asm) decimal.simps) (auto simp: in_range_def split: if_split_asm)
qed

fun undecimal :: "nat \<Rightarrow> string \<Rightarrow> nat" where
  "undecimal acc [] = acc"
| "undecimal acc (c # cs) = undecimal (acc * 10 + (of_char c - 48)) cs"

lemma undecimal_append: "undecimal acc (xs @ ys) = undecimal (undecimal acc xs) ys"
  by (induction xs arbitrary: acc) auto

lemma undecimal_decimal: "undecimal 0 (decimal n) = n"
proof (induction n rule: decimal.induct)
  case (1 n)
  show ?case
  proof (cases "n < 10")
    case True
    then show ?thesis by (simp add: decimal.simps)
  next
    case False
    then have "decimal n = decimal (n div 10) @ [char_of (48 + n mod 10)]" by (subst decimal.simps) simp
    with 1 [OF False] show ?thesis by (simp add: undecimal_append)
  qed
qed

lemma decimal_int_inj: "m > 0 \<Longrightarrow> n > 0 \<Longrightarrow> decimal_int m = decimal_int n \<longleftrightarrow> m = n"
  using undecimal_decimal [of "nat m"] undecimal_decimal [of "nat n"] unfolding decimal_int_def
  by (metis nat_eq_iff order_less_asym zero_less_nat_eq)

section \<open>Values and their text\<close>

datatype json = JNull | JBool bool | JNumber string | JString string | JArray "json list" | JObject "(string \<times> json) list"

fun joined_by :: "string \<Rightarrow> string list \<Rightarrow> string" where
  "joined_by sep [] = []"
| "joined_by sep [x] = x"
| "joined_by sep (x # xs) = x @ sep @ joined_by sep xs"

definition json_quoted :: "string \<Rightarrow> string" where
  "json_quoted s = [quote] @ json_escape s @ [quote]"

fun json_print :: "json \<Rightarrow> string" where
  "json_print JNull = ''null''"
| "json_print (JBool b) = (if b then ''true'' else ''false'')"
| "json_print (JNumber n) = n"
| "json_print (JString s) = json_quoted s"
| "json_print (JArray vs) = ''['' @ joined_by '','' (map json_print vs) @ '']''"
| "json_print (JObject ms) = ''{'' @ joined_by '','' (map (\<lambda>(k, v). json_quoted k @ '':'' @ json_print v) ms) @ ''}''"

section \<open>Parsing\<close>

definition skip_space :: "string \<Rightarrow> string" where
  "skip_space = dropWhile (\<lambda>c. c \<in> set [CHR '' '', CHR 0x09, CHR 0x0A, CHR 0x0D])"

definition is_digit :: "char \<Rightarrow> bool" where
  "is_digit c = in_range 48 57 c"

text \<open>A number: an optional minus sign, an integer without leading zeros, an optional fraction, an optional exponent.\<close>

definition scan_digits :: "string \<Rightarrow> (string \<times> string) option" where
  "scan_digits s = (if takeWhile is_digit s = [] then None else Some (takeWhile is_digit s, dropWhile is_digit s))"

definition scan_integer :: "string \<Rightarrow> (string \<times> string) option" where
  "scan_integer s = (case s of c # rest \<Rightarrow> if c = CHR ''0'' then Some ([c], rest) else scan_digits s | [] \<Rightarrow> None)"

definition scan_fraction :: "string \<Rightarrow> (string \<times> string) option" where
  "scan_fraction s = (case s of c # rest \<Rightarrow>
       if c = CHR ''.'' then prepend [c] (scan_digits rest) else Some ([], s)
     | [] \<Rightarrow> Some ([], s))"

definition scan_exponent :: "string \<Rightarrow> (string \<times> string) option" where
  "scan_exponent s = (case s of c # rest \<Rightarrow>
       if c = CHR ''e'' \<or> c = CHR ''E'' then
         (case rest of d # rest' \<Rightarrow>
            if d = CHR ''+'' \<or> d = CHR ''-'' then prepend [c, d] (scan_digits rest') else prepend [c] (scan_digits rest)
          | [] \<Rightarrow> None)
       else Some ([], s)
     | [] \<Rightarrow> Some ([], s))"

definition scan_unsigned :: "string \<Rightarrow> (string \<times> string) option" where
  "scan_unsigned s = (case scan_integer s of None \<Rightarrow> None | Some (i, s) \<Rightarrow>
     (case scan_fraction s of None \<Rightarrow> None | Some (f, s) \<Rightarrow> prepend (i @ f) (scan_exponent s)))"

definition scan_number :: "string \<Rightarrow> (string \<times> string) option" where
  "scan_number s = (case s of c # rest \<Rightarrow> if c = CHR ''-'' then prepend [c] (scan_unsigned rest) else scan_unsigned s | [] \<Rightarrow> None)"

definition scan_word :: "string \<Rightarrow> string \<Rightarrow> string option" where
  "scan_word w s = (if take (length w) s = w then Some (drop (length w) s) else None)"

text \<open>The fuel bounds the depth of the calls; every second call consumes a character, so twice the length of the text and one more is enough.\<close>

fun parse_value :: "nat \<Rightarrow> string \<Rightarrow> (json \<times> string) option"
  and parse_elements :: "nat \<Rightarrow> string \<Rightarrow> (json list \<times> string) option"
  and parse_members :: "nat \<Rightarrow> string \<Rightarrow> ((string \<times> json) list \<times> string) option" where
  "parse_value 0 s = None"
| "parse_value (Suc n) s = (case skip_space s of [] \<Rightarrow> None | c # rest \<Rightarrow>
     if c = quote then map_option (\<lambda>(x, r). (JString x, r)) (json_unquote rest)
     else if c = CHR ''['' then
       (case skip_space rest of [] \<Rightarrow> None | d # r \<Rightarrow>
          if d = CHR '']'' then Some (JArray [], r) else map_option (\<lambda>(vs, r). (JArray vs, r)) (parse_elements n rest))
     else if c = CHR ''{'' then
       (case skip_space rest of [] \<Rightarrow> None | d # r \<Rightarrow>
          if d = CHR ''}'' then Some (JObject [], r) else map_option (\<lambda>(ms, r). (JObject ms, r)) (parse_members n rest))
     else if c = CHR ''t'' then map_option (\<lambda>r. (JBool True, r)) (scan_word ''rue'' rest)
     else if c = CHR ''f'' then map_option (\<lambda>r. (JBool False, r)) (scan_word ''alse'' rest)
     else if c = CHR ''n'' then map_option (\<lambda>r. (JNull, r)) (scan_word ''ull'' rest)
     else map_option (\<lambda>(x, r). (JNumber x, r)) (scan_number (c # rest)))"
| "parse_elements 0 s = None"
| "parse_elements (Suc n) s = (case parse_value n s of None \<Rightarrow> None | Some (v, r) \<Rightarrow>
     (case skip_space r of [] \<Rightarrow> None | c # r \<Rightarrow>
        if c = CHR '','' then map_option (\<lambda>(vs, r). (v # vs, r)) (parse_elements n r)
        else if c = CHR '']'' then Some ([v], r) else None))"
| "parse_members 0 s = None"
| "parse_members (Suc n) s = (case skip_space s of [] \<Rightarrow> None | c # r \<Rightarrow>
     if c \<noteq> quote then None
     else (case json_unquote r of None \<Rightarrow> None | Some (k, r) \<Rightarrow>
       (case skip_space r of [] \<Rightarrow> None | c # r \<Rightarrow>
          if c \<noteq> CHR '':'' then None
          else (case parse_value n r of None \<Rightarrow> None | Some (v, r) \<Rightarrow>
            (case skip_space r of [] \<Rightarrow> None | c # r \<Rightarrow>
               if c = CHR '','' then map_option (\<lambda>(ms, r). ((k, v) # ms, r)) (parse_members n r)
               else if c = CHR ''}'' then Some ([(k, v)], r) else None)))))"

definition json_parse :: "string \<Rightarrow> json option" where
  "json_parse s = (case parse_value (2 * length s + 1) s of
     Some (v, r) \<Rightarrow> if skip_space r = [] then Some v else None
   | None \<Rightarrow> None)"

section \<open>The strict reader (jsonstrict/decode.go)\<close>

text \<open>
  A number token is converted to a 64-bit float, which fails if it rounds to infinity: at and above the midpoint between the largest
  float and the next power of two.
\<close>

definition exponent_value :: "string \<Rightarrow> int" where
  "exponent_value s = (case s of c # rest \<Rightarrow>
       if c = CHR ''-'' then - int (undecimal 0 rest) else if c = CHR ''+'' then int (undecimal 0 rest) else int (undecimal 0 s)
     | [] \<Rightarrow> 0)"

definition finite_number :: "string \<Rightarrow> bool" where
  "finite_number s =
     (let s = dropWhile (\<lambda>c. c = CHR ''-'') s;
          whole = takeWhile is_digit s;
          s = dropWhile is_digit s;
          fraction = (case s of c # rest \<Rightarrow> if c = CHR ''.'' then takeWhile is_digit rest else [] | [] \<Rightarrow> []);
          exponent = exponent_value (drop 1 (dropWhile (\<lambda>c. c \<noteq> CHR ''e'' \<and> c \<noteq> CHR ''E'') s)) - int (length fraction)
      in undecimal 0 (whole @ fraction) * 10 ^ nat exponent < (2 ^ 1024 - 2 ^ 970) * 10 ^ nat (- exponent))"

fun consumeValue :: "json \<Rightarrow> bool" where
  "consumeValue (JArray vs) \<longleftrightarrow> (\<forall>v \<in> set vs. consumeValue v)"
| "consumeValue (JObject ms) \<longleftrightarrow> distinct (map fst ms) \<and> (\<forall>m \<in> set ms. consumeValue (snd m))"
| "consumeValue (JNumber n) \<longleftrightarrow> finite_number n"
| "consumeValue _ \<longleftrightarrow> True"

definition uniqueKeys :: "string \<Rightarrow> bool" where
  "uniqueKeys value = (case json_parse value of None \<Rightarrow> False | Some v \<Rightarrow> consumeValue v)"

text \<open>An \<open>io.Reader\<close>: the bytes it delivers, and whether it then fails.\<close>

record io_Reader =
  rd_bytes :: string
  rd_fails :: bool

text \<open>\<open>io.ReadAll(io.LimitReader(reader, limit))\<close>: a reader that has delivered \<open>limit\<close> bytes is not asked again.\<close>

definition read_limited :: "io_Reader \<Rightarrow> nat \<Rightarrow> string option" where
  "read_limited reader limit =
     (if length (rd_bytes reader) \<ge> limit then Some (take limit (rd_bytes reader))
      else if rd_fails reader then None else Some (rd_bytes reader))"

definition Read :: "io_Reader \<Rightarrow> nat \<Rightarrow> string option" where
  "Read reader maximumBytes =
     (case read_limited reader (maximumBytes + 1) of
        None \<Rightarrow> None
      | Some value \<Rightarrow> if length value > maximumBytes \<or> \<not> uniqueKeys value then None else Some value)"

text \<open>The decoder, unlike the stream of tokens, refuses a value nested deeper than ten thousand levels.\<close>

fun json_depth :: "json \<Rightarrow> nat" where
  "json_depth (JArray vs) = Suc (fold max (map json_depth vs) 0)"
| "json_depth (JObject ms) = Suc (fold max (map (\<lambda>m. json_depth (snd m)) ms) 0)"
| "json_depth _ = 0"

text \<open>\<open>target\<close> is the typed decoding into the caller's structure, with unknown fields refused.\<close>

definition Decode :: "io_Reader \<Rightarrow> nat \<Rightarrow> (json \<Rightarrow> 'a option) \<Rightarrow> 'a option" where
  "Decode reader maximumBytes target =
     (case Read reader maximumBytes of
        None \<Rightarrow> None
      | Some value \<Rightarrow> (case json_parse value of
          None \<Rightarrow> None
        | Some v \<Rightarrow> if json_depth v \<le> 10000 then target v else None))"

section \<open>Typed fields\<close>

text \<open>
  A field is found by its exact name or by folding case, where \<open>encoding/json\<close> also folds the long s (U+017F) and the Kelvin sign
  (U+212A); no other character folds to an ASCII letter. A null leaves a field as it is.
\<close>

fun fold_name :: "string \<Rightarrow> string" where
  "fold_name (a # b # c # s) =
     (if a = CHR 0xC5 \<and> b = CHR 0xBF then CHR ''S'' # fold_name (c # s)
      else if a = CHR 0xE2 \<and> b = CHR 0x84 \<and> c = CHR 0xAA then CHR ''K'' # fold_name s
      else (if in_range 97 122 a then char_of (of_char a - 32 :: nat) else a) # fold_name (b # c # s))"
| "fold_name [a, b] =
     (if a = CHR 0xC5 \<and> b = CHR 0xBF then ''S''
      else (if in_range 97 122 a then char_of (of_char a - 32 :: nat) else a) # fold_name [b])"
| "fold_name [a] = [if in_range 97 122 a then char_of (of_char a - 32 :: nat) else a]"
| "fold_name [] = []"

text \<open>\<open>strconv.ParseInt(s, 10, 64)\<close> of a number token, which has no plus sign.\<close>

definition parse_int64 :: "string \<Rightarrow> int option" where
  "parse_int64 s =
     (let negative = (s \<noteq> [] \<and> hd s = CHR ''-'');
          digits = (if negative then tl s else s);
          value = (if negative then - int (undecimal 0 digits) else int (undecimal 0 digits))
      in if digits = [] \<or> \<not> list_all is_digit digits \<or> value < - (2 ^ 63) \<or> value \<ge> 2 ^ 63 then None else Some value)"

definition decode_string :: "string \<Rightarrow> json \<Rightarrow> string option" where
  "decode_string old v = (case v of JString s \<Rightarrow> Some s | JNull \<Rightarrow> Some old | _ \<Rightarrow> None)"

definition decode_int64 :: "int \<Rightarrow> json \<Rightarrow> int option" where
  "decode_int64 old v = (case v of JNumber n \<Rightarrow> parse_int64 n | JNull \<Rightarrow> Some old | _ \<Rightarrow> None)"

text \<open>A structure is decoded member by member into its fields; a member that is no field is refused.\<close>

type_synonym 'a fields = "(string \<times> ('a \<Rightarrow> json \<Rightarrow> 'a option)) list"

definition find_field :: "'a fields \<Rightarrow> string \<Rightarrow> ('a \<Rightarrow> json \<Rightarrow> 'a option) option" where
  "find_field fs name =
     (case map_of fs name of
        Some f \<Rightarrow> Some f
      | None \<Rightarrow> map_of (map (\<lambda>(k, f). (fold_name k, f)) fs) (fold_name name))"

fun decode_members :: "'a fields \<Rightarrow> 'a \<Rightarrow> (string \<times> json) list \<Rightarrow> 'a option" where
  "decode_members fs x [] = Some x"
| "decode_members fs x ((k, v) # ms) =
     (case find_field fs k of
        None \<Rightarrow> None
      | Some f \<Rightarrow> (case f x v of None \<Rightarrow> None | Some x \<Rightarrow> decode_members fs x ms))"

definition decode_struct :: "'a fields \<Rightarrow> 'a \<Rightarrow> json \<Rightarrow> 'a option" where
  "decode_struct fs x v = (case v of JObject ms \<Rightarrow> decode_members fs x ms | JNull \<Rightarrow> Some x | _ \<Rightarrow> None)"

definition decode_slice :: "(json \<Rightarrow> 'a option) \<Rightarrow> json \<Rightarrow> 'a list option" where
  "decode_slice f v = (case v of JArray vs \<Rightarrow> those (map f vs) | JNull \<Rightarrow> Some [] | _ \<Rightarrow> None)"

section \<open>A printed value is read back\<close>

definition ends_number :: "string \<Rightarrow> bool" where
  "ends_number rest \<longleftrightarrow> rest = [] \<or> hd rest \<in> set '',]}''"

lemma decimal_nonempty: "decimal n \<noteq> []"
  by (subst decimal.simps) simp

lemma decimal_hd_zero: "hd (decimal n) = CHR ''0'' \<longleftrightarrow> n = 0"
proof (induction n rule: decimal.induct)
  case (1 n)
  show ?case
  proof (cases "n < 10")
    case True
    then have "decimal n = [char_of (48 + n)]" by (subst decimal.simps) simp
    moreover have "(of_char (char_of (48 + n)) :: nat) = of_char (CHR ''0'') \<longleftrightarrow> n = 0" using True by simp
    ultimately show ?thesis by (simp only: list.sel of_char_eq_iff)
  next
    case False
    then have "decimal n = decimal (n div 10) @ [char_of (48 + n mod 10)]" by (subst decimal.simps) simp
    with 1 [OF False] False decimal_nonempty [of "n div 10"] show ?thesis by (simp add: div_eq_0_iff)
  qed
qed

lemma decimal_no_sign: "hd (decimal m) \<noteq> CHR ''-''"
  using decimal_digits [of "hd (decimal m)" m] decimal_nonempty [of m] by (auto simp: in_range_def)

lemma takeWhile_decimal:
  assumes "ends_number rest"
  shows "takeWhile is_digit (decimal n @ rest) = decimal n" "dropWhile is_digit (decimal n @ rest) = rest"
proof -
  have "\<forall>c \<in> set (decimal n). is_digit c" by (simp add: decimal_digits is_digit_def)
  moreover have "rest = [] \<or> \<not> is_digit (hd rest)" using assms by (auto simp: ends_number_def is_digit_def in_range_def)
  ultimately show "takeWhile is_digit (decimal n @ rest) = decimal n" "dropWhile is_digit (decimal n @ rest) = rest"
    by (cases rest; auto)+
qed

lemma scan_integer_decimal:
  assumes "ends_number rest"
  shows "scan_integer (decimal n @ rest) = Some (decimal n, rest)"
proof (cases "n = 0")
  case True
  moreover have "char_of (48 :: nat) = CHR ''0''" by code_simp
  ultimately show ?thesis by (simp add: decimal.simps scan_integer_def)
next
  case False
  obtain c cs where d: "decimal n = c # cs" using decimal_nonempty by (cases "decimal n") auto
  then have "c \<noteq> CHR ''0''" using decimal_hd_zero [of n] False by simp
  then show ?thesis using takeWhile_decimal [OF assms, of n] d by (simp add: scan_integer_def scan_digits_def)
qed

lemma scan_number_decimal:
  assumes "ends_number rest"
  shows "scan_number (decimal_int n @ rest) = Some (decimal_int n, rest)"
proof -
  have fraction: "scan_fraction rest = Some ([], rest)" "scan_exponent rest = Some ([], rest)"
    using assms by (cases rest; auto simp: ends_number_def scan_fraction_def scan_exponent_def)+
  have unsigned: "scan_unsigned (decimal m @ rest) = Some (decimal m, rest)" for m
    by (simp add: scan_unsigned_def scan_integer_decimal [OF assms] fraction prepend_def)
  show ?thesis using unsigned [of "nat n"] unsigned [of "nat (- n)"] decimal_nonempty [of "nat n"] decimal_no_sign [of "nat n"]
    by (cases "decimal (nat n)") (auto simp: decimal_int_def scan_number_def prepend_def split: if_split)
qed

lemma parse_int64_decimal: "- (2 ^ 63) \<le> n \<Longrightarrow> n < 2 ^ 63 \<Longrightarrow> parse_int64 (decimal_int n) = Some n"
proof -
  assume range: "- (2 ^ 63) \<le> n" "n < 2 ^ 63"
  have digits: "list_all is_digit (decimal m)" for m by (simp add: list_all_iff decimal_digits is_digit_def)
  show ?thesis using range digits decimal_no_sign by (auto simp: decimal_int_def parse_int64_def undecimal_decimal decimal_nonempty Let_def)
qed

lemma parse_int64_range: "parse_int64 s = Some n \<Longrightarrow> - (2 ^ 63) \<le> n \<and> n < 2 ^ 63"
  by (auto simp: parse_int64_def Let_def split: if_split_asm)

lemma finite_number_decimal: "\<bar>n\<bar> < 2 ^ 63 \<Longrightarrow> finite_number (decimal_int n)"
proof -
  assume "\<bar>n\<bar> < 2 ^ 63"
  then have small: "nat \<bar>n\<bar> < 2 ^ 63" by (simp add: nat_less_iff)
  have "dropWhile (\<lambda>c. c = CHR ''-'') (decimal m) = decimal m" for m
    using decimal_nonempty [of m] decimal_no_sign [of m] by (cases "decimal m") auto
  then have sign: "dropWhile (\<lambda>c. c = CHR ''-'') (decimal_int n) = decimal (nat \<bar>n\<bar>)" by (simp add: decimal_int_def)
  have digits: "takeWhile is_digit (decimal (nat \<bar>n\<bar>)) = decimal (nat \<bar>n\<bar>)" "dropWhile is_digit (decimal (nat \<bar>n\<bar>)) = []"
    using takeWhile_decimal [of "[]" "nat \<bar>n\<bar>"] unfolding append_Nil2 by (simp_all only: ends_number_def simp_thms)
  have "(2 :: nat) ^ 63 < 2 ^ 1024 - 2 ^ 970" by simp
  then show ?thesis using small unfolding finite_number_def Let_def sign digits by (simp add: exponent_value_def undecimal_decimal)
qed

text \<open>Values whose strings are valid UTF-8 and whose numbers are integers.\<close>

fun plain :: "json \<Rightarrow> bool" where
  "plain (JString s) \<longleftrightarrow> utf8_valid s"
| "plain (JNumber n) \<longleftrightarrow> (\<exists>i. n = decimal_int i)"
| "plain (JArray vs) \<longleftrightarrow> (\<forall>v \<in> set vs. plain v)"
| "plain (JObject ms) \<longleftrightarrow> (\<forall>m \<in> set ms. utf8_valid (fst m) \<and> plain (snd m))"
| "plain _ \<longleftrightarrow> True"

lemma skip_space_other: "c \<notin> set [CHR '' '', CHR 0x09, CHR 0x0A, CHR 0x0D] \<Longrightarrow> skip_space (c # s) = c # s"
  by (simp add: skip_space_def)

lemma decimal_int_head:
  obtains c cs where "decimal_int n = c # cs" "c = CHR ''-'' \<or> is_digit c"
proof (cases "n < 0")
  case True
  then show ?thesis by (intro that [of "CHR ''-''" "decimal (nat (- n))"]) (simp_all add: decimal_int_def)
next
  case False
  obtain c cs where "decimal (nat n) = c # cs" using decimal_nonempty by (cases "decimal (nat n)") auto
  with False show ?thesis using decimal_digits [of c "nat n"] by (intro that) (auto simp: decimal_int_def is_digit_def)
qed

lemma parse_number:
  assumes "ends_number rest"
  shows "parse_value (Suc n) (decimal_int i @ rest) = Some (JNumber (decimal_int i), rest)"
proof -
  obtain c cs where d: "decimal_int i = c # cs" "c = CHR ''-'' \<or> is_digit c" by (rule decimal_int_head)
  then have "c \<notin> set [CHR '' '', CHR 0x09, CHR 0x0A, CHR 0x0D, quote, CHR ''['', CHR ''{'', CHR ''t'', CHR ''f'', CHR ''n'']"
    by (auto simp: is_digit_def in_range_def)
  then show ?thesis using scan_number_decimal [OF assms, of i] d(1) by (simp add: skip_space_other)
qed

lemma ends_number_simps [simp]:
  "ends_number []" "ends_number (CHR '','' # s)" "ends_number (CHR '']'' # s)" "ends_number (CHR ''}'' # s)"
  by (auto simp: ends_number_def)

lemma json_print_head: "plain v \<Longrightarrow> \<exists>c cs. json_print v = c # cs \<and> c \<notin> set '' ]},'' \<and> c \<notin> {CHR 0x09, CHR 0x0A, CHR 0x0D}"
proof (cases v)
  case (JNumber n)
  moreover assume "plain v"
  ultimately obtain i where "n = decimal_int i" by auto
  moreover obtain c cs where "decimal_int i = c # cs" "c = CHR ''-'' \<or> is_digit c" by (rule decimal_int_head)
  ultimately show ?thesis using JNumber by (auto simp: is_digit_def in_range_def)
qed (auto simp: json_quoted_def)

text \<open>The text of the elements of an array, and of the members of an object, after the opening bracket.\<close>

lemma joined_by_Cons: "joined_by sep (x # xs) = x @ (if xs = [] then [] else sep @ joined_by sep xs)"
  by (cases xs) auto

lemma parse_elements_print:
  assumes "\<And>v n rest. v \<in> set vs \<Longrightarrow> 2 * length (json_print v @ rest) < n \<Longrightarrow> ends_number rest \<Longrightarrow>
      parse_value n (json_print v @ rest) = Some (v, rest)"
    and "vs \<noteq> []" "2 * length (joined_by '','' (map json_print vs) @ CHR '']'' # rest) + 1 < n"
  shows "parse_elements n (joined_by '','' (map json_print vs) @ CHR '']'' # rest) = Some (vs, rest)"
  using assms
proof (induction vs arbitrary: n)
  case (Cons v vs)
  obtain m where n: "n = Suc m" using Cons.prems(3) by (cases n) auto
  show ?case
  proof (cases "vs = []")
    case True
    then show ?thesis using Cons.prems(1) [where v = v and n = m and rest = "CHR '']'' # rest"] Cons.prems(3) n by (simp add: skip_space_other)
  next
    case False
    let ?rest = "CHR '','' # joined_by '','' (map json_print vs) @ CHR '']'' # rest"
    have "parse_value m (json_print v @ ?rest) = Some (v, ?rest)"
      using Cons.prems(1,3) n False by (intro Cons.prems(1)) (auto simp: joined_by_Cons)
    moreover have "parse_elements m (joined_by '','' (map json_print vs) @ CHR '']'' # rest) = Some (vs, rest)"
      using Cons.prems(1,3) n False by (intro Cons.IH) (auto simp: joined_by_Cons)
    ultimately show ?thesis using n False by (simp add: joined_by_Cons skip_space_other)
  qed
qed simp

lemma parse_members_print:
  assumes "\<And>m n rest. m \<in> set ms \<Longrightarrow> 2 * length (json_print (snd m) @ rest) < n \<Longrightarrow> ends_number rest \<Longrightarrow>
      parse_value n (json_print (snd m) @ rest) = Some (snd m, rest)"
    and "\<forall>m \<in> set ms. utf8_valid (fst m)"
    and "ms \<noteq> []" "2 * length (joined_by '','' (map (\<lambda>(k, v). json_quoted k @ '':'' @ json_print v) ms) @ CHR ''}'' # rest) + 1 < n"
  shows "parse_members n (joined_by '','' (map (\<lambda>(k, v). json_quoted k @ '':'' @ json_print v) ms) @ CHR ''}'' # rest) = Some (ms, rest)"
  using assms
proof (induction ms arbitrary: n)
  case (Cons kv ms)
  obtain m where n: "n = Suc m" using Cons.prems(4) by (cases n) auto
  obtain k v where kv: "kv = (k, v)" by (cases kv)
  let ?print = "\<lambda>ms. joined_by '','' (map (\<lambda>(k, v). json_quoted k @ '':'' @ json_print v) ms) @ CHR ''}'' # rest"
  let ?rest = "if ms = [] then CHR ''}'' # rest else CHR '','' # ?print ms"
  have shown: "?print (kv # ms) = quote # json_escape k @ quote # CHR '':'' # json_print v @ ?rest"
    by (simp add: kv joined_by_Cons json_quoted_def)
  have "json_unquote (json_escape k @ quote # CHR '':'' # json_print v @ ?rest) = Some (k, CHR '':'' # json_print v @ ?rest)"
    using Cons.prems(2) kv by (intro unquote_escape) simp
  moreover have "parse_value m (json_print v @ ?rest) = Some (v, ?rest)"
    using Cons.prems(1) [where m = kv and n = m and rest = ?rest] Cons.prems(4) kv n unfolding shown by auto
  moreover have "ms \<noteq> [] \<Longrightarrow> parse_members m (?print ms) = Some (ms, rest)"
    using Cons.prems n unfolding shown by (intro Cons.IH) auto
  ultimately show ?case unfolding shown unfolding n by (cases "ms = []") (simp_all add: skip_space_other kv)
qed simp

lemma parse_print:
  "plain v \<Longrightarrow> 2 * length (json_print v @ rest) < n \<Longrightarrow> ends_number rest \<Longrightarrow> parse_value n (json_print v @ rest) = Some (v, rest)"
proof (induction v arbitrary: n rest)
  case (JNumber x)
  then show ?case using parse_number by (cases n) auto
next
  case (JString s)
  then show ?case using unquote_escape [of s rest] by (cases n) (simp_all add: json_quoted_def skip_space_other)
next
  case (JArray vs)
  then obtain m where n: "n = Suc m" by (cases n) auto
  show ?case
  proof (cases "vs = []")
    case True
    then show ?thesis using n by (simp add: skip_space_other)
  next
    case False
    then obtain v ws where vs: "vs = v # ws" by (cases vs) auto
    then obtain c cs where head: "json_print v = c # cs" "c \<notin> set '' ]},''" "c \<notin> {CHR 0x09, CHR 0x0A, CHR 0x0D}"
      using json_print_head [of v] JArray.prems(1) by auto
    then have "\<exists>ds. joined_by '','' (map json_print vs) = c # ds" by (simp add: vs joined_by_Cons)
    moreover have "parse_elements m (joined_by '','' (map json_print vs) @ CHR '']'' # rest) = Some (vs, rest)"
      using JArray False n by (intro parse_elements_print) auto
    ultimately show ?thesis using n head by (auto simp: skip_space_other)
  qed
next
  case (JObject ms)
  then obtain m where n: "n = Suc m" by (cases n) auto
  show ?case
  proof (cases "ms = []")
    case True
    then show ?thesis using n by (simp add: skip_space_other)
  next
    case False
    let ?print = "joined_by '','' (map (\<lambda>(k, v). json_quoted k @ '':'' @ json_print v) ms) @ CHR ''}'' # rest"
    have "parse_members m ?print = Some (ms, rest)"
      using JObject False n by (intro parse_members_print) (auto simp: snds.simps)
    moreover have "\<exists>cs. ?print = quote # cs" using False by (cases ms) (auto simp: joined_by_Cons json_quoted_def)
    ultimately show ?thesis using n by (auto simp: skip_space_other)
  qed
next
  case JNull
  then show ?case by (cases n) (simp_all add: skip_space_other scan_word_def)
next
  case (JBool b)
  then show ?case by (cases n; cases b) (simp_all add: skip_space_other scan_word_def)
qed

lemma json_parse_print: "plain v \<Longrightarrow> json_parse (json_print v) = Some v"
  using parse_print [of v "[]" "2 * length (json_print v) + 1"] by (simp add: json_parse_def skip_space_def)

section \<open>The fuel of the parser is enough\<close>

lemma unquote_shorter: "json_unquote s = Some (x, r) \<Longrightarrow> length r < length s"
proof (induction s arbitrary: x r rule: length_induct)
  case (1 s)
  then have IH: "json_unquote t = Some (y, r) \<Longrightarrow> length t < length s \<Longrightarrow> length r < length s" for t y by fastforce
  show ?case
  proof (cases s)
    case Nil
    with 1(2) show ?thesis by (simp add: json_unquote.simps)
  next
    case (Cons c cs)
    with 1(2) show ?thesis
      by (subst (asm) json_unquote.simps)
        (auto simp: prepend_def split: if_split_asm option.split_asm list.split_asm dest!: IH)
  qed
qed

lemma scan_shorter:
  "scan_digits s = Some (x, r) \<Longrightarrow> length r < length s"
  "scan_integer s = Some (x, r) \<Longrightarrow> length r < length s"
  "scan_fraction s = Some (x, r) \<Longrightarrow> length r \<le> length s"
  "scan_exponent s = Some (x, r) \<Longrightarrow> length r \<le> length s"
proof -
  have digits: "length r < length s" if "scan_digits s = Some (x, r)" for s x r
  proof -
    have "length (takeWhile is_digit s) + length (dropWhile is_digit s) = length s" by (metis length_append takeWhile_dropWhile_id)
    moreover from that have "length (takeWhile is_digit s) > 0" "length r = length (dropWhile is_digit s)"
      by (auto simp: scan_digits_def split: if_split_asm)
    ultimately show ?thesis by linarith
  qed
  show "scan_digits s = Some (x, r) \<Longrightarrow> length r < length s" by (rule digits)
  show "scan_integer s = Some (x, r) \<Longrightarrow> length r < length s"
    by (cases s) (auto simp: scan_integer_def split: if_split_asm dest: digits)
  show "scan_fraction s = Some (x, r) \<Longrightarrow> length r \<le> length s"
    by (cases s) (auto simp: scan_fraction_def prepend_def split: if_split_asm dest!: digits)
  show "scan_exponent s = Some (x, r) \<Longrightarrow> length r \<le> length s"
    by (cases s) (auto simp: scan_exponent_def prepend_def split: if_split_asm list.split_asm dest!: digits)
qed

lemma scan_number_shorter: "scan_number s = Some (x, r) \<Longrightarrow> length r < length s"
proof -
  have "scan_unsigned s = Some (x, r) \<Longrightarrow> length r < length s" for s x r
    by (auto simp: scan_unsigned_def prepend_def split: option.split_asm prod.split_asm dest!: scan_shorter)
  then show "scan_number s = Some (x, r) \<Longrightarrow> length r < length s"
    by (cases s) (fastforce simp: scan_number_def prepend_def split: if_split_asm)+
qed

lemma skip_space_shorter: "length (skip_space s) \<le> length s" "skip_space s = c # r \<Longrightarrow> length r < length s"
  using length_dropWhile_le unfolding skip_space_def by (blast, metis Suc_le_eq length_Cons)

lemma scan_word_shorter: "scan_word w s = Some r \<Longrightarrow> length r \<le> length s"
  by (auto simp: scan_word_def split: if_split_asm)

lemmas shorter = unquote_shorter scan_number_shorter scan_word_shorter skip_space_shorter(2)

lemma parse_shorter:
  "parse_value n s = Some (v, r) \<Longrightarrow> length r < length s"
  "parse_elements n s = Some (vs, r) \<Longrightarrow> length r < length s"
  "parse_members n s = Some (ms, r) \<Longrightarrow> length r < length s"
proof (induction n s and n s and n s arbitrary: v r and vs r and ms r rule: parse_value_parse_elements_parse_members.induct)
  case (2 n s)
  then show ?case
    by (fastforce split: list.split_asm if_split_asm option.split_asm dest: shorter)
next
  case (4 n s)
  then show ?case by (fastforce split: list.split_asm if_split_asm option.split_asm dest: shorter)
next
  case (6 n s)
  then show ?case by (fastforce split: list.split_asm if_split_asm option.split_asm dest: shorter)
qed auto

lemma parse_fuel:
  "2 * length s < n \<Longrightarrow> 2 * length s < m \<Longrightarrow> parse_value n s = parse_value m s"
  "2 * length s + 1 < n \<Longrightarrow> 2 * length s + 1 < m \<Longrightarrow> parse_elements n s = parse_elements m s"
  "2 * length s + 1 < n \<Longrightarrow> 2 * length s + 1 < m \<Longrightarrow> parse_members n s = parse_members m s"
proof (induction n arbitrary: m s)
  case (Suc n)
  {
    case 1
    then obtain k where m: "m = Suc k" by (cases m) auto
    have "parse_elements n r = parse_elements k r" "parse_members n r = parse_members k r" if "skip_space s = c # r" for c r
      using skip_space_shorter(2) [OF that] 1 m by (auto intro!: Suc.IH)
    then show ?case unfolding m by (simp split: list.split)
  next
    case 2
    then obtain k where m: "m = Suc k" by (cases m) auto
    have "parse_value n s = parse_value k s" using 2 m by (intro Suc.IH) auto
    moreover have "parse_elements n t = parse_elements k t" if "parse_value k s = Some (v, r)" "skip_space r = c # t" for v r c t
      using parse_shorter(1) [OF that(1)] skip_space_shorter(2) [OF that(2)] 2 m by (intro Suc.IH) auto
    ultimately show ?case unfolding m by (simp split: list.split option.split)
  next
    case 3
    then obtain k where m: "m = Suc k" by (cases m) auto
    have "parse_value n u = parse_value k u"
      if "skip_space t = d # u" "json_unquote r = Some (key, t)" "skip_space s = c # r" for t d u r key c
      using that(1,3) [THEN shorter(4)] shorter(1) [OF that(2)] 3 m by (intro Suc.IH) auto
    moreover have "parse_members n x = parse_members k x"
      if "skip_space w = e # x" "parse_value k u = Some (v, w)" "skip_space t = d # u" "json_unquote r = Some (key, t)" "skip_space s = c # r"
      for w e x v t d u r key c
      using that(1,3,5) [THEN shorter(4)] parse_shorter(1) [OF that(2)] shorter(1) [OF that(4)] 3 m by (intro Suc.IH) auto
    ultimately show ?case unfolding m by (simp split: list.split option.split)
  }
qed auto

lemma json_parse_fuel: "2 * length s < n \<Longrightarrow>
    json_parse s = (case parse_value n s of Some (v, r) \<Rightarrow> if skip_space r = [] then Some v else None | None \<Rightarrow> None)"
  using parse_fuel(1) [of s "2 * length s + 1" n] by (simp add: json_parse_def)

end
