(* ===== verification/Manifest.thy ===== *)
theory Manifest
  imports Json
begin

text \<open>
  Backup manifests (\<open>src/internal/backup/manifest.go\<close>): validity, the canonical JSON text with its digest, and its decoding. The main
  theorem says that decoding accepts exactly the canonical texts of valid manifests.
\<close>

datatype backup_error = ErrInvalidManifest | ErrInvalidBackupRoot | ErrInsufficientCapacity | ErrPublicationConflict | ErrPublicationUnknown
  | ErrInvalidArchive | ErrArchiveLimit | OtherBackupError go_error

section \<open>Validity\<close>

definition maximumManifestBytes :: nat where
  "maximumManifestBytes = 64 * 1024"

definition maximumManifestMounts :: nat where
  "maximumManifestMounts = 4096"

definition maximumIdentityBytes :: nat where
  "maximumIdentityBytes = 256"

definition maximumPathBytes :: nat where
  "maximumPathBytes = 4096"

definition validBoundedText :: "string \<Rightarrow> nat \<Rightarrow> bool" where
  "validBoundedText value maximum \<longleftrightarrow> value \<noteq> '''' \<and> length value \<le> maximum \<and> utf8_valid value \<and> \<not> contains_nul value"

definition validIdentityText :: "string \<Rightarrow> bool" where
  "validIdentityText value = validBoundedText value maximumIdentityBytes"

definition validAbsolutePath :: "string \<Rightarrow> bool" where
  "validAbsolutePath value \<longleftrightarrow> validBoundedText value maximumPathBytes \<and> hd value = CHR ''/'' \<and> filepath_Clean value = value"

definition validContainerPath :: "string \<Rightarrow> bool" where
  "validContainerPath value \<longleftrightarrow> validAbsolutePath value \<and> value \<noteq> ''/''"

text \<open>\<open>fmt.Sprintf("artifact-%06d.tar", index+1)\<close>\<close>

definition artifactName :: "nat \<Rightarrow> string" where
  "artifactName index = ''artifact-'' @ zero_padded 6 (index + 1) @ ''.tar''"

definition validArtifactIdentity :: "Artifact \<Rightarrow> nat \<Rightarrow> bool" where
  "validArtifactIdentity artifact index \<longleftrightarrow>
     \<not> rm_ReadOnly (af_Mount artifact) \<and> validAbsolutePath (rm_Source (af_Mount artifact)) \<and>
     validContainerPath (rm_Target (af_Mount artifact)) \<and>
     af_FileName artifact = artifactName index \<and> validInventory (af_Inventory artifact)"

definition validArtifact :: "Artifact \<Rightarrow> nat \<Rightarrow> bool" where
  "validArtifact artifact index \<longleftrightarrow> validArtifactIdentity artifact index \<and>
     (case rm_Kind (af_Mount artifact) of
        MountBind \<Rightarrow> rm_Name (af_Mount artifact) = '''' \<and> af_ProvenanceDigest artifact \<noteq> 0
      | MountVolume \<Rightarrow> validBoundedText (rm_Name (af_Mount artifact)) maximumIdentityBytes \<and> af_ProvenanceDigest artifact = 0
      | MountKindZero \<Rightarrow> False)"

definition validManifestIdentity :: "Manifest \<Rightarrow> bool" where
  "validManifestIdentity manifest \<longleftrightarrow>
     mf_Version manifest = 1 \<and> mf_OperationToken manifest \<noteq> 0 \<and> mf_TransactionID manifest \<noteq> 0 \<and>
     mf_BaseTransactionID manifest \<noteq> 0 \<and> validIdentityText (mf_Project manifest) \<and> validIdentityText (mf_Service manifest) \<and>
     SupportsWorkloads (mf_Runtime manifest) \<and> mf_CreatedUnix manifest > 0"

definition validManifestDigests :: "Manifest \<Rightarrow> bool" where
  "validManifestDigests manifest \<longleftrightarrow>
     mf_SourceDigest manifest \<noteq> 0 \<and> mf_EffectiveDigest manifest \<noteq> 0 \<and> mf_ExecutionDigest manifest \<noteq> 0 \<and>
     validBoundedText (mf_PredecessorWorkloadID manifest) maximumPathBytes"

text \<open>The loop over the artifacts, from an index on, with the target of the one before.\<close>

fun validArtifacts :: "nat \<Rightarrow> string option \<Rightarrow> Artifact list \<Rightarrow> bool" where
  "validArtifacts index before [] \<longleftrightarrow> True"
| "validArtifacts index before (artifact # artifacts) \<longleftrightarrow>
     (if \<not> validArtifact artifact index \<or> (case before of None \<Rightarrow> False | Some target \<Rightarrow> target \<ge> rm_Target (af_Mount artifact)) then False
      else validArtifacts (index + 1) (Some (rm_Target (af_Mount artifact))) artifacts)"

definition validManifest :: "Manifest \<Rightarrow> bool" where
  "validManifest manifest \<longleftrightarrow>
     (if \<not> validManifestIdentity manifest \<or> \<not> validManifestDigests manifest \<or>
         mf_Artifacts manifest = [] \<or> length (mf_Artifacts manifest) > maximumManifestMounts then False
      else validArtifacts 0 None (mf_Artifacts manifest))"

section \<open>The wire format\<close>

record artifactWire =
  aw_Kind :: string
  aw_Name :: string
  aw_Source :: string
  aw_Target :: string
  aw_ProvenanceDigest :: string
  aw_FileName :: string
  aw_EntryCount :: int
  aw_PayloadBytes :: int
  aw_ArchiveBytes :: int
  aw_ArchiveDigest :: string
  aw_SemanticDigest :: string

record manifestWire =
  mw_Version :: int
  mw_OperationToken :: string
  mw_TransactionID :: string
  mw_BaseTransactionID :: string
  mw_Project :: string
  mw_Service :: string
  mw_Runtime :: string
  mw_CreatedUnix :: int
  mw_SourceDigest :: string
  mw_EffectiveDigest :: string
  mw_ExecutionDigest :: string
  mw_PredecessorWorkloadID :: string
  mw_Artifacts :: "artifactWire list"

definition mountKindString :: "MountKind \<Rightarrow> string" where
  "mountKindString kind = (case kind of MountBind \<Rightarrow> ''bind'' | MountVolume \<Rightarrow> ''volume'' | MountKindZero \<Rightarrow> '''')"

definition parseMountKind :: "string \<Rightarrow> MountKind \<times> bool" where
  "parseMountKind value =
     (if value = ''bind'' then (MountBind, True) else if value = ''volume'' then (MountVolume, True) else (MountKindZero, False))"

definition artifactToWire :: "Artifact \<Rightarrow> artifactWire" where
  "artifactToWire artifact =
     \<lparr>aw_Kind = mountKindString (rm_Kind (af_Mount artifact)), aw_Name = rm_Name (af_Mount artifact),
      aw_Source = rm_Source (af_Mount artifact), aw_Target = rm_Target (af_Mount artifact),
      aw_ProvenanceDigest = (if af_ProvenanceDigest artifact \<noteq> 0 then digest_String (af_ProvenanceDigest artifact) else ''''),
      aw_FileName = af_FileName artifact, aw_EntryCount = iv_EntryCount (af_Inventory artifact),
      aw_PayloadBytes = iv_PayloadBytes (af_Inventory artifact), aw_ArchiveBytes = iv_ArchiveBytes (af_Inventory artifact),
      aw_ArchiveDigest = digest_String (iv_ArchiveDigest (af_Inventory artifact)),
      aw_SemanticDigest = digest_String (iv_SemanticDigest (af_Inventory artifact))\<rparr>"

definition manifestToWire :: "Manifest \<Rightarrow> manifestWire" where
  "manifestToWire manifest =
     \<lparr>mw_Version = mf_Version manifest, mw_OperationToken = id_String (mf_OperationToken manifest),
      mw_TransactionID = id_String (mf_TransactionID manifest), mw_BaseTransactionID = id_String (mf_BaseTransactionID manifest),
      mw_Project = mf_Project manifest, mw_Service = mf_Service manifest, mw_Runtime = kind_String (mf_Runtime manifest),
      mw_CreatedUnix = mf_CreatedUnix manifest, mw_SourceDigest = digest_String (mf_SourceDigest manifest),
      mw_EffectiveDigest = digest_String (mf_EffectiveDigest manifest), mw_ExecutionDigest = digest_String (mf_ExecutionDigest manifest),
      mw_PredecessorWorkloadID = mf_PredecessorWorkloadID manifest, mw_Artifacts = map artifactToWire (mf_Artifacts manifest)\<rparr>"

definition parseIdentifier :: "string \<Rightarrow> transaction_id \<times> bool" where
  "parseIdentifier value =
     (if length value \<noteq> 32 \<or> value \<noteq> strings_ToLower value then (0, False)
      else (case hex_DecodeString value of
              None \<Rightarrow> (0, False)
            | Some decoded \<Rightarrow> let identifier = bytes_word decoded in (identifier, identifier \<noteq> 0)))"

definition parseManifestIdentifiers :: "manifestWire \<Rightarrow> transaction_id \<times> transaction_id \<times> transaction_id \<times> bool" where
  "parseManifestIdentifiers wire =
     (case (parseIdentifier (mw_OperationToken wire), parseIdentifier (mw_TransactionID wire), parseIdentifier (mw_BaseTransactionID wire)) of
        ((operation, operationValid), (transaction, transactionValid), (base, baseValid)) \<Rightarrow>
          (operation, transaction, base, operationValid \<and> transactionValid \<and> baseValid))"

definition parseManifestDigests :: "manifestWire \<Rightarrow> (digest \<times> digest \<times> digest) option" where
  "parseManifestDigests wire =
     (case (ParseDigest (mw_SourceDigest wire), ParseDigest (mw_EffectiveDigest wire), ParseDigest (mw_ExecutionDigest wire)) of
        (Inr source, Inr effective, Inr execution) \<Rightarrow> Some (source, effective, execution)
      | _ \<Rightarrow> None)"

definition parseOptionalDigest :: "string \<Rightarrow> digest \<times> bool" where
  "parseOptionalDigest value =
     (if value = '''' then (0, True)
      else (case ParseDigest value of Inl _ \<Rightarrow> (0, False) | Inr digest \<Rightarrow> (digest, digest \<noteq> 0)))"

definition artifactFromWire :: "artifactWire \<Rightarrow> Artifact option" where
  "artifactFromWire wire =
     (case (parseMountKind (aw_Kind wire), ParseDigest (aw_ArchiveDigest wire), ParseDigest (aw_SemanticDigest wire),
            parseOptionalDigest (aw_ProvenanceDigest wire)) of
        ((kind, True), Inr archiveDigest, Inr semanticDigest, (provenance, True)) \<Rightarrow>
          Some \<lparr>af_Mount = \<lparr>rm_Kind = kind, rm_Name = aw_Name wire, rm_Source = aw_Source wire, rm_Target = aw_Target wire, rm_ReadOnly = False\<rparr>,
            af_ProvenanceDigest = provenance, af_FileName = aw_FileName wire,
            af_Inventory = \<lparr>iv_EntryCount = aw_EntryCount wire, iv_PayloadBytes = aw_PayloadBytes wire, iv_ArchiveBytes = aw_ArchiveBytes wire,
              iv_ArchiveDigest = archiveDigest, iv_SemanticDigest = semanticDigest\<rparr>\<rparr>
      | _ \<Rightarrow> None)"

definition manifestFromWire :: "manifestWire \<Rightarrow> Manifest option" where
  "manifestFromWire wire =
     (case (parseManifestIdentifiers wire, ParseRuntimeKind (mw_Runtime wire), parseManifestDigests wire) of
        ((operation, transaction, base, True), (runtime, True), Some (source, effective, execution)) \<Rightarrow>
          if length (mw_Artifacts wire) > maximumManifestMounts then None
          else (case those (map artifactFromWire (mw_Artifacts wire)) of
            None \<Rightarrow> None
          | Some artifacts \<Rightarrow>
              let manifest = \<lparr>mf_Version = mw_Version wire, mf_OperationToken = operation, mf_TransactionID = transaction,
                mf_BaseTransactionID = base, mf_Project = mw_Project wire, mf_Service = mw_Service wire, mf_Runtime = runtime,
                mf_CreatedUnix = mw_CreatedUnix wire, mf_SourceDigest = source, mf_EffectiveDigest = effective,
                mf_ExecutionDigest = execution, mf_PredecessorWorkloadID = mw_PredecessorWorkloadID wire, mf_Artifacts = artifacts\<rparr>
              in if validManifest manifest then Some manifest else None)
      | _ \<Rightarrow> None)"

section \<open>Its JSON text\<close>

text \<open>\<open>json.Marshal\<close> of the wire structures: the fields in the order of their declaration, under their tags.\<close>

definition artifact_json :: "artifactWire \<Rightarrow> json" where
  "artifact_json w = JObject
     [(''kind'', JString (aw_Kind w)), (''name'', JString (aw_Name w)), (''source'', JString (aw_Source w)),
      (''target'', JString (aw_Target w)), (''provenance_digest'', JString (aw_ProvenanceDigest w)),
      (''file_name'', JString (aw_FileName w)), (''entry_count'', JNumber (decimal_int (aw_EntryCount w))),
      (''payload_bytes'', JNumber (decimal_int (aw_PayloadBytes w))), (''archive_bytes'', JNumber (decimal_int (aw_ArchiveBytes w))),
      (''archive_digest'', JString (aw_ArchiveDigest w)), (''semantic_digest'', JString (aw_SemanticDigest w))]"

definition manifest_json :: "manifestWire \<Rightarrow> json" where
  "manifest_json w = JObject
     [(''version'', JNumber (decimal_int (mw_Version w))), (''operation_token'', JString (mw_OperationToken w)),
      (''transaction_id'', JString (mw_TransactionID w)), (''base_transaction_id'', JString (mw_BaseTransactionID w)),
      (''project'', JString (mw_Project w)), (''service'', JString (mw_Service w)), (''runtime'', JString (mw_Runtime w)),
      (''created_unix'', JNumber (decimal_int (mw_CreatedUnix w))), (''source_digest'', JString (mw_SourceDigest w)),
      (''effective_digest'', JString (mw_EffectiveDigest w)), (''execution_digest'', JString (mw_ExecutionDigest w)),
      (''predecessor_workload_id'', JString (mw_PredecessorWorkloadID w)),
      (''artifacts'', JArray (map artifact_json (mw_Artifacts w)))]"

definition canonicalManifest :: "Manifest \<Rightarrow> string" where
  "canonicalManifest manifest = json_print (manifest_json (manifestToWire manifest))"

text \<open>\<open>decoder.Decode\<close> into the wire structures, which start as zero values.\<close>

definition artifact_fields :: "artifactWire fields" where
  "artifact_fields =
     [(''kind'', \<lambda>w v. map_option (\<lambda>x. w\<lparr>aw_Kind := x\<rparr>) (decode_string (aw_Kind w) v)),
      (''name'', \<lambda>w v. map_option (\<lambda>x. w\<lparr>aw_Name := x\<rparr>) (decode_string (aw_Name w) v)),
      (''source'', \<lambda>w v. map_option (\<lambda>x. w\<lparr>aw_Source := x\<rparr>) (decode_string (aw_Source w) v)),
      (''target'', \<lambda>w v. map_option (\<lambda>x. w\<lparr>aw_Target := x\<rparr>) (decode_string (aw_Target w) v)),
      (''provenance_digest'', \<lambda>w v. map_option (\<lambda>x. w\<lparr>aw_ProvenanceDigest := x\<rparr>) (decode_string (aw_ProvenanceDigest w) v)),
      (''file_name'', \<lambda>w v. map_option (\<lambda>x. w\<lparr>aw_FileName := x\<rparr>) (decode_string (aw_FileName w) v)),
      (''entry_count'', \<lambda>w v. map_option (\<lambda>x. w\<lparr>aw_EntryCount := x\<rparr>) (decode_int64 (aw_EntryCount w) v)),
      (''payload_bytes'', \<lambda>w v. map_option (\<lambda>x. w\<lparr>aw_PayloadBytes := x\<rparr>) (decode_int64 (aw_PayloadBytes w) v)),
      (''archive_bytes'', \<lambda>w v. map_option (\<lambda>x. w\<lparr>aw_ArchiveBytes := x\<rparr>) (decode_int64 (aw_ArchiveBytes w) v)),
      (''archive_digest'', \<lambda>w v. map_option (\<lambda>x. w\<lparr>aw_ArchiveDigest := x\<rparr>) (decode_string (aw_ArchiveDigest w) v)),
      (''semantic_digest'', \<lambda>w v. map_option (\<lambda>x. w\<lparr>aw_SemanticDigest := x\<rparr>) (decode_string (aw_SemanticDigest w) v))]"

definition zero_artifactWire :: artifactWire where
  "zero_artifactWire = \<lparr>aw_Kind = '''', aw_Name = '''', aw_Source = '''', aw_Target = '''', aw_ProvenanceDigest = '''', aw_FileName = '''',
     aw_EntryCount = 0, aw_PayloadBytes = 0, aw_ArchiveBytes = 0, aw_ArchiveDigest = '''', aw_SemanticDigest = ''''\<rparr>"

definition zero_manifestWire :: manifestWire where
  "zero_manifestWire = \<lparr>mw_Version = 0, mw_OperationToken = '''', mw_TransactionID = '''', mw_BaseTransactionID = '''', mw_Project = '''',
     mw_Service = '''', mw_Runtime = '''', mw_CreatedUnix = 0, mw_SourceDigest = '''', mw_EffectiveDigest = '''', mw_ExecutionDigest = '''',
     mw_PredecessorWorkloadID = '''', mw_Artifacts = []\<rparr>"

definition manifest_fields :: "manifestWire fields" where
  "manifest_fields =
     [(''version'', \<lambda>w v. map_option (\<lambda>x. w\<lparr>mw_Version := x\<rparr>) (decode_int64 (mw_Version w) v)),
      (''operation_token'', \<lambda>w v. map_option (\<lambda>x. w\<lparr>mw_OperationToken := x\<rparr>) (decode_string (mw_OperationToken w) v)),
      (''transaction_id'', \<lambda>w v. map_option (\<lambda>x. w\<lparr>mw_TransactionID := x\<rparr>) (decode_string (mw_TransactionID w) v)),
      (''base_transaction_id'', \<lambda>w v. map_option (\<lambda>x. w\<lparr>mw_BaseTransactionID := x\<rparr>) (decode_string (mw_BaseTransactionID w) v)),
      (''project'', \<lambda>w v. map_option (\<lambda>x. w\<lparr>mw_Project := x\<rparr>) (decode_string (mw_Project w) v)),
      (''service'', \<lambda>w v. map_option (\<lambda>x. w\<lparr>mw_Service := x\<rparr>) (decode_string (mw_Service w) v)),
      (''runtime'', \<lambda>w v. map_option (\<lambda>x. w\<lparr>mw_Runtime := x\<rparr>) (decode_string (mw_Runtime w) v)),
      (''created_unix'', \<lambda>w v. map_option (\<lambda>x. w\<lparr>mw_CreatedUnix := x\<rparr>) (decode_int64 (mw_CreatedUnix w) v)),
      (''source_digest'', \<lambda>w v. map_option (\<lambda>x. w\<lparr>mw_SourceDigest := x\<rparr>) (decode_string (mw_SourceDigest w) v)),
      (''effective_digest'', \<lambda>w v. map_option (\<lambda>x. w\<lparr>mw_EffectiveDigest := x\<rparr>) (decode_string (mw_EffectiveDigest w) v)),
      (''execution_digest'', \<lambda>w v. map_option (\<lambda>x. w\<lparr>mw_ExecutionDigest := x\<rparr>) (decode_string (mw_ExecutionDigest w) v)),
      (''predecessor_workload_id'', \<lambda>w v. map_option (\<lambda>x. w\<lparr>mw_PredecessorWorkloadID := x\<rparr>) (decode_string (mw_PredecessorWorkloadID w) v)),
      (''artifacts'', \<lambda>w v. map_option (\<lambda>x. w\<lparr>mw_Artifacts := x\<rparr>) (decode_slice (decode_struct artifact_fields zero_artifactWire) v))]"

section \<open>Encoding and decoding\<close>

definition EncodeManifest :: "hash \<Rightarrow> Manifest \<Rightarrow> backup_error + string \<times> digest" where
  "EncodeManifest H manifest =
     (if \<not> validManifest manifest then Inl ErrInvalidManifest
      else let raw = canonicalManifest manifest in
        if length raw > maximumManifestBytes then Inl ErrInvalidManifest else Inr (raw, H (string_bytes raw)))"

definition DecodeManifest :: "hash \<Rightarrow> io_Reader \<Rightarrow> backup_error + Manifest \<times> digest" where
  "DecodeManifest H reader =
     (case Read reader maximumManifestBytes of
        None \<Rightarrow> Inl ErrInvalidManifest
      | Some raw \<Rightarrow>
          (case Decode \<lparr>rd_bytes = raw, rd_fails = False\<rparr> maximumManifestBytes (decode_struct manifest_fields zero_manifestWire) of
             None \<Rightarrow> Inl ErrInvalidManifest
           | Some wire \<Rightarrow>
               (case manifestFromWire wire of
                  None \<Rightarrow> Inl ErrInvalidManifest
                | Some manifest \<Rightarrow>
                    let canonical = canonicalManifest manifest in
                    if raw \<noteq> canonical then Inl ErrInvalidManifest else Inr (manifest, H (string_bytes canonical)))))"

definition ManifestPath :: "transaction_id \<Rightarrow> backup_error + string" where
  "ManifestPath transaction = (if transaction = 0 then Inl ErrInvalidManifest else Inr (id_String transaction @ ''/'' @ ''manifest.json''))"

section \<open>Texts of a valid manifest\<close>

lemma decimal_ascii: "c \<in> set (decimal n) \<Longrightarrow> in_range 0 0x7F c"
  by (drule decimal_digits) (simp add: in_range_def)

lemma utf8_valid_texts [simp]: "utf8_valid (id_String i)" "utf8_valid (digest_String d)" "utf8_valid (decimal n)"
proof -
  show "utf8_valid (id_String i)" using hex_text unfolding id_String_def by (intro utf8_ascii) blast
  have "\<forall>c \<in> set ''sha256:''. in_range 0 0x7F c" by (simp add: in_range_def)
  then show "utf8_valid (digest_String d)" using hex_text unfolding digest_String_def by (intro utf8_ascii) auto
  show "utf8_valid (decimal n)" using decimal_ascii by (intro utf8_ascii) blast
qed

lemma utf8_valid_artifactName [simp]: "utf8_valid (artifactName i)"
proof -
  have "\<forall>c \<in> set ''artifact-''. in_range 0 0x7F c" "\<forall>c \<in> set ''.tar''. in_range 0 0x7F c" "in_range 0 0x7F (CHR ''0'')"
    by (simp_all add: in_range_def)
  then show ?thesis using decimal_ascii unfolding artifactName_def zero_padded_def by (intro utf8_ascii) (simp only: set_append ball_Un set_replicate_conv_if, auto)
qed

lemma validArtifacts_mem: "validArtifacts i before as \<Longrightarrow> a \<in> set as \<Longrightarrow> \<exists>j. validArtifact a j"
  by (induction i before as rule: validArtifacts.induct) (auto split: if_split_asm)

lemma valid_artifact_fields:
  assumes "validArtifact a i"
  shows "\<not> rm_ReadOnly (af_Mount a)" "rm_Kind (af_Mount a) \<noteq> MountKindZero"
    "utf8_valid (rm_Name (af_Mount a))" "utf8_valid (rm_Source (af_Mount a))" "utf8_valid (rm_Target (af_Mount a))" "utf8_valid (af_FileName a)"
    "iv_EntryCount (af_Inventory a) \<ge> 0" "iv_PayloadBytes (af_Inventory a) \<ge> 0" "iv_ArchiveBytes (af_Inventory a) \<ge> 0"
  using assms by (auto simp: validArtifact_def validArtifactIdentity_def validContainerPath_def validAbsolutePath_def validBoundedText_def
      validInventory_def split: MountKind.split_asm)

lemma valid_manifest_fields:
  assumes "validManifest m"
  shows "\<forall>a \<in> set (mf_Artifacts m). \<exists>i. validArtifact a i" "utf8_valid (mf_Project m)" "utf8_valid (mf_Service m)"
    "utf8_valid (mf_PredecessorWorkloadID m)" "SupportsWorkloads (mf_Runtime m)" "mf_Version m = 1" "mf_CreatedUnix m > 0"
    "mf_OperationToken m \<noteq> 0" "mf_TransactionID m \<noteq> 0" "mf_BaseTransactionID m \<noteq> 0" "length (mf_Artifacts m) \<le> maximumManifestMounts"
  using assms validArtifacts_mem [of 0 None "mf_Artifacts m"]
  by (auto simp: validManifest_def validManifestIdentity_def validManifestDigests_def validIdentityText_def validBoundedText_def split: if_split_asm)

lemma utf8_valid_runtime: "SupportsWorkloads k \<Longrightarrow> utf8_valid (kind_String k)"
  by (auto simp: SupportsWorkloads_def kind_String_def in_range_def)

lemma utf8_valid_mount_kind: "utf8_valid (mountKindString k)"
  by (cases k) (auto simp: mountKindString_def in_range_def)

lemma plain_artifact: "validArtifact a i \<Longrightarrow> plain (artifact_json (artifactToWire a))"
  using valid_artifact_fields [of a i]
  by (auto simp: artifact_json_def artifactToWire_def utf8_valid_mount_kind in_range_def)

lemma plain_manifest:
  assumes "validManifest m"
  shows "plain (manifest_json (manifestToWire m))"
  using valid_manifest_fields [OF assms] plain_artifact utf8_valid_runtime
  by (auto simp: manifest_json_def manifestToWire_def in_range_def)

section \<open>Decoding what was encoded\<close>

definition int64 :: "int \<Rightarrow> bool" where
  "int64 n \<longleftrightarrow> - (2 ^ 63) \<le> n \<and> n < 2 ^ 63"

definition int64_artifact :: "artifactWire \<Rightarrow> bool" where
  "int64_artifact w \<longleftrightarrow> int64 (aw_EntryCount w) \<and> int64 (aw_PayloadBytes w) \<and> int64 (aw_ArchiveBytes w)"

definition int64_manifest :: "manifestWire \<Rightarrow> bool" where
  "int64_manifest w \<longleftrightarrow> int64 (mw_Version w) \<and> int64 (mw_CreatedUnix w) \<and> (\<forall>a \<in> set (mw_Artifacts w). int64_artifact a)"

lemma those_map: "those (map f xs) = (if \<exists>x \<in> set xs. f x = None then None else Some (map (the \<circ> f) xs))"
  by (induction xs) (auto split: option.split)

lemma parse_int64_printed: "parse_int64 (decimal_int n) = (if int64 n then Some n else None)"
proof -
  have "list_all is_digit (decimal m)" for m by (simp add: list_all_iff decimal_digits is_digit_def)
  then show ?thesis using decimal_no_sign
    by (auto simp: decimal_int_def parse_int64_def undecimal_decimal decimal_nonempty int64_def Let_def)
qed

lemma decode_printed_int: "decode_int64 old (JNumber (decimal_int n)) = (if int64 n then Some n else None)"
  by (simp add: decode_int64_def parse_int64_printed)

lemma decode_printed_string: "decode_string old (JString s) = Some s"
  by (simp add: decode_string_def)

lemma find_exact: "map_of fs k = Some f \<Longrightarrow> find_field fs k = Some f"
  by (simp add: find_field_def)

lemma decode_artifact: "decode_struct artifact_fields zero_artifactWire (artifact_json w) = (if int64_artifact w then Some w else None)"
  unfolding decode_struct_def artifact_json_def json.case artifact_fields_def
  by (cases w) (simp add: find_exact decode_printed_int decode_printed_string zero_artifactWire_def int64_artifact_def)

lemma decode_manifest: "decode_struct manifest_fields zero_manifestWire (manifest_json w) = (if int64_manifest w then Some w else None)"
proof -
  have "decode_slice (decode_struct artifact_fields zero_artifactWire) (JArray (map artifact_json as)) =
      (if \<forall>a \<in> set as. int64_artifact a then Some as else None)" for as
    by (auto simp: decode_slice_def those_map decode_artifact o_def split: if_split_asm intro!: map_idI)
  then show ?thesis unfolding decode_struct_def manifest_json_def json.case manifest_fields_def
    by (cases w) (simp add: find_exact decode_printed_int decode_printed_string zero_manifestWire_def int64_manifest_def)
qed

lemma parseIdentifier_printed: "parseIdentifier (id_String i) = (i, i \<noteq> 0)"
  by (simp add: parseIdentifier_def id_String_def strings_ToLower_hex hex_decode_encode bytes_word_bytes Let_def)

lemma digest_String_nonempty [simp]: "digest_String d \<noteq> []"
  by (simp add: digest_String_def)

lemma artifactFromWire_ToWire: "validArtifact a i \<Longrightarrow> artifactFromWire (artifactToWire a) = Some a"
  using valid_artifact_fields(1,2) [of a i]
  by (cases "rm_Kind (af_Mount a)")
    (auto simp: artifactFromWire_def artifactToWire_def parseMountKind_def mountKindString_def parseOptionalDigest_def)

lemma manifestFromWire_ToWire:
  assumes "validManifest m"
  shows "manifestFromWire (manifestToWire m) = Some m"
proof -
  note fields = valid_manifest_fields [OF assms]
  have "those (map artifactFromWire (map artifactToWire (mf_Artifacts m))) = Some (mf_Artifacts m)"
    using fields(1) artifactFromWire_ToWire by (force simp: those_map intro!: map_idI)
  moreover have "ParseRuntimeKind (kind_String (mf_Runtime m)) = (mf_Runtime m, True)"
    using fields(5) by (auto simp: SupportsWorkloads_def ParseRuntimeKind_def kind_String_def)
  ultimately show ?thesis using fields(8-11) assms
    by (cases m) (simp add: manifestFromWire_def manifestToWire_def parseManifestIdentifiers_def parseIdentifier_printed parseManifestDigests_def Let_def)
qed

lemma fold_max_bound: "\<forall>x \<in> set xs. x \<le> b \<Longrightarrow> a \<le> b \<Longrightarrow> fold max xs a \<le> (b :: nat)"
  by (induction xs arbitrary: a) auto

lemma depth_manifest: "json_depth (manifest_json w) \<le> 10000"
proof -
  have "json_depth (artifact_json a) = 1" for a by (simp add: artifact_json_def)
  then have "fold max (map json_depth (map artifact_json as)) 0 \<le> 1" for as by (intro fold_max_bound) auto
  then have "json_depth (JArray (map artifact_json as)) \<le> 2" for as by simp
  then have "json_depth (manifest_json w) \<le> Suc 2"
    unfolding manifest_json_def json_depth.simps list.map snd_conv Suc_le_mono by (intro fold_max_bound) simp_all
  then show ?thesis by simp
qed

lemma consume_manifest:
  assumes "validManifest m" "int64_manifest (manifestToWire m)"
  shows "consumeValue (manifest_json (manifestToWire m))"
proof -
  have "finite_number (decimal_int n)" if "int64 n" "n \<ge> 0" for n using that by (intro finite_number_decimal) (simp add: int64_def)
  moreover have "int64_artifact (artifactToWire a)" "\<exists>i. validArtifact a i" if "a \<in> set (mf_Artifacts m)" for a
    using that assms(2) valid_manifest_fields(1) [OF assms(1)] by (auto simp: int64_manifest_def manifestToWire_def)
  moreover have "iv_EntryCount (af_Inventory a) \<ge> 0 \<and> iv_PayloadBytes (af_Inventory a) \<ge> 0 \<and> iv_ArchiveBytes (af_Inventory a) \<ge> 0"
    if "\<exists>i. validArtifact a i" for a using that valid_artifact_fields(7-9) by blast
  ultimately have "consumeValue (artifact_json (artifactToWire a))" if "a \<in> set (mf_Artifacts m)" for a
    using that by (simp add: artifact_json_def artifactToWire_def int64_artifact_def)
  moreover have "finite_number (decimal_int (mf_Version m))" "finite_number (decimal_int (mf_CreatedUnix m))"
    using assms(2) valid_manifest_fields(6,7) [OF assms(1)]
    by (intro finite_number_decimal; simp add: int64_manifest_def manifestToWire_def int64_def)+
  ultimately show ?thesis by (simp add: manifest_json_def manifestToWire_def)
qed

lemma Read_Some: "Read reader limit = Some raw \<longleftrightarrow>
    \<not> rd_fails reader \<and> raw = rd_bytes reader \<and> length raw \<le> limit \<and> uniqueKeys raw"
  by (auto simp: Read_def read_limited_def split: if_split_asm option.split_asm)

lemma decode_canonical:
  assumes "validManifest m"
  shows "json_parse (canonicalManifest m) = Some (manifest_json (manifestToWire m))"
  unfolding canonicalManifest_def by (intro json_parse_print plain_manifest assms)

lemma decoded_manifest_valid: "manifestFromWire w = Some m \<Longrightarrow> validManifest m"
  by (auto simp: manifestFromWire_def Let_def split: prod.split_asm bool.split_asm option.split_asm if_split_asm)

lemma decode_encoded:
  assumes "\<not> rd_fails reader" and "int64_manifest (manifestToWire m)" and encoded: "EncodeManifest H m = Inr (rd_bytes reader, d)"
  shows "DecodeManifest H reader = Inr (m, d)"
proof -
  have valid: "validManifest m" and raw: "rd_bytes reader = canonicalManifest m" "d = H (string_bytes (canonicalManifest m))"
      and len: "length (canonicalManifest m) \<le> maximumManifestBytes"
    using encoded by (auto simp: EncodeManifest_def Let_def split: if_split_asm)
  have unique: "uniqueKeys (canonicalManifest m)"
    using consume_manifest [OF valid assms(2)] by (simp add: uniqueKeys_def decode_canonical [OF valid])
  then have read: "Read reader maximumManifestBytes = Some (canonicalManifest m)"
      "Read \<lparr>rd_bytes = canonicalManifest m, rd_fails = False\<rparr> maximumManifestBytes = Some (canonicalManifest m)"
    using assms(1) raw len by (auto simp: Read_Some)
  then have "Decode \<lparr>rd_bytes = canonicalManifest m, rd_fails = False\<rparr> maximumManifestBytes (decode_struct manifest_fields zero_manifestWire) =
      Some (manifestToWire m)"
    using assms(2) by (simp add: Decode_def decode_canonical [OF valid] depth_manifest decode_manifest)
  then show ?thesis using read raw by (simp add: DecodeManifest_def manifestFromWire_ToWire [OF valid])
qed

lemma decoded_encodes:
  assumes "DecodeManifest H reader = Inr (m, d)"
  shows "\<not> rd_fails reader \<and> int64_manifest (manifestToWire m) \<and> EncodeManifest H m = Inr (rd_bytes reader, d)"
proof -
  obtain raw w where raw: "Read reader maximumManifestBytes = Some raw"
      "Decode \<lparr>rd_bytes = raw, rd_fails = False\<rparr> maximumManifestBytes (decode_struct manifest_fields zero_manifestWire) = Some w"
      "manifestFromWire w = Some m" "raw = canonicalManifest m" "d = H (string_bytes raw)"
    using assms by (auto simp: DecodeManifest_def Let_def split: option.split_asm if_split_asm)
  have valid: "validManifest m" using raw(3) by (rule decoded_manifest_valid)
  have "decode_struct manifest_fields zero_manifestWire (manifest_json (manifestToWire m)) = Some w"
    using raw(2) unfolding raw(4) Decode_def
    by (auto simp: Read_Some decode_canonical [OF valid] split: option.split_asm if_split_asm)
  then have "int64_manifest (manifestToWire m)" by (simp add: decode_manifest split: if_split_asm)
  with raw valid show ?thesis by (auto simp: Read_Some EncodeManifest_def Let_def)
qed

text \<open>
  (C17) Decoding a backup manifest accepts exactly the canonical text of a valid manifest: \<open>DecodeManifest\<close> returns a manifest and a
  digest if and only if the reader delivers, without failing, the bytes that \<open>EncodeManifest\<close> produces for this manifest and with this
  digest, and the numbers of the manifest are 64-bit integers. In particular encoding and then decoding gives the manifest back, no
  second spelling of a manifest is accepted, and no invalid or oversized manifest is ever read.
\<close>

theorem DecodeManifest_iff_EncodeManifest:
  "DecodeManifest H reader = Inr (m, d) \<longleftrightarrow>
     \<not> rd_fails reader \<and> int64_manifest (manifestToWire m) \<and> EncodeManifest H m = Inr (rd_bytes reader, d)"
  using decode_encoded decoded_encodes by blast

end
