(* ===== verification/Capacity.thy ===== *)
theory Capacity
  imports Manifest
begin

text \<open>
  The capacity check of a backup publication (\<open>src/internal/backup/capacity_unix.go\<close>), on 64-bit words. The theorems say that none of
  the sums and products wraps around, and that an accepted publication leaves the promised reserve.
\<close>

section \<open>Sizes\<close>

definition publicationWorkspaceBytes :: "64 word" where
  "publicationWorkspaceBytes = 2 ^ 20"

definition minimumFreeBytes :: "64 word" where
  "minimumFreeBytes = 2 ^ 30"

definition MaxUint64 :: "64 word" where
  "MaxUint64 = - 1"

definition capacityProduct :: "64 word \<Rightarrow> 64 word \<Rightarrow> 64 word option" where
  "capacityProduct blocks amount = (if amount \<noteq> 0 \<and> blocks > MaxUint64 div amount then None else Some (blocks * amount))"

definition allocatedBytes :: "64 word \<Rightarrow> 64 word \<Rightarrow> 64 word option" where
  "allocatedBytes amount fragmentSize =
     (if fragmentSize = 0 then None
      else let fragments = amount div fragmentSize;
               fragments = (if amount mod fragmentSize \<noteq> 0 then fragments + 1 else fragments)
           in capacityProduct fragments fragmentSize)"

fun add_artifacts :: "64 word \<Rightarrow> 64 word \<Rightarrow> Artifact list \<Rightarrow> 64 word option" where
  "add_artifacts fragmentSize required [] = Some required"
| "add_artifacts fragmentSize required (artifact # artifacts) =
     (if iv_ArchiveBytes (af_Inventory artifact) < 0 then None
      else (case allocatedBytes (word_of_int (iv_ArchiveBytes (af_Inventory artifact))) fragmentSize of
        None \<Rightarrow> None
      | Some archiveBytes \<Rightarrow>
          if required > MaxUint64 - archiveBytes then None else add_artifacts fragmentSize (required + archiveBytes) artifacts))"

definition publicationBytes :: "Manifest \<Rightarrow> nat \<Rightarrow> 64 word \<Rightarrow> 64 word option" where
  "publicationBytes manifest manifestBytes fragmentSize =
     (case allocatedBytes publicationWorkspaceBytes fragmentSize of
        None \<Rightarrow> None
      | Some required \<Rightarrow> (case add_artifacts fragmentSize required (mf_Artifacts manifest) of
          None \<Rightarrow> None
        | Some required \<Rightarrow> (case allocatedBytes (word_of_nat manifestBytes) fragmentSize of
            None \<Rightarrow> None
          | Some manifestAllocation \<Rightarrow>
              if required > MaxUint64 - manifestAllocation then None else Some (required + manifestAllocation))))"

section \<open>File systems\<close>

record filesystemCapacity =
  fc_identity :: "(int \<times> int) \<times> 64 word"
  fc_totalBytes :: "64 word"
  fc_availableBytes :: "64 word"
  fc_availableInodes :: "64 word"

definition filesystemCapacityFromValues ::
  "int \<times> int \<Rightarrow> 64 word \<Rightarrow> 64 word \<Rightarrow> 64 word \<Rightarrow> 64 word \<Rightarrow> backup_error + filesystemCapacity" where
  "filesystemCapacityFromValues filesystemID fragmentSize totalBlocks availableBlocks availableInodes =
     (case (capacityProduct totalBlocks fragmentSize, capacityProduct availableBlocks fragmentSize) of
        (Some totalBytes, Some availableBytes) \<Rightarrow>
          if fragmentSize = 0 \<or> totalBytes = 0 then Inl ErrInvalidBackupRoot
          else Inr \<lparr>fc_identity = (filesystemID, fragmentSize), fc_totalBytes = totalBytes, fc_availableBytes = availableBytes,
            fc_availableInodes = availableInodes\<rparr>
      | _ \<Rightarrow> Inl ErrInvalidBackupRoot)"

text \<open>What \<open>fstatfs\<close> reports on Linux, when it does not fail; \<open>Frsize\<close> is signed.\<close>

record Statfs_t =
  sf_Fsid :: "int \<times> int"
  sf_Frsize :: int
  sf_Blocks :: "64 word"
  sf_Bavail :: "64 word"
  sf_Ffree :: "64 word"

definition linuxFilesystemCapacity :: "Statfs_t \<Rightarrow> backup_error + filesystemCapacity" where
  "linuxFilesystemCapacity value =
     (if sf_Frsize value \<le> 0 then Inl ErrInvalidBackupRoot
      else filesystemCapacityFromValues (sf_Fsid value) (word_of_int (sf_Frsize value)) (sf_Blocks value) (sf_Bavail value) (sf_Ffree value))"

definition readFilesystemCapacity :: "Statfs_t option \<Rightarrow> backup_error + filesystemCapacity" where
  "readFilesystemCapacity fstatfs = (case fstatfs of None \<Rightarrow> Inl ErrInvalidBackupRoot | Some value \<Rightarrow> linuxFilesystemCapacity value)"

definition percentageCeiling :: "64 word \<Rightarrow> 64 word \<Rightarrow> 64 word" where
  "percentageCeiling value percent =
     (let quotient = value div 100; remainder = value mod 100; result = quotient * percent
      in if remainder \<noteq> 0 then result + (remainder * percent + 100 - 1) div 100 else result)"

definition capacityAvailable :: "filesystemCapacity \<Rightarrow> PublicationCapacity \<Rightarrow> bool" where
  "capacityAvailable observed prepared =
     (if fc_availableBytes observed < ca_requiredBytes prepared \<or> fc_availableInodes observed < ca_requiredInodes prepared then False
      else let remaining = fc_availableBytes observed - ca_requiredBytes prepared;
               percentage = percentageCeiling (fc_totalBytes observed) 10;
               reserve = (if percentage > minimumFreeBytes then percentage else minimumFreeBytes)
           in remaining \<ge> reserve)"

section \<open>Preparing and validating\<close>

definition validRootPath :: "string \<Rightarrow> bool" where
  "validRootPath value \<longleftrightarrow> value \<noteq> [] \<and> hd value = CHR ''/'' \<and> filepath_Clean value = value \<and> value \<noteq> ''/'' \<and> filepath_Base value \<noteq> ''.''"

text \<open>
  What opening the root beneath its parent finds: no parent, no root yet (the parent stands for it), an entry that is no private
  directory or cannot be opened, or the root.
\<close>

datatype capacity_target = TargetNoParent | TargetMissing | TargetInvalid | TargetFound

definition openCapacityTarget :: "capacity_target \<Rightarrow> backup_error + bool" where
  "openCapacityTarget target =
     (case target of TargetNoParent \<Rightarrow> Inl ErrInvalidBackupRoot | TargetInvalid \<Rightarrow> Inl ErrInvalidBackupRoot
      | TargetFound \<Rightarrow> Inr False | TargetMissing \<Rightarrow> Inr True)"

definition preparePublicationCapacity ::
  "hash \<Rightarrow> string \<Rightarrow> Manifest \<Rightarrow> capacity_target \<Rightarrow> backup_error + filesystemCapacity \<Rightarrow> backup_error + PublicationCapacity" where
  "preparePublicationCapacity H root manifest target capacity =
     (if \<not> validRootPath root then Inl ErrInvalidBackupRoot
      else (case EncodeManifest H manifest of
        Inl _ \<Rightarrow> Inl ErrInvalidManifest
      | Inr (raw, digest) \<Rightarrow> (case openCapacityTarget target of
          Inl err \<Rightarrow> Inl err
        | Inr rootMissing \<Rightarrow>
            let requiredInodes = word_of_nat (length (mf_Artifacts manifest) + 2);
                requiredInodes = (if rootMissing then requiredInodes + 1 else requiredInodes)
            in (case capacity of
              Inl err \<Rightarrow> Inl err
            | Inr observed \<Rightarrow> (case publicationBytes manifest (length raw) (snd (fc_identity observed)) of
                None \<Rightarrow> Inl ErrInvalidManifest
              | Some requiredBytes \<Rightarrow>
                  let prepared = \<lparr>ca_manifest = digest, ca_filesystem = fc_identity observed, ca_requiredBytes = requiredBytes,
                    ca_requiredInodes = requiredInodes\<rparr>
                  in if \<not> capacityAvailable observed prepared then Inl ErrInsufficientCapacity else Inr prepared)))))"

definition validatePublicationCapacityWith ::
  "hash \<Rightarrow> Manifest \<Rightarrow> PublicationCapacity \<Rightarrow> backup_error + filesystemCapacity \<Rightarrow> backup_error option" where
  "validatePublicationCapacityWith H manifest prepared capacity =
     (case EncodeManifest H manifest of
        Inl _ \<Rightarrow> Some ErrInvalidManifest
      | Inr (_, digest) \<Rightarrow>
          if digest \<noteq> ca_manifest prepared \<or> ca_filesystem prepared = ((0, 0), 0) \<or> ca_requiredBytes prepared = 0 \<or> ca_requiredInodes prepared = 0
          then Some ErrInvalidManifest
          else (case capacity of
            Inl err \<Rightarrow> Some err
          | Inr observed \<Rightarrow>
              if fc_identity observed \<noteq> ca_filesystem prepared then Some ErrInvalidBackupRoot
              else if \<not> capacityAvailable observed prepared then Some ErrInsufficientCapacity
              else None))"

section \<open>No wrap-around\<close>

text \<open>The number of bytes that a file of a given size takes, in fragments, and the bytes of a whole publication.\<close>

definition allocation :: "nat \<Rightarrow> nat \<Rightarrow> nat" where
  "allocation fragment amount = (amount + fragment - 1) div fragment * fragment"

definition publication_size :: "nat \<Rightarrow> Manifest \<Rightarrow> nat \<Rightarrow> nat" where
  "publication_size fragment manifest manifestBytes =
     allocation fragment (2 ^ 20) + (\<Sum>a \<leftarrow> mf_Artifacts manifest. allocation fragment (nat (iv_ArchiveBytes (af_Inventory a)))) +
     allocation fragment manifestBytes"

lemma unat_MaxUint64: "unat MaxUint64 = 2 ^ 64 - 1"
  by (simp add: MaxUint64_def unsigned_minus_1_eq_mask mask_eq_exp_minus_1)

lemma add_exceeds: "required > MaxUint64 - x \<longleftrightarrow> unat required + unat x \<ge> 2 ^ 64" for x required :: "64 word"
proof -
  have "x \<le> MaxUint64" by (simp add: MaxUint64_def)
  then have "unat (MaxUint64 - x) = 2 ^ 64 - 1 - unat x" by (simp add: unat_sub unat_MaxUint64)
  then show ?thesis using unsigned_less [of x, where ?'a = nat] by (auto simp: word_less_nat_alt)
qed

lemma unat_add_fits: "unat x + unat y < 2 ^ 64 \<Longrightarrow> unat (x + y) = unat x + unat y" for x y :: "64 word"
  by (simp add: unat_word_ariths)

lemma unat_small: "k < 2 ^ 64 \<Longrightarrow> unat (word_of_nat k :: 64 word) = k"
  by (simp add: unat_of_nat)

lemma capacityProduct_exact:
  "capacityProduct blocks amount = (if unat blocks * unat amount < 2 ^ 64 then Some (word_of_nat (unat blocks * unat amount)) else None)"
proof (cases "amount = 0")
  case False
  then have "unat amount > 0" by (simp add: unat_gt_0)
  then have "blocks > MaxUint64 div amount \<longleftrightarrow> unat blocks * unat amount > 2 ^ 64 - 1"
    unfolding word_less_nat_alt unat_div unat_MaxUint64 by (rule div_less_iff_less_mult)
  then show ?thesis using False by (auto simp: capacityProduct_def)
qed (simp add: capacityProduct_def)

lemma allocation_bound: "fragment > 0 \<Longrightarrow> amount \<le> allocation fragment amount" "fragment > 0 \<Longrightarrow> allocation fragment amount < amount + fragment"
proof -
  assume fragment: "fragment > 0"
  have "(amount + fragment - 1) div fragment * fragment + (amount + fragment - 1) mod fragment = amount + fragment - 1" by simp
  moreover have "(amount + fragment - 1) mod fragment < fragment" using fragment by simp
  ultimately show "amount \<le> allocation fragment amount" "allocation fragment amount < amount + fragment"
    using fragment unfolding allocation_def by linarith+
qed

lemma allocation_fragments: "fragment > 0 \<Longrightarrow>
    allocation fragment amount = (if amount mod fragment \<noteq> 0 then amount div fragment + 1 else amount div fragment) * fragment"
proof -
  assume fragment: "fragment > 0"
  have "(amount + fragment - 1) div fragment = (if amount mod fragment \<noteq> 0 then amount div fragment + 1 else amount div fragment)"
  proof -
    define q r where "q = amount div fragment" "r = amount mod fragment"
    then have amount: "amount = fragment * q + r" "r < fragment" using fragment by simp_all
    show ?thesis
    proof (cases "r = 0")
      case True
      then have "amount + fragment - 1 = (fragment - 1) + fragment * q" using amount fragment by simp
      then have "(amount + fragment - 1) div fragment = (fragment - 1) div fragment + q" using fragment by (simp only: div_mult_self2)
      then show ?thesis using True fragment unfolding q_r_def(2) [symmetric] q_r_def(1) [symmetric] by simp
    next
      case False
      then have "amount + fragment - 1 = (r - 1) + fragment * (q + 1)" using amount fragment by (simp add: algebra_simps)
      then have "(amount + fragment - 1) div fragment = (r - 1) div fragment + (q + 1)" using fragment by (simp only: div_mult_self2)
      then show ?thesis using False amount(2) fragment unfolding q_r_def(2) [symmetric] q_r_def(1) [symmetric] by simp
    qed
  qed
  then show ?thesis by (simp add: allocation_def)
qed

lemma allocatedBytes_exact:
  "allocatedBytes amount fragment =
     (if fragment \<noteq> 0 \<and> allocation (unat fragment) (unat amount) < 2 ^ 64 then Some (word_of_nat (allocation (unat fragment) (unat amount))) else None)"
proof (cases "fragment = 0")
  case False
  then have pos: "unat fragment > 0" by (simp add: unat_gt_0)
  have "amount mod fragment \<noteq> 0 \<longleftrightarrow> unat amount mod unat fragment \<noteq> 0" by (simp add: unat_mod flip: unat_eq_0)
  moreover have "unat (amount div fragment + 1) = unat amount div unat fragment + 1" if "amount mod fragment \<noteq> 0"
  proof -
    have "unat amount mod unat fragment > 0" using that by (simp add: unat_mod flip: unat_eq_0)
    moreover have "unat amount div unat fragment * unat fragment + unat amount mod unat fragment = unat amount" by simp
    moreover have "unat amount div unat fragment * 1 \<le> unat amount div unat fragment * unat fragment" using pos by (intro mult_le_mono2) simp
    moreover have "unat amount < 2 ^ 64" using unsigned_less [of amount, where ?'a = nat] by simp
    ultimately have "unat amount div unat fragment + 1 < 2 ^ 64" by linarith
    then show ?thesis using unat_add_fits [of "amount div fragment" 1] by (simp add: unat_div)
  qed
  ultimately have "unat (if amount mod fragment \<noteq> 0 then amount div fragment + 1 else amount div fragment) * unat fragment =
      allocation (unat fragment) (unat amount)"
    by (simp add: allocation_fragments [OF pos] unat_div)
  then show ?thesis using False unfolding allocatedBytes_def capacityProduct_exact Let_def by simp
qed (simp add: allocatedBytes_def)

lemma add_artifacts_exact:
  assumes "fragment \<noteq> 0" "\<forall>a \<in> set as. 0 \<le> iv_ArchiveBytes (af_Inventory a) \<and> iv_ArchiveBytes (af_Inventory a) < 2 ^ 63"
  shows "add_artifacts fragment required as =
     (let total = unat required + (\<Sum>a \<leftarrow> as. allocation (unat fragment) (nat (iv_ArchiveBytes (af_Inventory a))))
      in if total < 2 ^ 64 then Some (word_of_nat total) else None)"
  using assms(2)
proof (induction as arbitrary: required)
  case Nil
  then show ?case using unsigned_less [of required, where ?'a = nat] by simp
next
  case (Cons a as)
  let ?alloc = "\<lambda>a. allocation (unat fragment) (nat (iv_ArchiveBytes (af_Inventory a)))"
  have range: "0 \<le> iv_ArchiveBytes (af_Inventory a)" "iv_ArchiveBytes (af_Inventory a) < 2 ^ 63" using Cons.prems by auto
  then have archive: "unat (word_of_int (iv_ArchiveBytes (af_Inventory a)) :: 64 word) = nat (iv_ArchiveBytes (af_Inventory a))"
    by (simp add: unsigned_of_int take_bit_int_eq_self)
  show ?case
  proof (cases "?alloc a < 2 ^ 64")
    case False
    then show ?thesis using range assms(1) by (simp add: allocatedBytes_exact archive Let_def)
  next
    case True
    then have small: "unat (word_of_nat (?alloc a) :: 64 word) = ?alloc a" by (rule unat_small)
    show ?thesis
    proof (cases "unat required + ?alloc a < 2 ^ 64")
      case False
      then show ?thesis using range True assms(1) by (simp add: allocatedBytes_exact archive add_exceeds small Let_def)
    next
      case fits: True
      then have "unat (required + word_of_nat (?alloc a)) = unat required + ?alloc a" using unat_add_fits small by metis
      then show ?thesis using range True fits assms(1) Cons
        by (simp add: allocatedBytes_exact archive add_exceeds small Let_def add.assoc)
    qed
  qed
qed

lemma publicationBytes_exact:
  assumes "\<forall>a \<in> set (mf_Artifacts m). 0 \<le> iv_ArchiveBytes (af_Inventory a) \<and> iv_ArchiveBytes (af_Inventory a) < 2 ^ 63" "n < 2 ^ 63"
  shows "publicationBytes m n fragment =
    (if fragment \<noteq> 0 \<and> publication_size (unat fragment) m n < 2 ^ 64 then Some (word_of_nat (publication_size (unat fragment) m n)) else None)"
proof (cases "fragment = 0")
  case True
  then show ?thesis by (simp add: publicationBytes_def allocatedBytes_def)
next
  case False
  have workspace: "unat publicationWorkspaceBytes = 2 ^ 20" by (simp add: publicationWorkspaceBytes_def)
  have manifest: "unat (word_of_nat n :: 64 word) = n" using assms(2) by (intro unat_small) simp
  show ?thesis using False unfolding publicationBytes_def allocatedBytes_exact workspace manifest publication_size_def
    by (auto simp: add_artifacts_exact [OF False assms(1)] unat_small add_exceeds Let_def simp del: of_nat_add split: option.split) simp
qed

lemma percentageCeiling_exact: "unat (percentageCeiling x 10) = (unat x + 9) div 10"
proof -
  define q r where "q = unat x div 100" "r = unat x mod 100"
  then have x: "unat x = 100 * q + r" "r < 100" by simp_all
  have "unat x < 2 ^ 64" using unsigned_less [of x, where ?'a = nat] by simp
  then have q: "q * 10 + 10 < 2 ^ 64" using x(1) by simp
  have words: "unat (x div 100) = q" "unat (x mod 100) = r" by (simp_all add: unat_div unat_mod q_r_def)
  have "unat (x div 100 * 10) = q * 10" using q words by (simp add: unat_word_ariths)
  moreover have "unat ((x mod 100 * 10 + 100 - 1) div 100) = (r * 10 + 99) div 100"
  proof -
    have "x mod 100 * 10 + 100 - 1 = word_of_nat (r * 10 + 99)"
      using arg_cong [OF words(2), of "word_of_nat :: nat \<Rightarrow> 64 word"] by simp
    moreover have "unat (word_of_nat (r * 10 + 99) :: 64 word) = r * 10 + 99" using x(2) by (intro unat_small) simp
    ultimately show ?thesis by (simp only: unat_div) simp
  qed
  moreover have "(r * 10 + 99) div 100 \<le> 10" using x(2) by linarith
  moreover have "x mod 100 = 0 \<longleftrightarrow> r = 0" using words(2) by (metis unat_eq_0)
  ultimately have "unat (percentageCeiling x 10) = q * 10 + (if r = 0 then 0 else (r * 10 + 99) div 100)"
    using q by (auto simp: percentageCeiling_def Let_def unat_word_ariths(1))
  moreover have "(unat x + 9) div 10 = q * 10 + (r + 9) div 10" unfolding x(1) by (simp add: algebra_simps)
  moreover have "(if r = 0 then 0 else (r * 10 + 99) div 100) = (r + 9) div 10"
    using div_mult_mult2 [of 10 "r + 9" 10] div_mult_mult1 by (auto simp: algebra_simps)
  ultimately show ?thesis by simp
qed

text \<open>What the check promises of a file system: the inodes and the bytes are there, and the reserve remains.\<close>

definition leaves_reserve :: "filesystemCapacity \<Rightarrow> PublicationCapacity \<Rightarrow> bool" where
  "leaves_reserve observed prepared \<longleftrightarrow> unat (ca_requiredInodes prepared) \<le> unat (fc_availableInodes observed) \<and>
     unat (ca_requiredBytes prepared) + max (2 ^ 30) ((unat (fc_totalBytes observed) + 9) div 10) \<le> unat (fc_availableBytes observed)"

lemma capacityAvailable_exact: "capacityAvailable observed prepared \<longleftrightarrow> leaves_reserve observed prepared"
proof -
  have "unat minimumFreeBytes = 2 ^ 30" by (simp add: minimumFreeBytes_def)
  then have "unat (if percentageCeiling (fc_totalBytes observed) 10 > minimumFreeBytes then percentageCeiling (fc_totalBytes observed) 10
      else minimumFreeBytes) = max (2 ^ 30) ((unat (fc_totalBytes observed) + 9) div 10)"
    by (simp add: word_less_nat_alt percentageCeiling_exact max_def)
  then show ?thesis unfolding capacityAvailable_def leaves_reserve_def Let_def
    by (auto simp: word_less_nat_alt word_le_nat_alt unat_sub simp del: power_numeral)
qed

text \<open>
  (C20) The capacity check is exact. When preparing a publication succeeds, the required bytes are the workspace, the archives and the
  manifest, each rounded up to whole fragments of the file system, and no sum or product has wrapped around; the required inodes are one
  per artifact, two more, and one for a root that does not exist yet; and the file system holds them with one gibibyte and a
  tenth of its size, rounded up, to spare. Before the publication the check passes exactly if the manifest still has the prepared digest, the file system
  is the same one and still has this room.
\<close>

theorem capacity_is_reserved:
  assumes "preparePublicationCapacity H root m target capacity = Inr prepared"
    and "\<forall>a \<in> set (mf_Artifacts m). iv_ArchiveBytes (af_Inventory a) < 2 ^ 63"
  shows "(\<exists>raw observed. EncodeManifest H m = Inr (raw, ca_manifest prepared) \<and> capacity = Inr observed \<and>
      ca_filesystem prepared = fc_identity observed \<and>
      unat (ca_requiredBytes prepared) = publication_size (unat (snd (fc_identity observed))) m (length raw) \<and>
      unat (ca_requiredInodes prepared) = length (mf_Artifacts m) + 2 + (if target = TargetMissing then 1 else 0) \<and>
      leaves_reserve observed prepared) \<and>
    (validatePublicationCapacityWith H n prepared (Inr later) = None \<longleftrightarrow>
      (\<exists>raw. EncodeManifest H n = Inr (raw, ca_manifest prepared)) \<and> fc_identity later = ca_filesystem prepared \<and> leaves_reserve later prepared)"
proof -
  obtain raw d missing observed required where encoded: "EncodeManifest H m = Inr (raw, d)"
      and target: "openCapacityTarget target = Inr missing" and capacity: "capacity = Inr observed"
      and bytes: "publicationBytes m (length raw) (snd (fc_identity observed)) = Some required"
      and available: "capacityAvailable observed prepared"
      and prepared: "prepared = \<lparr>ca_manifest = d, ca_filesystem = fc_identity observed, ca_requiredBytes = required,
        ca_requiredInodes = (if missing then word_of_nat (length (mf_Artifacts m) + 2) + 1 else word_of_nat (length (mf_Artifacts m) + 2))\<rparr>"
    using assms(1) by (auto simp: preparePublicationCapacity_def Let_def split: if_split_asm sum.split_asm option.split_asm)
  have valid: "validManifest m" and "length raw \<le> maximumManifestBytes"
    using encoded by (auto simp: EncodeManifest_def Let_def split: if_split_asm)
  then have raw: "length raw < 2 ^ 63" by (simp add: maximumManifestBytes_def)
  have sizes: "\<forall>a \<in> set (mf_Artifacts m). 0 \<le> iv_ArchiveBytes (af_Inventory a) \<and> iv_ArchiveBytes (af_Inventory a) < 2 ^ 63"
    using assms(2) valid_manifest_fields(1) [OF valid] valid_artifact_fields(9) by blast
  from bytes have fragment: "snd (fc_identity observed) \<noteq> 0"
      and required: "unat required = publication_size (unat (snd (fc_identity observed))) m (length raw)"
    by (auto simp: publicationBytes_exact [OF sizes raw] unat_of_nat split: if_split_asm)
  have inodes: "unat (ca_requiredInodes prepared) = length (mf_Artifacts m) + 2 + (if target = TargetMissing then 1 else 0)"
  proof -
    have "length (mf_Artifacts m) \<le> 4096" using valid_manifest_fields(11) [OF valid] by (simp add: maximumManifestMounts_def)
    moreover have "missing \<longleftrightarrow> target = TargetMissing" using target by (cases target) (auto simp: openCapacityTarget_def)
    moreover have "ca_requiredInodes prepared = word_of_nat (length (mf_Artifacts m) + 2 + (if missing then 1 else 0))" by (simp add: prepared)
    ultimately show ?thesis using unat_small [of "length (mf_Artifacts m) + 2 + (if missing then 1 else 0)"] by simp
  qed
  have "ca_requiredBytes prepared \<noteq> 0" "ca_requiredInodes prepared \<noteq> 0" "ca_filesystem prepared \<noteq> ((0, 0), 0)"
  proof -
    have "2 ^ 20 \<le> publication_size (unat (snd (fc_identity observed))) m (length raw)"
      using allocation_bound(1) [of "unat (snd (fc_identity observed))" "2 ^ 20"] fragment unfolding publication_size_def by (simp add: unat_gt_0)
    then show "ca_requiredBytes prepared \<noteq> 0" using required by (auto simp: prepared)
    show "ca_requiredInodes prepared \<noteq> 0" using inodes by (metis add_is_0 unat_0 zero_neq_numeral)
    show "ca_filesystem prepared \<noteq> ((0, 0), 0)" using fragment by (auto simp: prepared)
  qed
  then have "validatePublicationCapacityWith H n prepared (Inr later) = None \<longleftrightarrow>
      (\<exists>raw. EncodeManifest H n = Inr (raw, ca_manifest prepared)) \<and> fc_identity later = ca_filesystem prepared \<and> leaves_reserve later prepared"
    by (auto simp: validatePublicationCapacityWith_def capacityAvailable_exact split: sum.split prod.split)
  then show ?thesis using encoded capacity required inodes available by (auto simp: prepared capacityAvailable_exact)
qed

definition example_manifest :: Manifest where
  "example_manifest = \<lparr>mf_Version = 1, mf_OperationToken = 1, mf_TransactionID = 2, mf_BaseTransactionID = 3, mf_Project = ''shop'',
     mf_Service = ''web'', mf_Runtime = RuntimeDocker, mf_CreatedUnix = 1700000000, mf_SourceDigest = 4, mf_EffectiveDigest = 5,
     mf_ExecutionDigest = 6, mf_PredecessorWorkloadID = ''abc'', mf_Artifacts =
       [\<lparr>af_Mount = \<lparr>rm_Kind = MountVolume, rm_Name = ''data'', rm_Source = ''/v'', rm_Target = ''/d'', rm_ReadOnly = False\<rparr>,
         af_ProvenanceDigest = 0, af_FileName = artifactName 0,
         af_Inventory = \<lparr>iv_EntryCount = 2, iv_PayloadBytes = 1, iv_ArchiveBytes = 2048, iv_ArchiveDigest = 9, iv_SemanticDigest = 9\<rparr>\<rparr>]\<rparr>"

definition example_filesystem :: filesystemCapacity where
  "example_filesystem = \<lparr>fc_identity = ((1, 2), 4096), fc_totalBytes = 2 ^ 40, fc_availableBytes = 2 ^ 39, fc_availableInodes = 1000\<rparr>"

lemma length_json_quoted: "length (json_quoted s) \<le> 6 * length s + 2"
proof -
  have "length (json_escape s) \<le> 6 * length s"
  proof (induction s rule: json_escape.induct)
    case (1 s)
    have ascii: "length (escape_ascii c) \<le> 6" for c by (simp add: escape_ascii_def unicode_escape_def)
    have rune: "length (escape_rune (take n s)) \<le> 6 * n" if "n > 0" for n
      using that by (auto simp: escape_rune_def unicode_escape_def)
    show ?case
    proof (cases s)
      case (Cons c cs)
      consider "in_range 0 0x7F c" | "\<not> in_range 0 0x7F c" "rune_size s = 0" | "\<not> in_range 0 0x7F c" "rune_size s > 0" by blast
      then show ?thesis
      proof cases
        case 1
        then show ?thesis using ascii [of c] "1.IH"(1) [OF Cons 1] Cons by (subst json_escape.simps) simp
      next
        case 2
        then show ?thesis using "1.IH"(2) [OF Cons 2] Cons by (subst json_escape.simps) (simp add: unicode_escape_def)
      next
        case 3
        then have "length (json_escape (drop (rune_size s) s)) \<le> 6 * (length s - rune_size s)" using "1.IH"(3) [OF Cons] by simp
        then show ?thesis using rune [OF 3(2)] 3 rune_size_bounds(1) [of s] Cons by (subst json_escape.simps) simp
      qed
    qed (simp add: json_escape.simps)
  qed
  then show ?thesis by (simp add: json_quoted_def)
qed

lemma example_valid: "validManifest example_manifest"
  by (simp add: example_manifest_def validManifest_def validManifestIdentity_def validManifestDigests_def validIdentityText_def
      validBoundedText_def validArtifact_def validArtifactIdentity_def validContainerPath_def validAbsolutePath_def validInventory_def
      SupportsWorkloads_def contains_nul_def in_range_def filepath_Clean_def
      maximumIdentityBytes_def maximumPathBytes_def maximumManifestMounts_def Let_def)

lemma example_encoded: "\<exists>raw. EncodeManifest (\<lambda>_. 9) example_manifest = Inr (raw, 9)"
proof -
  have quoted: "length (json_quoted s) \<le> N" if "length s \<le> 71" "428 \<le> N" for s N using that length_json_quoted [of s] by simp
  have step: "a \<le> 428 \<Longrightarrow> 428 \<le> N \<Longrightarrow> b \<le> N - 428 \<Longrightarrow> a + b \<le> N" for a b N :: nat by simp
  have "length (canonicalManifest example_manifest) \<le> maximumManifestBytes"
    unfolding canonicalManifest_def manifest_json_def artifact_json_def manifestToWire_def artifactToWire_def example_manifest_def
      maximumManifestBytes_def
    by simp (intro step quoted; simp add: digest_String_def kind_String_def mountKindString_def
        decimal_int_def decimal.simps artifactName_def zero_padded_def)
  then show ?thesis using example_valid by (simp add: EncodeManifest_def Let_def)
qed

lemma example_prepared: "\<exists>prepared. preparePublicationCapacity (\<lambda>_. 9) ''/b'' example_manifest TargetMissing (Inr example_filesystem) = Inr prepared"
proof -
  obtain raw where raw: "EncodeManifest (\<lambda>_. 9) example_manifest = Inr (raw, 9)" using example_encoded by blast
  then have "length raw \<le> maximumManifestBytes" by (auto simp: EncodeManifest_def Let_def split: if_split_asm)
  then have "allocation 4096 (length raw) < 2 ^ 17" using allocation_bound(2) [of 4096 "length raw"] by (simp add: maximumManifestBytes_def)
  then have "publication_size 4096 example_manifest (length raw) < 2 ^ 21"
    by (simp add: publication_size_def example_manifest_def allocation_def)
  moreover have "publicationBytes example_manifest (length raw) 4096 = Some (word_of_nat (publication_size 4096 example_manifest (length raw)))"
    using calculation \<open>length raw \<le> maximumManifestBytes\<close> by (subst publicationBytes_exact) (simp_all add: example_manifest_def maximumManifestBytes_def)
  ultimately show ?thesis using raw
    by (simp add: preparePublicationCapacity_def validRootPath_def filepath_Clean_def filepath_Base_def openCapacityTarget_def example_filesystem_def
        capacityAvailable_exact leaves_reserve_def unat_small Let_def) (simp add: example_manifest_def)
qed

theorem capacity_is_reserved_witness:
  "\<exists>prepared raw observed. preparePublicationCapacity (\<lambda>_. 9) ''/b'' example_manifest TargetMissing (Inr example_filesystem) = Inr prepared \<and>
     EncodeManifest (\<lambda>_. 9) example_manifest = Inr (raw, ca_manifest prepared) \<and> Inr example_filesystem = (Inr observed :: backup_error + _) \<and>
     unat (ca_requiredBytes prepared) = publication_size (unat (snd (fc_identity observed))) example_manifest (length raw) \<and>
     unat (ca_requiredInodes prepared) = 4 \<and> leaves_reserve observed prepared"
proof -
  obtain prepared where "preparePublicationCapacity (\<lambda>_. 9) ''/b'' example_manifest TargetMissing (Inr example_filesystem) = Inr prepared"
    using example_prepared by blast
  moreover have "\<forall>a \<in> set (mf_Artifacts example_manifest). iv_ArchiveBytes (af_Inventory a) < 2 ^ 63" "length (mf_Artifacts example_manifest) = 1"
    by (simp_all add: example_manifest_def)
  ultimately show ?thesis
    using capacity_is_reserved [of "\<lambda>_. 9" "''/b''" example_manifest TargetMissing "Inr example_filesystem" prepared example_manifest example_filesystem]
    by (auto intro!: exI [of _ prepared])
qed

end
