(* ===== verification/Archive.thy ===== *)
theory Archive
  imports Manifest "HOL-Library.Finite_Map"
begin

text \<open>
  Analysis of a persistent workload archive (\<open>src/internal/backup/archive.go\<close>): the bounded reader with its ring buffer of trailing bytes,
  the scan of the entries with every check of names, links and metadata, and the semantic identity. The entries that \<open>archive/tar\<close> reads from a
  stream are a parameter, and so is the alias of a name (Unicode case folding of its NFC form, from \<open>golang.org/x/text\<close>).
\<close>

section \<open>Member paths\<close>

definition path_Dir :: "string \<Rightarrow> string" where
  "path_Dir p = filepath_Clean (rev (dropWhile (\<lambda>c. c \<noteq> CHR ''/'') (rev p)))"

definition has_prefix :: "string \<Rightarrow> string \<Rightarrow> bool" where
  "has_prefix s prefix \<longleftrightarrow> take (length prefix) s = prefix"

definition trim_slash :: "string \<Rightarrow> string" where
  "trim_slash s = (if s \<noteq> [] \<and> last s = CHR ''/'' then butlast s else s)"

definition validArchivePathText :: "string \<Rightarrow> bool" where
  "validArchivePathText value \<longleftrightarrow> value \<noteq> '''' \<and> length value \<le> maximumPathBytes \<and> utf8_valid value \<and> \<not> contains_nul value \<and>
     CHR 0x5C \<notin> set value \<and> \<not> has_prefix value ''/''"

definition canonicalMemberPath :: "string \<Rightarrow> bool" where
  "canonicalMemberPath value \<longleftrightarrow> filepath_Clean value = value \<and> value \<noteq> ''.'' \<and> value \<noteq> ''..'' \<and> \<not> has_prefix value ''../''"

definition normalizedMemberPath :: "string \<Rightarrow> bool \<Rightarrow> string option" where
  "normalizedMemberPath value directory =
     (let value = (if directory then trim_slash value else value)
      in if \<not> validArchivePathText value \<or> \<not> canonicalMemberPath value then None else Some value)"

definition normalizedSymlink :: "string \<Rightarrow> string \<Rightarrow> string option" where
  "normalizedSymlink name value =
     (if \<not> validArchivePathText value then None
      else let resolved = filepath_Clean (filepath_Join [path_Dir name, value])
           in if resolved = ''..'' \<or> has_prefix resolved ''../'' then None else Some value)"

section \<open>Headers\<close>

text \<open>\<open>tar.Header\<close>, as far as it is used; the modification time is its \<open>Unix()\<close> and \<open>Nanosecond()\<close>.\<close>

record Header =
  hd_Typeflag :: char
  hd_Name :: string
  hd_Linkname :: string
  hd_Size :: int
  hd_Mode :: i64
  hd_Uid :: i64
  hd_Gid :: i64
  hd_Uname :: string
  hd_Gname :: string
  hd_ModTime :: "i64 \<times> i64"
  hd_Devmajor :: int
  hd_Devminor :: int
  hd_PAXRecords :: "(string, string) fmap"

datatype entryKind = entryRegular | entryDirectory | entrySymlink | entryHardlink

definition kind_byte :: "entryKind \<Rightarrow> byte" where
  "kind_byte k = (case k of entryRegular \<Rightarrow> 1 | entryDirectory \<Rightarrow> 2 | entrySymlink \<Rightarrow> 3 | entryHardlink \<Rightarrow> 4)"

definition validUnixMetadata :: "Header \<Rightarrow> bool" where
  "validUnixMetadata h \<longleftrightarrow> sint (hd_Mode h) \<ge> 0 \<and> sint (hd_Mode h) \<le> 4095 \<and> sint (hd_Uid h) \<ge> 0 \<and> sint (hd_Gid h) \<ge> 0"

definition validOwnerName :: "string \<Rightarrow> bool" where
  "validOwnerName value \<longleftrightarrow> length value \<le> maximumPathBytes \<and> utf8_valid value"

fun contains_text :: "string \<Rightarrow> string \<Rightarrow> bool" where
  "contains_text [] t \<longleftrightarrow> t = []"
| "contains_text (c # s) t \<longleftrightarrow> has_prefix (c # s) t \<or> contains_text s t"

text \<open>No letter beyond ASCII has a lower case in ``sparse'', so lowering ASCII letters is enough.\<close>

definition validPAXRecord :: "string \<Rightarrow> string \<Rightarrow> bool" where
  "validPAXRecord key value \<longleftrightarrow> key \<noteq> '''' \<and> value \<noteq> '''' \<and> length key \<le> maximumPathBytes \<and> length value \<le> maximumPathBytes \<and>
     utf8_valid key \<and> utf8_valid value \<and> \<not> contains_text (strings_ToLower key) ''sparse''"

definition validHeaderMetadata :: "Header \<Rightarrow> bool" where
  "validHeaderMetadata h \<longleftrightarrow> validUnixMetadata h \<and> validOwnerName (hd_Uname h) \<and> validOwnerName (hd_Gname h) \<and>
     (\<forall>key \<in> fset (fmdom (hd_PAXRecords h)). validPAXRecord key (the (fmlookup (hd_PAXRecords h) key))) \<and>
     hd_Devmajor h = 0 \<and> hd_Devminor h = 0"

section \<open>The scan\<close>

record archiveScan =
  as_entries :: "(string \<times> digest) list"
  as_types :: "string \<rightharpoonup> entryKind"
  as_aliases :: "string \<rightharpoonup> string"
  as_ancestors :: "string \<Rightarrow> bool"
  as_payloadBytes :: int

definition newArchiveScan :: archiveScan where
  "newArchiveScan = \<lparr>as_entries = [], as_types = Map.empty, as_aliases = Map.empty, as_ancestors = (\<lambda>_. False), as_payloadBytes = 0\<rparr>"

text \<open>The directories above a name, from the nearest one; a name has no more of them than characters.\<close>

fun parent_dirs :: "nat \<Rightarrow> string \<Rightarrow> string list" where
  "parent_dirs 0 p = []"
| "parent_dirs (Suc n) p = (if p = ''.'' then [] else p # parent_dirs n (path_Dir p))"

definition recordPath :: "(string \<Rightarrow> string) \<Rightarrow> archiveScan \<Rightarrow> string \<Rightarrow> archiveScan option" where
  "recordPath aliased scan name =
     (if as_aliases scan (aliased name) \<noteq> None \<or> as_ancestors scan name then None
      else let parents = parent_dirs (length name) (path_Dir name)
           in if \<exists>parent \<in> set parents. as_types scan parent \<noteq> None \<and> as_types scan parent \<noteq> Some entryDirectory then None
              else Some (scan\<lparr>as_ancestors := (\<lambda>p. p \<in> set parents \<or> as_ancestors scan p),
                              as_aliases := (as_aliases scan)(aliased name \<mapsto> name)\<rparr>))"

definition entryIdentity :: "archiveScan \<Rightarrow> string \<Rightarrow> Header \<Rightarrow> (entryKind \<times> string) option" where
  "entryIdentity scan name h =
     (if hd_Typeflag h = CHR ''0'' \<or> hd_Typeflag h = CHR 0x00 then (if hd_Linkname h = '''' then Some (entryRegular, '''') else None)
      else if hd_Typeflag h = CHR ''5'' then (if hd_Linkname h = '''' then Some (entryDirectory, '''') else None)
      else if hd_Typeflag h = CHR ''2'' then map_option (\<lambda>link. (entrySymlink, link)) (normalizedSymlink name (hd_Linkname h))
      else if hd_Typeflag h = CHR ''1'' then
        (case normalizedMemberPath (hd_Linkname h) False of
           None \<Rightarrow> None
         | Some link \<Rightarrow> if as_types scan link \<noteq> Some entryRegular then None else Some (entryHardlink, link))
      else None)"

text \<open>How a read can end, and the body of an entry: the bytes it delivers and the failure after them, if any.\<close>

datatype read_error = ReadEOF | ReadUnexpectedEOF | ReadLimit | ReadFailed go_error

definition classifyArchiveRead :: "read_error \<Rightarrow> backup_error" where
  "classifyArchiveRead err =
     (case err of ReadEOF \<Rightarrow> ErrInvalidArchive | ReadUnexpectedEOF \<Rightarrow> ErrInvalidArchive | ReadLimit \<Rightarrow> ErrArchiveLimit
      | ReadFailed e \<Rightarrow> OtherBackupError e)"

record tar_body =
  tb_data :: bytes
  tb_error :: "read_error option"

definition recordPayload :: "hash \<Rightarrow> archiveScan \<Rightarrow> entryKind \<Rightarrow> int \<Rightarrow> tar_body \<Rightarrow> backup_error + archiveScan \<times> digest" where
  "recordPayload H scan kind amount body =
     (if kind \<noteq> entryRegular then Inr (scan, 0)
      else if amount < 0 \<or> as_payloadBytes scan > 2 ^ 63 - 1 - amount then Inl ErrArchiveLimit
      else if int (length (tb_data body)) < amount
        then Inl (classifyArchiveRead (case tb_error body of None \<Rightarrow> ReadEOF | Some e \<Rightarrow> e))
      else Inr (scan\<lparr>as_payloadBytes := as_payloadBytes scan + amount\<rparr>, H (take (nat amount) (tb_data body))))"

definition append_pax :: "bytes \<Rightarrow> string \<times> string \<Rightarrow> bytes" where
  "append_pax buf kv = append_prefixed (append_prefixed buf (fst kv)) (snd kv)"

definition entry_encoding :: "entryKind \<Rightarrow> Header \<Rightarrow> string \<Rightarrow> digest \<Rightarrow> bytes" where
  "entry_encoding kind h link payload =
     (let b = append_byte [] (kind_byte kind);
          b = AppendVarint b (hd_Mode h);
          b = AppendVarint b (hd_Uid h);
          b = AppendVarint b (hd_Gid h);
          b = AppendVarint b (fst (hd_ModTime h));
          b = AppendVarint b (snd (hd_ModTime h));
          b = append_prefixed b (hd_Uname h);
          b = append_prefixed b (hd_Gname h);
          b = append_prefixed b link;
          b = append_digest b payload;
          keys = sorted_list_of_fset (fmdom (hd_PAXRecords h))
      in foldl append_pax b (map (\<lambda>key. (key, the (fmlookup (hd_PAXRecords h) key))) keys))"

definition semanticEntryDigest :: "hash \<Rightarrow> entryKind \<Rightarrow> Header \<Rightarrow> string \<Rightarrow> digest \<Rightarrow> digest" where
  "semanticEntryDigest H kind h link payload = H (entry_encoding kind h link payload)"

definition maximumArchiveEntries :: nat where
  "maximumArchiveEntries = 1000000"

definition record_entry :: "hash \<Rightarrow> (string \<Rightarrow> string) \<Rightarrow> archiveScan \<Rightarrow> Header \<Rightarrow> tar_body \<Rightarrow> backup_error + archiveScan" where
  "record_entry H aliased scan h body =
     (if length (as_entries scan) \<ge> maximumArchiveEntries then Inl ErrArchiveLimit
      else (case normalizedMemberPath (hd_Name h) (hd_Typeflag h = CHR ''5'') of
        None \<Rightarrow> Inl ErrInvalidArchive
      | Some name \<Rightarrow>
          if \<not> validHeaderMetadata h then Inl ErrInvalidArchive
          else (case recordPath aliased scan name of
            None \<Rightarrow> Inl ErrInvalidArchive
          | Some scan \<Rightarrow> (case entryIdentity scan name h of
              None \<Rightarrow> Inl ErrInvalidArchive
            | Some (kind, link) \<Rightarrow>
                if kind \<noteq> entryRegular \<and> hd_Size h \<noteq> 0 then Inl ErrInvalidArchive
                else (case recordPayload H scan kind (hd_Size h) body of
                  Inl err \<Rightarrow> Inl err
                | Inr (scan, payloadDigest) \<Rightarrow>
                    Inr (scan\<lparr>as_types := (as_types scan)(name \<mapsto> kind),
                      as_entries := as_entries scan @ [(name, semanticEntryDigest H kind h link payloadDigest)]\<rparr>))))))"

text \<open>What \<open>tar.Reader.Next\<close> gives: an entry, or a failure; after the last one it reports the end of the archive. The context is looked at before each.\<close>

datatype tar_event = TarEntry Header tar_body | TarFailed read_error

fun scanArchive :: "hash \<Rightarrow> (string \<Rightarrow> string) \<Rightarrow> (nat \<Rightarrow> bool) \<Rightarrow> archiveScan \<Rightarrow> tar_event list \<Rightarrow> backup_error + archiveScan" where
  "scanArchive H aliased cancelled scan events =
     (if cancelled 0 then Inl (OtherBackupError (Wrap ''scan persistent workload archive'' ErrContext))
      else (case events of
        [] \<Rightarrow> Inr scan
      | TarFailed err # _ \<Rightarrow> Inl (classifyArchiveRead err)
      | TarEntry h body # events \<Rightarrow> (case record_entry H aliased scan h body of
          Inl err \<Rightarrow> Inl err
        | Inr scan \<Rightarrow> scanArchive H aliased (\<lambda>n. cancelled (n + 1)) scan events)))"

declare scanArchive.simps [simp del]

section \<open>The bounded reader\<close>

definition tarTerminatorBytes :: nat where
  "tarTerminatorBytes = 1024"

record boundedArchiveReader =
  br_hashed :: bytes
  br_limit :: int
  br_count :: int
  br_exceeded :: bool
  br_tail :: bytes
  br_tailSize :: nat
  br_tailNext :: nat

definition newReader :: "int \<Rightarrow> boundedArchiveReader" where
  "newReader maximumBytes = \<lparr>br_hashed = [], br_limit = maximumBytes, br_count = 0, br_exceeded = False,
     br_tail = replicate tarTerminatorBytes 0, br_tailSize = 0, br_tailNext = 0\<rparr>"

definition record_byte :: "boundedArchiveReader \<Rightarrow> byte \<Rightarrow> boundedArchiveReader" where
  "record_byte r current = r\<lparr>br_tail := (br_tail r)[br_tailNext r := current], br_tailNext := (br_tailNext r + 1) mod tarTerminatorBytes,
     br_tailSize := (if br_tailSize r < tarTerminatorBytes then br_tailSize r + 1 else br_tailSize r)\<rparr>"

definition recordTail :: "boundedArchiveReader \<Rightarrow> bytes \<Rightarrow> boundedArchiveReader" where
  "recordTail reader value = foldl record_byte reader value"

text \<open>One call of \<open>Read\<close> with a destination of \<open>n\<close> bytes, for what the source answers to a request of some length.\<close>

definition reader_Read :: "bool \<Rightarrow> (nat \<Rightarrow> bytes \<times> read_error option) \<Rightarrow> nat \<Rightarrow> boundedArchiveReader \<Rightarrow>
    (bytes \<times> read_error option) \<times> boundedArchiveReader" where
  "reader_Read cancelled source n reader =
     (if cancelled then (([], Some (ReadFailed (Wrap ''read persistent workload archive'' ErrContext))), reader)
      else if br_exceeded reader then (([], Some ReadLimit), reader)
      else let remaining = br_limit reader - br_count reader in
        if remaining < 0 then (([], Some ReadLimit), reader)
        else let request = (if remaining < int n then nat (remaining + 1) else n) in
          (case source request of (data, err) \<Rightarrow>
            if data \<noteq> [] then
              let reader = recordTail (reader\<lparr>br_hashed := br_hashed reader @ data\<rparr>) data in
              if int (length data) > remaining then ((data, Some ReadLimit), reader\<lparr>br_exceeded := True\<rparr>)
              else ((data, err), reader\<lparr>br_count := br_count reader + int (length data)\<rparr>)
            else ((data, err), reader)))"

definition completeTar :: "boundedArchiveReader \<Rightarrow> bool" where
  "completeTar reader \<longleftrightarrow> \<not> br_exceeded reader \<and> br_count reader \<ge> int tarTerminatorBytes \<and> br_count reader mod 512 = 0 \<and>
     br_tailSize reader = tarTerminatorBytes \<and> br_tail reader = replicate tarTerminatorBytes 0"

section \<open>Analysis\<close>

definition append_entry :: "bytes \<Rightarrow> string \<times> digest \<Rightarrow> bytes" where
  "append_entry buf entry = append_digest (append_prefixed buf (fst entry)) (snd entry)"

definition inventory :: "hash \<Rightarrow> archiveScan \<Rightarrow> boundedArchiveReader \<Rightarrow> Inventory" where
  "inventory H scan reader =
     (let entries = sort_key fst (as_entries scan)
      in \<lparr>iv_EntryCount = int (length entries), iv_PayloadBytes = as_payloadBytes scan, iv_ArchiveBytes = br_count reader,
          iv_ArchiveDigest = H (br_hashed reader), iv_SemanticDigest = H (foldl append_entry (append_byte [] 1) entries)\<rparr>)"

text \<open>A source as a whole: its bytes and how it ends. Through the bounded reader it delivers at most one byte beyond the limit.\<close>

definition bounded_stream :: "int \<Rightarrow> bytes \<Rightarrow> read_error option \<Rightarrow> bytes \<times> read_error option" where
  "bounded_stream limit data finish =
     (if int (length data) > limit then (take (nat (limit + 1)) data, Some ReadLimit) else (data, finish))"

definition read_all :: "int \<Rightarrow> bytes \<Rightarrow> boundedArchiveReader" where
  "read_all limit data = snd (reader_Read False (\<lambda>n. (data, None)) (length data) (newReader limit))"

definition consumeZeroPadding :: "bytes \<Rightarrow> read_error option \<Rightarrow> backup_error option" where
  "consumeZeroPadding rest finish =
     (if list_ex (\<lambda>b. b \<noteq> 0) rest then Some ErrInvalidArchive else map_option classifyArchiveRead finish)"

text \<open>
  \<open>tar delivered finish\<close> are the events of a \<open>tar.Reader\<close> over a stream with these bytes and this end, and how many bytes it has taken when it reports the
  end of the archive. \<open>None\<close> as the end of a stream is the end of file; a context that ends during a read is a failed end.
\<close>

definition Analyze :: "hash \<Rightarrow> (string \<Rightarrow> string) \<Rightarrow> (bytes \<Rightarrow> read_error option \<Rightarrow> tar_event list \<times> nat) \<Rightarrow> (nat \<Rightarrow> bool) \<Rightarrow>
    bytes \<Rightarrow> read_error option \<Rightarrow> int \<Rightarrow> backup_error + Inventory" where
  "Analyze H aliased tar cancelled data finish maximumBytes =
     (if maximumBytes \<le> 0 then Inl ErrInvalidArchive
      else (case bounded_stream maximumBytes data finish of (delivered, finish) \<Rightarrow>
        (case tar delivered finish of (events, consumed) \<Rightarrow>
          (case scanArchive H aliased cancelled newArchiveScan events of
             Inl err \<Rightarrow> Inl err
           | Inr scan \<Rightarrow> (case consumeZeroPadding (drop consumed delivered) finish of
               Some err \<Rightarrow> Inl err
             | None \<Rightarrow>
                 let reader = read_all maximumBytes delivered
                 in if \<not> completeTar reader then Inl ErrInvalidArchive else Inr (inventory H scan reader))))))"

section \<open>Paths as components\<close>

definition safe_component :: "string \<Rightarrow> bool" where
  "safe_component p \<longleftrightarrow> p \<noteq> [] \<and> p \<noteq> ''.'' \<and> p \<noteq> ''..'' \<and> CHR ''/'' \<notin> set p"

lemma split_path_nonempty [simp]: "split_path s \<noteq> []"
  by (induction s) (auto split: list.split)

lemma split_path_parts: "p \<in> set (split_path s) \<Longrightarrow> CHR ''/'' \<notin> set p"
  by (induction s arbitrary: p) (auto split: list.split_asm if_split_asm)

lemma split_path_append: "CHR ''/'' \<notin> set p \<Longrightarrow> split_path (p @ CHR ''/'' # s) = p # split_path s"
  by (induction p) auto

lemma split_path_single: "CHR ''/'' \<notin> set p \<Longrightarrow> split_path p = [p]"
  by (induction p) auto

lemma split_join: "ps \<noteq> [] \<Longrightarrow> \<forall>p \<in> set ps. CHR ''/'' \<notin> set p \<Longrightarrow> split_path (join_parts ps) = ps"
  by (induction ps rule: join_parts.induct) (auto simp: split_path_single split_path_append)

lemma join_parts_snoc: "ps \<noteq> [] \<Longrightarrow> join_parts (ps @ [p]) = join_parts ps @ CHR ''/'' # p"
  by (induction ps rule: join_parts.induct) auto

lemma split_join_slash: "ps \<noteq> [] \<Longrightarrow> \<forall>p \<in> set ps. CHR ''/'' \<notin> set p \<Longrightarrow> split_path (join_parts ps @ ''/'') = ps @ [[]]"
  using split_join [of "ps @ [[]]"] by (simp add: join_parts_snoc)

lemma join_parts_Cons: "join_parts (p # ps) = p @ (if ps = [] then [] else CHR ''/'' # join_parts ps)"
  by (cases ps) auto

lemma safe_head: "safe_component p \<Longrightarrow> \<exists>c cs. p = c # cs \<and> c \<noteq> CHR ''/''"
  by (cases p) (auto simp: safe_component_def)

lemma clean_parts_safe: "\<forall>p \<in> set ps. safe_component p \<Longrightarrow> clean_parts rooted out ps = rev out @ ps"
  by (induction ps arbitrary: out) (auto simp: safe_component_def)

lemma clean_parts_append: "\<forall>p \<in> set ps. safe_component p \<Longrightarrow> clean_parts rooted out (ps @ qs) = clean_parts rooted (rev ps @ out) qs"
  by (induction ps arbitrary: out) (auto simp: safe_component_def)

text \<open>What cleaning a relative path leaves: leading parent steps, then safe components.\<close>

lemma clean_parts_form:
  assumes "\<forall>p \<in> set ps. CHR ''/'' \<notin> set p" "out = gs @ replicate k ''..''" "\<forall>g \<in> set gs. safe_component g"
  shows "\<exists>k' gs'. clean_parts False out ps = replicate k' ''..'' @ gs' \<and> (\<forall>g \<in> set gs'. safe_component g)"
  using assms
proof (induction ps arbitrary: out gs k)
  case Nil
  then show ?case by (intro exI [of _ k] exI [of _ "rev gs"]) simp
next
  case (Cons p ps)
  consider (skip) "p = '''' \<or> p = ''.''" | (up) "p = ''..''" | (down) "safe_component p"
    using Cons.prems(1) by (auto simp: safe_component_def)
  then show ?case
  proof cases
    case skip
    then show ?thesis using Cons by auto
  next
    case up
    show ?thesis
    proof (cases gs)
      case Nil
      then have "clean_parts False out (p # ps) = clean_parts False (replicate (Suc k) ''..'') ps"
        using up Cons.prems(2) by (cases k) auto
      then show ?thesis using Cons.IH [of "replicate (Suc k) ''..''" "[]" "Suc k"] Cons.prems(1) by auto
    next
      case (Cons g hs)
      then have "clean_parts False out (p # ps) = clean_parts False (hs @ replicate k ''..'') ps"
        using up Cons.prems by (auto simp: safe_component_def)
      then show ?thesis using Cons.IH [of "hs @ replicate k ''..''" hs k] Cons.prems Cons by auto
    qed
  next
    case down
    then have "clean_parts False out (p # ps) = clean_parts False (p # out) ps" by (auto simp: safe_component_def)
    then show ?thesis using Cons.IH [of "p # out" "p # gs" k] Cons.prems down by auto
  qed
qed

lemma clean_relative:
  assumes "\<not> (s \<noteq> [] \<and> hd s = CHR ''/'')"
  obtains k gs where "filepath_Clean s = (if k = 0 \<and> gs = [] then ''.'' else join_parts (replicate k ''..'' @ gs))" "\<forall>g \<in> set gs. safe_component g"
proof -
  obtain k gs where form: "clean_parts False [] (split_path s) = replicate k ''..'' @ gs" "\<forall>g \<in> set gs. safe_component g"
    using clean_parts_form [of "split_path s" "[]" "[]" 0] split_path_parts by auto
  have "join_parts (replicate k ''..'' @ gs) = [] \<longleftrightarrow> k = 0 \<and> gs = []"
    using form(2) by (cases k; cases gs) (auto simp: join_parts_Cons safe_component_def)
  then have "filepath_Clean s = (if k = 0 \<and> gs = [] then ''.'' else join_parts (replicate k ''..'' @ gs))"
    using assms form(1) by (auto simp: filepath_Clean_def Let_def)
  then show ?thesis using form(2) by (rule that)
qed

lemma has_prefix_up: "has_prefix (join_parts (''..'' # p # ps)) ''../''"
  by (simp add: has_prefix_def)

lemma inside_relative:
  assumes "\<not> (s \<noteq> [] \<and> hd s = CHR ''/'')" "filepath_Clean s \<noteq> ''..''" "\<not> has_prefix (filepath_Clean s) ''../''"
  obtains gs where "filepath_Clean s = (if gs = [] then ''.'' else join_parts gs)" "\<forall>g \<in> set gs. safe_component g"
proof -
  obtain k gs where form: "filepath_Clean s = (if k = 0 \<and> gs = [] then ''.'' else join_parts (replicate k ''..'' @ gs))"
      "\<forall>g \<in> set gs. safe_component g"
    using assms(1) by (rule clean_relative)
  have "k = 0"
  proof (rule ccontr)
    assume "k \<noteq> 0"
    then obtain j where k: "k = Suc j" by (cases k) auto
    then have clean: "filepath_Clean s = join_parts (''..'' # replicate j ''..'' @ gs)" using form(1) by simp
    show False
    proof (cases "replicate j ''..'' @ gs")
      case Nil
      then show False using clean assms(2) by simp
    next
      case (Cons q qs)
      then show False using clean assms(3) has_prefix_up [of q qs] by simp
    qed
  qed
  then have "filepath_Clean s = (if gs = [] then ''.'' else join_parts gs)" using form(1) by simp
  then show ?thesis using form(2) by (rule that)
qed

lemma member_components:
  assumes "validArchivePathText v" "canonicalMemberPath v"
  obtains ps where "ps \<noteq> []" "v = join_parts ps" "\<forall>p \<in> set ps. safe_component p"
proof -
  have "\<not> (v \<noteq> [] \<and> hd v = CHR ''/'')" using assms(1) by (cases v) (auto simp: validArchivePathText_def has_prefix_def)
  moreover have clean: "filepath_Clean v = v" "v \<noteq> ''.''" "v \<noteq> ''..''" "\<not> has_prefix v ''../''" using assms(2) by (auto simp: canonicalMemberPath_def)
  ultimately obtain gs where "v = (if gs = [] then ''.'' else join_parts gs)" "\<forall>g \<in> set gs. safe_component g"
    using inside_relative [of v] by metis
  then show ?thesis using that [of gs] clean(2) by (auto split: if_split_asm)
qed

lemma dropWhile_last_part:
  "CHR ''/'' \<notin> set p \<Longrightarrow> rev (dropWhile (\<lambda>c. c \<noteq> CHR ''/'') (rev (s @ CHR ''/'' # p))) = s @ ''/''"
  by (simp add: dropWhile_append3 dropWhile_eq_Nil_conv) (induction p rule: rev_induct, auto)

lemma clean_safe:
  assumes "ps \<noteq> []" "\<forall>p \<in> set ps. safe_component p"
  shows "filepath_Clean (join_parts ps @ ''/'') = join_parts ps"
proof -
  obtain p qs where ps: "ps = p # qs" using assms(1) by (cases ps) auto
  then obtain c cs where p: "p = c # cs" "c \<noteq> CHR ''/''" using safe_head [of p] assms(2) by auto
  have "split_path (join_parts ps @ ''/'') = ps @ [[]]" using assms by (intro split_join_slash) (auto simp: safe_component_def)
  moreover have "clean_parts False [] (ps @ [[]]) = ps" using clean_parts_append [OF assms(2)] by simp
  moreover have "hd (join_parts ps @ ''/'') = c" "join_parts ps \<noteq> []" using ps p by (auto simp: join_parts_Cons)
  ultimately show ?thesis using p(2) by (simp add: filepath_Clean_def Let_def)
qed

lemma path_Dir_components:
  assumes "\<forall>q \<in> set (ps @ [p]). safe_component q"
  shows "path_Dir (join_parts (ps @ [p])) = (if ps = [] then ''.'' else join_parts ps)"
proof (cases "ps = []")
  case True
  have none: "dropWhile (\<lambda>c. c \<noteq> CHR ''/'') (rev p) = []" using assms by (auto simp: dropWhile_eq_Nil_conv safe_component_def)
  show ?thesis using True unfolding path_Dir_def by (simp add: none filepath_Clean_def del: dropWhile_eq_Nil_conv)
next
  case False
  have "CHR ''/'' \<notin> set p" using assms by (simp add: safe_component_def)
  then have "rev (dropWhile (\<lambda>c. c \<noteq> CHR ''/'') (rev (join_parts ps @ CHR ''/'' # p))) = join_parts ps @ ''/''" by (rule dropWhile_last_part)
  then show ?thesis using False clean_safe [OF False] assms unfolding path_Dir_def join_parts_snoc [OF False] by simp
qed

text \<open>The directories above a member.\<close>

definition directories_above :: "string \<Rightarrow> string set" where
  "directories_above name = {join_parts qs | qs. qs \<noteq> [] \<and> (\<exists>rs. rs \<noteq> [] \<and> split_path name = qs @ rs)}"

lemma join_parts_length: "\<forall>p \<in> set ps. p \<noteq> [] \<Longrightarrow> length ps \<le> length (join_parts ps)"
  by (induction ps rule: join_parts.induct) (auto simp: Suc_le_eq)

lemma join_safe_not_dot: "ps \<noteq> [] \<Longrightarrow> \<forall>p \<in> set ps. safe_component p \<Longrightarrow> join_parts ps \<noteq> ''.''"
  by (cases ps) (auto simp: join_parts_Cons safe_component_def append_eq_Cons_conv)

lemma parent_dirs_above:
  assumes "ps \<noteq> []" "\<forall>p \<in> set ps. safe_component p" "length ps \<le> n"
  shows "set (parent_dirs n (path_Dir (join_parts ps))) = directories_above (join_parts ps)"
  using assms
proof (induction ps arbitrary: n rule: rev_induct)
  case (snoc p ps)
  obtain m where n: "n = Suc m" using snoc.prems(3) by (cases n) auto
  have split: "split_path (join_parts qs) = qs" if "qs \<noteq> []" "\<forall>q \<in> set qs. safe_component q" for qs
    using that by (intro split_join) (auto simp: safe_component_def)
  show ?case
  proof (cases "ps = []")
    case True
    then have "path_Dir (join_parts (ps @ [p])) = ''.''" using path_Dir_components [of ps p] snoc.prems by simp
    moreover have "directories_above (join_parts (ps @ [p])) = {}" using True snoc.prems split [of "[p]"] by (auto simp: directories_above_def append_eq_Cons_conv Cons_eq_append_conv)
    ultimately show ?thesis using n by simp
  next
    case False
    then have "path_Dir (join_parts (ps @ [p])) = join_parts ps" using path_Dir_components [of ps p] snoc.prems by simp
    moreover have "join_parts ps \<noteq> ''.''" using join_safe_not_dot False snoc.prems by simp
    moreover have "directories_above (join_parts (ps @ [p])) = insert (join_parts ps) (directories_above (join_parts ps))"
    proof -
      have "{qs. qs \<noteq> [] \<and> (\<exists>rs. rs \<noteq> [] \<and> ps @ [p] = qs @ rs)} = insert ps {qs. qs \<noteq> [] \<and> (\<exists>rs. rs \<noteq> [] \<and> ps = qs @ rs)}"
        using False by (auto simp: append_eq_append_conv2 Cons_eq_append_conv append_eq_Cons_conv)
      moreover have "directories_above (join_parts xs) = join_parts ` {qs. qs \<noteq> [] \<and> (\<exists>rs. rs \<noteq> [] \<and> xs = qs @ rs)}"
        if "xs \<noteq> []" "\<forall>q \<in> set xs. safe_component q" for xs using split [OF that] by (auto simp: directories_above_def)
      ultimately show ?thesis using False snoc.prems by simp
    qed
    ultimately show ?thesis using n snoc False by simp
  qed
qed simp

section \<open>What the scan has accepted\<close>

text \<open>The name and the kind of an accepted entry, as its header gives them.\<close>

definition member_name :: "Header \<Rightarrow> string" where
  "member_name h = (if hd_Typeflag h = CHR ''5'' then trim_slash (hd_Name h) else hd_Name h)"

definition member_kind :: "Header \<Rightarrow> entryKind" where
  "member_kind h = (if hd_Typeflag h = CHR ''5'' then entryDirectory else if hd_Typeflag h = CHR ''2'' then entrySymlink
     else if hd_Typeflag h = CHR ''1'' then entryHardlink else entryRegular)"

text \<open>
  A list of headers that can be unpacked safely, in order: every name stays inside the target directory; no two names are aliases; an entry beneath
  another one comes later, and the other one is a directory; a hard link names an earlier regular file; a symbolic link resolves inside.
\<close>

definition restorable :: "(string \<Rightarrow> string) \<Rightarrow> Header list \<Rightarrow> bool" where
  "restorable aliased hs \<longleftrightarrow>
     (\<forall>h \<in> set hs. \<exists>ps. ps \<noteq> [] \<and> member_name h = join_parts ps \<and> (\<forall>p \<in> set ps. safe_component p)) \<and>
     distinct (map (\<lambda>h. aliased (member_name h)) hs) \<and>
     (\<forall>i < length hs. \<forall>j < length hs. member_name (hs ! i) \<in> directories_above (member_name (hs ! j)) \<longrightarrow> i < j \<and> member_kind (hs ! i) = entryDirectory) \<and>
     (\<forall>j < length hs. member_kind (hs ! j) = entryHardlink \<longrightarrow>
        (\<exists>i < j. member_kind (hs ! i) = entryRegular \<and> member_name (hs ! i) = hd_Linkname (hs ! j))) \<and>
     (\<forall>h \<in> set hs. member_kind h = entrySymlink \<longrightarrow> (\<exists>gs. (\<forall>g \<in> set gs. safe_component g) \<and>
        filepath_Clean (filepath_Join [path_Dir (member_name h), hd_Linkname h]) = (if gs = [] then ''.'' else join_parts gs)))"

text \<open>What the state of the scan says of the headers it has accepted.\<close>

definition scanned :: "(string \<Rightarrow> string) \<Rightarrow> Header list \<Rightarrow> archiveScan \<Rightarrow> bool" where
  "scanned aliased hs scan \<longleftrightarrow>
     map fst (as_entries scan) = map member_name hs \<and> length hs \<le> maximumArchiveEntries \<and>
     (\<forall>n k. as_types scan n = Some k \<longleftrightarrow> (\<exists>h \<in> set hs. member_name h = n \<and> member_kind h = k)) \<and>
     dom (as_aliases scan) = aliased ` member_name ` set hs \<and>
     (\<forall>p. as_ancestors scan p \<longleftrightarrow> (\<exists>h \<in> set hs. p \<in> directories_above (member_name h)))"

lemma normalized_member:
  "normalizedMemberPath (hd_Name h) (hd_Typeflag h = CHR ''5'') = Some name \<longleftrightarrow>
     name = member_name h \<and> validArchivePathText name \<and> canonicalMemberPath name"
  by (auto simp: normalizedMemberPath_def member_name_def Let_def)

lemma symlink_inside:
  assumes "normalizedSymlink name value = Some link" "ps \<noteq> []" "name = join_parts ps" "\<forall>p \<in> set ps. safe_component p"
  shows "\<exists>gs. (\<forall>g \<in> set gs. safe_component g) \<and> filepath_Clean (filepath_Join [path_Dir name, value]) = (if gs = [] then ''.'' else join_parts gs)"
proof -
  have link: "validArchivePathText value" "filepath_Clean (filepath_Join [path_Dir name, value]) \<noteq> ''..''"
      "\<not> has_prefix (filepath_Clean (filepath_Join [path_Dir name, value])) ''../''"
    using assms(1) by (auto simp: normalizedSymlink_def Let_def split: if_split_asm)
  obtain qs q where ps: "ps = qs @ [q]" using assms(2) by (cases ps rule: rev_cases) auto
  have dir: "path_Dir name = (if qs = [] then ''.'' else join_parts qs)" using path_Dir_components [of qs q] assms(3,4) ps by simp
  have head: "path_Dir name \<noteq> [] \<and> hd (path_Dir name) \<noteq> CHR ''/''"
    using assms(4) ps safe_head by (cases qs) (fastforce simp: dir join_parts_Cons)+
  have "value \<noteq> []" using link(1) by (simp add: validArchivePathText_def)
  with head have join: "filepath_Join [path_Dir name, value] = filepath_Clean (path_Dir name @ ''/'' @ value)"
    by (simp add: filepath_Join_def)
  obtain k gs where form: "filepath_Clean (path_Dir name @ ''/'' @ value) = (if k = 0 \<and> gs = [] then ''.'' else join_parts (replicate k ''..'' @ gs))"
      "\<forall>g \<in> set gs. safe_component g"
    using clean_relative [of "path_Dir name @ ''/'' @ value"] head by auto
  have "\<not> (filepath_Join [path_Dir name, value] \<noteq> [] \<and> hd (filepath_Join [path_Dir name, value]) = CHR ''/'')"
    using form safe_head unfolding join by (cases k; cases gs) (fastforce simp: join_parts_Cons)+
  then show ?thesis using link(2,3) by (rule inside_relative) blast
qed

lemma recordPath_outcome:
  assumes "recordPath aliased scan name = Some scan'" "ps \<noteq> []" "name = join_parts ps" "\<forall>p \<in> set ps. safe_component p"
  shows "aliased name \<notin> dom (as_aliases scan)" "\<not> as_ancestors scan name"
    "\<forall>p \<in> directories_above name. as_types scan p = None \<or> as_types scan p = Some entryDirectory"
    "scan' = scan\<lparr>as_ancestors := (\<lambda>p. p \<in> directories_above name \<or> as_ancestors scan p), as_aliases := (as_aliases scan)(aliased name \<mapsto> name)\<rparr>"
proof -
  have "length ps \<le> length name" using join_parts_length [of ps] assms(3,4) by (auto simp: safe_component_def)
  then have "set (parent_dirs (length name) (path_Dir name)) = directories_above name" using parent_dirs_above assms(2-4) by simp
  then show "aliased name \<notin> dom (as_aliases scan)" "\<not> as_ancestors scan name"
    "\<forall>p \<in> directories_above name. as_types scan p = None \<or> as_types scan p = Some entryDirectory"
    "scan' = scan\<lparr>as_ancestors := (\<lambda>p. p \<in> directories_above name \<or> as_ancestors scan p), as_aliases := (as_aliases scan)(aliased name \<mapsto> name)\<rparr>"
    using assms(1) by (auto simp: recordPath_def Let_def split: if_split_asm)
qed

lemma entryIdentity_outcome:
  assumes "entryIdentity scan name h = Some (kind, link)"
  shows "kind = member_kind h" "link = hd_Linkname h"
    "kind = entryHardlink \<Longrightarrow> as_types scan (hd_Linkname h) = Some entryRegular"
    "kind = entrySymlink \<Longrightarrow> normalizedSymlink name (hd_Linkname h) = Some link"
  using assms by (auto simp: entryIdentity_def member_kind_def normalizedMemberPath_def normalizedSymlink_def Let_def
      split: if_split_asm option.split_asm)

lemma record_entryE:
  assumes "record_entry H aliased scan h body = Inr scan'"
  obtains scan1 scan2 payload where "validArchivePathText (member_name h)" "canonicalMemberPath (member_name h)"
    "length (as_entries scan) < maximumArchiveEntries" "validHeaderMetadata h"
    "recordPath aliased scan (member_name h) = Some scan1"
    "entryIdentity scan1 (member_name h) h = Some (member_kind h, hd_Linkname h)"
    "recordPayload H scan1 (member_kind h) (hd_Size h) body = Inr (scan2, payload)"
    "scan' = scan2\<lparr>as_types := (as_types scan2)(member_name h \<mapsto> member_kind h),
       as_entries := as_entries scan2 @ [(member_name h, semanticEntryDigest H (member_kind h) h (hd_Linkname h) payload)]\<rparr>"
proof -
  from assms obtain name scan1 kind link scan2 payload where
      name: "normalizedMemberPath (hd_Name h) (hd_Typeflag h = CHR ''5'') = Some name"
    and rest: "length (as_entries scan) < maximumArchiveEntries" "validHeaderMetadata h" "recordPath aliased scan name = Some scan1"
      "entryIdentity scan1 name h = Some (kind, link)" "recordPayload H scan1 kind (hd_Size h) body = Inr (scan2, payload)"
      "scan' = scan2\<lparr>as_types := (as_types scan2)(name \<mapsto> kind),
         as_entries := as_entries scan2 @ [(name, semanticEntryDigest H kind h link payload)]\<rparr>"
    by (auto simp: record_entry_def split: if_split_asm option.split_asm sum.split_asm)
  from name have "name = member_name h" "validArchivePathText (member_name h)" "canonicalMemberPath (member_name h)"
    unfolding normalized_member by auto
  moreover have "kind = member_kind h" "link = hd_Linkname h" using rest(4) by (rule entryIdentity_outcome)+
  ultimately show ?thesis using rest by (intro that) auto
qed

lemma recordPayload_outcome: "recordPayload H scan kind amount body = Inr (scan', payload) \<Longrightarrow>
    as_entries scan' = as_entries scan \<and> as_types scan' = as_types scan \<and> as_aliases scan' = as_aliases scan \<and>
    as_ancestors scan' = as_ancestors scan \<and> payload = (if kind = entryRegular then H (take (nat amount) (tb_data body)) else 0)"
  by (auto simp: recordPayload_def split: if_split_asm)


lemma not_above_itself:
  assumes ps: "ps \<noteq> []" "\<forall>p \<in> set ps. safe_component p"
  shows "join_parts ps \<notin> directories_above (join_parts ps)"
proof
  assume "join_parts ps \<in> directories_above (join_parts ps)"
  moreover have split: "split_path (join_parts ps) = ps" using ps by (intro split_join) (auto simp: safe_component_def)
  ultimately obtain qs rs where qs: "join_parts ps = join_parts qs" "qs \<noteq> []" "ps = qs @ rs" "rs \<noteq> []" unfolding directories_above_def by auto
  moreover have "split_path (join_parts qs) = qs" using ps(2) qs(2,3) by (intro split_join) (auto simp: safe_component_def)
  ultimately show False using split by simp
qed

text \<open>One more header keeps the list restorable if its name is new and lies below directories only, and its link has a target.\<close>

lemma restorable_snoc:
  assumes inv: "restorable aliased hs" and ps: "ps \<noteq> []" "member_name h = join_parts ps" "\<forall>p \<in> set ps. safe_component p"
    and fresh: "aliased (member_name h) \<notin> aliased ` member_name ` set hs"
    and not_above: "\<And>g. g \<in> set hs \<Longrightarrow> member_name h \<notin> directories_above (member_name g)"
    and dirs: "\<And>g. g \<in> set hs \<Longrightarrow> member_name g \<in> directories_above (member_name h) \<Longrightarrow> member_kind g = entryDirectory"
    and hard: "member_kind h = entryHardlink \<Longrightarrow> \<exists>g \<in> set hs. member_name g = hd_Linkname h \<and> member_kind g = entryRegular"
    and soft: "member_kind h = entrySymlink \<Longrightarrow> \<exists>gs. (\<forall>g \<in> set gs. safe_component g) \<and>
        filepath_Clean (filepath_Join [path_Dir (member_name h), hd_Linkname h]) = (if gs = [] then ''.'' else join_parts gs)"
  shows "restorable aliased (hs @ [h])"
  unfolding restorable_def
proof (intro conjI)
  show "\<forall>g \<in> set (hs @ [h]). \<exists>ps. ps \<noteq> [] \<and> member_name g = join_parts ps \<and> (\<forall>p \<in> set ps. safe_component p)"
    using inv ps unfolding restorable_def by auto
  show "distinct (map (\<lambda>h. aliased (member_name h)) (hs @ [h]))" using inv fresh unfolding restorable_def by (auto simp: image_image)
  have "i < length hs \<and> (i < j \<and> member_kind ((hs @ [h]) ! i) = entryDirectory)"
    if ij: "i < length (hs @ [h])" "j < length (hs @ [h])" and up: "member_name ((hs @ [h]) ! i) \<in> directories_above (member_name ((hs @ [h]) ! j))" for i j
  proof -
    have last: "i < length hs \<or> i = length hs" "j < length hs \<or> j = length hs" using ij by auto
    have "j = length hs \<Longrightarrow> i < length hs" using last(1) up not_above_itself [OF ps(1,3)] ps(2) by (auto simp: nth_append)
    moreover have "j < length hs \<Longrightarrow> i < length hs" using last(1) up not_above [of "hs ! j"] by (auto simp: nth_append)
    ultimately have "i < length hs" using last(2) by blast
    then show ?thesis using last(2) up inv dirs [of "hs ! i"] unfolding restorable_def by (auto simp: nth_append)
  qed
  then show "\<forall>i < length (hs @ [h]). \<forall>j < length (hs @ [h]). member_name ((hs @ [h]) ! i) \<in> directories_above (member_name ((hs @ [h]) ! j)) \<longrightarrow>
      i < j \<and> member_kind ((hs @ [h]) ! i) = entryDirectory" by blast
  have "\<exists>i < j. member_kind ((hs @ [h]) ! i) = entryRegular \<and> member_name ((hs @ [h]) ! i) = hd_Linkname ((hs @ [h]) ! j)"
    if j: "j < length (hs @ [h])" "member_kind ((hs @ [h]) ! j) = entryHardlink" for j
  proof (cases "j < length hs")
    case True
    then obtain i where "i < j" "member_kind (hs ! i) = entryRegular" "member_name (hs ! i) = hd_Linkname (hs ! j)"
      using inv j unfolding restorable_def by (auto simp: nth_append)
    then show ?thesis using True by (intro exI [of _ i]) (simp add: nth_append)
  next
    case False
    then have last: "j = length hs" "member_kind h = entryHardlink" using j by (auto simp: nth_append)
    then obtain g where "g \<in> set hs" "member_name g = hd_Linkname h" "member_kind g = entryRegular" using hard by blast
    then show ?thesis using last(1) by (auto simp: in_set_conv_nth nth_append)
  qed
  then show "\<forall>j < length (hs @ [h]). member_kind ((hs @ [h]) ! j) = entryHardlink \<longrightarrow>
      (\<exists>i < j. member_kind ((hs @ [h]) ! i) = entryRegular \<and> member_name ((hs @ [h]) ! i) = hd_Linkname ((hs @ [h]) ! j))" by blast
  show "\<forall>g \<in> set (hs @ [h]). member_kind g = entrySymlink \<longrightarrow> (\<exists>gs. (\<forall>g \<in> set gs. safe_component g) \<and>
      filepath_Clean (filepath_Join [path_Dir (member_name g), hd_Linkname g]) = (if gs = [] then ''.'' else join_parts gs))"
    using inv soft unfolding restorable_def by auto
qed

lemma record_entry_scanned:
  assumes step: "record_entry H aliased scan h body = Inr scan'" and inv: "scanned aliased hs scan" "restorable aliased hs"
  shows "scanned aliased (hs @ [h]) scan' \<and> restorable aliased (hs @ [h])"
proof -
  obtain scan1 scan2 payload where name: "validArchivePathText (member_name h)" "canonicalMemberPath (member_name h)"
      and few: "length (as_entries scan) < maximumArchiveEntries"
      and path: "recordPath aliased scan (member_name h) = Some scan1"
      and ident: "entryIdentity scan1 (member_name h) h = Some (member_kind h, hd_Linkname h)"
      and payload: "recordPayload H scan1 (member_kind h) (hd_Size h) body = Inr (scan2, payload)"
      and scan': "scan' = scan2\<lparr>as_types := (as_types scan2)(member_name h \<mapsto> member_kind h),
        as_entries := as_entries scan2 @ [(member_name h, semanticEntryDigest H (member_kind h) h (hd_Linkname h) payload)]\<rparr>"
    using step by (rule record_entryE)
  obtain ps where ps: "ps \<noteq> []" "member_name h = join_parts ps" "\<forall>p \<in> set ps. safe_component p"
    using name by (rule member_components)
  note recorded = recordPath_outcome [OF path ps]
  note same = recordPayload_outcome [OF payload]
  have fresh: "aliased (member_name h) \<notin> aliased ` member_name ` set hs" using recorded(1) inv(1) by (simp add: scanned_def)
  then have other: "member_name g \<noteq> member_name h" if "g \<in> set hs" for g using that by (metis imageI)
  have "scanned aliased (hs @ [h]) scan'"
    using inv(1) other same few map_eq_imp_length_eq [of fst "as_entries scan" member_name hs] unfolding scanned_def scan' recorded(4) by auto
  moreover have "restorable aliased (hs @ [h])"
  proof (rule restorable_snoc [OF inv(2) ps fresh])
    show "member_name h \<notin> directories_above (member_name g)" if "g \<in> set hs" for g using recorded(2) inv(1) that by (auto simp: scanned_def)
    show "member_kind g = entryDirectory" if "g \<in> set hs" "member_name g \<in> directories_above (member_name h)" for g
      using recorded(3) inv(1) that unfolding scanned_def by (metis option.distinct(1) option.inject)
    have "as_types scan1 = as_types scan" by (simp add: recorded(4))
    then show "\<exists>g \<in> set hs. member_name g = hd_Linkname h \<and> member_kind g = entryRegular" if "member_kind h = entryHardlink"
      using entryIdentity_outcome(3) [OF ident] that inv(1) by (auto simp: scanned_def)
    show "\<exists>gs. (\<forall>g \<in> set gs. safe_component g) \<and>
        filepath_Clean (filepath_Join [path_Dir (member_name h), hd_Linkname h]) = (if gs = [] then ''.'' else join_parts gs)" if "member_kind h = entrySymlink"
      using symlink_inside [OF entryIdentity_outcome(4) [OF ident] ps] that by auto
  qed
  ultimately show ?thesis by blast
qed

text \<open>The headers of a sequence of entries.\<close>

definition headers :: "tar_event list \<Rightarrow> Header list" where
  "headers events = List.map_filter (\<lambda>e. case e of TarEntry h _ \<Rightarrow> Some h | TarFailed _ \<Rightarrow> None) events"

lemma headers_simps [simp]: "headers [] = []" "headers (TarEntry h body # es) = h # headers es" "headers (TarFailed err # es) = headers es"
  by (simp_all add: headers_def List.map_filter_simps)

lemma scanArchive_scanned:
  "scanArchive H aliased cancelled scan events = Inr scan' \<Longrightarrow> scanned aliased hs scan \<Longrightarrow> restorable aliased hs \<Longrightarrow>
     scanned aliased (hs @ headers events) scan' \<and> restorable aliased (hs @ headers events)"
proof (induction H aliased cancelled scan events arbitrary: hs rule: scanArchive.induct)
  case (1 H aliased cancelled scan events)
  show ?case
  proof (cases events)
    case Nil
    then show ?thesis using 1(2-4) by (subst (asm) scanArchive.simps) (auto split: if_split_asm)
  next
    case (Cons e es)
    then obtain h body where e: "e = TarEntry h body"
      using 1(2) by (subst (asm) scanArchive.simps) (auto split: if_split_asm tar_event.split_asm)
    then obtain scan1 where step: "record_entry H aliased scan h body = Inr scan1" "\<not> cancelled 0"
        "scanArchive H aliased (\<lambda>n. cancelled (n + 1)) scan1 es = Inr scan'"
      using 1(2) Cons by (subst (asm) scanArchive.simps) (auto split: if_split_asm sum.split_asm)
    have "scanned aliased (hs @ [h]) scan1 \<and> restorable aliased (hs @ [h])"
      using step(1) 1(3,4) by (rule record_entry_scanned)
    then show ?thesis using 1(1) [OF step(2) Cons e step(1) step(3), of "hs @ [h]"] e Cons by simp
  qed
qed

section \<open>The ring buffer holds the trailing bytes\<close>

definition ring :: "boundedArchiveReader \<Rightarrow> bytes \<Rightarrow> bool" where
  "ring r data \<longleftrightarrow> length (br_tail r) = tarTerminatorBytes \<and> br_tailNext r = length data mod tarTerminatorBytes \<and>
     br_tailSize r = min tarTerminatorBytes (length data) \<and>
     (\<forall>i < length data. length data - i \<le> tarTerminatorBytes \<longrightarrow> br_tail r ! (i mod tarTerminatorBytes) = data ! i)"

lemma ring_step:
  assumes "ring r data"
  shows "ring (record_byte r x) (data @ [x])"
proof -
  have mod: "i mod tarTerminatorBytes \<noteq> length data mod tarTerminatorBytes"
    if "i < length data" "Suc (length data) - i \<le> tarTerminatorBytes" for i
  proof
    assume "i mod tarTerminatorBytes = length data mod tarTerminatorBytes"
    then have "tarTerminatorBytes dvd length data - i" using that(1) by (metis mod_eq_dvd_iff_nat less_imp_le)
    then show False using that by (auto dest!: dvd_imp_le)
  qed
  show ?thesis using assms mod unfolding ring_def record_byte_def by (auto simp: nth_append nth_list_update mod_Suc_eq less_Suc_eq min_def tarTerminatorBytes_def) blast
qed

lemma ring_recordTail: "ring r data \<Longrightarrow> ring (recordTail r bs) (data @ bs)"
proof (induction bs arbitrary: r data)
  case (Cons x bs)
  then show ?case using Cons.IH [OF ring_step [OF Cons.prems, of x]] by (simp add: recordTail_def)
qed (simp add: recordTail_def)

lemma recordTail_same [simp]: "br_hashed (recordTail r bs) = br_hashed r" "br_limit (recordTail r bs) = br_limit r"
    "br_count (recordTail r bs) = br_count r" "br_exceeded (recordTail r bs) = br_exceeded r"
  by (induction bs arbitrary: r) (auto simp: recordTail_def record_byte_def)

lemma record_byte_update: "record_byte (r\<lparr>br_hashed := h\<rparr>) x = (record_byte r x)\<lparr>br_hashed := h\<rparr>"
    "record_byte (r\<lparr>br_count := c\<rparr>) x = (record_byte r x)\<lparr>br_count := c\<rparr>"
  by (simp_all add: record_byte_def)

lemma recordTail_update: "recordTail (r\<lparr>br_hashed := h\<rparr>) bs = (recordTail r bs)\<lparr>br_hashed := h\<rparr>"
    "recordTail (r\<lparr>br_count := c\<rparr>) bs = (recordTail r bs)\<lparr>br_count := c\<rparr>"
  by (induction bs arbitrary: r) (simp_all add: recordTail_def record_byte_update)

lemma recordTail_append: "recordTail (recordTail r a) b = recordTail r (a @ b)"
  by (simp add: recordTail_def)

lemma ring_update [simp]: "ring (r\<lparr>br_hashed := h\<rparr>) data = ring r data" "ring (r\<lparr>br_count := c\<rparr>) data = ring r data"
    "ring (r\<lparr>br_exceeded := e\<rparr>) data = ring r data"
  by (simp_all add: ring_def)

lemma ring_new: "ring (newReader limit) []"
  by (simp add: ring_def newReader_def tarTerminatorBytes_def)

lemma ring_zero:
  assumes "ring r data" "tarTerminatorBytes \<le> length data"
  shows "br_tail r = replicate tarTerminatorBytes 0 \<longleftrightarrow> drop (length data - tarTerminatorBytes) data = replicate tarTerminatorBytes 0"
proof -
  let ?N = tarTerminatorBytes
  have pos: "?N > 0" by (simp add: tarTerminatorBytes_def)
  have tail: "length (br_tail r) = ?N" and entry: "i < length data \<Longrightarrow> length data - i \<le> ?N \<Longrightarrow> br_tail r ! (i mod ?N) = data ! i" for i
    using assms(1) by (auto simp: ring_def)
  have "(\<forall>k < ?N. br_tail r ! k = 0) \<longleftrightarrow> (\<forall>j < ?N. data ! (length data - ?N + j) = 0)"
  proof (intro iffI allI impI)
    fix j assume "\<forall>k < ?N. br_tail r ! k = 0" "j < ?N"
    then show "data ! (length data - ?N + j) = 0" using entry [of "length data - ?N + j"] assms(2) pos by simp
  next
    fix k assume zero: "\<forall>j < ?N. data ! (length data - ?N + j) = 0" and k: "k < ?N"
    define q d where "q = (length data - 1 - k) div ?N" "d = (length data - 1 - k) mod ?N"
    then have split: "length data - 1 - k = ?N * q + d" "d < ?N" using pos by simp_all
    have "k \<le> length data - 1" using k assms(2) by simp
    then have i: "length data - 1 - d = ?N * q + k" "d < length data" using split k assms(2) by linarith+
    have "br_tail r ! ((length data - 1 - d) mod ?N) = data ! (length data - 1 - d)"
      using entry [of "length data - 1 - d"] i(2) split(2) by simp
    moreover have "(length data - 1 - d) mod ?N = k" unfolding i(1) using k by simp
    moreover have "length data - 1 - d = length data - ?N + (?N - 1 - d)" using split(2) assms(2) by simp
    ultimately show "br_tail r ! k = 0" using zero split(2) pos by (metis diff_less_Suc Suc_pred' diff_diff_left less_imp_diff_less plus_1_eq_Suc)
  qed
  then show ?thesis using tail assms(2) by (auto simp: list_eq_iff_nth_eq)
qed

lemma read_all_form:
  assumes "int (length data) \<le> limit"
  shows "read_all limit data = (recordTail (newReader limit) data)\<lparr>br_hashed := data, br_count := int (length data)\<rparr>"
proof (cases "data = []")
  case True
  then show ?thesis using assms by (simp add: read_all_def reader_Read_def Let_def newReader_def recordTail_def)
next
  case False
  have "br_hashed (newReader limit) = []" "br_count (newReader limit) = 0" "br_limit (newReader limit) = limit" "\<not> br_exceeded (newReader limit)"
    by (simp_all add: newReader_def)
  then show ?thesis using assms False by (simp add: read_all_def reader_Read_def Let_def recordTail_update)
qed

lemma read_all_state:
  assumes "int (length data) \<le> limit"
  shows "br_hashed (read_all limit data) = data" "br_count (read_all limit data) = int (length data)" "\<not> br_exceeded (read_all limit data)"
    "br_limit (read_all limit data) = limit" "ring (read_all limit data) data"
  using ring_recordTail [OF ring_new [of limit], of data] by (simp_all add: read_all_form [OF assms], simp_all add: newReader_def)

lemma completeTar_exact:
  assumes "int (length data) \<le> limit"
  shows "completeTar (read_all limit data) \<longleftrightarrow> tarTerminatorBytes \<le> length data \<and> length data mod 512 = 0 \<and>
    drop (length data - tarTerminatorBytes) data = replicate tarTerminatorBytes 0"
proof -
  note state = read_all_state [OF assms]
  have "br_tailSize (read_all limit data) = min tarTerminatorBytes (length data)" using state(5) by (simp add: ring_def)
  moreover have "int (length data) mod 512 = 0 \<longleftrightarrow> length data mod 512 = 0" by presburger
  ultimately show ?thesis using state ring_zero [OF state(5)] by (auto simp: completeTar_def)
qed

text \<open>How the source cuts its bytes into pieces makes no difference.\<close>

lemma read_in_chunks:
  assumes "int (length (concat chunks)) \<le> limit"
  shows "foldl (\<lambda>r chunk. snd (reader_Read False (\<lambda>_. (chunk, None)) (length chunk) r)) (newReader limit) chunks = read_all limit (concat chunks)"
  using assms
proof (induction chunks rule: rev_induct)
  case Nil
  then show ?case by (simp add: read_all_form newReader_def recordTail_def)
next
  case (snoc chunk chunks)
  let ?data = "concat chunks"
  have small: "int (length ?data) \<le> limit" "int (length (?data @ chunk)) \<le> limit" using snoc.prems by auto
  then have "\<not> limit - int (length ?data) < int (length chunk)" "\<not> limit - int (length ?data) < 0" by auto
  then have "snd (reader_Read False (\<lambda>_. (chunk, None)) (length chunk) (read_all limit ?data)) = read_all limit (?data @ chunk)"
    using read_all_state [OF small(1)] unfolding reader_Read_def
    by (cases "chunk = []") (simp_all add: Let_def read_all_form [OF small(1)] read_all_form [OF small(2)] recordTail_update recordTail_append)
  then show ?case using snoc small by simp
qed

lemma AnalyzeE:
  assumes "Analyze H aliased tar cancelled data finish maximumBytes = Inr value"
  obtains scan where "scanArchive H aliased cancelled newArchiveScan (fst (tar data None)) = Inr scan"
      "\<forall>b \<in> set (drop (snd (tar data None)) data). b = 0" "completeTar (read_all maximumBytes data)"
      "value = inventory H scan (read_all maximumBytes data)" "int (length data) \<le> maximumBytes" "finish = None"
proof -
  obtain delivered finish' where stream: "bounded_stream maximumBytes data finish = (delivered, finish')" by (metis surj_pair)
  obtain scan where scan: "scanArchive H aliased cancelled newArchiveScan (fst (tar delivered finish')) = Inr scan"
      and padding: "consumeZeroPadding (drop (snd (tar delivered finish')) delivered) finish' = None"
      and complete: "completeTar (read_all maximumBytes delivered)" "value = inventory H scan (read_all maximumBytes delivered)"
    using assms stream by (auto simp: Analyze_def Let_def split: prod.split_asm sum.split_asm option.split_asm if_split_asm)
  have "finish' = None" using padding by (simp add: consumeZeroPadding_def split: if_split_asm)
  then have "int (length data) \<le> maximumBytes" "delivered = data" "finish = None" "finish' = None"
    using stream by (auto simp: bounded_stream_def split: if_split_asm)
  then show ?thesis using that [of scan] scan padding complete by (auto simp: consumeZeroPadding_def list_ex_iff split: if_split_asm)
qed

text \<open>The size and the digest of the archive are those of the source's bytes.\<close>

lemma analyzed_bytes:
  assumes "Analyze H aliased tar cancelled data finish maximumBytes = Inr value"
  shows "finish = None \<and> iv_ArchiveBytes value = int (length data) \<and> iv_ArchiveDigest value = H data"
  using assms by (rule AnalyzeE) (simp add: inventory_def read_all_state Let_def)


section \<open>An example\<close>

definition example_header :: "string \<Rightarrow> char \<Rightarrow> int \<Rightarrow> Header" where
  "example_header name flag amount = \<lparr>hd_Typeflag = flag, hd_Name = name, hd_Linkname = [], hd_Size = amount, hd_Mode = 493, hd_Uid = 0, hd_Gid = 0,
     hd_Uname = ''root'', hd_Gname = ''root'', hd_ModTime = (1700000000, 0), hd_Devmajor = 0, hd_Devminor = 0, hd_PAXRecords = fmempty\<rparr>"

definition example_tar :: "bytes \<Rightarrow> read_error option \<Rightarrow> tar_event list \<times> nat" where
  "example_tar data finish = ([TarEntry (example_header ''d/'' (CHR ''5'') 0) \<lparr>tb_data = [], tb_error = None\<rparr>,
     TarEntry (example_header ''d/f'' (CHR ''0'') 1) \<lparr>tb_data = [7], tb_error = None\<rparr>], 0)"

lemma example_analyzed: "\<exists>value. Analyze (\<lambda>_. 9) id example_tar (\<lambda>_. False) (replicate 2048 0) None 4096 = Inr value"
proof -
  have "completeTar (read_all 4096 (replicate 2048 0))" by (simp add: completeTar_exact tarTerminatorBytes_def)
  moreover have "\<exists>scan. scanArchive (\<lambda>_. 9) id (\<lambda>_. False) newArchiveScan (fst (example_tar (replicate 2048 0) None)) = Inr scan"
    by (simp add: example_tar_def example_header_def scanArchive.simps record_entry_def newArchiveScan_def normalizedMemberPath_def trim_slash_def
        validArchivePathText_def canonicalMemberPath_def has_prefix_def filepath_Clean_def path_Dir_def validHeaderMetadata_def validUnixMetadata_def
        validOwnerName_def recordPath_def entryIdentity_def recordPayload_def maximumArchiveEntries_def maximumPathBytes_def contains_nul_def
        in_range_def Let_def)
  moreover have "length (replicate 2048 (0 :: byte)) = 2048" "\<not> list_ex (\<lambda>b. b \<noteq> 0) (drop n (replicate 2048 (0 :: byte)))" for n
    by (auto simp: list_ex_iff)
  moreover obtain events consumed where "example_tar (replicate 2048 0) None = (events, consumed)" by (metis surj_pair)
  ultimately show ?thesis unfolding Analyze_def bounded_stream_def consumeZeroPadding_def Let_def by (auto simp del: length_replicate drop_replicate)
qed


end
