(* ===== verification/ArchiveIdentity.thy ===== *)
theory ArchiveIdentity
  imports Archive
begin

text \<open>
  The semantic digest of an archive (\<open>semanticEntryDigest\<close> and \<open>inventory\<close> of \<open>src/internal/backup/archive.go\<close>) identifies the content: the byte
  encodings are interpreted as codes whose fields can be told apart.
\<close>

section \<open>The semantic digest identifies the content\<close>

context field_code
begin

text \<open>Fields that take at least one byte can be told apart in a row without a count, up to the end of the buffer.\<close>

lemma uncounted:
  assumes "\<And>x. app [] x \<noteq> []"
  shows "foldl app [] xs = foldl app [] ys \<longleftrightarrow> map view xs = map view ys"
proof (induction xs arbitrary: ys)
  case Nil
  then show ?case using assms by (cases ys) (auto simp: foldl_Cons_code simp del: foldl.simps(2))
next
  case (Cons x xs)
  show ?case
  proof (cases ys)
    case Nil
    then show ?thesis using assms by (simp add: foldl_Cons_code del: foldl.simps(2))
  next
    case (Cons y zs)
    then show ?thesis using Cons.IH by (simp add: foldl_Cons_code self_delimiting del: foldl.simps(2))
  qed
qed

end

interpretation pax: field_code append_pax "\<lambda>x. x"
proof -
  have "field_code append_pax (\<lambda>kv. (fst kv, snd kv))" unfolding append_pax_def
    by (rule field_code_seq) (rule prefixed.field_code_axioms)+
  then show "field_code append_pax (\<lambda>x. x)" by simp
qed

interpretation entry: field_code append_entry "\<lambda>x. x"
proof -
  have "field_code append_entry (\<lambda>kv. (fst kv, snd kv))" unfolding append_entry_def
    by (rule field_code_seq) (rule prefixed.field_code_axioms, rule digest.field_code_axioms)
  then show "field_code append_entry (\<lambda>x. x)" by simp
qed

lemma codes_nonempty: "append_pax [] kv \<noteq> []" "append_entry [] e \<noteq> []"
proof -
  have "AppendUvarint [] n \<noteq> []" for n
    by (cases "n < 128") (simp_all add: AppendUvarint_small AppendUvarint_large_Cons)
  then have "append_prefixed [] s \<noteq> []" for s by (simp add: append_prefixed_def)
  then show "append_pax [] kv \<noteq> []" "append_entry [] e \<noteq> []"
    using prefixed.appends [of "append_prefixed [] (fst kv)"] by (simp_all add: append_pax_def append_entry_def append_digest_def)
qed

lemma kind_byte_inj: "kind_byte k = kind_byte l \<longleftrightarrow> k = l"
  by (cases k; cases l) (simp_all add: kind_byte_def)

definition pax_list :: "(string, string) fmap \<Rightarrow> (string \<times> string) list" where
  "pax_list m = map (\<lambda>key. (key, the (fmlookup m key))) (sorted_list_of_fset (fmdom m))"

lemma pax_list_inj: "pax_list m = pax_list n \<longleftrightarrow> m = n"
proof
  assume eq: "pax_list m = pax_list n"
  have keys: "map fst (pax_list m) = sorted_list_of_fset (fmdom m)" for m :: "(string, string) fmap" by (simp add: pax_list_def o_def)
  then have dom: "fmdom m = fmdom n" using eq by (metis sorted_list_of_fset_simps(2) fset_inverse)
  have "\<forall>key \<in> fset (fmdom m). the (fmlookup m key) = the (fmlookup n key)"
    using eq unfolding pax_list_def dom by (simp add: map_eq_conv)
  then show "m = n" using dom by (intro fmap_ext) (metis fmdom_notI fmlookup_dom_iff option.collapse option.distinct(1))
qed simp

lemma entry_encoding_iff:
  "entry_encoding k h l p = entry_encoding k' h' l' p' \<longleftrightarrow> k = k' \<and> hd_Mode h = hd_Mode h' \<and> hd_Uid h = hd_Uid h' \<and> hd_Gid h = hd_Gid h' \<and>
     hd_ModTime h = hd_ModTime h' \<and> hd_Uname h = hd_Uname h' \<and> hd_Gname h = hd_Gname h' \<and> l = l' \<and> p = p' \<and>
     hd_PAXRecords h = hd_PAXRecords h'"
proof -
  have enc: "entry_encoding k h l p = append_byte [] (kind_byte k) @ AppendVarint [] (hd_Mode h) @ AppendVarint [] (hd_Uid h) @
      AppendVarint [] (hd_Gid h) @ AppendVarint [] (fst (hd_ModTime h)) @ AppendVarint [] (snd (hd_ModTime h)) @
      append_prefixed [] (hd_Uname h) @ append_prefixed [] (hd_Gname h) @ append_prefixed [] l @ append_digest [] p @
      foldl append_pax [] (pax_list (hd_PAXRecords h))" for k h l p
    unfolding entry_encoding_def Let_def pax_list_def [symmetric] pax.foldl_appends [of "append_digest _ _"]
    by (simp add: digest.appends_nonempty prefixed.appends_nonempty varint.appends_nonempty)
  show ?thesis unfolding enc
    by (simp add: one_byte.self_delimiting varint.self_delimiting prefixed.self_delimiting digest.self_delimiting kind_byte_inj
        pax.uncounted [OF codes_nonempty(1)] pax_list_inj prod_eq_iff)
qed

text \<open>The entries of a sequence of events, and what their semantic digest is about: everything but the size fields and the block layout.\<close>

definition members :: "tar_event list \<Rightarrow> (Header \<times> tar_body) list" where
  "members events = List.map_filter (\<lambda>e. case e of TarEntry h body \<Rightarrow> Some (h, body) | TarFailed _ \<Rightarrow> None) events"

definition payload_of :: "Header \<times> tar_body \<Rightarrow> bytes" where
  "payload_of m = (if member_kind (fst m) = entryRegular then take (nat (hd_Size (fst m))) (tb_data (snd m)) else [])"

definition content_of :: "Header \<times> tar_body \<Rightarrow> string \<times> entryKind \<times> (i64 \<times> i64 \<times> i64 \<times> i64 \<times> i64) \<times> (string \<times> string \<times> string) \<times>
    (string, string) fmap \<times> bytes" where
  "content_of m = (case m of (h, _) \<Rightarrow> (member_name h, member_kind h, (hd_Mode h, hd_Uid h, hd_Gid h, hd_ModTime h),
     (hd_Uname h, hd_Gname h, hd_Linkname h), hd_PAXRecords h, payload_of m))"

definition contents :: "tar_event list \<Rightarrow> (string \<times> entryKind \<times> (i64 \<times> i64 \<times> i64 \<times> i64 \<times> i64) \<times> (string \<times> string \<times> string) \<times>
    (string, string) fmap \<times> bytes) list" where
  "contents events = map content_of (sort_key (member_name \<circ> fst) (members events))"

text \<open>The byte strings that are hashed on the way: the payloads, the encodings of the entries, and the list of their digests.\<close>

definition encoding_of :: "hash \<Rightarrow> Header \<times> tar_body \<Rightarrow> bytes" where
  "encoding_of H m = entry_encoding (member_kind (fst m)) (fst m) (hd_Linkname (fst m))
     (if member_kind (fst m) = entryRegular then H (payload_of m) else 0)"

definition list_encoding :: "hash \<Rightarrow> tar_event list \<Rightarrow> bytes" where
  "list_encoding H events = foldl append_entry (append_byte [] 1)
     (map (\<lambda>m. (member_name (fst m), H (encoding_of H m))) (sort_key (member_name \<circ> fst) (members events)))"

definition hashed_inputs :: "hash \<Rightarrow> tar_event list \<Rightarrow> bytes set" where
  "hashed_inputs H events = insert (list_encoding H events) (encoding_of H ` set (members events) \<union> payload_of ` set (members events))"

lemma members_simps [simp]: "members [] = []" "members (TarEntry h body # es) = (h, body) # members es" "members (TarFailed err # es) = members es"
  by (simp_all add: members_def List.map_filter_simps)

lemma scanArchive_entries:
  "scanArchive H aliased cancelled scan events = Inr scan' \<Longrightarrow>
     as_entries scan' = as_entries scan @ map (\<lambda>m. (member_name (fst m), H (encoding_of H m))) (members events)"
proof (induction H aliased cancelled scan events rule: scanArchive.induct)
  case (1 H aliased cancelled scan events)
  show ?case
  proof (cases events)
    case Nil
    then show ?thesis using 1(2) by (subst (asm) scanArchive.simps) (auto split: if_split_asm)
  next
    case (Cons e es)
    then obtain h body where e: "e = TarEntry h body"
      using 1(2) by (subst (asm) scanArchive.simps) (auto split: if_split_asm tar_event.split_asm)
    then obtain scan1 where step: "record_entry H aliased scan h body = Inr scan1" "\<not> cancelled 0"
        "scanArchive H aliased (\<lambda>n. cancelled (n + 1)) scan1 es = Inr scan'"
      using 1(2) Cons by (subst (asm) scanArchive.simps) (auto split: if_split_asm sum.split_asm)
    have "as_entries scan1 = as_entries scan @ [(member_name h, H (encoding_of H (h, body)))]"
      using step(1)
    proof (rule record_entryE)
      fix s1 s2 payload
      assume name: "validArchivePathText (member_name h)" "canonicalMemberPath (member_name h)"
        and path: "recordPath aliased scan (member_name h) = Some s1"
        and payload: "recordPayload H s1 (member_kind h) (hd_Size h) body = Inr (s2, payload)"
        and scan1: "scan1 = s2\<lparr>as_types := (as_types s2)(member_name h \<mapsto> member_kind h),
          as_entries := as_entries s2 @ [(member_name h, semanticEntryDigest H (member_kind h) h (hd_Linkname h) payload)]\<rparr>"
      have "as_entries s1 = as_entries scan" using path by (auto simp: recordPath_def Let_def split: if_split_asm)
      then show ?thesis using recordPayload_outcome [OF payload] by (simp add: scan1 semanticEntryDigest_def encoding_of_def payload_of_def)
    qed
    then show ?thesis using 1(1) [OF step(2) Cons e step(1) step(3)] e Cons by simp
  qed
qed

lemma sort_key_map: "sort_key f (map g xs) = map g (sort_key (f \<circ> g) xs)"
proof -
  have "insort_key f (g x) (map g ys) = map g (insort_key (f \<circ> g) x ys)" for x ys by (induction ys) auto
  then show ?thesis by (induction xs) (simp_all add: sort_key_def)
qed

lemma semantic_digest_form:
  assumes "Analyze H aliased tar cancelled data finish maximumBytes = Inr value"
  shows "iv_SemanticDigest value = H (list_encoding H (fst (tar data None)))"
proof -
  obtain scan where scan: "scanArchive H aliased cancelled newArchiveScan (fst (tar data None)) = Inr scan"
      and inventoried: "value = inventory H scan (read_all maximumBytes data)"
    using assms by (rule AnalyzeE)
  have "as_entries scan = map (\<lambda>m. (member_name (fst m), H (encoding_of H m))) (members (fst (tar data None)))"
    using scanArchive_entries [OF scan] by (simp add: newArchiveScan_def)
  then show ?thesis by (simp add: inventoried inventory_def list_encoding_def sort_key_map o_def Let_def)
qed

lemma map_eq_transfer: "map f xs = map f ys \<Longrightarrow> (\<And>x y. x \<in> set xs \<Longrightarrow> y \<in> set ys \<Longrightarrow> f x = f y \<Longrightarrow> g x = g y) \<Longrightarrow> map g xs = map g ys"
proof (induction xs arbitrary: ys)
  case (Cons x xs)
  then obtain y zs where "ys = y # zs" "f x = f y" "map f xs = map f zs" by (cases ys) auto
  then show ?case using Cons.IH [of zs] Cons.prems(2) by simp
qed simp

lemma encoding_identifies:
  assumes "member_name (fst m) = member_name (fst n)" "encoding_of H m = encoding_of H n"
  shows "content_of m = content_of n \<or> collision H (payload_of m) (payload_of n)"
proof -
  have fields: "member_kind (fst m) = member_kind (fst n)" "hd_Mode (fst m) = hd_Mode (fst n)" "hd_Uid (fst m) = hd_Uid (fst n)"
      "hd_Gid (fst m) = hd_Gid (fst n)" "hd_ModTime (fst m) = hd_ModTime (fst n)" "hd_Uname (fst m) = hd_Uname (fst n)"
      "hd_Gname (fst m) = hd_Gname (fst n)" "hd_Linkname (fst m) = hd_Linkname (fst n)" "hd_PAXRecords (fst m) = hd_PAXRecords (fst n)"
      "(if member_kind (fst m) = entryRegular then H (payload_of m) else 0) = (if member_kind (fst n) = entryRegular then H (payload_of n) else 0)"
    using assms(2) unfolding encoding_of_def entry_encoding_iff by blast+
  have "payload_of m = payload_of n \<or> collision H (payload_of m) (payload_of n)"
  proof (cases "member_kind (fst n) = entryRegular")
    case True
    then show ?thesis using fields(1,10) by (simp add: hash_eq_iff)
  next
    case False
    then show ?thesis using fields(1) by (simp add: payload_of_def)
  qed
  then show ?thesis using fields(1-9) assms(1) by (cases m; cases n) (auto simp: content_of_def)
qed

lemma content_encoding: "content_of m = content_of n \<Longrightarrow> member_name (fst m) = member_name (fst n) \<and> encoding_of H m = encoding_of H n"
  by (cases m; cases n) (auto simp: content_of_def encoding_of_def entry_encoding_iff)

text \<open>
  (C19) The semantic digest of an analysed archive identifies its content. Archives with the same content, entry by entry in the order of their names (names,
  kinds, modes, owners, times, links, extended records and the bytes of the files), have the same semantic digest, whatever the order and
  the block layout of the entries; and two archives with the same semantic digest have the same content, unless two of the byte strings hashed for them
  collide.
\<close>

theorem semantic_digest_identifies:
  assumes "Analyze H aliased tar cancelled data finish maximumBytes = Inr left"
    and "Analyze H aliased' tar' cancelled' data' finish' maximumBytes' = Inr right"
  shows "(contents (fst (tar data None)) = contents (fst (tar' data' None)) \<longrightarrow> iv_SemanticDigest left = iv_SemanticDigest right) \<and>
    (iv_SemanticDigest left = iv_SemanticDigest right \<longrightarrow> contents (fst (tar data None)) = contents (fst (tar' data' None)) \<or>
      (\<exists>x \<in> hashed_inputs H (fst (tar data None)). \<exists>y \<in> hashed_inputs H (fst (tar' data' None)). collision H x y))"
proof (intro conjI impI)
  let ?ms = "sort_key (member_name \<circ> fst) (members (fst (tar data None)))"
  let ?ns = "sort_key (member_name \<circ> fst) (members (fst (tar' data' None)))"
  let ?entry = "\<lambda>m. (member_name (fst m), H (encoding_of H m))"
  note forms = semantic_digest_form [OF assms(1)] semantic_digest_form [OF assms(2)]
  {
    assume same: "contents (fst (tar data None)) = contents (fst (tar' data' None))"
    then have "map ?entry ?ms = map ?entry ?ns" unfolding contents_def
    proof (rule map_eq_transfer)
      fix m n assume "content_of m = content_of n"
      then show "?entry m = ?entry n" using content_encoding [of m n H] by simp
    qed
    then show "iv_SemanticDigest left = iv_SemanticDigest right" using forms by (simp add: list_encoding_def)
  }
  assume digests: "iv_SemanticDigest left = iv_SemanticDigest right"
  show "contents (fst (tar data None)) = contents (fst (tar' data' None)) \<or>
      (\<exists>x \<in> hashed_inputs H (fst (tar data None)). \<exists>y \<in> hashed_inputs H (fst (tar' data' None)). collision H x y)"
  proof (rule disjCI)
    assume none: "\<not> (\<exists>x \<in> hashed_inputs H (fst (tar data None)). \<exists>y \<in> hashed_inputs H (fst (tar' data' None)). collision H x y)"
    then have free: "\<not> collision H (list_encoding H (fst (tar data None))) (list_encoding H (fst (tar' data' None)))"
      "m \<in> set ?ms \<Longrightarrow> n \<in> set ?ns \<Longrightarrow> \<not> collision H (encoding_of H m) (encoding_of H n) \<and> \<not> collision H (payload_of m) (payload_of n)" for m n
      by (auto simp: hashed_inputs_def)
    have "list_encoding H (fst (tar data None)) = list_encoding H (fst (tar' data' None))"
      using digests forms free(1) by (simp add: hash_eq_iff)
    then have entries: "map ?entry ?ms = map ?entry ?ns"
      unfolding list_encoding_def entry.foldl_appends [of "append_byte [] 1"] by (simp add: entry.uncounted [OF codes_nonempty(2)])
    then show "contents (fst (tar data None)) = contents (fst (tar' data' None))" unfolding contents_def
    proof (rule map_eq_transfer)
      fix m n assume mn: "m \<in> set ?ms" "n \<in> set ?ns" "?entry m = ?entry n"
      then have "encoding_of H m = encoding_of H n" using free(2) [OF mn(1,2)] by (auto simp: hash_eq_iff)
      then show "content_of m = content_of n" using encoding_identifies [of m n H] free(2) [OF mn(1,2)] mn(3) by auto
    qed
  qed
qed

theorem semantic_digest_identifies_witness:
  "\<exists>left right. Analyze (\<lambda>_. 9) id example_tar (\<lambda>_. False) (replicate 2048 0) None 4096 = Inr left \<and>
     Analyze (\<lambda>_. 9) id example_tar (\<lambda>_. False) (replicate 2048 0) None 4096 = Inr right \<and>
     iv_SemanticDigest left = iv_SemanticDigest right"
proof -
  obtain v where v: "Analyze (\<lambda>_. 9) id example_tar (\<lambda>_. False) (replicate 2048 0) None 4096 = Inr v" using example_analyzed by blast
  show ?thesis using v semantic_digest_identifies [OF v v] by blast
qed

end
