(* ===== verification/BackupRoot.thy ===== *)
theory BackupRoot
  imports Capacity ArchiveIdentity
begin

text \<open>
  The backup root as a file system, and reading a publication back (\<open>open_unix.go\<close> and \<open>filesystem_unix.go\<close> of \<open>src/internal/backup\<close>). The
  root is a finite map of directories of files, which keep whether they have reached the disk. Every change of the root is recorded, so
  that a theorem can speak of the states in between, at any of which the machine may stop. What the operating
  system answers (failures, identities and permissions of files, a cancelled context, the position at which a write fails) comes from an oracle, and one process
  works on the root.
\<close>

section \<open>The backup root\<close>

record pfile =
  pf_data :: bytes
  pf_synced :: bool

record pdir =
  pd_files :: "(string, pfile) fmap"
  pd_synced :: bool

record backup_root =
  bk_dirs :: "(string, pdir) fmap"
  bk_synced :: bool

text \<open>\<open>pw_entries\<close> are the \<open>entries\<close> of the partial publication.\<close>

record pub_world =
  pw_root :: backup_root
  pw_history :: "backup_root list"
  pw_entries :: "string list"
  pw_answers :: "nat \<Rightarrow> nat"
  pw_asked :: nat

type_synonym 'a pub = "(pub_world, 'a) state"

definition answer :: "nat pub" where
  "answer = State (\<lambda>w. (pw_answers w (pw_asked w), w\<lparr>pw_asked := pw_asked w + 1\<rparr>))"

definition granted :: "bool pub" where
  "granted = do { n \<leftarrow> answer; State_Monad.return (n \<noteq> 0) }"

definition dirs_now :: "(string, pdir) fmap pub" where
  "dirs_now = State (\<lambda>w. (bk_dirs (pw_root w), w))"

definition change :: "(backup_root \<Rightarrow> backup_root) \<Rightarrow> unit pub" where
  "change f = State (\<lambda>w. ((), w\<lparr>pw_root := f (pw_root w), pw_history := pw_root w # pw_history w\<rparr>))"

definition change_dir :: "string \<Rightarrow> (pdir \<Rightarrow> pdir) \<Rightarrow> unit pub" where
  "change_dir name f = change (\<lambda>root. case fmlookup (bk_dirs root) name of None \<Rightarrow> root | Some d \<Rightarrow> root\<lparr>bk_dirs := fmupd name (f d) (bk_dirs root)\<rparr>)"

definition dir_files :: "string \<Rightarrow> (string, pfile) fmap pub" where
  "dir_files name = do {
     dirs \<leftarrow> dirs_now;
     State_Monad.return (case fmlookup dirs name of None \<Rightarrow> fmempty | Some d \<Rightarrow> pd_files d) }"

definition set_entries :: "(string list \<Rightarrow> string list) \<Rightarrow> unit pub" where
  "set_entries f = State (\<lambda>w. ((), w\<lparr>pw_entries := f (pw_entries w)\<rparr>))"

definition entries_now :: "string list pub" where
  "entries_now = State (\<lambda>w. (pw_entries w, w))"

section \<open>Reading a publication (open\_unix.go)\<close>

definition bytes_string :: "bytes \<Rightarrow> string" where
  "bytes_string bs = map (\<lambda>b. char_of (unat b)) bs"

text \<open>Opening, identity and permissions, the read and the closing of a private file each need the system's consent.\<close>

definition readPrivateFile :: "string \<Rightarrow> string \<Rightarrow> nat \<Rightarrow> bytes option pub" where
  "readPrivateFile directory name maximum = do {
     files \<leftarrow> dir_files directory;
     opened \<leftarrow> granted;
     case fmlookup files name of
       None \<Rightarrow> State_Monad.return None
     | Some f \<Rightarrow>
         if \<not> opened then State_Monad.return None
         else do {
           valid \<leftarrow> granted;
           if \<not> valid then State_Monad.return None
           else do {
             read \<leftarrow> granted;
             entryValid \<leftarrow> granted;
             closed \<leftarrow> granted;
             State_Monad.return (if read \<and> closed \<and> length (pf_data f) \<le> maximum \<and> entryValid then Some (pf_data f) else None) } } }"

definition verifyArtifactFile :: "hash \<Rightarrow> string \<Rightarrow> Artifact \<Rightarrow> bool pub" where
  "verifyArtifactFile H directory artifact = do {
     files \<leftarrow> dir_files directory;
     opened \<leftarrow> granted;
     case fmlookup files (af_FileName artifact) of
       None \<Rightarrow> State_Monad.return False
     | Some f \<Rightarrow>
         if \<not> opened then State_Monad.return False
         else do {
           valid \<leftarrow> granted;
           if \<not> valid then State_Monad.return False
           else do {
             read \<leftarrow> granted;
             entryValid \<leftarrow> granted;
             closed \<leftarrow> granted;
             let copied = take (nat (iv_ArchiveBytes (af_Inventory artifact) + 1)) (pf_data f);
             State_Monad.return (read \<and> closed \<and> int (length copied) = iv_ArchiveBytes (af_Inventory artifact) \<and>
               H copied = iv_ArchiveDigest (af_Inventory artifact) \<and> entryValid) } } }"

definition wantNames :: "Manifest \<Rightarrow> string list" where
  "wantNames manifest = ''manifest.json'' # map af_FileName (mf_Artifacts manifest)"

definition publicationNamesMatch :: "string \<Rightarrow> Manifest \<Rightarrow> bool pub" where
  "publicationNamesMatch directory manifest = do {
     files \<leftarrow> dir_files directory;
     listed \<leftarrow> granted;
     State_Monad.return (listed \<and> sorted_list_of_fset (fmdom files) = sort (wantNames manifest)) }"

fun artifacts_match :: "hash \<Rightarrow> string \<Rightarrow> Artifact list \<Rightarrow> bool pub" where
  "artifacts_match H directory [] = State_Monad.return True"
| "artifacts_match H directory (artifact # artifacts) = do {
     ok \<leftarrow> verifyArtifactFile H directory artifact;
     if ok then artifacts_match H directory artifacts else State_Monad.return False }"

definition publicationContentsMatch :: "hash \<Rightarrow> string \<Rightarrow> bytes \<Rightarrow> Manifest \<Rightarrow> bool pub" where
  "publicationContentsMatch H directory raw manifest = do {
     existing \<leftarrow> readPrivateFile directory ''manifest.json'' maximumManifestBytes;
     if existing \<noteq> Some raw then State_Monad.return False
     else artifacts_match H directory (mf_Artifacts manifest) }"

datatype opened_directory = DirectoryMissing | DirectoryInvalid | DirectoryOpened

definition openPublicationDirectory :: "string \<Rightarrow> opened_directory pub" where
  "openPublicationDirectory name = do {
     dirs \<leftarrow> dirs_now;
     opened \<leftarrow> granted;
     case fmlookup dirs name of
       None \<Rightarrow> State_Monad.return (if opened then DirectoryMissing else DirectoryInvalid)
     | Some _ \<Rightarrow>
         if \<not> opened then State_Monad.return DirectoryInvalid
         else do { valid \<leftarrow> granted; State_Monad.return (if valid then DirectoryOpened else DirectoryInvalid) } }"

definition verifyExistingPublication :: "hash \<Rightarrow> string \<Rightarrow> bytes \<Rightarrow> Manifest \<Rightarrow> bool pub" where
  "verifyExistingPublication H name raw manifest = do {
     directory \<leftarrow> openPublicationDirectory name;
     if directory \<noteq> DirectoryOpened then State_Monad.return False
     else do {
       names \<leftarrow> publicationNamesMatch name manifest;
       if \<not> names then State_Monad.return False
       else do {
         contents \<leftarrow> publicationContentsMatch H name raw manifest;
         if \<not> contents then State_Monad.return False
         else granted } } }"

text \<open>Errors joined by \<open>errors.Join\<close> are a list; none is nil. Closing a descriptor may fail.\<close>

definition closeDescriptor :: "backup_error list pub" where
  "closeDescriptor = do { ok \<leftarrow> granted; State_Monad.return (if ok then [] else [OtherBackupError (ErrDriver None)]) }"

definition anchor_close :: "backup_error list pub" where
  "anchor_close = do { ok \<leftarrow> granted; State_Monad.return (if ok then [] else [OtherBackupError (Wrap ''close backup directory'' (ErrDriver None))]) }"

definition context_error :: "string \<Rightarrow> backup_error list pub" where
  "context_error message = do { ok \<leftarrow> granted; State_Monad.return (if ok then [] else [OtherBackupError (Wrap message ErrContext)]) }"

definition manifest_path :: "transaction_id \<Rightarrow> string" where
  "manifest_path transaction = (case ManifestPath transaction of Inl _ \<Rightarrow> [] | Inr path \<Rightarrow> path)"

definition readPublication :: "hash \<Rightarrow> transaction_id \<Rightarrow> (backup_error list + Publication) pub" where
  "readPublication H transaction = do {
     let directory = id_String transaction;
     raw \<leftarrow> readPrivateFile directory ''manifest.json'' maximumManifestBytes;
     case raw of
       None \<Rightarrow> do { errs \<leftarrow> anchor_close; State_Monad.return (Inl (ErrInvalidArchive # errs)) }
     | Some raw \<Rightarrow>
         (case DecodeManifest H \<lparr>rd_bytes = bytes_string raw, rd_fails = False\<rparr> of
            Inl _ \<Rightarrow> do { errs \<leftarrow> anchor_close; State_Monad.return (Inl (ErrInvalidManifest # errs)) }
          | Inr (manifest, digest) \<Rightarrow>
              if mf_TransactionID manifest \<noteq> transaction then do { errs \<leftarrow> anchor_close; State_Monad.return (Inl (ErrInvalidManifest # errs)) }
              else do {
                names \<leftarrow> publicationNamesMatch directory manifest;
                contents \<leftarrow> (if names then publicationContentsMatch H directory raw manifest else State_Monad.return False);
                valid \<leftarrow> (if contents then granted else State_Monad.return False);
                if \<not> valid then do { errs \<leftarrow> anchor_close; State_Monad.return (Inl (ErrInvalidArchive # errs)) }
                else do {
                  directoryErr \<leftarrow> closeDescriptor;
                  rootErr \<leftarrow> anchor_close;
                  State_Monad.return (if directoryErr @ rootErr \<noteq> [] then Inl (directoryErr @ rootErr)
                    else Inr \<lparr>pu_Manifest = manifest, pu_ManifestPath = manifest_path transaction, pu_ManifestDigest = digest\<rparr>) } }) }"

text \<open>An existing root is opened if its path is valid and the directory is private and still the one at its path.\<close>

definition openExistingBackupRoot :: "string \<Rightarrow> bool pub" where
  "openExistingBackupRoot root =
     (if \<not> validRootPath root then State_Monad.return False
      else do {
        opened \<leftarrow> granted;
        if \<not> opened then State_Monad.return False else granted })"

definition existingPublicationRoot :: "string \<Rightarrow> transaction_id \<Rightarrow> (backup_error list + bool) pub" where
  "existingPublicationRoot rootPath transaction =
     (if transaction = 0 then State_Monad.return (Inl [ErrInvalidManifest])
      else do {
        cancelled \<leftarrow> context_error ''open backup'';
        if cancelled \<noteq> [] then State_Monad.return (Inl cancelled)
        else do { found \<leftarrow> openExistingBackupRoot rootPath; State_Monad.return (Inr found) } })"

text \<open>An absent publication is the answer \<open>None\<close>, and so is a root that is absent or not private.\<close>

definition Open :: "hash \<Rightarrow> string \<Rightarrow> transaction_id \<Rightarrow> (backup_error list + Publication option) pub" where
  "Open H rootPath transaction = do {
     root \<leftarrow> existingPublicationRoot rootPath transaction;
     case root of
       Inl errs \<Rightarrow> State_Monad.return (Inl errs)
     | Inr found \<Rightarrow>
         if \<not> found then State_Monad.return (Inr None)
         else do {
           directory \<leftarrow> openPublicationDirectory (id_String transaction);
           case directory of
             DirectoryMissing \<Rightarrow> do { errs \<leftarrow> anchor_close; State_Monad.return (if errs = [] then Inr None else Inl errs) }
           | DirectoryInvalid \<Rightarrow> do { errs \<leftarrow> anchor_close; State_Monad.return (Inl (ErrInvalidArchive # errs)) }
           | DirectoryOpened \<Rightarrow> do {
               r \<leftarrow> readPublication H transaction;
               State_Monad.return (case r of Inl errs \<Rightarrow> Inl errs | Inr publication \<Rightarrow> Inr (Some publication)) } } }"

section \<open>What reading finds\<close>

text \<open>
  The directory holds exactly the files of the manifest: its canonical text, and archives of the recorded size and digest.
\<close>

definition describes :: "hash \<Rightarrow> Manifest \<Rightarrow> pdir \<Rightarrow> bool" where
  "describes H m d \<longleftrightarrow> distinct (wantNames m) \<and>
     fmdom (pd_files d) = fset_of_list (wantNames m) \<and>
     map_option pf_data (fmlookup (pd_files d) ''manifest.json'') = Some (string_bytes (canonicalManifest m)) \<and>
     (\<forall>a \<in> set (mf_Artifacts m). \<exists>f. fmlookup (pd_files d) (af_FileName a) = Some f \<and>
        int (length (pf_data f)) = iv_ArchiveBytes (af_Inventory a) \<and> H (pf_data f) = iv_ArchiveDigest (af_Inventory a))"

definition files_of :: "backup_root \<Rightarrow> string \<Rightarrow> (string, pfile) fmap" where
  "files_of root name = (case fmlookup (bk_dirs root) name of None \<Rightarrow> fmempty | Some d \<Rightarrow> pd_files d)"

definition seen :: "pub_world \<Rightarrow> backup_root \<times> backup_root list \<times> string list" where
  "seen w = (pw_root w, pw_history w, pw_entries w)"

lemma run_oracle [simp]:
  "run_state answer w = (pw_answers w (pw_asked w), w\<lparr>pw_asked := pw_asked w + 1\<rparr>)"
  "run_state granted w = (pw_answers w (pw_asked w) \<noteq> 0, w\<lparr>pw_asked := pw_asked w + 1\<rparr>)"
  "run_state dirs_now w = (bk_dirs (pw_root w), w)"
  "run_state (dir_files name) w = (files_of (pw_root w) name, w)"
  "run_state entries_now w = (pw_entries w, w)"
  by (simp_all add: answer_def granted_def dirs_now_def dir_files_def entries_now_def files_of_def)

lemma seen_asked [simp]: "seen (w\<lparr>pw_asked := n\<rparr>) = seen w"
  by (simp add: seen_def)

lemma fixed_oracle [moves_rules]:
  "moves seen (=) answer" "moves seen (=) granted" "moves seen (=) dirs_now" "moves seen (=) (dir_files name)" "moves seen (=) entries_now"
  by (auto intro: movesI)

lemma fixed_checks [moves_rules]:
  "moves seen (=) closeDescriptor" "moves seen (=) anchor_close" "moves seen (=) (context_error message)"
  "moves seen (=) (readPrivateFile directory name maximum)" "moves seen (=) (verifyArtifactFile H directory artifact)"
  "moves seen (=) (publicationNamesMatch directory manifest)" "moves seen (=) (openPublicationDirectory name)"
  unfolding closeDescriptor_def anchor_close_def context_error_def readPrivateFile_def verifyArtifactFile_def publicationNamesMatch_def
    openPublicationDirectory_def
  by (intro moves_rules)+

lemma fixed_artifacts [moves_rules]: "moves seen (=) (artifacts_match H directory artifacts)"
  by (induction artifacts) (simp_all, (intro moves_rules | assumption)+)

lemma fixed_existing [moves_rules]:
  "moves seen (=) (verifyExistingPublication H name raw manifest)"
  unfolding verifyExistingPublication_def publicationContentsMatch_def by (intro moves_rules)+

lemma fixed_open [moves_rules]: "moves seen (=) (Open H rootPath transaction)"
  unfolding Open_def existingPublicationRoot_def openExistingBackupRoot_def readPublication_def publicationContentsMatch_def
  by (intro moves_rules | simp split: opened_directory.split | rule conjI impI)+

lemma sorted_names: "sorted_list_of_fset s = sort xs \<longleftrightarrow> distinct xs \<and> s = fset_of_list (xs :: string list)"
proof
  assume names: "sorted_list_of_fset s = sort xs"
  then have "distinct (sort xs)" by (metis distinct_sorted_list_of_set sorted_list_of_fset.rep_eq)
  moreover have "s = fset_of_list xs" by (metis names fset_of_list.rep_eq fset_inject set_sort sorted_list_of_fset_simps(1))
  ultimately show "distinct xs \<and> s = fset_of_list xs" by simp
next
  assume "distinct xs \<and> s = fset_of_list xs"
  then show "sorted_list_of_fset s = sort xs"
    by (metis distinct_sort fset_of_list.rep_eq set_sort sorted_list_of_fset.rep_eq sorted_list_of_set_sort_remdups distinct_remdups_id)
qed

lemma read_private:
  "run_state (readPrivateFile directory name maximum) w = (Some data, w') \<Longrightarrow>
     \<exists>f. fmlookup (files_of (pw_root w) directory) name = Some f \<and> data = pf_data f \<and> length data \<le> maximum"
  by (auto simp: readPrivateFile_def split: option.split_asm if_split_asm)

lemma verified_artifact:
  "run_state (verifyArtifactFile H directory a) w = (True, w') \<Longrightarrow>
     \<exists>f. fmlookup (files_of (pw_root w) directory) (af_FileName a) = Some f \<and> int (length (pf_data f)) = iv_ArchiveBytes (af_Inventory a) \<and>
       H (pf_data f) = iv_ArchiveDigest (af_Inventory a)"
proof -
  assume "run_state (verifyArtifactFile H directory a) w = (True, w')"
  then obtain f where f: "fmlookup (files_of (pw_root w) directory) (af_FileName a) = Some f"
      and copied: "int (length (take (nat (iv_ArchiveBytes (af_Inventory a) + 1)) (pf_data f))) = iv_ArchiveBytes (af_Inventory a)"
        "H (take (nat (iv_ArchiveBytes (af_Inventory a) + 1)) (pf_data f)) = iv_ArchiveDigest (af_Inventory a)"
    by (auto simp: verifyArtifactFile_def Let_def split: option.split_asm if_split_asm)
  from copied(1) have "length (pf_data f) \<le> nat (iv_ArchiveBytes (af_Inventory a) + 1)" by (simp add: min_def split: if_split_asm)
  with f copied show ?thesis by simp
qed

lemma seen_root: "moves seen (=) m \<Longrightarrow> run_state m w = (x, w') \<Longrightarrow> pw_root w' = pw_root w"
  using movesD [of seen "(=)" m w x w'] by (simp add: seen_def)

lemma matched_artifacts:
  "run_state (artifacts_match H directory artifacts) w = (True, w') \<Longrightarrow>
     \<forall>a \<in> set artifacts. \<exists>f. fmlookup (files_of (pw_root w) directory) (af_FileName a) = Some f \<and>
       int (length (pf_data f)) = iv_ArchiveBytes (af_Inventory a) \<and> H (pf_data f) = iv_ArchiveDigest (af_Inventory a)"
proof (induction artifacts arbitrary: w)
  case (Cons a artifacts)
  from Cons.prems obtain v where v: "run_state (verifyArtifactFile H directory a) w = (True, v)" "run_state (artifacts_match H directory artifacts) v = (True, w')"
    by (auto split: prod.split_asm if_split_asm)
  have "pw_root v = pw_root w" using v(1) by (rule seen_root [rotated]) (rule fixed_checks)
  with Cons.IH [OF v(2)] verified_artifact [OF v(1)] show ?case by auto
qed simp

lemma matched_names:
  "run_state (publicationNamesMatch directory m) w = (True, w') \<Longrightarrow> distinct (wantNames m) \<and>
     fmdom (files_of (pw_root w) directory) = fset_of_list (wantNames m)"
  by (auto simp: publicationNamesMatch_def sorted_names)

lemma matched_contents:
  assumes "run_state (publicationContentsMatch H directory raw m) w = (True, w')"
  shows "map_option pf_data (fmlookup (files_of (pw_root w) directory) ''manifest.json'') = Some raw \<and>
     (\<forall>a \<in> set (mf_Artifacts m). \<exists>f. fmlookup (files_of (pw_root w) directory) (af_FileName a) = Some f \<and>
        int (length (pf_data f)) = iv_ArchiveBytes (af_Inventory a) \<and> H (pf_data f) = iv_ArchiveDigest (af_Inventory a))"
proof -
  obtain v where v: "run_state (readPrivateFile directory ''manifest.json'' maximumManifestBytes) w = (Some raw, v)"
      "run_state (artifacts_match H directory (mf_Artifacts m)) v = (True, w')"
    using assms by (auto simp: publicationContentsMatch_def split: prod.split_asm if_split_asm)
  have "pw_root v = pw_root w" using v(1) by (rule seen_root [rotated]) (rule fixed_checks)
  with matched_artifacts [OF v(2)] read_private [OF v(1)] show ?thesis by auto
qed

lemma opened_directory:
  "run_state (openPublicationDirectory name) w = (DirectoryOpened, w') \<Longrightarrow> \<exists>d. fmlookup (bk_dirs (pw_root w)) name = Some d"
  by (auto simp: openPublicationDirectory_def split: option.split_asm if_split_asm)

text \<open>A directory that exists already is taken for the backup only if it is described by the manifest.\<close>

lemma verified_publication:
  assumes "run_state (verifyExistingPublication H name (string_bytes (canonicalManifest m)) m) w = (True, w')"
  shows "\<exists>d. fmlookup (bk_dirs (pw_root w)) name = Some d \<and> describes H m d"
proof -
  obtain u v x where opened: "run_state (openPublicationDirectory name) w = (DirectoryOpened, u)"
      and names: "run_state (publicationNamesMatch name m) u = (True, v)"
      and contents: "run_state (publicationContentsMatch H name (string_bytes (canonicalManifest m)) m) v = (True, x)"
    using assms by (auto simp: verifyExistingPublication_def split: prod.split_asm if_split_asm)
  have "pw_root u = pw_root w" using opened by (rule seen_root [rotated]) (rule fixed_checks)
  moreover have "pw_root v = pw_root u" using names by (rule seen_root [rotated]) (rule fixed_checks)
  moreover obtain d where "fmlookup (bk_dirs (pw_root w)) name = Some d" using opened_directory [OF opened] by blast
  ultimately show ?thesis using matched_names [OF names] matched_contents [OF contents] by (simp add: describes_def files_of_def)
qed

lemma string_bytes_string [simp]: "string_bytes (bytes_string bs) = bs"
  by (induction bs) (simp_all add: bytes_string_def string_bytes_def byte_of_char_def of_char_of unat_byte_bound)

lemma bytes_string_bytes [simp]: "bytes_string (string_bytes s) = s"
  by (metis string_bytes_eq_iff string_bytes_string)

lemma read_publication_outcome:
  assumes "run_state (readPublication H transaction) w = (Inr p, w')"
  shows "int64_manifest (manifestToWire (pu_Manifest p)) \<and>
    EncodeManifest H (pu_Manifest p) = Inr (canonicalManifest (pu_Manifest p), pu_ManifestDigest p) \<and>
    mf_TransactionID (pu_Manifest p) = transaction \<and> pu_ManifestPath p = manifest_path transaction \<and>
    (\<forall>d. fmlookup (bk_dirs (pw_root w)) (id_String transaction) = Some d \<longrightarrow> describes H (pu_Manifest p) d)"
proof -
  let ?directory = "id_String transaction"
  obtain raw u m digest v x where read: "run_state (readPrivateFile ?directory ''manifest.json'' maximumManifestBytes) w = (Some raw, u)"
      and decoded: "DecodeManifest H \<lparr>rd_bytes = bytes_string raw, rd_fails = False\<rparr> = Inr (m, digest)"
      and names: "run_state (publicationNamesMatch ?directory m) u = (True, v)"
      and contents: "run_state (publicationContentsMatch H ?directory raw m) v = (True, x)"
      and p: "mf_TransactionID m = transaction" "p = \<lparr>pu_Manifest = m, pu_ManifestPath = manifest_path transaction, pu_ManifestDigest = digest\<rparr>"
    using assms by (auto simp: readPublication_def Let_def split: prod.split_asm option.split_asm sum.split_asm if_split_asm)
  have "pw_root u = pw_root w" using read by (rule seen_root [rotated]) (rule fixed_checks)
  moreover have "pw_root v = pw_root u" using names by (rule seen_root [rotated]) (rule fixed_checks)
  moreover have encoded: "int64_manifest (manifestToWire m)" "EncodeManifest H m = Inr (bytes_string raw, digest)"
    using decoded_encodes [OF decoded] by simp_all
  moreover have "bytes_string raw = canonicalManifest m" using encoded(2) by (auto simp: EncodeManifest_def Let_def split: if_split_asm)
  moreover from this have "raw = string_bytes (canonicalManifest m)" by (metis string_bytes_string)
  ultimately show ?thesis using p matched_names [OF names] matched_contents [OF contents] by (auto simp: describes_def files_of_def)
qed

lemma existing_root_outcome:
  "run_state (existingPublicationRoot rootPath transaction) w = (Inr found, w') \<Longrightarrow> transaction \<noteq> 0 \<and> seen w' = seen w"
  by (auto simp: existingPublicationRoot_def context_error_def openExistingBackupRoot_def split: if_split_asm)

lemma open_outcome:
  assumes "run_state (Open H rootPath transaction) w = (Inr (Some p), w')"
  shows "\<exists>d. fmlookup (bk_dirs (pw_root w)) (id_String transaction) = Some d \<and> describes H (pu_Manifest p) d \<and>
    EncodeManifest H (pu_Manifest p) = Inr (canonicalManifest (pu_Manifest p), pu_ManifestDigest p) \<and>
    mf_TransactionID (pu_Manifest p) = transaction \<and> pu_ManifestPath p = manifest_path transaction \<and> transaction \<noteq> 0"
proof -
  obtain u v where root: "run_state (existingPublicationRoot rootPath transaction) w = (Inr True, u)"
      and opened: "run_state (openPublicationDirectory (id_String transaction)) u = (DirectoryOpened, v)"
      and read: "run_state (readPublication H transaction) v = (Inr p, w')"
    using assms by (auto simp: Open_def split: prod.split_asm sum.split_asm opened_directory.split_asm if_split_asm)
  have "pw_root v = pw_root u" using opened by (rule seen_root [rotated]) (rule fixed_checks)
  moreover have "pw_root u = pw_root w" "transaction \<noteq> 0" using existing_root_outcome [OF root] by (simp_all add: seen_def)
  ultimately show ?thesis using opened_directory [OF opened] read_publication_outcome [OF read] by auto
qed

text \<open>When the system denies nothing, a described directory is read back.\<close>

definition undisturbed :: "pub_world \<Rightarrow> bool" where
  "undisturbed w \<longleftrightarrow> (\<forall>n. pw_answers w n \<noteq> 0)"

lemma undisturbed_asked [simp]: "undisturbed (w\<lparr>pw_asked := n\<rparr>) = undisturbed w"
  by (simp add: undisturbed_def)

lemma undisturbed_answers: "undisturbed w \<Longrightarrow> pw_answers w n \<noteq> 0" "undisturbed w \<Longrightarrow> 0 < pw_answers w n"
  by (simp_all add: undisturbed_def)

lemma artifacts_match_undisturbed:
  assumes "undisturbed w" and "\<forall>a \<in> set artifacts. \<exists>f. fmlookup (files_of (pw_root w) directory) (af_FileName a) = Some f \<and>
       int (length (pf_data f)) = iv_ArchiveBytes (af_Inventory a) \<and> H (pf_data f) = iv_ArchiveDigest (af_Inventory a)"
  shows "\<exists>n. run_state (artifacts_match H directory artifacts) w = (True, w\<lparr>pw_asked := n\<rparr>)"
  using assms
proof (induction artifacts arbitrary: w)
  case Nil
  then show ?case by (simp, metis pub_world.surjective pub_world.update_convs(5))
next
  case (Cons a artifacts)
  from Cons.prems obtain f where f: "fmlookup (files_of (pw_root w) directory) (af_FileName a) = Some f"
      "int (length (pf_data f)) = iv_ArchiveBytes (af_Inventory a)" "H (pf_data f) = iv_ArchiveDigest (af_Inventory a)" by auto
  have "min (length (pf_data f)) (nat (iv_ArchiveBytes (af_Inventory a) + 1)) = length (pf_data f)" using f(2) by simp
  with f have "run_state (verifyArtifactFile H directory a) w = (True, w\<lparr>pw_asked := pw_asked w + 5\<rparr>)"
    using Cons.prems(1) by (simp add: verifyArtifactFile_def Let_def undisturbed_answers)
  moreover obtain n where "run_state (artifacts_match H directory artifacts) (w\<lparr>pw_asked := pw_asked w + 5\<rparr>) = (True, w\<lparr>pw_asked := n\<rparr>)"
    using Cons.IH [of "w\<lparr>pw_asked := pw_asked w + 5\<rparr>"] Cons.prems by auto
  ultimately show ?case by auto
qed

lemma open_undisturbed:
  assumes "undisturbed w" "validRootPath rootPath" "fmlookup (bk_dirs (pw_root w)) (id_String (mf_TransactionID m)) = Some d" "describes H m d"
    and encoded: "EncodeManifest H m = Inr (raw, digest)" "int64_manifest (manifestToWire m)"
  shows "fst (run_state (Open H rootPath (mf_TransactionID m)) w) =
    Inr (Some \<lparr>pu_Manifest = m, pu_ManifestPath = manifest_path (mf_TransactionID m), pu_ManifestDigest = digest\<rparr>)"
proof -
  let ?t = "mf_TransactionID m"
  have raw: "raw = canonicalManifest m" and small: "length raw \<le> maximumManifestBytes" and valid: "validManifest m"
    using encoded(1) by (auto simp: EncodeManifest_def Let_def split: if_split_asm)
  have "?t \<noteq> 0" using valid by (simp add: validManifest_def validManifestIdentity_def split: if_split_asm)
  have files: "files_of (pw_root w) (id_String ?t) = pd_files d" using assms(3) by (simp add: files_of_def)
  obtain f where f: "fmlookup (pd_files d) ''manifest.json'' = Some f" "pf_data f = string_bytes raw"
    using assms(4) raw by (auto simp: describes_def)
  have read: "run_state (readPrivateFile (id_String ?t) ''manifest.json'' maximumManifestBytes) v = (Some (string_bytes raw), v\<lparr>pw_asked := pw_asked v + 5\<rparr>)"
    if "undisturbed v" "pw_root v = pw_root w" for v
    using that f small by (simp add: readPrivateFile_def files undisturbed_answers)
  have names: "run_state (publicationNamesMatch (id_String ?t) m) v = (True, v\<lparr>pw_asked := pw_asked v + 1\<rparr>)"
    if "undisturbed v" "pw_root v = pw_root w" for v
    using that assms(4) by (simp add: publicationNamesMatch_def files undisturbed_answers sorted_names describes_def)
  have contents: "\<exists>n. run_state (publicationContentsMatch H (id_String ?t) (string_bytes raw) m) v = (True, v\<lparr>pw_asked := n\<rparr>)"
    if "undisturbed v" "pw_root v = pw_root w" for v
    using artifacts_match_undisturbed [of "v\<lparr>pw_asked := pw_asked v + 5\<rparr>" "mf_Artifacts m" "id_String ?t" H] that assms(4)
    by (auto simp: publicationContentsMatch_def read files describes_def)
  have decoded: "DecodeManifest H \<lparr>rd_bytes = raw, rd_fails = False\<rparr> = Inr (m, digest)" using encoded by (intro decode_encoded) simp_all
  let ?start = "w\<lparr>pw_asked := 11 + pw_asked w\<rparr>"
  obtain n where n: "run_state (publicationContentsMatch H (id_String ?t) (string_bytes raw) m) ?start = (True, ?start\<lparr>pw_asked := n\<rparr>)"
    using contents [of ?start] assms(1) by auto
  show ?thesis using assms(1-3) \<open>?t \<noteq> 0\<close> n
    by (simp add: Open_def existingPublicationRoot_def context_error_def openExistingBackupRoot_def openPublicationDirectory_def readPublication_def
        Let_def undisturbed_answers read names decoded closeDescriptor_def anchor_close_def)
qed

end
