(* ===== verification/Publish.thy ===== *)
theory Publish
  imports BackupRoot Capacity ArchiveIdentity
begin

text \<open>
  Publishing a backup (\<open>publish_unix.go\<close> of \<open>src/internal/backup\<close>): the archives and the manifest are staged in a partial directory with a
  random name, brought to disk, and exposed under the transaction's name by one rename that never replaces; what is not published
  is cleaned up. The lemmas say that all but the rename stays in the partial directory, and what a successful staging leaves there.
\<close>

section \<open>Operations of the file system (publicationOperations)\<close>

definition mkdir :: "string \<Rightarrow> bool pub" where
  "mkdir name = do {
     ok \<leftarrow> granted;
     dirs \<leftarrow> dirs_now;
     if ok \<and> fmlookup dirs name = None
     then do {
       change (\<lambda>root. root\<lparr>bk_dirs := fmupd name \<lparr>pd_files = fmempty, pd_synced = False\<rparr> (bk_dirs root), bk_synced := False\<rparr>);
       State_Monad.return True }
     else State_Monad.return False }"

text \<open>Creating a file fails if it exists, removing one if it does not.\<close>

definition openFile :: "string \<Rightarrow> string \<Rightarrow> bool pub" where
  "openFile directory name = do {
     ok \<leftarrow> granted;
     files \<leftarrow> dir_files directory;
     if ok \<and> fmlookup files name = None
     then do {
       change_dir directory (\<lambda>d. d\<lparr>pd_files := fmupd name \<lparr>pf_data = [], pf_synced = False\<rparr> (pd_files d), pd_synced := False\<rparr>);
       State_Monad.return True }
     else State_Monad.return False }"

definition unlink_file :: "string \<Rightarrow> string \<Rightarrow> bool pub" where
  "unlink_file directory name = do {
     ok \<leftarrow> granted;
     files \<leftarrow> dir_files directory;
     if ok \<and> fmlookup files name \<noteq> None
     then do {
       change_dir directory (\<lambda>d. d\<lparr>pd_files := fmdrop name (pd_files d), pd_synced := False\<rparr>);
       State_Monad.return True }
     else State_Monad.return False }"

text \<open>Removing a directory fails if it is missing or not empty.\<close>

definition unlink_directory :: "string \<Rightarrow> bool pub" where
  "unlink_directory name = do {
     ok \<leftarrow> granted;
     dirs \<leftarrow> dirs_now;
     if ok \<and> (case fmlookup dirs name of None \<Rightarrow> False | Some d \<Rightarrow> pd_files d = fmempty)
     then do {
       change (\<lambda>root. root\<lparr>bk_dirs := fmdrop name (bk_dirs root), bk_synced := False\<rparr>);
       State_Monad.return True }
     else State_Monad.return False }"

definition write_data :: "string \<Rightarrow> string \<Rightarrow> bytes \<Rightarrow> unit pub" where
  "write_data directory name data =
     change_dir directory (\<lambda>d. d\<lparr>pd_files := fmupd name \<lparr>pf_data = data, pf_synced = False\<rparr> (pd_files d)\<rparr>)"

definition syncFile :: "string \<Rightarrow> string \<Rightarrow> bool pub" where
  "syncFile directory name = do {
     ok \<leftarrow> granted;
     if ok
     then do {
       change_dir directory (\<lambda>d. d\<lparr>pd_files := (case fmlookup (pd_files d) name of None \<Rightarrow> pd_files d
         | Some f \<Rightarrow> fmupd name (f\<lparr>pf_synced := True\<rparr>) (pd_files d))\<rparr>);
       State_Monad.return True }
     else State_Monad.return False }"

definition syncDirectory :: "string \<Rightarrow> bool pub" where
  "syncDirectory directory = do {
     ok \<leftarrow> granted;
     if ok then do { change_dir directory (\<lambda>d. d\<lparr>pd_synced := True\<rparr>); State_Monad.return True } else State_Monad.return False }"

definition syncRoot :: "bool pub" where
  "syncRoot = do {
     ok \<leftarrow> granted;
     if ok then do { change (\<lambda>root. root\<lparr>bk_synced := True\<rparr>); State_Monad.return True } else State_Monad.return False }"

datatype rename_result = Renamed | RenameExists | RenameFailed

definition renameNoReplace :: "string \<Rightarrow> string \<Rightarrow> rename_result pub" where
  "renameNoReplace source destination = do {
     ok \<leftarrow> granted;
     dirs \<leftarrow> dirs_now;
     case fmlookup dirs source of
       None \<Rightarrow> State_Monad.return RenameFailed
     | Some d \<Rightarrow>
         if \<not> ok then State_Monad.return RenameFailed
         else if fmlookup dirs destination \<noteq> None then State_Monad.return RenameExists
         else do {
           change (\<lambda>root. root\<lparr>bk_dirs := fmupd destination d (fmdrop source (bk_dirs root)), bk_synced := False\<rparr>);
           State_Monad.return Renamed } }"

section \<open>Inputs\<close>

text \<open>A reader is the bytes it delivers and how it ends; \<^const>\<open>None\<close> is nil.\<close>

record ArchiveInput =
  in_Target :: string
  in_Reader :: "(bytes \<times> read_error option) option"
  in_MaximumBytes :: int

definition validateArchiveInputs :: "Manifest \<Rightarrow> ArchiveInput list \<Rightarrow> ArchiveInput list option" where
  "validateArchiveInputs manifest archives =
     (if \<not> validManifest manifest \<or> length archives \<noteq> length (mf_Artifacts manifest) then None
      else let ordered = sort_key in_Target archives in
        if list_ex (\<lambda>index. let input = ordered ! index in
             in_Reader input = None \<or> in_MaximumBytes input \<le> 0 \<or> in_Target input \<noteq> rm_Target (af_Mount (mf_Artifacts manifest ! index)) \<or>
             index > 0 \<and> in_Target (ordered ! (index - 1)) = in_Target input) [0 ..< length ordered]
        then None else Some ordered)"

section \<open>The partial directory\<close>

text \<open>The directory, its entry and the root are the expected ones, and private: \<open>valid\<close> of a partial publication.\<close>

definition partial_valid :: "bool pub" where
  "partial_valid = do { root \<leftarrow> granted; if root then granted else State_Monad.return False }"

definition partial_close :: "backup_error list pub" where
  "partial_close = do { ok \<leftarrow> granted; State_Monad.return (if ok then [] else [OtherBackupError (Wrap ''close partial backup directory'' (ErrDriver None))]) }"

definition createPartialEntry :: "string \<Rightarrow> backup_error option pub" where
  "createPartialEntry name = do {
     made \<leftarrow> mkdir name;
     if \<not> made then State_Monad.return (Some ErrInvalidBackupRoot)
     else do { private \<leftarrow> granted; State_Monad.return (if private then None else Some ErrInvalidBackupRoot) } }"

definition removeCreatedDirectory :: "string \<Rightarrow> backup_error list pub" where
  "removeCreatedDirectory name = do {
     same \<leftarrow> granted;
     if \<not> same then State_Monad.return [ErrInvalidBackupRoot]
     else do {
       removed \<leftarrow> unlink_directory name;
       synced \<leftarrow> (if removed then syncRoot else State_Monad.return False);
       State_Monad.return (if synced then [] else [ErrInvalidBackupRoot]) } }"

definition openPartial :: "string \<Rightarrow> backup_error list pub" where
  "openPartial name = do {
     opened \<leftarrow> granted;
     if \<not> opened then do { errs \<leftarrow> removeCreatedDirectory name; State_Monad.return (ErrInvalidBackupRoot # errs) }
     else do {
       same \<leftarrow> granted;
       valid \<leftarrow> (if same then partial_valid else State_Monad.return False);
       if \<not> valid
       then do {
         _ \<leftarrow> partial_close;
         errs \<leftarrow> removeCreatedDirectory name;
         State_Monad.return (ErrInvalidBackupRoot # errs) }
       else do { set_entries (\<lambda>_. []); State_Monad.return [] } } }"

definition partialName :: "transaction_id \<Rightarrow> bytes \<Rightarrow> string" where
  "partialName transaction nonce = ''.'' @ id_String transaction @ ''.partial.'' @ hex_EncodeToString nonce"

text \<open>\<open>random\<close> is what reading sixteen random bytes gives.\<close>

definition createPartial :: "transaction_id \<Rightarrow> bytes option \<Rightarrow> (backup_error list + string) pub" where
  "createPartial transaction random = do {
     root \<leftarrow> granted;
     if \<not> root \<or> transaction = 0 then State_Monad.return (Inl [ErrInvalidBackupRoot])
     else (case random of
       None \<Rightarrow> State_Monad.return (Inl [ErrInvalidBackupRoot])
     | Some nonce \<Rightarrow> do {
         let name = partialName transaction nonce;
         created \<leftarrow> createPartialEntry name;
         case created of
           Some err \<Rightarrow> State_Monad.return (Inl [err])
         | None \<Rightarrow> do {
             errs \<leftarrow> openPartial name;
             State_Monad.return (if errs = [] then Inr name else Inl errs) } }) }"

section \<open>Files\<close>

definition removeCreatedFile :: "string \<Rightarrow> string \<Rightarrow> bool pub" where
  "removeCreatedFile directory name = do {
     valid \<leftarrow> partial_valid;
     same \<leftarrow> (if valid then granted else State_Monad.return False);
     if same then unlink_file directory name else State_Monad.return False }"

text \<open>The new file is recorded as an entry by the callers of \<open>createFile\<close>.\<close>

definition createFile :: "string \<Rightarrow> string \<Rightarrow> backup_error option pub" where
  "createFile directory name = do {
     valid \<leftarrow> partial_valid;
     if \<not> valid then State_Monad.return (Some ErrInvalidBackupRoot)
     else do {
       opened \<leftarrow> openFile directory name;
       if \<not> opened then State_Monad.return (Some ErrInvalidBackupRoot)
       else do {
         identified \<leftarrow> granted;
         private \<leftarrow> granted;
         if identified \<and> private then State_Monad.return None
         else do {
           _ \<leftarrow> (if identified then removeCreatedFile directory name else State_Monad.return False);
           State_Monad.return (Some ErrInvalidBackupRoot) } } } }"

text \<open>
  What \<open>Analyze\<close> sees of a reader through the tee into the \<open>archiveLimitWriter\<close>: a write that fails after some bytes ends the stream
  there with an error, and so does the first byte beyond the limit of the writer.
\<close>

definition archiveLimitWriter :: "nat option \<Rightarrow> int \<Rightarrow> bytes \<times> read_error option \<Rightarrow> bytes \<times> read_error option" where
  "archiveLimitWriter failure remaining source =
     (case source of (data, finish) \<Rightarrow>
        let limited = (if int (length data) > remaining then (take (nat remaining) data, Some ReadLimit) else (data, finish))
        in case failure of
             None \<Rightarrow> limited
           | Some n \<Rightarrow> if n < length (fst limited) then (take n data, Some (ReadFailed (Wrap ''read persistent workload archive source'' (Wrap ''write archive'' (ErrDriver None))))) else limited)"

definition error_when :: "bool \<Rightarrow> string \<Rightarrow> backup_error list" where
  "error_when failed message = (if failed then [OtherBackupError (Wrap message (ErrDriver None))] else [])"

text \<open>
  The file ends up with all that the analysis has read when it succeeds, since it reads to the end, and with a part of it otherwise. A context that
  ends during the analysis stays ended.
\<close>

definition writeArchive :: "hash \<Rightarrow> (string \<Rightarrow> string) \<Rightarrow> (bytes \<Rightarrow> read_error option \<Rightarrow> tar_event list \<times> nat) \<Rightarrow> string \<Rightarrow> string \<Rightarrow> ArchiveInput \<Rightarrow> int \<Rightarrow>
    (backup_error list + Inventory) pub" where
  "writeArchive H aliased tar directory name input maximumWriteBytes = do {
     created \<leftarrow> createFile directory name;
     case created of
       Some err \<Rightarrow> State_Monad.return (Inl [err])
     | None \<Rightarrow> do {
         set_entries (\<lambda>entries. entries @ [name]);
         live \<leftarrow> granted;
         rounds \<leftarrow> answer;
         writes \<leftarrow> granted;
         reached \<leftarrow> answer;
         let stream = archiveLimitWriter (if writes then None else Some reached) maximumWriteBytes (the (in_Reader input));
         let result = Analyze H aliased tar (\<lambda>n. \<not> live \<and> rounds \<le> n) (fst stream) (snd stream) (min (in_MaximumBytes input) maximumWriteBytes);
         write_data directory name (case result of Inl _ \<Rightarrow> take reached (fst stream) | Inr _ \<Rightarrow> fst stream);
         synced \<leftarrow> syncFile directory name;
         valid \<leftarrow> partial_valid;
         same \<leftarrow> (if valid then granted else State_Monad.return False);
         closed \<leftarrow> granted;
         State_Monad.return (case result of
             Inl err \<Rightarrow> Inl (err # error_when (\<not> synced) ''sync'' @ error_when (\<not> closed) ''close'')
           | Inr analyzed \<Rightarrow> if synced \<and> closed \<and> same then Inr analyzed else Inl [ErrInvalidBackupRoot]) } }"

fun stageArchives :: "hash \<Rightarrow> (string \<Rightarrow> string) \<Rightarrow> (bytes \<Rightarrow> read_error option \<Rightarrow> tar_event list \<times> nat) \<Rightarrow> string \<Rightarrow> nat \<Rightarrow> Manifest \<Rightarrow>
    ArchiveInput list \<Rightarrow> (backup_error list + Manifest) pub" where
  "stageArchives H aliased tar directory index manifest [] = State_Monad.return (Inr manifest)"
| "stageArchives H aliased tar directory index manifest (input # archives) = do {
     let artifact = mf_Artifacts manifest ! index;
     written \<leftarrow> writeArchive H aliased tar directory (artifactName index) input (iv_ArchiveBytes (af_Inventory artifact));
     case written of
       Inl errs \<Rightarrow> State_Monad.return (Inl errs)
     | Inr analyzed \<Rightarrow>
         if \<not> SameContent (af_Inventory artifact) analyzed then State_Monad.return (Inl [ErrInvalidArchive])
         else stageArchives H aliased tar directory (index + 1)
           (manifest\<lparr>mf_Artifacts := (mf_Artifacts manifest)[index := artifact\<lparr>af_Inventory := analyzed\<rparr>]\<rparr>) archives }"

definition writeManifest :: "string \<Rightarrow> bytes \<Rightarrow> backup_error option pub" where
  "writeManifest directory raw = do {
     created \<leftarrow> createFile directory ''manifest.json'';
     case created of
       Some err \<Rightarrow> State_Monad.return (Some err)
     | None \<Rightarrow> do {
         set_entries (\<lambda>entries. entries @ [''manifest.json'']);
         wrote \<leftarrow> granted;
         reached \<leftarrow> answer;
         write_data directory ''manifest.json'' (if wrote then raw else take reached raw);
         synced \<leftarrow> syncFile directory ''manifest.json'';
         valid \<leftarrow> (if wrote then partial_valid else State_Monad.return False);
         same \<leftarrow> (if valid then granted else State_Monad.return False);
         closed \<leftarrow> granted;
         State_Monad.return (if wrote \<and> synced \<and> closed \<and> same then None else Some ErrInvalidBackupRoot) } }"

definition finishStage :: "string \<Rightarrow> bytes \<Rightarrow> backup_error list pub" where
  "finishStage directory raw = do {
     wrote \<leftarrow> writeManifest directory raw;
     case wrote of
       Some err \<Rightarrow> State_Monad.return [err]
     | None \<Rightarrow> do {
         cancelled \<leftarrow> context_error ''publish backup'';
         if cancelled \<noteq> [] then State_Monad.return cancelled
         else do {
           valid \<leftarrow> partial_valid;
           synced \<leftarrow> (if valid then syncDirectory directory else State_Monad.return False);
           still \<leftarrow> (if synced then partial_valid else State_Monad.return False);
           root \<leftarrow> (if still then granted else State_Monad.return False);
           State_Monad.return (if root then [] else [ErrInvalidBackupRoot]) } } }"

definition stage :: "hash \<Rightarrow> (string \<Rightarrow> string) \<Rightarrow> (bytes \<Rightarrow> read_error option \<Rightarrow> tar_event list \<times> nat) \<Rightarrow> string \<Rightarrow> Manifest \<Rightarrow>
    ArchiveInput list \<Rightarrow> (backup_error list + Publication) pub" where
  "stage H aliased tar directory manifest archives = do {
     staged \<leftarrow> stageArchives H aliased tar directory 0 manifest archives;
     case staged of
       Inl errs \<Rightarrow> State_Monad.return (Inl errs)
     | Inr manifest \<Rightarrow> (case EncodeManifest H manifest of
         Inl err \<Rightarrow> State_Monad.return (Inl [err])
       | Inr (raw, digest) \<Rightarrow> do {
           errs \<leftarrow> finishStage directory (string_bytes raw);
           State_Monad.return (if errs \<noteq> [] then Inl errs
             else Inr \<lparr>pu_Manifest = manifest, pu_ManifestPath = manifest_path (mf_TransactionID manifest), pu_ManifestDigest = digest\<rparr>) }) }"

text \<open>The result \<open>(published, error)\<close>.\<close>

definition commit :: "hash \<Rightarrow> string \<Rightarrow> Manifest \<Rightarrow> (bool \<times> backup_error list) pub" where
  "commit H directory manifest = do {
     cancelled \<leftarrow> context_error ''publish backup'';
     if cancelled \<noteq> [] then State_Monad.return (False, cancelled)
     else do {
       let finalName = id_String (mf_TransactionID manifest);
       renamed \<leftarrow> renameNoReplace directory finalName;
       case renamed of
         RenameExists \<Rightarrow> do {
           same \<leftarrow> verifyExistingPublication H finalName (string_bytes (canonicalManifest manifest)) manifest;
           if same then State_Monad.return (False, [])
           else do {
             cancelled \<leftarrow> context_error ''verify published backup'';
             State_Monad.return (False, if cancelled \<noteq> [] then cancelled else [ErrPublicationConflict]) } }
       | RenameFailed \<Rightarrow> State_Monad.return (False, [ErrInvalidBackupRoot])
       | Renamed \<Rightarrow> do {
           synced \<leftarrow> syncRoot;
           valid \<leftarrow> (if synced then granted else State_Monad.return False);
           State_Monad.return (True, if valid then [] else [ErrPublicationUnknown]) } } }"

section \<open>Cleaning up\<close>

fun remove_each :: "string \<Rightarrow> string list \<Rightarrow> bool pub" where
  "remove_each directory [] = State_Monad.return True"
| "remove_each directory (name # names) = do {
     same \<leftarrow> granted;
     removed \<leftarrow> (if same then unlink_file directory name else State_Monad.return False);
     if removed then remove_each directory names else State_Monad.return False }"

definition removeEntries :: "string \<Rightarrow> backup_error list pub" where
  "removeEntries directory = do {
     entries \<leftarrow> entries_now;
     removed \<leftarrow> remove_each directory (rev entries);
     synced \<leftarrow> (if removed then syncDirectory directory else State_Monad.return False);
     State_Monad.return (if synced then [] else [ErrInvalidBackupRoot]) }"

definition removeDirectory :: "string \<Rightarrow> bool pub" where
  "removeDirectory directory = do {
     same \<leftarrow> granted;
     removed \<leftarrow> (if same then unlink_directory directory else State_Monad.return False);
     if removed then syncRoot else State_Monad.return False }"

definition cleanup :: "string \<Rightarrow> backup_error list pub" where
  "cleanup directory = do {
     valid \<leftarrow> partial_valid;
     if \<not> valid then do { closeErr \<leftarrow> partial_close; State_Monad.return (ErrInvalidBackupRoot # closeErr) }
     else do {
       cleanupErr \<leftarrow> removeEntries directory;
       closeErr \<leftarrow> partial_close;
       root \<leftarrow> (if cleanupErr = [] \<and> closeErr = [] then granted else State_Monad.return False);
       if \<not> root then State_Monad.return (cleanupErr @ closeErr @ [ErrInvalidBackupRoot])
       else do {
         removed \<leftarrow> removeDirectory directory;
         State_Monad.return (if removed then [] else [ErrInvalidBackupRoot]) } } }"

section \<open>Publishing\<close>

text \<open>The root is opened, and created where it is missing; a new one is empty. \<open>ensureBackupRootEntry\<close> reports whether it was created.\<close>

definition ensureBackupRootEntry :: "(backup_error + bool) pub" where
  "ensureBackupRootEntry = do {
     created \<leftarrow> granted;
     if created then State_Monad.return (Inr True)
     else do { exists \<leftarrow> granted; State_Monad.return (if exists then Inr False else Inl ErrInvalidBackupRoot) } }"

definition openRootAnchor :: "backup_error option pub" where
  "openRootAnchor = do {
     opened \<leftarrow> granted;
     if \<not> opened then State_Monad.return (Some ErrInvalidBackupRoot)
     else do { valid \<leftarrow> granted; State_Monad.return (if valid then None else Some ErrInvalidBackupRoot) } }"

definition openBackupRoot :: "string \<Rightarrow> backup_error option pub" where
  "openBackupRoot root =
     (if \<not> validRootPath root then State_Monad.return (Some ErrInvalidBackupRoot)
      else do {
        parent \<leftarrow> granted;
        if \<not> parent then State_Monad.return (Some ErrInvalidBackupRoot)
        else do {
          entry \<leftarrow> ensureBackupRootEntry;
          case entry of
            Inl err \<Rightarrow> State_Monad.return (Some err)
          | Inr created \<Rightarrow> do {
              anchor \<leftarrow> openRootAnchor;
              case anchor of
                Some err \<Rightarrow> State_Monad.return (Some err)
              | None \<Rightarrow>
                  if \<not> created then State_Monad.return None
                  else do {
                    synced \<leftarrow> granted;
                    valid \<leftarrow> (if synced then granted else State_Monad.return False);
                    State_Monad.return (if valid then None else Some ErrInvalidBackupRoot) } } } })"

text \<open>The part of \<open>publishWithPreparedOperations\<close> that runs while the partial directory exists, with its deferred clean-up.\<close>

definition publish_partial :: "hash \<Rightarrow> (string \<Rightarrow> string) \<Rightarrow> (bytes \<Rightarrow> read_error option \<Rightarrow> tar_event list \<times> nat) \<Rightarrow> string \<Rightarrow> Manifest \<Rightarrow>
    ArchiveInput list \<Rightarrow> (Publication \<times> backup_error list) pub" where
  "publish_partial H aliased tar directory manifest ordered = do {
     staged \<leftarrow> stage H aliased tar directory manifest ordered;
     case staged of
       Inl errs \<Rightarrow> do { deferred \<leftarrow> cleanup directory; State_Monad.return (zero_publication, errs @ deferred) }
     | Inr result \<Rightarrow> do {
         (exposed, errs) \<leftarrow> commit H directory (pu_Manifest result);
         deferred \<leftarrow> (if exposed then partial_close else cleanup directory);
         State_Monad.return (if errs \<noteq> [] then zero_publication else result, errs @ deferred) } }"

definition publish_root :: "hash \<Rightarrow> (string \<Rightarrow> string) \<Rightarrow> (bytes \<Rightarrow> read_error option \<Rightarrow> tar_event list \<times> nat) \<Rightarrow> Manifest \<Rightarrow>
    ArchiveInput list \<Rightarrow> PublicationCapacity \<Rightarrow> backup_error + filesystemCapacity \<Rightarrow> bytes option \<Rightarrow> (Publication \<times> backup_error list) pub" where
  "publish_root H aliased tar manifest ordered capacity observed random =
     (case validatePublicationCapacityWith H manifest capacity observed of
        Some err \<Rightarrow> State_Monad.return (zero_publication, [err])
      | None \<Rightarrow> do {
          created \<leftarrow> createPartial (mf_TransactionID manifest) random;
          case created of
            Inl errs \<Rightarrow> State_Monad.return (zero_publication, errs)
          | Inr directory \<Rightarrow> publish_partial H aliased tar directory manifest ordered })"

text \<open>\<open>observed\<close> is the capacity that the file system of the opened root reports.\<close>

definition Publish :: "hash \<Rightarrow> (string \<Rightarrow> string) \<Rightarrow> (bytes \<Rightarrow> read_error option \<Rightarrow> tar_event list \<times> nat) \<Rightarrow> string \<Rightarrow> Manifest \<Rightarrow>
    ArchiveInput list \<Rightarrow> PublicationCapacity \<Rightarrow> backup_error + filesystemCapacity \<Rightarrow> bytes option \<Rightarrow> (Publication \<times> backup_error list) pub" where
  "Publish H aliased tar rootPath manifest archives capacity observed random =
     (case validateArchiveInputs manifest archives of
        None \<Rightarrow> State_Monad.return (zero_publication, [ErrInvalidManifest])
      | Some ordered \<Rightarrow> do {
          cancelled \<leftarrow> context_error ''publish backup'';
          if cancelled \<noteq> [] then State_Monad.return (zero_publication, cancelled)
          else do {
            root \<leftarrow> openBackupRoot rootPath;
            case root of
              Some err \<Rightarrow> State_Monad.return (zero_publication, [err])
            | None \<Rightarrow> do {
                (result, errs) \<leftarrow> publish_root H aliased tar manifest ordered capacity observed random;
                closeErr \<leftarrow> anchor_close;
                State_Monad.return (result, errs @ closeErr) } } })"

section \<open>Changes stay in the partial directory\<close>

definition same_outside :: "string \<Rightarrow> backup_root \<Rightarrow> backup_root \<Rightarrow> bool" where
  "same_outside p r s \<longleftrightarrow> (\<forall>n. n \<noteq> p \<longrightarrow> fmlookup (bk_dirs s) n = fmlookup (bk_dirs r) n)"

text \<open>All states between two worlds agree outside the partial directory.\<close>

definition states :: "pub_world \<Rightarrow> backup_root \<times> backup_root list" where
  "states w = (pw_root w, pw_history w)"

definition confined :: "string \<Rightarrow> backup_root \<times> backup_root list \<Rightarrow> backup_root \<times> backup_root list \<Rightarrow> bool" where
  "confined p a b \<longleftrightarrow> (\<exists>rs. snd b = rs @ snd a \<and> (\<forall>r \<in> set (fst b # rs). same_outside p (fst a) r))"

lemma confined_orders [moves_rules]: "reflp (confined p)" "transp (confined p)"
proof -
  show "reflp (confined p)" by (auto intro!: reflpI simp: confined_def same_outside_def)
  show "transp (confined p)"
  proof (rule transpI)
    fix a b c assume "confined p a b" "confined p b c"
    then obtain rs qs where "snd b = rs @ snd a" "\<forall>r \<in> set (fst b # rs). same_outside p (fst a) r" "snd c = qs @ snd b"
        "\<forall>r \<in> set (fst c # qs). same_outside p (fst b) r" unfolding confined_def by blast
    then show "confined p a c" unfolding confined_def same_outside_def by (intro exI [of _ "qs @ rs"]) auto
  qed
qed

lemma fixed_confined: "moves seen (=) m \<Longrightarrow> moves states (confined p) m"
  by (rule movesI, drule (1) movesD) (auto simp: seen_def states_def confined_def same_outside_def)

lemmas confined_checks [moves_rules] = fixed_oracle [THEN fixed_confined] fixed_checks [THEN fixed_confined] fixed_existing [THEN fixed_confined]

lemma confined_change:
  assumes "\<And>r. same_outside p r (f r)"
  shows "moves states (confined p) (change f)"
proof (rule movesI)
  fix s x t assume "run_state (change f) s = (x, t)"
  then have "states t = (f (pw_root s), pw_root s # pw_history s)" by (auto simp: change_def states_def)
  then show "confined p (states s) (states t)"
    using assms unfolding confined_def by (intro exI [of _ "[pw_root s]"]) (auto simp: states_def same_outside_def)
qed

lemma confined_primitives [moves_rules]:
  "moves states (confined p) (change_dir p f)" "moves states (confined p) (set_entries g)" "moves states (confined p) syncRoot"
  "moves states (confined p) (mkdir p)" "moves states (confined p) (unlink_directory p)" "moves states (confined p) (write_data p name data)"
proof -
  show "moves states (confined p) (change_dir p f)" "moves states (confined p) (write_data p name data)" unfolding write_data_def change_dir_def
    by (rule confined_change, simp add: same_outside_def split: option.split)+
  show "moves states (confined p) (set_entries g)"
    by (rule movesI) (auto simp: set_entries_def states_def confined_def same_outside_def)
  show "moves states (confined p) syncRoot" "moves states (confined p) (mkdir p)" "moves states (confined p) (unlink_directory p)"
    unfolding syncRoot_def mkdir_def unlink_directory_def
    by (intro moves_rules confined_change; simp add: same_outside_def)+
qed

lemma confined_files [moves_rules]:
  "moves states (confined p) (openFile p name)" "moves states (confined p) (unlink_file p name)" "moves states (confined p) (syncFile p name)"
  "moves states (confined p) (syncDirectory p)" "moves states (confined p) partial_valid" "moves states (confined p) partial_close"
  unfolding openFile_def unlink_file_def syncFile_def syncDirectory_def partial_valid_def partial_close_def
  by (intro moves_rules)+

lemma confined_create [moves_rules]:
  "moves states (confined p) (createPartialEntry p)" "moves states (confined p) (removeCreatedDirectory p)"
  "moves states (confined p) (removeCreatedFile p name)" "moves states (confined p) (removeDirectory p)"
  unfolding createPartialEntry_def removeCreatedDirectory_def removeCreatedFile_def removeDirectory_def
  by (intro moves_rules)+

lemma confined_open [moves_rules]: "moves states (confined p) (openPartial p)" "moves states (confined p) (createFile p name)"
  unfolding openPartial_def createFile_def by (intro moves_rules)+

lemma confined_write [moves_rules]:
  "moves states (confined p) (writeArchive H aliased tar p name input limit)" "moves states (confined p) (writeManifest p raw)"
  unfolding writeArchive_def writeManifest_def by (intro moves_rules)+

lemma confined_archives [moves_rules]: "moves states (confined p) (stageArchives H aliased tar p index manifest archives)"
  by (induction archives arbitrary: index manifest) (simp_all only: stageArchives.simps, (intro moves_rules | assumption)+)

lemma confined_finish [moves_rules]: "moves states (confined p) (finishStage p raw)"
  unfolding finishStage_def by (intro moves_rules)+

lemma confined_stage [moves_rules]: "moves states (confined p) (stage H aliased tar p manifest archives)"
  unfolding stage_def by (intro moves_rules)+

lemma confined_removal [moves_rules]: "moves states (confined p) (remove_each p names)"
  by (induction names) (simp_all, (intro moves_rules | assumption)+)

lemma confined_cleanup [moves_rules]: "moves states (confined p) (cleanup p)"
  unfolding cleanup_def removeEntries_def by (intro moves_rules)+

section \<open>What staging leaves in the partial directory\<close>

abbreviation directory_at :: "pub_world \<Rightarrow> string \<Rightarrow> pdir option" where
  "directory_at w p \<equiv> fmlookup (bk_dirs (pw_root w)) p"

lemma run_change_dir [simp]:
  "run_state (change_dir p f) w = ((), w\<lparr>pw_root := (case directory_at w p of None \<Rightarrow> pw_root w
     | Some d \<Rightarrow> (pw_root w)\<lparr>bk_dirs := fmupd p (f d) (bk_dirs (pw_root w))\<rparr>), pw_history := pw_root w # pw_history w\<rparr>)"
  by (simp add: change_dir_def change_def)

lemma run_set_entries [simp]: "run_state (set_entries f) w = ((), w\<lparr>pw_entries := f (pw_entries w)\<rparr>)"
  by (simp add: set_entries_def)

lemma run_partial_valid: "run_state partial_valid w = (x, w') \<Longrightarrow> pw_root w' = pw_root w"
  by (auto simp: partial_valid_def split: if_split_asm)

lemma created_file:
  assumes "run_state (createFile p name) w = (None, w')" and "directory_at w p = Some d"
  shows "fmlookup (pd_files d) name = None \<and>
    directory_at w' p = Some (d\<lparr>pd_files := fmupd name \<lparr>pf_data = [], pf_synced = False\<rparr> (pd_files d), pd_synced := False\<rparr>)"
proof -
  obtain v x where valid: "run_state partial_valid w = (True, v)" and opened: "run_state (openFile p name) v = (True, x)" and "pw_root w' = pw_root x"
    using assms(1) by (auto simp: createFile_def split: prod.split_asm if_split_asm)
  moreover have "directory_at v p = Some d" using run_partial_valid [OF valid] assms(2) by simp
  ultimately show ?thesis by (auto simp: openFile_def files_of_def split: if_split_asm)
qed

lemma synced_file:
  assumes "run_state (syncFile p name) w = (True, w')" and "directory_at w p = Some d" and "fmlookup (pd_files d) name = Some f"
  shows "directory_at w' p = Some (d\<lparr>pd_files := fmupd name (f\<lparr>pf_synced := True\<rparr>) (pd_files d)\<rparr>)"
  using assms by (auto simp: syncFile_def split: if_split_asm)

text \<open>A file that is created, written and synced holds its data on disk.\<close>

definition stored :: "string \<Rightarrow> bytes \<Rightarrow> pdir \<Rightarrow> pdir" where
  "stored name data d = d\<lparr>pd_files := fmupd name \<lparr>pf_data = data, pf_synced = True\<rparr> (pd_files d), pd_synced := False\<rparr>"

lemma stored_file:
  assumes "run_state (createFile p name) w = (None, u)" and "directory_at w p = Some d"
    and "pw_root v = pw_root u" and "run_state (write_data p name data) v = ((), x)" and "run_state (syncFile p name) x = (True, y)"
  shows "fmlookup (pd_files d) name = None \<and> directory_at y p = Some (stored name data d)"
proof -
  note created = created_file [OF assms(1,2)]
  have "directory_at x p = Some (d\<lparr>pd_files := fmupd name \<lparr>pf_data = data, pf_synced = False\<rparr> (pd_files d), pd_synced := False\<rparr>)"
    using assms(3,4) created by (auto simp: write_data_def)
  from synced_file [OF assms(5) this] show ?thesis using created by (simp add: stored_def)
qed

lemma limited_stream:
  "archiveLimitWriter failure limit source = (data, None) \<Longrightarrow> source = (data, None) \<and> int (length data) \<le> limit"
  by (cases source) (auto simp: archiveLimitWriter_def Let_def split: option.split_asm if_split_asm)

lemma written_archive:
  assumes "run_state (writeArchive H aliased tar p name input limit) w = (Inr value, w')" and "directory_at w p = Some d"
  shows "\<exists>data. the (in_Reader input) = (data, None) \<and> int (length data) \<le> limit \<and> iv_ArchiveBytes value = int (length data) \<and>
    iv_ArchiveDigest value = H data \<and> fmlookup (pd_files d) name = None \<and> directory_at w' p = Some (stored name data d)"
proof -
  obtain u where created: "run_state (createFile p name) w = (None, u)"
    using assms(1) by (auto simp: writeArchive_def split: prod.split_asm option.split_asm)
  let ?v = "u\<lparr>pw_entries := pw_entries u @ [name], pw_asked := Suc (Suc (Suc (Suc (pw_asked u))))\<rparr>"
  define stream where "stream = archiveLimitWriter (if pw_answers u (Suc (Suc (pw_asked u))) \<noteq> 0 then None else Some (pw_answers u (Suc (Suc (Suc (pw_asked u))))))
    limit (the (in_Reader input))"
  define cancelled where "cancelled = (\<lambda>n. pw_answers u (pw_asked u) = 0 \<and> pw_answers u (Suc (pw_asked u)) \<le> n)"
  have analyzed: "Analyze H aliased tar cancelled (fst stream) (snd stream) (min (in_MaximumBytes input) limit) = Inr value"
    using assms(1) unfolding stream_def cancelled_def
    by (auto simp: writeArchive_def created Let_def write_data_def split: prod.split_asm sum.split_asm if_split_asm)
  obtain x y where stored: "run_state (write_data p name (fst stream)) ?v = ((), x)" "run_state (syncFile p name) x = (True, y)"
      and root: "pw_root w' = pw_root y"
    using assms(1) analyzed unfolding stream_def cancelled_def
    by (auto simp: writeArchive_def created Let_def split: prod.split_asm if_split_asm dest!: run_partial_valid)
  note data = analyzed_bytes [OF analyzed]
  then have "stream = (fst stream, None)" by (simp add: prod_eq_iff)
  then have "the (in_Reader input) = (fst stream, None) \<and> int (length (fst stream)) \<le> limit" unfolding stream_def by (rule limited_stream)
  then show ?thesis using data stored_file [OF created assms(2) _ stored] root by (intro exI [of _ "fst stream"]) simp
qed

text \<open>The first \<open>n\<close> archives are staged: nothing but their files is there, on disk and as the manifest records them.\<close>

definition staged :: "hash \<Rightarrow> Artifact list \<Rightarrow> nat \<Rightarrow> pdir \<Rightarrow> bool" where
  "staged H artifacts n d \<longleftrightarrow> distinct (map artifactName [0 ..< n]) \<and> fmdom (pd_files d) = fset_of_list (map artifactName [0 ..< n]) \<and>
     (\<forall>k < n. \<exists>data. fmlookup (pd_files d) (artifactName k) = Some \<lparr>pf_data = data, pf_synced = True\<rparr> \<and>
        int (length data) = iv_ArchiveBytes (af_Inventory (artifacts ! k)) \<and> H data = iv_ArchiveDigest (af_Inventory (artifacts ! k)))"

text \<open>An artifact as it is published: the same but for its inventory, which is that of the input and has the same content.\<close>

definition republished :: "hash \<Rightarrow> Artifact \<Rightarrow> ArchiveInput \<Rightarrow> Artifact \<Rightarrow> bool" where
  "republished H a input b \<longleftrightarrow> b = a\<lparr>af_Inventory := af_Inventory b\<rparr> \<and> SameContent (af_Inventory a) (af_Inventory b) \<and>
     iv_ArchiveBytes (af_Inventory b) \<le> iv_ArchiveBytes (af_Inventory a) \<and>
     (\<exists>data. in_Reader input = Some (data, None) \<and> iv_ArchiveBytes (af_Inventory b) = int (length data) \<and> iv_ArchiveDigest (af_Inventory b) = H data)"

lemma staged_stored:
  assumes "staged H artifacts n d" and "fmlookup (pd_files d) (artifactName n) = None" and "n < length artifacts"
    and "iv_ArchiveBytes value = int (length data)" and "iv_ArchiveDigest value = H data"
  shows "staged H (artifacts[n := a\<lparr>af_Inventory := value\<rparr>]) (Suc n) (stored (artifactName n) data d)"
proof -
  have "artifactName n |\<notin>| fmdom (pd_files d)" using assms(2) by (simp add: fmdom_notI)
  then have fresh: "artifactName n \<notin> artifactName ` {0 ..< n}" using assms(1) by (simp add: staged_def fset_of_list.rep_eq)
  then have "artifactName k \<noteq> artifactName n" if "k < n" for k using that by (metis atLeastLessThan_iff imageI le0)
  with fresh show ?thesis using assms by (auto simp: staged_def stored_def less_Suc_eq nth_list_update fset_of_list_elem)
qed

lemma staged_archives:
  assumes "run_state (stageArchives H aliased tar p n m inputs) w = (Inr m', w')" and "directory_at w p = Some d"
    and "staged H (mf_Artifacts m) n d" and "n + length inputs = length (mf_Artifacts m)" and "\<forall>input \<in> set inputs. in_Reader input \<noteq> None"
  shows "\<exists>as d'. m' = m\<lparr>mf_Artifacts := as\<rparr> \<and> length as = length (mf_Artifacts m) \<and> directory_at w' p = Some d' \<and> staged H as (length as) d' \<and>
    (\<forall>k < n. as ! k = mf_Artifacts m ! k) \<and> (\<forall>k < length inputs. republished H (mf_Artifacts m ! (n + k)) (inputs ! k) (as ! (n + k)))"
  using assms
proof (induction inputs arbitrary: n m w d)
  case Nil
  then show ?case by (intro exI [of _ "mf_Artifacts m"] exI [of _ d]) auto
next
  case (Cons input inputs)
  let ?a = "mf_Artifacts m ! n"
  from Cons.prems(1) obtain iv v where written: "run_state (writeArchive H aliased tar p (artifactName n) input (iv_ArchiveBytes (af_Inventory ?a))) w = (Inr iv, v)"
      and same: "SameContent (af_Inventory ?a) iv"
      and rest: "run_state (stageArchives H aliased tar p (n + 1) (m\<lparr>mf_Artifacts := (mf_Artifacts m)[n := ?a\<lparr>af_Inventory := iv\<rparr>]\<rparr>) inputs) v = (Inr m', w')"
    by (auto simp: Let_def split: prod.split_asm sum.split_asm if_split_asm)
  obtain data where data: "the (in_Reader input) = (data, None)" "int (length data) \<le> iv_ArchiveBytes (af_Inventory ?a)"
      "iv_ArchiveBytes iv = int (length data)" "iv_ArchiveDigest iv = H data" "fmlookup (pd_files d) (artifactName n) = None"
      "directory_at v p = Some (stored (artifactName n) data d)"
    using written_archive [OF written Cons.prems(2)] by blast
  have n: "n < length (mf_Artifacts m)" using Cons.prems(4) by simp
  have "staged H (mf_Artifacts (m\<lparr>mf_Artifacts := (mf_Artifacts m)[n := ?a\<lparr>af_Inventory := iv\<rparr>]\<rparr>)) (n + 1) (stored (artifactName n) data d)"
    using staged_stored [OF Cons.prems(3) data(5) n data(3,4)] by simp
  from Cons.IH [OF rest data(6) this] Cons.prems(4,5)
  obtain as d' where as: "m' = m\<lparr>mf_Artifacts := as\<rparr>" "length as = length (mf_Artifacts m)" "directory_at w' p = Some d'" "staged H as (length as) d'"
      "\<forall>k < Suc n. as ! k = (mf_Artifacts m)[n := ?a\<lparr>af_Inventory := iv\<rparr>] ! k"
      "\<forall>k < length inputs. republished H ((mf_Artifacts m)[n := ?a\<lparr>af_Inventory := iv\<rparr>] ! Suc (n + k)) (inputs ! k) (as ! Suc (n + k))"
    by auto
  have "as ! n = ?a\<lparr>af_Inventory := iv\<rparr>" using as(5) n by simp
  then have "republished H ?a input (as ! n)" using same data(1-4) Cons.prems(5) by (auto simp: republished_def)
  then have "republished H (mf_Artifacts m ! (n + k)) ((input # inputs) ! k) (as ! (n + k))" if "k < length (input # inputs)" for k
    using as(6) that by (cases k) auto
  moreover have "as ! k = mf_Artifacts m ! k" if "k < n" for k using as(5) that by simp
  ultimately show ?case using as(1-4) by blast
qed

lemma valid_file_names:
  "validArtifacts index before artifacts \<Longrightarrow> map af_FileName artifacts = map artifactName [index ..< index + length artifacts]"
proof (induction artifacts arbitrary: index before)
  case (Cons a artifacts)
  then have "af_FileName a = artifactName index" "validArtifacts (Suc index) (Some (rm_Target (af_Mount a))) artifacts"
    by (auto simp: validArtifact_def validArtifactIdentity_def split: if_split_asm)
  with Cons.IH [OF this(2)] show ?case by (simp add: upt_conv_Cons del: upt.simps)
qed simp

definition durable :: "pdir \<Rightarrow> bool" where
  "durable d \<longleftrightarrow> pd_synced d \<and> (\<forall>f \<in> fmran' (pd_files d). pf_synced f)"

lemma stored_manifest:
  assumes "run_state (writeManifest p raw) w = (None, w')" and "directory_at w p = Some d"
  shows "fmlookup (pd_files d) ''manifest.json'' = None \<and> directory_at w' p = Some (stored ''manifest.json'' raw d)"
proof -
  obtain u where created: "run_state (createFile p ''manifest.json'') w = (None, u)"
    using assms(1) by (auto simp: writeManifest_def split: prod.split_asm option.split_asm)
  let ?v = "u\<lparr>pw_entries := pw_entries u @ [''manifest.json''], pw_asked := Suc (Suc (pw_asked u))\<rparr>"
  obtain x y where stored: "run_state (write_data p ''manifest.json'' raw) ?v = ((), x)" "run_state (syncFile p ''manifest.json'') x = (True, y)"
      and root: "pw_root w' = pw_root y"
    using assms(1) by (auto simp: writeManifest_def created split: prod.split_asm if_split_asm dest!: run_partial_valid)
  show ?thesis using stored_file [OF created assms(2) _ stored] root by simp
qed

lemma finished_stage:
  assumes "run_state (finishStage p raw) w = ([], w')" and "directory_at w p = Some d"
  shows "fmlookup (pd_files d) ''manifest.json'' = None \<and> directory_at w' p = Some ((stored ''manifest.json'' raw d)\<lparr>pd_synced := True\<rparr>)"
proof -
  obtain u x y where wrote: "run_state (writeManifest p raw) w = (None, u)" and root_x: "pw_root x = pw_root u"
      and synced: "run_state (syncDirectory p) x = (True, y)" and root: "pw_root w' = pw_root y"
    using assms(1)
    by (auto simp: finishStage_def context_error_def split: prod.split_asm option.split_asm if_split_asm dest!: run_partial_valid)
  note stored = stored_manifest [OF wrote assms(2)]
  then have "directory_at x p = Some (stored ''manifest.json'' raw d)" using root_x by simp
  then show ?thesis using stored synced root by (auto simp: syncDirectory_def split: if_split_asm)
qed

text \<open>The manifest of a publication: the requested one with the inventories of the inputs, in the order of their targets.\<close>

definition published_as :: "hash \<Rightarrow> Manifest \<Rightarrow> ArchiveInput list \<Rightarrow> Manifest \<Rightarrow> bool" where
  "published_as H manifest inputs m \<longleftrightarrow> (\<exists>as. m = manifest\<lparr>mf_Artifacts := as\<rparr> \<and> length as = length (mf_Artifacts manifest) \<and>
     (\<forall>k < length as. republished H (mf_Artifacts manifest ! k) (inputs ! k) (as ! k)))"

lemma staged_complete:
  assumes staged: "staged H (mf_Artifacts m) (length (mf_Artifacts m)) d" and absent: "fmlookup (pd_files d) ''manifest.json'' = None" and "validManifest m"
  shows "describes H m ((stored ''manifest.json'' (string_bytes (canonicalManifest m)) d)\<lparr>pd_synced := True\<rparr>) \<and>
    durable ((stored ''manifest.json'' (string_bytes (canonicalManifest m)) d)\<lparr>pd_synced := True\<rparr>)"
proof
  let ?as = "mf_Artifacts m" and ?d = "(stored ''manifest.json'' (string_bytes (canonicalManifest m)) d)\<lparr>pd_synced := True\<rparr>"
  have names: "map af_FileName ?as = map artifactName [0 ..< length ?as]"
    using assms(3) valid_file_names [of 0 None ?as] by (simp add: validManifest_def split: if_split_asm)
  have "''manifest.json'' |\<notin>| fmdom (pd_files d)" using absent by (simp add: fmdom_notI)
  then have fresh: "''manifest.json'' \<notin> set (map af_FileName ?as)" using staged names by (simp add: staged_def fset_of_list.rep_eq)
  have "\<exists>f. fmlookup (pd_files ?d) (af_FileName a) = Some f \<and> int (length (pf_data f)) = iv_ArchiveBytes (af_Inventory a) \<and>
      H (pf_data f) = iv_ArchiveDigest (af_Inventory a)" if a: "a \<in> set ?as" for a
  proof -
    obtain k where k: "k < length ?as" "a = ?as ! k" using a by (auto simp: in_set_conv_nth)
    then have "af_FileName a = artifactName k" using arg_cong [OF names, of "\<lambda>xs. xs ! k"] by simp
    moreover obtain data where "fmlookup (pd_files d) (artifactName k) = Some \<lparr>pf_data = data, pf_synced = True\<rparr>"
        "int (length data) = iv_ArchiveBytes (af_Inventory a)" "H data = iv_ArchiveDigest (af_Inventory a)"
      using staged k unfolding staged_def by blast
    moreover have "af_FileName a \<noteq> ''manifest.json''" using fresh a by (metis imageI set_map)
    ultimately show ?thesis by (simp add: stored_def)
  qed
  moreover have "distinct (wantNames m)" "fmdom (pd_files ?d) = fset_of_list (wantNames m)"
    using staged names fresh by (simp_all add: wantNames_def stored_def staged_def)
  ultimately show "describes H m ?d" by (simp add: describes_def stored_def)
  have "pf_synced f" if f: "fmlookup (pd_files d) name = Some f" for name f
  proof -
    obtain k where "k < length ?as" "name = artifactName k" using fmdomI [OF f] staged by (auto simp: staged_def fset_of_list_elem)
    then show ?thesis using f staged unfolding staged_def by (metis option.inject pfile.select_convs(2))
  qed
  then show "durable ?d" by (auto simp: durable_def stored_def elim!: fmran'E split: if_split_asm)
qed

lemma stage_outcome:
  assumes "run_state (stage H aliased tar p manifest inputs) w = (Inr result, w')" and "directory_at w p = Some d" and "pd_files d = fmempty"
    and "validManifest manifest" and "length inputs = length (mf_Artifacts manifest)" and "\<forall>input \<in> set inputs. in_Reader input \<noteq> None"
  shows "published_as H manifest inputs (pu_Manifest result) \<and> pu_ManifestPath result = manifest_path (mf_TransactionID manifest) \<and>
    EncodeManifest H (pu_Manifest result) = Inr (canonicalManifest (pu_Manifest result), pu_ManifestDigest result) \<and>
    (\<exists>d'. directory_at w' p = Some d' \<and> describes H (pu_Manifest result) d' \<and> durable d')"
proof -
  obtain m u raw digest where archives: "run_state (stageArchives H aliased tar p 0 manifest inputs) w = (Inr m, u)"
      and encoded: "EncodeManifest H m = Inr (raw, digest)" and finished: "run_state (finishStage p (string_bytes raw)) u = ([], w')"
      and result: "result = \<lparr>pu_Manifest = m, pu_ManifestPath = manifest_path (mf_TransactionID m), pu_ManifestDigest = digest\<rparr>"
    using assms(1) by (auto simp: stage_def split: prod.split_asm sum.split_asm if_split_asm)
  have "staged H (mf_Artifacts manifest) 0 d" using assms(3) by (simp add: staged_def)
  from staged_archives [OF archives assms(2) this] assms(5,6)
  obtain as d' where as: "m = manifest\<lparr>mf_Artifacts := as\<rparr>" "length as = length (mf_Artifacts manifest)" "directory_at u p = Some d'"
      "staged H as (length as) d'" "\<forall>k < length as. republished H (mf_Artifacts manifest ! k) (inputs ! k) (as ! k)" by auto
  note directory = finished_stage [OF finished as(3)]
  have raw: "raw = canonicalManifest m" and valid: "validManifest m" using encoded by (auto simp: EncodeManifest_def Let_def split: if_split_asm)
  show ?thesis using as encoded raw result directory staged_complete [of H m d'] valid by (auto simp: published_as_def)
qed

end
