(* ===== verification/PublishAtomic.thy ===== *)
theory PublishAtomic
  imports Publish
begin

text \<open>
  What \<open>Publish\<close> and \<open>Open\<close> of \<open>src/internal/backup\<close> promise: a name other than the partial one shows, in every state on the way, what it showed
  before or a complete backup on disk; a successful publication is read back as it was returned; what is read is complete; and a publication that nothing disturbs
  succeeds.
\<close>

section \<open>From the partial to the final name\<close>

definition partial_of :: "Manifest \<Rightarrow> bytes option \<Rightarrow> string" where
  "partial_of manifest random = partialName (mf_TransactionID manifest) (case random of None \<Rightarrow> [] | Some nonce \<Rightarrow> nonce)"

lemma confined_createPartial: "moves states (confined (partial_of manifest random)) (createPartial (mf_TransactionID manifest) random)"
  unfolding createPartial_def partial_of_def by (cases random) (simp_all, (intro moves_rules; simp?; intro moves_rules)+)

lemma opened_partial: "run_state (openPartial p) w = ([], w') \<Longrightarrow> pw_root w' = pw_root w"
  by (auto simp: openPartial_def split: prod.split_asm if_split_asm dest!: run_partial_valid)

lemma created_partial:
  assumes "run_state (createPartial (mf_TransactionID manifest) random) w = (Inr p, w')"
  shows "p = partial_of manifest random \<and> mf_TransactionID manifest \<noteq> 0 \<and> directory_at w p = None \<and>
    (\<exists>d. directory_at w' p = Some d \<and> pd_files d = fmempty)"
proof -
  obtain nonce u where p: "random = Some nonce" "p = partialName (mf_TransactionID manifest) nonce" "mf_TransactionID manifest \<noteq> 0"
      and made: "run_state (createPartialEntry p) (w\<lparr>pw_asked := Suc (pw_asked w)\<rparr>) = (None, u)" and opened: "run_state (openPartial p) u = ([], w')"
    using assms by (auto simp: createPartial_def Let_def split: prod.split_asm option.split_asm if_split_asm)
  from made have "directory_at w p = None" "directory_at u p = Some \<lparr>pd_files = fmempty, pd_synced = False\<rparr>"
    by (auto simp: createPartialEntry_def mkdir_def change_def split: prod.split_asm if_split_asm)
  then show ?thesis using p opened_partial [OF opened] by (simp add: partial_of_def)
qed

lemma hex_no_dot: "CHR ''.'' \<notin> set (hex_EncodeToString bs)"
proof
  assume "CHR ''.'' \<in> set (hex_EncodeToString bs)"
  then obtain n :: nat where "hex_digit n = CHR ''.''" "n < 16"
    using unat_byte_bound by (auto simp: hex_EncodeToString_def less_mult_imp_div_less)
  then have "of_char (hex_digit n) = (46 :: nat)" by simp
  with \<open>n < 16\<close> show False by (simp add: hex_digit_def of_char_of split: if_split_asm)
qed

lemma partial_not_final: "partial_of manifest random \<noteq> id_String t"
proof
  assume "partial_of manifest random = id_String t"
  then have "CHR ''.'' # id_String (mf_TransactionID manifest) @ ''.partial.'' @ hex_EncodeToString (case random of None \<Rightarrow> [] | Some nonce \<Rightarrow> nonce) = id_String t"
    by (simp add: partial_of_def partialName_def)
  then have "CHR ''.'' \<in> set (id_String t)" by (metis list.set_intros(1))
  then show False using hex_no_dot by (simp add: id_String_def)
qed

text \<open>The final name shows the directory \<open>d\<close>, and nothing else has changed outside the partial name.\<close>

definition exposes :: "string \<Rightarrow> string \<Rightarrow> pdir \<Rightarrow> backup_root \<Rightarrow> backup_root \<Rightarrow> bool" where
  "exposes p final d r s \<longleftrightarrow> fmlookup (bk_dirs r) final = None \<and> fmlookup (bk_dirs s) final = Some d \<and> fmlookup (bk_dirs s) p = None \<and>
     (\<forall>n. n \<noteq> p \<longrightarrow> n \<noteq> final \<longrightarrow> fmlookup (bk_dirs s) n = fmlookup (bk_dirs r) n)"

lemma commit_kept:
  assumes "run_state (commit H p m) w = ((False, errs), w')"
  shows "states w' = states w \<and> (errs = [] \<longrightarrow> (\<exists>d'. directory_at w (id_String (mf_TransactionID m)) = Some d' \<and> describes H m d'))"
proof -
  let ?final = "id_String (mf_TransactionID m)"
  let ?u = "w\<lparr>pw_asked := Suc (Suc (pw_asked w))\<rparr>" and ?raw = "string_bytes (canonicalManifest m)"
  consider "errs \<noteq> []" "states w' = states w"
    | x v where "run_state (verifyExistingPublication H ?final ?raw m) ?u = (x, v)" "states w' = states v" "errs = [] \<longrightarrow> x"
    using assms
    by (auto simp: commit_def renameNoReplace_def context_error_def change_def Let_def states_def syncRoot_def split: prod.split_asm option.split_asm if_split_asm)
  then show ?thesis
  proof cases
    case 2
    have "seen v = seen ?u" using movesD [OF fixed_existing 2(1)] by simp
    then show ?thesis using 2 verified_publication [of H ?final m ?u v] by (auto simp: seen_def states_def)
  qed simp
qed

lemma commit_exposed:
  assumes "run_state (commit H p m) w = ((True, errs), w')" and "directory_at w p = Some d" and "p \<noteq> id_String (mf_TransactionID m)"
  shows "(\<exists>rs. pw_history w' = rs @ pw_history w \<and> (\<forall>r \<in> set (pw_root w' # rs). r = pw_root w \<or> exposes p (id_String (mf_TransactionID m)) d (pw_root w) r)) \<and>
      exposes p (id_String (mf_TransactionID m)) d (pw_root w) (pw_root w') \<and> (errs = [] \<longrightarrow> bk_synced (pw_root w'))"
  using assms
  by (auto simp: commit_def renameNoReplace_def context_error_def change_def Let_def syncRoot_def exposes_def split: prod.split_asm option.split_asm if_split_asm)

lemma cleaned_up: "run_state (cleanup p) w = ([], w') \<Longrightarrow> directory_at w' p = None"
  by (auto simp: cleanup_def removeDirectory_def unlink_directory_def syncRoot_def change_def split: prod.split_asm option.split_asm if_split_asm)

text \<open>Every state on the way agrees with the first one outside the partial name, or exposes the directory \<open>d\<close>.\<close>

definition reveals :: "string \<Rightarrow> string \<Rightarrow> pdir \<Rightarrow> backup_root \<times> backup_root list \<Rightarrow> backup_root \<times> backup_root list \<Rightarrow> bool" where
  "reveals p final d a b \<longleftrightarrow> (\<exists>rs. snd b = rs @ snd a \<and> (\<forall>r \<in> set (fst b # rs). same_outside p (fst a) r \<or> exposes p final d (fst a) r))"

lemma exposes_after: "same_outside p r s \<Longrightarrow> p \<noteq> final \<Longrightarrow> exposes p final d s t \<Longrightarrow> exposes p final d r t"
  unfolding same_outside_def exposes_def by metis

lemma same_outside_trans: "same_outside p r s \<Longrightarrow> same_outside p s t \<Longrightarrow> same_outside p r t"
  by (simp add: same_outside_def)

lemma reveals_after:
  assumes "confined p a b" and "p \<noteq> final" and "reveals p final d b c"
  shows "reveals p final d a c"
proof -
  obtain qs rs where qs: "snd b = qs @ snd a" "\<forall>r \<in> set (fst b # qs). same_outside p (fst a) r"
      and rs: "snd c = rs @ snd b" "\<forall>r \<in> set (fst c # rs). same_outside p (fst b) r \<or> exposes p final d (fst b) r"
    using assms(1,3) unfolding confined_def reveals_def by blast
  have base: "same_outside p (fst a) (fst b)" using qs(2) by simp
  have "same_outside p (fst a) r \<or> exposes p final d (fst a) r" if "same_outside p (fst b) r \<or> exposes p final d (fst b) r" for r
    using that exposes_after [OF base assms(2)] same_outside_trans [OF base] by blast
  then show ?thesis unfolding reveals_def using qs rs by (intro exI [of _ "rs @ qs"]) auto
qed

lemma stage_failure: "run_state (stage H aliased tar p manifest inputs) w = (Inl errs, w') \<Longrightarrow> errs \<noteq> []"
proof -
  have archives: "run_state (stageArchives H aliased tar p n m inputs) w = (Inl errs, w') \<Longrightarrow> errs \<noteq> []" for n m w errs w'
    by (induction inputs arbitrary: n m w)
      (auto simp: writeArchive_def Let_def split: prod.split_asm sum.split_asm option.split_asm if_split_asm)
  then show "run_state (stage H aliased tar p manifest inputs) w = (Inl errs, w') \<Longrightarrow> errs \<noteq> []"
    by (auto simp: stage_def split: prod.split_asm sum.split_asm if_split_asm)
qed

lemma publish_partialE:
  assumes "run_state (publish_partial H aliased tar p manifest inputs) w = ((result, errs), w')"
  obtains (failed) failure u deferred where "run_state (stage H aliased tar p manifest inputs) w = (Inl failure, u)" "run_state (cleanup p) u = (deferred, w')"
      "errs = failure @ deferred"
    | (kept) r u v failure deferred where "run_state (stage H aliased tar p manifest inputs) w = (Inr r, u)"
      "run_state (commit H p (pu_Manifest r)) u = ((False, failure), v)" "run_state (cleanup p) v = (deferred, w')"
      "errs = failure @ deferred" "failure = [] \<longrightarrow> result = r"
    | (exposed) r u v failure deferred where "run_state (stage H aliased tar p manifest inputs) w = (Inr r, u)"
      "run_state (commit H p (pu_Manifest r)) u = ((True, failure), v)" "run_state partial_close v = (deferred, w')"
      "errs = failure @ deferred" "failure = [] \<longrightarrow> result = r"
  using assms by (auto simp: publish_partial_def split: prod.split_asm sum.split_asm if_split_asm)

lemma closed_partial: "run_state partial_close w = (x, w') \<Longrightarrow> states w' = states w"
  by (auto simp: partial_close_def states_def)

lemma reveals_commit:
  assumes "confined p a (states u)" and "p \<noteq> final"
    and "\<exists>rs. pw_history v = rs @ pw_history u \<and> (\<forall>r \<in> set (pw_root v # rs). r = pw_root u \<or> exposes p final d (pw_root u) r)"
  shows "reveals p final d a (states v)"
proof -
  obtain qs where qs: "pw_history u = qs @ snd a" "\<forall>r \<in> set (pw_root u # qs). same_outside p (fst a) r"
    using assms(1) by (auto simp: confined_def states_def)
  moreover obtain rs where "pw_history v = rs @ pw_history u" "\<forall>r \<in> set (pw_root v # rs). r = pw_root u \<or> exposes p final d (pw_root u) r"
    using assms(3) by blast
  ultimately show ?thesis unfolding reveals_def
    by (intro exI [of _ "rs @ qs"]) (use exposes_after [of p "fst a" "pw_root u" final d] assms(2) in \<open>auto simp: states_def\<close>)
qed

lemma published_transaction: "published_as H manifest inputs m \<Longrightarrow> mf_TransactionID m = mf_TransactionID manifest"
  by (auto simp: published_as_def)

lemma publish_partial_states:
  assumes run: "run_state (publish_partial H aliased tar p manifest inputs) w = ((result, errs), w')"
    and start: "directory_at w p = Some d" "pd_files d = fmempty" "p \<noteq> id_String (mf_TransactionID manifest)"
    and inputs: "validManifest manifest" "length inputs = length (mf_Artifacts manifest)" "\<forall>input \<in> set inputs. in_Reader input \<noteq> None"
  shows "confined p (states w) (states w') \<or> (\<exists>m d. published_as H manifest inputs m \<and> describes H m d \<and> durable d \<and>
      reveals p (id_String (mf_TransactionID manifest)) d (states w) (states w'))"
  using run
proof (cases rule: publish_partialE)
  case (failed failure u deferred)
  then show ?thesis using movesD [OF confined_stage failed(1)] movesD [OF confined_cleanup failed(2)] confined_orders(2) [of p] by (blast dest: transpD)
next
  case (kept r u v failure deferred)
  have "states v = states u" using commit_kept [OF kept(2)] by blast
  then show ?thesis using movesD [OF confined_stage kept(1)] movesD [OF confined_cleanup kept(3)] confined_orders(2) [of p] by (auto dest: transpD)
next
  case (exposed r u v failure deferred)
  note staged = stage_outcome [OF exposed(1) start(1,2) inputs]
  then obtain d' where d': "directory_at u p = Some d'" "describes H (pu_Manifest r) d'" "durable d'" by blast
  have name: "mf_TransactionID (pu_Manifest r) = mf_TransactionID manifest" using staged published_transaction by blast
  note commit = commit_exposed [OF exposed(2) d'(1), unfolded name, OF start(3)]
  have "reveals p (id_String (mf_TransactionID manifest)) d' (states w) (states v)"
    using reveals_commit [OF movesD [OF confined_stage exposed(1)] start(3)] commit by blast
  then show ?thesis using staged d' closed_partial [OF exposed(3)] by metis
qed

lemma publish_partial_success:
  assumes run: "run_state (publish_partial H aliased tar p manifest inputs) w = ((result, []), w')"
    and start: "directory_at w p = Some d" "pd_files d = fmempty" "p \<noteq> id_String (mf_TransactionID manifest)"
    and inputs: "validManifest manifest" "length inputs = length (mf_Artifacts manifest)" "\<forall>input \<in> set inputs. in_Reader input \<noteq> None"
  shows "published_as H manifest inputs (pu_Manifest result) \<and> pu_ManifestPath result = manifest_path (mf_TransactionID manifest) \<and>
      EncodeManifest H (pu_Manifest result) = Inr (canonicalManifest (pu_Manifest result), pu_ManifestDigest result) \<and>
      (\<exists>d. describes H (pu_Manifest result) d \<and> (\<forall>n. directory_at w' n =
        (if n = p then None else if n = id_String (mf_TransactionID manifest) then Some d else directory_at w n)))"
  using run
proof (cases rule: publish_partialE)
  case (failed failure u deferred)
  then show ?thesis using stage_failure by blast
next
  case (kept r u v failure deferred)
  then have none: "failure = []" "deferred = []" "result = r" by auto
  note staged = stage_outcome [OF kept(1) start(1,2) inputs]
  have name: "mf_TransactionID (pu_Manifest r) = mf_TransactionID manifest" using staged published_transaction by blast
  obtain d' where d': "directory_at u (id_String (mf_TransactionID manifest)) = Some d'" "describes H (pu_Manifest r) d'" and "states v = states u"
    using commit_kept [OF kept(2)] none name by auto
  then have "confined p (states w) (states w')"
    using movesD [OF confined_stage kept(1)] movesD [OF confined_cleanup kept(3)] confined_orders(2) [of p] by (auto dest: transpD)
  then have "\<forall>n. n \<noteq> p \<longrightarrow> directory_at w' n = directory_at w n" by (auto simp: confined_def states_def same_outside_def)
  moreover have "directory_at w' p = None" using kept(3) none cleaned_up by blast
  moreover have "directory_at w (id_String (mf_TransactionID manifest)) = Some d'"
    using movesD [OF confined_stage kept(1)] d' start(3) by (auto simp: confined_def states_def same_outside_def)
  ultimately show ?thesis using staged d' none by auto
next
  case (exposed r u v failure deferred)
  then have none: "failure = []" "deferred = []" "result = r" by auto
  note staged = stage_outcome [OF exposed(1) start(1,2) inputs]
  then obtain d' where d': "directory_at u p = Some d'" "describes H (pu_Manifest r) d'" by blast
  have name: "mf_TransactionID (pu_Manifest r) = mf_TransactionID manifest" using staged published_transaction by blast
  have "exposes p (id_String (mf_TransactionID manifest)) d' (pw_root u) (pw_root v)"
    using commit_exposed [OF exposed(2) d'(1), unfolded name, OF start(3)] by blast
  moreover have "same_outside p (pw_root w) (pw_root u)" using movesD [OF confined_stage exposed(1)] by (auto simp: confined_def states_def)
  ultimately have "exposes p (id_String (mf_TransactionID manifest)) d' (pw_root w) (pw_root w')"
    using exposes_after start(3) closed_partial [OF exposed(3)] by (auto simp: states_def)
  then show ?thesis using staged d' none by (auto simp: exposes_def intro!: exI [of _ d'])
qed

section \<open>Publishing as a whole\<close>

lemma validated_inputs:
  assumes "validateArchiveInputs manifest archives = Some ordered"
  shows "ordered = sort_key in_Target archives \<and> validManifest manifest \<and> length ordered = length (mf_Artifacts manifest) \<and>
    (\<forall>input \<in> set ordered. in_Reader input \<noteq> None)"
proof -
  have valid: "validManifest manifest" "length ordered = length (mf_Artifacts manifest)" "ordered = sort_key in_Target archives"
      and each: "\<forall>k < length ordered. in_Reader (ordered ! k) \<noteq> None"
    using assms by (auto simp: validateArchiveInputs_def Let_def list_ex_iff split: if_split_asm)
  moreover have "\<forall>input \<in> set ordered. in_Reader input \<noteq> None" using each unfolding all_set_conv_all_nth by blast
  ultimately show ?thesis by simp
qed

lemma opened_root: "run_state (openBackupRoot rootPath) w = (x, w') \<Longrightarrow> states w' = states w \<and> (x = None \<longrightarrow> validRootPath rootPath)"
  by (auto simp: openBackupRoot_def ensureBackupRootEntry_def openRootAnchor_def states_def split: prod.split_asm sum.split_asm option.split_asm if_split_asm)

lemma createPartial_failure: "run_state (createPartial t random) w = (Inl errs, w') \<Longrightarrow> errs \<noteq> []"
  by (auto simp: createPartial_def Let_def split: prod.split_asm option.split_asm if_split_asm)

lemma publish_rootE:
  assumes "run_state (publish_root H aliased tar manifest ordered capacity observed random) w = ((result, errs), w')"
  obtains (refused) "errs \<noteq> []" "confined (partial_of manifest random) (states w) (states w')"
    | (partial) v where "validatePublicationCapacityWith H manifest capacity observed = None"
      "run_state (createPartial (mf_TransactionID manifest) random) w = (Inr (partial_of manifest random), v)"
      "run_state (publish_partial H aliased tar (partial_of manifest random) manifest ordered) v = ((result, errs), w')"
proof (cases "validatePublicationCapacityWith H manifest capacity observed")
  case (Some err)
  then show ?thesis using assms refused confined_orders(1) by (auto simp: publish_root_def dest: reflpD)
next
  case None
  obtain created v where created: "run_state (createPartial (mf_TransactionID manifest) random) w = (created, v)" by (metis surj_pair)
  show ?thesis
  proof (cases created)
    case (Inl failure)
    then show ?thesis
      using None assms created refused createPartial_failure movesD [OF confined_createPartial created] by (auto simp: publish_root_def)
  next
    case (Inr p)
    then show ?thesis using None assms created partial created_partial by (auto simp: publish_root_def)
  qed
qed

lemma publishE:
  assumes "run_state (Publish H aliased tar rootPath manifest archives capacity observed random) w = ((result, errs), w')"
  obtains (refused) "errs \<noteq> []" "confined (partial_of manifest random) (states w) (states w')"
    | (partial) ordered u v x failure where "validateArchiveInputs manifest archives = Some ordered" "validRootPath rootPath"
      "states u = states w" "run_state (createPartial (mf_TransactionID manifest) random) u = (Inr (partial_of manifest random), v)"
      "run_state (publish_partial H aliased tar (partial_of manifest random) manifest ordered) v = ((result, failure), x)"
      "states w' = states x" "errs = [] \<longrightarrow> failure = []"
proof -
  have refl: "confined (partial_of manifest random) a a" for a using confined_orders(1) by (rule reflpD)
  consider (early) "errs \<noteq> []" "states w' = states w"
    | (opened) ordered u x failure where "validateArchiveInputs manifest archives = Some ordered" "validRootPath rootPath" "states u = states w"
      "run_state (publish_root H aliased tar manifest ordered capacity observed random) u = ((result, failure), x)"
      "states w' = states x" "errs = [] \<longrightarrow> failure = []" "failure \<noteq> [] \<longrightarrow> errs \<noteq> []"
    using assms
    by (auto simp: Publish_def context_error_def anchor_close_def split: option.split_asm prod.split_asm if_split_asm dest!: opened_root)
      (auto simp: states_def)
  then show ?thesis
  proof cases
    case early
    then show ?thesis using refused refl by simp
  next
    case (opened ordered u x failure)
    from opened(4) show ?thesis
    proof (cases rule: publish_rootE)
      case refused
      then show ?thesis using that(1) opened by simp
    next
      case (partial v)
      then show ?thesis using that(2) opened by blast
    qed
  qed
qed

lemma states_directory: "states u = states w \<Longrightarrow> directory_at u n = directory_at w n"
  by (simp add: states_def)

lemma published_int64:
  assumes "published_as H manifest inputs m" and "int64_manifest (manifestToWire manifest)" and "validManifest m"
  shows "int64_manifest (manifestToWire m)"
proof -
  obtain as where as: "m = manifest\<lparr>mf_Artifacts := as\<rparr>" "length as = length (mf_Artifacts manifest)"
      "\<And>k. k < length as \<Longrightarrow> republished H (mf_Artifacts manifest ! k) (inputs ! k) (as ! k)"
    using assms(1) by (auto simp: published_as_def)
  have "int64_artifact (artifactToWire b)" if b: "b \<in> set as" for b
  proof -
    obtain k where k: "k < length as" "b = as ! k" using b by (auto simp: in_set_conv_nth)
    then have "int64_artifact (artifactToWire (mf_Artifacts manifest ! k))"
      using assms(2) as(2) by (simp add: int64_manifest_def manifestToWire_def)
    then show ?thesis using as(3) [OF k(1)] k(2)
      by (auto simp: int64_artifact_def int64_def artifactToWire_def republished_def SameContent_def)
  qed
  then show ?thesis using assms(2) as(1) by (simp add: int64_manifest_def manifestToWire_def)
qed

lemma publish_success:
  assumes "run_state (Publish H aliased tar rootPath manifest archives capacity observed random) w = ((result, []), w')"
  shows "published_as H manifest (sort_key in_Target archives) (pu_Manifest result) \<and> validRootPath rootPath \<and>
    pu_ManifestPath result = manifest_path (mf_TransactionID manifest) \<and>
    EncodeManifest H (pu_Manifest result) = Inr (canonicalManifest (pu_Manifest result), pu_ManifestDigest result) \<and>
    (\<exists>d. describes H (pu_Manifest result) d \<and> bk_dirs (pw_root w') = fmupd (id_String (mf_TransactionID manifest)) d (bk_dirs (pw_root w)))"
  using assms
proof (cases rule: publishE)
  case (partial ordered u v x failure)
  let ?p = "partial_of manifest random" and ?final = "id_String (mf_TransactionID manifest)"
  note inputs = validated_inputs [OF partial(1)]
  obtain d0 where d0: "directory_at v ?p = Some d0" "pd_files d0 = fmempty" and absent: "directory_at w ?p = None"
    using created_partial [OF partial(4)] states_directory [OF partial(3)] by auto
  have run: "run_state (publish_partial H aliased tar ?p manifest ordered) v = ((result, []), x)" using partial by simp
  note success = publish_partial_success [OF run d0 partial_not_final]
  obtain d where d: "describes H (pu_Manifest result) d" "\<And>n. directory_at x n = (if n = ?p then None else if n = ?final then Some d else directory_at v n)"
    using success inputs by blast
  have "directory_at v n = directory_at w n" if "n \<noteq> ?p" for n
    using movesD [OF confined_createPartial partial(4)] that states_directory [OF partial(3)] by (auto simp: confined_def states_def same_outside_def)
  then have "bk_dirs (pw_root w') = fmupd ?final d (bk_dirs (pw_root w))"
    using d(2) absent states_directory [OF partial(6)] partial_not_final [of manifest random, THEN not_sym] by (intro fmap_ext) auto
  then show ?thesis using success inputs d(1) partial(2) by blast
qed simp

lemma published_reads_back:
  assumes "run_state (Publish H aliased tar rootPath manifest archives capacity observed random) w = ((result, []), w')"
    and "int64_manifest (manifestToWire manifest)" and "undisturbed v" and "pw_root v = pw_root w'"
  shows "fst (run_state (Open H rootPath (mf_TransactionID manifest)) v) = Inr (Some result)"
proof -
  note success = publish_success [OF assms(1)]
  then obtain d where d: "describes H (pu_Manifest result) d" "bk_dirs (pw_root w') = fmupd (id_String (mf_TransactionID manifest)) d (bk_dirs (pw_root w))"
    by blast
  have name: "mf_TransactionID (pu_Manifest result) = mf_TransactionID manifest" using success published_transaction by blast
  have "validManifest (pu_Manifest result)" using success by (auto simp: EncodeManifest_def Let_def split: if_split_asm)
  then have "int64_manifest (manifestToWire (pu_Manifest result))" using success assms(2) published_int64 by blast
  then show ?thesis
    using open_undisturbed [OF assms(3), of rootPath "pu_Manifest result" d H] success d assms(4) name by (cases result) auto
qed

text \<open>
  (C13) A publication is atomic. Whatever fails on the way, and in every state of the backup root between the start and the end of \<open>Publish\<close>, at any of which the machine
  may stop, every name but the random partial one shows what it showed before, with one exception: where the transaction's name was free it may show a
  complete backup, all of whose files and whose directory have reached the disk, which holds exactly the files of its manifest, and
  whose manifest is the requested one with the inventories of the given archives.
\<close>

theorem publish_is_atomic:
  assumes "run_state (Publish H aliased tar rootPath manifest archives capacity observed random) w = ((result, errs), w')"
  shows "\<exists>between. pw_history w' = between @ pw_history w \<and>
    (\<forall>root \<in> set (pw_root w' # between). \<forall>name. name \<noteq> partial_of manifest random \<longrightarrow>
      fmlookup (bk_dirs root) name = fmlookup (bk_dirs (pw_root w)) name \<or>
      name = id_String (mf_TransactionID manifest) \<and> fmlookup (bk_dirs (pw_root w)) name = None \<and>
      (\<exists>m d. fmlookup (bk_dirs root) name = Some d \<and> published_as H manifest (sort_key in_Target archives) m \<and> describes H m d \<and> durable d))"
  using assms
proof (cases rule: publishE)
  case refused
  then show ?thesis by (auto simp: confined_def same_outside_def states_def)
next
  case (partial ordered u v x failure)
  let ?p = "partial_of manifest random"
  note inputs = validated_inputs [OF partial(1)]
  obtain d0 where d0: "directory_at v ?p = Some d0" "pd_files d0 = fmempty" using created_partial [OF partial(4)] by auto
  have created: "confined ?p (states w) (states v)" using movesD [OF confined_createPartial partial(4)] partial(3) by simp
  from publish_partial_states [OF partial(5) d0 partial_not_final] inputs
  consider "confined ?p (states v) (states x)"
    | m d where "published_as H manifest ordered m" "describes H m d" "durable d" "reveals ?p (id_String (mf_TransactionID manifest)) d (states v) (states x)" by blast
  then show ?thesis
  proof cases
    case 1
    then have "confined ?p (states w) (states w')" using created partial(6) confined_orders(2) [of ?p] by (auto dest: transpD)
    then show ?thesis by (auto simp: confined_def same_outside_def states_def)
  next
    case (2 m d)
    obtain rs where rs: "pw_history w' = rs @ pw_history w"
        and each: "\<And>r. r \<in> set (pw_root w' # rs) \<Longrightarrow> same_outside ?p (pw_root w) r \<or> exposes ?p (id_String (mf_TransactionID manifest)) d (pw_root w) r"
      using reveals_after [OF created partial_not_final 2(4)] partial(6) by (auto simp: reveals_def states_def)
    have "fmlookup (bk_dirs r) name = directory_at w name \<or> name = id_String (mf_TransactionID manifest) \<and> directory_at w name = None \<and>
        fmlookup (bk_dirs r) name = Some d" if "r \<in> set (pw_root w' # rs)" "name \<noteq> ?p" for r name
      using each [OF that(1)] that(2) unfolding same_outside_def exposes_def by metis
    then show ?thesis using 2(1-3) inputs rs by blast
  qed
qed

text \<open>
  (C14) What is published can be read back. When \<open>Publish\<close> returns without an error, the root holds what it held before and, under the name of the transaction, one
  backup, nothing partial being left; it is the requested manifest with the inventories of the given archives; and \<open>Open\<close>, run later on this root with
  nothing in its way, returns exactly the publication that \<open>Publish\<close> returned.
\<close>

theorem published_backup_opens:
  assumes "run_state (Publish H aliased tar rootPath manifest archives capacity observed random) w = ((result, []), w')"
    and "int64_manifest (manifestToWire manifest)" and "undisturbed v" and "pw_root v = pw_root w'"
  shows "fst (run_state (Open H rootPath (mf_TransactionID manifest)) v) = Inr (Some result) \<and>
    published_as H manifest (sort_key in_Target archives) (pu_Manifest result) \<and>
    (\<exists>d. bk_dirs (pw_root w') = fmupd (id_String (mf_TransactionID manifest)) d (bk_dirs (pw_root w)))"
  using published_reads_back [OF assms] publish_success [OF assms(1)] by blast

text \<open>
  (C15) Reading is strict. When \<open>Open\<close> returns a publication, whatever the operating system answered, the directory of the transaction exists and holds exactly the files of the
  returned manifest, the canonical text of this manifest and archives of the recorded size and digest; the manifest is valid, belongs to the transaction and has the returned
  digest; and nothing was changed.
\<close>

theorem opened_backup_is_complete:
  assumes "run_state (Open H rootPath transaction) w = (Inr (Some p), w')"
  shows "\<exists>d. fmlookup (bk_dirs (pw_root w)) (id_String transaction) = Some d \<and> describes H (pu_Manifest p) d \<and> validManifest (pu_Manifest p) \<and>
    mf_TransactionID (pu_Manifest p) = transaction \<and> EncodeManifest H (pu_Manifest p) = Inr (canonicalManifest (pu_Manifest p), pu_ManifestDigest p) \<and>
    pu_ManifestPath p = id_String transaction @ ''/manifest.json'' \<and> pw_root w' = pw_root w"
proof -
  have "pw_root w' = pw_root w" using assms by (rule seen_root [rotated]) (rule fixed_open)
  then show ?thesis using open_outcome [OF assms] by (auto simp: manifest_path_def ManifestPath_def EncodeManifest_def Let_def split: if_split_asm)
qed

section \<open>An undisturbed publication\<close>

lemma undisturbed_updates [simp]:
  "undisturbed (w\<lparr>pw_root := r\<rparr>) = undisturbed w" "undisturbed (w\<lparr>pw_history := h\<rparr>) = undisturbed w" "undisturbed (w\<lparr>pw_entries := e\<rparr>) = undisturbed w"
  by (simp_all add: undisturbed_def)

lemma calm_partial_valid: "undisturbed w \<Longrightarrow> run_state partial_valid w = (True, w\<lparr>pw_asked := Suc (Suc (pw_asked w))\<rparr>)"
  by (simp add: partial_valid_def undisturbed_answers)

lemma calm_createFile:
  assumes "undisturbed w" "directory_at w p = Some d" "fmlookup (pd_files d) name = None"
  shows "\<exists>w'. run_state (createFile p name) w = (None, w') \<and> undisturbed w'"
  using assms by (simp add: createFile_def openFile_def calm_partial_valid undisturbed_answers files_of_def)

lemma calm_syncFile: "undisturbed w \<Longrightarrow> \<exists>w'. run_state (syncFile p name) w = (True, w') \<and> undisturbed w'"
  by (simp add: syncFile_def undisturbed_answers)

lemma calm_writeArchive:
  assumes "undisturbed w" "directory_at w p = Some d" "fmlookup (pd_files d) name = None"
    and "in_Reader input = Some (data, None)" "int (length data) \<le> limit" "Analyze H aliased tar (\<lambda>_. False) data None (min (in_MaximumBytes input) limit) = Inr value"
  shows "\<exists>w'. run_state (writeArchive H aliased tar p name input limit) w = (Inr value, w') \<and> undisturbed w'"
proof -
  obtain u where u: "run_state (createFile p name) w = (None, u)" "undisturbed u" using calm_createFile [OF assms(1-3)] by blast
  then show ?thesis using assms(4-6)
    by (simp add: writeArchive_def undisturbed_answers archiveLimitWriter_def Let_def write_data_def syncFile_def calm_partial_valid)
qed

lemma calm_writeManifest:
  assumes "undisturbed w" "directory_at w p = Some d" "fmlookup (pd_files d) ''manifest.json'' = None"
  shows "\<exists>w'. run_state (writeManifest p raw) w = (None, w') \<and> undisturbed w'"
proof -
  obtain u where u: "run_state (createFile p ''manifest.json'') w = (None, u)" "undisturbed u" using calm_createFile [OF assms] by blast
  then show ?thesis by (simp add: writeManifest_def undisturbed_answers write_data_def syncFile_def calm_partial_valid)
qed

lemma calm_finishStage:
  assumes "undisturbed w" "directory_at w p = Some d" "fmlookup (pd_files d) ''manifest.json'' = None"
  shows "\<exists>w'. run_state (finishStage p raw) w = ([], w') \<and> undisturbed w'"
proof -
  obtain u where u: "run_state (writeManifest p raw) w = (None, u)" "undisturbed u" using calm_writeManifest [OF assms] by blast
  then show ?thesis by (simp add: finishStage_def undisturbed_answers context_error_def syncDirectory_def calm_partial_valid)
qed

lemma artifactName_inj: "artifactName i = artifactName j \<longleftrightarrow> i = j"
proof
  have zeros: "undecimal 0 (replicate k (CHR ''0'')) = 0" for k by (induction k) simp_all
  assume "artifactName i = artifactName j"
  then have "undecimal 0 (zero_padded 6 (i + 1)) = undecimal 0 (zero_padded 6 (j + 1))" by (simp add: artifactName_def)
  then show "i = j" by (simp add: zero_padded_def undecimal_append zeros undecimal_decimal)
qed simp

lemma artifactName_not_manifest: "artifactName i \<noteq> ''manifest.json''"
  by (simp add: artifactName_def)

lemma staged_absent: "staged H artifacts n d \<Longrightarrow> name \<notin> artifactName ` {0 ..< n} \<Longrightarrow> fmlookup (pd_files d) name = None"
  by (auto simp: staged_def fset_of_list.rep_eq intro: fmdom_notD)

text \<open>The analysis of an input succeeds with the content that the manifest records, and \<open>b\<close> is the artifact with the new inventory.\<close>

definition analyzed_as :: "hash \<Rightarrow> (string \<Rightarrow> string) \<Rightarrow> (bytes \<Rightarrow> read_error option \<Rightarrow> tar_event list \<times> nat) \<Rightarrow> Artifact \<Rightarrow> ArchiveInput \<Rightarrow> Artifact \<Rightarrow> bool" where
  "analyzed_as H aliased tar a input b \<longleftrightarrow> (\<exists>data value. in_Reader input = Some (data, None) \<and> int (length data) \<le> iv_ArchiveBytes (af_Inventory a) \<and>
     Analyze H aliased tar (\<lambda>_. False) data None (min (in_MaximumBytes input) (iv_ArchiveBytes (af_Inventory a))) = Inr value \<and>
     SameContent (af_Inventory a) value \<and> b = a\<lparr>af_Inventory := value\<rparr>)"

lemma calm_stageArchives:
  assumes "undisturbed w" "directory_at w p = Some d" "staged H (mf_Artifacts m) n d" "n + length inputs = length (mf_Artifacts m)"
    and "length as = length (mf_Artifacts m)" "\<forall>k < n. as ! k = mf_Artifacts m ! k"
    and "\<forall>k < length inputs. analyzed_as H aliased tar (mf_Artifacts m ! (n + k)) (inputs ! k) (as ! (n + k))"
  shows "\<exists>w'. run_state (stageArchives H aliased tar p n m inputs) w = (Inr (m\<lparr>mf_Artifacts := as\<rparr>), w') \<and> undisturbed w'"
  using assms
proof (induction inputs arbitrary: n m w d)
  case Nil
  then have "as = mf_Artifacts m" by (intro nth_equalityI) auto
  then show ?case using Nil by simp
next
  case (Cons input inputs)
  let ?a = "mf_Artifacts m ! n"
  obtain data iv where input: "in_Reader input = Some (data, None)" "int (length data) \<le> iv_ArchiveBytes (af_Inventory ?a)"
      "Analyze H aliased tar (\<lambda>_. False) data None (min (in_MaximumBytes input) (iv_ArchiveBytes (af_Inventory ?a))) = Inr iv"
      "SameContent (af_Inventory ?a) iv" "as ! n = ?a\<lparr>af_Inventory := iv\<rparr>"
    using Cons.prems(7) by (force simp: analyzed_as_def)
  have absent: "fmlookup (pd_files d) (artifactName n) = None"
    using Cons.prems(3) by (rule staged_absent) (auto simp: artifactName_inj)
  obtain v where v: "run_state (writeArchive H aliased tar p (artifactName n) input (iv_ArchiveBytes (af_Inventory ?a))) w = (Inr iv, v)" "undisturbed v"
    using calm_writeArchive [OF Cons.prems(1,2) absent input(1-3)] by blast
  let ?m = "m\<lparr>mf_Artifacts := (mf_Artifacts m)[n := ?a\<lparr>af_Inventory := iv\<rparr>]\<rparr>"
  have n: "n < length (mf_Artifacts m)" using Cons.prems(4) by simp
  have directory: "directory_at v p = Some (stored (artifactName n) data d)" and "iv_ArchiveBytes iv = int (length data)" "iv_ArchiveDigest iv = H data"
    using written_archive [OF v(1) Cons.prems(2)] input(1) by auto
  then have "staged H (mf_Artifacts ?m) (Suc n) (stored (artifactName n) data d)" using staged_stored [OF Cons.prems(3) absent n] by simp
  moreover have "\<forall>k < Suc n. as ! k = mf_Artifacts ?m ! k" using Cons.prems(6) input(5) n by (auto simp: less_Suc_eq)
  moreover have "\<forall>k < length inputs. analyzed_as H aliased tar (mf_Artifacts ?m ! (Suc n + k)) (inputs ! k) (as ! (Suc n + k))"
    using Cons.prems(7) by force
  ultimately obtain w' where "run_state (stageArchives H aliased tar p (Suc n) ?m inputs) v = (Inr (?m\<lparr>mf_Artifacts := as\<rparr>), w')" "undisturbed w'"
    using Cons.IH [OF v(2) directory, of ?m "Suc n"] Cons.prems(4,5) by auto
  then show ?case using v(1) input(4) by (simp add: Let_def)
qed

lemma calm_stage:
  assumes "undisturbed w" "directory_at w p = Some d" "pd_files d = fmempty" "length inputs = length (mf_Artifacts m)" "length as = length (mf_Artifacts m)"
    and "\<forall>k < length inputs. analyzed_as H aliased tar (mf_Artifacts m ! k) (inputs ! k) (as ! k)"
    and "EncodeManifest H (m\<lparr>mf_Artifacts := as\<rparr>) = Inr (raw, digest)"
  shows "\<exists>w'. run_state (stage H aliased tar p m inputs) w = (Inr \<lparr>pu_Manifest = m\<lparr>mf_Artifacts := as\<rparr>,
      pu_ManifestPath = manifest_path (mf_TransactionID m), pu_ManifestDigest = digest\<rparr>, w') \<and> undisturbed w'"
proof -
  have start: "staged H (mf_Artifacts m) 0 d" using assms(3) by (simp add: staged_def)
  obtain u where u: "run_state (stageArchives H aliased tar p 0 m inputs) w = (Inr (m\<lparr>mf_Artifacts := as\<rparr>), u)" "undisturbed u"
    using calm_stageArchives [OF assms(1,2) start, of inputs as aliased tar] assms(4-6) by auto
  have readers: "\<forall>input \<in> set inputs. in_Reader input \<noteq> None"
    using assms(6) unfolding all_set_conv_all_nth analyzed_as_def by fastforce
  have count: "0 + length inputs = length (mf_Artifacts m)" using assms(4) by simp
  from staged_archives [OF u(1) assms(2) start count readers]
  obtain as' d' where eq: "m\<lparr>mf_Artifacts := as\<rparr> = m\<lparr>mf_Artifacts := as'\<rparr>" and d': "directory_at u p = Some d'" "staged H as' (length as') d'" by blast
  have "fmlookup (pd_files d') ''manifest.json'' = None"
    using staged_absent [OF d'(2)] artifactName_not_manifest by (metis imageE)
  then obtain v where "run_state (finishStage p (string_bytes raw)) u = ([], v)" "undisturbed v"
    using calm_finishStage [OF u(2) d'(1)] by blast
  then show ?thesis using u(1) assms(7) by (simp add: stage_def)
qed

lemma calm_commit:
  assumes "undisturbed w" "directory_at w p = Some d" "directory_at w (id_String (mf_TransactionID m)) = None"
  shows "\<exists>w'. run_state (commit H p m) w = ((True, []), w') \<and> undisturbed w'"
  using assms by (simp add: commit_def context_error_def renameNoReplace_def change_def syncRoot_def undisturbed_answers Let_def)

lemma calm_createPartial:
  assumes "undisturbed w" "directory_at w (partial_of m (Some nonce)) = None" "mf_TransactionID m \<noteq> 0"
  shows "\<exists>w'. run_state (createPartial (mf_TransactionID m) (Some nonce)) w = (Inr (partial_of m (Some nonce)), w') \<and> undisturbed w'"
  using assms by (simp add: createPartial_def createPartialEntry_def mkdir_def change_def openPartial_def calm_partial_valid undisturbed_answers
      partial_of_def Let_def)

lemma calm_publish:
  assumes "undisturbed w" "validateArchiveInputs manifest archives = Some ordered" "validRootPath rootPath"
    and "validatePublicationCapacityWith H manifest capacity observed = None"
    and "directory_at w (partial_of manifest (Some nonce)) = None" "directory_at w (id_String (mf_TransactionID manifest)) = None"
    and "length as = length (mf_Artifacts manifest)" "\<forall>k < length as. analyzed_as H aliased tar (mf_Artifacts manifest ! k) (ordered ! k) (as ! k)"
    and "EncodeManifest H (manifest\<lparr>mf_Artifacts := as\<rparr>) = Inr (raw, digest)"
  shows "\<exists>w'. run_state (Publish H aliased tar rootPath manifest archives capacity observed (Some nonce)) w =
    ((\<lparr>pu_Manifest = manifest\<lparr>mf_Artifacts := as\<rparr>, pu_ManifestPath = id_String (mf_TransactionID manifest) @ ''/manifest.json'', pu_ManifestDigest = digest\<rparr>, []), w') \<and>
    undisturbed w'"
proof -
  let ?p = "partial_of manifest (Some nonce)" and ?m = "manifest\<lparr>mf_Artifacts := as\<rparr>" and ?start = "w\<lparr>pw_asked := Suc (Suc (Suc (Suc (Suc (Suc (Suc (pw_asked w)))))))\<rparr>"
  note inputs = validated_inputs [OF assms(2)]
  have transaction: "mf_TransactionID manifest \<noteq> 0" using inputs by (simp add: validManifest_def validManifestIdentity_def split: if_split_asm)
  let ?result = "\<lparr>pu_Manifest = ?m, pu_ManifestPath = manifest_path (mf_TransactionID manifest), pu_ManifestDigest = digest\<rparr>"
  obtain u where u: "run_state (createPartial (mf_TransactionID manifest) (Some nonce)) ?start = (Inr ?p, u)" "undisturbed u"
    using calm_createPartial [of ?start manifest nonce] assms(1,5) transaction by auto
  obtain d where d: "directory_at u ?p = Some d" "pd_files d = fmempty" using created_partial [OF u(1)] by blast
  have len: "length ordered = length (mf_Artifacts manifest)" using inputs by blast
  then have analyses: "\<forall>k < length ordered. analyzed_as H aliased tar (mf_Artifacts manifest ! k) (ordered ! k) (as ! k)" using assms(7,8) by metis
  obtain v where v: "run_state (stage H aliased tar ?p manifest ordered) u = (Inr ?result, v)" "undisturbed v"
    using calm_stage [OF u(2) d len assms(7) analyses assms(9)] by blast
  have "confined ?p (states ?start) (states v)"
    using movesD [OF confined_createPartial u(1)] movesD [OF confined_stage v(1)] confined_orders(2) [of ?p] by (blast dest: transpD)
  then have absent: "directory_at v (id_String (mf_TransactionID ?m)) = None"
    using assms(6) partial_not_final [of manifest "Some nonce", THEN not_sym] by (auto simp: confined_def same_outside_def states_def)
  obtain d' where "directory_at v ?p = Some d'" using stage_outcome [OF v(1) d] inputs by blast
  then obtain x where "run_state (commit H ?p ?m) v = ((True, []), x)" "undisturbed x" using calm_commit [OF v(2) _ absent] by blast
  then have "run_state (publish_partial H aliased tar ?p manifest ordered) u = ((?result, []), x\<lparr>pw_asked := Suc (pw_asked x)\<rparr>)" and "undisturbed x"
    using v(1) by (simp_all add: publish_partial_def partial_close_def undisturbed_answers)
  then show ?thesis using u(1) assms(1-4) transaction
    by (simp add: Publish_def publish_root_def context_error_def openBackupRoot_def ensureBackupRootEntry_def openRootAnchor_def anchor_close_def
        undisturbed_answers manifest_path_def ManifestPath_def)
qed

text \<open>
  (C16) A publication that nothing disturbs succeeds and is read back. If the inputs are valid, the file system has the prepared capacity and grants every call, each archive is analysed to
  the content that the manifest records, the manifest with the new inventories can be encoded, and neither the partial nor the final
  name is taken, then \<open>Publish\<close> returns this manifest with its path and digest and no error, and \<open>Open\<close> in the resulting world returns the same.
\<close>

theorem undisturbed_publication_succeeds:
  assumes "undisturbed w" "validateArchiveInputs manifest archives = Some ordered" "validRootPath rootPath"
    and "validatePublicationCapacityWith H manifest capacity observed = None"
    and "fmlookup (bk_dirs (pw_root w)) (partial_of manifest (Some nonce)) = None" "fmlookup (bk_dirs (pw_root w)) (id_String (mf_TransactionID manifest)) = None"
    and "length as = length (mf_Artifacts manifest)" "\<forall>k < length as. analyzed_as H aliased tar (mf_Artifacts manifest ! k) (ordered ! k) (as ! k)"
    and "EncodeManifest H (manifest\<lparr>mf_Artifacts := as\<rparr>) = Inr (raw, digest)" and "int64_manifest (manifestToWire manifest)"
  shows "\<exists>result w'. run_state (Publish H aliased tar rootPath manifest archives capacity observed (Some nonce)) w = ((result, []), w') \<and>
    result = \<lparr>pu_Manifest = manifest\<lparr>mf_Artifacts := as\<rparr>, pu_ManifestPath = id_String (mf_TransactionID manifest) @ ''/manifest.json'', pu_ManifestDigest = digest\<rparr> \<and>
    fst (run_state (Open H rootPath (mf_TransactionID manifest)) w') = Inr (Some result)"
  using calm_publish [OF assms(1-9)] published_reads_back [OF _ assms(10)] by blast

section \<open>An example\<close>

definition example_world :: pub_world where
  "example_world = \<lparr>pw_root = \<lparr>bk_dirs = fmempty, bk_synced = True\<rparr>, pw_history = [], pw_entries = [], pw_answers = (\<lambda>_. 1), pw_asked = 0\<rparr>"

definition example_inputs :: "ArchiveInput list" where
  "example_inputs = [\<lparr>in_Target = ''/d'', in_Reader = Some (replicate 2048 0, None), in_MaximumBytes = 4096\<rparr>]"

definition example_capacity :: PublicationCapacity where
  "example_capacity = \<lparr>ca_manifest = 9, ca_filesystem = ((1, 2), 4096), ca_requiredBytes = 2 ^ 21, ca_requiredInodes = 3\<rparr>"

abbreviation example_run :: "(Publication \<times> backup_error list) pub" where
  "example_run \<equiv> Publish (\<lambda>_. 9) id example_tar ''/b'' example_manifest example_inputs example_capacity (Inr example_filesystem) (Some [1])"

lemma example_archive:
  "Analyze (\<lambda>_. 9) id example_tar (\<lambda>_. False) (replicate 2048 0) None 2048 =
     Inr \<lparr>iv_EntryCount = 2, iv_PayloadBytes = 1, iv_ArchiveBytes = 2048, iv_ArchiveDigest = 9, iv_SemanticDigest = 9\<rparr>"
proof -
  have "completeTar (read_all 2048 (replicate 2048 0))" by (simp add: completeTar_exact tarTerminatorBytes_def)
  moreover have "br_count (read_all 2048 (replicate 2048 0)) = 2048" by (simp add: read_all_state)
  moreover obtain scan where "scanArchive (\<lambda>_. 9) id (\<lambda>_. False) newArchiveScan (fst (example_tar (replicate 2048 0) None)) = Inr scan"
      "as_payloadBytes scan = 1" "length (as_entries scan) = 2"
    by (simp add: example_tar_def example_header_def scanArchive.simps record_entry_def newArchiveScan_def normalizedMemberPath_def trim_slash_def
        validArchivePathText_def canonicalMemberPath_def has_prefix_def filepath_Clean_def path_Dir_def validHeaderMetadata_def validUnixMetadata_def
        validOwnerName_def recordPath_def entryIdentity_def recordPayload_def maximumArchiveEntries_def maximumPathBytes_def contains_nul_def
        in_range_def Let_def)
  moreover have "length (replicate 2048 (0 :: byte)) = 2048" "\<not> list_ex (\<lambda>b. b \<noteq> 0) (drop n (replicate 2048 (0 :: byte)))" for n
    by (auto simp: list_ex_iff)
  moreover obtain events consumed where "example_tar (replicate 2048 0) None = (events, consumed)" by (metis surj_pair)
  ultimately show ?thesis unfolding Analyze_def bounded_stream_def consumeZeroPadding_def inventory_def Let_def
    by (simp del: length_replicate drop_replicate)
qed

lemma example_analyzed_as: "analyzed_as (\<lambda>_. 9) id example_tar (mf_Artifacts example_manifest ! 0) (example_inputs ! 0) (mf_Artifacts example_manifest ! 0)"
  unfolding analyzed_as_def
  by (rule exI [of _ "replicate 2048 0"], rule exI, intro conjI)
    (simp_all add: example_inputs_def example_manifest_def example_archive SameContent_def validInventory_def)

lemma example_conditions:
  "undisturbed example_world" "validateArchiveInputs example_manifest example_inputs = Some example_inputs" "validRootPath ''/b''"
  "validatePublicationCapacityWith (\<lambda>_. 9) example_manifest example_capacity (Inr example_filesystem) = None"
  "fmlookup (bk_dirs (pw_root example_world)) name = None" "length (mf_Artifacts example_manifest) = 1" "mf_TransactionID example_manifest = 2"
  "int64_manifest (manifestToWire example_manifest)"
proof -
  show "undisturbed example_world" "fmlookup (bk_dirs (pw_root example_world)) name = None" "validRootPath ''/b''"
    by (simp_all add: undisturbed_def example_world_def validRootPath_def filepath_Clean_def filepath_Base_def)
  show "validateArchiveInputs example_manifest example_inputs = Some example_inputs" using example_valid
    by (simp add: validateArchiveInputs_def example_inputs_def Let_def) (simp add: example_manifest_def)
  obtain raw where "EncodeManifest (\<lambda>_. 9) example_manifest = Inr (raw, 9)" using example_encoded by blast
  then show "validatePublicationCapacityWith (\<lambda>_. 9) example_manifest example_capacity (Inr example_filesystem) = None"
    by (simp add: validatePublicationCapacityWith_def example_capacity_def example_filesystem_def capacityAvailable_exact leaves_reserve_def)
  show "length (mf_Artifacts example_manifest) = 1" "mf_TransactionID example_manifest = 2" by (simp_all add: example_manifest_def)
  show "int64_manifest (manifestToWire example_manifest)"
    by (simp add: int64_manifest_def manifestToWire_def artifactToWire_def int64_artifact_def int64_def example_manifest_def)
qed

lemma example_analyses:
  "\<forall>k < length (mf_Artifacts example_manifest). analyzed_as (\<lambda>_. 9) id example_tar (mf_Artifacts example_manifest ! k) (example_inputs ! k)
     (mf_Artifacts example_manifest ! k)"
  using example_analyzed_as by (simp add: example_conditions)

lemma example_reencoded: "\<exists>raw. EncodeManifest (\<lambda>_. 9) (example_manifest\<lparr>mf_Artifacts := mf_Artifacts example_manifest\<rparr>) = Inr (raw, 9)"
  using example_encoded by simp

lemma example_published: "\<exists>result w'. run_state example_run example_world = ((result, []), w') \<and> undisturbed w'"
proof -
  obtain raw where "EncodeManifest (\<lambda>_. 9) (example_manifest\<lparr>mf_Artifacts := mf_Artifacts example_manifest\<rparr>) = Inr (raw, 9)" using example_reencoded by blast
  then show ?thesis using calm_publish [OF example_conditions(1-4) example_conditions(5,5) refl example_analyses] by blast
qed

theorem undisturbed_publication_succeeds_witness:
  "\<exists>result w'. run_state example_run example_world = ((result, []), w') \<and> fst (run_state (Open (\<lambda>_. 9) ''/b'' 2) w') = Inr (Some result)"
proof -
  obtain raw where encoded: "EncodeManifest (\<lambda>_. 9) (example_manifest\<lparr>mf_Artifacts := mf_Artifacts example_manifest\<rparr>) = Inr (raw, 9)"
    using example_reencoded by blast
  show ?thesis
    using undisturbed_publication_succeeds [OF example_conditions(1-4) example_conditions(5,5) refl example_analyses encoded example_conditions(8)]
    unfolding example_conditions(7) by blast
qed

theorem publish_is_atomic_witness:
  "\<exists>result w' between. run_state example_run example_world = ((result, []), w') \<and> pw_history w' = between @ pw_history example_world \<and>
     (\<forall>root \<in> set (pw_root w' # between). fmlookup (bk_dirs root) ''other'' = None)"
proof -
  obtain result w' where run: "run_state example_run example_world = ((result, []), w')" using example_published by blast
  have "''other'' \<noteq> partial_of example_manifest (Some [1])" by (simp add: partial_of_def partialName_def)
  moreover have "''other'' \<noteq> id_String (mf_TransactionID example_manifest)"
  proof
    assume "''other'' = id_String (mf_TransactionID example_manifest)"
    then have "length ''other'' = 32" by (simp only: length_id_String)
    then show False by simp
  qed
  ultimately show ?thesis using publish_is_atomic [OF run] run example_conditions(5) by metis
qed

theorem published_backup_opens_witness:
  "\<exists>result w' d. run_state example_run example_world = ((result, []), w') \<and> fst (run_state (Open (\<lambda>_. 9) ''/b'' 2) w') = Inr (Some result) \<and>
     bk_dirs (pw_root w') = fmupd (id_String 2) d fmempty"
proof -
  obtain result w' where run: "run_state example_run example_world = ((result, []), w')" and calm: "undisturbed w'" using example_published by blast
  have "bk_dirs (pw_root example_world) = fmempty" by (simp add: example_world_def)
  then show ?thesis using published_backup_opens [OF run example_conditions(8) calm refl] run unfolding example_conditions(7) by auto
qed

theorem opened_backup_is_complete_witness:
  "\<exists>w p w' d. run_state (Open (\<lambda>_. 9) ''/b'' 2) w = (Inr (Some p), w') \<and> fmlookup (bk_dirs (pw_root w)) (id_String 2) = Some d \<and>
     describes (\<lambda>_. 9) (pu_Manifest p) d"
proof -
  obtain result w where run: "run_state example_run example_world = ((result, []), w)" and calm: "undisturbed w" using example_published by blast
  have "fst (run_state (Open (\<lambda>_. 9) ''/b'' 2) w) = Inr (Some result)"
    using published_reads_back [OF run example_conditions(8) calm refl] unfolding example_conditions(7) .
  then obtain w' where opened: "run_state (Open (\<lambda>_. 9) ''/b'' 2) w = (Inr (Some result), w')" by (metis prod.collapse)
  then show ?thesis using opened_backup_is_complete [OF opened] by blast
qed

end
