(* ===== verification/StoreReader.thy ===== *)
theory StoreReader
  imports StorageEffects
begin

text \<open>
  The read-only view of the store (\<open>reader_unix.go\<close> of \<open>src/internal/store\<close>), through which a dry run and a snapshot see the
  journal, and the bounded wait for a file lock (\<open>files_unix.go\<close>). What the directory holds is an argument of
  \<open>OpenReader\<close>; identities of files, pragma settings and the text of the schema are observations of the world, as for the
  writing side.
\<close>

section \<open>Waiting for a file lock (files\_unix.go)\<close>

text \<open>
  One round of the loop: whether the context is cancelled before it, what \<open>flock\<close> answers, the clock after the attempt, and
  whether the context ends the sleep. The loop is a partial function: that it returns is a theorem.
\<close>

record lock_attempt =
  la_cancelled :: bool
  la_try :: flock_result
  la_now :: int
  la_done :: bool

definition lockTimeout :: int where
  "lockTimeout = 1000000000"

definition lockRetry :: int where
  "lockRetry = 10000000"

partial_function (option) waitForFileLock :: "(nat \<Rightarrow> lock_attempt) \<Rightarrow> int \<Rightarrow> nat \<Rightarrow> go_error option option" where
  "waitForFileLock world deadline n =
     (if la_cancelled (world n) then Some (Some (Join [ErrUnavailable, ErrContext]))
      else case la_try (world n) of
        FlockError \<Rightarrow> Some (Some ErrUnavailable)
      | FlockAcquired \<Rightarrow> Some None
      | FlockWouldBlock \<Rightarrow>
          if la_now (world n) > deadline then Some (Some ErrUnavailable)
          else if la_done (world n) then Some (Some (Join [ErrUnavailable, ErrContext]))
          else waitForFileLock world deadline (n + 1))"

definition waitForLock :: "int \<Rightarrow> (nat \<Rightarrow> lock_attempt) \<Rightarrow> go_error option option" where
  "waitForLock started world = waitForFileLock world (started + lockTimeout) 0"

section \<open>Opening (reader\_unix.go)\<close>

datatype entry = EntryMissing | EntryInvalid | EntryFound

text \<open>The lock file: absent, not openable or not private, or open with the result of waiting for it.\<close>

datatype lock_entry = LockMissing | LockInvalid | LockWaited "go_error option"

record reader_files =
  rf_directory :: entry
  rf_captured :: bool
  rf_lock :: lock_entry
  rf_database :: entry
  rf_wal :: entry
  rf_shared :: entry
  rf_listed :: bool

text \<open>A reader of a missing database has no tables.\<close>

record Reader =
  re_tables :: "db option"
  re_closed :: bool

definition validStatePath :: "string \<Rightarrow> bool" where
  "validStatePath path \<longleftrightarrow> path \<noteq> [] \<and> hd path = CHR ''/'' \<and> filepath_Clean path = path \<and> filepath_Base path \<noteq> ''.'' \<and>
     filepath_Base path \<noteq> ''/''"

definition classifyReaderOpen :: "go_error \<Rightarrow> ('z, go_error) prog" where
  "classifyReaderOpen err = do {
     cancelled \<leftarrow> ctx_Err;
     if cancelled then classifyContext
     else State_Monad.return (if errors_Is err ErrUnavailable then err else ErrInvalidState) }"

definition classifyReaderValidation :: "('z, go_error) prog" where
  "classifyReaderValidation = do {
     cancelled \<leftarrow> ctx_Err;
     if cancelled then classifyContext else State_Monad.return ErrInvalidState }"

definition readerDatabaseMissing :: "reader_files \<Rightarrow> bool \<times> go_error option" where
  "readerDatabaseMissing files =
     (if rf_database files = EntryMissing \<and> rf_wal files = EntryMissing \<and> rf_shared files = EntryMissing
      then (if rf_listed files then (True, None) else (False, Some ErrUnavailable))
      else (False, Some ErrInvalidState))"

definition openReaderDatabase :: "reader_files \<Rightarrow> go_error + bool" where
  "openReaderDatabase files =
     (if rf_database files = EntryFound \<and> rf_wal files \<noteq> EntryInvalid \<and> rf_shared files = rf_wal files
      then Inr (rf_wal files = EntryFound) else Inl ErrInvalidState)"

text \<open>An opened anchor, with the answer whether the write-ahead files are present, or a missing database.\<close>

definition openReaderAnchor :: "reader_files \<Rightarrow> ('z, go_error + bool option) prog" where
  "openReaderAnchor files =
     (case rf_directory files of
        EntryMissing \<Rightarrow> State_Monad.return (Inr None)
      | EntryInvalid \<Rightarrow> State_Monad.return (Inl ErrInvalidState)
      | EntryFound \<Rightarrow>
          if \<not> rf_captured files then State_Monad.return (Inl ErrInvalidState)
          else (case rf_lock files of
            LockMissing \<Rightarrow> State_Monad.return (case readerDatabaseMissing files of
                (_, Some err) \<Rightarrow> Inl err | (_, None) \<Rightarrow> Inr None)
          | LockInvalid \<Rightarrow> do { e \<leftarrow> classifyReaderOpen ErrInvalidState; State_Monad.return (Inl e) }
          | LockWaited (Some err) \<Rightarrow> do { e \<leftarrow> classifyReaderOpen err; State_Monad.return (Inl e) }
          | LockWaited None \<Rightarrow> State_Monad.return (map_sum id Some (openReaderDatabase files))))"

definition reader_valid :: "Reader \<Rightarrow> ('z, bool) prog" where
  "reader_valid reader = (if re_closed reader \<or> re_tables reader = None then State_Monad.return False else files_valid)"

definition requireValid :: "Reader \<Rightarrow> ('z, go_error option) prog" where
  "requireValid reader = do { ok \<leftarrow> reader_valid reader; State_Monad.return (if ok then None else Some ErrInvalidState) }"

definition validateSchema :: "db \<Rightarrow> ('z, go_error option) prog" where
  "validateSchema d = do {
     facts \<leftarrow> sql_run (\<lambda>_. Inr ()) d;
     case facts of
       Inl err \<Rightarrow> do { e \<leftarrow> classifySQLiteProbe err; State_Monad.return (Some e) }
     | Inr _ \<Rightarrow> do {
         current \<leftarrow> file_step;
         if \<not> current then State_Monad.return (Some ErrInvalidState)
         else do {
           err \<leftarrow> validateWriterLeaseRows d;
           case err of Some e \<Rightarrow> State_Monad.return (Some e) | None \<Rightarrow> validateJournalRows d } } }"

definition validateReaderSnapshot :: "db \<Rightarrow> Reader \<Rightarrow> ('z, go_error option) prog" where
  "validateReaderSnapshot d reader = do {
     err \<leftarrow> requireValid reader;
     case err of Some e \<Rightarrow> State_Monad.return (Some e)
     | None \<Rightarrow> do {
         settings \<leftarrow> file_step;
         if \<not> settings then do { e \<leftarrow> classifyReaderValidation; State_Monad.return (Some e) }
         else do {
           err \<leftarrow> validateSchema d;
           case err of Some e \<Rightarrow> State_Monad.return (Some e) | None \<Rightarrow> requireValid reader } } }"

definition finishOpenReader :: "('z, go_error + Reader) prog" where
  "finishOpenReader = do {
     b \<leftarrow> sql_begin;
     case b of
       Inl err \<Rightarrow> do { e \<leftarrow> classifySQLiteProbe err; State_Monad.return (Inl e) }
     | Inr d \<Rightarrow> do {
         let reader = \<lparr>re_tables = Some d, re_closed = False\<rparr>;
         err \<leftarrow> validateReaderSnapshot d reader;
         State_Monad.return (case err of Some e \<Rightarrow> Inl e | None \<Rightarrow> Inr reader) } }"

definition OpenReader :: "string \<Rightarrow> reader_files \<Rightarrow> ('z, go_error + Reader) prog" where
  "OpenReader path files =
     (if \<not> validStatePath path then State_Monad.return (Inl ErrInvalidPath)
      else do {
        cancelled \<leftarrow> ctx_Err;
        if cancelled then do { e \<leftarrow> classifyContext; State_Monad.return (Inl e) }
        else do {
          anchor \<leftarrow> openReaderAnchor files;
          case anchor of
            Inl e \<Rightarrow> State_Monad.return (Inl e)
          | Inr None \<Rightarrow> State_Monad.return (Inr \<lparr>re_tables = None, re_closed = False\<rparr>)
          | Inr (Some _) \<Rightarrow> finishOpenReader } })"

section \<open>Reading\<close>

text \<open>After a query the files are checked again before its answer is given out.\<close>

definition reader_result :: "Reader \<Rightarrow> go_error + 'a \<Rightarrow> ('z, go_error + 'a) prog" where
  "reader_result reader r =
     (case r of
        Inl e \<Rightarrow> State_Monad.return (Inl e)
      | Inr x \<Rightarrow> do { err \<leftarrow> requireValid reader; State_Monad.return (case err of Some e \<Rightarrow> Inl e | None \<Rightarrow> Inr x) })"

definition empty_reader :: "Reader \<Rightarrow> bool" where
  "empty_reader reader \<longleftrightarrow> \<not> re_closed reader \<and> re_tables reader = None"

definition empty_result :: "'a \<Rightarrow> ('z, go_error + 'a) prog" where
  "empty_result x = do {
     cancelled \<leftarrow> ctx_Err;
     if cancelled then do { e \<leftarrow> classifyContext; State_Monad.return (Inl e) } else State_Monad.return (Inr x) }"

definition reader_query :: "Reader \<Rightarrow> (db \<Rightarrow> ('z, go_error + 'a) prog) \<Rightarrow> ('z, go_error + 'a) prog" where
  "reader_query reader query = do {
     ok \<leftarrow> reader_valid reader;
     case re_tables reader of
       None \<Rightarrow> State_Monad.return (Inl ErrInvalidState)
     | Some d \<Rightarrow>
         if \<not> ok then State_Monad.return (Inl ErrInvalidState)
         else do { r \<leftarrow> query d; reader_result reader r } }"

definition reader_UnresolvedTransaction :: "hash \<Rightarrow> Reader \<Rightarrow> string \<Rightarrow> string \<Rightarrow> ('z, go_error + Transaction option) prog" where
  "reader_UnresolvedTransaction H reader projectName serviceName =
     (if empty_reader reader then
        (if \<not> snd (serviceIdentity H projectName serviceName) then State_Monad.return (Inl ErrInvalidState) else empty_result None)
      else reader_query reader (\<lambda>d. unresolvedTransaction H d projectName serviceName))"

definition reader_AppliedService :: "hash \<Rightarrow> Reader \<Rightarrow> string \<Rightarrow> string \<Rightarrow> ('z, go_error + AppliedService option) prog" where
  "reader_AppliedService H reader projectName serviceName =
     (case serviceIdentity H projectName serviceName of (serviceID, valid) \<Rightarrow>
      if \<not> valid then State_Monad.return (Inl ErrInvalidState)
      else if empty_reader reader then empty_result None
      else reader_query reader (\<lambda>d. appliedService d serviceID))"

definition reader_BackupIndex :: "Reader \<Rightarrow> transaction_id \<Rightarrow> ('z, go_error + BackupIndex option) prog" where
  "reader_BackupIndex reader identifier =
     (if identifier = 0 then State_Monad.return (Inl ErrInvalidState)
      else if empty_reader reader then empty_result None
      else reader_query reader (\<lambda>d. backupIndex d identifier))"

definition reader_Actions :: "Reader \<Rightarrow> transaction_id \<Rightarrow> ('z, go_error + Action list) prog" where
  "reader_Actions reader identifier = reader_query reader (\<lambda>d. actions_in d identifier)"

definition reader_Close :: "Reader \<Rightarrow> ('z, go_error option \<times> Reader) prog" where
  "reader_Close reader =
     (if re_closed reader then State_Monad.return (Some ErrUnavailable, reader)
      else let reader' = reader\<lparr>re_closed := True\<rparr> in
        if re_tables reader = None then State_Monad.return (None, reader')
        else do {
          valid \<leftarrow> files_valid;
          rolledBack \<leftarrow> file_step;
          closed \<leftarrow> file_step;
          released \<leftarrow> file_step;
          let failures = map (\<lambda>ok. if ok then None else Some (ErrDriver None)) [rolledBack, closed, released];
          State_Monad.return (if \<not> valid then errors_Join (Some ErrInvalidState # failures)
            else if \<not> rolledBack \<or> \<not> closed \<or> \<not> released then errors_Join (Some ErrUnavailable # failures)
            else None, reader') })"

section \<open>A reader is a stable snapshot\<close>

lemma reads_snapshot [reads_rules]:
  "reads (reader_valid reader)" "reads (requireValid reader)" "reads (reader_result reader r)" "reads (empty_result x)"
  unfolding reader_valid_def requireValid_def reader_result_def empty_result_def by (intro reads_rules)+

lemma reads_snapshot_query [reads_rules]: "(\<And>d. reads (query d)) \<Longrightarrow> reads (reader_query reader query)"
  unfolding reader_query_def by (intro reads_rules)

lemma reads_snapshot_lookups [reads_rules]:
  "reads (reader_UnresolvedTransaction H reader p n)" "reads (reader_AppliedService H reader p n)"
  "reads (reader_BackupIndex reader i)" "reads (reader_Actions reader i)" "reads (reader_Close reader)"
  unfolding reader_UnresolvedTransaction_def reader_AppliedService_def reader_BackupIndex_def reader_Actions_def reader_Close_def Let_def
  by (intro reads_rules)+

lemma validated_tables:
  assumes "run_state (validateSchema d) s = (None, t)"
  shows "invalid_leases d = 0 \<and> journalRowValidation d = 0"
  using assms
  by (auto simp: validateSchema_def validateWriterLeaseRows_def validateJournalRows_def simp del: run_state_bind elim!: run_bindE
      dest!: outcomes split: sum.split_asm if_split_asm option.split_asm)

lemma open_reader_outcome:
  assumes "run_state (OpenReader path files) s = (Inr reader, t)"
  shows "\<not> re_closed reader" "re_tables reader = None \<or>
    re_tables reader = Some (sw_db s) \<and> invalid_leases (sw_db s) = 0 \<and> journalRowValidation (sw_db s) = 0"
  using assms
  by (auto simp: OpenReader_def openReaderAnchor_def finishOpenReader_def validateReaderSnapshot_def Let_def simp del: run_state_bind
      elim!: run_bindE dest!: outcomes validated_tables
      split: sum.split_asm if_split_asm option.split_asm entry.split_asm lock_entry.split_asm prod.split_asm)

lemma reader_queryE:
  assumes "run_state (reader_query reader query) s = (Inr x, t)"
  obtains d u v where "re_tables reader = Some d" "run_state (query d) u = (Inr x, v)"
  using assms
  by (auto simp: reader_query_def reader_result_def simp del: run_state_bind elim!: run_bindE
      split: sum.split_asm if_split_asm option.split_asm)

text \<open>The tables that a reader stands for: none of a missing database.\<close>

definition reader_tables :: "Reader \<Rightarrow> db" where
  "reader_tables reader = (case re_tables reader of None \<Rightarrow> empty_db | Some d \<Rightarrow> d)"

lemma reader_unresolved_outcome:
  fixes s :: "'z store_world_scheme"
  assumes "run_state (reader_UnresolvedTransaction H reader p n) s = (Inr r, t)"
  shows "snd (serviceIdentity H p n) \<and> (case r of
      None \<Rightarrow> unresolved_of (reader_tables reader) (fst (serviceIdentity H p n)) = []
    | Some x \<Rightarrow> \<exists>row \<in> set (unresolved_of (reader_tables reader) (fst (serviceIdentity H p n))). transaction_of_row row = Some x)"
proof (cases "empty_reader reader")
  case True
  with assms show ?thesis
    by (auto simp: reader_UnresolvedTransaction_def empty_result_def empty_reader_def reader_tables_def empty_db_def unresolved_of_def
        simp del: run_state_bind elim!: run_bindE split: if_split_asm)
next
  case False
  with assms obtain d and u v :: "'z store_world_scheme" where "re_tables reader = Some d" and run: "run_state (unresolvedTransaction H d p n) u = (Inr r, v)"
    by (auto simp: reader_UnresolvedTransaction_def elim: reader_queryE)
  then show ?thesis
    by (auto simp: reader_tables_def unresolvedTransaction_def unresolved_of_def filter_empty_conv simp del: run_state_bind elim!: run_bindE
        dest!: outcomes query_row_Inr query_row_not_NoRows split: sum.split_asm if_split_asm prod.split_asm) blast
qed

lemma reader_applied_outcome:
  fixes s :: "'z store_world_scheme"
  assumes "run_state (reader_AppliedService H reader p n) s = (Inr r, t)"
  shows "snd (serviceIdentity H p n) \<and> (case r of
      None \<Rightarrow> \<forall>row journal. \<not> applied_pair (reader_tables reader) (fst (serviceIdentity H p n)) row journal
    | Some x \<Rightarrow> \<exists>row journal. applied_pair (reader_tables reader) (fst (serviceIdentity H p n)) row journal \<and> applied_of_rows (row, journal) = Some x)"
proof (cases "empty_reader reader")
  case True
  with assms show ?thesis
    by (auto simp: reader_AppliedService_def empty_result_def empty_reader_def reader_tables_def empty_db_def applied_pair_def
        simp del: run_state_bind elim!: run_bindE split: if_split_asm prod.split_asm)
next
  case False
  obtain sid valid where sid: "serviceIdentity H p n = (sid, valid)" by (metis surj_pair)
  with False assms have valid "run_state (reader_query reader (\<lambda>d. appliedService d sid)) s = (Inr r, t)"
    by (auto simp: reader_AppliedService_def split: if_split_asm)
  moreover from this(2) obtain d and u v :: "'z store_world_scheme" where "re_tables reader = Some d" "run_state (appliedService d sid) u = (Inr r, v)"
    by (rule reader_queryE)
  ultimately show ?thesis using sid by (auto simp: reader_tables_def dest!: appliedService_outcome) blast
qed


definition example_files :: reader_files where
  "example_files = \<lparr>rf_directory = EntryFound, rf_captured = True, rf_lock = LockWaited None, rf_database = EntryFound,
     rf_wal = EntryFound, rf_shared = EntryFound, rf_listed = True\<rparr>"


section \<open>A lock is waited for a bounded time\<close>

lemma wait_ends:
  assumes "la_now (world (n + k)) > deadline"
  shows "\<exists>r. waitForFileLock world deadline n = Some r"
  using assms
proof (induction k arbitrary: n)
  case 0
  then show ?case by (subst waitForFileLock.simps) (auto split: flock_result.split)
next
  case (Suc k)
  then have "\<exists>r. waitForFileLock world deadline (n + 1) = Some r" by simp
  then show ?case by (subst waitForFileLock.simps) (auto split: flock_result.split)
qed

lemma clock_advances:
  assumes "\<forall>n. la_now (world (n + 1)) \<ge> la_now (world n) + lockRetry"
  shows "la_now (world n) \<ge> la_now (world 0) + int n * lockRetry"
proof (induction n)
  case (Suc n)
  moreover have "la_now (world (Suc n)) \<ge> la_now (world n) + lockRetry" using assms [rule_format, of n] by simp
  ultimately show ?case by (simp add: algebra_simps)
qed simp

text \<open>
  Waiting for a lock always ends: if each sleep lasts at least the retry interval, the loop returns after at most a
  hundred and two attempts, however long the lock is held, and it reports the lock as taken only if \<open>flock\<close> granted it.
\<close>

theorem lock_wait_terminates:
  assumes started: "la_now (world 0) \<ge> started" and sleeps: "\<forall>n. la_now (world (n + 1)) \<ge> la_now (world n) + lockRetry"
  shows "\<exists>r. waitForLock started world = Some r \<and> (r = None \<longrightarrow> (\<exists>n \<le> 101. la_try (world n) = FlockAcquired))"
proof -
  have "waitForFileLock world deadline n = Some None \<Longrightarrow> la_now (world (n + k)) > deadline \<Longrightarrow>
      \<exists>m \<le> n + k. la_try (world m) = FlockAcquired" for n k deadline
  proof (induction k arbitrary: n)
    case 0
    then show ?case by (subst (asm) waitForFileLock.simps) (auto split: flock_result.split_asm if_split_asm)
  next
    case (Suc k)
    show ?case
    proof (cases "la_try (world n) = FlockAcquired")
      case False
      with Suc.prems(1) have "waitForFileLock world deadline (n + 1) = Some None"
        by (subst (asm) waitForFileLock.simps) (auto split: flock_result.split_asm if_split_asm)
      then show ?thesis using Suc.IH [of "n + 1"] Suc.prems(2) by simp
    qed (auto intro!: exI [of _ n])
  qed
  note taken = this
  have late: "la_now (world (0 + 101)) > started + lockTimeout"
    using clock_advances [OF sleeps, of 101] started by (simp add: lockRetry_def lockTimeout_def)
  obtain r where r: "waitForFileLock world (started + lockTimeout) 0 = Some r" using wait_ends [of _ world 0 101, OF late] by blast
  with taken [of "started + lockTimeout" 0 101] late show ?thesis by (auto simp: waitForLock_def)
qed

text \<open>A lock that another process gives back after five attempts.\<close>

definition example_attempts :: "nat \<Rightarrow> lock_attempt" where
  "example_attempts n = \<lparr>la_cancelled = False, la_try = (if n < 5 then FlockWouldBlock else FlockAcquired),
     la_now = int n * lockRetry, la_done = False\<rparr>"

theorem lock_wait_terminates_witness: "\<exists>r. waitForLock 0 example_attempts = Some r"
  using lock_wait_terminates [of 0 example_attempts] by (auto simp: example_attempts_def algebra_simps)

end
