(* ===== verification/Prepared.thy ===== *)
theory Prepared
  imports Planning
begin

text \<open>The contract of \<open>Prepare\<close>, on which the journeys rely.\<close>

text \<open>What a preparation promises to the journeys.\<close>

definition consistent_preparation :: "hash \<Rightarrow> Preparation \<Rightarrow> bool" where
  "consistent_preparation H p \<longleftrightarrow>
     (let plan = pr_Plan p; w = pr_Workload p in
      pl_Service plan = ServiceName (dw_Spec w) \<and> pl_Runtime plan = re_Kind (pr_Execution p) \<and> pl_Platform plan = re_Platform (pr_Execution p) \<and>
      pl_Source plan = dw_SourceDigest w \<and> pl_Desired plan = dw_EffectiveDigest w \<and> validRuntimeEvidence (pr_Execution p) \<and>
      validWorkloadObservation H (pl_Observation plan) w \<and>
      (if pr_HasTransaction p
       then pl_Kind plan \<in> {PlanResume, PlanProbeUnknownEffect, PlanRestore} \<and> transactionMatches (pr_Transaction p) w (pr_Execution p) \<and>
         transactionMatchesApplied (pr_Transaction p) (pr_Applied p) (pr_HasApplied p) \<and>
         actions_in_order (tx_ID (pr_Transaction p)) (pr_Actions p)
       else pl_Kind plan \<in> {PlanBootstrap, PlanAdopt, PlanUnchanged, PlanUpgrade} \<and> pr_Actions p = [] \<and>
         (pl_Kind plan \<in> {PlanBootstrap, PlanAdopt} \<longleftrightarrow> \<not> pr_HasApplied p)))"

lemma classified_consistent:
  assumes c: "classifyPreparedApply H (prepareApplyEvidence desired ob transaction found applied had\<lparr>pr_Actions := actions\<rparr>) = Inr p"
    and "validWorkloadObservation H ob (da_workload desired)" "validRuntimeEvidence (da_execution desired)" "\<not> found \<Longrightarrow> actions = []"
  shows "consistent_preparation H p"
proof (cases found)
  case True
  with c obtain k where "classifyRecovery transaction actions = Inr k" "transactionMatches transaction (da_workload desired) (da_execution desired)"
      "transactionMatchesApplied transaction applied had"
    and p: "pr_Transaction p = transaction" "pr_Actions p = actions" "pl_Kind (pr_Plan p) = k" "pr_HasTransaction p" "pr_Applied p = applied"
      "pr_HasApplied p = had"
    by (auto simp: classifyPreparedApply_def prepareApplyEvidence_def Let_def split: if_split_asm sum.split_asm)
  moreover from c have "pr_Workload p = da_workload desired" "pr_Execution p = da_execution desired" "pl_Observation (pr_Plan p) = ob"
    "pl_Service (pr_Plan p) = ServiceName (dw_Spec (da_workload desired))" "pl_Runtime (pr_Plan p) = re_Kind (da_execution desired)"
    "pl_Platform (pr_Plan p) = re_Platform (da_execution desired)" "pl_Source (pr_Plan p) = dw_SourceDigest (da_workload desired)"
    "pl_Desired (pr_Plan p) = dw_EffectiveDigest (da_workload desired)"
    by (auto simp: classifyPreparedApply_def prepareApplyEvidence_def Let_def split: if_split_asm sum.split_asm)
  ultimately show ?thesis using assms(2,3) recovery_plans [of transaction actions k] by (auto simp: consistent_preparation_def Let_def)
next
  case False
  with c assms(2-4) show ?thesis
    by (auto simp: consistent_preparation_def classifyPreparedApply_def prepareApplyEvidence_def classifyNewApply_def classifyAppliedWorkload_def
        classifyUnappliedWorkload_def Let_def
        split: if_split_asm sum.split_asm WorkloadObservationState.split_asm OwnershipStatus.split_asm)
qed

lemma consistent_cases:
  "classifyPreparedApply H (prepareApplyEvidence d ob tx False ap had) = Inr p \<Longrightarrow> validWorkloadObservation H ob (da_workload d) \<Longrightarrow>
     validRuntimeEvidence (da_execution d) \<Longrightarrow> consistent_preparation H p"
  "classifyPreparedApply H ((prepareApplyEvidence d ob tx True ap had)\<lparr>pr_Actions := actions\<rparr>) = Inr p \<Longrightarrow> validWorkloadObservation H ob (da_workload d) \<Longrightarrow>
     validRuntimeEvidence (da_execution d) \<Longrightarrow> consistent_preparation H p"
proof -
  have "(prepareApplyEvidence d ob tx False ap had)\<lparr>pr_Actions := []\<rparr> = prepareApplyEvidence d ob tx False ap had"
    by (simp add: prepareApplyEvidence_def)
  then show "classifyPreparedApply H (prepareApplyEvidence d ob tx False ap had) = Inr p \<Longrightarrow> validWorkloadObservation H ob (da_workload d) \<Longrightarrow>
     validRuntimeEvidence (da_execution d) \<Longrightarrow> consistent_preparation H p"
    using classified_consistent [where found = False and actions = "[]" and desired = d and transaction = tx and applied = ap] by (metis (no_types))
qed (erule classified_consistent; simp)

text \<open>
  (C27) Every preparation is well formed: the plan speaks of the prepared workload and of the inspected runtime, the observation was
  validated against this workload, and the plan's kind fits the journal. With an unresolved transaction it is a recovery of a transaction for
  the same desired state whose actions are in order; without one it is a fresh plan, with no actions, that adopts or bootstraps
  exactly when nothing is applied.
\<close>

theorem prepared_is_consistent:
  "case fst (run_state (Prepare po reader service) s) of Inl _ \<Rightarrow> True | Inr p \<Rightarrow> consistent_preparation (po_hash po) p"
proof -
  have desired: "validRuntimeEvidence (da_execution d)" if "run_state (prepareDesired po service) u = (Inr d, v)" for d u v
    using that
    by (auto simp: prepareDesired_def runtimeMatchesProject_def simp del: run_state_bind elim!: run_bindE
        split: sum.split_asm if_split_asm option.split_asm)
  have observed: "consistent_preparation (po_hash po) p"
    if "run_state (prepareObserved po reader d) u = (Inr p, v)" "validRuntimeEvidence (da_execution d)" for d p u v
    using that
    by (auto simp: prepareObserved_def prepareRecovery_def Let_def simp del: run_state_bind elim!: run_bindE
        split: sum.split_asm if_split_asm option.split_asm) (erule consistent_cases; assumption)+
  obtain r t where "run_state (Prepare po reader service) s = (r, t)" by (metis surj_pair)
  then show ?thesis
    by (auto simp: Prepare_def simp del: run_state_bind elim!: run_bindE split: sum.split sum.split_asm if_split_asm)
      (erule observed, erule desired)
qed

end
