(* ===== verification/Facade.thy ===== *)
theory Facade
  imports StoreReader ApplySteps Prepared
begin

text \<open>
  The boundary of the application (\<open>operation.go\<close> and \<open>snapshot.go\<close> of \<open>src/internal/application\<close>): a dry run, an apply and a snapshot
  each select the runtime of the service, open what they need, run, and close what they opened.
\<close>

section \<open>The facade and its world\<close>

text \<open>
  The function fields of \<open>ApplyFacade\<close> are options where the code checks them for nil. Opening a runtime yields its ports; opening a reader
  yields a reader of the store, on whatever tables other processes have left; opening the state yields the current tables.
  \<open>fa_dropped\<close> is \<open>None\<close> for a sink that counts no drops, \<open>Some None\<close> for one whose counter panics. A time is an instant in nanoseconds
  since the Unix epoch. The field \<open>apply\<close> always is \<open>applyService\<close>, as \<open>NewApplyFacade\<close> sets it.
\<close>

type_synonym 'r opener = "'r \<Rightarrow> (go_error + 'r ports option) \<times> 'r"

record 'r facade =
  fa_hash :: hash
  fa_images :: bool
  fa_authenticator :: bool
  fa_Load :: "'r \<Rightarrow> (go_error + ComposeProject) \<times> 'r"
  fa_selectRuntime :: "(RuntimeKind \<Rightarrow> go_error + 'r opener option) option"
  fa_openReader :: "('r \<Rightarrow> (go_error + Reader option) \<times> 'r) option"
  fa_openState :: "('r \<Rightarrow> (go_error + db option) \<times> 'r) option"
  fa_events :: bool
  fa_dropped :: "64 word option option"
  fa_now :: "('r \<Rightarrow> int \<times> 'r) option"

text \<open>The resources a call holds; the world of the facade is the application's with the list of open ones.\<close>

datatype resource = OpenRuntime | OpenJournal | OpenState

record 'r facade_world =
  fw_app :: "'r app_world"
  fw_open :: "resource list"

type_synonym ('r, 'a) fprog = "('r facade_world, 'a) state"

definition in_app :: "('r, 'a) app \<Rightarrow> ('r, 'a) fprog" where
  "in_app m = State (\<lambda>w. case run_state m (fw_app w) of (x, a) \<Rightarrow> (x, w\<lparr>fw_app := a\<rparr>))"

definition ask :: "('r \<Rightarrow> 'a \<times> 'r) \<Rightarrow> ('r, 'a) fprog" where
  "ask f = in_app (State (\<lambda>a. case f (aw_rt a) of (x, r) \<Rightarrow> (x, a\<lparr>aw_rt := r\<rparr>)))"

definition hold :: "resource \<Rightarrow> ('r, unit) fprog" where
  "hold k = State (\<lambda>w. ((), w\<lparr>fw_open := k # fw_open w\<rparr>))"

definition release :: "resource \<Rightarrow> ('r, unit) fprog" where
  "release k = State (\<lambda>w. ((), w\<lparr>fw_open := remove1 k (fw_open w)\<rparr>))"

text \<open>Opening: an error, nothing (a nil value), or a value whose resource is then held.\<close>

definition acquire :: "resource \<Rightarrow> ('r \<Rightarrow> (go_error + 'a option) \<times> 'r) \<Rightarrow> ('r, go_error + 'a option) fprog" where
  "acquire k f = do {
     r \<leftarrow> ask f;
     (case r of Inr (Some _) \<Rightarrow> hold k | _ \<Rightarrow> State_Monad.return ());
     State_Monad.return r }"

text \<open>\<open>CloseIdleConnections\<close>, \<open>Reader.Close\<close> and \<open>Store.Close\<close>.\<close>

definition close_runtime :: "('r, unit) fprog" where
  "close_runtime = release OpenRuntime"

definition close_reader :: "Reader \<Rightarrow> ('r, go_error option) fprog" where
  "close_reader reader = do { release OpenJournal; (err, _) \<leftarrow> in_app (reader_Close reader); State_Monad.return err }"

definition close_state :: "('r, go_error option) fprog" where
  "close_state = do {
     release OpenState;
     database \<leftarrow> in_app file_step;
     anchor \<leftarrow> in_app file_step;
     State_Monad.return (if \<not> database \<or> \<not> anchor then Some ErrUnavailable else None) }"

definition facade_reader :: "hash \<Rightarrow> Reader \<Rightarrow> 'r TransactionReader" where
  "facade_reader H reader = \<lparr>rd_UnresolvedTransaction = reader_UnresolvedTransaction H reader,
     rd_AppliedService = reader_AppliedService H reader, rd_Actions = reader_Actions reader\<rparr>"

interpretation snapshot_reader: transaction_reader "facade_reader H reader"
  by unfold_locales (simp_all add: facade_reader_def reads_performs reads_snapshot_lookups)

section \<open>Dry run and apply (operation.go)\<close>

definition facade_valid :: "'r facade \<Rightarrow> bool" where
  "facade_valid fa \<longleftrightarrow> fa_images fa \<and> fa_authenticator fa \<and> fa_selectRuntime fa \<noteq> None \<and> fa_openReader fa \<noteq> None \<and> fa_openState fa \<noteq> None"

definition runtimeFactory :: "'r facade \<Rightarrow> RuntimeKind \<Rightarrow> go_error + 'r opener" where
  "runtimeFactory fa kind =
     (case fa_selectRuntime fa of
        None \<Rightarrow> Inl ErrInvalidRequest
      | Some select \<Rightarrow> (case select kind of
          Inl err \<Rightarrow> Inl (Wrap ''select compiled runtime'' err)
        | Inr None \<Rightarrow> Inl ErrInvalidRequest
        | Inr (Some f) \<Rightarrow> Inr f))"

definition applyRuntimeKind :: "'r facade \<Rightarrow> string \<Rightarrow> ('r, go_error + RuntimeKind) fprog" where
  "applyRuntimeKind fa service = do {
     loaded \<leftarrow> ask (fa_Load fa);
     State_Monad.return (case loaded of
       Inl err \<Rightarrow> Inl (Wrap ''load Compose runtime metadata'' err)
     | Inr project \<Rightarrow> (case cp_Runtime project service of
         Inl err \<Rightarrow> Inl (Wrap ''select Compose service runtime'' err)
       | Inr kind \<Rightarrow> Inr kind)) }"

definition selected_runtime :: "'r facade \<Rightarrow> string \<Rightarrow> ('r, go_error + 'r opener) fprog" where
  "selected_runtime fa service = do {
     kind \<leftarrow> applyRuntimeKind fa service;
     State_Monad.return (case kind of
       Inl err \<Rightarrow> Inl (Wrap ''select apply runtime'' err)
     | Inr kind \<Rightarrow> runtimeFactory fa kind) }"

definition joined :: "go_error option list \<Rightarrow> go_error" where
  "joined es = Join (List.map_filter id es)"

definition facade_DryRun :: "'r facade \<Rightarrow> string \<Rightarrow> ('r, go_error + Plan) fprog" where
  "facade_DryRun fa service =
     (if \<not> facade_valid fa then State_Monad.return (Inl ErrInvalidRequest)
      else do {
        selected \<leftarrow> selected_runtime fa service;
        case selected of Inl err \<Rightarrow> State_Monad.return (Inl err)
        | Inr openRuntime \<Rightarrow> do {
            reader \<leftarrow> acquire OpenJournal (the (fa_openReader fa));
            case reader of
              Inl err \<Rightarrow> State_Monad.return (Inl (Wrap ''open apply state'' err))
            | Inr None \<Rightarrow> State_Monad.return (Inl ErrInvalidRequest)
            | Inr (Some reader) \<Rightarrow> do {
                runtime \<leftarrow> acquire OpenRuntime openRuntime;
                case runtime of
                  Inl err \<Rightarrow> do {
                    closeErr \<leftarrow> close_reader reader;
                    State_Monad.return (Inl (joined [Some (Wrap ''open apply runtime'' err), closeErr])) }
                | Inr None \<Rightarrow> do {
                    closeErr \<leftarrow> close_reader reader;
                    State_Monad.return (Inl (joined [Some ErrInvalidRequest, closeErr])) }
                | Inr (Some po) \<Rightarrow> do {
                    run \<leftarrow> in_app (DryRun (po\<lparr>po_hash := fa_hash fa, po_events := fa_events fa\<rparr>) (facade_reader (fa_hash fa) reader) service);
                    close_runtime;
                    closeErr \<leftarrow> close_reader reader;
                    State_Monad.return (case (run, closeErr) of
                      (Inr plan, None) \<Rightarrow> Inr plan
                    | (Inl runErr, _) \<Rightarrow> Inl (joined [Some runErr, closeErr])
                    | (_, Some _) \<Rightarrow> Inl (joined [closeErr])) } } } })"

definition set_tables :: "db \<Rightarrow> ('r, unit) fprog" where
  "set_tables d = in_app (set_db d)"

definition facade_Apply :: "'r facade \<Rightarrow> string \<Rightarrow> ('r, go_error + Plan) fprog" where
  "facade_Apply fa service =
     (if \<not> facade_valid fa then State_Monad.return (Inl ErrInvalidRequest)
      else do {
        selected \<leftarrow> selected_runtime fa service;
        case selected of Inl err \<Rightarrow> State_Monad.return (Inl err)
        | Inr openRuntime \<Rightarrow> do {
            runtime \<leftarrow> acquire OpenRuntime openRuntime;
            case runtime of
              Inl err \<Rightarrow> State_Monad.return (Inl (Wrap ''open apply runtime'' err))
            | Inr None \<Rightarrow> State_Monad.return (Inl ErrInvalidRequest)
            | Inr (Some po) \<Rightarrow> do {
                state \<leftarrow> acquire OpenState (the (fa_openState fa));
                case state of
                  Inl err \<Rightarrow> do { close_runtime; State_Monad.return (Inl (Wrap ''open apply state'' err)) }
                | Inr None \<Rightarrow> do { close_runtime; State_Monad.return (Inl ErrInvalidRequest) }
                | Inr (Some d) \<Rightarrow> do {
                    set_tables d;
                    (plan, runErr) \<leftarrow> in_app (Apply (po\<lparr>po_hash := fa_hash fa, po_events := fa_events fa\<rparr>) service);
                    close_runtime;
                    closeErr \<leftarrow> close_state;
                    State_Monad.return (if runErr \<noteq> None \<or> closeErr \<noteq> None then Inl (joined [runErr, closeErr]) else Inr plan) } } } })"

section \<open>Resources\<close>

lemma open_in_app: "run_state (in_app m) w = (x, v) \<Longrightarrow> fw_open v = fw_open w"
  by (auto simp: in_app_def split: prod.split_asm)

lemma open_steps:
  "run_state (ask f) w = (x, v) \<Longrightarrow> fw_open v = fw_open w"
  "run_state (hold k) w = (u, v) \<Longrightarrow> fw_open v = k # fw_open w"
  "run_state (release k) w = (u, v) \<Longrightarrow> fw_open v = remove1 k (fw_open w)"
  "run_state (set_tables d) w = (u, v) \<Longrightarrow> fw_open v = fw_open w"
  by (auto simp: ask_def hold_def release_def set_tables_def dest: open_in_app)

lemma open_acquire:
  "run_state (acquire k f) w = (r, v) \<Longrightarrow> fw_open v = (case r of Inr (Some _) \<Rightarrow> k # fw_open w | _ \<Rightarrow> fw_open w)"
  by (auto simp: acquire_def simp del: run_state_bind elim!: run_bindE dest!: open_steps split: sum.split_asm sum.split option.split_asm option.split)

lemma open_closes:
  "run_state close_runtime w = (u, v) \<Longrightarrow> fw_open v = remove1 OpenRuntime (fw_open w)"
  "run_state (close_reader reader) w = (e, v) \<Longrightarrow> fw_open v = remove1 OpenJournal (fw_open w)"
  "run_state close_state w = (e, v) \<Longrightarrow> fw_open v = remove1 OpenState (fw_open w)"
  by (auto simp: close_runtime_def close_reader_def close_state_def simp del: run_state_bind elim!: run_bindE dest!: open_steps open_in_app
      split: prod.split_asm)

lemma open_selected: "run_state (selected_runtime fa service) w = (r, v) \<Longrightarrow> fw_open v = fw_open w"
  by (auto simp: selected_runtime_def applyRuntimeKind_def simp del: run_state_bind elim!: run_bindE dest!: open_steps)

lemmas open_rules = open_in_app open_steps open_acquire open_closes open_selected

lemma dry_run_releases: "run_state (facade_DryRun fa service) w = (r, v) \<Longrightarrow> fw_open v = fw_open w"
  by (auto simp: facade_DryRun_def simp del: run_state_bind elim!: run_bindE dest!: open_rules
      split: sum.split_asm option.split_asm if_split_asm prod.split_asm)

lemma apply_releases: "run_state (facade_Apply fa service) w = (r, v) \<Longrightarrow> fw_open v = fw_open w"
  by (auto simp: facade_Apply_def simp del: run_state_bind elim!: run_bindE dest!: open_rules
      split: sum.split_asm option.split_asm if_split_asm prod.split_asm)

section \<open>What a call of the facade does to the application's world\<close>

text \<open>
  \<open>only_observes\<close>: the tables stay as they are and the external calls change nothing. A program of the application that only
  observes does so under the facade.
\<close>

definition only_observes :: "'r app_world \<Rightarrow> 'r app_world \<Rightarrow> bool" where
  "only_observes a b \<longleftrightarrow> sw_db b = sw_db a \<and> extends (\<lambda>c _. \<not> mutating c) (aw_trace a) (aw_trace b)"

lemma only_observes_orders: "reflp only_observes" "transp only_observes"
  by (auto simp: only_observes_def intro!: reflpI transpI elim: extends_trans)

lemma observing_in_app: "performs (\<lambda>c. \<not> mutating c) m \<Longrightarrow> moves fw_app only_observes (in_app m)"
  by (rule movesI) (auto simp: in_app_def only_observes_def dest!: performsD elim: extends_mono split: prod.split_asm)

lemma observing_facade_steps:
  "moves fw_app only_observes (ask f)" "moves fw_app only_observes (hold k)" "moves fw_app only_observes (release k)"
  by (rule movesI, auto simp: ask_def hold_def release_def in_app_def only_observes_def split: prod.split_asm)+

lemmas observing_structure = moves_bind moves_return moves_if moves_case_option moves_case_sum moves_case_prod moves_Let only_observes_orders
  observing_facade_steps observing_in_app

lemma observing_facade [moves_rules]:
  "moves fw_app only_observes (acquire k f)" "moves fw_app only_observes close_runtime"
  "moves fw_app only_observes (close_reader reader)" "moves fw_app only_observes (selected_runtime fa service)"
  unfolding acquire_def close_runtime_def close_reader_def selected_runtime_def applyRuntimeKind_def
  by (intro observing_structure reads_performs reads_snapshot_lookups)+

lemma dry_run_observes: "moves fw_app only_observes (facade_DryRun fa service)"
  unfolding facade_DryRun_def by (intro observing_structure observing_facade snapshot_reader.observing_dry_run)

end
