(* ===== verification/Snapshot.thy ===== *)
theory Snapshot
  imports Facade
begin

text \<open>
  The snapshot of one service for read-only consumers (\<open>snapshot.go\<close> of \<open>src/internal/application\<close>): the journal is read before and after the
  runtime is observed, and a capture counts only if the two readings agree.
\<close>

section \<open>The projection\<close>

text \<open>Go string types as strings, and back: the conversions between a string type and \<open>string\<close>.\<close>

definition transaction_kind_string :: "TransactionKind \<Rightarrow> string" where
  "transaction_kind_string k = (case k of TransactionBootstrap \<Rightarrow> ''bootstrap'' | TransactionAdopt \<Rightarrow> ''adopt''
     | TransactionUpgrade \<Rightarrow> ''upgrade'' | TransactionKindOther s \<Rightarrow> s)"

definition transaction_state_string :: "TransactionState \<Rightarrow> string" where
  "transaction_state_string k = (case k of TransactionActive \<Rightarrow> ''active'' | TransactionDegraded \<Rightarrow> ''degraded''
     | TransactionFailed \<Rightarrow> ''failed'' | TransactionSucceeded \<Rightarrow> ''succeeded'' | TransactionStateOther s \<Rightarrow> s)"

definition action_state_string :: "ActionState \<Rightarrow> string" where
  "action_state_string k = (case k of ActionStateIntent \<Rightarrow> ''intent'' | ActionStateEffectOutcomeUnknown \<Rightarrow> ''effect_outcome_unknown''
     | ActionStateCompleted \<Rightarrow> ''completed'' | ActionStateOther s \<Rightarrow> s)"

record SnapshotTransaction =
  st_ID :: string
  st_Kind :: string
  st_State :: string
  st_Runtime :: RuntimeKind
  st_Source :: string
  st_Desired :: string
  st_Execution :: string
  st_BaseTransaction :: string

record SnapshotAppliedService =
  ss_Transaction :: string
  ss_Runtime :: RuntimeKind
  ss_Source :: string
  ss_Desired :: string
  ss_Execution :: string
  ss_Configuration :: string
  ss_Storage :: string
  ss_Reference :: string
  ss_Manifest :: string
  ss_ImageConfig :: string

record SnapshotAction =
  sa_Sequence :: int
  sa_Kind :: string
  sa_State :: string
  sa_Intent :: string
  sa_Postcondition :: string

record OperationSnapshot =
  os_CapturedAt :: int
  os_Plan :: Plan
  os_Runtime :: RuntimeEvidence
  os_Transaction :: SnapshotTransaction
  os_HasTransaction :: bool
  os_Applied :: SnapshotAppliedService
  os_HasApplied :: bool
  os_Actions :: "SnapshotAction list"
  os_DroppedEvents :: "64 word"

definition zero_SnapshotTransaction :: SnapshotTransaction where
  "zero_SnapshotTransaction = \<lparr>st_ID = '''', st_Kind = '''', st_State = '''', st_Runtime = RuntimeOther '''', st_Source = '''',
     st_Desired = '''', st_Execution = '''', st_BaseTransaction = ''''\<rparr>"

definition zero_SnapshotAppliedService :: SnapshotAppliedService where
  "zero_SnapshotAppliedService = \<lparr>ss_Transaction = '''', ss_Runtime = RuntimeOther '''', ss_Source = '''', ss_Desired = '''',
     ss_Execution = '''', ss_Configuration = '''', ss_Storage = '''', ss_Reference = '''', ss_Manifest = '''', ss_ImageConfig = ''''\<rparr>"

definition snapshotTransaction :: "Transaction \<Rightarrow> SnapshotTransaction" where
  "snapshotTransaction t = \<lparr>st_ID = id_String (tx_ID t), st_Kind = transaction_kind_string (tx_Kind t),
     st_State = transaction_state_string (tx_State t), st_Runtime = tx_Runtime t, st_Source = digest_String (tx_SourceDigest t),
     st_Desired = digest_String (tx_EffectiveDigest t), st_Execution = digest_String (tx_ExecutionDigest t),
     st_BaseTransaction = (if tx_HasBaseTransaction t then id_String (tx_BaseTransactionID t) else '''')\<rparr>"

definition snapshotAppliedService :: "AppliedService \<Rightarrow> SnapshotAppliedService" where
  "snapshotAppliedService a = \<lparr>ss_Transaction = id_String (as_TransactionID a), ss_Runtime = as_Runtime a,
     ss_Source = digest_String (as_SourceDigest a), ss_Desired = digest_String (as_EffectiveDigest a),
     ss_Execution = digest_String (as_ExecutionDigest a), ss_Configuration = digest_String (as_ConfigurationDigest a),
     ss_Storage = digest_String (as_StorageDigest a), ss_Reference = digest_String (as_ReferenceDigest a),
     ss_Manifest = digest_String (as_PlatformManifestDigest a), ss_ImageConfig = digest_String (as_ImageConfigDigest a)\<rparr>"

definition snapshotAction :: "Action \<Rightarrow> SnapshotAction" where
  "snapshotAction a = \<lparr>sa_Sequence = ac_Sequence a, sa_Kind = ac_Kind a, sa_State = action_state_string (ac_State a),
     sa_Intent = digest_String (ac_IntentDigest a),
     sa_Postcondition = (case ac_PostconditionDigest a of None \<Rightarrow> '''' | Some d \<Rightarrow> digest_String d)\<rparr>"

definition snapshotActions :: "Action list \<Rightarrow> SnapshotAction list" where
  "snapshotActions actions = map snapshotAction actions"

definition droppedEvents :: "64 word option option \<Rightarrow> 64 word" where
  "droppedEvents sink = (case sink of Some (Some n) \<Rightarrow> n | _ \<Rightarrow> 0)"

definition operationSnapshot :: "'r facade \<Rightarrow> Preparation \<Rightarrow> ('r, OperationSnapshot) fprog" where
  "operationSnapshot fa preparation = do {
     now \<leftarrow> ask (the (fa_now fa));
     State_Monad.return \<lparr>os_CapturedAt = now, os_Plan = pr_Plan preparation, os_Runtime = pr_Execution preparation,
       os_Transaction = (if pr_HasTransaction preparation then snapshotTransaction (pr_Transaction preparation) else zero_SnapshotTransaction),
       os_HasTransaction = pr_HasTransaction preparation,
       os_Applied = (if pr_HasApplied preparation then snapshotAppliedService (pr_Applied preparation) else zero_SnapshotAppliedService),
       os_HasApplied = pr_HasApplied preparation, os_Actions = snapshotActions (pr_Actions preparation),
       os_DroppedEvents = droppedEvents (fa_dropped fa)\<rparr> }"

section \<open>Reading the journal\<close>

record snapshotJournal =
  sj_transaction :: Transaction
  sj_hasTransaction :: bool
  sj_applied :: AppliedService
  sj_hasApplied :: bool
  sj_actions :: "Action list"

definition read_journal :: "'r TransactionReader \<Rightarrow> string \<Rightarrow> string \<Rightarrow> ('r, go_error + snapshotJournal) app" where
  "read_journal reader project service = do {
     u \<leftarrow> rd_UnresolvedTransaction reader project service;
     case u of Inl err \<Rightarrow> State_Monad.return (Inl (Wrap ''read snapshot transaction'' err))
     | Inr found \<Rightarrow> do {
         a \<leftarrow> rd_AppliedService reader project service;
         case a of Inl err \<Rightarrow> State_Monad.return (Inl (Wrap ''read snapshot applied service'' err))
         | Inr applied \<Rightarrow> do {
             let journal = \<lparr>sj_transaction = (case found of None \<Rightarrow> zero_Transaction | Some t \<Rightarrow> t), sj_hasTransaction = (found \<noteq> None),
               sj_applied = (case applied of None \<Rightarrow> zero_AppliedService | Some s \<Rightarrow> s), sj_hasApplied = (applied \<noteq> None), sj_actions = []\<rparr>;
             case found of
               None \<Rightarrow> State_Monad.return (Inr journal)
             | Some t \<Rightarrow> do {
                 r \<leftarrow> rd_Actions reader (tx_ID t);
                 State_Monad.return (case r of
                   Inl err \<Rightarrow> Inl (Wrap ''read snapshot actions'' err)
                 | Inr actions \<Rightarrow> Inr (journal\<lparr>sj_actions := actions\<rparr>)) } } } }"

definition readSnapshotJournal :: "'r facade \<Rightarrow> string \<Rightarrow> string \<Rightarrow> ('r, go_error + snapshotJournal) fprog" where
  "readSnapshotJournal fa project service = do {
     opened \<leftarrow> acquire OpenJournal (the (fa_openReader fa));
     case opened of
       Inl err \<Rightarrow> State_Monad.return (Inl (Wrap ''open snapshot state'' err))
     | Inr None \<Rightarrow> State_Monad.return (Inl ErrInvalidRequest)
     | Inr (Some reader) \<Rightarrow> do {
         r \<leftarrow> in_app (read_journal (facade_reader (fa_hash fa) reader) project service);
         closeErr \<leftarrow> close_reader reader;
         State_Monad.return (case (r, closeErr) of
           (Inr journal, None) \<Rightarrow> Inr journal
         | (Inl readErr, _) \<Rightarrow> Inl (joined [Some readErr, closeErr])
         | (_, Some _) \<Rightarrow> Inl (joined [closeErr])) } }"

definition sameSnapshotActions :: "Action list \<Rightarrow> Action list \<Rightarrow> bool" where
  "sameSnapshotActions left right \<longleftrightarrow> length left = length right \<and>
     list_all (\<lambda>n. snapshotAction (left ! n) = snapshotAction (right ! n)) [0 ..< length left]"

definition sameSnapshotJournal :: "snapshotJournal \<Rightarrow> snapshotJournal \<Rightarrow> bool" where
  "sameSnapshotJournal left right \<longleftrightarrow> sj_transaction left = sj_transaction right \<and> sj_hasTransaction left = sj_hasTransaction right \<and>
     sj_applied left = sj_applied right \<and> sj_hasApplied left = sj_hasApplied right \<and>
     sameSnapshotActions (sj_actions left) (sj_actions right)"

section \<open>Capturing\<close>

text \<open>The capture between the opening and the deferred closing of the runtime.\<close>

definition capture_observed ::
  "'r facade \<Rightarrow> 'r ports \<Rightarrow> string \<Rightarrow> string \<Rightarrow> snapshotJournal \<Rightarrow> ('r, go_error + OperationSnapshot option) fprog" where
  "capture_observed fa po project service before = do {
     prepared \<leftarrow> in_app (prepareDesired po service);
     case prepared of Inl err \<Rightarrow> State_Monad.return (Inl err)
     | Inr desired \<Rightarrow> do {
         observed \<leftarrow> in_app (external (CallObserve (da_workload desired)) (po_ObserveWorkload po (da_workload desired)));
         case observed of Inl err \<Rightarrow> State_Monad.return (Inl (Wrap ''capture snapshot observation'' err))
         | Inr observation \<Rightarrow>
             if \<not> validWorkloadObservation (po_hash po) observation (da_workload desired) then State_Monad.return (Inl ErrConflictingState)
             else do {
               again \<leftarrow> readSnapshotJournal fa project service;
               case again of Inl err \<Rightarrow> State_Monad.return (Inl err)
               | Inr after \<Rightarrow>
                   if \<not> sameSnapshotJournal before after then State_Monad.return (Inr None)
                   else (case classifyPreparedApply (po_hash po) ((prepareApplyEvidence desired observation (sj_transaction before)
                       (sj_hasTransaction before) (sj_applied before) (sj_hasApplied before))\<lparr>pr_Actions := sj_actions before\<rparr>) of
                     Inl err \<Rightarrow> State_Monad.return (Inl err)
                   | Inr preparation \<Rightarrow> do {
                       snapshot \<leftarrow> operationSnapshot fa preparation;
                       State_Monad.return (Inr (Some snapshot)) }) } } }"

definition captureSnapshot :: "'r facade \<Rightarrow> string \<Rightarrow> string \<Rightarrow> 'r opener \<Rightarrow> ('r, go_error + OperationSnapshot option) fprog" where
  "captureSnapshot fa service project openRuntime = do {
     read \<leftarrow> readSnapshotJournal fa project service;
     case read of Inl err \<Rightarrow> State_Monad.return (Inl err)
     | Inr before \<Rightarrow> do {
         runtime \<leftarrow> acquire OpenRuntime openRuntime;
         case runtime of
           Inl err \<Rightarrow> State_Monad.return (Inl (Wrap ''open snapshot runtime'' err))
         | Inr None \<Rightarrow> State_Monad.return (Inl ErrInvalidRequest)
         | Inr (Some po) \<Rightarrow> do {
             captured \<leftarrow> capture_observed fa (po\<lparr>po_hash := fa_hash fa\<rparr>) project service before;
             close_runtime;
             State_Monad.return captured } } }"

definition validSnapshot :: "'r facade \<Rightarrow> bool" where
  "validSnapshot fa \<longleftrightarrow> fa_images fa \<and> fa_selectRuntime fa \<noteq> None \<and> fa_openReader fa \<noteq> None \<and> fa_now fa \<noteq> None"

fun snapshot_attempts :: "nat \<Rightarrow> 'r facade \<Rightarrow> string \<Rightarrow> string \<Rightarrow> 'r opener \<Rightarrow> ('r, go_error + OperationSnapshot) fprog" where
  "snapshot_attempts 0 fa service project openRuntime = State_Monad.return (Inl ErrSnapshotStale)"
| "snapshot_attempts (Suc n) fa service project openRuntime = do {
     captured \<leftarrow> captureSnapshot fa service project openRuntime;
     case captured of
       Inl err \<Rightarrow> State_Monad.return (Inl err)
     | Inr (Some snapshot) \<Rightarrow> State_Monad.return (Inr snapshot)
     | Inr None \<Rightarrow> snapshot_attempts n fa service project openRuntime }"

definition Snapshot :: "'r facade \<Rightarrow> string \<Rightarrow> ('r, go_error + OperationSnapshot) fprog" where
  "Snapshot fa service =
     (if \<not> validSnapshot fa then State_Monad.return (Inl ErrInvalidRequest)
      else do {
        loaded \<leftarrow> ask (fa_Load fa);
        case loaded of Inl err \<Rightarrow> State_Monad.return (Inl (Wrap ''load snapshot source'' err))
        | Inr project \<Rightarrow> (case cp_Runtime project service of
            Inl err \<Rightarrow> State_Monad.return (Inl (Wrap ''select snapshot service'' err))
          | Inr kind \<Rightarrow> (case runtimeFactory fa kind of
              Inl err \<Rightarrow> State_Monad.return (Inl err)
            | Inr openRuntime \<Rightarrow> snapshot_attempts 2 fa service (cp_Name project) openRuntime)) })"

section \<open>A snapshot only reads and closes what it opened\<close>

lemma open_journal: "run_state (readSnapshotJournal fa project service) w = (r, v) \<Longrightarrow> fw_open v = fw_open w"
  by (auto simp: readSnapshotJournal_def simp del: run_state_bind elim!: run_bindE dest!: open_rules
      split: sum.split_asm option.split_asm prod.split_asm)

lemma open_capture: "run_state (capture_observed fa po project service before) w = (r, v) \<Longrightarrow> fw_open v = fw_open w"
  by (auto simp: capture_observed_def operationSnapshot_def simp del: run_state_bind elim!: run_bindE dest!: open_rules open_journal
      split: sum.split_asm option.split_asm if_split_asm)

lemma open_attempt: "run_state (captureSnapshot fa service project openRuntime) w = (r, v) \<Longrightarrow> fw_open v = fw_open w"
  by (auto simp: captureSnapshot_def simp del: run_state_bind elim!: run_bindE dest!: open_rules open_journal open_capture
      split: sum.split_asm option.split_asm if_split_asm)

lemma open_attempts: "run_state (snapshot_attempts n fa service project openRuntime) w = (r, v) \<Longrightarrow> fw_open v = fw_open w"
  by (induction n arbitrary: w)
    (auto simp del: run_state_bind elim!: run_bindE dest!: open_attempt split: sum.split_asm option.split_asm)

lemma snapshot_releases: "run_state (Snapshot fa service) w = (r, v) \<Longrightarrow> fw_open v = fw_open w"
  by (auto simp: Snapshot_def simp del: run_state_bind elim!: run_bindE dest!: open_rules open_attempts
      split: sum.split_asm option.split_asm if_split_asm)

lemma observing_read: "performs (\<lambda>c. \<not> mutating c) (read_journal (facade_reader H reader) project service)"
  unfolding read_journal_def by (intro observe_rules snapshot_reader.reader_rules) simp_all

lemma observing_journal: "moves fw_app only_observes (readSnapshotJournal fa project service)"
  unfolding readSnapshotJournal_def by (intro observing_structure observing_facade observing_read)

lemma observing_capture: "moves fw_app only_observes (captureSnapshot fa service project openRuntime)"
  unfolding captureSnapshot_def capture_observed_def operationSnapshot_def
  by (intro observing_structure observing_facade observing_journal observing_desired performs_external) (simp_all add: mutating_def)

lemma observing_attempts: "moves fw_app only_observes (snapshot_attempts n fa service project openRuntime)"
  by (induction n) (auto intro!: observing_structure observing_capture)

lemma snapshot_observes: "moves fw_app only_observes (Snapshot fa service)"
  unfolding Snapshot_def by (intro observing_structure observing_attempts)

text \<open>
  The reading calls of the facade change nothing: neither a dry run nor a snapshot changes the tables or makes a call that changes an
  image, a workload or a backup, whatever the source, the journal and the runtime report.
\<close>

theorem facade_reads_only_observe:
  "only_observes (fw_app w) (fw_app (snd (run_state (facade_DryRun fa service) w))) \<and>
   only_observes (fw_app w) (fw_app (snd (run_state (Snapshot fa service) w)))"
  using dry_run_observes [of fa service] snapshot_observes [of fa service] by (simp add: moves_def)

text \<open>
  (C31) The facade gives back what it takes: whichever way a dry run, an apply or a snapshot ends, every runtime, journal and state it
  opened has been closed.
\<close>

theorem facade_releases_resources:
  "fw_open (snd (run_state (facade_DryRun fa service) w)) = fw_open w \<and>
   fw_open (snd (run_state (facade_Apply fa service) w)) = fw_open w \<and>
   fw_open (snd (run_state (Snapshot fa service) w)) = fw_open w"
  using dry_run_releases apply_releases snapshot_releases by (metis prod.collapse)

section \<open>A snapshot is stable\<close>

definition describes :: "OperationSnapshot \<Rightarrow> snapshotJournal \<Rightarrow> bool" where
  "describes snap j \<longleftrightarrow> os_HasTransaction snap = sj_hasTransaction j \<and> os_HasApplied snap = sj_hasApplied j \<and>
     os_Transaction snap = (if sj_hasTransaction j then snapshotTransaction (sj_transaction j) else zero_SnapshotTransaction) \<and>
     os_Applied snap = (if sj_hasApplied j then snapshotAppliedService (sj_applied j) else zero_SnapshotAppliedService) \<and>
     os_Actions snap = snapshotActions (sj_actions j)"

lemma same_actions_iff: "sameSnapshotActions left right \<longleftrightarrow> snapshotActions left = snapshotActions right"
  using list_eq_iff_nth_eq [of "map snapshotAction left" "map snapshotAction right"]
  by (auto simp: sameSnapshotActions_def snapshotActions_def list_all_iff)

lemma same_journal_describes: "sameSnapshotJournal a b \<Longrightarrow> describes snap a \<longleftrightarrow> describes snap b"
  by (auto simp: sameSnapshotJournal_def describes_def same_actions_iff)

text \<open>The plan of a snapshot is the one that an apply would prepare from this journal and this observation.\<close>

definition plan_of :: "hash \<Rightarrow> snapshotJournal \<Rightarrow> desiredApply \<Rightarrow> WorkloadObservation \<Rightarrow> Plan \<Rightarrow> bool" where
  "plan_of H j desired observation plan \<longleftrightarrow>
     (\<exists>p. classifyPreparedApply H ((prepareApplyEvidence desired observation (sj_transaction j) (sj_hasTransaction j) (sj_applied j)
        (sj_hasApplied j))\<lparr>pr_Actions := sj_actions j\<rparr>) = Inr p \<and> pr_Plan p = plan)"

lemma classified_keeps:
  "classifyPreparedApply H q = Inr p \<Longrightarrow> pr_Transaction p = pr_Transaction q \<and> pr_HasTransaction p = pr_HasTransaction q \<and>
     pr_Applied p = pr_Applied q \<and> pr_HasApplied p = pr_HasApplied q \<and> pr_Actions p = pr_Actions q"
  by (auto simp: classifyPreparedApply_def Let_def split: sum.split_asm if_split_asm)

lemma observed_trace:
  "run_state (in_app (external c f)) w = (x, v) \<Longrightarrow> aw_trace (fw_app v) = aw_trace (fw_app w) @ [(c, sw_db (fw_app w))] \<and>
     (\<exists>r. x = fst (f r))"
  by (auto simp: in_app_def external_def split: prod.split_asm intro: exI [of _ "aw_rt (fw_app w)"])

lemma capture_outcome:
  assumes "run_state (capture_observed fa po project service before) w = (Inr (Some snap), v)"
  shows "\<exists>after desired observation r u u' new. fst (po_ObserveWorkload po (da_workload desired) r) = Inr observation \<and>
    validWorkloadObservation (po_hash po) observation (da_workload desired) \<and>
    aw_trace (fw_app u) = aw_trace (fw_app w) @ new \<and> CallObserve (da_workload desired) \<in> fst ` set new \<and>
    run_state (readSnapshotJournal fa project service) u = (Inr after, u') \<and> sameSnapshotJournal before after \<and>
    describes snap before \<and> plan_of (po_hash po) before desired observation (os_Plan snap)"
proof -
  from assms obtain desired u1 observation u2 after u3 p u4 where
      d: "run_state (in_app (prepareDesired po service)) w = (Inr desired, u1)"
    and o: "run_state (in_app (external (CallObserve (da_workload desired)) (po_ObserveWorkload po (da_workload desired)))) u1 =
        (Inr observation, u2)"
    and "validWorkloadObservation (po_hash po) observation (da_workload desired)"
    and "run_state (readSnapshotJournal fa project service) u2 = (Inr after, u3)" "sameSnapshotJournal before after"
    and p: "classifyPreparedApply (po_hash po) ((prepareApplyEvidence desired observation (sj_transaction before)
        (sj_hasTransaction before) (sj_applied before) (sj_hasApplied before))\<lparr>pr_Actions := sj_actions before\<rparr>) = Inr p"
    and s: "run_state (operationSnapshot fa p) u3 = (snap, u4)"
    by (auto simp: capture_observed_def simp del: run_state_bind elim!: run_bindE split: sum.split_asm if_split_asm)
  moreover have "describes snap before \<and> plan_of (po_hash po) before desired observation (os_Plan snap)"
    using s classified_keeps [OF p] p
    by (auto simp: operationSnapshot_def describes_def plan_of_def prepareApplyEvidence_def simp del: run_state_bind elim!: run_bindE)
  moreover obtain t where "aw_trace (fw_app u1) = aw_trace (fw_app w) @ t"
    using movesD [OF observing_in_app [OF observing_desired] d] by (auto simp: only_observes_def extends_def)
  moreover obtain r where "fst (po_ObserveWorkload po (da_workload desired) r) = Inr observation"
    using observed_trace [OF o] by metis
  ultimately show ?thesis using observed_trace [OF o]
    by (intro exI [of _ after] exI [of _ desired] exI [of _ observation] exI [of _ r] exI [of _ u2] exI [of _ u3]
        exI [of _ "t @ [(CallObserve (da_workload desired), sw_db (fw_app u1))]"]) simp
qed

lemma attempt_outcome:
  assumes "run_state (captureSnapshot fa service project openRuntime) w = (Inr (Some snap), v)"
  shows "\<exists>before w' w'' po v' q. fst (openRuntime q) = Inr (Some po) \<and> run_state (readSnapshotJournal fa project service) w = (Inr before, w') \<and>
    aw_trace (fw_app w'') = aw_trace (fw_app w') \<and>
    run_state (capture_observed fa (po\<lparr>po_hash := fa_hash fa\<rparr>) project service before) w'' = (Inr (Some snap), v')"
proof -
  have acquired: "aw_trace (fw_app b) = aw_trace (fw_app a) \<and> (\<exists>q. fst (f q) = x)" if "run_state (acquire k f) a = (x, b)" for k f a x b
    using that by (auto intro: exI [of _ "aw_rt (fw_app a)"] simp: acquire_def ask_def hold_def in_app_def simp del: run_state_bind elim!: run_bindE
        split: prod.split_asm sum.split_asm option.split_asm)
  from assms show ?thesis
    by (auto simp: captureSnapshot_def simp del: run_state_bind elim!: run_bindE dest!: acquired split: sum.split_asm option.split_asm) blast
qed

lemma attempts_outcome:
  "run_state (snapshot_attempts n fa service project openRuntime) w = (Inr snap, v) \<Longrightarrow>
   \<exists>u u'. run_state (captureSnapshot fa service project openRuntime) u = (Inr (Some snap), u')"
  by (induction n arbitrary: w)
    (auto simp del: run_state_bind elim!: run_bindE split: sum.split_asm option.split_asm, blast)


end
