(* ===== verification/Evidence.thy ===== *)
theory Evidence
  imports Snapshot Json
begin

text \<open>
  The evidence bundle (\<open>evidence.go\<close> of \<open>src/internal/application\<close>): a bounded, redacted projection of one snapshot.
\<close>

section \<open>The bundle\<close>

datatype EvidenceKind = EvidencePlanDesired | EvidenceRuntimeExecution | EvidenceWorkloadObservation | EvidenceTransaction
  | EvidenceAppliedService | EvidenceActionIntent | EvidenceActionPostcondition

record EvidenceItem =
  ei_ID :: string
  ei_Kind :: EvidenceKind
  ei_State :: string
  ei_Identity :: string

record EvidenceBundle =
  eb_Version :: int
  eb_CapturedAt :: int
  eb_Project :: string
  eb_Service :: string
  eb_DroppedEvents :: "64 word"
  eb_Items :: "EvidenceItem list"
  eb_Truncated :: bool

definition maximumEvidenceItems :: nat where
  "maximumEvidenceItems = 64"

definition maximumEvidenceNameBytes :: nat where
  "maximumEvidenceNameBytes = 256"

definition appendEvidence :: "EvidenceBundle \<Rightarrow> EvidenceItem \<Rightarrow> EvidenceBundle" where
  "appendEvidence bundle item =
     (if length (eb_Items bundle) = maximumEvidenceItems then bundle\<lparr>eb_Truncated := True\<rparr>
      else bundle\<lparr>eb_Items := eb_Items bundle @ [item]\<rparr>)"

definition workloadEvidence :: "WorkloadObservation \<Rightarrow> EvidenceItem" where
  "workloadEvidence observation =
     (let item = \<lparr>ei_ID = ''workload.observation'', ei_Kind = EvidenceWorkloadObservation, ei_State = '''', ei_Identity = ''''\<rparr> in
      if ob_State observation = WorkloadObservationMissing then item\<lparr>ei_State := ''missing''\<rparr>
      else item\<lparr>ei_State := ''present'', ei_Identity := digest_String (ob_ConfigurationDigest observation)\<rparr>)"

definition transactionEvidence :: "OperationSnapshot \<Rightarrow> EvidenceItem" where
  "transactionEvidence snapshot =
     (let item = \<lparr>ei_ID = ''journal.transaction'', ei_Kind = EvidenceTransaction, ei_State = ''unavailable'', ei_Identity = ''''\<rparr> in
      if os_HasTransaction snapshot
      then item\<lparr>ei_State := st_State (os_Transaction snapshot), ei_Identity := st_ID (os_Transaction snapshot)\<rparr> else item)"

definition appliedServiceEvidence :: "OperationSnapshot \<Rightarrow> EvidenceItem" where
  "appliedServiceEvidence snapshot =
     (let item = \<lparr>ei_ID = ''journal.applied'', ei_Kind = EvidenceAppliedService, ei_State = ''unavailable'', ei_Identity = ''''\<rparr> in
      if os_HasApplied snapshot then item\<lparr>ei_State := ''present'', ei_Identity := ss_Transaction (os_Applied snapshot)\<rparr> else item)"

section \<open>Validity\<close>

text \<open>\<open>PlanKind\<close> and \<open>RuntimeKind\<close> as strings; the zero \<open>time.Time\<close> is the first instant of the year one.\<close>

definition plan_kind_string :: "PlanKind \<Rightarrow> string" where
  "plan_kind_string k = (case k of PlanBootstrap \<Rightarrow> ''bootstrap'' | PlanAdopt \<Rightarrow> ''adopt'' | PlanUnchanged \<Rightarrow> ''unchanged''
     | PlanUpgrade \<Rightarrow> ''upgrade'' | PlanResume \<Rightarrow> ''resume'' | PlanProbeUnknownEffect \<Rightarrow> ''probe-unknown-effect''
     | PlanRestore \<Rightarrow> ''restore'' | PlanKindOther s \<Rightarrow> s)"

definition time_IsZero :: "int \<Rightarrow> bool" where
  "time_IsZero t \<longleftrightarrow> t = - 62135596800 * 1000000000"

definition time_Unix :: "int \<Rightarrow> int" where
  "time_Unix t = t div 1000000000"

definition validEvidenceName :: "string \<Rightarrow> bool" where
  "validEvidenceName value \<longleftrightarrow> value \<noteq> '''' \<and> length value \<le> maximumEvidenceNameBytes"

definition validPlanKind :: "PlanKind \<Rightarrow> bool" where
  "validPlanKind kind = (case kind of PlanKindOther _ \<Rightarrow> False | _ \<Rightarrow> True)"

definition validLowerHex :: "string \<Rightarrow> bool" where
  "validLowerHex value = list_all (\<lambda>c. in_range 48 57 c \<or> in_range 97 102 c) value"

definition validTransactionID :: "string \<Rightarrow> bool" where
  "validTransactionID value \<longleftrightarrow> length value = 16 * 2 \<and> value \<noteq> id_String 0 \<and> validLowerHex value"

definition validDigestIdentity :: "string \<Rightarrow> bool" where
  "validDigestIdentity value = (case ParseDigest value of Inl _ \<Rightarrow> False | Inr d \<Rightarrow> d \<noteq> 0)"

definition validEvidenceSnapshotCore :: "OperationSnapshot \<Rightarrow> bool" where
  "validEvidenceSnapshotCore snapshot \<longleftrightarrow> \<not> time_IsZero (os_CapturedAt snapshot) \<and> validEvidenceName (pl_Project (os_Plan snapshot)) \<and>
     validEvidenceName (pl_Service (os_Plan snapshot)) \<and> validPlanKind (pl_Kind (os_Plan snapshot)) \<and>
     validRuntimeEvidence (os_Runtime snapshot) \<and> re_Digest (os_Runtime snapshot) \<noteq> 0 \<and>
     pl_Runtime (os_Plan snapshot) = re_Kind (os_Runtime snapshot) \<and> pl_Desired (os_Plan snapshot) \<noteq> 0"

definition validEvidenceObservation :: "WorkloadObservation \<Rightarrow> bool" where
  "validEvidenceObservation observation = (case ob_State observation of
      WorkloadObservationUnknown \<Rightarrow> False
    | WorkloadObservationMissing \<Rightarrow> validMissingWorkloadObservation observation
    | WorkloadObservationPresent \<Rightarrow> validPresentWorkloadObservation observation)"

definition validSnapshotTransactionIdentity :: "SnapshotTransaction \<Rightarrow> bool" where
  "validSnapshotTransactionIdentity t \<longleftrightarrow> validTransactionID (st_ID t) \<and> SupportsWorkloads (st_Runtime t) \<and>
     validDigestIdentity (st_Source t) \<and> validDigestIdentity (st_Desired t) \<and> validDigestIdentity (st_Execution t)"

definition validSnapshotTransactionKind :: "SnapshotTransaction \<Rightarrow> bool" where
  "validSnapshotTransactionKind t =
     (if st_Kind t = ''bootstrap'' \<or> st_Kind t = ''adopt'' then st_BaseTransaction t = ''''
      else if st_Kind t = ''upgrade'' then validTransactionID (st_BaseTransaction t) else False)"

definition validSnapshotTransaction :: "OperationSnapshot \<Rightarrow> bool" where
  "validSnapshotTransaction snapshot =
     (if \<not> os_HasTransaction snapshot then os_Transaction snapshot = zero_SnapshotTransaction \<and> length (os_Actions snapshot) = 0
      else if \<not> validSnapshotTransactionIdentity (os_Transaction snapshot) \<or> \<not> validSnapshotTransactionKind (os_Transaction snapshot)
      then False
      else st_State (os_Transaction snapshot) = ''active'' \<or> st_State (os_Transaction snapshot) = ''degraded'')"

definition validSnapshotAppliedDigests :: "SnapshotAppliedService \<Rightarrow> bool" where
  "validSnapshotAppliedDigests a \<longleftrightarrow> validDigestIdentity (ss_Source a) \<and> validDigestIdentity (ss_Desired a) \<and>
     validDigestIdentity (ss_Execution a) \<and> validDigestIdentity (ss_Configuration a) \<and> validDigestIdentity (ss_Storage a) \<and>
     validDigestIdentity (ss_Reference a) \<and> validDigestIdentity (ss_Manifest a) \<and> validDigestIdentity (ss_ImageConfig a)"

definition validSnapshotApplied :: "OperationSnapshot \<Rightarrow> bool" where
  "validSnapshotApplied snapshot =
     (if \<not> os_HasApplied snapshot then os_Applied snapshot = zero_SnapshotAppliedService
      else validTransactionID (ss_Transaction (os_Applied snapshot)) \<and> SupportsWorkloads (ss_Runtime (os_Applied snapshot)) \<and>
        validSnapshotAppliedDigests (os_Applied snapshot))"

definition validSnapshotAction :: "SnapshotAction \<Rightarrow> bool" where
  "validSnapshotAction action =
     (if sa_Sequence action \<le> 0 \<or> sa_Kind action = '''' \<or> \<not> validDigestIdentity (sa_Intent action) then False
      else if sa_State action = ''intent'' \<or> sa_State action = ''effect_outcome_unknown'' then sa_Postcondition action = ''''
      else if sa_State action = ''completed'' then validDigestIdentity (sa_Postcondition action) else False)"

definition validSnapshotActions :: "OperationSnapshot \<Rightarrow> bool" where
  "validSnapshotActions snapshot = list_all validSnapshotAction (os_Actions snapshot)"

definition validEvidenceSnapshot :: "OperationSnapshot \<Rightarrow> bool" where
  "validEvidenceSnapshot snapshot \<longleftrightarrow> validEvidenceSnapshotCore snapshot \<and> validEvidenceObservation (pl_Observation (os_Plan snapshot)) \<and>
     validSnapshotTransaction snapshot \<and> validSnapshotApplied snapshot \<and> validSnapshotActions snapshot"

section \<open>Deriving the bundle\<close>

definition append_action :: "EvidenceBundle \<Rightarrow> SnapshotAction \<Rightarrow> EvidenceBundle" where
  "append_action bundle action =
     (let bundle = appendEvidence bundle \<lparr>ei_ID = ''action.'' @ decimal_int (sa_Sequence action) @ ''.intent'', ei_Kind = EvidenceActionIntent,
            ei_State = sa_State action, ei_Identity = sa_Intent action\<rparr> in
      if sa_Postcondition action \<noteq> ''''
      then appendEvidence bundle \<lparr>ei_ID = ''action.'' @ decimal_int (sa_Sequence action) @ ''.postcondition'',
             ei_Kind = EvidenceActionPostcondition, ei_State = sa_State action, ei_Identity = sa_Postcondition action\<rparr>
      else bundle)"

definition Evidence :: "OperationSnapshot \<Rightarrow> go_error + EvidenceBundle" where
  "Evidence snapshot =
     (if \<not> validEvidenceSnapshot snapshot then Inl ErrInvalidRequest
      else let plan = os_Plan snapshot;
               bundle = \<lparr>eb_Version = 1, eb_CapturedAt = time_Unix (os_CapturedAt snapshot), eb_Project = pl_Project plan,
                 eb_Service = pl_Service plan, eb_DroppedEvents = os_DroppedEvents snapshot, eb_Items = [], eb_Truncated = False\<rparr>;
               bundle = appendEvidence bundle \<lparr>ei_ID = ''plan.desired'', ei_Kind = EvidencePlanDesired,
                 ei_State = plan_kind_string (pl_Kind plan), ei_Identity = digest_String (pl_Desired plan)\<rparr>;
               bundle = appendEvidence bundle \<lparr>ei_ID = ''runtime.execution'', ei_Kind = EvidenceRuntimeExecution,
                 ei_State = kind_String (re_Kind (os_Runtime snapshot)), ei_Identity = digest_String (re_Digest (os_Runtime snapshot))\<rparr>;
               bundle = appendEvidence bundle (workloadEvidence (pl_Observation plan));
               bundle = appendEvidence bundle (transactionEvidence snapshot);
               bundle = appendEvidence bundle (appliedServiceEvidence snapshot)
           in Inr (foldl append_action bundle (os_Actions snapshot)))"

section \<open>The bundle is an exact, bounded projection\<close>

definition action_items :: "SnapshotAction \<Rightarrow> EvidenceItem list" where
  "action_items a = \<lparr>ei_ID = ''action.'' @ decimal_int (sa_Sequence a) @ ''.intent'', ei_Kind = EvidenceActionIntent, ei_State = sa_State a,
       ei_Identity = sa_Intent a\<rparr> #
     (if sa_Postcondition a = '''' then []
      else [\<lparr>ei_ID = ''action.'' @ decimal_int (sa_Sequence a) @ ''.postcondition'', ei_Kind = EvidenceActionPostcondition,
         ei_State = sa_State a, ei_Identity = sa_Postcondition a\<rparr>])"

definition evidence_items :: "OperationSnapshot \<Rightarrow> EvidenceItem list" where
  "evidence_items snapshot =
     [\<lparr>ei_ID = ''plan.desired'', ei_Kind = EvidencePlanDesired, ei_State = plan_kind_string (pl_Kind (os_Plan snapshot)),
         ei_Identity = digest_String (pl_Desired (os_Plan snapshot))\<rparr>,
      \<lparr>ei_ID = ''runtime.execution'', ei_Kind = EvidenceRuntimeExecution, ei_State = kind_String (re_Kind (os_Runtime snapshot)),
         ei_Identity = digest_String (re_Digest (os_Runtime snapshot))\<rparr>,
      workloadEvidence (pl_Observation (os_Plan snapshot)), transactionEvidence snapshot, appliedServiceEvidence snapshot] @
     concat (map action_items (os_Actions snapshot))"

text \<open>Appending one by one, up to the bound, keeps a prefix and remembers whether anything was left out.\<close>

definition holds :: "EvidenceBundle \<Rightarrow> EvidenceItem list \<Rightarrow> EvidenceBundle \<Rightarrow> bool" where
  "holds start xs b \<longleftrightarrow> b = start\<lparr>eb_Items := take maximumEvidenceItems xs, eb_Truncated := (length xs > maximumEvidenceItems)\<rparr>"

lemma holds_append: "holds start xs b \<Longrightarrow> holds start (xs @ [item]) (appendEvidence b item)"
  by (cases start) (auto simp: holds_def appendEvidence_def min_def)

lemma holds_action: "holds start xs b \<Longrightarrow> holds start (xs @ action_items a) (append_action b a)"
  using holds_append [OF holds_append, of start xs b] holds_append [of start xs b]
  by (auto simp: append_action_def action_items_def Let_def)

lemma holds_actions: "holds start xs b \<Longrightarrow> holds start (xs @ concat (map action_items as)) (foldl append_action b as)"
  by (induction as arbitrary: xs b) (use holds_action in \<open>fastforce+\<close>)

lemma ids_of_actions:
  assumes "distinct (map sa_Sequence actions)" "\<forall>a \<in> set actions. sa_Sequence a > 0"
  shows "distinct (map ei_ID (concat (map action_items actions)))"
  using assms
proof (induction actions)
  case (Cons a actions)
  have "ei_ID x \<noteq> ei_ID y" if "x \<in> set (action_items a)" "b \<in> set actions" "y \<in> set (action_items b)" for b x y
  proof -
    have "decimal_int (sa_Sequence a) \<noteq> decimal_int (sa_Sequence b)"
      using that(2) Cons.prems decimal_int_inj by (auto simp: image_iff)
    then show ?thesis using that by (auto simp: action_items_def split: if_split_asm)
  qed
  moreover have "distinct (map ei_ID (action_items a))" by (simp add: action_items_def)
  ultimately show ?case using Cons by (fastforce simp: image_iff)
qed simp

lemma fixed_ids: "map ei_ID (evidence_items snapshot) =
    [''plan.desired'', ''runtime.execution'', ''workload.observation'', ''journal.transaction'', ''journal.applied''] @
    map ei_ID (concat (map action_items (os_Actions snapshot)))"
  by (simp add: evidence_items_def workloadEvidence_def transactionEvidence_def appliedServiceEvidence_def Let_def)

lemma action_id_prefix: "x \<in> set (action_items a) \<Longrightarrow> \<exists>rest. ei_ID x = ''action.'' @ rest"
  by (auto simp: action_items_def split: if_split_asm)

text \<open>
  (C37) An evidence bundle is an exact and bounded projection of its snapshot: an invalid snapshot is refused; for a valid one the
  bundle holds, in order and unchanged, the first sixty-four of the items that the plan, the runtime, the observation, the
  journal and its actions give rise to, says whether any were left out, and no two of its items share an identifier if the
  actions are numbered apart.
\<close>

theorem evidence_is_a_bounded_projection:
  "Evidence snapshot =
     (if validEvidenceSnapshot snapshot
      then Inr \<lparr>eb_Version = 1, eb_CapturedAt = os_CapturedAt snapshot div 1000000000, eb_Project = pl_Project (os_Plan snapshot),
        eb_Service = pl_Service (os_Plan snapshot), eb_DroppedEvents = os_DroppedEvents snapshot,
        eb_Items = take 64 (evidence_items snapshot), eb_Truncated = (length (evidence_items snapshot) > 64)\<rparr>
      else Inl ErrInvalidRequest) \<and>
   (validEvidenceSnapshot snapshot \<and> distinct (map sa_Sequence (os_Actions snapshot)) \<longrightarrow>
      distinct (map ei_ID (take 64 (evidence_items snapshot))))"
proof (intro conjI impI)
  let ?start = "\<lparr>eb_Version = 1, eb_CapturedAt = time_Unix (os_CapturedAt snapshot), eb_Project = pl_Project (os_Plan snapshot),
    eb_Service = pl_Service (os_Plan snapshot), eb_DroppedEvents = os_DroppedEvents snapshot, eb_Items = [], eb_Truncated = False\<rparr>"
  have "holds ?start [] ?start" by (simp add: holds_def)
  from holds_actions [OF holds_append [OF holds_append [OF holds_append [OF holds_append [OF holds_append [OF this]]]]]]
  show "Evidence snapshot = (if validEvidenceSnapshot snapshot
      then Inr \<lparr>eb_Version = 1, eb_CapturedAt = os_CapturedAt snapshot div 1000000000, eb_Project = pl_Project (os_Plan snapshot),
        eb_Service = pl_Service (os_Plan snapshot), eb_DroppedEvents = os_DroppedEvents snapshot,
        eb_Items = take 64 (evidence_items snapshot), eb_Truncated = (length (evidence_items snapshot) > 64)\<rparr>
      else Inl ErrInvalidRequest)"
    by (simp add: Evidence_def holds_def evidence_items_def time_Unix_def maximumEvidenceItems_def Let_def)
next
  assume A: "validEvidenceSnapshot snapshot \<and> distinct (map sa_Sequence (os_Actions snapshot))"
  then have "\<forall>a \<in> set (os_Actions snapshot). sa_Sequence a > 0"
    by (auto simp: validEvidenceSnapshot_def validSnapshotActions_def validSnapshotAction_def list_all_iff split: if_split_asm)
  with A have "distinct (map ei_ID (concat (map action_items (os_Actions snapshot))))" by (intro ids_of_actions) simp_all
  then have "distinct (map ei_ID (evidence_items snapshot))" unfolding fixed_ids by (auto dest!: action_id_prefix)
  then show "distinct (map ei_ID (take 64 (evidence_items snapshot)))" by (simp flip: take_map)
qed

lemma lower_hex_encoded: "validLowerHex (hex_EncodeToString bs)"
proof -
  have "in_range 48 57 (hex_digit n) \<or> in_range 97 102 (hex_digit n)" if "n < 16" for n
    using that by (simp add: hex_digit_def in_range_def)
  moreover have "unat b div 16 < 16" "unat b mod 16 < 16" for b :: byte using unat_byte_bound [of b] by auto
  ultimately show ?thesis by (induction bs) (simp_all add: validLowerHex_def hex_EncodeToString_def)
qed

lemma printed_identities:
  "validDigestIdentity (digest_String d) \<longleftrightarrow> d \<noteq> 0" "validTransactionID (id_String i) \<longleftrightarrow> i \<noteq> 0"
  using lower_hex_encoded [of "word_bytes 16 i"] by (auto simp: validDigestIdentity_def validTransactionID_def) (simp add: id_String_def)

definition example_snapshot :: OperationSnapshot where
  "example_snapshot =
     (let t = zero_Transaction\<lparr>tx_ID := 7, tx_Kind := TransactionBootstrap, tx_State := TransactionActive, tx_Runtime := RuntimeDocker,
            tx_SourceDigest := 1, tx_EffectiveDigest := 2, tx_ExecutionDigest := 3\<rparr>;
          a = zero_Action\<lparr>ac_TransactionID := 7, ac_Sequence := 1, ac_Kind := ''image.pull'', ac_State := ActionStateCompleted,
            ac_IntentDigest := 4, ac_PostconditionDigest := Some 5\<rparr> in
      \<lparr>os_CapturedAt = 0,
       os_Plan = zero_plan\<lparr>pl_Kind := PlanResume, pl_Project := ''p'', pl_Service := ''web'', pl_Runtime := RuntimeDocker, pl_Desired := 2,
         pl_Observation := zero_observation\<lparr>ob_State := WorkloadObservationMissing\<rparr>\<rparr>,
       os_Runtime = \<lparr>re_Kind = RuntimeDocker, re_Platform = \<lparr>pf_OS = ''linux'', pf_Architecture = ''amd64'', pf_Variant = ''''\<rparr>, re_Digest = 3\<rparr>,
       os_Transaction = snapshotTransaction t, os_HasTransaction = True, os_Applied = zero_SnapshotAppliedService, os_HasApplied = False,
       os_Actions = [snapshotAction a, snapshotAction (a\<lparr>ac_Sequence := 2, ac_State := ActionStateIntent, ac_PostconditionDigest := None\<rparr>)],
       os_DroppedEvents = 0\<rparr>)"

theorem evidence_is_a_bounded_projection_witness:
  "validEvidenceSnapshot example_snapshot \<and> distinct (map ei_ID (take 64 (evidence_items example_snapshot))) \<and>
   (\<exists>b. Evidence example_snapshot = Inr b \<and> length (eb_Items b) = 8)"
proof -
  note defs = example_snapshot_def snapshotTransaction_def snapshotAction_def zero_Transaction_def zero_Action_def zero_plan_def zero_observation_def
  have "validEvidenceSnapshot example_snapshot"
    by (simp add: validEvidenceSnapshot_def validEvidenceSnapshotCore_def time_IsZero_def validEvidenceName_def maximumEvidenceNameBytes_def
        validPlanKind_def validRuntimeEvidence_def SupportsWorkloads_def validEvidenceObservation_def validMissingWorkloadObservation_def
        validSnapshotTransaction_def validSnapshotTransactionIdentity_def validSnapshotTransactionKind_def validSnapshotApplied_def
        validSnapshotActions_def validSnapshotAction_def printed_identities transaction_kind_string_def transaction_state_string_def
        action_state_string_def defs)
  moreover have "distinct (map sa_Sequence (os_Actions example_snapshot))" by (simp add: defs)
  moreover have "length (evidence_items example_snapshot) = 8"
    by (simp add: evidence_items_def action_items_def digest_String_def defs)
  ultimately show ?thesis using evidence_is_a_bounded_projection [of example_snapshot] by simp
qed

end
