(* ===== verification/Render.thy ===== *)
theory Render
  imports Evidence
begin

text \<open>
  Rendering an application event as a notification (\<open>render.go\<close> of \<open>src/internal/notification\<close>, and the checks of a message in \<open>sender.go\<close>). The theorem says that
  everything that is rendered can be sent: it is valid UTF-8 within the bounds of the senders, and no field can forge a line.
\<close>

section \<open>Rendering\<close>

record notificationMessage =
  nm_title :: string
  nm_body :: string

definition maximumNotificationTitle :: nat where
  "maximumNotificationTitle = 256"

definition maximumNotificationBody :: nat where
  "maximumNotificationBody = 3072"

definition newline :: char where
  "newline = CHR 0x0A"

text \<open>The bytes of the ellipsis, U+2026.\<close>

definition notificationTruncationMarker :: string where
  "notificationTruncationMarker = [CHR 0xE2, CHR 0x80, CHR 0xA6]"

definition event_kind_string :: "EventKind \<Rightarrow> string" where
  "event_kind_string k = (case k of EventPlanPrepared \<Rightarrow> ''plan_prepared'' | EventActionIntentRecorded \<Rightarrow> ''action_intent_recorded''
     | EventRuntimeEffectStarted \<Rightarrow> ''runtime_effect_started'' | EventPostconditionObserved \<Rightarrow> ''postcondition_observed''
     | EventActionCompleted \<Rightarrow> ''action_completed'' | EventTransactionSucceeded \<Rightarrow> ''transaction_succeeded''
     | EventTransactionDegraded \<Rightarrow> ''transaction_degraded'' | EventTransactionRestored \<Rightarrow> ''transaction_restored''
     | EventTransactionFailed \<Rightarrow> ''transaction_failed'' | EventGitOpsServiceApplyFailed \<Rightarrow> ''gitops_service_apply_failed''
     | EventDaemonUnavailable \<Rightarrow> ''daemon_unavailable'' | EventKindOther s \<Rightarrow> s)"

text \<open>The result \<open>(title, supported, ignored)\<close>.\<close>

definition notificationEventTitle :: "EventKind \<Rightarrow> string \<times> bool \<times> bool" where
  "notificationEventTitle kind = (case kind of
     EventPlanPrepared \<Rightarrow> (''maniud plan prepared'', True, False)
   | EventRuntimeEffectStarted \<Rightarrow> (''maniud runtime change started'', True, False)
   | EventTransactionSucceeded \<Rightarrow> (''maniud transaction succeeded'', True, False)
   | EventTransactionRestored \<Rightarrow> (''maniud automatic recovery succeeded'', True, False)
   | EventTransactionFailed \<Rightarrow> (''maniud transaction failed'', True, False)
   | EventGitOpsServiceApplyFailed \<Rightarrow> (''maniud GitOps service apply failed'', True, False)
   | EventDaemonUnavailable \<Rightarrow> (''maniud daemon unavailable'', True, False)
   | EventActionIntentRecorded \<Rightarrow> ([], False, True)
   | EventPostconditionObserved \<Rightarrow> ([], False, True)
   | EventActionCompleted \<Rightarrow> ([], False, True)
   | EventTransactionDegraded \<Rightarrow> ([], False, True)
   | EventKindOther _ \<Rightarrow> ([], False, False))"

definition SupportsEvent :: "EventKind \<Rightarrow> bool" where
  "SupportsEvent kind = fst (snd (notificationEventTitle kind))"

definition ignoredApplicationEvent :: "EventKind \<Rightarrow> bool" where
  "ignoredApplicationEvent kind = snd (snd (notificationEventTitle kind))"

text \<open>\<open>unicode.IsControl\<close> on the first rune of a valid string: U+0000 to U+001F and U+007F to U+009F.\<close>

definition control_rune :: "string \<Rightarrow> bool" where
  "control_rune s = (case s of
     a # b # _ \<Rightarrow> in_range 0 0x1F a \<or> in_range 0x7F 0x7F a \<or> in_range 0xC2 0xC2 a \<and> in_range 0x80 0x9F b
   | [a] \<Rightarrow> in_range 0 0x1F a \<or> in_range 0x7F 0x7F a
   | [] \<Rightarrow> False)"

text \<open>The loop over the runes of a string; an invalid byte is a rune of its own.\<close>

function has_control :: "string \<Rightarrow> bool" where
  "has_control s = (if s = [] then False else control_rune s \<or> has_control (drop (max 1 (rune_size s)) s))"
  by pat_completeness auto
termination by (relation "measure length") auto

declare has_control.simps [simp del]

definition validNotificationField :: "string \<Rightarrow> bool" where
  "validNotificationField v \<longleftrightarrow> utf8_valid v \<and> \<not> contains_nul v \<and> \<not> has_control v"

definition RuneStart :: "char \<Rightarrow> bool" where
  "RuneStart c \<longleftrightarrow> \<not> in_range 0x80 0xBF c"

text \<open>The loop that moves the cut back to the start of a rune.\<close>

fun rune_cut :: "string \<Rightarrow> nat \<Rightarrow> nat" where
  "rune_cut v 0 = 0"
| "rune_cut v (Suc n) = (if \<not> RuneStart (v ! Suc n) then rune_cut v n else Suc n)"

definition truncateNotificationText :: "string \<Rightarrow> nat \<Rightarrow> string" where
  "truncateNotificationText v maximum =
     (if length v \<le> maximum then v
      else take (rune_cut v (maximum - length notificationTruncationMarker)) v @ notificationTruncationMarker)"

definition event_fields :: "Event \<Rightarrow> (string \<times> string) list" where
  "event_fields event = [(''plan'', plan_kind_string (ev_Plan event)), (''project'', ev_Project event), (''service'', ev_Service event),
     (''runtime'', kind_String (ev_Runtime event)), (''transaction'', ev_Transaction event), (''action'', ev_Action event), (''evidence'', ev_Evidence event)]"

fun render_fields :: "string list \<Rightarrow> (string \<times> string) list \<Rightarrow> string list option" where
  "render_fields acc [] = Some acc"
| "render_fields acc ((name, v) # rest) =
     (if v = [] then render_fields acc rest
      else if \<not> validNotificationField v then None
      else render_fields (acc @ [name @ '': '' @ v]) rest)"

definition renderApplicationEvent :: "Event \<Rightarrow> notificationMessage option" where
  "renderApplicationEvent event =
     (case notificationEventTitle (ev_Kind event) of (title, supported, _) \<Rightarrow>
        if \<not> supported then None
        else (case render_fields [''event: '' @ event_kind_string (ev_Kind event)] (event_fields event) of
          None \<Rightarrow> None
        | Some rendered \<Rightarrow>
            let rendered = (if ev_Sequence event > 0 then rendered @ [''sequence: '' @ decimal_int (ev_Sequence event)] else rendered);
                rendered = (if ev_Satisfied event then rendered @ [''satisfied: true''] else rendered)
            in Some \<lparr>nm_title = title, nm_body = truncateNotificationText (joined_by [newline] rendered) maximumNotificationBody\<rparr>))"

section \<open>What can be sent\<close>

definition validNotificationText :: "string \<Rightarrow> nat \<Rightarrow> bool \<Rightarrow> bool" where
  "validNotificationText v maximum multiline \<longleftrightarrow>
     \<not> (v = [] \<or> length v > maximum \<or> \<not> utf8_valid v \<or> contains_nul v) \<and>
     (multiline \<or> CHR 0x0D \<notin> set v \<and> newline \<notin> set v)"

definition validNotificationMessage :: "string \<Rightarrow> string \<Rightarrow> bool" where
  "validNotificationMessage title body \<longleftrightarrow>
     validNotificationText title maximumNotificationTitle False \<and> validNotificationText body maximumNotificationBody True"

section \<open>Cutting and joining UTF-8\<close>

lemma rune_continuation: "0 < i \<Longrightarrow> i < rune_size s \<Longrightarrow> in_range 0x80 0xBF (s ! i)"
  by (cases s rule: list_cases4; cases i; simp add: rune_size_def in_range_def nth_Cons' split: if_split_asm)

lemma utf8_append: "utf8_valid a \<Longrightarrow> utf8_valid (a @ b) \<longleftrightarrow> utf8_valid b"
proof (induction a rule: length_induct)
  case (1 a)
  show ?case
  proof (cases "a = []")
    case False
    let ?k = "rune_size a"
    have k: "?k > 0" "utf8_valid (drop ?k a)" using 1(2) utf8_valid_step [OF False] by auto
    have split: "take ?k a @ (drop ?k a @ b) = a @ b" by (metis append.assoc append_take_drop_id)
    have "rune_size (a @ b) = ?k" using rune_size_take [OF k(1), of "drop ?k a @ b"] unfolding split .
    moreover have "drop ?k (a @ b) = drop ?k a @ b" using rune_size_bounds(1) [of a] by simp
    ultimately have "utf8_valid (a @ b) \<longleftrightarrow> utf8_valid (drop ?k a @ b)" using utf8_valid_step [of "a @ b"] False k by simp
    then show ?thesis using 1(1) k False by simp
  qed simp
qed

lemma utf8_take: "utf8_valid s \<Longrightarrow> n < length s \<Longrightarrow> n = 0 \<or> RuneStart (s ! n) \<Longrightarrow> utf8_valid (take n s)"
proof (induction s arbitrary: n rule: length_induct)
  case (1 s)
  let ?k = "rune_size s"
  show ?case
  proof (cases "n = 0")
    case False
    have s: "s \<noteq> []" using 1(3) by auto
    have k: "?k > 0" "utf8_valid (drop ?k s)" using 1(2) utf8_valid_step [OF s] by auto
    have "?k \<le> n" using rune_continuation [of n s] False 1(4) by (fastforce simp: RuneStart_def)
    then have tail: "utf8_valid (take (n - ?k) (drop ?k s))"
      using 1(1) [rule_format, of "drop ?k s" "n - ?k"] k 1(3,4) s False by auto
    have "take n s = take ?k s @ take (n - ?k) (drop ?k s)" using \<open>?k \<le> n\<close> by (metis le_add_diff_inverse take_add)
    moreover have "rune_size (take n s) = ?k" unfolding calculation by (rule rune_size_take [OF k(1)])
    moreover have "drop ?k (take n s) = take (n - ?k) (drop ?k s)" by (simp add: drop_take)
    ultimately show ?thesis using utf8_valid_step [of "take n s"] tail k s False by (cases "take n s = []") auto
  qed simp
qed

lemma rune_cut_start: "rune_cut v n \<le> n" "rune_cut v n = 0 \<or> RuneStart (v ! rune_cut v n)"
  by (induction n) (auto simp: le_SucI)

lemma truncated_text:
  assumes "utf8_valid v" and "3 \<le> maximum"
  shows "utf8_valid (truncateNotificationText v maximum)" and "length (truncateNotificationText v maximum) \<le> maximum"
    and "set (truncateNotificationText v maximum) \<subseteq> set v \<union> set notificationTruncationMarker"
proof -
  let ?cut = "rune_cut v (maximum - length notificationTruncationMarker)"
  have three: "length notificationTruncationMarker = 3" by (simp add: notificationTruncationMarker_def)
  have marker: "utf8_valid notificationTruncationMarker" by (simp add: notificationTruncationMarker_def in_range_def)
  have cut: "?cut \<le> maximum - 3" using rune_cut_start(1) three by metis
  show "utf8_valid (truncateNotificationText v maximum)"
  proof (cases "length v \<le> maximum")
    case False
    then have "utf8_valid (take ?cut v)" using utf8_take [OF assms(1), of ?cut] rune_cut_start(2) cut by simp
    then show ?thesis using False marker by (simp add: truncateNotificationText_def utf8_append)
  qed (simp add: truncateNotificationText_def assms(1))
  show "length (truncateNotificationText v maximum) \<le> maximum" using cut three assms(2) by (auto simp: truncateNotificationText_def min_def)
  show "set (truncateNotificationText v maximum) \<subseteq> set v \<union> set notificationTruncationMarker"
    using set_take_subset [of ?cut v] by (auto simp: truncateNotificationText_def)
qed

lemma no_control: "utf8_valid s \<Longrightarrow> \<not> has_control s \<Longrightarrow> c \<in> set s \<Longrightarrow> \<not> in_range 0 0x1F c"
proof (induction s rule: length_induct)
  case (1 s)
  let ?k = "rune_size s"
  have s: "s \<noteq> []" using 1(4) by auto
  have k: "?k > 0" "utf8_valid (drop ?k s)" using 1(2) utf8_valid_step [OF s] by auto
  have calm: "\<not> control_rune s" "\<not> has_control (drop ?k s)" using 1(3) s k(1) by (subst (asm) has_control.simps; simp add: max_def split: if_split_asm)+
  have first: "\<not> in_range 0 0x1F (s ! 0)" using calm(1) s by (cases s rule: list_cases4) (auto simp: control_rune_def)
  obtain i where i: "i < length s" "c = s ! i" using 1(4) by (auto simp: in_set_conv_nth)
  show ?case
  proof (cases "i < ?k")
    case True
    then show ?thesis using first rune_continuation [of i s] i(2) by (cases "i = 0") (auto simp: in_range_def)
  next
    case False
    then have "c \<in> set (drop ?k s)" using i by (auto simp: in_set_conv_nth intro!: exI [of _ "i - ?k"])
    then show ?thesis using 1(1) [rule_format, of "drop ?k s"] k calm(2) s by auto
  qed
qed

section \<open>Rendered messages\<close>

text \<open>A line of a message: valid text without control characters of ASCII.\<close>

definition clean_line :: "string \<Rightarrow> bool" where
  "clean_line l \<longleftrightarrow> l \<noteq> [] \<and> utf8_valid l \<and> (\<forall>c \<in> set l. \<not> in_range 0 0x1F c)"

lemma clean_ascii: "l \<noteq> [] \<Longrightarrow> \<forall>c \<in> set l. in_range 0x20 0x7F c \<Longrightarrow> clean_line l"
  by (auto simp: clean_line_def in_range_def intro: utf8_ascii)

lemma clean_field:
  assumes "\<forall>c \<in> set name. in_range 0x20 0x7F c" and "validNotificationField v" and "v \<noteq> []"
  shows "clean_line (name @ '': '' @ v)"
proof -
  have "utf8_valid (name @ '': '')" using assms(1) by (intro utf8_ascii) (auto simp: in_range_def)
  then have "utf8_valid ((name @ '': '') @ v)" using assms(2) by (subst utf8_append) (simp_all add: validNotificationField_def)
  moreover have "\<not> in_range 0 0x1F c" if "c \<in> set v" for c using no_control assms(2) that by (auto simp: validNotificationField_def)
  ultimately show ?thesis using assms(1) by (auto simp: clean_line_def in_range_def)
qed

lemma rendered_fields:
  "render_fields acc fs = Some ls \<Longrightarrow> \<forall>f \<in> set fs. \<forall>c \<in> set (fst f). in_range 0x20 0x7F c \<Longrightarrow> \<forall>l \<in> set acc. clean_line l \<Longrightarrow>
     \<exists>more. ls = acc @ more \<and> (\<forall>l \<in> set ls. clean_line l)"
proof (induction acc fs rule: render_fields.induct)
  case (2 acc name v rest)
  then show ?case using clean_field [of name v] by (auto split: if_split_asm)
qed auto

lemma joined_clean:
  assumes "ls \<noteq> []" and "\<forall>l \<in> set ls. clean_line l"
  shows "utf8_valid (joined_by [newline] ls)" and "joined_by [newline] ls \<noteq> []" and "\<not> contains_nul (joined_by [newline] ls)"
proof -
  have "utf8_valid (joined_by [newline] ls) \<and> joined_by [newline] ls \<noteq> [] \<and> \<not> contains_nul (joined_by [newline] ls)"
    using assms
  proof (induction ls rule: induct_list012)
    case (3 x y zs)
    then show ?case by (auto simp: utf8_append clean_line_def newline_def in_range_def contains_nul_def list_ex_iff)
  qed (auto simp: clean_line_def in_range_def contains_nul_def list_ex_iff)
  then show "utf8_valid (joined_by [newline] ls)" "joined_by [newline] ls \<noteq> []" "\<not> contains_nul (joined_by [newline] ls)" by auto
qed

lemma rendered_lines:
  assumes "renderApplicationEvent event = Some message"
  shows "\<exists>lines. hd lines = ''event: '' @ event_kind_string (ev_Kind event) \<and> lines \<noteq> [] \<and> (\<forall>l \<in> set lines. clean_line l) \<and>
    nm_body message = truncateNotificationText (joined_by [newline] lines) maximumNotificationBody"
proof -
  let ?first = "''event: '' @ event_kind_string (ev_Kind event)"
  obtain ls where supported: "SupportsEvent (ev_Kind event)" and ls: "render_fields [?first] (event_fields event) = Some ls"
      and message: "nm_body message = truncateNotificationText (joined_by [newline]
        ((if ev_Sequence event > 0 then ls @ [''sequence: '' @ decimal_int (ev_Sequence event)] else ls) @ (if ev_Satisfied event then [''satisfied: true''] else [])))
        maximumNotificationBody"
    using assms by (auto simp: renderApplicationEvent_def SupportsEvent_def Let_def split: prod.split_asm option.split_asm if_split_asm)
  have first: "clean_line ?first"
    using supported by (intro clean_ascii) (auto simp: SupportsEvent_def notificationEventTitle_def event_kind_string_def in_range_def split: EventKind.split_asm)
  have "\<forall>f \<in> set (event_fields event). \<forall>c \<in> set (fst f). in_range 0x20 0x7F c" by (simp add: event_fields_def in_range_def)
  then obtain more where more: "ls = ?first # more" "\<forall>l \<in> set ls. clean_line l" using rendered_fields [OF ls] first by auto
  have "in_range 0x20 0x7F c" if "c \<in> set (decimal_int n)" for c n
    using that by (auto simp: decimal_int_def in_range_char dest!: decimal_digits split: if_split_asm)
  then have "clean_line (''sequence: '' @ decimal_int n)" for n by (intro clean_ascii) (auto simp: in_range_def)
  moreover have "clean_line ''satisfied: true''" by (intro clean_ascii) (simp_all add: in_range_def)
  ultimately show ?thesis using message more by (intro exI [of _ "(if ev_Sequence event > 0 then ls @ [''sequence: '' @ decimal_int (ev_Sequence event)] else ls) @
      (if ev_Satisfied event then [''satisfied: true''] else [])"]) auto
qed

text \<open>
  (C38) Whatever is rendered can be sent. A message rendered from an event passes the checks of the senders: title and body are valid UTF-8 without zero bytes and within their
  bounds, also where the body was cut, and the title is a single line. Its lines are those of the renderer: the first one names the kind of the event, and no field of the event contributes a line
  break, so that no line can be forged.
\<close>

theorem rendered_message_is_sendable:
  assumes "renderApplicationEvent event = Some message"
  shows "validNotificationMessage (nm_title message) (nm_body message) \<and> SupportsEvent (ev_Kind event) \<and> \<not> ignoredApplicationEvent (ev_Kind event) \<and>
    (\<exists>lines. hd lines = ''event: '' @ event_kind_string (ev_Kind event) \<and> (\<forall>l \<in> set lines. newline \<notin> set l \<and> l \<noteq> []) \<and>
      (nm_body message = joined_by [newline] lines \<or> (\<exists>n. nm_body message = take n (joined_by [newline] lines) @ notificationTruncationMarker)))"
proof -
  obtain lines where lines: "hd lines = ''event: '' @ event_kind_string (ev_Kind event)" "lines \<noteq> []" "\<forall>l \<in> set lines. clean_line l"
      "nm_body message = truncateNotificationText (joined_by [newline] lines) maximumNotificationBody"
    using rendered_lines [OF assms] by blast
  note joined = joined_clean [OF lines(2,3)]
  note cut = truncated_text [OF joined(1), of maximumNotificationBody]
  have "validNotificationText (nm_body message) maximumNotificationBody True"
    using cut joined(2,3) lines(4)
    by (auto simp: validNotificationText_def maximumNotificationBody_def contains_nul_def list_ex_iff truncateNotificationText_def
        notificationTruncationMarker_def dest!: in_set_takeD split: if_split_asm)
  moreover have "validNotificationText (nm_title message) maximumNotificationTitle False \<and> SupportsEvent (ev_Kind event) \<and> \<not> ignoredApplicationEvent (ev_Kind event)"
    using assms by (auto simp: renderApplicationEvent_def Let_def notificationEventTitle_def SupportsEvent_def ignoredApplicationEvent_def validNotificationText_def
        contains_nul_def in_range_def maximumNotificationTitle_def newline_def split: EventKind.split_asm option.split_asm)
  moreover have "newline \<notin> set l \<and> l \<noteq> []" if "l \<in> set lines" for l
  proof -
    have "in_range 0 0x1F newline" by (simp add: newline_def in_range_def)
    then show ?thesis using lines(3) that unfolding clean_line_def by blast
  qed
  ultimately show ?thesis using lines(1,4) by (auto simp: validNotificationMessage_def truncateNotificationText_def split: if_split_asm)
qed

definition example_event :: Event where
  "example_event = zero_Event\<lparr>ev_Kind := EventTransactionFailed, ev_Service := ''web'', ev_Sequence := 3\<rparr>"

lemma example_rendered: "\<exists>message. renderApplicationEvent example_event = Some message"
proof -
  have "validNotificationField ''web''"
    by (simp add: validNotificationField_def contains_nul_def in_range_def has_control.simps control_rune_def rune_size_def)
  then show ?thesis
    by (simp add: example_event_def renderApplicationEvent_def zero_Event_def notificationEventTitle_def event_fields_def plan_kind_string_def kind_String_def)
qed

theorem rendered_message_is_sendable_witness:
  "\<exists>message. renderApplicationEvent example_event = Some message \<and> validNotificationMessage (nm_title message) (nm_body message)"
  using example_rendered rendered_message_is_sendable by blast

end
