(* ===== verification/Dispatcher.thy ===== *)
theory Dispatcher
  imports Render
begin

text \<open>
  The notification dispatcher (\<open>dispatcher.go\<close> of \<open>src/internal/notification\<close>): any number of publishers queue events for bounded target workers while a shutdown closes the
  queues. The operations are functions on the state of one target; a step relation interleaves publishers, workers and the shutdown at the granularity of channel operations, atomic
  counters and lock transitions. A send on a closed channel, which would panic, is an explicit state.
\<close>

section \<open>State\<close>

datatype Target = TargetBark | TargetTelegram

datatype DiagnosticCode = DiagnosticSemanticFailed | DiagnosticTransportFailed | DiagnosticInvalidEvent | DiagnosticQueueFull | DiagnosticShutdown

record Diagnostic =
  dg_Target :: Target
  dg_Event :: EventKind
  dg_Code :: DiagnosticCode

record queuedNotification =
  qn_event :: EventKind
  qn_message :: notificationMessage

definition notificationQueueDepth :: nat where
  "notificationQueueDepth = 32"

text \<open>The results of \<open>sendNotification\<close>, which maps every other error and a panic of the sender to \<open>ErrDelivery\<close>.\<close>

datatype send_result = Sent | SendRejected | SendInvalid | SendFailed

text \<open>Where the goroutine of a target stands: waiting on its queue, holding a received notification, sending it, or ended.\<close>

datatype worker = WorkerIdle | WorkerReceived queuedNotification | WorkerSending queuedNotification | WorkerExited

text \<open>
  The last three fields are not in the code. They record, in order, what was put into the queue, what became of what was taken from it, and what was
  dropped before it reached the queue.
\<close>

record targetDispatcher =
  td_target :: Target
  td_queue :: "queuedNotification list"
  td_closed :: bool
  td_worker :: worker
  td_droppedInvalid :: "64 word"
  td_droppedQueueFull :: "64 word"
  td_droppedShutdown :: "64 word"
  td_admitted :: "queuedNotification list"
  td_settled :: "(queuedNotification \<times> DiagnosticCode option) list"
  td_refused :: "DiagnosticCode list"

text \<open>A call of \<open>TryPublish\<close> in progress: dropping for, or sending to, the targets from an index on.\<close>

datatype publisher = PublisherIdle | PublisherDropping EventKind DiagnosticCode nat | PublisherSending queuedNotification nat bool

datatype stop_state = StopIdle | StopWaiting | StopClosing nat | StopDone

record dispatcher =
  ds_accepting :: bool
  ds_targets :: "targetDispatcher list"
  ds_publishers :: "nat \<Rightarrow> publisher"
  ds_stop :: stop_state
  ds_cancelled :: bool
  ds_done :: bool
  ds_reports :: "Diagnostic list"
  ds_panicked :: bool

section \<open>Operations\<close>

definition new_target :: "Target \<Rightarrow> targetDispatcher" where
  "new_target target = \<lparr>td_target = target, td_queue = [], td_closed = False, td_worker = WorkerIdle, td_droppedInvalid = 0, td_droppedQueueFull = 0,
     td_droppedShutdown = 0, td_admitted = [], td_settled = [], td_refused = []\<rparr>"

text \<open>The list holds the targets that have a sender. No dispatcher is started without one.\<close>

definition newDispatcherWith :: "Target list \<Rightarrow> dispatcher option" where
  "newDispatcherWith specifications =
     (if specifications = [] then None
      else Some \<lparr>ds_accepting = True, ds_targets = map new_target specifications, ds_publishers = (\<lambda>_. PublisherIdle), ds_stop = StopIdle,
        ds_cancelled = False, ds_done = False, ds_reports = [], ds_panicked = False\<rparr>)"

definition NewDispatcher :: "bool \<Rightarrow> bool \<Rightarrow> dispatcher option" where
  "NewDispatcher bark telegram = newDispatcherWith ((if bark then [TargetBark] else []) @ (if telegram then [TargetTelegram] else []))"

text \<open>Every report is recorded here; the code calls its sink, if it has one, and survives a panic of it.\<close>

definition report :: "Target \<Rightarrow> EventKind \<Rightarrow> DiagnosticCode \<Rightarrow> dispatcher \<Rightarrow> dispatcher" where
  "report target event code d = d\<lparr>ds_reports := ds_reports d @ [\<lparr>dg_Target = target, dg_Event = event, dg_Code = code\<rparr>]\<rparr>"

text \<open>The counter that goes with a code; delivery failures are reported and not counted.\<close>

definition counted :: "DiagnosticCode \<Rightarrow> targetDispatcher \<Rightarrow> targetDispatcher" where
  "counted code t = (case code of
     DiagnosticInvalidEvent \<Rightarrow> t\<lparr>td_droppedInvalid := td_droppedInvalid t + 1\<rparr>
   | DiagnosticQueueFull \<Rightarrow> t\<lparr>td_droppedQueueFull := td_droppedQueueFull t + 1\<rparr>
   | DiagnosticShutdown \<Rightarrow> t\<lparr>td_droppedShutdown := td_droppedShutdown t + 1\<rparr>
   | DiagnosticSemanticFailed \<Rightarrow> t
   | DiagnosticTransportFailed \<Rightarrow> t)"

definition refuse :: "DiagnosticCode \<Rightarrow> targetDispatcher \<Rightarrow> targetDispatcher" where
  "refuse code t = (counted code t)\<lparr>td_refused := td_refused t @ [code]\<rparr>"

datatype offer_result = Queued targetDispatcher | QueueFull targetDispatcher | SendOnClosed

text \<open>The \<open>select\<close> of \<open>TryPublish\<close>.\<close>

definition offer :: "queuedNotification \<Rightarrow> targetDispatcher \<Rightarrow> offer_result" where
  "offer q t =
     (if td_closed t then SendOnClosed
      else if length (td_queue t) < notificationQueueDepth then Queued (t\<lparr>td_queue := td_queue t @ [q], td_admitted := td_admitted t @ [q]\<rparr>)
      else QueueFull (refuse DiagnosticQueueFull t))"

definition settle :: "queuedNotification \<Rightarrow> DiagnosticCode option \<Rightarrow> targetDispatcher \<Rightarrow> targetDispatcher" where
  "settle q code t = (case code of None \<Rightarrow> t | Some code \<Rightarrow> counted code t)\<lparr>td_worker := WorkerIdle, td_settled := td_settled t @ [(q, code)]\<rparr>"

definition recordResult :: "bool \<Rightarrow> send_result \<Rightarrow> DiagnosticCode option" where
  "recordResult cancelled err =
     (if err = Sent then None
      else if cancelled then Some DiagnosticShutdown
      else (case err of SendRejected \<Rightarrow> Some DiagnosticSemanticFailed | SendInvalid \<Rightarrow> Some DiagnosticInvalidEvent | _ \<Rightarrow> Some DiagnosticTransportFailed))"

definition DroppedEvents :: "dispatcher \<Rightarrow> 64 word" where
  "DroppedEvents d = sum_list (map (\<lambda>t. td_droppedInvalid t + td_droppedQueueFull t + td_droppedShutdown t) (ds_targets d))"

text \<open>A writer that holds or awaits the lock makes \<open>TryRLock\<close> fail.\<close>

definition writer_pending :: "dispatcher \<Rightarrow> bool" where
  "writer_pending d = (case ds_stop d of StopWaiting \<Rightarrow> True | StopClosing _ \<Rightarrow> True | _ \<Rightarrow> False)"

definition reading :: "publisher \<Rightarrow> bool" where
  "reading p = (case p of PublisherSending _ _ _ \<Rightarrow> True | _ \<Rightarrow> False)"

definition set_publisher :: "nat \<Rightarrow> publisher \<Rightarrow> dispatcher \<Rightarrow> dispatcher" where
  "set_publisher i p d = d\<lparr>ds_publishers := (ds_publishers d)(i := p)\<rparr>"

definition set_target :: "nat \<Rightarrow> targetDispatcher \<Rightarrow> dispatcher \<Rightarrow> dispatcher" where
  "set_target k t d = d\<lparr>ds_targets := (ds_targets d)[k := t]\<rparr>"

definition send_next :: "nat \<Rightarrow> queuedNotification \<Rightarrow> nat \<Rightarrow> bool \<Rightarrow> dispatcher \<Rightarrow> dispatcher" where
  "send_next i q k accepted d =
     (case offer q (ds_targets d ! k) of
        SendOnClosed \<Rightarrow> d\<lparr>ds_panicked := True\<rparr>
      | Queued t \<Rightarrow> set_publisher i (PublisherSending q (k + 1) accepted) (set_target k t d)
      | QueueFull t \<Rightarrow> report (td_target t) (qn_event q) DiagnosticQueueFull (set_publisher i (PublisherSending q (k + 1) False) (set_target k t d)))"

definition drop_next :: "nat \<Rightarrow> EventKind \<Rightarrow> DiagnosticCode \<Rightarrow> nat \<Rightarrow> dispatcher \<Rightarrow> dispatcher" where
  "drop_next i event code k d =
     report (td_target (ds_targets d ! k)) event code (set_publisher i (PublisherDropping event code (k + 1)) (set_target k (refuse code (ds_targets d ! k)) d))"

definition close_next :: "nat \<Rightarrow> dispatcher \<Rightarrow> dispatcher" where
  "close_next k d =
     (if td_closed (ds_targets d ! k) then d\<lparr>ds_panicked := True\<rparr>
      else (set_target k ((ds_targets d ! k)\<lparr>td_closed := True\<rparr>) d)\<lparr>ds_stop := StopClosing (k + 1)\<rparr>)"

definition settle_next :: "nat \<Rightarrow> queuedNotification \<Rightarrow> DiagnosticCode option \<Rightarrow> dispatcher \<Rightarrow> dispatcher" where
  "settle_next k q code d =
     (let d' = set_target k (settle q code (ds_targets d ! k)) d
      in case code of None \<Rightarrow> d' | Some c \<Rightarrow> report (td_target (ds_targets d ! k)) (qn_event q) c d')"

definition work :: "nat \<Rightarrow> worker \<Rightarrow> dispatcher \<Rightarrow> dispatcher" where
  "work k s d = set_target k ((ds_targets d ! k)\<lparr>td_worker := s\<rparr>) d"

definition receive :: "nat \<Rightarrow> dispatcher \<Rightarrow> dispatcher" where
  "receive k d = set_target k ((ds_targets d ! k)\<lparr>td_worker := WorkerReceived (hd (td_queue (ds_targets d ! k))), td_queue := tl (td_queue (ds_targets d ! k))\<rparr>) d"

section \<open>Steps\<close>

text \<open>The steps of a target's goroutine (\<open>run\<close>).\<close>

inductive worker_step :: "dispatcher \<Rightarrow> dispatcher \<Rightarrow> bool" where
  receive: "k < length (ds_targets d) \<Longrightarrow> td_worker (ds_targets d ! k) = WorkerIdle \<Longrightarrow> td_queue (ds_targets d ! k) \<noteq> [] \<Longrightarrow> worker_step d (receive k d)"
| cancelled: "k < length (ds_targets d) \<Longrightarrow> td_worker (ds_targets d ! k) = WorkerReceived q \<Longrightarrow> ds_cancelled d \<Longrightarrow>
    worker_step d (settle_next k q (Some DiagnosticShutdown) d)"
| send: "k < length (ds_targets d) \<Longrightarrow> td_worker (ds_targets d ! k) = WorkerReceived q \<Longrightarrow> \<not> ds_cancelled d \<Longrightarrow> worker_step d (work k (WorkerSending q) d)"
| result: "k < length (ds_targets d) \<Longrightarrow> td_worker (ds_targets d ! k) = WorkerSending q \<Longrightarrow>
    worker_step d (settle_next k q (recordResult (ds_cancelled d) err) d)"
| exit: "k < length (ds_targets d) \<Longrightarrow> td_worker (ds_targets d ! k) = WorkerIdle \<Longrightarrow> td_queue (ds_targets d ! k) = [] \<Longrightarrow> td_closed (ds_targets d ! k) \<Longrightarrow>
    worker_step d (work k WorkerExited d)"

text \<open>
  The steps of publishers, of the shutdown and of the goroutine that waits for the workers. An ignored event makes no step, and what \<open>TryPublish\<close> returns is not kept. A publisher that finds the dispatcher stopped holds the read lock while it drops; no writer
  comes after the first, so this is not represented.
\<close>

inductive caller_step :: "dispatcher \<Rightarrow> dispatcher \<Rightarrow> bool" where
  publish_invalid: "ds_publishers d i = PublisherIdle \<Longrightarrow> \<not> ignoredApplicationEvent (ev_Kind event) \<Longrightarrow> renderApplicationEvent event = None \<Longrightarrow>
    caller_step d (set_publisher i (PublisherDropping (EventKindOther []) DiagnosticInvalidEvent 0) d)"
| publish_refused: "ds_publishers d i = PublisherIdle \<Longrightarrow> renderApplicationEvent event = Some message \<Longrightarrow> writer_pending d \<or> \<not> ds_accepting d \<Longrightarrow>
    caller_step d (set_publisher i (PublisherDropping (ev_Kind event) DiagnosticShutdown 0) d)"
| publish_begin: "ds_publishers d i = PublisherIdle \<Longrightarrow> renderApplicationEvent event = Some message \<Longrightarrow> \<not> writer_pending d \<Longrightarrow> ds_accepting d \<Longrightarrow>
    caller_step d (set_publisher i (PublisherSending \<lparr>qn_event = ev_Kind event, qn_message = message\<rparr> 0 True) d)"
| publish_send: "ds_publishers d i = PublisherSending q k accepted \<Longrightarrow> k < length (ds_targets d) \<Longrightarrow> caller_step d (send_next i q k accepted d)"
| publish_end: "ds_publishers d i = PublisherSending q k accepted \<Longrightarrow> k \<ge> length (ds_targets d) \<Longrightarrow> caller_step d (set_publisher i PublisherIdle d)"
| drop: "ds_publishers d i = PublisherDropping event code k \<Longrightarrow> k < length (ds_targets d) \<Longrightarrow> caller_step d (drop_next i event code k d)"
| drop_end: "ds_publishers d i = PublisherDropping event code k \<Longrightarrow> k \<ge> length (ds_targets d) \<Longrightarrow> caller_step d (set_publisher i PublisherIdle d)"
| stop_begin: "ds_stop d = StopIdle \<Longrightarrow> caller_step d (d\<lparr>ds_stop := StopWaiting\<rparr>)"
| stop_lock: "ds_stop d = StopWaiting \<Longrightarrow> \<forall>i. \<not> reading (ds_publishers d i) \<Longrightarrow> caller_step d (d\<lparr>ds_stop := StopClosing 0, ds_accepting := False\<rparr>)"
| stop_close: "ds_stop d = StopClosing k \<Longrightarrow> k < length (ds_targets d) \<Longrightarrow> caller_step d (close_next k d)"
| stop_unlock: "ds_stop d = StopClosing k \<Longrightarrow> k \<ge> length (ds_targets d) \<Longrightarrow> caller_step d (d\<lparr>ds_stop := StopDone\<rparr>)"
| expire: "ds_stop d = StopDone \<Longrightarrow> caller_step d (d\<lparr>ds_cancelled := True\<rparr>)"
| finish: "\<forall>t \<in> set (ds_targets d). td_worker t = WorkerExited \<Longrightarrow> caller_step d (d\<lparr>ds_cancelled := True, ds_done := True\<rparr>)"

definition dispatch_step :: "dispatcher \<Rightarrow> dispatcher \<Rightarrow> bool" where
  "dispatch_step d d' \<longleftrightarrow> worker_step d d' \<or> caller_step d d'"

section \<open>Invariant\<close>

definition held :: "worker \<Rightarrow> queuedNotification list" where
  "held w = (case w of WorkerReceived q \<Rightarrow> [q] | WorkerSending q \<Rightarrow> [q] | _ \<Rightarrow> [])"

text \<open>How often a code was the end of a notification for a target.\<close>

definition drops :: "DiagnosticCode \<Rightarrow> targetDispatcher \<Rightarrow> nat" where
  "drops code t = count_list (td_refused t) code + count_list (map snd (td_settled t)) (Some code)"

definition target_ok :: "targetDispatcher \<Rightarrow> bool" where
  "target_ok t \<longleftrightarrow> length (td_queue t) \<le> notificationQueueDepth \<and> td_admitted t = map fst (td_settled t) @ held (td_worker t) @ td_queue t \<and>
     (td_worker t = WorkerExited \<longrightarrow> td_closed t \<and> td_queue t = []) \<and>
     td_droppedInvalid t = of_nat (drops DiagnosticInvalidEvent t) \<and> td_droppedQueueFull t = of_nat (drops DiagnosticQueueFull t) \<and>
     td_droppedShutdown t = of_nat (drops DiagnosticShutdown t)"

definition closing :: "stop_state \<Rightarrow> nat \<Rightarrow> bool" where
  "closing s k = (case s of StopClosing n \<Rightarrow> k < n | StopDone \<Rightarrow> True | _ \<Rightarrow> False)"

definition locked :: "stop_state \<Rightarrow> bool" where
  "locked s = (case s of StopClosing _ \<Rightarrow> True | StopDone \<Rightarrow> True | _ \<Rightarrow> False)"

definition dispatcher_ok :: "dispatcher \<Rightarrow> bool" where
  "dispatcher_ok d \<longleftrightarrow> \<not> ds_panicked d \<and>
     (\<forall>k < length (ds_targets d). target_ok (ds_targets d ! k) \<and> (td_closed (ds_targets d ! k) \<longleftrightarrow> closing (ds_stop d) k)) \<and>
     (ds_accepting d \<longleftrightarrow> \<not> locked (ds_stop d)) \<and> (locked (ds_stop d) \<longrightarrow> (\<forall>i. \<not> reading (ds_publishers d i))) \<and>
     (ds_done d \<longrightarrow> (\<forall>k < length (ds_targets d). td_worker (ds_targets d ! k) = WorkerExited))"

lemma counted_fields [simp]:
  "td_queue (counted c t) = td_queue t" "td_closed (counted c t) = td_closed t" "td_worker (counted c t) = td_worker t"
  "td_admitted (counted c t) = td_admitted t" "td_settled (counted c t) = td_settled t" "td_refused (counted c t) = td_refused t"
  "td_target (counted c t) = td_target t"
  by (simp_all add: counted_def split: DiagnosticCode.split)

lemma counted_counters:
  "td_droppedInvalid (counted c t) = (if c = DiagnosticInvalidEvent then td_droppedInvalid t + 1 else td_droppedInvalid t)"
  "td_droppedQueueFull (counted c t) = (if c = DiagnosticQueueFull then td_droppedQueueFull t + 1 else td_droppedQueueFull t)"
  "td_droppedShutdown (counted c t) = (if c = DiagnosticShutdown then td_droppedShutdown t + 1 else td_droppedShutdown t)"
  by (simp_all add: counted_def split: DiagnosticCode.split)

lemma refuse_ok: "target_ok t \<Longrightarrow> target_ok (refuse c t) \<and> td_closed (refuse c t) = td_closed t \<and> td_worker (refuse c t) = td_worker t"
  by (auto simp: target_ok_def refuse_def counted_counters drops_def)

lemma settle_ok: "target_ok t \<Longrightarrow> held (td_worker t) = [q] \<Longrightarrow> target_ok (settle q c t) \<and> td_closed (settle q c t) = td_closed t"
  by (cases c) (auto simp: target_ok_def settle_def counted_counters drops_def held_def)

lemma offer_ok:
  assumes "target_ok t" and "\<not> td_closed t"
  obtains (queued) t' where "offer q t = Queued t'" "target_ok t'" "td_closed t' = td_closed t" "td_worker t' = td_worker t"
    | (full) t' where "offer q t = QueueFull t'" "target_ok t'" "td_closed t' = td_closed t" "td_worker t' = td_worker t"
proof (cases "length (td_queue t) < notificationQueueDepth")
  case True
  let ?t = "t\<lparr>td_queue := td_queue t @ [q], td_admitted := td_admitted t @ [q]\<rparr>"
  have "td_worker t \<noteq> WorkerExited" using assms by (auto simp: target_ok_def)
  then have "target_ok ?t" using assms(1) True by (auto simp: target_ok_def drops_def)
  then show ?thesis using queued [of ?t] True assms(2) by (simp add: offer_def)
next
  case False
  then show ?thesis using full [of "refuse DiagnosticQueueFull t"] assms refuse_ok [OF assms(1)] by (simp add: offer_def)
qed

lemma ok_set_target:
  assumes "dispatcher_ok d" and "k < length (ds_targets d)" and "target_ok t" and "td_closed t = td_closed (ds_targets d ! k)"
    and "td_worker (ds_targets d ! k) = WorkerExited \<longrightarrow> td_worker t = WorkerExited"
  shows "dispatcher_ok (set_target k t d)"
  using assms by (auto simp: dispatcher_ok_def set_target_def nth_list_update)

lemma ok_others: "dispatcher_ok (report a b c d) = dispatcher_ok d" "ds_stop (set_target k t d) = ds_stop d" "ds_publishers (set_target k t d) = ds_publishers d"
  "ds_targets (report a b c d) = ds_targets d" "ds_publishers (report a b c d) = ds_publishers d" "ds_stop (report a b c d) = ds_stop d"
  by (simp_all add: dispatcher_ok_def report_def set_target_def)

lemma ok_set_publisher: "dispatcher_ok d \<Longrightarrow> \<not> reading p \<or> \<not> locked (ds_stop d) \<Longrightarrow> dispatcher_ok (set_publisher i p d)"
  by (auto simp: dispatcher_ok_def set_publisher_def)

lemma ok_target: "dispatcher_ok d \<Longrightarrow> k < length (ds_targets d) \<Longrightarrow> target_ok (ds_targets d ! k)"
  by (simp add: dispatcher_ok_def)

lemma worker_step_ok:
  assumes "worker_step d d'" and ok: "dispatcher_ok d"
  shows "dispatcher_ok d'"
  using assms(1)
proof cases
  case (receive k)
  let ?t = "ds_targets d ! k"
  have "target_ok (?t\<lparr>td_worker := WorkerReceived (hd (td_queue ?t)), td_queue := tl (td_queue ?t)\<rparr>)"
    using ok_target [OF ok receive(2)] receive(3,4) by (auto simp: target_ok_def held_def drops_def)
  then show ?thesis using ok_set_target [OF ok receive(2)] receive(1,3) by (simp add: receive_def)
next
  case (cancelled k q)
  then show ?thesis using ok_set_target [OF ok cancelled(2)] settle_ok [OF ok_target [OF ok cancelled(2)], of q]
    by (auto simp: settle_next_def ok_others held_def)
next
  case (send k q)
  have "target_ok ((ds_targets d ! k)\<lparr>td_worker := WorkerSending q\<rparr>)"
    using ok_target [OF ok send(2)] send(3) by (auto simp: target_ok_def held_def drops_def)
  then show ?thesis using ok_set_target [OF ok send(2)] send(1,3) by (simp add: work_def)
next
  case (result k q err)
  then show ?thesis using ok_set_target [OF ok result(2)] settle_ok [OF ok_target [OF ok result(2)], of q]
    by (auto simp: settle_next_def ok_others held_def Let_def split: option.split)
next
  case (exit k)
  have "target_ok ((ds_targets d ! k)\<lparr>td_worker := WorkerExited\<rparr>)"
    using ok_target [OF ok exit(2)] exit(3-5) by (auto simp: target_ok_def held_def drops_def)
  then show ?thesis using ok_set_target [OF ok exit(2)] exit(1,3) by (simp add: work_def)
qed

lemma reading_unlocked: "dispatcher_ok d \<Longrightarrow> reading (ds_publishers d i) \<Longrightarrow> \<not> locked (ds_stop d)"
  by (auto simp: dispatcher_ok_def)

lemma unlocked_open: "dispatcher_ok d \<Longrightarrow> \<not> locked (ds_stop d) \<Longrightarrow> k < length (ds_targets d) \<Longrightarrow> \<not> td_closed (ds_targets d ! k)"
  by (auto simp: dispatcher_ok_def locked_def closing_def split: stop_state.split_asm)

lemma caller_step_ok:
  assumes "caller_step d d'" and ok: "dispatcher_ok d"
  shows "dispatcher_ok d'"
  using assms(1)
proof cases
  case (publish_begin i event message)
  have "\<not> locked (ds_stop d)" using ok publish_begin(5) by (simp add: dispatcher_ok_def)
  then show ?thesis using publish_begin(1) ok by (simp add: ok_set_publisher)
next
  case (publish_send i q k accepted)
  have free: "\<not> locked (ds_stop d)" using publish_send(2) by (intro reading_unlocked [OF ok, of i]) (simp add: reading_def)
  show ?thesis
  proof (rule offer_ok [OF ok_target [OF ok publish_send(3)] unlocked_open [OF ok free publish_send(3)], of q])
    fix t' assume t': "offer q (ds_targets d ! k) = Queued t'" "target_ok t'" "td_closed t' = td_closed (ds_targets d ! k)" "td_worker t' = td_worker (ds_targets d ! k)"
    then show ?thesis using ok_set_target [OF ok publish_send(3) t'(2,3)] publish_send(1) free by (simp add: send_next_def ok_set_publisher ok_others)
  next
    fix t' assume t': "offer q (ds_targets d ! k) = QueueFull t'" "target_ok t'" "td_closed t' = td_closed (ds_targets d ! k)" "td_worker t' = td_worker (ds_targets d ! k)"
    then show ?thesis using ok_set_target [OF ok publish_send(3) t'(2,3)] publish_send(1) free by (simp add: send_next_def ok_set_publisher ok_others)
  qed
next
  case (drop i event code k)
  then show ?thesis using ok_set_target [OF ok drop(3)] refuse_ok [OF ok_target [OF ok drop(3)], of code]
    by (simp add: drop_next_def ok_others ok_set_publisher reading_def)
next
  case (stop_close k)
  have "\<not> td_closed (ds_targets d ! k)" using ok stop_close(2,3) by (auto simp: dispatcher_ok_def closing_def)
  moreover have "target_ok ((ds_targets d ! k)\<lparr>td_closed := True\<rparr>)" using ok_target [OF ok stop_close(3)] by (auto simp: target_ok_def drops_def)
  ultimately show ?thesis using ok stop_close
    by (auto simp: close_next_def dispatcher_ok_def set_target_def closing_def locked_def nth_list_update less_Suc_eq)
next
  case (stop_unlock k)
  then show ?thesis using ok by (auto simp: dispatcher_ok_def closing_def locked_def)
next
  case finish
  then show ?thesis using ok by (auto simp: dispatcher_ok_def)
qed (use ok in \<open>auto simp: dispatcher_ok_def closing_def locked_def reading_def set_publisher_def\<close>)

lemma step_ok: "dispatch_step d d' \<Longrightarrow> dispatcher_ok d \<Longrightarrow> dispatcher_ok d'"
  using worker_step_ok caller_step_ok by (auto simp: dispatch_step_def)

lemma start_ok: "newDispatcherWith specifications = Some d \<Longrightarrow> dispatcher_ok d"
  by (auto simp: newDispatcherWith_def dispatcher_ok_def new_target_def target_ok_def held_def drops_def closing_def locked_def split: if_split_asm)

lemma reachable_ok:
  assumes "newDispatcherWith specifications = Some start" and "dispatch_step\<^sup>*\<^sup>* start d"
  shows "dispatcher_ok d"
  using assms(2) by (induction rule: rtranclp_induct) (simp_all add: start_ok [OF assms(1)] step_ok)

lemma dropped_events:
  assumes "dispatcher_ok d"
  shows "DroppedEvents d = of_nat (\<Sum>t \<leftarrow> ds_targets d. drops DiagnosticInvalidEvent t + drops DiagnosticQueueFull t + drops DiagnosticShutdown t)"
proof -
  have "sum_list (map (\<lambda>t. td_droppedInvalid t + td_droppedQueueFull t + td_droppedShutdown t) ts) =
      of_nat (\<Sum>t \<leftarrow> ts. drops DiagnosticInvalidEvent t + drops DiagnosticQueueFull t + drops DiagnosticShutdown t)"
    if "\<forall>t \<in> set ts. target_ok t" for ts
    using that by (induction ts) (simp_all add: target_ok_def)
  moreover have "\<forall>t \<in> set (ds_targets d). target_ok t" using assms by (auto simp: dispatcher_ok_def in_set_conv_nth)
  ultimately show ?thesis by (simp add: DroppedEvents_def)
qed

section \<open>Draining\<close>

text \<open>What the workers still have to do.\<close>

definition backlog :: "targetDispatcher \<Rightarrow> nat" where
  "backlog t = 3 * length (td_queue t) + (case td_worker t of WorkerIdle \<Rightarrow> 1 | WorkerReceived _ \<Rightarrow> 3 | WorkerSending _ \<Rightarrow> 2 | WorkerExited \<Rightarrow> 0)"

definition remaining :: "dispatcher \<Rightarrow> nat" where
  "remaining d = (\<Sum>t \<leftarrow> ds_targets d. backlog t)"

lemma sum_list_update_less: "k < length xs \<Longrightarrow> f x < f (xs ! k) \<Longrightarrow> sum_list (map f (xs[k := x])) < (sum_list (map f xs) :: nat)"
  by (induction xs arbitrary: k) (auto simp: nth_Cons split: nat.split)

lemma remaining_set_target: "k < length (ds_targets d) \<Longrightarrow> backlog t < backlog (ds_targets d ! k) \<Longrightarrow> remaining (set_target k t d) < remaining d"
  by (simp add: remaining_def set_target_def sum_list_update_less)

lemma remaining_report: "remaining (report a b c d) = remaining d"
  by (simp add: remaining_def report_def)

lemma backlog_settle: "held (td_worker t) = [q] \<Longrightarrow> backlog (settle q c t) < backlog t"
  by (cases c) (auto simp: backlog_def settle_def held_def split: worker.split_asm)

lemma worker_step_decreases: "worker_step d d' \<Longrightarrow> remaining d' < remaining d"
proof (induction rule: worker_step.induct)
  case (receive k d)
  then show ?case unfolding receive_def by (intro remaining_set_target) (auto simp: backlog_def neq_Nil_conv)
next
  case (cancelled k d q)
  then show ?case by (simp add: settle_next_def remaining_report remaining_set_target backlog_settle held_def)
next
  case (send k d q)
  then show ?case unfolding work_def by (intro remaining_set_target) (auto simp: backlog_def)
next
  case (result k d q err)
  then show ?case by (simp add: settle_next_def Let_def remaining_report remaining_set_target backlog_settle held_def split: option.split)
next
  case (exit k d)
  then show ?case unfolding work_def by (intro remaining_set_target) (auto simp: backlog_def)
qed

lemma admitted_set_target:
  "k < length (ds_targets d) \<Longrightarrow> td_admitted t = td_admitted (ds_targets d ! k) \<Longrightarrow> map td_admitted (ds_targets (set_target k t d)) = map td_admitted (ds_targets d)"
  by (simp add: set_target_def map_update list_update_same_conv)

lemma settle_admitted [simp]: "td_admitted (settle q c t) = td_admitted t" "td_admitted (refuse c' t) = td_admitted t"
  by (simp_all add: settle_def refuse_def split: option.split)

lemma worker_step_admitted: "worker_step d d' \<Longrightarrow> map td_admitted (ds_targets d') = map td_admitted (ds_targets d) \<and> ds_stop d' = ds_stop d"
  by (induction rule: worker_step.induct)
    (simp_all add: receive_def work_def settle_next_def Let_def ok_others admitted_set_target split: option.split)

lemma stopped_step:
  assumes "dispatch_step d d'" and ok: "dispatcher_ok d" and stopped: "ds_stop d = StopDone"
  shows "map td_admitted (ds_targets d') = map td_admitted (ds_targets d) \<and> ds_stop d' = StopDone"
proof (cases "worker_step d d'")
  case True
  then show ?thesis using worker_step_admitted stopped by auto
next
  case False
  have refused: "\<not> ds_accepting d" "\<not> reading (ds_publishers d i)" for i using ok stopped by (auto simp: dispatcher_ok_def locked_def)
  from False assms(1) have "caller_step d d'" by (simp add: dispatch_step_def)
  then show ?thesis
  proof cases
    case (publish_send i q k accepted)
    then show ?thesis using refused(2) [of i] by (simp add: reading_def)
  next
    case (drop i event code k)
    then show ?thesis using stopped by (simp add: drop_next_def ok_others set_publisher_def admitted_set_target)
  qed (use refused stopped in \<open>auto simp: set_publisher_def\<close>)
qed

lemma stopped_steps:
  assumes "dispatch_step\<^sup>*\<^sup>* d d'" and "dispatcher_ok d" and "ds_stop d = StopDone"
  shows "map td_admitted (ds_targets d') = map td_admitted (ds_targets d) \<and> ds_stop d' = StopDone \<and> dispatcher_ok d'"
  using assms(1) by (induction rule: rtranclp_induct) (use assms(2,3) stopped_step step_ok in \<open>auto\<close>)

lemma stuck_workers:
  assumes "dispatcher_ok d" and "ds_stop d = StopDone" and "\<nexists>d'. worker_step d d'" and "k < length (ds_targets d)"
  shows "td_worker (ds_targets d ! k) = WorkerExited"
proof (cases "td_worker (ds_targets d ! k)")
  case WorkerIdle
  have "td_closed (ds_targets d ! k)" using assms(1,2,4) by (auto simp: dispatcher_ok_def closing_def)
  then show ?thesis using worker_step.receive [OF assms(4) WorkerIdle] worker_step.exit [OF assms(4) WorkerIdle] assms(3) by blast
next
  case (WorkerReceived q)
  then show ?thesis using worker_step.cancelled [OF assms(4) WorkerReceived] worker_step.send [OF assms(4) WorkerReceived] assms(3) by blast
next
  case (WorkerSending q)
  then show ?thesis using worker_step.result [OF assms(4) WorkerSending] assms(3) by blast
qed

lemma workers_end: "\<exists>d'. worker_step\<^sup>*\<^sup>* d d' \<and> (\<nexists>d''. worker_step d' d'')"
proof (induction "remaining d" arbitrary: d rule: less_induct)
  case less
  show ?case
  proof (cases "\<exists>d'. worker_step d d'")
    case True
    then obtain d' where d': "worker_step d d'" by blast
    then show ?thesis using less [OF worker_step_decreases [OF d']] by (meson converse_rtranclp_into_rtranclp)
  qed blast
qed

lemma workers_bounded: "(worker_step ^^ n) d d' \<Longrightarrow> n + remaining d' \<le> remaining d"
proof (induction n arbitrary: d')
  case (Suc n)
  then obtain e where "(worker_step ^^ n) d e" "worker_step e d'" by auto
  then show ?case using Suc.IH worker_step_decreases by fastforce
qed simp

lemma ok_targets: "dispatcher_ok d \<Longrightarrow> t \<in> set (ds_targets d) \<Longrightarrow> target_ok t"
  by (auto simp: dispatcher_ok_def in_set_conv_nth)

lemma backlog_bound: "target_ok t \<Longrightarrow> backlog t \<le> 99"
  by (auto simp: target_ok_def backlog_def notificationQueueDepth_def split: worker.split)

lemma remaining_bound: "dispatcher_ok d \<Longrightarrow> remaining d \<le> 99 * length (ds_targets d)"
proof -
  assume "dispatcher_ok d"
  then have "\<forall>t \<in> set (ds_targets d). backlog t \<le> 99" using ok_targets backlog_bound by blast
  moreover have "\<forall>t \<in> set ts. f t \<le> (c :: nat) \<Longrightarrow> (\<Sum>t \<leftarrow> ts. f t) \<le> c * length ts" for ts and f :: "targetDispatcher \<Rightarrow> nat" and c by (induction ts) auto
  ultimately show ?thesis by (simp add: remaining_def)
qed


text \<open>
  (C22) A stopped dispatcher drains. Once the shutdown has closed the queues, whatever the senders answer and whether or not the deadline expires, nothing more is admitted; the workers can make at most ninety-nine steps for each target;
  and when they can make no more, which some run of them reaches, all have ended and everything that was ever admitted has been settled exactly once, in order.
\<close>

theorem stopped_dispatcher_drains:
  assumes "newDispatcherWith specifications = Some start" and "dispatch_step\<^sup>*\<^sup>* start d" and "ds_stop d = StopDone"
  shows "(\<forall>d'. dispatch_step\<^sup>*\<^sup>* d d' \<longrightarrow> map td_admitted (ds_targets d') = map td_admitted (ds_targets d)) \<and>
    (\<forall>n d'. (worker_step ^^ n) d d' \<longrightarrow> n \<le> 99 * length (ds_targets d)) \<and> (\<exists>d'. worker_step\<^sup>*\<^sup>* d d' \<and> (\<nexists>d''. worker_step d' d'')) \<and>
    (\<forall>d'. dispatch_step\<^sup>*\<^sup>* d d' \<longrightarrow> (\<nexists>d''. worker_step d' d'') \<longrightarrow>
      (\<forall>t \<in> set (ds_targets d'). td_worker t = WorkerExited \<and> map fst (td_settled t) = td_admitted t))"
proof (intro conjI allI impI)
  note ok = reachable_ok [OF assms(1,2)]
  show "map td_admitted (ds_targets d') = map td_admitted (ds_targets d)" if "dispatch_step\<^sup>*\<^sup>* d d'" for d' using stopped_steps [OF that ok assms(3)] by blast
  show "n \<le> 99 * length (ds_targets d)" if "(worker_step ^^ n) d d'" for n d' using workers_bounded [OF that] remaining_bound [OF ok] by linarith
  show "\<exists>d'. worker_step\<^sup>*\<^sup>* d d' \<and> (\<nexists>d''. worker_step d' d'')" by (rule workers_end)
  show "\<forall>t \<in> set (ds_targets d'). td_worker t = WorkerExited \<and> map fst (td_settled t) = td_admitted t"
    if "dispatch_step\<^sup>*\<^sup>* d d'" "\<nexists>d''. worker_step d' d''" for d'
  proof -
    have d': "dispatcher_ok d'" "ds_stop d' = StopDone" using stopped_steps [OF that(1) ok assms(3)] by blast+
    show ?thesis
    proof
      fix t assume t: "t \<in> set (ds_targets d')"
      then have "td_worker t = WorkerExited" using stuck_workers [OF d' that(2)] by (auto simp: in_set_conv_nth)
      then show "td_worker t = WorkerExited \<and> map fst (td_settled t) = td_admitted t" using ok_targets [OF d'(1) t] by (simp add: target_ok_def held_def)
    qed
  qed
qed

section \<open>An example\<close>

definition example_dispatcher :: dispatcher where
  "example_dispatcher = the (newDispatcherWith [TargetBark])"

lemma example_dispatcher: "newDispatcherWith [TargetBark] = Some example_dispatcher"
  by (simp add: example_dispatcher_def newDispatcherWith_def)

text \<open>One event is queued, and the dispatcher is stopped before its worker has taken it.\<close>

definition example_sent :: "queuedNotification \<Rightarrow> dispatcher" where
  "example_sent q = set_publisher 0 PublisherIdle (send_next 0 q 0 True (set_publisher 0 (PublisherSending q 0 True) example_dispatcher))"

lemma example_sent_fields:
  "ds_stop (example_sent q) = StopIdle" "ds_publishers (example_sent q) = (\<lambda>_. PublisherIdle)"
  "ds_targets (example_sent q) = [(new_target TargetBark)\<lparr>td_queue := [q], td_admitted := [q]\<rparr>]"
  by (auto simp: example_sent_def example_dispatcher_def newDispatcherWith_def set_publisher_def send_next_def set_target_def offer_def new_target_def notificationQueueDepth_def)

lemma caller_dispatch: "caller_step d d' \<Longrightarrow> dispatch_step\<^sup>*\<^sup>* d d'"
  by (simp add: dispatch_step_def r_into_rtranclp)

lemma example_is_queued: "renderApplicationEvent example_event = Some message \<Longrightarrow>
    dispatch_step\<^sup>*\<^sup>* example_dispatcher (example_sent \<lparr>qn_event = ev_Kind example_event, qn_message = message\<rparr>)"
proof -
  assume message: "renderApplicationEvent example_event = Some message"
  let ?q = "\<lparr>qn_event = ev_Kind example_event, qn_message = message\<rparr>"
  let ?a = "set_publisher 0 (PublisherSending ?q 0 True) example_dispatcher"
  let ?b = "send_next 0 ?q 0 True ?a"
  have "caller_step example_dispatcher ?a"
    using message by (intro caller_step.publish_begin) (simp_all add: example_dispatcher_def newDispatcherWith_def writer_pending_def)
  moreover have "caller_step ?a ?b"
    by (intro caller_step.publish_send) (simp_all add: set_publisher_def example_dispatcher_def newDispatcherWith_def)
  moreover have "caller_step ?b (example_sent ?q)" unfolding example_sent_def
    by (rule caller_step.publish_end [where q = ?q and k = 1 and accepted = True])
      (simp_all add: send_next_def offer_def set_publisher_def set_target_def example_dispatcher_def newDispatcherWith_def new_target_def notificationQueueDepth_def)
  ultimately show ?thesis by (meson caller_dispatch rtranclp_trans)
qed

lemma example_is_stopped: "\<exists>d (q :: queuedNotification). dispatch_step\<^sup>*\<^sup>* example_dispatcher d \<and> ds_stop d = StopDone \<and> map td_admitted (ds_targets d) = [[q]]"
proof -
  obtain message where message: "renderApplicationEvent example_event = Some message" using example_rendered by blast
  let ?q = "\<lparr>qn_event = ev_Kind example_event, qn_message = message\<rparr>"
  let ?a = "(example_sent ?q)\<lparr>ds_stop := StopWaiting\<rparr>"
  let ?b = "?a\<lparr>ds_stop := StopClosing 0, ds_accepting := False\<rparr>"
  let ?c = "close_next 0 ?b"
  have "caller_step (example_sent ?q) ?a" by (intro caller_step.stop_begin) (simp add: example_sent_fields)
  moreover have "caller_step ?a ?b" by (intro caller_step.stop_lock) (simp_all add: example_sent_fields reading_def)
  moreover have "caller_step ?b ?c" by (intro caller_step.stop_close) (simp_all add: example_sent_fields)
  moreover have closed: "ds_stop ?c = StopClosing 1" "map td_admitted (ds_targets ?c) = [[?q]]" "length (ds_targets ?c) = 1"
    by (simp_all add: close_next_def set_target_def example_sent_fields new_target_def)
  moreover from this have "caller_step ?c (?c\<lparr>ds_stop := StopDone\<rparr>)" using caller_step.stop_unlock [of ?c 1] by simp
  ultimately have "dispatch_step\<^sup>*\<^sup>* example_dispatcher (?c\<lparr>ds_stop := StopDone\<rparr>)"
    using example_is_queued [OF message] by (meson caller_dispatch rtranclp_trans)
  then show ?thesis using closed(2) by (intro exI [of _ "?c\<lparr>ds_stop := StopDone\<rparr>"] exI [of _ ?q]) simp
qed


theorem stopped_dispatcher_drains_witness:
  "\<exists>d (q :: queuedNotification) d'. dispatch_step\<^sup>*\<^sup>* example_dispatcher d \<and> ds_stop d = StopDone \<and> map td_admitted (ds_targets d) = [[q]] \<and> worker_step\<^sup>*\<^sup>* d d' \<and> (\<nexists>d''. worker_step d' d'')"
proof -
  obtain d and q :: queuedNotification where d: "dispatch_step\<^sup>*\<^sup>* example_dispatcher d" "ds_stop d = StopDone" "map td_admitted (ds_targets d) = [[q]]"
    using example_is_stopped by metis
  obtain d' where "worker_step\<^sup>*\<^sup>* d d'" "\<nexists>d''. worker_step d' d''" using stopped_dispatcher_drains [OF example_dispatcher d(1,2)] by (elim conjE exE)
  then show ?thesis using d by (intro exI conjI)
qed

end
