(* ===== verification/Containerd.thy ===== *)
theory Containerd
  imports Json
begin

text \<open>
  The containerd codec of the container configuration (\<open>config.go\<close>, \<open>validate.go\<close>, \<open>encode.go\<close> and \<open>decode.go\<close> of \<open>src/containerconfig/containerd\<close>, with the errors of
  \<open>src/containerconfig/validation.go\<close>): a specification is checked, brought into canonical form and split into an OCI specification and the settings that containerd leaves to its client.
  Of the OCI types only the fields that the program sets are represented, beside one that says whether any other field is set. Case mapping of non-ASCII text, the text of a parsed IP
  address, the sign of a parsed duration and the version of the OCI types are parameters.
\<close>

section \<open>Libraries\<close>

record library =
  lb_upper :: "string \<Rightarrow> string"
  lb_lower :: "string \<Rightarrow> string"
  lb_ParseAddr :: "string \<Rightarrow> string option"
  lb_ParseDuration :: "string \<Rightarrow> int option"
  lb_Version :: string

definition upper_char :: "char \<Rightarrow> char" where
  "upper_char c = (let n = of_char c :: nat in if 97 \<le> n \<and> n \<le> 122 then char_of (n - 32) else c)"

definition ascii_text :: "string \<Rightarrow> bool" where
  "ascii_text s = list_all (in_range 0 0x7F) s"

definition ToUpper :: "library \<Rightarrow> string \<Rightarrow> string" where
  "ToUpper l s = (if ascii_text s then map upper_char s else lb_upper l s)"

definition ToLower :: "library \<Rightarrow> string \<Rightarrow> string" where
  "ToLower l s = (if ascii_text s then map lower_char s else lb_lower l s)"

text \<open>\<open>strconv.ParseUint(s, 10, bits)\<close>: the value it returns, also beside an error, and whether there is none.\<close>

fun parse_uint_digits :: "nat \<Rightarrow> nat \<Rightarrow> string \<Rightarrow> nat \<times> bool" where
  "parse_uint_digits maximum n [] = (n, True)"
| "parse_uint_digits maximum n (c # cs) =
     (if \<not> in_range 48 57 c then (0, False)
      else let n = n * 10 + (of_char c - 48) in if n > maximum then (maximum, False) else parse_uint_digits maximum n cs)"

definition ParseUint :: "string \<Rightarrow> nat \<Rightarrow> nat \<times> bool" where
  "ParseUint s bits = (if s = [] then (0, False) else parse_uint_digits (2 ^ bits - 1) 0 s)"

section \<open>Validation errors (validation.go)\<close>

datatype ValidationCode = ValidationInvalidDocument | ValidationUnsupportedField | ValidationInvalidValue | ValidationUnsupportedCapability

record ValidationError =
  ve_Code :: ValidationCode
  ve_Path :: string

definition validation_code_string :: "ValidationCode \<Rightarrow> string" where
  "validation_code_string code = (case code of ValidationInvalidDocument \<Rightarrow> ''invalid_document'' | ValidationUnsupportedField \<Rightarrow> ''unsupported_field''
     | ValidationInvalidValue \<Rightarrow> ''invalid_value'' | ValidationUnsupportedCapability \<Rightarrow> ''unsupported_capability'')"

definition validation_Error :: "ValidationError \<Rightarrow> string" where
  "validation_Error validation =
     (let message = ''container configuration validation failed: '' @ validation_code_string (ve_Code validation)
      in if ve_Path validation \<noteq> [] then message @ '' at '' @ ve_Path validation else message)"

definition validationError :: "ValidationCode \<Rightarrow> string \<Rightarrow> ValidationError" where
  "validationError code field = \<lparr>ve_Code = code, ve_Path = field\<rparr>"

section \<open>The projection (config.go)\<close>

record oci_User =
  us_UID :: "32 word"
  us_GID :: "32 word"
  us_AdditionalGids :: "32 word slice"

record oci_LinuxCapabilities =
  lc_Bounding :: "string slice"
  lc_Effective :: "string slice"
  lc_Permitted :: "string slice"

record oci_POSIXRlimit =
  rl_Type :: string
  rl_Hard :: "64 word"
  rl_Soft :: "64 word"

record oci_Process =
  pr_Terminal :: bool
  pr_User :: oci_User
  pr_Args :: "string slice"
  pr_Env :: "string slice"
  pr_Cwd :: string
  pr_Capabilities :: "oci_LinuxCapabilities option"
  pr_Rlimits :: "oci_POSIXRlimit slice"
  pr_NoNewPrivileges :: bool
  pr_OOMScoreAdj :: "i64 option"

record oci_Root =
  rt_Path :: string
  rt_Readonly :: bool

record oci_Mount =
  om_Destination :: string
  om_Type :: string
  om_Source :: string
  om_Options :: "string slice"

datatype oci_LinuxNamespace = PIDNamespace | IPCNamespace | UTSNamespace | MountNamespace | NetworkNamespace | CgroupNamespace | OtherNamespace string

record oci_LinuxMemory =
  me_Limit :: "i64 option"
  me_DisableOOMKiller :: "bool option"

record oci_LinuxCPU =
  cp_Period :: "64 word option"
  cp_Quota :: "i64 option"

record oci_LinuxDeviceCgroup =
  dc_Allow :: bool
  dc_Access :: string

text \<open>\<open>LinuxPids\<close> and \<open>LinuxBlockIO\<close> have one used field each, a pointer, so they are options of options.\<close>

record oci_LinuxResources =
  rs_Devices :: "oci_LinuxDeviceCgroup slice"
  rs_Memory :: "oci_LinuxMemory option"
  rs_CPU :: "oci_LinuxCPU option"
  rs_Pids :: "i64 option option"
  rs_BlockIO :: "u16 option option"

record oci_Linux =
  li_Sysctl :: "(string, string) fmap option"
  li_Resources :: "oci_LinuxResources option"
  li_Namespaces :: "oci_LinuxNamespace slice"
  li_MaskedPaths :: "string slice"
  li_ReadonlyPaths :: "string slice"

record oci_Spec =
  oc_Version :: string
  oc_Process :: "oci_Process option"
  oc_Root :: "oci_Root option"
  oc_Hostname :: string
  oc_Mounts :: "oci_Mount slice"
  oc_Linux :: "oci_Linux option"
  oc_Other :: bool

record Control =
  ct_ServiceName :: string
  ct_ContainerName :: string
  ct_Platform :: Platform
  ct_EntrypointLength :: int
  ct_EntrypointDefined :: bool
  ct_CommandDefined :: bool
  ct_NetworkMode :: string
  ct_CgroupParent :: string
  ct_CPUs :: string
  ct_Restart :: string
  ct_SharedMemoryBytes :: i64
  ct_StopSignal :: string
  ct_StopTimeout :: "i64 option"
  ct_User :: string
  ct_WorkingDirectory :: string
  ct_CapAdd :: "string slice"
  ct_CapDrop :: "string slice"
  ct_DNS :: "string slice"
  ct_DNSOptions :: "string slice"
  ct_DNSSearch :: "string slice"
  ct_Devices :: "DeviceMapping slice"
  ct_ExtraHosts :: "string slice"
  ct_GroupAdd :: "string slice"
  ct_Labels :: "string slice"
  ct_ExposedPorts :: "ExposedPort slice"
  ct_Ports :: "PortBinding slice"
  ct_Tmpfs :: "TmpfsMount slice"
  ct_Mounts :: "Mount slice"
  ct_Init :: "bool option"
  ct_StdinOpen :: "bool option"
  ct_OOMKillDisable :: "bool option"
  ct_ReadOnly :: "bool option"
  ct_TTY :: "bool option"
  ct_Healthcheck :: "Healthcheck option"

record Configuration =
  cf_OCI :: oci_Spec
  cf_Control :: Control

end
