(* ===== verification/ContainerdCheck.thy ===== *)
theory ContainerdCheck
  imports Containerd
begin

text \<open>
  The checks of the containerd codec (\<open>validate.go\<close> of \<open>src/containerconfig/containerd\<close>). A loop that refuses a second element with the same key is one recursion, \<open>claim_keys\<close>, over the keys
  seen so far. Shown here: what this recursion accepts, that the order of the unordered fields does not matter to any check, and that the CPU quota is the exact decimal product
  without an overflow.
\<close>

section \<open>Definitions\<close>

definition maximumTextBytes :: nat where "maximumTextBytes = 4096"
definition minimumBlkio :: int where "minimumBlkio = 10"
definition maximumBlkio :: int where "maximumBlkio = 1000"
definition minimumOOMScore :: int where "minimumOOMScore = -1000"
definition maximumOOMScore :: int where "maximumOOMScore = 1000"
definition cpuPrecision :: nat where "cpuPrecision = 9"
definition cpuScale :: "64 word" where "cpuScale = 1000000000"
definition cpuPeriod :: "64 word" where "cpuPeriod = 100000"
definition cgroupPrivate :: string where "cgroupPrivate = ''private''"
definition allCapabilities :: string where "allCapabilities = ''ALL''"
definition sharedMemoryMountPoint :: string where "sharedMemoryMountPoint = ''/dev/shm''"

fun claim_keys :: "('a \<Rightarrow> bool) \<Rightarrow> ('a \<Rightarrow> 'k) \<Rightarrow> 'k list \<Rightarrow> 'a list \<Rightarrow> 'k list option" where
  "claim_keys ok key seen [] = Some seen"
| "claim_keys ok key seen (x # xs) =
     (if \<not> ok x then None else if key x \<in> set seen then None else claim_keys ok key (key x # seen) xs)"

definition validPlatform :: "Platform \<Rightarrow> bool" where
  "validPlatform v \<longleftrightarrow> pf_OS v = ''linux'' \<and> (pf_Architecture v = ''amd64'' \<and> pf_Variant v = [] \<or> pf_Architecture v = ''arm64'' \<and> pf_Variant v = ''v8'')"

definition validText :: "string \<Rightarrow> bool" where
  "validText v \<longleftrightarrow> length v \<le> maximumTextBytes \<and> utf8_valid v \<and> \<not> contains_nul v"

definition asciiAlphaNumeric :: "char \<Rightarrow> bool" where
  "asciiAlphaNumeric c \<longleftrightarrow> in_range 97 122 c \<or> in_range 65 90 c \<or> in_range 48 57 c"

definition validName :: "string \<Rightarrow> bool" where
  "validName v \<longleftrightarrow> v \<noteq> [] \<and> validText v \<and> asciiAlphaNumeric (hd v) \<and> asciiAlphaNumeric (last v) \<and>
     list_all (\<lambda>c. asciiAlphaNumeric c \<or> c \<in> set ''.-_'') (tl (butlast v))"

definition validArguments :: "string slice \<Rightarrow> bool" where
  "validArguments vs = list_all validText (items vs)"

definition validTextValues :: "string slice \<Rightarrow> bool" where
  "validTextValues vs = list_all (\<lambda>v. v \<noteq> [] \<and> validText v) (items vs)"

definition validAbsolutePath :: "string \<Rightarrow> bool" where
  "validAbsolutePath v \<longleftrightarrow> v \<noteq> [] \<and> hd v = CHR ''/'' \<and> filepath_Clean v = v"

definition validWorkingDirectory :: "string \<Rightarrow> bool" where
  "validWorkingDirectory v \<longleftrightarrow> validText v \<and> (v = [] \<or> validAbsolutePath v)"

definition parsedUser :: "string \<Rightarrow> oci_User \<times> bool" where
  "parsedUser v =
     (let zero = \<lparr>us_UID = 0, us_GID = 0, us_AdditionalGids = None\<rparr>
      in if v = [] then (zero, True)
         else case strings_Cut v (CHR '':'') of (uidValue, gidValue, found) \<Rightarrow>
           case ParseUint uidValue 32 of (uid, valid) \<Rightarrow>
             if \<not> valid then (zero, False)
             else case (if found then ParseUint gidValue 32 else (uid, True)) of (gid, valid) \<Rightarrow>
               if \<not> valid then (zero, False) else (\<lparr>us_UID = of_nat uid, us_GID = of_nat gid, us_AdditionalGids = None\<rparr>, True))"

definition validUser :: "string \<Rightarrow> bool" where
  "validUser v = snd (parsedUser v)"

definition validOptionalRange :: "i64 option \<Rightarrow> int \<Rightarrow> int \<Rightarrow> bool" where
  "validOptionalRange v minimum maximum = (case v of None \<Rightarrow> True | Some n \<Rightarrow> sint n \<ge> minimum \<and> sint n \<le> maximum)"

definition validPids :: "i64 option \<Rightarrow> bool" where
  "validPids v = (case v of None \<Rightarrow> True | Some n \<Rightarrow> sint n = -1 \<or> sint n > 0)"

definition validRestart :: "string \<Rightarrow> bool" where
  "validRestart v \<longleftrightarrow> v \<in> set [[], ''no'', ''always'', ''unless-stopped'', ''on-failure''] \<or>
     (case cutPrefix v ''on-failure:'' of None \<Rightarrow> False | Some retries \<Rightarrow> (case ParseUint retries 31 of (parsed, valid) \<Rightarrow> valid \<and> parsed > 0))"

definition validStopTimeout :: "i64 option \<Rightarrow> bool" where
  "validStopTimeout v = (case v of None \<Rightarrow> True | Some n \<Rightarrow> sint n > 0)"

definition capabilityName :: "library \<Rightarrow> string \<Rightarrow> string" where
  "capabilityName l v =
     (let v = ToUpper l v in if v = allCapabilities then v else if take 4 v \<noteq> ''CAP_'' then ''CAP_'' @ v else v)"

definition supportedCapabilities :: "string list" where
  "supportedCapabilities =
     [''CAP_AUDIT_CONTROL'', ''CAP_AUDIT_READ'', ''CAP_AUDIT_WRITE'', ''CAP_BLOCK_SUSPEND'', ''CAP_BPF'', ''CAP_CHECKPOINT_RESTORE'', ''CAP_CHOWN'', ''CAP_DAC_OVERRIDE'',
      ''CAP_DAC_READ_SEARCH'', ''CAP_FOWNER'', ''CAP_FSETID'', ''CAP_IPC_LOCK'', ''CAP_IPC_OWNER'', ''CAP_KILL'', ''CAP_LEASE'', ''CAP_LINUX_IMMUTABLE'', ''CAP_MAC_ADMIN'',
      ''CAP_MAC_OVERRIDE'', ''CAP_MKNOD'', ''CAP_NET_ADMIN'', ''CAP_NET_BIND_SERVICE'', ''CAP_NET_BROADCAST'', ''CAP_NET_RAW'', ''CAP_PERFMON'', ''CAP_SETFCAP'', ''CAP_SETGID'',
      ''CAP_SETPCAP'', ''CAP_SETUID'', ''CAP_SYS_ADMIN'', ''CAP_SYS_BOOT'', ''CAP_SYS_CHROOT'', ''CAP_SYS_MODULE'', ''CAP_SYS_NICE'', ''CAP_SYS_PACCT'', ''CAP_SYS_PTRACE'',
      ''CAP_SYS_RAWIO'', ''CAP_SYS_RESOURCE'', ''CAP_SYS_TIME'', ''CAP_SYS_TTY_CONFIG'', ''CAP_SYSLOG'', ''CAP_WAKE_ALARM'']"

definition valid_capability :: "library \<Rightarrow> bool \<Rightarrow> string \<Rightarrow> bool" where
  "valid_capability l dropped v \<longleftrightarrow>
     (let name = capabilityName l v; supported = (name \<in> set supportedCapabilities \<or> dropped \<and> name = allCapabilities) in v \<noteq> [] \<and> validText v \<and> supported)"

definition validCapabilities :: "library \<Rightarrow> string slice \<Rightarrow> string slice \<Rightarrow> bool" where
  "validCapabilities l added dropped \<longleftrightarrow>
     claim_keys (valid_capability l False) (capabilityName l) [] (items added) \<noteq> None \<and> claim_keys (valid_capability l True) (capabilityName l) [] (items dropped) \<noteq> None"

definition validNumericGroups :: "string slice \<Rightarrow> bool" where
  "validNumericGroups vs = list_all (\<lambda>v. snd (ParseUint v 32)) (items vs)"

definition cut_name :: "string \<Rightarrow> string" where
  "cut_name v = fst (strings_Cut v (CHR ''=''))"

definition validEnvironment :: "string slice \<Rightarrow> bool" where
  "validEnvironment vs \<longleftrightarrow> claim_keys (\<lambda>v. snd (snd (strings_Cut v (CHR ''=''))) \<and> cut_name v \<noteq> [] \<and> validText v) cut_name [] (items vs) \<noteq> None"

definition validLabels :: "string slice \<Rightarrow> bool" where
  "validLabels vs \<longleftrightarrow> claim_keys (\<lambda>v. cut_name v \<noteq> [] \<and> validText v) cut_name [] (items vs) \<noteq> None"

definition validStringMap :: "(string, string) fmap option \<Rightarrow> bool" where
  "validStringMap vs = (case vs of None \<Rightarrow> True | Some m \<Rightarrow> fmpred (\<lambda>k v. k \<noteq> [] \<and> validText k \<and> validText v) m)"

definition canonical_address :: "library \<Rightarrow> string \<Rightarrow> bool" where
  "canonical_address l v \<longleftrightarrow> lb_ParseAddr l v = Some v"

definition validDNS :: "library \<Rightarrow> string slice \<Rightarrow> bool" where
  "validDNS l vs = list_all (canonical_address l) (items vs)"

definition validDevicePermissions :: "string \<Rightarrow> bool" where
  "validDevicePermissions v \<longleftrightarrow> v \<noteq> [] \<and> claim_keys (\<lambda>c. c \<in> set ''rwm'') (\<lambda>c. c) [] v \<noteq> None"

definition validDevices :: "DeviceMapping slice \<Rightarrow> bool" where
  "validDevices vs \<longleftrightarrow>
     claim_keys (\<lambda>v. validAbsolutePath (dev_Source v) \<and> validAbsolutePath (dev_Target v) \<and> validDevicePermissions (dev_Permissions v)) dev_Target [] (items vs) \<noteq> None"

definition validTmpfs :: "TmpfsMount slice \<Rightarrow> bool" where
  "validTmpfs vs \<longleftrightarrow> claim_keys (\<lambda>v. validAbsolutePath (tm_Target v) \<and> validTextValues (tm_Options v)) tm_Target [] (items vs) \<noteq> None"

definition valid_ulimit :: "Ulimit \<Rightarrow> bool" where
  "valid_ulimit v \<longleftrightarrow> \<not> (ul_Name v = [] \<or> \<not> validText (ul_Name v) \<or> sint (ul_Soft v) < -1 \<or> sint (ul_Hard v) < -1 \<or>
     sint (ul_Soft v) = -1 \<and> sint (ul_Hard v) \<noteq> -1 \<or> sint (ul_Hard v) \<noteq> -1 \<and> sint (ul_Soft v) > sint (ul_Hard v))"

definition validUlimits :: "Ulimit slice \<Rightarrow> bool" where
  "validUlimits vs \<longleftrightarrow> claim_keys valid_ulimit ul_Name [] (items vs) \<noteq> None"

definition validProtocol :: "string \<Rightarrow> bool \<Rightarrow> bool" where
  "validProtocol v exposed \<longleftrightarrow> v = ''tcp'' \<or> v = ''udp'' \<or> exposed \<and> v = ''sctp''"

definition validHostIP :: "library \<Rightarrow> string \<Rightarrow> bool" where
  "validHostIP l v \<longleftrightarrow> v = [] \<or> canonical_address l v"

definition port_text :: "u16 \<Rightarrow> string \<Rightarrow> string" where
  "port_text target protocol = protocol @ ''/'' @ decimal (unat target)"

definition validPorts :: "library \<Rightarrow> ExposedPort slice \<Rightarrow> PortBinding slice \<Rightarrow> bool" where
  "validPorts l exposed ports =
     (case claim_keys (\<lambda>v. ep_TargetPort v \<noteq> 0 \<and> validProtocol (ep_Protocol v) True) (\<lambda>v. port_text (ep_TargetPort v) (ep_Protocol v)) [] (items exposed) of
        None \<Rightarrow> False
      | Some seen \<Rightarrow> claim_keys (\<lambda>v. pb_PublishedPort v \<noteq> 0 \<and> pb_TargetPort v \<noteq> 0 \<and> validProtocol (pb_Protocol v) False \<and> validHostIP l (pb_HostIP v))
          (\<lambda>v. port_text (pb_TargetPort v) (pb_Protocol v)) seen (items ports) \<noteq> None)"

definition valid_mount :: "Mount \<Rightarrow> bool" where
  "valid_mount v \<longleftrightarrow> validAbsolutePath (mt_Target v) \<and>
     (case mt_Kind v of MountBind \<Rightarrow> validAbsolutePath (mt_Source v) | MountVolume \<Rightarrow> mt_Source v = [] \<and> \<not> mt_ReadOnly v | MountKindZero \<Rightarrow> False)"

definition validMounts :: "Mount slice \<Rightarrow> bool" where
  "validMounts vs \<longleftrightarrow> claim_keys valid_mount mt_Target [] (items vs) \<noteq> None"

definition targetPaths :: "Spec \<Rightarrow> string list" where
  "targetPaths spec = map dev_Target (items (Devices spec)) @ map tm_Target (items (Tmpfs spec)) @ map mt_Target (items (Mounts spec))"

definition validTargets :: "Spec \<Rightarrow> bool" where
  "validTargets spec =
     (case claim_keys (\<lambda>_. True) (\<lambda>target. target) [] (targetPaths spec) of
        None \<Rightarrow> False
      | Some seen \<Rightarrow> SharedMemoryBytes spec = 0 \<or> sharedMemoryMountPoint \<notin> set seen)"

definition validDuration :: "library \<Rightarrow> string \<Rightarrow> bool" where
  "validDuration l v \<longleftrightarrow> v = [] \<or> (case lb_ParseDuration l v of None \<Rightarrow> False | Some parsed \<Rightarrow> parsed > 0)"

definition validHealthcheck :: "library \<Rightarrow> Healthcheck option \<Rightarrow> bool" where
  "validHealthcheck l v =
     (case v of None \<Rightarrow> True | Some v \<Rightarrow>
        if hc_Disabled v
        then items (hc_Test v) = [] \<and> hc_Interval v = [] \<and> hc_Timeout v = [] \<and> hc_Retries v = None \<and> hc_StartPeriod v = [] \<and> hc_StartInterval v = []
        else validArguments (hc_Test v) \<and> (items (hc_Test v) = [] \<or> hd (items (hc_Test v)) = ''CMD'' \<or> hd (items (hc_Test v)) = ''CMD-SHELL'') \<and>
          validDuration l (hc_Interval v) \<and> validDuration l (hc_Timeout v) \<and> validDuration l (hc_StartPeriod v) \<and> validDuration l (hc_StartInterval v) \<and>
          (case hc_Retries v of None \<Rightarrow> True | Some retries \<Rightarrow> sint retries > 0))"

text \<open>The quota of a decimal number of CPUs, in unsigned arithmetic of 64 bits.\<close>

definition cpuQuota :: "string \<Rightarrow> i64 \<times> bool" where
  "cpuQuota v =
     (if v = [] then (0, True)
      else case strings_Cut v (CHR ''.'') of (integer, fraction, found) \<Rightarrow>
        if integer = [] \<or> hd integer = CHR ''+'' \<or> hd integer = CHR ''-'' \<or> length fraction > cpuPrecision then (0, False)
        else case ParseUint integer 63 of (whole, valid) \<Rightarrow>
          if \<not> valid \<or> of_nat whole > (9223372036854775807 :: 64 word) div cpuPeriod then (0, False)
          else case ParseUint (fraction @ replicate (cpuPrecision - length fraction) (CHR ''0'')) 32 of (partial, valid) \<Rightarrow>
            if \<not> valid then (0, False)
            else let quota = of_nat whole * cpuPeriod + of_nat partial * cpuPeriod div cpuScale
                 in if quota = 0 \<or> quota > 9223372036854775807 then (0, False) else (quota, True))"

text \<open>The checks in their order, each with the path that a failure reports.\<close>

definition spec_checks :: "library \<Rightarrow> Spec \<Rightarrow> (string \<times> bool) list" where
  "spec_checks l s =
     [(''/service_name'', validName (ServiceName s)),
      (''/container_name'', validName (ContainerName s)),
      (''/platform'', validPlatform (SpecPlatform s)),
      (''/network_mode'', NetworkMode s = ''bridge''),
      (''/entrypoint'', validArguments (Entrypoint s)),
      (''/command'', validArguments (Command s)),
      (''/process'', length (items (Entrypoint s)) + length (items (Command s)) \<noteq> 0),
      (''/hostname'', validText (Hostname s)),
      (''/working_directory'', validWorkingDirectory (WorkingDirectory s)),
      (''/stop_signal'', validText (StopSignal s)),
      (''/user'', validUser (User s)),
      (''/memory_bytes'', sint (MemoryBytes s) \<ge> 0),
      (''/shared_memory_bytes'', sint (SharedMemoryBytes s) \<ge> 0),
      (''/blkio_weight'', validOptionalRange (BlkioWeight s) minimumBlkio maximumBlkio),
      (''/oom_score_adj'', validOptionalRange (OOMScoreAdj s) minimumOOMScore maximumOOMScore),
      (''/pids_limit'', validPids (PidsLimit s)),
      (''/cgroup'', Cgroup s = [] \<or> Cgroup s = cgroupPrivate),
      (''/cgroup_parent'', validText (CgroupParent s)),
      (''/restart'', validRestart (Restart s)),
      (''/stop_timeout'', validStopTimeout (StopTimeout s)),
      (''/capabilities'', validCapabilities l (CapAdd s) (CapDrop s)),
      (''/dns_options'', validTextValues (DNSOptions s)),
      (''/dns_search'', validTextValues (DNSSearch s)),
      (''/extra_hosts'', validTextValues (ExtraHosts s)),
      (''/group_add'', validNumericGroups (GroupAdd s)),
      (''/environment'', validEnvironment (Environment s)),
      (''/labels'', validLabels (Labels s)),
      (''/sysctls'', validStringMap (Sysctls s)),
      (''/dns'', validDNS l (DNS s)),
      (''/devices'', validDevices (Devices s)),
      (''/tmpfs'', validTmpfs (Tmpfs s)),
      (''/ulimits'', validUlimits (Ulimits s)),
      (''/ports'', validPorts l (ExposedPorts s) (Ports s)),
      (''/mounts'', validMounts (Mounts s)),
      (''/mounts'', validTargets s),
      (''/healthcheck'', validHealthcheck l (SpecHealthcheck s))]"

fun first_failure :: "(string \<times> bool) list \<Rightarrow> string option" where
  "first_failure [] = None"
| "first_failure ((path, valid) # checks) = (if \<not> valid then Some path else first_failure checks)"

definition canonicalSpec :: "library \<Rightarrow> Spec \<Rightarrow> ValidationError + Spec" where
  "canonicalSpec l spec =
     (case first_failure (spec_checks l spec) of
        Some path \<Rightarrow> Inl (validationError ValidationInvalidValue path)
      | None \<Rightarrow>
          if Init spec = Some True then Inl (validationError ValidationUnsupportedCapability ''/init'')
          else if (case SpecHealthcheck spec of None \<Rightarrow> False | Some check \<Rightarrow> \<not> hc_Disabled check)
          then Inl (validationError ValidationUnsupportedCapability ''/healthcheck'')
          else if \<not> snd (cpuQuota (CPUs spec)) then Inl (validationError ValidationInvalidValue ''/cpus'')
          else Inr (Canonical spec))"

section \<open>Loops over keys\<close>

lemma claim_keys_eq:
  "claim_keys ok key seen xs =
     (if (\<forall>x \<in> set xs. ok x) \<and> distinct (map key xs) \<and> set (map key xs) \<inter> set seen = {} then Some (rev (map key xs) @ seen) else None)"
  by (induction xs arbitrary: seen) auto

lemma claim_keys_valid: "claim_keys ok key [] xs \<noteq> None \<longleftrightarrow> (\<forall>x \<in> set xs. ok x) \<and> distinct (map key xs)"
  by (simp add: claim_keys_eq)

lemma distinct_map_mset: "mset xs = mset ys \<Longrightarrow> distinct (map f xs) = distinct (map f ys)"
  by (rule mset_eq_imp_distinct_iff) simp

lemma claim_keys_mset: "mset xs = mset ys \<Longrightarrow> (claim_keys ok key [] xs = None) = (claim_keys ok key [] ys = None)"
  using claim_keys_valid [of ok key xs] claim_keys_valid [of ok key ys] distinct_map_mset mset_eq_setD by metis

section \<open>The order of unordered fields\<close>

text \<open>A canonical specification holds the same elements in each of its fields.\<close>

lemma mset_canonicalStrings: "mset (items (canonicalStrings v)) = mset (items v)"
  by (simp add: canonicalStrings_def)

context key_order begin

lemma mset_canonicalSlice: "mset (items (canonicalSlice v cmp)) = mset (items v)"
  by (simp add: canonicalSlice_def)

end

lemma canonical_msets:
  "mset (items (CapAdd (Canonical s))) = mset (items (CapAdd s))" "mset (items (CapDrop (Canonical s))) = mset (items (CapDrop s))"
  "mset (items (ExtraHosts (Canonical s))) = mset (items (ExtraHosts s))" "mset (items (GroupAdd (Canonical s))) = mset (items (GroupAdd s))"
  "mset (items (Environment (Canonical s))) = mset (items (Environment s))" "mset (items (Labels (Canonical s))) = mset (items (Labels s))"
  "mset (items (Devices (Canonical s))) = mset (items (Devices s))" "mset (items (Tmpfs (Canonical s))) = mset (items (Tmpfs s))"
  "mset (items (Ulimits (Canonical s))) = mset (items (Ulimits s))" "mset (items (ExposedPorts (Canonical s))) = mset (items (ExposedPorts s))"
  "mset (items (Ports (Canonical s))) = mset (items (Ports s))" "mset (items (Mounts (Canonical s))) = mset (items (Mounts s))"
  by (simp_all add: canonical_slice_simps mset_canonicalStrings device_order.mset_canonicalSlice tmpfs_order.mset_canonicalSlice ulimit_order.mset_canonicalSlice
      exposed_order.mset_canonicalSlice port_order.mset_canonicalSlice mount_order.mset_canonicalSlice)

lemmas canonical_sets = canonical_msets [THEN mset_eq_setD]

lemma canonical_keeps:
  "ServiceName (Canonical s) = ServiceName s" "ContainerName (Canonical s) = ContainerName s" "SpecPlatform (Canonical s) = SpecPlatform s"
  "NetworkMode (Canonical s) = NetworkMode s" "Entrypoint (Canonical s) = Entrypoint s" "Command (Canonical s) = Command s" "Hostname (Canonical s) = Hostname s"
  "WorkingDirectory (Canonical s) = WorkingDirectory s" "StopSignal (Canonical s) = StopSignal s" "User (Canonical s) = User s"
  "MemoryBytes (Canonical s) = MemoryBytes s" "SharedMemoryBytes (Canonical s) = SharedMemoryBytes s" "BlkioWeight (Canonical s) = BlkioWeight s"
  "OOMScoreAdj (Canonical s) = OOMScoreAdj s" "PidsLimit (Canonical s) = PidsLimit s" "Cgroup (Canonical s) = Cgroup s" "CgroupParent (Canonical s) = CgroupParent s"
  "Restart (Canonical s) = Restart s" "StopTimeout (Canonical s) = StopTimeout s" "DNSOptions (Canonical s) = DNSOptions s" "DNSSearch (Canonical s) = DNSSearch s"
  "DNS (Canonical s) = DNS s" "SpecHealthcheck (Canonical s) = SpecHealthcheck s" "Init (Canonical s) = Init s" "CPUs (Canonical s) = CPUs s"
  by (simp_all add: canonical_slice_simps)

lemma list_all_mset: "mset xs = mset ys \<Longrightarrow> list_all P xs = list_all P ys"
  by (metis list_all_iff mset_eq_setD)

lemma validPorts_iff: "validPorts l exposed ports \<longleftrightarrow>
    (\<forall>v \<in> set (items exposed). ep_TargetPort v \<noteq> 0 \<and> validProtocol (ep_Protocol v) True) \<and>
    (\<forall>v \<in> set (items ports). pb_PublishedPort v \<noteq> 0 \<and> pb_TargetPort v \<noteq> 0 \<and> validProtocol (pb_Protocol v) False \<and> validHostIP l (pb_HostIP v)) \<and>
    distinct (map (\<lambda>v. port_text (ep_TargetPort v) (ep_Protocol v)) (items exposed) @ map (\<lambda>v. port_text (pb_TargetPort v) (pb_Protocol v)) (items ports))"
  unfolding validPorts_def claim_keys_eq by auto

lemma validTargets_iff: "validTargets spec \<longleftrightarrow> distinct (targetPaths spec) \<and> (SharedMemoryBytes spec = 0 \<or> sharedMemoryMountPoint \<notin> set (targetPaths spec))"
  unfolding validTargets_def claim_keys_eq by auto

lemma canonical_checks:
  "validCapabilities l (CapAdd (Canonical s)) (CapDrop (Canonical s)) = validCapabilities l (CapAdd s) (CapDrop s)"
  "validTextValues (ExtraHosts (Canonical s)) = validTextValues (ExtraHosts s)"
  "validNumericGroups (GroupAdd (Canonical s)) = validNumericGroups (GroupAdd s)"
  "validEnvironment (Environment (Canonical s)) = validEnvironment (Environment s)"
  "validLabels (Labels (Canonical s)) = validLabels (Labels s)"
  "validStringMap (Sysctls (Canonical s)) = validStringMap (Sysctls s)"
  "validDevices (Devices (Canonical s)) = validDevices (Devices s)"
  "validTmpfs (Tmpfs (Canonical s)) = validTmpfs (Tmpfs s)"
  "validUlimits (Ulimits (Canonical s)) = validUlimits (Ulimits s)"
  "validMounts (Mounts (Canonical s)) = validMounts (Mounts s)"
proof -
  note strings = claim_keys_mset [OF canonical_msets(1)] claim_keys_mset [OF canonical_msets(2)] claim_keys_mset [OF canonical_msets(5)]
    claim_keys_mset [OF canonical_msets(6)]
  show "validCapabilities l (CapAdd (Canonical s)) (CapDrop (Canonical s)) = validCapabilities l (CapAdd s) (CapDrop s)"
    and "validEnvironment (Environment (Canonical s)) = validEnvironment (Environment s)" and "validLabels (Labels (Canonical s)) = validLabels (Labels s)"
    by (simp_all only: validCapabilities_def validEnvironment_def validLabels_def strings)
  show "validTextValues (ExtraHosts (Canonical s)) = validTextValues (ExtraHosts s)" unfolding validTextValues_def by (rule list_all_mset [OF canonical_msets(3)])
  show "validNumericGroups (GroupAdd (Canonical s)) = validNumericGroups (GroupAdd s)" unfolding validNumericGroups_def by (rule list_all_mset [OF canonical_msets(4)])
  show "validStringMap (Sysctls (Canonical s)) = validStringMap (Sysctls s)" by (auto simp: validStringMap_def canonical_slice_simps split: option.split)
  show "validDevices (Devices (Canonical s)) = validDevices (Devices s)" unfolding validDevices_def by (simp only: claim_keys_mset [OF canonical_msets(7)])
  show "validTmpfs (Tmpfs (Canonical s)) = validTmpfs (Tmpfs s)" unfolding validTmpfs_def by (simp only: claim_keys_mset [OF canonical_msets(8)])
  show "validUlimits (Ulimits (Canonical s)) = validUlimits (Ulimits s)" unfolding validUlimits_def by (simp only: claim_keys_mset [OF canonical_msets(9)])
  show "validMounts (Mounts (Canonical s)) = validMounts (Mounts s)" unfolding validMounts_def by (simp only: claim_keys_mset [OF canonical_msets(12)])
qed

lemma canonical_ports: "validPorts l (ExposedPorts (Canonical s)) (Ports (Canonical s)) = validPorts l (ExposedPorts s) (Ports s)"
proof -
  have "distinct (map f (items (ExposedPorts (Canonical s))) @ map g (items (Ports (Canonical s)))) = distinct (map f (items (ExposedPorts s)) @ map g (items (Ports s)))"
    for f :: "ExposedPort \<Rightarrow> string" and g by (rule mset_eq_imp_distinct_iff) (simp add: canonical_msets)
  then show ?thesis unfolding validPorts_iff by (simp only: canonical_sets)
qed

lemma canonical_targets: "validTargets (Canonical s) = validTargets s"
proof -
  have "mset (targetPaths (Canonical s)) = mset (targetPaths s)" by (simp add: targetPaths_def canonical_msets)
  then show ?thesis unfolding validTargets_iff canonical_keeps using mset_eq_imp_distinct_iff mset_eq_setD by metis
qed

lemma spec_checks_Canonical: "spec_checks l (Canonical s) = spec_checks l s"
  unfolding spec_checks_def by (simp only: canonical_keeps canonical_checks canonical_ports canonical_targets)

text \<open>The form in which a specification is checked has no effect on the result.\<close>

lemma canonicalSpec_Canonical: "canonicalSpec l (Canonical s) = canonicalSpec l s"
  unfolding canonicalSpec_def spec_checks_Canonical canonical_keeps Canonical_idem by (rule refl)

lemma first_failure_None: "first_failure checks = None \<longleftrightarrow> (\<forall>(path, valid) \<in> set checks. valid)"
  by (induction checks rule: first_failure.induct) auto

lemma canonicalSpec_Inr:
  "canonicalSpec l spec = Inr spec' \<longleftrightarrow> spec' = Canonical spec \<and> first_failure (spec_checks l spec) = None \<and> Init spec \<noteq> Some True \<and>
     (\<forall>check. SpecHealthcheck spec = Some check \<longrightarrow> hc_Disabled check) \<and> snd (cpuQuota (CPUs spec))"
  by (auto simp: canonicalSpec_def split: option.splits)

section \<open>The CPU quota\<close>

lemma undecimal_acc: "undecimal acc s = acc * 10 ^ length s + undecimal 0 s"
proof (induction s arbitrary: acc)
  case (Cons c cs)
  show ?case using Cons [of "acc * 10 + (of_char c - 48)"] Cons [of "of_char c - 48"] by (simp add: algebra_simps)
qed simp

lemma undecimal_less: "list_all (in_range 48 57) s \<Longrightarrow> undecimal 0 s < 10 ^ length s"
proof (induction s)
  case (Cons c cs)
  then have "of_char c - 48 \<le> (9 :: nat)" "undecimal 0 cs < 10 ^ length cs" by (simp_all add: in_range_def le_diff_conv)
  then have "(of_char c - 48) * 10 ^ length cs + undecimal 0 cs < 9 * 10 ^ length cs + 10 ^ length cs" by (meson add_le_less_mono mult_le_mono1)
  then show ?case by (simp add: undecimal_acc [of "of_char c - 48"])
qed simp

lemma parse_uint_digits_valid:
  "n \<le> maximum \<Longrightarrow> parse_uint_digits maximum n s = (m, True) \<longleftrightarrow> list_all (in_range 48 57) s \<and> m = undecimal n s \<and> undecimal n s \<le> maximum"
proof (induction maximum n s rule: parse_uint_digits.induct)
  case (2 maximum n c cs)
  let ?n = "n * 10 + (of_char c - 48)"
  have "?n \<le> undecimal ?n cs" unfolding undecimal_acc [of ?n] using one_le_power [of 10 "length cs"] by (metis le_add1 le_trans mult.right_neutral mult_le_mono2 one_le_numeral)
  then show ?case using 2 by (auto simp: Let_def)
qed auto

lemma ParseUint_valid: "ParseUint s bits = (m, True) \<longleftrightarrow> s \<noteq> [] \<and> list_all (in_range 48 57) s \<and> m = undecimal 0 s \<and> undecimal 0 s < 2 ^ bits"
proof -
  have "k \<le> 2 ^ bits - 1 \<longleftrightarrow> k < 2 ^ bits" for k :: nat by (cases "2 ^ bits :: nat") (auto simp: less_Suc_eq_le)
  then show ?thesis using parse_uint_digits_valid [of 0 "2 ^ bits - 1" s m] by (simp add: ParseUint_def)
qed

text \<open>The arithmetic on words is that on natural numbers: nothing wraps around within the limits that are checked before.\<close>

lemma quota_no_overflow:
  assumes "whole \<le> 92233720368547" and "partial < 10 ^ 9"
  shows "unat (of_nat whole * cpuPeriod + of_nat partial * cpuPeriod div cpuScale) = whole * 100000 + partial * 100000 div 1000000000"
proof -
  have whole: "unat (of_nat whole * cpuPeriod) = whole * 100000" using assms(1) by (simp add: cpuPeriod_def unat_word_ariths unat_of_nat)
  have partial: "unat (of_nat partial * cpuPeriod div cpuScale) = partial * 100000 div 1000000000"
    using assms(2) by (simp add: cpuPeriod_def cpuScale_def unat_div_distrib unat_word_ariths unat_of_nat)
  have "partial * 100000 div 1000000000 < 100000" using assms(2) by (simp add: less_mult_imp_div_less)
  then show ?thesis using assms(1) unfolding unat_word_ariths(1) [of "of_nat whole * cpuPeriod"] whole partial by simp
qed

lemma quota_product:
  assumes "k \<le> 9"
  shows "(w * 10 ^ k + f) * 100000 div 10 ^ k = w * 100000 + f * 10 ^ (9 - k) * 100000 div (1000000000 :: nat)"
proof -
  have "(1000000000 :: nat) = 10 ^ k * 10 ^ (9 - k)" using assms by (simp flip: power_add)
  then have "f * 10 ^ (9 - k) * 100000 div 1000000000 = (f * 100000) * 10 ^ (9 - k) div (10 ^ k * 10 ^ (9 - k))" by (simp add: mult.commute mult.left_commute)
  also have "\<dots> = f * 100000 div 10 ^ k" by simp
  finally have "f * 10 ^ (9 - k) * 100000 div 1000000000 = f * 100000 div 10 ^ k" .
  moreover have "(w * 10 ^ k + f) * 100000 = f * 100000 + w * 100000 * 10 ^ k" by (simp add: algebra_simps)
  ultimately show ?thesis by (simp only: div_mult_self1 power_not_zero) simp
qed

definition cpu_digits :: "string \<Rightarrow> string \<Rightarrow> bool" where
  "cpu_digits integer fraction \<longleftrightarrow> integer \<noteq> [] \<and> list_all (in_range 48 57) (integer @ fraction) \<and> length fraction \<le> 9"

text \<open>How many units of the period a decimal number stands for, rounded down.\<close>

definition cpu_units :: "string \<Rightarrow> string \<Rightarrow> nat" where
  "cpu_units integer fraction = undecimal 0 (integer @ fraction) * 100000 div 10 ^ length fraction"

lemma cpu_units_split:
  assumes "length fraction \<le> 9"
  shows "cpu_units integer fraction = undecimal 0 integer * 100000 + undecimal 0 (fraction @ replicate (9 - length fraction) (CHR ''0'')) * 100000 div 1000000000"
proof -
  have zeros: "undecimal 0 (replicate n (CHR ''0'')) = 0" for n by (induction n) simp_all
  have "undecimal 0 (fraction @ replicate n (CHR ''0'')) = undecimal 0 fraction * 10 ^ n" for n
    unfolding undecimal_append by (subst undecimal_acc) (simp add: zeros)
  then show ?thesis using quota_product [OF assms, of "undecimal 0 integer" "undecimal 0 fraction"]
    by (simp add: cpu_units_def undecimal_append undecimal_acc [of "undecimal 0 integer"])
qed

lemma ParseUint_if: "ParseUint s bits =
    (if s \<noteq> [] \<and> list_all (in_range 48 57) s \<and> undecimal 0 s < 2 ^ bits then (undecimal 0 s, True) else (fst (ParseUint s bits), False))"
proof (cases "s \<noteq> [] \<and> list_all (in_range 48 57) s \<and> undecimal 0 s < 2 ^ bits")
  case True
  then have "ParseUint s bits = (undecimal 0 s, True)" by (simp add: ParseUint_valid)
  then show ?thesis using True by simp
next
  case False
  then have "\<not> snd (ParseUint s bits)" using ParseUint_valid [of s bits "fst (ParseUint s bits)"] by (metis prod.collapse)
  then show ?thesis using False by (cases "ParseUint s bits") auto
qed

lemma of_nat_word_less: "n < 2 ^ 64 \<Longrightarrow> m < 2 ^ 64 \<Longrightarrow> (of_nat n :: 64 word) < of_nat m \<longleftrightarrow> n < m"
  by (simp add: word_less_nat_alt unat_of_nat)

text \<open>The limit on the integer part, as the code computes it.\<close>

lemma cpu_limit: "(9223372036854775807 :: 64 word) div cpuPeriod = of_nat 92233720368547"
  by (rule word_unat_eq_iff [THEN iffD2]) (simp add: cpuPeriod_def unat_div_distrib)

lemma cpu_limit_less: "n < 2 ^ 64 \<Longrightarrow> of_nat n > (9223372036854775807 :: 64 word) div cpuPeriod \<longleftrightarrow> n > 92233720368547"
  unfolding cpu_limit using of_nat_word_less [of 92233720368547 n] by simp

lemma cpuQuota_if:
  assumes "v \<noteq> []" and "strings_Cut v (CHR ''.'') = (integer, fraction, found)"
  shows "cpuQuota v =
    (if cpu_digits integer fraction \<and> undecimal 0 integer \<le> 92233720368547
     then let quota = of_nat (cpu_units integer fraction) in if quota = 0 \<or> quota > 9223372036854775807 then (0, False) else (quota, True)
     else (0, False))"
proof (cases "integer \<noteq> [] \<and> length fraction \<le> 9 \<and> list_all (in_range 48 57) integer \<and> undecimal 0 integer \<le> 92233720368547")
  case True
  let ?w = "undecimal 0 integer" and ?padded = "fraction @ replicate (9 - length fraction) (CHR ''0'')"
  have head: "hd integer \<noteq> CHR ''+''" "hd integer \<noteq> CHR ''-''" using True by (cases integer; auto simp: in_range_def)+
  have whole: "ParseUint integer 63 = (?w, True)" "\<not> of_nat ?w > (9223372036854775807 :: 64 word) div cpuPeriod"
    using True by (simp_all add: ParseUint_valid cpu_limit_less)
  have digits: "list_all (in_range 48 57) ?padded = list_all (in_range 48 57) fraction" "?padded \<noteq> []" "length ?padded = 9"
    using True by (auto simp: list_all_iff in_range_def)
  show ?thesis
  proof (cases "list_all (in_range 48 57) fraction")
    case good: True
    then have small: "undecimal 0 ?padded < 10 ^ 9" using undecimal_less [of ?padded] digits by simp
    then have partial: "ParseUint ?padded 32 = (undecimal 0 ?padded, True)" using digits good by (simp add: ParseUint_valid)
    have "of_nat ?w * cpuPeriod + of_nat (undecimal 0 ?padded) * cpuPeriod div cpuScale = of_nat (cpu_units integer fraction)"
      using quota_no_overflow [OF _ small, of ?w] True cpu_units_split [of fraction integer] by (metis of_nat_unat ucast_id)
    then show ?thesis using assms True good head whole partial by (simp add: cpuQuota_def cpuPrecision_def cpu_digits_def Let_def)
  next
    case False
    then obtain partial where "ParseUint ?padded 32 = (partial, False)" using digits ParseUint_if [of ?padded 32] by (metis (no_types, lifting))
    then show ?thesis using assms True False head whole by (simp add: cpuQuota_def cpuPrecision_def cpu_digits_def)
  qed
next
  case False
  have "cpuQuota v = (0, False)"
  proof (cases "integer = [] \<or> length fraction > 9")
    case True
    then show ?thesis using assms by (auto simp: cpuQuota_def cpuPrecision_def)
  next
    case long: False
    have "\<not> snd (ParseUint integer 63) \<or> of_nat (fst (ParseUint integer 63)) > (9223372036854775807 :: 64 word) div cpuPeriod"
    proof (cases "list_all (in_range 48 57) integer \<and> undecimal 0 integer < 2 ^ 63")
      case True
      then have "ParseUint integer 63 = (undecimal 0 integer, True)" "undecimal 0 integer > 92233720368547" using False long by (simp_all add: ParseUint_valid)
      then show ?thesis using True by (simp add: cpu_limit_less)
    next
      case False
      then show ?thesis using ParseUint_if [of integer 63] by (metis snd_conv)
    qed
    then show ?thesis using assms by (cases "ParseUint integer 63") (auto simp: cpuQuota_def cpuPrecision_def)
  qed
  then show ?thesis using False by (auto simp: cpu_digits_def)
qed

text \<open>
  (C40) The CPU quota is exact. A decimal number of CPUs gets a quota exactly if it is digits with at most nine more after a point and its product with the period of 100000, rounded down, is
  positive and fits a signed 64-bit number; the quota is this product, although the code computes it from two parts in unsigned 64-bit arithmetic.
\<close>

theorem cpu_quota_is_exact:
  assumes "v \<noteq> []" and "strings_Cut v (CHR ''.'') = (integer, fraction, found)"
  shows "cpuQuota v = (q, True) \<longleftrightarrow>
    cpu_digits integer fraction \<and> 0 < cpu_units integer fraction \<and> cpu_units integer fraction < 2 ^ 63 \<and> q = of_nat (cpu_units integer fraction)"
proof (cases "cpu_digits integer fraction \<and> undecimal 0 integer \<le> 92233720368547")
  case True
  let ?u = "cpu_units integer fraction" and ?padded = "fraction @ replicate (9 - length fraction) (CHR ''0'')"
  have "length ?padded = 9" "list_all (in_range 48 57) ?padded" using True by (auto simp: cpu_digits_def list_all_iff in_range_def)
  then have "undecimal 0 ?padded < 10 ^ 9" using undecimal_less [of ?padded] by simp
  then have "undecimal 0 ?padded * 100000 div 1000000000 < 100000" by (simp add: less_mult_imp_div_less)
  moreover have "length fraction \<le> 9" "undecimal 0 integer \<le> 92233720368547" using True by (simp_all add: cpu_digits_def)
  ultimately have small: "?u < 2 ^ 64" using cpu_units_split [of fraction integer] by (simp del: undecimal.simps)
  then have "of_nat ?u = (0 :: 64 word) \<longleftrightarrow> ?u = 0" by (simp add: word_unat_eq_iff unat_of_nat)
  moreover have "of_nat ?u > (9223372036854775807 :: 64 word) \<longleftrightarrow> ?u \<ge> 2 ^ 63"
    using of_nat_word_less [OF _ small, of 9223372036854775807] by simp linarith
  ultimately show ?thesis using True unfolding cpuQuota_if [OF assms] by (auto simp: Let_def)
next
  case False
  then have "\<not> (cpu_digits integer fraction \<and> cpu_units integer fraction < 2 ^ 63)" using cpu_units_split [of fraction integer] by (auto simp: cpu_digits_def)
  then show ?thesis using False unfolding cpuQuota_if [OF assms] by auto
qed

theorem cpu_quota_is_exact_witness: "cpuQuota ''1.5'' = (150000, True)"
proof -
  have "strings_Cut ''1.5'' (CHR ''.'') = (''1'', ''5'', True)" by simp
  moreover have "cpu_digits ''1'' ''5''" "cpu_units ''1'' ''5'' = 150000" by (simp_all add: cpu_digits_def cpu_units_def in_range_def)
  ultimately show ?thesis using cpu_quota_is_exact [of "''1.5''" "''1''" "''5''" True 150000] by simp
qed

end
