(* ===== verification/ContainerdCodec.thy ===== *)
theory ContainerdCodec
  imports ContainerdCheck
begin

text \<open>
  Encoding and decoding of the containerd projection (\<open>encode.go\<close> and \<open>decode.go\<close> of \<open>src/containerconfig/containerd\<close>). Shown here: whatever is decoded encodes to exactly the
  same projection, an accepted specification is read back in canonical form, if its ulimit names survive the change to upper case and back, and the granted capabilities are exactly the requested ones.
\<close>

section \<open>Encoding (encode.go)\<close>

definition valueOrZero :: "bool option \<Rightarrow> bool" where
  "valueOrZero v = (v = Some True)"

definition append_slice :: "'a slice \<Rightarrow> 'a list \<Rightarrow> 'a slice" where
  "append_slice s xs = (if s = None \<and> xs = [] then None else Some (items s @ xs))"

definition encodedNamespaces :: "string \<Rightarrow> oci_LinuxNamespace slice" where
  "encodedNamespaces cgroup =
     Some ([PIDNamespace, IPCNamespace, UTSNamespace, MountNamespace, NetworkNamespace] @ (if cgroup = cgroupPrivate then [CgroupNamespace] else []))"

definition encodedResources :: "Spec \<Rightarrow> oci_LinuxResources" where
  "encodedResources spec =
     \<lparr>rs_Devices = Some [\<lparr>dc_Allow = False, dc_Access = ''rwm''\<rparr>],
      rs_Memory = (if MemoryBytes spec \<noteq> 0 \<or> OOMKillDisable spec \<noteq> None
        then Some \<lparr>me_Limit = (if MemoryBytes spec \<noteq> 0 then Some (MemoryBytes spec) else None), me_DisableOOMKiller = OOMKillDisable spec\<rparr> else None),
      rs_CPU = (if CPUs spec \<noteq> [] then Some \<lparr>cp_Period = Some cpuPeriod, cp_Quota = Some (fst (cpuQuota (CPUs spec)))\<rparr> else None),
      rs_Pids = map_option Some (PidsLimit spec),
      rs_BlockIO = map_option (\<lambda>weight. Some (ucast weight)) (BlkioWeight spec)\<rparr>"

definition hasMountTarget :: "Spec \<Rightarrow> string \<Rightarrow> bool" where
  "hasMountTarget spec target \<longleftrightarrow> list_ex (\<lambda>v. mt_Target v = target) (items (Mounts spec)) \<or> list_ex (\<lambda>v. tm_Target v = target) (items (Tmpfs spec))"

definition defaultMounts :: "oci_Mount list" where
  "defaultMounts =
     [\<lparr>om_Destination = ''/proc'', om_Type = ''proc'', om_Source = ''proc'', om_Options = Some [''nosuid'', ''noexec'', ''nodev'']\<rparr>,
      \<lparr>om_Destination = ''/dev'', om_Type = ''tmpfs'', om_Source = ''tmpfs'', om_Options = Some [''nosuid'', ''strictatime'', ''mode=755'', ''size=65536k'']\<rparr>,
      \<lparr>om_Destination = ''/dev/pts'', om_Type = ''devpts'', om_Source = ''devpts'',
        om_Options = Some [''nosuid'', ''noexec'', ''newinstance'', ''ptmxmode=0666'', ''mode=0620'', ''gid=5'']\<rparr>,
      \<lparr>om_Destination = ''/dev/mqueue'', om_Type = ''mqueue'', om_Source = ''mqueue'', om_Options = Some [''nosuid'', ''noexec'', ''nodev'']\<rparr>,
      \<lparr>om_Destination = ''/sys'', om_Type = ''sysfs'', om_Source = ''sysfs'', om_Options = Some [''nosuid'', ''noexec'', ''nodev'', ''ro'']\<rparr>,
      \<lparr>om_Destination = ''/run'', om_Type = ''tmpfs'', om_Source = ''tmpfs'', om_Options = Some [''nosuid'', ''strictatime'', ''mode=755'', ''size=65536k'']\<rparr>]"

definition defaultSharedMemorySize :: i64 where
  "defaultSharedMemorySize = 67108864"

definition bind_mount :: "Mount \<Rightarrow> oci_Mount" where
  "bind_mount mount = \<lparr>om_Destination = mt_Target mount, om_Type = ''bind'', om_Source = mt_Source mount,
     om_Options = Some [''rbind'', if mt_ReadOnly mount then ''ro'' else ''rw'', ''rprivate'']\<rparr>"

definition tmpfs_mount :: "TmpfsMount \<Rightarrow> oci_Mount" where
  "tmpfs_mount mount = \<lparr>om_Destination = tm_Target mount, om_Type = ''tmpfs'', om_Source = ''tmpfs'', om_Options = Some ([''nosuid'', ''nodev''] @ items (tm_Options mount))\<rparr>"

definition encodedMounts :: "Spec \<Rightarrow> oci_Mount slice" where
  "encodedMounts spec =
     Some (defaultMounts @ map bind_mount (filter (\<lambda>mount. mt_Kind mount = MountBind) (items (Mounts spec))) @ map tmpfs_mount (items (Tmpfs spec)) @
       (if hasMountTarget spec sharedMemoryMountPoint then []
        else [\<lparr>om_Destination = sharedMemoryMountPoint, om_Type = ''tmpfs'', om_Source = ''shm'',
               om_Options = Some [''nosuid'', ''noexec'', ''nodev'', ''mode=1777'',
                 ''size='' @ decimal_int (sint (if SharedMemoryBytes spec = 0 then defaultSharedMemorySize else SharedMemoryBytes spec))]\<rparr>]))"

definition defaultCapabilities :: "string list" where
  "defaultCapabilities =
     [''CAP_AUDIT_WRITE'', ''CAP_CHOWN'', ''CAP_DAC_OVERRIDE'', ''CAP_FOWNER'', ''CAP_FSETID'', ''CAP_KILL'', ''CAP_MKNOD'', ''CAP_NET_BIND_SERVICE'', ''CAP_NET_RAW'',
      ''CAP_SETFCAP'', ''CAP_SETGID'', ''CAP_SETPCAP'', ''CAP_SETUID'', ''CAP_SYS_CHROOT'']"

text \<open>The key set of a map is a list without repetitions; its order is lost in the final sort.\<close>

definition drop_capability :: "library \<Rightarrow> string \<Rightarrow> string list \<Rightarrow> string list" where
  "drop_capability l v names = (let name = capabilityName l v in if name = allCapabilities then [] else filter (\<lambda>n. n \<noteq> name) names)"

definition add_capability :: "library \<Rightarrow> string \<Rightarrow> string list \<Rightarrow> string list" where
  "add_capability l v names = (let name = capabilityName l v in if name \<in> set names then names else names @ [name])"

definition effectiveCapabilities :: "library \<Rightarrow> string slice \<Rightarrow> string slice \<Rightarrow> string list" where
  "effectiveCapabilities l added dropped = sort (fold (add_capability l) (items added) (fold (drop_capability l) (items dropped) defaultCapabilities))"

definition capabilitySets :: "string list \<Rightarrow> oci_LinuxCapabilities" where
  "capabilitySets values = \<lparr>lc_Bounding = Some values, lc_Effective = Some values, lc_Permitted = Some values\<rparr>"

definition parsedGroups :: "string slice \<Rightarrow> 32 word slice" where
  "parsedGroups values = map_option (map (\<lambda>v. of_nat (fst (ParseUint v 32)))) values"

definition ulimitValue :: "i64 \<Rightarrow> 64 word" where
  "ulimitValue v = (if v = -1 then 18446744073709551615 else v)"

definition encodedRlimits :: "library \<Rightarrow> Ulimit slice \<Rightarrow> oci_POSIXRlimit slice" where
  "encodedRlimits l values =
     map_option (map (\<lambda>v. \<lparr>rl_Type = ''RLIMIT_'' @ ToUpper l (ul_Name v), rl_Hard = ulimitValue (ul_Hard v), rl_Soft = ulimitValue (ul_Soft v)\<rparr>)) values"

definition encodeOCI :: "library \<Rightarrow> Spec \<Rightarrow> oci_Spec" where
  "encodeOCI l spec =
     (let workingDirectory = (if WorkingDirectory spec = [] then ''/'' else WorkingDirectory spec);
          user = (fst (parsedUser (User spec)))\<lparr>us_AdditionalGids := parsedGroups (GroupAdd spec)\<rparr>;
          capabilities = effectiveCapabilities l (CapAdd spec) (CapDrop spec);
          process = \<lparr>pr_Terminal = valueOrZero (TTY spec), pr_User = user, pr_Args = append_slice (Entrypoint spec) (items (Command spec)), pr_Env = Environment spec,
            pr_Cwd = workingDirectory, pr_Capabilities = Some (capabilitySets capabilities), pr_Rlimits = encodedRlimits l (Ulimits spec),
            pr_NoNewPrivileges = NoNewPrivileges spec, pr_OOMScoreAdj = OOMScoreAdj spec\<rparr>;
          linux = \<lparr>li_Sysctl = Sysctls spec, li_Resources = Some (encodedResources spec), li_Namespaces = encodedNamespaces (Cgroup spec),
            li_MaskedPaths = Some [''/proc/acpi'', ''/proc/asound'', ''/proc/kcore'', ''/proc/keys'', ''/proc/latency_stats'', ''/proc/sched_debug'', ''/proc/scsi'', ''/proc/timer_list'',
              ''/proc/timer_stats'', ''/sys/devices/virtual/powercap'', ''/sys/firmware''],
            li_ReadonlyPaths = Some [''/proc/bus'', ''/proc/fs'', ''/proc/irq'', ''/proc/sys'', ''/proc/sysrq-trigger'']\<rparr>
      in \<lparr>oc_Version = lb_Version l, oc_Process = Some process, oc_Root = Some \<lparr>rt_Path = ''rootfs'', rt_Readonly = valueOrZero (ReadOnly spec)\<rparr>,
          oc_Hostname = Hostname spec, oc_Mounts = encodedMounts spec, oc_Linux = Some linux, oc_Other = False\<rparr>)"

definition encodeControl :: "Spec \<Rightarrow> Control" where
  "encodeControl spec =
     \<lparr>ct_ServiceName = ServiceName spec, ct_ContainerName = ContainerName spec, ct_Platform = SpecPlatform spec,
      ct_EntrypointLength = int (length (items (Entrypoint spec))), ct_EntrypointDefined = (Entrypoint spec \<noteq> None), ct_CommandDefined = (Command spec \<noteq> None),
      ct_NetworkMode = NetworkMode spec, ct_CgroupParent = CgroupParent spec, ct_CPUs = CPUs spec, ct_Restart = Restart spec,
      ct_SharedMemoryBytes = SharedMemoryBytes spec, ct_StopSignal = StopSignal spec, ct_StopTimeout = StopTimeout spec, ct_User = User spec,
      ct_WorkingDirectory = WorkingDirectory spec, ct_CapAdd = CapAdd spec, ct_CapDrop = CapDrop spec, ct_DNS = DNS spec, ct_DNSOptions = DNSOptions spec,
      ct_DNSSearch = DNSSearch spec, ct_Devices = Devices spec, ct_ExtraHosts = ExtraHosts spec, ct_GroupAdd = GroupAdd spec, ct_Labels = Labels spec,
      ct_ExposedPorts = ExposedPorts spec, ct_Ports = Ports spec, ct_Tmpfs = Tmpfs spec, ct_Mounts = Mounts spec, ct_Init = Init spec, ct_StdinOpen = StdinOpen spec,
      ct_OOMKillDisable = OOMKillDisable spec, ct_ReadOnly = ReadOnly spec, ct_TTY = TTY spec, ct_Healthcheck = SpecHealthcheck spec\<rparr>"

definition Encode :: "library \<Rightarrow> Spec \<Rightarrow> ValidationError + Configuration" where
  "Encode l spec =
     (case canonicalSpec l spec of
        Inl err \<Rightarrow> Inl err
      | Inr canonical \<Rightarrow> Inr \<lparr>cf_OCI = encodeOCI l canonical, cf_Control = encodeControl canonical\<rparr>)"

definition Validate :: "library \<Rightarrow> Spec \<Rightarrow> ValidationError option" where
  "Validate l spec = (case Encode l spec of Inl err \<Rightarrow> Some err | Inr _ \<Rightarrow> None)"

section \<open>Decoding (decode.go)\<close>

definition decodedWeight :: "u16 option option \<Rightarrow> i64 option" where
  "decodedWeight v = (case v of None \<Rightarrow> None | Some weight \<Rightarrow> map_option ucast weight)"

definition decodedCgroup :: "oci_LinuxNamespace slice \<Rightarrow> string" where
  "decodedCgroup namespaces = (if list_ex (\<lambda>v. v = CgroupNamespace) (items namespaces) then cgroupPrivate else [])"

definition decodedMemory :: "oci_LinuxMemory option \<Rightarrow> i64" where
  "decodedMemory v = (case v of None \<Rightarrow> 0 | Some memory \<Rightarrow> (case me_Limit memory of None \<Rightarrow> 0 | Some limit \<Rightarrow> limit))"

definition decodedPids :: "i64 option option \<Rightarrow> i64 option" where
  "decodedPids v = (case v of None \<Rightarrow> None | Some limit \<Rightarrow> limit)"

definition decodedUlimit :: "64 word \<Rightarrow> i64" where
  "decodedUlimit v = (if v = 18446744073709551615 then -1 else if v > 9223372036854775807 then 9223372036854775808 else v)"

definition TrimPrefix :: "string \<Rightarrow> string \<Rightarrow> string" where
  "TrimPrefix s prefix = (case cutPrefix s prefix of None \<Rightarrow> s | Some rest \<Rightarrow> rest)"

definition decodedRlimits :: "library \<Rightarrow> oci_POSIXRlimit slice \<Rightarrow> Ulimit slice" where
  "decodedRlimits l values =
     map_option (map (\<lambda>v. \<lparr>ul_Name = ToLower l (TrimPrefix (rl_Type v) ''RLIMIT_''), ul_Soft = decodedUlimit (rl_Soft v), ul_Hard = decodedUlimit (rl_Hard v)\<rparr>)) values"

definition decodedSpec :: "library \<Rightarrow> Configuration \<Rightarrow> Spec option" where
  "decodedSpec l configuration =
     (let oci = cf_OCI configuration; control = cf_Control configuration
      in case (oc_Process oci, oc_Root oci, oc_Linux oci) of
        (Some process, Some root, Some linux) \<Rightarrow>
          if ct_EntrypointLength control < 0 \<or> ct_EntrypointLength control > int (length (items (pr_Args process))) then None
          else (case li_Resources linux of
            None \<Rightarrow> None
          | Some resources \<Rightarrow>
              let entrypoint = map_option (take (nat (ct_EntrypointLength control))) (pr_Args process);
                  command = map_option (drop (nat (ct_EntrypointLength control))) (pr_Args process)
              in Some \<lparr>ServiceName = ct_ServiceName control, ContainerName = ct_ContainerName control, SpecPlatform = ct_Platform control,
                Entrypoint = (if ct_EntrypointDefined control then entrypoint else None), Command = (if ct_CommandDefined control then command else None),
                NetworkMode = ct_NetworkMode control, BlkioWeight = decodedWeight (rs_BlockIO resources), CgroupParent = ct_CgroupParent control,
                Cgroup = decodedCgroup (li_Namespaces linux), CPUs = ct_CPUs control, Hostname = oc_Hostname oci, MemoryBytes = decodedMemory (rs_Memory resources),
                OOMScoreAdj = pr_OOMScoreAdj process, PidsLimit = decodedPids (rs_Pids resources), Restart = ct_Restart control,
                SharedMemoryBytes = ct_SharedMemoryBytes control, StopSignal = ct_StopSignal control, StopTimeout = ct_StopTimeout control, User = ct_User control,
                WorkingDirectory = ct_WorkingDirectory control, CapAdd = ct_CapAdd control, CapDrop = ct_CapDrop control, DNS = ct_DNS control,
                DNSOptions = ct_DNSOptions control, DNSSearch = ct_DNSSearch control, Devices = ct_Devices control, ExtraHosts = ct_ExtraHosts control,
                GroupAdd = ct_GroupAdd control, Sysctls = li_Sysctl linux, Tmpfs = ct_Tmpfs control, Ulimits = decodedRlimits l (pr_Rlimits process),
                Environment = pr_Env process, Labels = ct_Labels control, ExposedPorts = ct_ExposedPorts control, Ports = ct_Ports control,
                NoNewPrivileges = pr_NoNewPrivileges process, Mounts = ct_Mounts control, Init = ct_Init control, StdinOpen = ct_StdinOpen control,
                OOMKillDisable = ct_OOMKillDisable control, ReadOnly = ct_ReadOnly control, TTY = ct_TTY control, SpecHealthcheck = ct_Healthcheck control\<rparr>)
      | _ \<Rightarrow> None)"

definition Decode :: "library \<Rightarrow> Configuration \<Rightarrow> ValidationError + Spec" where
  "Decode l configuration =
     (case decodedSpec l configuration of
        None \<Rightarrow> Inl (validationError ValidationInvalidDocument [])
      | Some spec \<Rightarrow>
          (case canonicalSpec l spec of
             Inl err \<Rightarrow> Inl err
           | Inr canonical \<Rightarrow>
               if \<lparr>cf_OCI = encodeOCI l canonical, cf_Control = encodeControl canonical\<rparr> = configuration then Inr canonical
               else Inl (validationError ValidationInvalidDocument [])))"

section \<open>Round trips\<close>

text \<open>Names of ulimits that survive the change to upper case and back.\<close>

definition stable_name :: "library \<Rightarrow> string \<Rightarrow> bool" where
  "stable_name l name \<longleftrightarrow> ToLower l (ToUpper l name) = name"

lemma uint_nonneg: "0 \<le> sint x \<Longrightarrow> uint x = sint x" for x :: "64 word"
proof -
  assume "0 \<le> sint x"
  moreover have "sint x < 2 ^ 63" using sint_lt [of x] by simp
  moreover have "uint x = take_bit 64 (sint x)" using uint_bounded [of x] by (simp add: sint_uint take_bit_signed_take_bit take_bit_int_eq_self)
  ultimately show ?thesis by (simp add: take_bit_int_eq_self)
qed

lemma ulimit_round_trip: "-1 \<le> sint x \<Longrightarrow> decodedUlimit (ulimitValue x) = x"
proof (cases "x = -1")
  case False
  assume "-1 \<le> sint x"
  moreover have "sint x \<noteq> -1" using False by (metis sint_n1 signed_word_eqI)
  ultimately have "0 \<le> sint x" by simp
  then have "uint x < 2 ^ 63" using uint_nonneg [of x] sint_lt [of x] by simp
  then have "x \<le> 9223372036854775807" by (simp add: word_le_def)
  then show ?thesis using False by (auto simp: decodedUlimit_def ulimitValue_def dest: leD)
qed (simp add: decodedUlimit_def ulimitValue_def)

lemma weight_round_trip: "validOptionalRange v minimumBlkio maximumBlkio \<Longrightarrow> decodedWeight (map_option (\<lambda>weight. Some (ucast weight)) v) = v"
proof (cases v)
  case (Some weight)
  assume "validOptionalRange v minimumBlkio maximumBlkio"
  then have "0 \<le> sint weight" "sint weight < 2 ^ 16" using Some by (simp_all add: validOptionalRange_def minimumBlkio_def maximumBlkio_def)
  then have "uint weight < 2 ^ 16" using uint_nonneg [of weight] by simp
  then have "(ucast (ucast weight :: 16 word) :: 64 word) = weight" by (simp add: word_uint_eq_iff uint_up_ucast is_up unsigned_ucast_eq unsigned_take_bit_eq take_bit_int_eq_self)
  then show ?thesis using Some by (simp add: decodedWeight_def)
qed (simp add: decodedWeight_def)

lemma rlimits_round_trip:
  assumes "\<forall>u \<in> set (items ulimits). valid_ulimit u \<and> stable_name l (ul_Name u)"
  shows "decodedRlimits l (encodedRlimits l ulimits) = ulimits"
proof (cases ulimits)
  case (Some us)
  have "TrimPrefix (''RLIMIT_'' @ s) ''RLIMIT_'' = s" for s by (simp add: TrimPrefix_def cutPrefix_def)
  moreover have "decodedUlimit (ulimitValue (ul_Soft u)) = ul_Soft u" "decodedUlimit (ulimitValue (ul_Hard u)) = ul_Hard u" "stable_name l (ul_Name u)" if "u \<in> set us" for u
    using assms that Some by (auto simp: valid_ulimit_def intro!: ulimit_round_trip)
  ultimately show ?thesis using Some by (auto simp: decodedRlimits_def encodedRlimits_def stable_name_def o_def intro!: map_idI)
qed (simp add: decodedRlimits_def encodedRlimits_def)

lemma cgroup_round_trip: "c = [] \<or> c = cgroupPrivate \<Longrightarrow> decodedCgroup (encodedNamespaces c) = c"
  by (auto simp: decodedCgroup_def encodedNamespaces_def cgroupPrivate_def)

lemma arguments_round_trip:
  assumes "length (items e) + length (items c) \<noteq> 0"
  shows "(if e \<noteq> None then map_option (take (length (items e))) (append_slice e (items c)) else None) = e"
    and "(if c \<noteq> None then map_option (drop (length (items e))) (append_slice e (items c)) else None) = c"
  using assms by (cases e; cases c; auto simp: append_slice_def)+

lemma memory_round_trip: "decodedMemory (rs_Memory (encodedResources s)) = MemoryBytes s"
  by (simp add: decodedMemory_def encodedResources_def)

lemma pids_round_trip: "decodedPids (rs_Pids (encodedResources s)) = PidsLimit s"
  by (cases "PidsLimit s") (simp_all add: decodedPids_def encodedResources_def)

lemma first_failure_Cons: "first_failure ((path, valid) # checks) = None \<longleftrightarrow> valid \<and> first_failure checks = None"
  by simp

lemma valid_facts:
  assumes "first_failure (spec_checks l s) = None"
  shows "length (items (Entrypoint s)) + length (items (Command s)) \<noteq> 0" "validOptionalRange (BlkioWeight s) minimumBlkio maximumBlkio"
    "Cgroup s = [] \<or> Cgroup s = cgroupPrivate" "validUlimits (Ulimits s)" "validCapabilities l (CapAdd s) (CapDrop s)"
  using assms unfolding spec_checks_def first_failure_Cons by blast+

lemma decodedSpec_encoded:
  assumes "first_failure (spec_checks l s) = None" and "\<forall>u \<in> set (items (Ulimits s)). stable_name l (ul_Name u)"
  shows "decodedSpec l \<lparr>cf_OCI = encodeOCI l s, cf_Control = encodeControl s\<rparr> = Some s"
proof -
  note valid = valid_facts [OF assms(1)]
  have "decodedRlimits l (encodedRlimits l (Ulimits s)) = Ulimits s"
    using assms(2) valid(4) by (intro rlimits_round_trip) (simp add: validUlimits_def claim_keys_eq split: if_splits)
  moreover have "decodedWeight (rs_BlockIO (encodedResources s)) = BlkioWeight s" using weight_round_trip [OF valid(2)] by (simp add: encodedResources_def)
  moreover have "\<not> int (length (items (Entrypoint s))) > int (length (items (append_slice (Entrypoint s) (items (Command s)))))" by (simp add: append_slice_def)
  moreover note arguments_round_trip [OF valid(1)] cgroup_round_trip [OF valid(3)] memory_round_trip [of s] pids_round_trip [of s]
  ultimately show ?thesis
    by (simp add: decodedSpec_def encodeOCI_def encodeControl_def Let_def)
qed

definition stable_ulimits :: "library \<Rightarrow> Spec \<Rightarrow> bool" where
  "stable_ulimits l s \<longleftrightarrow> (\<forall>u \<in> set (items (Ulimits s)). stable_name l (ul_Name u))"

lemma canonicalSpec_value: "canonicalSpec l s = Inr t \<Longrightarrow> t = Canonical s"
  by (simp add: canonicalSpec_Inr)

lemma Encode_Inr:
  "Encode l s = Inr c \<longleftrightarrow> canonicalSpec l s = Inr (Canonical s) \<and> c = \<lparr>cf_OCI = encodeOCI l (Canonical s), cf_Control = encodeControl (Canonical s)\<rparr>"
  by (cases "canonicalSpec l s") (auto simp: Encode_def dest: canonicalSpec_value)

lemma Decode_Inr:
  "Decode l c = Inr t \<longleftrightarrow>
    (\<exists>s. decodedSpec l c = Some s \<and> t = Canonical s \<and> canonicalSpec l s = Inr (Canonical s) \<and> \<lparr>cf_OCI = encodeOCI l t, cf_Control = encodeControl t\<rparr> = c)"
proof (cases "decodedSpec l c")
  case (Some s)
  then show ?thesis by (cases "canonicalSpec l s") (auto simp: Decode_def dest: canonicalSpec_value)
qed (simp add: Decode_def)

text \<open>The contract of a codec whose values have a canonical form, and of which some are read back faithfully.\<close>

locale canonical_codec =
  fixes encode :: "'a \<Rightarrow> 'e + 'c" and decode :: "'c \<Rightarrow> 'e + 'a" and canonical :: "'a \<Rightarrow> 'a" and faithful :: "'a \<Rightarrow> bool"
  assumes encode_decoded: "decode c = Inr a \<Longrightarrow> encode a = Inr c \<and> canonical a = a"
    and decode_encoded: "encode a = Inr c \<Longrightarrow> faithful a \<Longrightarrow> decode c = Inr (canonical a)"
begin

lemma decode_separates: "decode c = Inr a \<Longrightarrow> decode d = Inr a \<Longrightarrow> c = d"
  using encode_decoded by (metis sum.inject(2))

lemma encode_separates: "encode a = Inr c \<Longrightarrow> encode b = Inr c \<Longrightarrow> faithful a \<Longrightarrow> faithful b \<Longrightarrow> canonical a = canonical b"
  using decode_encoded by (metis sum.inject(2))

end

interpretation containerd_codec: canonical_codec "Encode l" "Decode l" Canonical "stable_ulimits l" for l
proof
  fix t c assume "Decode l c = Inr t"
  then obtain s where s: "t = Canonical s" "canonicalSpec l s = Inr t" "c = \<lparr>cf_OCI = encodeOCI l t, cf_Control = encodeControl t\<rparr>" unfolding Decode_Inr by blast
  then show "Encode l t = Inr c \<and> Canonical t = t" unfolding Encode_Inr by (simp add: Canonical_idem canonicalSpec_Canonical)
next
  fix s c assume encoded: "Encode l s = Inr c" and stable: "stable_ulimits l s"
  let ?s = "Canonical s"
  have c: "c = \<lparr>cf_OCI = encodeOCI l ?s, cf_Control = encodeControl ?s\<rparr>" and canonical: "canonicalSpec l ?s = Inr ?s"
    using encoded unfolding Encode_Inr canonicalSpec_Canonical by blast+
  have "first_failure (spec_checks l ?s) = None" using canonical by (simp add: canonicalSpec_Inr)
  then have "decodedSpec l c = Some ?s" unfolding c by (rule decodedSpec_encoded) (use stable in \<open>simp add: stable_ulimits_def canonical_sets\<close>)
  then show "Decode l c = Inr ?s" unfolding Decode_Inr using canonical c by (intro exI [of _ ?s]) (simp add: Canonical_idem)
qed

section \<open>Properties\<close>

text \<open>
  (C23) The projection loses nothing. Whatever \<open>Decode\<close> accepts is a canonical specification that encodes to exactly the decoded projection, so a projection with a changed field is refused;
  an encoded specification whose ulimit names survive the change to upper case and back is decoded to its canonical form; and two such specifications with the same projection are equivalent.
\<close>

theorem containerd_projection_is_lossless:
  "(Decode l c = Inr t \<longrightarrow> Encode l t = Inr c \<and> Canonical t = t) \<and>
   (Encode l s = Inr c \<and> stable_ulimits l s \<longrightarrow> Decode l c = Inr (Canonical s)) \<and>
   (Encode l s = Inr c \<and> Encode l t = Inr c \<and> stable_ulimits l s \<and> stable_ulimits l t \<longrightarrow> Equivalent s t)"
  using containerd_codec.encode_decoded [of l c t] containerd_codec.decode_encoded [of l s c] containerd_codec.encode_separates [of l s c t] unfolding Equivalent_def by blast

lemma dropped_capabilities:
  "set (fold (drop_capability l) ds names) = {n \<in> set names. \<forall>d \<in> set ds. capabilityName l d \<noteq> n \<and> capabilityName l d \<noteq> allCapabilities}"
  "distinct names \<Longrightarrow> distinct (fold (drop_capability l) ds names)"
  by (induction ds arbitrary: names) (auto simp: drop_capability_def Let_def)

lemma added_capabilities:
  "set (fold (add_capability l) as names) = set names \<union> capabilityName l ` set as"
  "distinct names \<Longrightarrow> distinct (fold (add_capability l) as names)"
  by (induction as arbitrary: names) (auto simp: add_capability_def Let_def)

lemma default_capabilities: "distinct defaultCapabilities" "set defaultCapabilities \<subseteq> set supportedCapabilities"
  by (simp_all add: defaultCapabilities_def supportedCapabilities_def)

definition granted_set :: "library \<Rightarrow> Spec \<Rightarrow> string set" where
  "granted_set l s = capabilityName l ` set (items (CapAdd s)) \<union>
     {n \<in> set defaultCapabilities. \<forall>d \<in> set (items (CapDrop s)). capabilityName l d \<noteq> n \<and> capabilityName l d \<noteq> allCapabilities}"

lemma effective_granted: "set (effectiveCapabilities l (CapAdd s) (CapDrop s)) = granted_set l s"
  by (auto simp: effectiveCapabilities_def granted_set_def dropped_capabilities added_capabilities)

text \<open>
  (C24) A container gets exactly the capabilities it asks for. In every encoded projection the three capability sets of the process are one list, sorted and without repetitions, of
  capabilities that the program knows: those that are added, and of the default ones those that are dropped neither by name nor by \<open>ALL\<close>.
\<close>

theorem granted_capabilities_are_requested:
  assumes "Encode l s = Inr c"
  shows "\<exists>process caps. oc_Process (cf_OCI c) = Some process \<and>
    pr_Capabilities process = Some \<lparr>lc_Bounding = Some caps, lc_Effective = Some caps, lc_Permitted = Some caps\<rparr> \<and>
    sorted caps \<and> distinct caps \<and> set caps = granted_set l s \<and> set caps \<subseteq> set supportedCapabilities"
proof -
  let ?caps = "effectiveCapabilities l (CapAdd (Canonical s)) (CapDrop (Canonical s))"
  have "first_failure (spec_checks l s) = None" using assms by (simp add: Encode_Inr canonicalSpec_Inr)
  then have "\<forall>a \<in> set (items (CapAdd s)). valid_capability l False a"
    using valid_facts(5) unfolding validCapabilities_def claim_keys_valid by blast
  then have "granted_set l s \<subseteq> set supportedCapabilities" using default_capabilities(2) by (auto simp: granted_set_def valid_capability_def Let_def)
  moreover have "set ?caps = granted_set l s" unfolding effective_granted by (simp add: granted_set_def canonical_sets)
  moreover have "sorted ?caps" "distinct ?caps"
    by (simp_all add: effectiveCapabilities_def added_capabilities(2) dropped_capabilities(2) default_capabilities(1))
  ultimately show ?thesis using assms unfolding Encode_Inr by (simp add: encodeOCI_def capabilitySets_def Let_def)
qed

text \<open>The names that decoding yields for ASCII names are in lower case.\<close>

lemma lower_upper_ascii:
  assumes "ascii_text name"
  shows "ToLower l (ToUpper l name) = map (\<lambda>c. lower_char (upper_char c)) name"
proof -
  have "in_range 0 127 (upper_char c)" if "in_range 0 127 c" for c using that by (auto simp: upper_char_def in_range_def Let_def)
  then have "ascii_text (map upper_char name)" using assms by (simp add: ascii_text_def list_all_iff)
  then show ?thesis using assms by (simp add: ToUpper_def ToLower_def)
qed

lemma lower_char_not_upper: "in_range 0 127 c \<Longrightarrow> \<not> in_range 65 90 (lower_char c)"
  by (auto simp: lower_char_def in_range_def Let_def)

lemma decoded_ulimit_names:
  assumes "Encode l s = Inr c" and "Decode l c = Inr t"
  shows "ul_Name ` set (items (Ulimits t)) = (\<lambda>u. ToLower l (ToUpper l (ul_Name u))) ` set (items (Ulimits s))"
proof -
  obtain s' where s': "decodedSpec l c = Some s'" "t = Canonical s'" using assms(2) unfolding Decode_Inr by blast
  have "Ulimits s' = decodedRlimits l (encodedRlimits l (Ulimits (Canonical s)))"
    using s'(1) assms(1) by (auto simp: Encode_Inr decodedSpec_def encodeOCI_def Let_def split: if_splits)
  moreover have "TrimPrefix (''RLIMIT_'' @ name) ''RLIMIT_'' = name" for name by (simp add: TrimPrefix_def cutPrefix_def)
  ultimately have "ul_Name ` set (items (Ulimits s')) = (\<lambda>u. ToLower l (ToUpper l (ul_Name u))) ` set (items (Ulimits (Canonical s)))"
    by (cases "Ulimits (Canonical s)") (auto simp: decodedRlimits_def encodedRlimits_def image_image)
  then show ?thesis using s'(2) by (simp add: canonical_sets)
qed


section \<open>Examples\<close>

definition example_library :: library where
  "example_library = \<lparr>lb_upper = id, lb_lower = id, lb_ParseAddr = Some, lb_ParseDuration = (\<lambda>_. None), lb_Version = ''1.2.0''\<rparr>"

definition example_container :: "string \<Rightarrow> Spec" where
  "example_container limit = zero_spec\<lparr>ServiceName := ''web'', ContainerName := ''web'', SpecPlatform := \<lparr>pf_OS = ''linux'', pf_Architecture = ''amd64'', pf_Variant = []\<rparr>,
     NetworkMode := ''bridge'', Command := Some [''run''], CapDrop := Some [''all''], Ulimits := Some [\<lparr>ul_Name = limit, ul_Soft = 64, ul_Hard = -1\<rparr>]\<rparr>"

lemmas example_simps = example_container_def example_library_def zero_spec_def spec_checks_def validName_def validText_def maximumTextBytes_def contains_nul_def asciiAlphaNumeric_def
  in_range_def validPlatform_def validArguments_def validWorkingDirectory_def validUser_def parsedUser_def validOptionalRange_def validPids_def validRestart_def validStopTimeout_def
  validCapabilities_def valid_capability_def allCapabilities_def Let_def validTextValues_def validNumericGroups_def
  validEnvironment_def validLabels_def validStringMap_def validDNS_def validDevices_def validTmpfs_def validUlimits_def valid_ulimit_def validPorts_def validMounts_def
  validTargets_def targetPaths_def validHealthcheck_def cpuQuota_def

lemma example_texts: "capabilityName example_library ''all'' = ''ALL''" "stable_name example_library ''core''"
  by code_simp+

lemma example_accepted:
  assumes "limit = ''core'' \<or> limit = ''CORE''"
  shows "Encode example_library (example_container limit) =
    Inr \<lparr>cf_OCI = encodeOCI example_library (Canonical (example_container limit)), cf_Control = encodeControl (Canonical (example_container limit))\<rparr>"
proof -
  have "first_failure (spec_checks example_library (example_container limit)) = None" using assms example_texts(1) by (auto simp: example_simps)
  moreover have "snd (cpuQuota (CPUs (example_container limit)))" "Init (example_container limit) \<noteq> Some True" "SpecHealthcheck (example_container limit) = None"
    by (simp_all add: example_container_def zero_spec_def cpuQuota_def)
  ultimately have "canonicalSpec example_library (example_container limit) = Inr (Canonical (example_container limit))" by (simp add: canonicalSpec_Inr)
  then show ?thesis by (simp add: Encode_Inr)
qed

lemma example_ulimits: "items (Ulimits (example_container limit)) = [\<lparr>ul_Name = limit, ul_Soft = 64, ul_Hard = -1\<rparr>]"
  by (simp add: example_container_def)

theorem containerd_projection_is_lossless_witness:
  "\<exists>c. Encode example_library (example_container ''core'') = Inr c \<and> Decode example_library c = Inr (Canonical (example_container ''core''))"
proof -
  have "stable_ulimits example_library (example_container ''core'')"
    by (simp add: stable_ulimits_def example_ulimits example_texts)
  then show ?thesis using containerd_projection_is_lossless [of example_library _ _ "example_container ''core''"] example_accepted [of "''core''"] by blast
qed

theorem granted_capabilities_are_requested_witness:
  "\<exists>c process. Encode example_library (example_container ''core'') = Inr c \<and> oc_Process (cf_OCI c) = Some process \<and>
     pr_Capabilities process = Some \<lparr>lc_Bounding = Some [], lc_Effective = Some [], lc_Permitted = Some []\<rparr>"
proof -
  have "granted_set example_library (example_container ''core'') = {}"
    by (simp add: granted_set_def example_container_def zero_spec_def example_texts allCapabilities_def)
  then show ?thesis using granted_capabilities_are_requested [OF example_accepted [of "''core''"]] example_accepted [of "''core''"] by fastforce
qed


end
