(* ===== verification/Spec2Isabelle.thy ===== *)
theory Spec2Isabelle
  imports Interrupted PublishAtomic Dispatcher ContainerdCodec
begin

text \<open>
  A verification development for maniud, a program that keeps a container running as a Compose file asks for: it plans an operation, records every
  step in a journal before carrying it out, and after an interruption resumes or undoes what the journal shows.

  \<^bold>\<open>The program and its parts.\<close> A request enters the facade (\<open>src/internal/application/operation.go\<close>, \<open>snapshot.go\<close>, \<open>evidence.go\<close>). Planning
  (\<open>plan.go\<close>) loads the Compose project, resolves the image, observes the runtime, reads the journal and classifies the operation: bootstrap, adopt,
  unchanged, upgrade, resume, probe an unknown effect, or restore. A mutation (\<open>mutation.go\<close>) binds the plan to a service lock of the store and runs one
  journey (\<open>bootstrap.go\<close>, \<open>adopt.go\<close>, \<open>upgrade.go\<close>, \<open>restore.go\<close>). A journey is a sequence of effects; each effect (\<open>effect.go\<close>) is recorded as an
  action, marked as having an unknown outcome, carried out, probed and completed. The store (\<open>src/internal/store\<close>) keeps transactions, actions, applied
  services, writer leases and backup locators in five SQLite tables and fences every write by a lease. Digests of the domain values (\<open>src/internal/domain\<close>) identify
  workloads, images and storage. An upgrade with volumes goes through backups (\<open>src/internal/backup\<close>): archives are analysed, described by a manifest,
  and published if the file system has room. Events of the application go to the notification dispatcher (\<open>src/internal/notification\<close>), which never blocks it.

  \<^bold>\<open>Theories and sources.\<close> Each theory follows one group of source files and opens with its own summary.
  \<^item> \<open>Prelude\<close>: named collections and the lemmas on lists, strings, UTF-8 and words that the components share.
  \<^item> \<open>Codec\<close>: the byte encodings that are hashed (\<open>encoding/binary\<close> integers, counted strings). The locale \<open>field_code\<close> is the contract of an encoder:
    it appends, and the encoded field can be told apart from what follows; it is interpreted for every encoder of the program. Likewise \<open>key_order\<close> (\<open>ContainerSpec\<close>) is the contract of a comparison function,
    \<open>runtime_effect\<close> (\<open>Effect\<close>) that of an effect under the journal, and \<open>transaction_reader\<close> (\<open>Planning\<close>) that of the journal a plan reads.
  \<^item> \<open>ContainerSpec\<close> (\<open>src/containerconfig/spec.go\<close>, \<open>canonical.go\<close>), \<open>Domain\<close> (\<open>digest.go\<close>, \<open>image.go\<close>, \<open>ownership.go\<close>, \<open>workload_resolve.go\<close> and others),
    \<open>WorkloadDigest\<close> (\<open>workload_digest.go\<close>): resolution against image defaults does not depend on Go's map order, canonical forms decide equivalence, and
    digests identify what they hash, up to a collision that the statement exhibits.
  \<^item> \<open>StoreTypes\<close> (\<open>journal.go\<close>), \<open>StoreDb\<close> (\<open>schema.go\<close> and the SQL texts: tables as lists of rows, one definition per statement and constraint; the
    world with its oracle of failures), \<open>StoreLease\<close>
    (\<open>writer_lease_unix.go\<close>, \<open>writer_fence_unix.go\<close>, \<open>service_lock_unix.go\<close>), \<open>StoreJournal\<close> (\<open>journal_*_unix.go\<close>, \<open>applied_service_unix.go\<close>,
    \<open>backup_index*_unix.go\<close>), \<open>StoreReader\<close> (\<open>reader_unix.go\<close>, \<open>operation_lock_unix.go\<close>). \<open>StoreInvariant\<close> has the step relation \<open>store_step\<close> of committed
    transactions and the journal's invariant; \<open>StoreProperties\<close> shows that every writing program refines it and what each operation leaves behind.
  \<^item> \<open>AppTypes\<close>, \<open>AppWorld\<close> (the record \<open>ports\<close> of everything outside, and the world with its trace of calls), \<open>Effect\<close>, \<open>WorkloadEffects\<close>, \<open>Planning\<close>,
    \<open>Bootstrap\<close>, \<open>StorageEffects\<close>, \<open>Upgrade\<close>, \<open>Restore\<close>, \<open>Apply\<close>: the application, function by function.
  \<^item> \<open>WriteAhead\<close> (no mutating call without its journal entry), \<open>Host\<close> (a concrete runtime for the examples), \<open>ApplySteps\<close> (an apply as a client of the store),
    \<open>Prepared\<close> (what planning guarantees), \<open>Journeys\<close> (prefixes, fitting transitions, nothing repeated), \<open>Progress\<close> (an interrupted creation completes),
    \<open>Interrupted\<close> (interruptions from which the code does not recover).
  \<^item> \<open>Facade\<close>, \<open>Snapshot\<close>, \<open>Evidence\<close>: the boundary, with the resources a call holds, the stable snapshot and the bounded evidence.
  \<^item> \<open>JsonText\<close>, \<open>Json\<close>: \<open>encoding/json\<close> as far as it is used, and \<open>src/internal/jsonstrict\<close>. \<open>Manifest\<close>, \<open>Archive\<close>, \<open>ArchiveIdentity\<close>, \<open>Capacity\<close>:
    \<open>manifest.go\<close>, \<open>archive.go\<close>, \<open>capacity_unix.go\<close> and \<open>capacity_linux.go\<close> of \<open>src/internal/backup\<close>. \<open>BackupRoot\<close> (\<open>open_unix.go\<close> and \<open>filesystem_unix.go\<close>), \<open>Publish\<close>
    (\<open>publish_unix.go\<close>) and \<open>PublishAtomic\<close>: the backup root as a file system with the history of its states; a publication is atomic, survives a stop at any point, is read
    back as it was returned, and succeeds when nothing disturbs it.
  \<^item> \<open>Render\<close> (\<open>render.go\<close> and the message checks of \<open>sender.go\<close> in \<open>src/internal/notification\<close>), \<open>Dispatcher\<close> (\<open>dispatcher.go\<close>): what an event becomes, and
    the interleaving of publishers, target workers and a shutdown as a step relation, with its accounting and the end of its workers. Three fields of a target are
    histories that the code does not have.
  \<^item> \<open>Containerd\<close> (\<open>config.go\<close>), \<open>ContainerdCheck\<close> (\<open>validate.go\<close>), \<open>ContainerdCodec\<close> (\<open>encode.go\<close>, \<open>decode.go\<close>) for \<open>src/containerconfig/containerd\<close>: the specification as an
    OCI process and client settings. The locale \<open>canonical_codec\<close> is the contract of such a codec; the theorems give its round trips, the granted capabilities, the exact CPU quota, and a name that is lost.

  \<^bold>\<open>How state and effects are modelled.\<close> A store program is a state monad over the tables and an oracle: before each call of SQL, of the file system, of the clock
  or of the random source it reads one observation, which may be a failure. The theorems quantify over every oracle, hence over every
  pattern of failures and cancellations. The world of the application adds the state of the runtime, the trace of external calls and the
  events. The runtime, the image resolver, the Compose loader and the backup directory are the record \<open>ports\<close>, whose functions are arbitrary: no theorem assumes that the
  runtime answers truthfully, unless it says so. Go errors are values, and every early return is a branch. Deferred closes join their error as in
  the code.

  \<^bold>\<open>Decisions.\<close> The hash function is a parameter; where distinctness is needed the statement names the two byte strings that would collide. Interfaces that the code
  never lets be nil are not optional. \<open>context.WithoutCancel\<close> is over-approximated: the oracle may cancel there too. An enumeration value outside its
  constants behaves as the code's default branch. Times are integers in nanoseconds. File identities, pragmas and the schema text are observations. One
  apply runs as a single process in its world; other writers are covered by the theorems on interleavings of \<open>store_step\<close>, and the facade's readers may see any tables.
  Reading a local image into the runtime and preparing an empty bind directory are not counted among the mutating calls. JSON numbers stay text, with the check that they are finite; the nesting limit
  and the case folding of field names are those of \<open>encoding/json\<close>. The tar reader (\<open>archive/tar\<close>) and the Unicode alias of a path (\<open>golang.org/x/text\<close>) are parameters of
  \<open>Analyze\<close>. One process works on the backup root; identities, owners and permissions of its files are observations. Sizes and counts of 64 bits are integers with a range where it matters, and the capacity arithmetic is on 64-bit words.

  \<^bold>\<open>Bounds and fuel.\<close> Recursion over journals, headers and rows is structural. The JSON parser takes fuel, twice the length of the text and one more, which is shown to be enough
  (\<open>json_parse_fuel\<close>); the chain of parents of a path takes its length, likewise. The wait for a file lock is a recursion over the rounds that the environment
  offers; it is shown to end. After a shutdown a notification worker makes at most ninety-nine steps: three for each of the thirty-two queued notifications and for the one it holds. Snapshots try a fixed number of times, as in the code.

  \<^bold>\<open>Not modelled.\<close> Creating the store's files and schema is a sequence of file-system and SQLite calls around the modelled checks. Compose parsing
  (\<open>src/internal/compose\<close>) and the codecs of \<open>src/containerconfig\<close> for Compose, Docker, Podman and command lines rest on third-party types. The runtime plugins, the registry client, image archives and builds, the HTTP senders of notifications (of which the dispatcher assumes nothing) and the command
  line are input and output around the modelled core, which meets them through its ports.
\<close>

end
